(* ===== verification/Prelude.thy ===== *)
theory Prelude
  imports Main "HOL-Library.Word"
begin

text \<open>
  Prelude: what the component theories share. A state-and-exception type for code that
  mutates an object and may throw (the object keeps what was done before the throw), the
  overwrite of a segment of a buffer (the code's \<open>memcpy\<close>), chains of equally long blocks
  seen as one flat buffer, the wrap-around subtraction of \<open>size_t\<close>, the conversions to signed integers, and
  what is left of a text behind an offset.
\<close>

section \<open>Types\<close>

type_synonym byte = "8 word"

text \<open>
  \<open>('s, 'e, 'a) prog\<close> is a method body: it takes the object, and gives a value or an error
  together with the object as the body left it.
\<close>

type_synonym ('s, 'e, 'a) prog = "'s \<Rightarrow> ('e + 'a) \<times> 's"

named_theorems prog_simps "evaluation of method bodies"

definition preturn :: "'a \<Rightarrow> ('s, 'e, 'a) prog" where
  "preturn x s = (Inr x, s)"

definition pthrow :: "'e \<Rightarrow> ('s, 'e, 'a) prog" where
  "pthrow e s = (Inl e, s)"

definition pbind :: "('s, 'e, 'a) prog \<Rightarrow> ('a \<Rightarrow> ('s, 'e, 'b) prog) \<Rightarrow> ('s, 'e, 'b) prog" where
  "pbind m f s = (case m s of (Inl e, s') \<Rightarrow> (Inl e, s') | (Inr x, s') \<Rightarrow> f x s')"

definition pthen :: "('s, 'e, 'a) prog \<Rightarrow> ('s, 'e, 'b) prog \<Rightarrow> ('s, 'e, 'b) prog" where
  "pthen m n = pbind m (\<lambda>_. n)"

lemma preturn_apply [prog_simps]: "preturn x s = (Inr x, s)"
  by (simp add: preturn_def)

lemma pthrow_apply [prog_simps]: "pthrow e s = (Inl e, s)"
  by (simp add: pthrow_def)

lemma pbind_ok [prog_simps]: "m s = (Inr x, s') \<Longrightarrow> pbind m f s = f x s'"
  by (simp add: pbind_def)

lemma pbind_err [prog_simps]: "m s = (Inl e, s') \<Longrightarrow> pbind m f s = (Inl e, s')"
  by (simp add: pbind_def)

lemma pthen_ok [prog_simps]: "m s = (Inr x, s') \<Longrightarrow> pthen m n s = n s'"
  by (simp add: pthen_def pbind_def)

lemma pthen_err [prog_simps]: "m s = (Inl e, s') \<Longrightarrow> pthen m n s = (Inl e, s')"
  by (simp add: pthen_def pbind_def)

lemma pbind_assoc: "pbind (pbind m f) g = pbind m (\<lambda>x. pbind (f x) g)"
  by (rule ext) (simp add: pbind_def split: prod.splits sum.splits)

text \<open>Running a list of bodies one after the other.\<close>

fun pseq :: "('s, 'e, unit) prog list \<Rightarrow> ('s, 'e, unit) prog" where
  "pseq [] = preturn ()"
| "pseq (m # ms) = pthen m (pseq ms)"

section \<open>Unsigned 64-bit subtraction on naturals\<close>

text \<open>\<open>a - b\<close> of two \<open>size_t\<close> or \<open>uint64_t\<close> values below \<open>2 ^ 64\<close>.\<close>

definition sub64 :: "nat \<Rightarrow> nat \<Rightarrow> nat" where
  "sub64 a b = (if b \<le> a then a - b else a + 2 ^ 64 - b)"

lemma sub64_le [simp]: "b \<le> a \<Longrightarrow> sub64 a b = a - b"
  by (simp add: sub64_def)

section \<open>Signed integers\<close>

text \<open>Conversion to \<open>int\<close> and to \<open>int64_t\<close>.\<close>

definition int32 :: "int \<Rightarrow> int" where
  "int32 x = sint (word_of_int x :: 32 word)"

definition int64 :: "int \<Rightarrow> int" where
  "int64 x = sint (word_of_int x :: 64 word)"

lemma int32_id: "- (2 ^ 31) \<le> x \<Longrightarrow> x < 2 ^ 31 \<Longrightarrow> int32 x = x"
  unfolding int32_def by (simp add: signed_of_int signed_take_bit_int_eq_self)

lemma int64_id: "- (2 ^ 63) \<le> x \<Longrightarrow> x < 2 ^ 63 \<Longrightarrow> int64 x = x"
  unfolding int64_def by (simp add: signed_of_int signed_take_bit_int_eq_self)

section \<open>Overwriting a segment of a buffer\<close>

definition blit :: "'a list \<Rightarrow> nat \<Rightarrow> 'a list \<Rightarrow> 'a list" where
  "blit xs n ys = take n xs @ ys @ drop (n + length ys) xs"

named_theorems blit_simps "segment overwrites"

lemma length_blit [simp]: "n + length ys \<le> length xs \<Longrightarrow> length (blit xs n ys) = length xs"
  by (simp add: blit_def)

lemma blit_Nil [simp]: "blit xs n [] = xs"
  by (simp add: blit_def)

lemma blit_blit_append [blit_simps]:
  assumes "n + length ys + length zs \<le> length xs"
  shows "blit (blit xs n ys) (n + length ys) zs = blit xs n (ys @ zs)"
  using assms by (simp add: blit_def ac_simps)

lemma take_blit_before [blit_simps]:
  "k \<le> n \<Longrightarrow> n \<le> length xs \<Longrightarrow> take k (blit xs n ys) = take k xs"
  by (simp add: blit_def min_def)

lemma take_drop_blit [blit_simps]:
  "n \<le> length xs \<Longrightarrow> take (length ys) (drop n (blit xs n ys)) = ys"
  by (simp add: blit_def)

lemma take_blit_upto [blit_simps]:
  "n \<le> length xs \<Longrightarrow> take (n + length ys) (blit xs n ys) = take n xs @ ys"
  by (simp add: blit_def)

lemma drop_blit_after [blit_simps]:
  "n + length ys \<le> k \<Longrightarrow> n + length ys \<le> length xs \<Longrightarrow> drop k (blit xs n ys) = drop k xs"
  by (simp add: blit_def)

lemma blit_append_left [blit_simps]:
  "n + length ys \<le> length xs \<Longrightarrow> blit (xs @ zs) n ys = blit xs n ys @ zs"
  by (simp add: blit_def)

lemma blit_append_right [blit_simps]:
  "length xs \<le> n \<Longrightarrow> blit (xs @ zs) n ys = xs @ blit zs (n - length xs) ys"
  by (simp add: blit_def)

section \<open>Chains of equally long blocks\<close>

definition uniform :: "nat \<Rightarrow> 'a list list \<Rightarrow> bool" where
  "uniform b xss \<longleftrightarrow> (\<forall>xs\<in>set xss. length xs = b)"

lemma uniform_simps [simp]:
  "uniform b []"
  "uniform b (xs # xss) \<longleftrightarrow> length xs = b \<and> uniform b xss"
  "uniform b (xss @ yss) \<longleftrightarrow> uniform b xss \<and> uniform b yss"
  by (auto simp: uniform_def)

lemma uniform_nth: "uniform b xss \<Longrightarrow> i < length xss \<Longrightarrow> length (xss ! i) = b"
  by (simp add: uniform_def)

lemma uniform_update: "uniform b xss \<Longrightarrow> length ys = b \<Longrightarrow> uniform b (xss[i := ys])"
  by (auto simp: uniform_def dest: set_update_subset_insert [THEN subsetD])

lemma length_concat_uniform: "uniform b xss \<Longrightarrow> length (concat xss) = b * length xss"
  by (induction xss) auto

lemma drop_concat_uniform:
  "uniform b xss \<Longrightarrow> i \<le> length xss \<Longrightarrow> drop (i * b) (concat xss) = concat (drop i xss)"
proof (induction xss arbitrary: i)
  case Nil
  then show ?case by simp
next
  case (Cons xs xss)
  then show ?case by (cases i) auto
qed

lemma concat_update_blit:
  "uniform b xss \<Longrightarrow> i < length xss \<Longrightarrow> n + length ys \<le> b \<Longrightarrow>
    concat (xss[i := blit (xss ! i) n ys]) = blit (concat xss) (i * b + n) ys"
proof (induction xss arbitrary: i)
  case Nil
  then show ?case by simp
next
  case (Cons xs xss)
  show ?case
  proof (cases i)
    case 0
    with Cons.prems show ?thesis by (simp add: blit_append_left)
  next
    case (Suc j)
    have "length xs \<le> b + j * b + n" using Cons.prems by simp
    with Suc Cons show ?thesis by (simp add: blit_append_right add.assoc)
  qed
qed

lemma take_drop_block:
  assumes "uniform b xss" "i < length xss" "n + k \<le> b"
  shows "take k (drop n (xss ! i)) = take k (drop (i * b + n) (concat xss))"
proof -
  have "drop (i * b + n) (concat xss) = drop n (concat (drop i xss))"
    using assms by (simp add: drop_concat_uniform add.commute flip: drop_drop)
  also have "concat (drop i xss) = xss ! i @ concat (drop (Suc i) xss)"
    using assms(2) by (simp flip: Cons_nth_drop_Suc)
  finally show ?thesis
    using assms uniform_nth [OF assms(1,2)] by simp
qed

lemma mod_block_bound: "0 < (b::nat) \<Longrightarrow> p mod b + (b - p mod b) = b"
  by (simp add: less_imp_le)

section \<open>Sums over a list\<close>

text \<open>Changing one element of a list changes a sum over it by that element's share.\<close>

lemma sum_list_map_update:
  fixes h :: "'a \<Rightarrow> 'b::comm_monoid_add"
  shows "i < length xs \<Longrightarrow>
    sum_list (map h (xs[i := x])) + h (xs ! i) = sum_list (map h xs) + h x"
proof (induction xs arbitrary: i)
  case (Cons y ys)
  then show ?case by (cases i) (simp_all add: ac_simps)
qed simp

section \<open>Walking through a text\<close>

lemma drop_Suc_eq: "drop p buf = c # rest \<Longrightarrow> drop (Suc p) buf = rest"
  by (metis drop_Suc list.sel(3) tl_drop)

lemma drop_append_eq: "drop p buf = xs @ rest \<Longrightarrow> drop (p + length xs) buf = rest"
  by (metis add.commute append_eq_conv_conj drop_drop)

lemma drop_nth: "drop p buf = c # rest \<Longrightarrow> p < length buf \<and> buf ! p = c"
  by (metis drop_eq_Nil hd_drop_conv_nth leI list.distinct(1) list.sel(1))

end
