(* ===== verification/Util.thy ===== *)
theory Util
  imports Prelude
begin

text \<open>
  The string helpers of \<open>src/util.cc\<close> the HTTP code relies on: percent encoding and decoding with
  the two 256-entry tables of the source, and the three \<open>Trim\<close> functions with the searches of
  \<open>std::string\<close> they call. A \<open>std::string\<close> is a \<open>string\<close> (it may hold NUL); the code's \<open>std::string*\<close>
  that stays null until the first character that changes is an \<open>option\<close>.
\<close>

unbundle bit_operations_syntax

section \<open>Tables\<close>

definition uri_chars :: "nat list" where
  "uri_chars =
    [0, 0, 0, 0, 0, 0, 0, 0,   0, 0, 0, 0, 0, 0, 0, 0,
     0, 0, 0, 0, 0, 0, 0, 0,   0, 0, 0, 0, 0, 0, 0, 0,
     0, 0, 0, 0, 0, 0, 0, 0,   0, 0, 0, 0, 0, 1, 1, 0,
     1, 1, 1, 1, 1, 1, 1, 1,   1, 1, 0, 0, 0, 1, 0, 0,
     0, 1, 1, 1, 1, 1, 1, 1,   1, 1, 1, 1, 1, 1, 1, 1,
     1, 1, 1, 1, 1, 1, 1, 1,   1, 1, 1, 0, 0, 0, 0, 1,
     0, 1, 1, 1, 1, 1, 1, 1,   1, 1, 1, 1, 1, 1, 1, 1,
     1, 1, 1, 1, 1, 1, 1, 1,   1, 1, 1, 0, 0, 0, 1, 0,
     0, 0, 0, 0, 0, 0, 0, 0,   0, 0, 0, 0, 0, 0, 0, 0,
     0, 0, 0, 0, 0, 0, 0, 0,   0, 0, 0, 0, 0, 0, 0, 0,
     0, 0, 0, 0, 0, 0, 0, 0,   0, 0, 0, 0, 0, 0, 0, 0,
     0, 0, 0, 0, 0, 0, 0, 0,   0, 0, 0, 0, 0, 0, 0, 0,
     0, 0, 0, 0, 0, 0, 0, 0,   0, 0, 0, 0, 0, 0, 0, 0,
     0, 0, 0, 0, 0, 0, 0, 0,   0, 0, 0, 0, 0, 0, 0, 0,
     0, 0, 0, 0, 0, 0, 0, 0,   0, 0, 0, 0, 0, 0, 0, 0,
     0, 0, 0, 0, 0, 0, 0, 0,   0, 0, 0, 0, 0, 0, 0, 0]"

definition xdigit_chars :: "nat list" where
  "xdigit_chars =
    [0,0,0,0,0,0,0,0,0,0,0,0,0,0,0,0,
     0,0,0,0,0,0,0,0,0,0,0,0,0,0,0,0,
     0,0,0,0,0,0,0,0,0,0,0,0,0,0,0,0,
     0,1,2,3,4,5,6,7,8,9,0,0,0,0,0,0,
     0,10,11,12,13,14,15,0,0,0,0,0,0,0,0,0,
     0,0,0,0,0,0,0,0,0,0,0,0,0,0,0,0,
     0,10,11,12,13,14,15,0,0,0,0,0,0,0,0,0,
     0,0,0,0,0,0,0,0,0,0,0,0,0,0,0,0,
     0,0,0,0,0,0,0,0,0,0,0,0,0,0,0,0,
     0,0,0,0,0,0,0,0,0,0,0,0,0,0,0,0,
     0,0,0,0,0,0,0,0,0,0,0,0,0,0,0,0,
     0,0,0,0,0,0,0,0,0,0,0,0,0,0,0,0,
     0,0,0,0,0,0,0,0,0,0,0,0,0,0,0,0,
     0,0,0,0,0,0,0,0,0,0,0,0,0,0,0,0,
     0,0,0,0,0,0,0,0,0,0,0,0,0,0,0,0,
     0,0,0,0,0,0,0,0,0,0,0,0,0,0,0,0]"

definition hexdigits :: string where
  "hexdigits = ''0123456789ABCDEF''"

definition CHAR_IS_UNRESERVED :: "char \<Rightarrow> bool" where
  "CHAR_IS_UNRESERVED c \<longleftrightarrow> uri_chars ! of_char c \<noteq> 0"

text \<open>\<open>isxdigit\<close> of the C locale.\<close>

definition isxdigit :: "char \<Rightarrow> bool" where
  "isxdigit c = (let n = of_char c :: nat in
     48 \<le> n \<and> n \<le> 57 \<or> 65 \<le> n \<and> n \<le> 70 \<or> 97 \<le> n \<and> n \<le> 102)"

section \<open>Percent encoding\<close>

text \<open>The loop over \<open>c\<close>: \<open>pre\<close> is the text already passed, \<open>ss\<close> the copy once there is one.\<close>

fun UrlEncode_loop :: "bool \<Rightarrow> string \<Rightarrow> string \<Rightarrow> string option \<Rightarrow> string option" where
  "UrlEncode_loop sp pre [] ss = ss"
| "UrlEncode_loop sp pre (c # cs) ss =
     UrlEncode_loop sp (pre @ [c]) cs
       (if \<not> CHAR_IS_UNRESERVED c then
          let s = (case ss of None \<Rightarrow> pre | Some s \<Rightarrow> s)
          in if c = CHR '' '' \<and> sp then Some (s @ ''+'')
             else Some (s @ ''%'' @ [hexdigits ! drop_bit 4 (of_char c)]
                          @ [hexdigits ! (of_char c AND 15)])
        else case ss of None \<Rightarrow> None | Some s \<Rightarrow> Some (s @ [c]))"

definition UrlEncode :: "string \<Rightarrow> bool \<Rightarrow> string" where
  "UrlEncode str sp = (case UrlEncode_loop sp [] str None of None \<Rightarrow> str | Some rt \<Rightarrow> rt)"

text \<open>\<open>c + 2 < end\<close> holds when at least two characters follow.\<close>

fun UrlDecode_loop :: "bool \<Rightarrow> string \<Rightarrow> string \<Rightarrow> string option \<Rightarrow> string option" where
  "UrlDecode_loop sp pre [] ss = ss"
| "UrlDecode_loop sp pre (c # cs) ss =
     (let s = (case ss of None \<Rightarrow> pre | Some s \<Rightarrow> s)
      in if c = CHR ''+'' \<and> sp then
           UrlDecode_loop sp (pre @ [c]) cs (Some (s @ '' ''))
         else if c = CHR ''%'' \<and> 2 \<le> length cs \<and> isxdigit (cs ! 0) \<and> isxdigit (cs ! 1) then
           UrlDecode_loop sp (pre @ c # take 2 cs) (drop 2 cs)
             (Some (s @ [char_of (push_bit 4 (xdigit_chars ! of_char (cs ! 0))
                                   OR xdigit_chars ! of_char (cs ! 1))]))
         else
           UrlDecode_loop sp (pre @ [c]) cs
             (case ss of None \<Rightarrow> None | Some s \<Rightarrow> Some (s @ [c])))"

definition UrlDecode :: "string \<Rightarrow> bool \<Rightarrow> string" where
  "UrlDecode str sp = (case UrlDecode_loop sp [] str None of None \<Rightarrow> str | Some rt \<Rightarrow> rt)"

section \<open>Trimming\<close>

text \<open>\<open>find_first_not_of\<close> and \<open>find_last_not_of\<close>; \<open>npos\<close> is \<open>None\<close>.\<close>

fun find_first_not_of :: "string \<Rightarrow> string \<Rightarrow> nat option" where
  "find_first_not_of [] d = None"
| "find_first_not_of (c # cs) d =
     (if c \<in> set d then map_option Suc (find_first_not_of cs d) else Some 0)"

fun find_last_not_of :: "string \<Rightarrow> string \<Rightarrow> nat option" where
  "find_last_not_of [] d = None"
| "find_last_not_of (c # cs) d =
     (case find_last_not_of cs d of
        Some n \<Rightarrow> Some (Suc n)
      | None \<Rightarrow> if c \<in> set d then None else Some 0)"

definition substr :: "string \<Rightarrow> nat \<Rightarrow> nat \<Rightarrow> string" where
  "substr s pos n = take n (drop pos s)"

text \<open>The default argument \<open>delimit = " \t\r\n"\<close>.\<close>

definition trim_delimit :: string where
  "trim_delimit = [CHR '' '', CHR 0x09, CHR 0x0D, CHR 0x0A]"

definition Trim :: "string \<Rightarrow> string \<Rightarrow> string" where
  "Trim str delimit =
     (case find_first_not_of str delimit of
        None \<Rightarrow> []
      | Some begin_pos \<Rightarrow>
          (case find_last_not_of str delimit of
             None \<Rightarrow> []
           | Some end_pos \<Rightarrow> substr str begin_pos (end_pos - begin_pos + 1)))"

definition TrimLeft :: "string \<Rightarrow> string \<Rightarrow> string" where
  "TrimLeft str delimit =
     (case find_first_not_of str delimit of None \<Rightarrow> [] | Some begin_pos \<Rightarrow> drop begin_pos str)"

definition TrimRight :: "string \<Rightarrow> string \<Rightarrow> string" where
  "TrimRight str delimit =
     (case find_last_not_of str delimit of None \<Rightarrow> [] | Some end_pos \<Rightarrow> substr str 0 end_pos)"

section \<open>Reference functions\<close>

text \<open>What one character is encoded to, and the decoder without the null-until-needed copy.\<close>

definition enc1 :: "bool \<Rightarrow> char \<Rightarrow> string" where
  "enc1 sp c =
     (if CHAR_IS_UNRESERVED c then [c]
      else if c = CHR '' '' \<and> sp then ''+''
      else [CHR ''%'', hexdigits ! drop_bit 4 (of_char c), hexdigits ! (of_char c AND 15)])"

fun url_dec :: "bool \<Rightarrow> string \<Rightarrow> string" where
  "url_dec sp [] = []"
| "url_dec sp (c # cs) =
     (if c = CHR ''+'' \<and> sp then CHR '' '' # url_dec sp cs
      else if c = CHR ''%'' \<and> 2 \<le> length cs \<and> isxdigit (cs ! 0) \<and> isxdigit (cs ! 1) then
        char_of (push_bit 4 (xdigit_chars ! of_char (cs ! 0)) OR xdigit_chars ! of_char (cs ! 1))
          # url_dec sp (drop 2 cs)
      else c # url_dec sp cs)"

lemma UrlEncode_loop_Some:
  "UrlEncode_loop sp pre cs (Some s) = Some (s @ concat (map (enc1 sp) cs))"
  by (induction cs arbitrary: pre s) (auto simp: enc1_def Let_def)

lemma UrlEncode_loop_None:
  "UrlEncode_loop sp pre cs None =
     (if list_all CHAR_IS_UNRESERVED cs then None else Some (pre @ concat (map (enc1 sp) cs)))"
  by (induction cs arbitrary: pre) (auto simp: enc1_def Let_def UrlEncode_loop_Some)

lemma enc1_unreserved:
  "list_all CHAR_IS_UNRESERVED cs \<Longrightarrow> concat (map (enc1 sp) cs) = cs"
  by (induction cs) (auto simp: enc1_def)

lemma UrlEncode_concat: "UrlEncode s sp = concat (map (enc1 sp) s)"
  by (simp add: UrlEncode_def UrlEncode_loop_None enc1_unreserved)

lemma UrlDecode_loop_Some:
  "UrlDecode_loop sp pre cs (Some s) = Some (s @ url_dec sp cs)"
proof (induction cs arbitrary: pre s rule: length_induct)
  case (1 cs)
  then show ?case by (cases cs) (auto simp: Let_def)
qed

lemma UrlDecode_loop_None:
  "(case UrlDecode_loop sp pre cs None of None \<Rightarrow> pre @ cs | Some rt \<Rightarrow> rt) = pre @ url_dec sp cs"
proof (induction cs arbitrary: pre)
  case (Cons c cs)
  have "pre @ c # cs = (pre @ [c]) @ cs" "pre @ c # url_dec sp cs = (pre @ [c]) @ url_dec sp cs"
    by simp_all
  then have "(case UrlDecode_loop sp (pre @ [c]) cs None of None \<Rightarrow> pre @ c # cs | Some rt \<Rightarrow> rt)
      = pre @ c # url_dec sp cs"
    using Cons [of "pre @ [c]"] by metis
  then show ?case by (auto simp: Let_def UrlDecode_loop_Some)
qed simp

lemma UrlDecode_dec: "UrlDecode s sp = url_dec sp s"
  using UrlDecode_loop_None [where sp = sp and pre = "[]" and cs = s]
  by (simp only: UrlDecode_def append.simps)

section \<open>Encoding and decoding\<close>
lemma hexdigits_props:
  assumes "n < 16"
  shows "isxdigit (hexdigits ! n)" "xdigit_chars ! of_char (hexdigits ! n) = n"
    "CHAR_IS_UNRESERVED (hexdigits ! n)"
proof -
  have all: "list_all (\<lambda>n. isxdigit (hexdigits ! n) \<and> xdigit_chars ! of_char (hexdigits ! n) = n
      \<and> CHAR_IS_UNRESERVED (hexdigits ! n)) [0..<16]"
    by code_simp
  have "n \<in> set [0..<16]" using assms by simp
  from all [unfolded list_all_iff, rule_format, OF this]
  show "isxdigit (hexdigits ! n)" "xdigit_chars ! of_char (hexdigits ! n) = n"
    "CHAR_IS_UNRESERVED (hexdigits ! n)" by simp_all
qed

lemma reserved_specials [simp]:
  "\<not> CHAR_IS_UNRESERVED (CHR ''%'')" "\<not> CHAR_IS_UNRESERVED (CHR ''+'')"
  "\<not> CHAR_IS_UNRESERVED (CHR '' '')"
  by code_simp+

lemma nibbles:
  "char_of (push_bit 4 (drop_bit 4 (of_char c)) OR (of_char c AND 15 :: nat)) = c"
proof -
  have "push_bit 4 (drop_bit 4 (of_char c)) OR (of_char c AND 15 :: nat) = of_char c"
  proof (rule bit_eqI)
    fix n
    have "bit (15::nat) n \<longleftrightarrow> n < 4"
      using bit_mask_iff [of 4 n, where 'a = nat] by (simp add: mask_eq_exp_minus_1)
    then show "bit (push_bit 4 (drop_bit 4 (of_char c)) OR (of_char c AND 15 :: nat)) n
        \<longleftrightarrow> bit (of_char c :: nat) n"
      by (auto simp: bit_simps)
  qed
  then show ?thesis by simp
qed

lemma enc1_not_nil: "enc1 sp c \<noteq> []"
  by (simp add: enc1_def)

text \<open>Decoding one encoded character, whatever follows it.\<close>

definition reread :: "bool \<Rightarrow> bool \<Rightarrow> char \<Rightarrow> char" where
  "reread sp sp' c = (if sp \<and> \<not> sp' \<and> c = CHR '' '' then CHR ''+'' else c)"

lemma nibble_bounds: "drop_bit 4 (of_char c :: nat) < 16" "(of_char c AND 15 :: nat) < 16"
proof -
  have "(of_char c :: nat) < 256"  by (rule nat_of_char_less_256)
  then show "drop_bit 4 (of_char c :: nat) < 16"
    by (simp add: drop_bit_eq_div div_less_iff_less_mult)
  have "(of_char c AND 15 :: nat) = of_char c mod 16"
    using and_exp_eq_0_iff_not_bit take_bit_eq_mask [of 4 "of_char c :: nat"]
    by (simp add: mask_eq_exp_minus_1 take_bit_eq_mod)
  then show "(of_char c AND 15 :: nat) < 16" by simp
qed

lemma url_dec_enc1: "url_dec sp' (enc1 sp c @ rest) = reread sp sp' c # url_dec sp' rest"
proof (cases "CHAR_IS_UNRESERVED c")
  case True
  then have "c \<noteq> CHR ''%''" "c \<noteq> CHR ''+''" "c \<noteq> CHR '' ''" by auto
  then show ?thesis using True by (simp add: enc1_def reread_def)
next
  case False
  show ?thesis
  proof (cases "c = CHR '' '' \<and> sp")
    case True
    then show ?thesis using False by (simp add: enc1_def reread_def)
  next
    case hex: False
    then show ?thesis using False
      by (auto simp: enc1_def reread_def hexdigits_props nibble_bounds nibbles)
  qed
qed

lemma url_dec_enc: "url_dec sp' (concat (map (enc1 sp) s)) = map (reread sp sp') s"
  by (induction s) (simp_all add: url_dec_enc1)

text \<open>
  C15. Percent encoding is a round trip: \<open>UrlDecode(UrlEncode(s))\<close> gives back every string, byte
  for byte, whenever the two sides agree on \<open>space_as_plus\<close>, and also when only the decoder has it
  set; when only the encoder has it set, exactly the blanks come back as plus signs.
\<close>

theorem url_roundtrip:
  "UrlDecode (UrlEncode s sp) sp' =
     (if sp \<and> \<not> sp' then map (\<lambda>c. if c = CHR '' '' then CHR ''+'' else c) s else s)"
proof -
  have "reread sp sp' = (if sp \<and> \<not> sp' then (\<lambda>c. if c = CHR '' '' then CHR ''+'' else c) else id)"
    by (rule ext) (simp add: reread_def)
  then show ?thesis by (simp add: UrlDecode_dec UrlEncode_concat url_dec_enc)
qed

lemma enc1_chars:
  "ch \<in> set (enc1 sp c) \<Longrightarrow> CHAR_IS_UNRESERVED ch \<or> ch = CHR ''%'' \<or> ch = CHR ''+''"
  by (auto simp: enc1_def hexdigits_props nibble_bounds split: if_splits)

lemma UrlEncode_chars:
  "ch \<in> set (UrlEncode s sp) \<Longrightarrow> CHAR_IS_UNRESERVED ch \<or> ch = CHR ''%'' \<or> ch = CHR ''+''"
  using enc1_chars by (auto simp: UrlEncode_concat)

section \<open>Trimming\<close>

lemma find_first_not_of_drop:
  "(case find_first_not_of s d of None \<Rightarrow> [] | Some b \<Rightarrow> drop b s) = dropWhile (\<lambda>c. c \<in> set d) s"
  by (induction s) (auto split: option.splits)

lemma find_first_not_of_None: "find_first_not_of s d = None \<longleftrightarrow> set s \<subseteq> set d"
  by (induction s) auto

lemma find_last_not_of_None: "find_last_not_of s d = None \<longleftrightarrow> set s \<subseteq> set d"
  by (induction s) (auto split: option.splits)

definition rtrim :: "string \<Rightarrow> string \<Rightarrow> string" where
  "rtrim d s = rev (dropWhile (\<lambda>c. c \<in> set d) (rev s))"

lemma rtrim_Cons:
  "rtrim d (c # s) = (if set s \<subseteq> set d then (if c \<in> set d then [] else [c]) else c # rtrim d s)"
  by (auto simp: rtrim_def dropWhile_append)

lemma rtrim_all: "set s \<subseteq> set d \<Longrightarrow> rtrim d s = []"
  by (auto simp: rtrim_def)

lemma rtrim_Nil [simp]: "rtrim d [] = []"
  by (simp add: rtrim_def)

lemma find_last_not_of_take:
  "find_last_not_of s d = Some e \<Longrightarrow> take (Suc e) s = rtrim d s \<and> e < length s"
proof (induction s arbitrary: e)
  case (Cons c s)
  show ?case
  proof (cases "find_last_not_of s d")
    case None
    then have "set s \<subseteq> set d" by (simp add: find_last_not_of_None)
    then show ?thesis using Cons.prems None by (auto simp: rtrim_Cons split: if_splits)
  next
    case (Some n)
    then have "\<not> set s \<subseteq> set d" using find_last_not_of_None [of s d] by simp
    then show ?thesis using Cons Some by (auto simp: rtrim_Cons)
  qed
qed simp

lemma dropWhile_rtrim:
  "\<not> set s \<subseteq> set d \<Longrightarrow> find_first_not_of s d = Some b \<Longrightarrow> find_last_not_of s d = Some e \<Longrightarrow>
    b \<le> e \<and> drop b (rtrim d s) = rtrim d (dropWhile (\<lambda>c. c \<in> set d) s)"
proof (induction s arbitrary: b e)
  case (Cons c s)
  show ?case
  proof (cases "c \<in> set d")
    case True
    then have ns: "\<not> set s \<subseteq> set d" using Cons.prems(1) by auto
    then obtain b' e' where *: "find_first_not_of s d = Some b'" "find_last_not_of s d = Some e'"
      using find_first_not_of_None [of s d] find_last_not_of_None [of s d] by auto
    then show ?thesis using Cons.IH [OF ns *] Cons.prems True ns by (auto simp: rtrim_Cons)
  next
    case False
    then show ?thesis using Cons.prems by auto
  qed
qed simp

lemma Trim_eq: "Trim s d = rtrim d (dropWhile (\<lambda>c. c \<in> set d) s)"
proof (cases "set s \<subseteq> set d")
  case True
  then have "dropWhile (\<lambda>c. c \<in> set d) s = []" by (simp add: subset_iff)
  moreover have "find_first_not_of s d = None" using True find_first_not_of_None [of s d] by simp
  ultimately show ?thesis by (simp add: Trim_def del: dropWhile_eq_Nil_conv)
next
  case False
  then obtain b e where *: "find_first_not_of s d = Some b" "find_last_not_of s d = Some e"
    using find_first_not_of_None [of s d] find_last_not_of_None [of s d] by auto
  have be: "b \<le> e" and "drop b (rtrim d s) = rtrim d (dropWhile (\<lambda>c. c \<in> set d) s)"
    using dropWhile_rtrim [OF False *] by simp_all
  moreover have "drop b (rtrim d s) = take (Suc e - b) (drop b s)"
    using find_last_not_of_take [OF *(2)] by (metis drop_take)
  ultimately show ?thesis using * by (simp add: Trim_def substr_def Suc_diff_le)
qed

text \<open>
  What the three \<open>Trim\<close> functions return, for every text and delimiter set: \<open>Trim\<close> removes the
  delimiters of both ends and \<open>TrimLeft\<close> those of the front; \<open>TrimRight\<close>, which passes the index
  of the last kept character to \<open>substr\<close> as a length, also drops that character.
\<close>

theorem trim_functions:
  "Trim s d = rev (dropWhile (\<lambda>c. c \<in> set d) (rev (dropWhile (\<lambda>c. c \<in> set d) s))) \<and>
   TrimLeft s d = dropWhile (\<lambda>c. c \<in> set d) s \<and>
   TrimRight s d = butlast (rev (dropWhile (\<lambda>c. c \<in> set d) (rev s)))"
proof (intro conjI)
  show "TrimRight s d = butlast (rev (dropWhile (\<lambda>c. c \<in> set d) (rev s)))"
  proof (cases "find_last_not_of s d")
    case None
    then have "rtrim d s = []" by (simp add: find_last_not_of_None rtrim_all)
    then show ?thesis unfolding rtrim_def [symmetric] using None by (simp add: TrimRight_def)
  next
    case (Some e)
    then have "rtrim d s = take (Suc e) s" "e < length s"
      using find_last_not_of_take by simp_all
    then show ?thesis using Some
      by (simp add: TrimRight_def substr_def rtrim_def [symmetric] butlast_take)
  qed
qed (simp_all add: Trim_eq rtrim_def TrimLeft_def find_first_not_of_drop)

end
