(* ===== verification/Std_Set.thy ===== *)
theory Std_Set
  imports Prelude
begin

text \<open>
  The ordered set \<open>std::set<T, Comparator>\<close> as the sorted list its iterators run through, with
  the operations the program calls (\<open>insert\<close>, \<open>find\<close>, \<open>erase\<close> of an iterator, \<open>lower_bound\<close>)
  driven by the comparator alone. The locale \<open>ordered_set\<close> states what a comparator must
  promise (a strict order that is total on the addresses stored) and proves what the operations
  then do; the timer manager interprets it on its own comparator.
\<close>

section \<open>Operations\<close>

fun set_insert :: "('a \<Rightarrow> 'a \<Rightarrow> bool) \<Rightarrow> 'a \<Rightarrow> 'a list \<Rightarrow> 'a list" where
  "set_insert lt x [] = [x]"
| "set_insert lt x (y # ys) =
     (if lt x y then x # y # ys
      else if lt y x then y # set_insert lt x ys
      else y # ys)"

text \<open>\<open>find\<close>: the stored element that is equivalent to \<open>x\<close>, or \<open>end()\<close>.\<close>

fun set_find :: "('a \<Rightarrow> 'a \<Rightarrow> bool) \<Rightarrow> 'a \<Rightarrow> 'a list \<Rightarrow> 'a option" where
  "set_find lt x [] = None"
| "set_find lt x (y # ys) =
     (if lt x y then None else if lt y x then set_find lt x ys else Some y)"

text \<open>\<open>erase(it)\<close>: the element the iterator points to goes.\<close>

definition set_erase :: "'a \<Rightarrow> 'a list \<Rightarrow> 'a list" where
  "set_erase x ys = remove1 x ys"

text \<open>\<open>[begin(), lower_bound(x))\<close> and \<open>[lower_bound(x), end())\<close>.\<close>

definition before_lower_bound :: "('a \<Rightarrow> 'a \<Rightarrow> bool) \<Rightarrow> 'a \<Rightarrow> 'a list \<Rightarrow> 'a list" where
  "before_lower_bound lt x ys = takeWhile (\<lambda>y. lt y x) ys"

definition from_lower_bound :: "('a \<Rightarrow> 'a \<Rightarrow> bool) \<Rightarrow> 'a \<Rightarrow> 'a list \<Rightarrow> 'a list" where
  "from_lower_bound lt x ys = dropWhile (\<lambda>y. lt y x) ys"

lemma sorted_wrt_takeWhile_filter:
  assumes "sorted_wrt r ys" and "\<And>x y. r x y \<Longrightarrow> P y \<Longrightarrow> P x"
  shows "takeWhile P ys = filter P ys" and "dropWhile P ys = filter (\<lambda>y. \<not> P y) ys"
proof -
  have "takeWhile P ys = filter P ys \<and> dropWhile P ys = filter (\<lambda>y. \<not> P y) ys"
    using assms(1)
  proof (induction ys)
    case (Cons y ys)
    show ?case
    proof (cases "P y")
      case False
      then have "\<forall>z\<in>set ys. \<not> P z" using Cons.prems assms(2) by auto
      then have "filter P ys = []" "filter (\<lambda>z. \<not> P z) ys = ys"
        by (simp_all add: filter_empty_conv filter_id_conv)
      then show ?thesis using False by simp
    qed (use Cons in simp)
  qed simp
  then show "takeWhile P ys = filter P ys" "dropWhile P ys = filter (\<lambda>y. \<not> P y) ys"
    by simp_all
qed

section \<open>The contract\<close>

locale ordered_set =
  fixes lt :: "'a \<Rightarrow> 'a \<Rightarrow> bool"
  assumes lt_irrefl: "\<not> lt x x"
    and lt_trans: "lt x y \<Longrightarrow> lt y z \<Longrightarrow> lt x z"
    and lt_total: "x \<noteq> y \<Longrightarrow> lt x y \<or> lt y x"
begin

lemma lt_asym: "lt x y \<Longrightarrow> \<not> lt y x"
  using lt_trans lt_irrefl by blast

lemma sorted_distinct: "sorted_wrt lt ys \<Longrightarrow> distinct ys"
  by (induction ys) (auto simp: lt_irrefl)

lemma set_set_insert [simp]: "set (set_insert lt x ys) = insert x (set ys)"
  by (induction ys) (use lt_total in auto)

lemma sorted_set_insert [simp]:
  "sorted_wrt lt ys \<Longrightarrow> sorted_wrt lt (set_insert lt x ys)"
  by (induction ys) (auto intro: lt_trans)

lemma set_insert_hd:
  assumes "sorted_wrt lt ys"
  shows "hd (set_insert lt x ys) = x \<longleftrightarrow> (\<forall>y\<in>set ys. y = x \<or> lt x y)"
proof (cases ys)
  case (Cons y zs)
  consider "lt x y" | "x = y" | "lt y x" using lt_total by blast
  then show ?thesis
  proof cases
    case 1
    then show ?thesis using Cons assms lt_trans by auto
  next
    case 2
    then show ?thesis using Cons assms lt_irrefl by auto
  next
    case 3
    then have "\<not> lt x y" "x \<noteq> y" using lt_asym lt_irrefl by blast+
    then show ?thesis using Cons 3 by auto
  qed
qed simp

lemma set_insert_not_Nil [simp]: "set_insert lt x ys \<noteq> []"
  by (cases ys) auto

lemma set_find_Some [simp]:
  "sorted_wrt lt ys \<Longrightarrow> set_find lt x ys = (if x \<in> set ys then Some x else None)"
proof (induction ys)
  case (Cons y ys)
  then show ?case using lt_total [of x y] lt_asym [of x y] lt_irrefl by auto
qed simp

lemma set_set_erase [simp]: "sorted_wrt lt ys \<Longrightarrow> set (set_erase x ys) = set ys - {x}"
  by (simp add: set_erase_def sorted_distinct)

lemma sorted_set_erase [simp]: "sorted_wrt lt ys \<Longrightarrow> sorted_wrt lt (set_erase x ys)"
  by (induction ys) (auto simp: set_erase_def dest: notin_set_remove1)

lemma distinct_set_erase: "sorted_wrt lt ys \<Longrightarrow> x \<notin> set (set_erase x ys)"
  by simp

lemma lower_bound_split:
  "before_lower_bound lt x ys @ from_lower_bound lt x ys = ys"
  by (simp add: before_lower_bound_def from_lower_bound_def)

lemma before_lower_bound_filter:
  "sorted_wrt lt ys \<Longrightarrow> before_lower_bound lt x ys = filter (\<lambda>y. lt y x) ys"
  unfolding before_lower_bound_def
  by (rule sorted_wrt_takeWhile_filter [where r = lt]) (blast intro: lt_trans)+

end

lemma sorted_wrt_cong_set:
  "(\<And>x y. x \<in> set ys \<Longrightarrow> y \<in> set ys \<Longrightarrow> r x y = r' x y) \<Longrightarrow> sorted_wrt r ys = sorted_wrt r' ys"
  by (induction ys) auto

end
