(* ===== verification/Std_Map.thy ===== *)
theory Std_Map
  imports Std_Set
begin

text \<open>
  The ordered map \<open>std::map<Key, T, Compare>\<close> as the list of pairs its iterators run through, with
  the operations the program calls: \<open>find\<close>, \<open>m[k] = v\<close>, \<open>insert\<close> (which keeps what is there) and
  \<open>erase(k)\<close>, driven by the comparator alone. The locale \<open>weak_order\<close> states what \<open>Compare\<close> must
  promise (a strict weak order: keys that are not ordered either way are the same key) and proves
  the map laws; a total order as in \<open>ordered_set\<close> is one, and the HTTP code interprets the locale
  on its case-insensitive comparator.
\<close>

section \<open>Operations\<close>

fun map_find :: "('k \<Rightarrow> 'k \<Rightarrow> bool) \<Rightarrow> 'k \<Rightarrow> ('k \<times> 'v) list \<Rightarrow> 'v option" where
  "map_find lt k [] = None"
| "map_find lt k (p # m) =
     (if lt k (fst p) then None else if lt (fst p) k then map_find lt k m else Some (snd p))"

text \<open>\<open>m[k] = v\<close>: the key object already in the map stays.\<close>

fun map_assign :: "('k \<Rightarrow> 'k \<Rightarrow> bool) \<Rightarrow> 'k \<Rightarrow> 'v \<Rightarrow> ('k \<times> 'v) list \<Rightarrow> ('k \<times> 'v) list" where
  "map_assign lt k v [] = [(k, v)]"
| "map_assign lt k v (p # m) =
     (if lt k (fst p) then (k, v) # p # m
      else if lt (fst p) k then p # map_assign lt k v m
      else (fst p, v) # m)"

text \<open>\<open>insert(make_pair(k, v))\<close>: nothing happens when the key is there.\<close>

fun map_insert :: "('k \<Rightarrow> 'k \<Rightarrow> bool) \<Rightarrow> 'k \<Rightarrow> 'v \<Rightarrow> ('k \<times> 'v) list \<Rightarrow> ('k \<times> 'v) list" where
  "map_insert lt k v [] = [(k, v)]"
| "map_insert lt k v (p # m) =
     (if lt k (fst p) then (k, v) # p # m
      else if lt (fst p) k then p # map_insert lt k v m
      else p # m)"

fun map_erase :: "('k \<Rightarrow> 'k \<Rightarrow> bool) \<Rightarrow> 'k \<Rightarrow> ('k \<times> 'v) list \<Rightarrow> ('k \<times> 'v) list" where
  "map_erase lt k [] = []"
| "map_erase lt k (p # m) =
     (if lt k (fst p) then p # m
      else if lt (fst p) k then p # map_erase lt k m
      else m)"

section \<open>The contract\<close>

locale weak_order =
  fixes lt :: "'k \<Rightarrow> 'k \<Rightarrow> bool"
  assumes wo_irrefl: "\<not> lt x x"
    and wo_trans: "lt x y \<Longrightarrow> lt y z \<Longrightarrow> lt x z"
    and wo_split: "lt x y \<Longrightarrow> lt x z \<or> lt z y"
begin

definition same_key :: "'k \<Rightarrow> 'k \<Rightarrow> bool" where
  "same_key x y \<longleftrightarrow> \<not> lt x y \<and> \<not> lt y x"

definition map_ok :: "('k \<times> 'v) list \<Rightarrow> bool" where
  "map_ok m \<longleftrightarrow> sorted_wrt (\<lambda>p q. lt (fst p) (fst q)) m"

lemma wo_asym: "lt x y \<Longrightarrow> \<not> lt y x"
  using wo_trans wo_irrefl by blast

lemma same_key_refl [simp]: "same_key x x"
  by (simp add: same_key_def wo_irrefl)

lemma same_key_sym: "same_key x y = same_key y x"
  by (auto simp: same_key_def)

lemma lt_same_key: "lt x y \<Longrightarrow> same_key y z \<Longrightarrow> lt x z" "lt x y \<Longrightarrow> same_key x z \<Longrightarrow> lt z y"
  using wo_split unfolding same_key_def by blast+

lemma same_key_trans: "same_key x y \<Longrightarrow> same_key y z \<Longrightarrow> same_key x z"
  using wo_split unfolding same_key_def by blast

lemma map_ok_Nil [simp]: "map_ok []"
  by (simp add: map_ok_def)

lemma map_ok_Cons: "map_ok (p # m) \<longleftrightarrow> (\<forall>q\<in>set m. lt (fst p) (fst q)) \<and> map_ok m"
  by (simp add: map_ok_def)

lemma keys_map_assign: "q \<in> set (map_assign lt k v m) \<Longrightarrow> fst q = k \<or> fst q \<in> fst ` set m"
  by (induction m) (auto split: if_splits)

lemma keys_map_insert: "q \<in> set (map_insert lt k v m) \<Longrightarrow> fst q = k \<or> fst q \<in> fst ` set m"
  by (induction m) (auto split: if_splits)

lemma set_map_erase: "set (map_erase lt k m) \<subseteq> set m"
  by (induction m) auto

lemma map_ok_assign [simp]: "map_ok m \<Longrightarrow> map_ok (map_assign lt k v m)"
  by (induction m) (auto simp: map_ok_Cons intro: wo_trans dest!: keys_map_assign)

lemma map_ok_insert [simp]: "map_ok m \<Longrightarrow> map_ok (map_insert lt k v m)"
  by (induction m) (auto simp: map_ok_Cons intro: wo_trans dest!: keys_map_insert)

lemma map_ok_erase [simp]: "map_ok m \<Longrightarrow> map_ok (map_erase lt k m)"
  by (induction m) (auto simp: map_ok_Cons dest!: set_mp [OF set_map_erase])

lemma find_same_key: "same_key k k' \<Longrightarrow> map_find lt k m = map_find lt k' m"
proof (induction m)
  case (Cons p m)
  have "lt k (fst p) = lt k' (fst p)" "lt (fst p) k = lt (fst p) k'"
    using lt_same_key Cons.prems same_key_sym by metis+
  then show ?case using Cons by simp
qed simp

lemma find_above: "\<forall>q\<in>set m. lt k (fst q) \<Longrightarrow> map_find lt k m = None"
  by (cases m) auto

text \<open>The three cases of an operation at the head of the map, seen from the key looked up.\<close>

lemma head_before: "lt k' x \<Longrightarrow> same_key k k' \<or> lt k k' \<Longrightarrow> lt k x"
  using lt_same_key(2) same_key_sym wo_trans by blast

lemma head_after: "lt x k' \<Longrightarrow> same_key k k' \<Longrightarrow> lt x k \<and> \<not> lt k x"
  using lt_same_key(1) same_key_sym wo_asym by blast

lemma head_same:
  assumes "same_key x k'"
  shows "lt k x = lt k k'" and "lt x k = lt k' k"
proof -
  show "lt k x = lt k k'" using assms lt_same_key(1) same_key_sym by blast
  show "lt x k = lt k' k" using assms lt_same_key(2) same_key_sym by blast
qed

lemma head_cases:
  obtains "lt k' x" | "lt x k'" "\<not> lt k' x" | "same_key x k'" "\<not> lt k' x" "\<not> lt x k'"
  using wo_asym same_key_def by blast

lemma find_assign [simp]:
  "map_find lt k (map_assign lt k' v m) = (if same_key k k' then Some v else map_find lt k m)"
proof (induction m)
  case Nil
  show ?case by (simp add: same_key_def)
next
  case (Cons p m)
  show ?case
  proof (rule head_cases [of k' "fst p"])
    assume "lt k' (fst p)"
    then show ?thesis using head_before [of k' "fst p" k] by (simp add: same_key_def)
  next
    assume *: "lt (fst p) k'" "\<not> lt k' (fst p)"
    then have "same_key k k' \<Longrightarrow> lt (fst p) k \<and> \<not> lt k (fst p)"
      by (blast dest: head_after)
    then show ?thesis using * Cons by auto
  next
    assume *: "same_key (fst p) k'" "\<not> lt k' (fst p)" "\<not> lt (fst p) k'"
    show ?thesis by (simp add: *(2,3) head_same [OF *(1)] same_key_def)
  qed
qed

lemma find_insert [simp]:
  "map_find lt k (map_insert lt k' v m) =
     (if same_key k k' then Some (case map_find lt k' m of None \<Rightarrow> v | Some w \<Rightarrow> w)
      else map_find lt k m)"
proof (induction m)
  case Nil
  show ?case by (simp add: same_key_def)
next
  case (Cons p m)
  show ?case
  proof (rule head_cases [of k' "fst p"])
    assume "lt k' (fst p)"
    then show ?thesis using head_before [of k' "fst p" k] by (simp add: same_key_def)
  next
    assume *: "lt (fst p) k'" "\<not> lt k' (fst p)"
    then have "same_key k k' \<Longrightarrow> lt (fst p) k \<and> \<not> lt k (fst p)"
      by (blast dest: head_after)
    then show ?thesis using * Cons by auto
  next
    assume *: "same_key (fst p) k'" "\<not> lt k' (fst p)" "\<not> lt (fst p) k'"
    show ?thesis by (simp add: *(2,3) head_same [OF *(1)] same_key_def)
  qed
qed

lemma find_erase [simp]:
  "map_ok m \<Longrightarrow>
   map_find lt k (map_erase lt k' m) = (if same_key k k' then None else map_find lt k m)"
proof (induction m)
  case (Cons p m)
  show ?case
  proof (rule head_cases [of k' "fst p"])
    assume *: "lt k' (fst p)"
    then have "same_key k k' \<Longrightarrow> lt k (fst p)" using head_before by blast
    then show ?thesis using * by simp
  next
    assume *: "lt (fst p) k'" "\<not> lt k' (fst p)"
    then have "same_key k k' \<Longrightarrow> lt (fst p) k \<and> \<not> lt k (fst p)"
      by (blast dest: head_after)
    then show ?thesis using * Cons by (auto simp: map_ok_Cons)
  next
    assume *: "same_key (fst p) k'" "\<not> lt k' (fst p)" "\<not> lt (fst p) k'"
    have above: "lt k x" if "\<not> lt (fst p) k" "\<forall>q\<in>set m. lt (fst p) (fst q)" "x \<in> fst ` set m" for x
      using that wo_split [of "fst p" x k] by auto
    have "map_find lt k m = None" if "\<not> lt k' k"
      using find_above [of m k] above Cons.prems that by (auto simp: map_ok_Cons head_same [OF *(1)])
    then show ?thesis using wo_irrefl [of k'] wo_asym [of k k']
      by (auto simp: *(2,3) head_same [OF *(1)] same_key_def)
  qed
qed simp

end

text \<open>A total order is a weak order.\<close>

sublocale ordered_set \<subseteq> weak_order lt
proof unfold_locales
  fix x y z
  show "lt x y \<Longrightarrow> lt x z \<or> lt z y" using lt_total [of x z] lt_total [of z y] lt_trans by blast
qed (use lt_irrefl lt_trans in blast)+

end
