(* ===== verification/Http.thy ===== *)
theory Http
  imports Util Std_Map "HOL-Library.List_Lexorder"
begin

text \<open>
  The HTTP message objects of \<open>src/htttp/http.h\<close> and \<open>http.cc\<close>: the tables of methods and status
  codes, the case-insensitive header map, \<open>HttpRequest\<close> with its lazily parsed parameters and
  cookies, \<open>HttpResponse\<close>, and the two \<open>dump\<close> functions that write a message. An \<open>enum class\<close> may
  hold any value of its underlying type: the status (which the client parser casts from the
  text it reads) is an \<open>int\<close>, the method only ever an enumerator, so a datatype. What the C
  library computes from a time (\<open>Time2Str\<close>) and from a number text (\<open>std::stold\<close> and the cast)
  are arguments.
\<close>

section \<open>Methods and status codes\<close>

datatype HttpMethod =
    DELETE | GET | HEAD | POST | PUT | CONNECT | OPTIONS | TRACE | COPY
  | LOCK | MKCOL | MOVE | PROPFIND | PROPPATCH | SEARCH | UNLOCK | BIND | REBIND
  | UNBIND | ACL | REPORT | MKACTIVITY | CHECKOUT | MERGE | MSEARCH | NOTIFY | SUBSCRIBE
  | UNSUBSCRIBE | PATCH | PURGE | MKCALENDAR | LINK | UNLINK | SOURCE | INVALID_METHOD

text \<open>\<open>HTTP_METHOD_MAP\<close>: number, name, text.\<close>

definition HTTP_METHOD_MAP :: "(nat \<times> HttpMethod \<times> string) list" where
  "HTTP_METHOD_MAP =
    [(0, DELETE, ''DELETE''), (1, GET, ''GET''), (2, HEAD, ''HEAD''),
     (3, POST, ''POST''), (4, PUT, ''PUT''), (5, CONNECT, ''CONNECT''),
     (6, OPTIONS, ''OPTIONS''), (7, TRACE, ''TRACE''), (8, COPY, ''COPY''),
     (9, LOCK, ''LOCK''), (10, MKCOL, ''MKCOL''), (11, MOVE, ''MOVE''),
     (12, PROPFIND, ''PROPFIND''), (13, PROPPATCH, ''PROPPATCH''), (14, SEARCH, ''SEARCH''),
     (15, UNLOCK, ''UNLOCK''), (16, BIND, ''BIND''), (17, REBIND, ''REBIND''),
     (18, UNBIND, ''UNBIND''), (19, ACL, ''ACL''), (20, REPORT, ''REPORT''),
     (21, MKACTIVITY, ''MKACTIVITY''), (22, CHECKOUT, ''CHECKOUT''), (23, MERGE, ''MERGE''),
     (24, MSEARCH, ''M-SEARCH''), (25, NOTIFY, ''NOTIFY''), (26, SUBSCRIBE, ''SUBSCRIBE''),
     (27, UNSUBSCRIBE, ''UNSUBSCRIBE''), (28, PATCH, ''PATCH''), (29, PURGE, ''PURGE''),
     (30, MKCALENDAR, ''MKCALENDAR''), (31, LINK, ''LINK''), (32, UNLINK, ''UNLINK''),
     (33, SOURCE, ''SOURCE'')]"

text \<open>\<open>HTTP_STATUS_MAP\<close>: code and text; the names used by the code follow.\<close>

definition HTTP_STATUS_MAP :: "(int \<times> string) list" where
  "HTTP_STATUS_MAP =
    [(100, ''Continue''), (101, ''Switching Protocols''),
     (102, ''Processing''), (200, ''OK''),
     (201, ''Created''), (202, ''Accepted''),
     (203, ''Non-Authoritative Information''), (204, ''No Content''),
     (205, ''Reset Content''), (206, ''Partial Content''),
     (207, ''Multi-Status''), (208, ''Already Reported''),
     (226, ''IM Used''), (300, ''Multiple Choices''),
     (301, ''Moved Permanently''), (302, ''Found''),
     (303, ''See Other''), (304, ''Not Modified''),
     (305, ''Use Proxy''), (307, ''Temporary Redirect''),
     (308, ''Permanent Redirect''), (400, ''Bad Request''),
     (401, ''Unauthorized''), (402, ''Payment Required''),
     (403, ''Forbidden''), (404, ''Not Found''),
     (405, ''Method Not Allowed''), (406, ''Not Acceptable''),
     (407, ''Proxy Authentication Required''), (408, ''Request Timeout''),
     (409, ''Conflict''), (410, ''Gone''),
     (411, ''Length Required''), (412, ''Precondition Failed''),
     (413, ''Payload Too Large''), (414, ''URI Too Long''),
     (415, ''Unsupported Media Type''), (416, ''Range Not Satisfiable''),
     (417, ''Expectation Failed''), (421, ''Misdirected Request''),
     (422, ''Unprocessable Entity''), (423, ''Locked''),
     (424, ''Failed Dependency''), (426, ''Upgrade Required''),
     (428, ''Precondition Required''), (429, ''Too Many Requests''),
     (431, ''Request Header Fields Too Large''), (451, ''Unavailable For Legal Reasons''),
     (500, ''Internal Server Error''), (501, ''Not Implemented''),
     (502, ''Bad Gateway''), (503, ''Service Unavailable''),
     (504, ''Gateway Timeout''), (505, ''HTTP Version Not Supported''),
     (506, ''Variant Also Negotiates''), (507, ''Insufficient Storage''),
     (508, ''Loop Detected''), (510, ''Not Extended''),
     (511, ''Network Authentication Required'')]"

type_synonym HttpStatus = int

definition OK :: HttpStatus where "OK = 200"
definition FOUND :: HttpStatus where "FOUND = 302"
definition NOT_FOUND :: HttpStatus where "NOT_FOUND = 404"

text \<open>The C string of a \<open>std::string\<close> ends at its first NUL.\<close>

definition c_str :: "string \<Rightarrow> string" where
  "c_str s = takeWhile (\<lambda>c. c \<noteq> CHR 0x00) s"

text \<open>The enumerator's value, and the chains of comparisons the macros expand to.\<close>

definition method_value :: "HttpMethod \<Rightarrow> nat" where
  "method_value m =
     (case find (\<lambda>(n, m', s). m' = m) HTTP_METHOD_MAP of
        Some (n, _) \<Rightarrow> n | None \<Rightarrow> length HTTP_METHOD_MAP)"

definition StringToHttpMethod :: "string \<Rightarrow> HttpMethod" where
  "StringToHttpMethod m =
     (case find (\<lambda>(n, m', s). s = c_str m) HTTP_METHOD_MAP of
        Some (_, m', _) \<Rightarrow> m' | None \<Rightarrow> INVALID_METHOD)"

text \<open>\<open>strncmp(#string, m, strlen(#string)) == 0\<close>: the text at \<open>m\<close> starts with the name.\<close>

definition CharsToHttpMethod :: "string \<Rightarrow> HttpMethod" where
  "CharsToHttpMethod m =
     (case find (\<lambda>(n, m', s). take (length s) m = s) HTTP_METHOD_MAP of
        Some (_, m', _) \<Rightarrow> m' | None \<Rightarrow> INVALID_METHOD)"

definition s_method_string :: "string list" where
  "s_method_string = map (\<lambda>(n, m, s). s) HTTP_METHOD_MAP"

definition HttpMethodToString :: "HttpMethod \<Rightarrow> string" where
  "HttpMethodToString m =
     (let idx = method_value m
      in if length s_method_string \<le> idx then ''<unknown>'' else s_method_string ! idx)"

definition HttpStatusToString :: "HttpStatus \<Rightarrow> string" where
  "HttpStatusToString s =
     (case map_of HTTP_STATUS_MAP s of Some msg \<Rightarrow> msg | None \<Rightarrow> ''<unknown>'')"

section \<open>The header map\<close>

text \<open>\<open>tolower\<close> of the C locale on an unsigned character, \<open>strcasecmp\<close> and \<open>strcasestr\<close>.\<close>

definition lower_code :: "char \<Rightarrow> nat" where
  "lower_code c = (let n = of_char c in if 65 \<le> n \<and> n \<le> 90 then n + 32 else n)"

fun strcasecmp :: "string \<Rightarrow> string \<Rightarrow> int" where
  "strcasecmp [] [] = 0"
| "strcasecmp [] (d # ds) = - int (lower_code d)"
| "strcasecmp (c # cs) [] = int (lower_code c)"
| "strcasecmp (c # cs) (d # ds) =
     (if lower_code c = lower_code d then strcasecmp cs ds
      else int (lower_code c) - int (lower_code d))"

fun strcasestr :: "string \<Rightarrow> string \<Rightarrow> string option" where
  "strcasestr hay needle =
     (if map lower_code (take (length needle) hay) = map lower_code needle then Some hay
      else case hay of [] \<Rightarrow> None | c # cs \<Rightarrow> strcasestr cs needle)"

definition CaseInsensitiveLess :: "string \<Rightarrow> string \<Rightarrow> bool" where
  "CaseInsensitiveLess lhs rhs \<longleftrightarrow> strcasecmp (c_str lhs) (c_str rhs) < 0"

type_synonym MapType = "(string \<times> string) list"

text \<open>What the comparator looks at: the lower-case codes up to the first NUL.\<close>

definition ci_key :: "string \<Rightarrow> nat list" where
  "ci_key s = map lower_code (c_str s)"

lemma lower_code_0: "lower_code c = 0 \<longleftrightarrow> c = CHR 0x00"
proof -
  have "of_char c = (0::nat) \<longleftrightarrow> c = CHR 0x00" 
    using of_char_eq_iff [of c "CHR 0x00", where 'a = nat] by simp
  then show ?thesis by (auto simp: lower_code_def Let_def)
qed

lemma c_str_nonzero: "c \<in> set (c_str s) \<Longrightarrow> lower_code c > 0"
  using set_takeWhileD [of c "\<lambda>c. c \<noteq> CHR 0x00" s] lower_code_0 [of c]
  by (auto simp: c_str_def)

lemma strcasecmp_less:
  assumes "\<forall>c\<in>set a \<union> set b. lower_code c > 0"
  shows "strcasecmp a b < 0 \<longleftrightarrow> map lower_code a < map lower_code b"
  using assms by (induction a b rule: strcasecmp.induct) auto

lemma CaseInsensitiveLess_key: "CaseInsensitiveLess a b \<longleftrightarrow> ci_key a < ci_key b"
  unfolding CaseInsensitiveLess_def ci_key_def
  by (rule strcasecmp_less) (auto dest: c_str_nonzero)

interpretation ci: weak_order CaseInsensitiveLess
  by unfold_locales (auto simp: CaseInsensitiveLess_key)

lemma same_header: "ci.same_key a b \<longleftrightarrow> ci_key a = ci_key b"
  by (auto simp: ci.same_key_def CaseInsensitiveLess_key)

text \<open>
  \<open>checkGetAs\<close> and \<open>getAs\<close>; \<open>conv\<close> stands for \<open>static_cast<T>(std::stold(text))\<close>, \<open>None\<close> when it
  throws. \<open>checkGetAs\<close> gives its return value and what it stores in \<open>val\<close>.
\<close>

definition checkGetAs :: "(string \<Rightarrow> 'a option) \<Rightarrow> MapType \<Rightarrow> string \<Rightarrow> 'a \<Rightarrow> bool \<times> 'a" where
  "checkGetAs conv m key d =
     (case map_find CaseInsensitiveLess key m of
        None \<Rightarrow> (False, d)
      | Some txt \<Rightarrow> (case conv txt of Some v \<Rightarrow> (True, v) | None \<Rightarrow> (False, d)))"

definition getAs :: "(string \<Rightarrow> 'a option) \<Rightarrow> MapType \<Rightarrow> string \<Rightarrow> 'a \<Rightarrow> 'a" where
  "getAs conv m key d =
     (case map_find CaseInsensitiveLess key m of
        None \<Rightarrow> d
      | Some txt \<Rightarrow> (case conv txt of Some v \<Rightarrow> v | None \<Rightarrow> d))"

section \<open>Requests\<close>

record HttpRequest =
  req_method :: HttpMethod
  req_version :: byte
  req_path :: string
  req_query :: string
  req_fragment :: string
  req_close :: bool
  req_websocket :: bool
  req_parserParamFlag :: byte
  req_body :: string
  req_headers :: MapType
  req_params :: MapType
  req_cookies :: MapType

definition HttpRequest_new :: "byte \<Rightarrow> bool \<Rightarrow> HttpRequest" where
  "HttpRequest_new version close =
     \<lparr>req_method = GET, req_version = version, req_path = ''/'', req_query = [],
      req_fragment = [], req_close = close, req_websocket = False, req_parserParamFlag = 0,
      req_body = [], req_headers = [], req_params = [], req_cookies = []\<rparr>"

definition map_get :: "MapType \<Rightarrow> string \<Rightarrow> string \<Rightarrow> string" where
  "map_get m key d = (case map_find CaseInsensitiveLess key m of None \<Rightarrow> d | Some v \<Rightarrow> v)"

definition req_getHeader :: "HttpRequest \<Rightarrow> string \<Rightarrow> string \<Rightarrow> string" where
  "req_getHeader r key d = map_get (req_headers r) key d"

definition req_setHeader :: "string \<Rightarrow> string \<Rightarrow> HttpRequest \<Rightarrow> HttpRequest" where
  "req_setHeader key val r =
     r\<lparr>req_headers := map_assign CaseInsensitiveLess key val (req_headers r)\<rparr>"

definition req_setParam :: "string \<Rightarrow> string \<Rightarrow> HttpRequest \<Rightarrow> HttpRequest" where
  "req_setParam key val r =
     r\<lparr>req_params := map_assign CaseInsensitiveLess key val (req_params r)\<rparr>"

definition req_setCookie :: "string \<Rightarrow> string \<Rightarrow> HttpRequest \<Rightarrow> HttpRequest" where
  "req_setCookie key val r =
     r\<lparr>req_cookies := map_assign CaseInsensitiveLess key val (req_cookies r)\<rparr>"

definition req_delHeader :: "string \<Rightarrow> HttpRequest \<Rightarrow> HttpRequest" where
  "req_delHeader key r = r\<lparr>req_headers := map_erase CaseInsensitiveLess key (req_headers r)\<rparr>"

definition req_delParam :: "string \<Rightarrow> HttpRequest \<Rightarrow> HttpRequest" where
  "req_delParam key r = r\<lparr>req_params := map_erase CaseInsensitiveLess key (req_params r)\<rparr>"

definition req_delCookie :: "string \<Rightarrow> HttpRequest \<Rightarrow> HttpRequest" where
  "req_delCookie key r = r\<lparr>req_cookies := map_erase CaseInsensitiveLess key (req_cookies r)\<rparr>"

text \<open>\<open>hasHeader(key, val)\<close>: the value is stored in \<open>val\<close> when there is one.\<close>

definition req_hasHeader :: "HttpRequest \<Rightarrow> string \<Rightarrow> string option" where
  "req_hasHeader r key = map_find CaseInsensitiveLess key (req_headers r)"

definition req_init :: "HttpRequest \<Rightarrow> HttpRequest" where
  "req_init r =
     (let conn = req_getHeader r ''connection'' []
      in if conn \<noteq> [] then
           if strcasecmp (c_str conn) ''keep-alive'' = 0 then r\<lparr>req_close := False\<rparr>
           else r\<lparr>req_close := True\<rparr>
         else r)"

section \<open>Parameters and cookies\<close>

text \<open>\<open>str.find(c, pos)\<close>; \<open>npos\<close> is \<open>None\<close>.\<close>

fun index_of :: "char \<Rightarrow> string \<Rightarrow> nat option" where
  "index_of c [] = None"
| "index_of c (x # xs) = (if x = c then Some 0 else map_option Suc (index_of c xs))"

definition find_char :: "string \<Rightarrow> char \<Rightarrow> nat \<Rightarrow> nat option" where
  "find_char str c pos = map_option (\<lambda>i. pos + i) (index_of c (drop pos str))"

lemma index_of_less: "index_of c xs = Some i \<Longrightarrow> i < length xs \<and> xs ! i = c"
  by (induction xs arbitrary: i) (auto split: if_splits)

lemma find_char_bounds: "find_char str c pos = Some i \<Longrightarrow> pos \<le> i \<and> i < length str"
  by (auto simp: find_char_def dest!: index_of_less)

text \<open>
  The macro \<open>PARSE_PARAM(str, m, flag, trim)\<close>, one turn of its loop per call. \<open>substr\<close> takes what
  is left when the separator is not found (\<open>pos - key - 1\<close> is then beyond the end).
\<close>

function PARSE_PARAM :: "string \<Rightarrow> char \<Rightarrow> (string \<Rightarrow> string) \<Rightarrow> nat \<Rightarrow> MapType \<Rightarrow> MapType" where
  "PARSE_PARAM str flag trim pos m =
     (let last_pos = pos
      in case find_char str (CHR ''='') pos of
           None \<Rightarrow> m
         | Some key \<Rightarrow>
             (case find_char str flag key of
                None \<Rightarrow>
                  map_insert CaseInsensitiveLess (trim (substr str last_pos (key - last_pos)))
                    (UrlDecode (drop (key + 1) str) True) m
              | Some pos' \<Rightarrow>
                  PARSE_PARAM str flag trim (pos' + 1)
                    (map_insert CaseInsensitiveLess (trim (substr str last_pos (key - last_pos)))
                       (UrlDecode (substr str (key + 1) (pos' - key - 1)) True) m)))"
  by pat_completeness auto
termination
  by (relation "measure (\<lambda>(str, flag, trim, pos, m). length str - pos)")
    (auto dest!: find_char_bounds)

declare PARSE_PARAM.simps [simp del]

definition trim_default :: "string \<Rightarrow> string" where
  "trim_default s = Trim s trim_delimit"

definition initQueryParam :: "HttpRequest \<Rightarrow> HttpRequest" where
  "initQueryParam r =
     (if req_parserParamFlag r AND 1 \<noteq> 0 then r
      else r\<lparr>req_params := PARSE_PARAM (req_query r) (CHR ''&'') trim_default 0 (req_params r),
             req_parserParamFlag := req_parserParamFlag r OR 1\<rparr>)"

definition initBodyParam :: "HttpRequest \<Rightarrow> HttpRequest" where
  "initBodyParam r =
     (if req_parserParamFlag r AND 2 \<noteq> 0 then r
      else if strcasestr (c_str (req_getHeader r ''content-type'' []))
                ''application/x-www-form-urlencoded'' = None then
        r\<lparr>req_parserParamFlag := req_parserParamFlag r OR 2\<rparr>
      else r\<lparr>req_params := PARSE_PARAM (req_body r) (CHR ''&'') trim_default 0 (req_params r),
             req_parserParamFlag := req_parserParamFlag r OR 2\<rparr>)"

definition initCookies :: "HttpRequest \<Rightarrow> HttpRequest" where
  "initCookies r =
     (if req_parserParamFlag r AND 4 \<noteq> 0 then r
      else
        let cookie = req_getHeader r ''cookie'' []
        in if cookie = [] then r\<lparr>req_parserParamFlag := req_parserParamFlag r OR 4\<rparr>
           else r\<lparr>req_cookies := PARSE_PARAM cookie (CHR '';'') trim_default 0 (req_cookies r),
                  req_parserParamFlag := req_parserParamFlag r OR 4\<rparr>)"

definition initParam :: "HttpRequest \<Rightarrow> HttpRequest" where
  "initParam r = initCookies (initBodyParam (initQueryParam r))"

text \<open>The getters that parse first return their value and the request.\<close>

definition getParam :: "string \<Rightarrow> string \<Rightarrow> HttpRequest \<Rightarrow> string \<times> HttpRequest" where
  "getParam key d r =
     (let r' = initBodyParam (initQueryParam r) in (map_get (req_params r') key d, r'))"

definition hasParam :: "string \<Rightarrow> HttpRequest \<Rightarrow> string option \<times> HttpRequest" where
  "hasParam key r =
     (let r' = initBodyParam (initQueryParam r)
      in (map_find CaseInsensitiveLess key (req_params r'), r'))"

definition getCookie :: "string \<Rightarrow> string \<Rightarrow> HttpRequest \<Rightarrow> string \<times> HttpRequest" where
  "getCookie key d r = (let r' = initCookies r in (map_get (req_cookies r') key d, r'))"

definition hasCookie :: "string \<Rightarrow> HttpRequest \<Rightarrow> string option \<times> HttpRequest" where
  "hasCookie key r =
     (let r' = initCookies r in (map_find CaseInsensitiveLess key (req_cookies r'), r'))"

section \<open>Responses\<close>

record HttpResponse =
  rsp_status :: HttpStatus
  rsp_version :: byte
  rsp_close :: bool
  rsp_websocket :: bool
  rsp_body :: string
  rsp_reason :: string
  rsp_headers :: MapType
  rsp_cookies :: "string list"

definition HttpResponse_new :: "byte \<Rightarrow> bool \<Rightarrow> HttpResponse" where
  "HttpResponse_new version close =
     \<lparr>rsp_status = OK, rsp_version = version, rsp_close = close, rsp_websocket = False,
      rsp_body = [], rsp_reason = [], rsp_headers = [], rsp_cookies = []\<rparr>"

definition createResponse :: "HttpRequest \<Rightarrow> HttpResponse" where
  "createResponse r = HttpResponse_new (req_version r) (req_close r)"

definition rsp_getHeader :: "HttpResponse \<Rightarrow> string \<Rightarrow> string \<Rightarrow> string" where
  "rsp_getHeader r key d = map_get (rsp_headers r) key d"

definition rsp_setHeader :: "string \<Rightarrow> string \<Rightarrow> HttpResponse \<Rightarrow> HttpResponse" where
  "rsp_setHeader key val r =
     r\<lparr>rsp_headers := map_assign CaseInsensitiveLess key val (rsp_headers r)\<rparr>"

definition rsp_delHeader :: "string \<Rightarrow> HttpResponse \<Rightarrow> HttpResponse" where
  "rsp_delHeader key r = r\<lparr>rsp_headers := map_erase CaseInsensitiveLess key (rsp_headers r)\<rparr>"

definition setRedirect :: "string \<Rightarrow> HttpResponse \<Rightarrow> HttpResponse" where
  "setRedirect uri r = rsp_setHeader ''Location'' uri (r\<lparr>rsp_status := FOUND\<rparr>)"

text \<open>\<open>time2str\<close> stands for \<open>Time2Str(expired, "%a, %d %b %Y %H:%M:%S")\<close>.\<close>

definition rsp_setCookie ::
  "(int \<Rightarrow> string) \<Rightarrow> string \<Rightarrow> string \<Rightarrow> int \<Rightarrow> string \<Rightarrow> string \<Rightarrow> bool \<Rightarrow> HttpResponse \<Rightarrow> HttpResponse"
where
  "rsp_setCookie time2str key val expired path domain secure r =
     r\<lparr>rsp_cookies := rsp_cookies r @
       [key @ ''='' @ val
        @ (if 0 < expired then '';expires='' @ time2str expired @ '' GMT'' else [])
        @ (if domain \<noteq> [] then '';domain='' @ domain else [])
        @ (if path \<noteq> [] then '';path='' @ path else [])
        @ (if secure then '';secure'' else [])]\<rparr>"

section \<open>Writing a message\<close>

text \<open>\<open>os << n\<close> for an unsigned number; \<open>os << (uint32_t)status\<close> wraps a negative one.\<close>

fun show_nat :: "nat \<Rightarrow> string" where
  "show_nat n = (if n < 10 then [char_of (48 + n)] else show_nat (n div 10) @ [char_of (48 + n mod 10)])"

declare show_nat.simps [simp del]

definition crlf :: string where
  "crlf = [CHR 0x0D, CHR 0x0A]"

definition show_version :: "byte \<Rightarrow> string" where
  "show_version v =
     ''HTTP/'' @ show_nat (unat (drop_bit 4 v)) @ ''.'' @ show_nat (unat (v AND 0x0F))"

definition connection_line :: "bool \<Rightarrow> bool \<Rightarrow> string" where
  "connection_line websocket close =
     (if websocket then []
      else ''connection: '' @ (if close then ''close'' else ''keep-alive'') @ crlf)"

definition header_lines :: "bool \<Rightarrow> MapType \<Rightarrow> string" where
  "header_lines websocket m =
     concat (map (\<lambda>(k, v).
       if \<not> websocket \<and> strcasecmp (c_str k) ''connection'' = 0 then []
       else k @ '': '' @ v @ crlf) m)"

definition dump_body :: "string \<Rightarrow> string" where
  "dump_body body =
     (if body \<noteq> [] then ''content-length: '' @ show_nat (length body) @ crlf @ crlf @ body
      else crlf)"

definition req_dump :: "HttpRequest \<Rightarrow> string" where
  "req_dump r =
     HttpMethodToString (req_method r) @ '' '' @ req_path r
     @ (if req_query r = [] then [] else ''?'') @ req_query r
     @ (if req_fragment r = [] then [] else ''#'') @ req_fragment r
     @ '' '' @ show_version (req_version r) @ crlf
     @ connection_line (req_websocket r) (req_close r)
     @ header_lines (req_websocket r) (req_headers r)
     @ dump_body (req_body r)"

definition rsp_dump :: "HttpResponse \<Rightarrow> string" where
  "rsp_dump r =
     show_version (rsp_version r) @ '' '' @ show_nat (nat (rsp_status r mod 2 ^ 32)) @ '' ''
     @ (if rsp_reason r = [] then HttpStatusToString (rsp_status r) else rsp_reason r) @ crlf
     @ header_lines (rsp_websocket r) (rsp_headers r)
     @ concat (map (\<lambda>c. ''Set-Cookie: '' @ c @ crlf) (rsp_cookies r))
     @ connection_line (rsp_websocket r) (rsp_close r)
     @ dump_body (rsp_body r)"

end
