(* ===== verification/Http11_Machine.thy ===== *)
theory Http11_Machine
  imports Main
begin

text \<open>
  The automaton of the HTTP request parser, state by state as
  \<open>src/htttp/http11_parser.rl.cc\<close> has it: \<open>http_st\<close>\<^emph>\<open>n\<close> is the decision \<open>case\<close> \<^emph>\<open>n\<close> makes on the
  character at \<open>p\<close> (a signed \<open>char\<close>, so from -128 to 127), \<open>http_tr\<close>\<^emph>\<open>n\<close> the actions under the
  label \<open>tr\<close>\<^emph>\<open>n\<close> and the state they go to. A \<open>switch\<close> lists its values per target. What the actions
  do to the parser, and the loop that runs the automaton, are in \<open>Http11_Parser\<close>.
\<close>

section \<open>Actions and targets\<close>

text \<open>The actions of \<open>http11_parser.rl\<close>; \<open>Done cs\<close> leaves the loop in state \<open>cs\<close> after it.\<close>

datatype http_act =
    Mark | Start_field | Start_query | Write_field | Write_value
  | Request_method | Request_uri | Fragment | Query_string | Http_version | Request_path
  | Xml | Json | Done nat

type_synonym http_target = "http_act list \<times> nat"

definition goto_st :: "nat \<Rightarrow> http_target" where
  "goto_st n = ([], n)"

text \<open>\<open>_widec\<close>: three characters are moved out of the way, further when \<open>uri_relaxed\<close> is set.\<close>

definition widen :: "bool \<Rightarrow> int \<Rightarrow> int" where
  "widen relaxed c = 128 + (c - - 128) + (if relaxed then 256 else 0)"

definition widec :: "bool \<Rightarrow> int \<Rightarrow> int" where
  "widec relaxed c =
     (if c < 123 then (if c = 94 then widen relaxed c else c)
      else if 123 < c then (if c = 125 then widen relaxed c else c)
      else widen relaxed c)"

section \<open>Transitions\<close>

definition http_tr0 :: http_target where
  "http_tr0 = ([Mark], 2)"

definition http_tr4 :: http_target where
  "http_tr4 = ([Request_method], 3)"

definition http_tr6 :: http_target where
  "http_tr6 = ([Mark, Request_path, Request_uri], 4)"

definition http_tr37 :: http_target where
  "http_tr37 = ([Request_path, Request_uri], 4)"

definition http_tr44 :: http_target where
  "http_tr44 = ([Mark, Fragment], 4)"

definition http_tr47 :: http_target where
  "http_tr47 = ([Fragment], 4)"

definition http_tr54 :: http_target where
  "http_tr54 = ([Start_query, Query_string, Request_uri], 4)"

definition http_tr58 :: http_target where
  "http_tr58 = ([Query_string, Request_uri], 4)"

definition http_tr13 :: http_target where
  "http_tr13 = ([Mark], 5)"

definition http_tr21 :: http_target where
  "http_tr21 = ([Http_version], 13)"

definition http_tr30 :: http_target where
  "http_tr30 = ([Mark, Write_value], 13)"

definition http_tr33 :: http_target where
  "http_tr33 = ([Write_value], 13)"

definition http_tr23 :: http_target where
  "http_tr23 = ([Start_field], 14)"

definition http_tr27 :: http_target where
  "http_tr27 = ([Write_field], 15)"

definition http_tr29 :: http_target where
  "http_tr29 = ([Mark], 15)"

definition http_tr28 :: http_target where
  "http_tr28 = ([Mark], 16)"

definition http_tr22 :: http_target where
  "http_tr22 = ([Http_version], 17)"

definition http_tr31 :: http_target where
  "http_tr31 = ([Mark, Write_value], 17)"

definition http_tr34 :: http_target where
  "http_tr34 = ([Write_value], 17)"

definition http_tr24 :: http_target where
  "http_tr24 = ([Start_field, Done 348], 348)"

definition http_tr36 :: http_target where
  "http_tr36 = ([Done 348], 348)"

definition http_tr25 :: http_target where
  "http_tr25 = ([Start_field], 18)"

definition http_tr7 :: http_target where
  "http_tr7 = ([Mark], 19)"

definition http_tr8 :: http_target where
  "http_tr8 = ([Mark, Request_path, Request_uri], 20)"

definition http_tr39 :: http_target where
  "http_tr39 = ([Request_path, Request_uri], 20)"

definition http_tr55 :: http_target where
  "http_tr55 = ([Start_query, Query_string, Request_uri], 20)"

definition http_tr59 :: http_target where
  "http_tr59 = ([Query_string, Request_uri], 20)"

definition http_tr43 :: http_target where
  "http_tr43 = ([Mark], 21)"

definition http_tr45 :: http_target where
  "http_tr45 = ([Mark], 22)"

definition http_tr9 :: http_target where
  "http_tr9 = ([Mark], 24)"

definition http_tr203 :: http_target where
  "http_tr203 = ([Mark], 26)"

definition http_tr204 :: http_target where
  "http_tr204 = ([Mark], 27)"

definition http_tr11 :: http_target where
  "http_tr11 = ([Mark, Request_path], 29)"

definition http_tr42 :: http_target where
  "http_tr42 = ([Request_path], 29)"

definition http_tr53 :: http_target where
  "http_tr53 = ([Start_query], 30)"

definition http_tr56 :: http_target where
  "http_tr56 = ([Start_query], 31)"

definition http_tr10 :: http_target where
  "http_tr10 = ([Mark], 33)"

definition http_tr12 :: http_target where
  "http_tr12 = ([Mark], 173)"

definition http_tr2 :: http_target where
  "http_tr2 = ([Mark], 194)"

definition http_tr224 :: http_target where
  "http_tr224 = ([Request_path], 196)"

definition http_tr227 :: http_target where
  "http_tr227 = ([Xml, Done 349], 349)"

definition http_tr235 :: http_target where
  "http_tr235 = ([Json, Done 349], 349)"

definition http_tr3 :: http_target where
  "http_tr3 = ([Mark], 198)"

definition http_tr228 :: http_target where
  "http_tr228 = ([Request_path], 199)"

definition http_tr232 :: http_target where
  "http_tr232 = ([Mark], 200)"

lemmas http_tr_defs =
  http_tr0_def http_tr4_def http_tr6_def http_tr37_def http_tr44_def
  http_tr47_def http_tr54_def http_tr58_def http_tr13_def http_tr21_def
  http_tr30_def http_tr33_def http_tr23_def http_tr27_def http_tr29_def
  http_tr28_def http_tr22_def http_tr31_def http_tr34_def http_tr24_def
  http_tr36_def http_tr25_def http_tr7_def http_tr8_def http_tr39_def
  http_tr55_def http_tr59_def http_tr43_def http_tr45_def http_tr9_def
  http_tr203_def http_tr204_def http_tr11_def http_tr42_def http_tr53_def
  http_tr56_def http_tr10_def http_tr12_def http_tr2_def http_tr224_def
  http_tr227_def http_tr235_def http_tr3_def http_tr228_def http_tr232_def

section \<open>States\<close>

definition http_st1 :: "bool \<Rightarrow> int \<Rightarrow> http_target" where
  "http_st1 relaxed c =
    (if c = 60 then http_tr2
     else if c = 64 then http_tr3
     else if 57 < c then (if 65 \<le> c \<and> c \<le> 90 then http_tr0
       else goto_st 0)
     else if 48 \<le> c then http_tr0
     else goto_st 0)"

definition http_st2 :: "bool \<Rightarrow> int \<Rightarrow> http_target" where
  "http_st2 relaxed c =
    (if c = 32 then http_tr4
     else if 57 < c then (if 65 \<le> c \<and> c \<le> 90 then goto_st 175
       else goto_st 0)
     else if 48 \<le> c then goto_st 175
     else goto_st 0)"

definition http_st3 :: "bool \<Rightarrow> int \<Rightarrow> http_target" where
  "http_st3 relaxed c =
    (let w = widec relaxed c in
     if w = 32 then http_tr6
     else if w \<in> {33, 59, 61, 64, 95, 126, 606, 635, 637} then http_tr7
     else if w = 35 then http_tr8
     else if w = 37 then http_tr9
     else if w = 47 then http_tr10
     else if w = 63 then http_tr11
     else if w < 65 then (if 36 \<le> w \<and> w \<le> 57 then http_tr7
       else goto_st 0)
     else if 90 < w then (if 97 \<le> w \<and> w \<le> 122 then http_tr12
       else goto_st 0)
     else http_tr12)"

definition http_st4 :: "bool \<Rightarrow> int \<Rightarrow> http_target" where
  "http_st4 relaxed c =
    (if c = 72 then http_tr13
     else goto_st 0)"

definition http_st5 :: "bool \<Rightarrow> int \<Rightarrow> http_target" where
  "http_st5 relaxed c =
    (if c = 84 then goto_st 6
     else goto_st 0)"

definition http_st6 :: "bool \<Rightarrow> int \<Rightarrow> http_target" where
  "http_st6 relaxed c =
    (if c = 84 then goto_st 7
     else goto_st 0)"

definition http_st7 :: "bool \<Rightarrow> int \<Rightarrow> http_target" where
  "http_st7 relaxed c =
    (if c = 80 then goto_st 8
     else goto_st 0)"

definition http_st8 :: "bool \<Rightarrow> int \<Rightarrow> http_target" where
  "http_st8 relaxed c =
    (if c = 47 then goto_st 9
     else goto_st 0)"

definition http_st9 :: "bool \<Rightarrow> int \<Rightarrow> http_target" where
  "http_st9 relaxed c =
    (if c = 49 then goto_st 10
     else goto_st 0)"

definition http_st10 :: "bool \<Rightarrow> int \<Rightarrow> http_target" where
  "http_st10 relaxed c =
    (if c = 46 then goto_st 11
     else goto_st 0)"

definition http_st11 :: "bool \<Rightarrow> int \<Rightarrow> http_target" where
  "http_st11 relaxed c =
    (if 48 \<le> c \<and> c \<le> 49 then goto_st 12
     else goto_st 0)"

definition http_st12 :: "bool \<Rightarrow> int \<Rightarrow> http_target" where
  "http_st12 relaxed c =
    (if c = 10 then http_tr21
     else if c = 13 then http_tr22
     else goto_st 0)"

definition http_st13 :: "bool \<Rightarrow> int \<Rightarrow> http_target" where
  "http_st13 relaxed c =
    (if c = 10 then http_tr24
     else if c = 13 then http_tr25
     else if c \<in> {33, 124, 126} then http_tr23
     else if c < 42 then (if c < 11 then (if 1 \<le> c \<and> c \<le> 8 then http_tr23
         else goto_st 0)
       else if 31 < c then (if 35 \<le> c \<and> c \<le> 39 then http_tr23
         else goto_st 0)
       else http_tr23)
     else if 43 < c then (if c < 48 then (if 45 \<le> c \<and> c \<le> 46 then http_tr23
         else goto_st 0)
       else if 57 < c then (if 90 < c then (if 94 \<le> c \<and> c \<le> 122 then http_tr23
           else goto_st 0)
         else if 65 \<le> c then http_tr23
         else goto_st 0)
       else http_tr23)
     else http_tr23)"

definition http_st14 :: "bool \<Rightarrow> int \<Rightarrow> http_target" where
  "http_st14 relaxed c =
    (if c \<in> {33, 124, 126} then goto_st 14
     else if c = 58 then http_tr27
     else if c < 42 then (if c < 10 then (if 1 \<le> c \<and> c \<le> 8 then goto_st 14
         else goto_st 0)
       else if 31 < c then (if 35 \<le> c \<and> c \<le> 39 then goto_st 14
         else goto_st 0)
       else goto_st 14)
     else if 43 < c then (if c < 48 then (if 45 \<le> c \<and> c \<le> 46 then goto_st 14
         else goto_st 0)
       else if 57 < c then (if 90 < c then (if 94 \<le> c \<and> c \<le> 122 then goto_st 14
           else goto_st 0)
         else if 65 \<le> c then goto_st 14
         else goto_st 0)
       else goto_st 14)
     else goto_st 14)"

definition http_st15 :: "bool \<Rightarrow> int \<Rightarrow> http_target" where
  "http_st15 relaxed c =
    (if c \<in> {0, 127} then goto_st 0
     else if c \<in> {9, 32} then http_tr29
     else if c = 10 then http_tr30
     else if c = 13 then http_tr31
     else http_tr28)"

definition http_st16 :: "bool \<Rightarrow> int \<Rightarrow> http_target" where
  "http_st16 relaxed c =
    (if c \<in> {0, 127} then goto_st 0
     else if c = 10 then http_tr33
     else if c = 13 then http_tr34
     else goto_st 16)"

definition http_st17 :: "bool \<Rightarrow> int \<Rightarrow> http_target" where
  "http_st17 relaxed c =
    (if c = 10 then goto_st 13
     else goto_st 0)"

definition http_st18 :: "bool \<Rightarrow> int \<Rightarrow> http_target" where
  "http_st18 relaxed c =
    (if c = 10 then http_tr36
     else if c \<in> {33, 124, 126} then goto_st 14
     else if c = 58 then http_tr27
     else if c < 42 then (if c < 11 then (if 1 \<le> c \<and> c \<le> 8 then goto_st 14
         else goto_st 0)
       else if 31 < c then (if 35 \<le> c \<and> c \<le> 39 then goto_st 14
         else goto_st 0)
       else goto_st 14)
     else if 43 < c then (if c < 48 then (if 45 \<le> c \<and> c \<le> 46 then goto_st 14
         else goto_st 0)
       else if 57 < c then (if 90 < c then (if 94 \<le> c \<and> c \<le> 122 then goto_st 14
           else goto_st 0)
         else if 65 \<le> c then goto_st 14
         else goto_st 0)
       else goto_st 14)
     else goto_st 14)"

definition http_st19 :: "bool \<Rightarrow> int \<Rightarrow> http_target" where
  "http_st19 relaxed c =
    (let w = widec relaxed c in
     if w = 32 then http_tr37
     else if w \<in> {33, 59, 61, 95, 126, 606, 635, 637} then goto_st 19
     else if w = 35 then http_tr39
     else if w = 37 then goto_st 24
     else if w = 47 then goto_st 26
     else if w = 63 then http_tr42
     else if w < 64 then (if 36 \<le> w \<and> w \<le> 57 then goto_st 19
       else goto_st 0)
     else if 90 < w then (if 97 \<le> w \<and> w \<le> 122 then goto_st 19
       else goto_st 0)
     else goto_st 19)"

definition http_st20 :: "bool \<Rightarrow> int \<Rightarrow> http_target" where
  "http_st20 relaxed c =
    (let w = widec relaxed c in
     if w = 32 then http_tr44
     else if w \<in> {33, 61, 95, 126, 606, 635, 637} then http_tr43
     else if w = 37 then http_tr45
     else if w < 36 then (if w \<le> - 1 then http_tr43
       else goto_st 0)
     else if 59 < w then (if 90 < w then (if 97 \<le> w \<and> w \<le> 122 then http_tr43
         else goto_st 0)
       else if 63 \<le> w then http_tr43
       else goto_st 0)
     else http_tr43)"

definition http_st21 :: "bool \<Rightarrow> int \<Rightarrow> http_target" where
  "http_st21 relaxed c =
    (let w = widec relaxed c in
     if w = 32 then http_tr47
     else if w \<in> {33, 61, 95, 126, 606, 635, 637} then goto_st 21
     else if w = 37 then goto_st 22
     else if w < 36 then (if w \<le> - 1 then goto_st 21
       else goto_st 0)
     else if 59 < w then (if 90 < w then (if 97 \<le> w \<and> w \<le> 122 then goto_st 21
         else goto_st 0)
       else if 63 \<le> w then goto_st 21
       else goto_st 0)
     else goto_st 21)"

definition http_st22 :: "bool \<Rightarrow> int \<Rightarrow> http_target" where
  "http_st22 relaxed c =
    (if c < 65 then (if 48 \<le> c \<and> c \<le> 57 then goto_st 23
       else goto_st 0)
     else if 70 < c then (if 97 \<le> c \<and> c \<le> 102 then goto_st 23
       else goto_st 0)
     else goto_st 23)"

definition http_st23 :: "bool \<Rightarrow> int \<Rightarrow> http_target" where
  "http_st23 relaxed c =
    (if c < 65 then (if 48 \<le> c \<and> c \<le> 57 then goto_st 21
       else goto_st 0)
     else if 70 < c then (if 97 \<le> c \<and> c \<le> 102 then goto_st 21
       else goto_st 0)
     else goto_st 21)"

definition http_st24 :: "bool \<Rightarrow> int \<Rightarrow> http_target" where
  "http_st24 relaxed c =
    (if c < 65 then (if 48 \<le> c \<and> c \<le> 57 then goto_st 25
       else goto_st 0)
     else if 70 < c then (if 97 \<le> c \<and> c \<le> 102 then goto_st 25
       else goto_st 0)
     else goto_st 25)"

definition http_st25 :: "bool \<Rightarrow> int \<Rightarrow> http_target" where
  "http_st25 relaxed c =
    (if c < 65 then (if 48 \<le> c \<and> c \<le> 57 then goto_st 19
       else goto_st 0)
     else if 70 < c then (if 97 \<le> c \<and> c \<le> 102 then goto_st 19
       else goto_st 0)
     else goto_st 19)"

definition http_st26 :: "bool \<Rightarrow> int \<Rightarrow> http_target" where
  "http_st26 relaxed c =
    (let w = widec relaxed c in
     if w = 32 then http_tr37
     else if w \<in> {33, 61, 95, 126, 606, 635, 637} then goto_st 26
     else if w = 35 then http_tr39
     else if w = 37 then goto_st 27
     else if w = 63 then http_tr42
     else if w < 36 then (if w \<le> - 1 then goto_st 26
       else goto_st 0)
     else if 59 < w then (if 90 < w then (if 97 \<le> w \<and> w \<le> 122 then goto_st 26
         else goto_st 0)
       else if 64 \<le> w then goto_st 26
       else goto_st 0)
     else goto_st 26)"

definition http_st27 :: "bool \<Rightarrow> int \<Rightarrow> http_target" where
  "http_st27 relaxed c =
    (if c < 65 then (if 48 \<le> c \<and> c \<le> 57 then goto_st 28
       else goto_st 0)
     else if 70 < c then (if 97 \<le> c \<and> c \<le> 102 then goto_st 28
       else goto_st 0)
     else goto_st 28)"

definition http_st28 :: "bool \<Rightarrow> int \<Rightarrow> http_target" where
  "http_st28 relaxed c =
    (if c < 65 then (if 48 \<le> c \<and> c \<le> 57 then goto_st 26
       else goto_st 0)
     else if 70 < c then (if 97 \<le> c \<and> c \<le> 102 then goto_st 26
       else goto_st 0)
     else goto_st 26)"

definition http_st29 :: "bool \<Rightarrow> int \<Rightarrow> http_target" where
  "http_st29 relaxed c =
    (let w = widec relaxed c in
     if w = 32 then http_tr54
     else if w \<in> {33, 61, 95, 126, 606, 635, 637} then http_tr53
     else if w = 35 then http_tr55
     else if w = 37 then http_tr56
     else if w < 36 then (if w \<le> - 1 then http_tr53
       else goto_st 0)
     else if 59 < w then (if 90 < w then (if 97 \<le> w \<and> w \<le> 122 then http_tr53
         else goto_st 0)
       else if 63 \<le> w then http_tr53
       else goto_st 0)
     else http_tr53)"

definition http_st30 :: "bool \<Rightarrow> int \<Rightarrow> http_target" where
  "http_st30 relaxed c =
    (let w = widec relaxed c in
     if w = 32 then http_tr58
     else if w \<in> {33, 61, 95, 126, 606, 635, 637} then goto_st 30
     else if w = 35 then http_tr59
     else if w = 37 then goto_st 31
     else if w < 36 then (if w \<le> - 1 then goto_st 30
       else goto_st 0)
     else if 59 < w then (if 90 < w then (if 97 \<le> w \<and> w \<le> 122 then goto_st 30
         else goto_st 0)
       else if 63 \<le> w then goto_st 30
       else goto_st 0)
     else goto_st 30)"

definition http_st31 :: "bool \<Rightarrow> int \<Rightarrow> http_target" where
  "http_st31 relaxed c =
    (if c < 65 then (if 48 \<le> c \<and> c \<le> 57 then goto_st 32
       else goto_st 0)
     else if 70 < c then (if 97 \<le> c \<and> c \<le> 102 then goto_st 32
       else goto_st 0)
     else goto_st 32)"

definition http_st32 :: "bool \<Rightarrow> int \<Rightarrow> http_target" where
  "http_st32 relaxed c =
    (if c < 65 then (if 48 \<le> c \<and> c \<le> 57 then goto_st 30
       else goto_st 0)
     else if 70 < c then (if 97 \<le> c \<and> c \<le> 102 then goto_st 30
       else goto_st 0)
     else goto_st 30)"

definition http_st33 :: "bool \<Rightarrow> int \<Rightarrow> http_target" where
  "http_st33 relaxed c =
    (let w = widec relaxed c in
     if w = 32 then http_tr37
     else if w \<in> {33, 61, 95, 126, 606, 635, 637} then goto_st 26
     else if w = 35 then http_tr39
     else if w = 37 then goto_st 27
     else if w = 47 then goto_st 34
     else if w = 63 then http_tr42
     else if w < 36 then (if w \<le> - 1 then goto_st 26
       else goto_st 0)
     else if 59 < w then (if 90 < w then (if 97 \<le> w \<and> w \<le> 122 then goto_st 26
         else goto_st 0)
       else if 64 \<le> w then goto_st 26
       else goto_st 0)
     else goto_st 26)"

definition http_st34 :: "bool \<Rightarrow> int \<Rightarrow> http_target" where
  "http_st34 relaxed c =
    (let w = widec relaxed c in
     if w = 32 then http_tr37
     else if w \<in> {33, 61, 95, 126, 606, 635, 637} then goto_st 35
     else if w = 35 then http_tr39
     else if w = 37 then goto_st 36
     else if w = 47 then goto_st 26
     else if w = 58 then goto_st 38
     else if w = 63 then http_tr42
     else if w = 64 then goto_st 42
     else if w = 91 then goto_st 47
     else if w < 65 then (if 36 \<le> w \<and> w \<le> 59 then goto_st 35
       else goto_st 0)
     else if 90 < w then (if 97 \<le> w \<and> w \<le> 122 then goto_st 35
       else goto_st 0)
     else goto_st 35)"

definition http_st35 :: "bool \<Rightarrow> int \<Rightarrow> http_target" where
  "http_st35 relaxed c =
    (let w = widec relaxed c in
     if w = 32 then http_tr37
     else if w \<in> {33, 61, 95, 126, 606, 635, 637} then goto_st 35
     else if w = 35 then http_tr39
     else if w = 37 then goto_st 36
     else if w = 47 then goto_st 26
     else if w = 58 then goto_st 38
     else if w = 63 then http_tr42
     else if w = 64 then goto_st 42
     else if w < 65 then (if 36 \<le> w \<and> w \<le> 59 then goto_st 35
       else goto_st 0)
     else if 90 < w then (if 97 \<le> w \<and> w \<le> 122 then goto_st 35
       else goto_st 0)
     else goto_st 35)"

definition http_st36 :: "bool \<Rightarrow> int \<Rightarrow> http_target" where
  "http_st36 relaxed c =
    (if c < 65 then (if 48 \<le> c \<and> c \<le> 57 then goto_st 37
       else goto_st 0)
     else if 70 < c then (if 97 \<le> c \<and> c \<le> 102 then goto_st 37
       else goto_st 0)
     else goto_st 37)"

definition http_st37 :: "bool \<Rightarrow> int \<Rightarrow> http_target" where
  "http_st37 relaxed c =
    (if c < 65 then (if 48 \<le> c \<and> c \<le> 57 then goto_st 35
       else goto_st 0)
     else if 70 < c then (if 97 \<le> c \<and> c \<le> 102 then goto_st 35
       else goto_st 0)
     else goto_st 35)"

definition http_st38 :: "bool \<Rightarrow> int \<Rightarrow> http_target" where
  "http_st38 relaxed c =
    (let w = widec relaxed c in
     if w = 32 then http_tr37
     else if w \<in> {33, 61, 95, 126, 606, 635, 637} then goto_st 39
     else if w = 35 then http_tr39
     else if w = 37 then goto_st 40
     else if w = 47 then goto_st 26
     else if w = 63 then http_tr42
     else if w = 64 then goto_st 42
     else if w < 58 then (if 46 < w then (if 48 \<le> w \<and> w \<le> 57 then goto_st 38
         else goto_st 0)
       else if 36 \<le> w then goto_st 39
       else goto_st 0)
     else if 59 < w then (if 90 < w then (if 97 \<le> w \<and> w \<le> 122 then goto_st 39
         else goto_st 0)
       else if 65 \<le> w then goto_st 39
       else goto_st 0)
     else goto_st 39)"

definition http_st39 :: "bool \<Rightarrow> int \<Rightarrow> http_target" where
  "http_st39 relaxed c =
    (let w = widec relaxed c in
     if w \<in> {33, 61, 95, 126, 606, 635, 637} then goto_st 39
     else if w = 37 then goto_st 40
     else if w = 64 then goto_st 42
     else if w < 48 then (if 36 \<le> w \<and> w \<le> 46 then goto_st 39
       else goto_st 0)
     else if 59 < w then (if 90 < w then (if 97 \<le> w \<and> w \<le> 122 then goto_st 39
         else goto_st 0)
       else if 65 \<le> w then goto_st 39
       else goto_st 0)
     else goto_st 39)"

definition http_st40 :: "bool \<Rightarrow> int \<Rightarrow> http_target" where
  "http_st40 relaxed c =
    (if c < 65 then (if 48 \<le> c \<and> c \<le> 57 then goto_st 41
       else goto_st 0)
     else if 70 < c then (if 97 \<le> c \<and> c \<le> 102 then goto_st 41
       else goto_st 0)
     else goto_st 41)"

definition http_st41 :: "bool \<Rightarrow> int \<Rightarrow> http_target" where
  "http_st41 relaxed c =
    (if c < 65 then (if 48 \<le> c \<and> c \<le> 57 then goto_st 39
       else goto_st 0)
     else if 70 < c then (if 97 \<le> c \<and> c \<le> 102 then goto_st 39
       else goto_st 0)
     else goto_st 39)"

definition http_st42 :: "bool \<Rightarrow> int \<Rightarrow> http_target" where
  "http_st42 relaxed c =
    (let w = widec relaxed c in
     if w = 32 then http_tr37
     else if w \<in> {33, 61, 95, 126, 606, 635, 637} then goto_st 43
     else if w = 35 then http_tr39
     else if w = 37 then goto_st 44
     else if w = 47 then goto_st 26
     else if w = 58 then goto_st 46
     else if w = 63 then http_tr42
     else if w = 91 then goto_st 47
     else if w < 65 then (if 36 \<le> w \<and> w \<le> 59 then goto_st 43
       else goto_st 0)
     else if 90 < w then (if 97 \<le> w \<and> w \<le> 122 then goto_st 43
       else goto_st 0)
     else goto_st 43)"

definition http_st43 :: "bool \<Rightarrow> int \<Rightarrow> http_target" where
  "http_st43 relaxed c =
    (let w = widec relaxed c in
     if w = 32 then http_tr37
     else if w \<in> {33, 61, 95, 126, 606, 635, 637} then goto_st 43
     else if w = 35 then http_tr39
     else if w = 37 then goto_st 44
     else if w = 47 then goto_st 26
     else if w = 58 then goto_st 46
     else if w = 63 then http_tr42
     else if w < 65 then (if 36 \<le> w \<and> w \<le> 59 then goto_st 43
       else goto_st 0)
     else if 90 < w then (if 97 \<le> w \<and> w \<le> 122 then goto_st 43
       else goto_st 0)
     else goto_st 43)"

definition http_st44 :: "bool \<Rightarrow> int \<Rightarrow> http_target" where
  "http_st44 relaxed c =
    (if c < 65 then (if 48 \<le> c \<and> c \<le> 57 then goto_st 45
       else goto_st 0)
     else if 70 < c then (if 97 \<le> c \<and> c \<le> 102 then goto_st 45
       else goto_st 0)
     else goto_st 45)"

definition http_st45 :: "bool \<Rightarrow> int \<Rightarrow> http_target" where
  "http_st45 relaxed c =
    (if c < 65 then (if 48 \<le> c \<and> c \<le> 57 then goto_st 43
       else goto_st 0)
     else if 70 < c then (if 97 \<le> c \<and> c \<le> 102 then goto_st 43
       else goto_st 0)
     else goto_st 43)"

definition http_st46 :: "bool \<Rightarrow> int \<Rightarrow> http_target" where
  "http_st46 relaxed c =
    (if c = 32 then http_tr37
     else if c = 35 then http_tr39
     else if c = 47 then goto_st 26
     else if c = 63 then http_tr42
     else if 48 \<le> c \<and> c \<le> 57 then goto_st 46
     else goto_st 0)"

definition http_st47 :: "bool \<Rightarrow> int \<Rightarrow> http_target" where
  "http_st47 relaxed c =
    (if c = 6 then goto_st 48
     else if c = 58 then goto_st 167
     else if c = 118 then goto_st 169
     else if c < 65 then (if 48 \<le> c \<and> c \<le> 57 then goto_st 91
       else goto_st 0)
     else if 70 < c then (if 97 \<le> c \<and> c \<le> 102 then goto_st 91
       else goto_st 0)
     else goto_st 91)"

definition http_st48 :: "bool \<Rightarrow> int \<Rightarrow> http_target" where
  "http_st48 relaxed c =
    (if c < 65 then (if 48 \<le> c \<and> c \<le> 57 then goto_st 49
       else goto_st 0)
     else if 70 < c then (if 97 \<le> c \<and> c \<le> 102 then goto_st 49
       else goto_st 0)
     else goto_st 49)"

definition http_st49 :: "bool \<Rightarrow> int \<Rightarrow> http_target" where
  "http_st49 relaxed c =
    (if c = 58 then goto_st 53
     else if c < 65 then (if 48 \<le> c \<and> c \<le> 57 then goto_st 50
       else goto_st 0)
     else if 70 < c then (if 97 \<le> c \<and> c \<le> 102 then goto_st 50
       else goto_st 0)
     else goto_st 50)"

definition http_st50 :: "bool \<Rightarrow> int \<Rightarrow> http_target" where
  "http_st50 relaxed c =
    (if c = 58 then goto_st 53
     else if c < 65 then (if 48 \<le> c \<and> c \<le> 57 then goto_st 51
       else goto_st 0)
     else if 70 < c then (if 97 \<le> c \<and> c \<le> 102 then goto_st 51
       else goto_st 0)
     else goto_st 51)"

definition http_st51 :: "bool \<Rightarrow> int \<Rightarrow> http_target" where
  "http_st51 relaxed c =
    (if c = 58 then goto_st 53
     else if c < 65 then (if 48 \<le> c \<and> c \<le> 57 then goto_st 52
       else goto_st 0)
     else if 70 < c then (if 97 \<le> c \<and> c \<le> 102 then goto_st 52
       else goto_st 0)
     else goto_st 52)"

definition http_st52 :: "bool \<Rightarrow> int \<Rightarrow> http_target" where
  "http_st52 relaxed c =
    (if c = 58 then goto_st 53
     else goto_st 0)"

definition http_st53 :: "bool \<Rightarrow> int \<Rightarrow> http_target" where
  "http_st53 relaxed c =
    (if c = 49 then goto_st 84
     else if c = 50 then goto_st 87
     else if c < 65 then (if 48 \<le> c \<and> c \<le> 57 then goto_st 54
       else goto_st 0)
     else if 70 < c then (if 97 \<le> c \<and> c \<le> 102 then goto_st 90
       else goto_st 0)
     else goto_st 90)"

definition http_st54 :: "bool \<Rightarrow> int \<Rightarrow> http_target" where
  "http_st54 relaxed c =
    (if c = 46 then goto_st 55
     else if c = 58 then goto_st 80
     else if c < 65 then (if 48 \<le> c \<and> c \<le> 57 then goto_st 77
       else goto_st 0)
     else if 70 < c then (if 97 \<le> c \<and> c \<le> 102 then goto_st 77
       else goto_st 0)
     else goto_st 77)"

definition http_st55 :: "bool \<Rightarrow> int \<Rightarrow> http_target" where
  "http_st55 relaxed c =
    (if c = 49 then goto_st 72
     else if c = 50 then goto_st 74
     else if 48 \<le> c \<and> c \<le> 57 then goto_st 56
     else goto_st 0)"

definition http_st56 :: "bool \<Rightarrow> int \<Rightarrow> http_target" where
  "http_st56 relaxed c =
    (if c = 46 then goto_st 57
     else goto_st 0)"

definition http_st57 :: "bool \<Rightarrow> int \<Rightarrow> http_target" where
  "http_st57 relaxed c =
    (if c = 49 then goto_st 67
     else if c = 50 then goto_st 69
     else if 48 \<le> c \<and> c \<le> 57 then goto_st 58
     else goto_st 0)"

definition http_st58 :: "bool \<Rightarrow> int \<Rightarrow> http_target" where
  "http_st58 relaxed c =
    (if c = 46 then goto_st 59
     else goto_st 0)"

definition http_st59 :: "bool \<Rightarrow> int \<Rightarrow> http_target" where
  "http_st59 relaxed c =
    (if c = 49 then goto_st 62
     else if c = 50 then goto_st 64
     else if 48 \<le> c \<and> c \<le> 57 then goto_st 60
     else goto_st 0)"

definition http_st60 :: "bool \<Rightarrow> int \<Rightarrow> http_target" where
  "http_st60 relaxed c =
    (if c = 93 then goto_st 61
     else goto_st 0)"

definition http_st61 :: "bool \<Rightarrow> int \<Rightarrow> http_target" where
  "http_st61 relaxed c =
    (if c = 32 then http_tr37
     else if c = 35 then http_tr39
     else if c = 47 then goto_st 26
     else if c = 58 then goto_st 46
     else if c = 63 then http_tr42
     else goto_st 0)"

definition http_st62 :: "bool \<Rightarrow> int \<Rightarrow> http_target" where
  "http_st62 relaxed c =
    (if c = 93 then goto_st 61
     else if 48 \<le> c \<and> c \<le> 57 then goto_st 63
     else goto_st 0)"

definition http_st63 :: "bool \<Rightarrow> int \<Rightarrow> http_target" where
  "http_st63 relaxed c =
    (if c = 93 then goto_st 61
     else if 48 \<le> c \<and> c \<le> 57 then goto_st 60
     else goto_st 0)"

definition http_st64 :: "bool \<Rightarrow> int \<Rightarrow> http_target" where
  "http_st64 relaxed c =
    (if c = 48 then goto_st 65
     else if c = 53 then goto_st 66
     else if c = 93 then goto_st 61
     else goto_st 0)"

definition http_st65 :: "bool \<Rightarrow> int \<Rightarrow> http_target" where
  "http_st65 relaxed c =
    (if 48 \<le> c \<and> c \<le> 57 then goto_st 60
     else goto_st 0)"

definition http_st66 :: "bool \<Rightarrow> int \<Rightarrow> http_target" where
  "http_st66 relaxed c =
    (if c = 48 then goto_st 60
     else goto_st 0)"

definition http_st67 :: "bool \<Rightarrow> int \<Rightarrow> http_target" where
  "http_st67 relaxed c =
    (if c = 46 then goto_st 59
     else if 48 \<le> c \<and> c \<le> 57 then goto_st 68
     else goto_st 0)"

definition http_st68 :: "bool \<Rightarrow> int \<Rightarrow> http_target" where
  "http_st68 relaxed c =
    (if c = 46 then goto_st 59
     else if 48 \<le> c \<and> c \<le> 57 then goto_st 58
     else goto_st 0)"

definition http_st69 :: "bool \<Rightarrow> int \<Rightarrow> http_target" where
  "http_st69 relaxed c =
    (if c = 46 then goto_st 59
     else if c = 48 then goto_st 70
     else if c = 53 then goto_st 71
     else goto_st 0)"

definition http_st70 :: "bool \<Rightarrow> int \<Rightarrow> http_target" where
  "http_st70 relaxed c =
    (if 48 \<le> c \<and> c \<le> 57 then goto_st 58
     else goto_st 0)"

definition http_st71 :: "bool \<Rightarrow> int \<Rightarrow> http_target" where
  "http_st71 relaxed c =
    (if c = 48 then goto_st 58
     else goto_st 0)"

definition http_st72 :: "bool \<Rightarrow> int \<Rightarrow> http_target" where
  "http_st72 relaxed c =
    (if c = 46 then goto_st 57
     else if 48 \<le> c \<and> c \<le> 57 then goto_st 73
     else goto_st 0)"

definition http_st73 :: "bool \<Rightarrow> int \<Rightarrow> http_target" where
  "http_st73 relaxed c =
    (if c = 46 then goto_st 57
     else if 48 \<le> c \<and> c \<le> 57 then goto_st 56
     else goto_st 0)"

definition http_st74 :: "bool \<Rightarrow> int \<Rightarrow> http_target" where
  "http_st74 relaxed c =
    (if c = 46 then goto_st 57
     else if c = 48 then goto_st 75
     else if c = 53 then goto_st 76
     else goto_st 0)"

definition http_st75 :: "bool \<Rightarrow> int \<Rightarrow> http_target" where
  "http_st75 relaxed c =
    (if 48 \<le> c \<and> c \<le> 57 then goto_st 56
     else goto_st 0)"

definition http_st76 :: "bool \<Rightarrow> int \<Rightarrow> http_target" where
  "http_st76 relaxed c =
    (if c = 48 then goto_st 56
     else goto_st 0)"

definition http_st77 :: "bool \<Rightarrow> int \<Rightarrow> http_target" where
  "http_st77 relaxed c =
    (if c = 58 then goto_st 80
     else if c < 65 then (if 48 \<le> c \<and> c \<le> 57 then goto_st 78
       else goto_st 0)
     else if 70 < c then (if 97 \<le> c \<and> c \<le> 102 then goto_st 78
       else goto_st 0)
     else goto_st 78)"

definition http_st78 :: "bool \<Rightarrow> int \<Rightarrow> http_target" where
  "http_st78 relaxed c =
    (if c = 58 then goto_st 80
     else if c < 65 then (if 48 \<le> c \<and> c \<le> 57 then goto_st 79
       else goto_st 0)
     else if 70 < c then (if 97 \<le> c \<and> c \<le> 102 then goto_st 79
       else goto_st 0)
     else goto_st 79)"

definition http_st79 :: "bool \<Rightarrow> int \<Rightarrow> http_target" where
  "http_st79 relaxed c =
    (if c = 58 then goto_st 80
     else goto_st 0)"

definition http_st80 :: "bool \<Rightarrow> int \<Rightarrow> http_target" where
  "http_st80 relaxed c =
    (if c < 65 then (if 48 \<le> c \<and> c \<le> 57 then goto_st 81
       else goto_st 0)
     else if 70 < c then (if 97 \<le> c \<and> c \<le> 102 then goto_st 81
       else goto_st 0)
     else goto_st 81)"

definition http_st81 :: "bool \<Rightarrow> int \<Rightarrow> http_target" where
  "http_st81 relaxed c =
    (if c = 93 then goto_st 61
     else if c < 65 then (if 48 \<le> c \<and> c \<le> 57 then goto_st 82
       else goto_st 0)
     else if 70 < c then (if 97 \<le> c \<and> c \<le> 102 then goto_st 82
       else goto_st 0)
     else goto_st 82)"

definition http_st82 :: "bool \<Rightarrow> int \<Rightarrow> http_target" where
  "http_st82 relaxed c =
    (if c = 93 then goto_st 61
     else if c < 65 then (if 48 \<le> c \<and> c \<le> 57 then goto_st 83
       else goto_st 0)
     else if 70 < c then (if 97 \<le> c \<and> c \<le> 102 then goto_st 83
       else goto_st 0)
     else goto_st 83)"

definition http_st83 :: "bool \<Rightarrow> int \<Rightarrow> http_target" where
  "http_st83 relaxed c =
    (if c = 93 then goto_st 61
     else if c < 65 then (if 48 \<le> c \<and> c \<le> 57 then goto_st 60
       else goto_st 0)
     else if 70 < c then (if 97 \<le> c \<and> c \<le> 102 then goto_st 60
       else goto_st 0)
     else goto_st 60)"

definition http_st84 :: "bool \<Rightarrow> int \<Rightarrow> http_target" where
  "http_st84 relaxed c =
    (if c = 46 then goto_st 55
     else if c = 58 then goto_st 80
     else if c < 65 then (if 48 \<le> c \<and> c \<le> 57 then goto_st 85
       else goto_st 0)
     else if 70 < c then (if 97 \<le> c \<and> c \<le> 102 then goto_st 77
       else goto_st 0)
     else goto_st 77)"

definition http_st85 :: "bool \<Rightarrow> int \<Rightarrow> http_target" where
  "http_st85 relaxed c =
    (if c = 46 then goto_st 55
     else if c = 58 then goto_st 80
     else if c < 65 then (if 48 \<le> c \<and> c \<le> 57 then goto_st 86
       else goto_st 0)
     else if 70 < c then (if 97 \<le> c \<and> c \<le> 102 then goto_st 78
       else goto_st 0)
     else goto_st 78)"

definition http_st86 :: "bool \<Rightarrow> int \<Rightarrow> http_target" where
  "http_st86 relaxed c =
    (if c = 46 then goto_st 55
     else if c = 58 then goto_st 80
     else if c < 65 then (if 48 \<le> c \<and> c \<le> 57 then goto_st 79
       else goto_st 0)
     else if 70 < c then (if 97 \<le> c \<and> c \<le> 102 then goto_st 79
       else goto_st 0)
     else goto_st 79)"

definition http_st87 :: "bool \<Rightarrow> int \<Rightarrow> http_target" where
  "http_st87 relaxed c =
    (if c = 46 then goto_st 55
     else if c = 48 then goto_st 88
     else if c = 53 then goto_st 89
     else if c = 58 then goto_st 80
     else if c < 65 then (if 49 \<le> c \<and> c \<le> 57 then goto_st 77
       else goto_st 0)
     else if 70 < c then (if 97 \<le> c \<and> c \<le> 102 then goto_st 77
       else goto_st 0)
     else goto_st 77)"

definition http_st88 :: "bool \<Rightarrow> int \<Rightarrow> http_target" where
  "http_st88 relaxed c =
    (if c = 58 then goto_st 80
     else if c < 65 then (if 48 \<le> c \<and> c \<le> 57 then goto_st 86
       else goto_st 0)
     else if 70 < c then (if 97 \<le> c \<and> c \<le> 102 then goto_st 78
       else goto_st 0)
     else goto_st 78)"

definition http_st89 :: "bool \<Rightarrow> int \<Rightarrow> http_target" where
  "http_st89 relaxed c =
    (if c = 48 then goto_st 86
     else if c = 58 then goto_st 80
     else if c < 65 then (if 49 \<le> c \<and> c \<le> 57 then goto_st 78
       else goto_st 0)
     else if 70 < c then (if 97 \<le> c \<and> c \<le> 102 then goto_st 78
       else goto_st 0)
     else goto_st 78)"

definition http_st90 :: "bool \<Rightarrow> int \<Rightarrow> http_target" where
  "http_st90 relaxed c =
    (if c = 58 then goto_st 80
     else if c < 65 then (if 48 \<le> c \<and> c \<le> 57 then goto_st 77
       else goto_st 0)
     else if 70 < c then (if 97 \<le> c \<and> c \<le> 102 then goto_st 77
       else goto_st 0)
     else goto_st 77)"

definition http_st91 :: "bool \<Rightarrow> int \<Rightarrow> http_target" where
  "http_st91 relaxed c =
    (if c = 58 then goto_st 95
     else if c < 65 then (if 48 \<le> c \<and> c \<le> 57 then goto_st 92
       else goto_st 0)
     else if 70 < c then (if 97 \<le> c \<and> c \<le> 102 then goto_st 92
       else goto_st 0)
     else goto_st 92)"

definition http_st92 :: "bool \<Rightarrow> int \<Rightarrow> http_target" where
  "http_st92 relaxed c =
    (if c = 58 then goto_st 95
     else if c < 65 then (if 48 \<le> c \<and> c \<le> 57 then goto_st 93
       else goto_st 0)
     else if 70 < c then (if 97 \<le> c \<and> c \<le> 102 then goto_st 93
       else goto_st 0)
     else goto_st 93)"

definition http_st93 :: "bool \<Rightarrow> int \<Rightarrow> http_target" where
  "http_st93 relaxed c =
    (if c = 58 then goto_st 95
     else if c < 65 then (if 48 \<le> c \<and> c \<le> 57 then goto_st 94
       else goto_st 0)
     else if 70 < c then (if 97 \<le> c \<and> c \<le> 102 then goto_st 94
       else goto_st 0)
     else goto_st 94)"

definition http_st94 :: "bool \<Rightarrow> int \<Rightarrow> http_target" where
  "http_st94 relaxed c =
    (if c = 58 then goto_st 95
     else goto_st 0)"

definition http_st95 :: "bool \<Rightarrow> int \<Rightarrow> http_target" where
  "http_st95 relaxed c =
    (if c = 58 then goto_st 166
     else if c < 65 then (if 48 \<le> c \<and> c \<le> 57 then goto_st 96
       else goto_st 0)
     else if 70 < c then (if 97 \<le> c \<and> c \<le> 102 then goto_st 96
       else goto_st 0)
     else goto_st 96)"

definition http_st96 :: "bool \<Rightarrow> int \<Rightarrow> http_target" where
  "http_st96 relaxed c =
    (if c = 58 then goto_st 100
     else if c < 65 then (if 48 \<le> c \<and> c \<le> 57 then goto_st 97
       else goto_st 0)
     else if 70 < c then (if 97 \<le> c \<and> c \<le> 102 then goto_st 97
       else goto_st 0)
     else goto_st 97)"

definition http_st97 :: "bool \<Rightarrow> int \<Rightarrow> http_target" where
  "http_st97 relaxed c =
    (if c = 58 then goto_st 100
     else if c < 65 then (if 48 \<le> c \<and> c \<le> 57 then goto_st 98
       else goto_st 0)
     else if 70 < c then (if 97 \<le> c \<and> c \<le> 102 then goto_st 98
       else goto_st 0)
     else goto_st 98)"

definition http_st98 :: "bool \<Rightarrow> int \<Rightarrow> http_target" where
  "http_st98 relaxed c =
    (if c = 58 then goto_st 100
     else if c < 65 then (if 48 \<le> c \<and> c \<le> 57 then goto_st 99
       else goto_st 0)
     else if 70 < c then (if 97 \<le> c \<and> c \<le> 102 then goto_st 99
       else goto_st 0)
     else goto_st 99)"

definition http_st99 :: "bool \<Rightarrow> int \<Rightarrow> http_target" where
  "http_st99 relaxed c =
    (if c = 58 then goto_st 100
     else goto_st 0)"

definition http_st100 :: "bool \<Rightarrow> int \<Rightarrow> http_target" where
  "http_st100 relaxed c =
    (if c = 58 then goto_st 165
     else if c < 65 then (if 48 \<le> c \<and> c \<le> 57 then goto_st 101
       else goto_st 0)
     else if 70 < c then (if 97 \<le> c \<and> c \<le> 102 then goto_st 101
       else goto_st 0)
     else goto_st 101)"

definition http_st101 :: "bool \<Rightarrow> int \<Rightarrow> http_target" where
  "http_st101 relaxed c =
    (if c = 58 then goto_st 105
     else if c < 65 then (if 48 \<le> c \<and> c \<le> 57 then goto_st 102
       else goto_st 0)
     else if 70 < c then (if 97 \<le> c \<and> c \<le> 102 then goto_st 102
       else goto_st 0)
     else goto_st 102)"

definition http_st102 :: "bool \<Rightarrow> int \<Rightarrow> http_target" where
  "http_st102 relaxed c =
    (if c = 58 then goto_st 105
     else if c < 65 then (if 48 \<le> c \<and> c \<le> 57 then goto_st 103
       else goto_st 0)
     else if 70 < c then (if 97 \<le> c \<and> c \<le> 102 then goto_st 103
       else goto_st 0)
     else goto_st 103)"

definition http_st103 :: "bool \<Rightarrow> int \<Rightarrow> http_target" where
  "http_st103 relaxed c =
    (if c = 58 then goto_st 105
     else if c < 65 then (if 48 \<le> c \<and> c \<le> 57 then goto_st 104
       else goto_st 0)
     else if 70 < c then (if 97 \<le> c \<and> c \<le> 102 then goto_st 104
       else goto_st 0)
     else goto_st 104)"

definition http_st104 :: "bool \<Rightarrow> int \<Rightarrow> http_target" where
  "http_st104 relaxed c =
    (if c = 58 then goto_st 105
     else goto_st 0)"

definition http_st105 :: "bool \<Rightarrow> int \<Rightarrow> http_target" where
  "http_st105 relaxed c =
    (if c = 58 then goto_st 164
     else if c < 65 then (if 48 \<le> c \<and> c \<le> 57 then goto_st 106
       else goto_st 0)
     else if 70 < c then (if 97 \<le> c \<and> c \<le> 102 then goto_st 106
       else goto_st 0)
     else goto_st 106)"

definition http_st106 :: "bool \<Rightarrow> int \<Rightarrow> http_target" where
  "http_st106 relaxed c =
    (if c = 58 then goto_st 110
     else if c < 65 then (if 48 \<le> c \<and> c \<le> 57 then goto_st 107
       else goto_st 0)
     else if 70 < c then (if 97 \<le> c \<and> c \<le> 102 then goto_st 107
       else goto_st 0)
     else goto_st 107)"

definition http_st107 :: "bool \<Rightarrow> int \<Rightarrow> http_target" where
  "http_st107 relaxed c =
    (if c = 58 then goto_st 110
     else if c < 65 then (if 48 \<le> c \<and> c \<le> 57 then goto_st 108
       else goto_st 0)
     else if 70 < c then (if 97 \<le> c \<and> c \<le> 102 then goto_st 108
       else goto_st 0)
     else goto_st 108)"

definition http_st108 :: "bool \<Rightarrow> int \<Rightarrow> http_target" where
  "http_st108 relaxed c =
    (if c = 58 then goto_st 110
     else if c < 65 then (if 48 \<le> c \<and> c \<le> 57 then goto_st 109
       else goto_st 0)
     else if 70 < c then (if 97 \<le> c \<and> c \<le> 102 then goto_st 109
       else goto_st 0)
     else goto_st 109)"

definition http_st109 :: "bool \<Rightarrow> int \<Rightarrow> http_target" where
  "http_st109 relaxed c =
    (if c = 58 then goto_st 110
     else goto_st 0)"

definition http_st110 :: "bool \<Rightarrow> int \<Rightarrow> http_target" where
  "http_st110 relaxed c =
    (if c = 58 then goto_st 163
     else if c < 65 then (if 48 \<le> c \<and> c \<le> 57 then goto_st 111
       else goto_st 0)
     else if 70 < c then (if 97 \<le> c \<and> c \<le> 102 then goto_st 111
       else goto_st 0)
     else goto_st 111)"

definition http_st111 :: "bool \<Rightarrow> int \<Rightarrow> http_target" where
  "http_st111 relaxed c =
    (if c = 58 then goto_st 115
     else if c < 65 then (if 48 \<le> c \<and> c \<le> 57 then goto_st 112
       else goto_st 0)
     else if 70 < c then (if 97 \<le> c \<and> c \<le> 102 then goto_st 112
       else goto_st 0)
     else goto_st 112)"

definition http_st112 :: "bool \<Rightarrow> int \<Rightarrow> http_target" where
  "http_st112 relaxed c =
    (if c = 58 then goto_st 115
     else if c < 65 then (if 48 \<le> c \<and> c \<le> 57 then goto_st 113
       else goto_st 0)
     else if 70 < c then (if 97 \<le> c \<and> c \<le> 102 then goto_st 113
       else goto_st 0)
     else goto_st 113)"

definition http_st113 :: "bool \<Rightarrow> int \<Rightarrow> http_target" where
  "http_st113 relaxed c =
    (if c = 58 then goto_st 115
     else if c < 65 then (if 48 \<le> c \<and> c \<le> 57 then goto_st 114
       else goto_st 0)
     else if 70 < c then (if 97 \<le> c \<and> c \<le> 102 then goto_st 114
       else goto_st 0)
     else goto_st 114)"

definition http_st114 :: "bool \<Rightarrow> int \<Rightarrow> http_target" where
  "http_st114 relaxed c =
    (if c = 58 then goto_st 115
     else goto_st 0)"

definition http_st115 :: "bool \<Rightarrow> int \<Rightarrow> http_target" where
  "http_st115 relaxed c =
    (if c = 58 then goto_st 151
     else if c < 65 then (if 48 \<le> c \<and> c \<le> 57 then goto_st 116
       else goto_st 0)
     else if 70 < c then (if 97 \<le> c \<and> c \<le> 102 then goto_st 116
       else goto_st 0)
     else goto_st 116)"

definition http_st116 :: "bool \<Rightarrow> int \<Rightarrow> http_target" where
  "http_st116 relaxed c =
    (if c = 58 then goto_st 120
     else if c < 65 then (if 48 \<le> c \<and> c \<le> 57 then goto_st 117
       else goto_st 0)
     else if 70 < c then (if 97 \<le> c \<and> c \<le> 102 then goto_st 117
       else goto_st 0)
     else goto_st 117)"

definition http_st117 :: "bool \<Rightarrow> int \<Rightarrow> http_target" where
  "http_st117 relaxed c =
    (if c = 58 then goto_st 120
     else if c < 65 then (if 48 \<le> c \<and> c \<le> 57 then goto_st 118
       else goto_st 0)
     else if 70 < c then (if 97 \<le> c \<and> c \<le> 102 then goto_st 118
       else goto_st 0)
     else goto_st 118)"

definition http_st118 :: "bool \<Rightarrow> int \<Rightarrow> http_target" where
  "http_st118 relaxed c =
    (if c = 58 then goto_st 120
     else if c < 65 then (if 48 \<le> c \<and> c \<le> 57 then goto_st 119
       else goto_st 0)
     else if 70 < c then (if 97 \<le> c \<and> c \<le> 102 then goto_st 119
       else goto_st 0)
     else goto_st 119)"

definition http_st119 :: "bool \<Rightarrow> int \<Rightarrow> http_target" where
  "http_st119 relaxed c =
    (if c = 58 then goto_st 120
     else goto_st 0)"

definition http_st120 :: "bool \<Rightarrow> int \<Rightarrow> http_target" where
  "http_st120 relaxed c =
    (if c = 58 then goto_st 150
     else if c < 65 then (if 48 \<le> c \<and> c \<le> 57 then goto_st 121
       else goto_st 0)
     else if 70 < c then (if 97 \<le> c \<and> c \<le> 102 then goto_st 121
       else goto_st 0)
     else goto_st 121)"

definition http_st121 :: "bool \<Rightarrow> int \<Rightarrow> http_target" where
  "http_st121 relaxed c =
    (if c = 58 then goto_st 125
     else if c < 65 then (if 48 \<le> c \<and> c \<le> 57 then goto_st 122
       else goto_st 0)
     else if 70 < c then (if 97 \<le> c \<and> c \<le> 102 then goto_st 122
       else goto_st 0)
     else goto_st 122)"

definition http_st122 :: "bool \<Rightarrow> int \<Rightarrow> http_target" where
  "http_st122 relaxed c =
    (if c = 58 then goto_st 125
     else if c < 65 then (if 48 \<le> c \<and> c \<le> 57 then goto_st 123
       else goto_st 0)
     else if 70 < c then (if 97 \<le> c \<and> c \<le> 102 then goto_st 123
       else goto_st 0)
     else goto_st 123)"

definition http_st123 :: "bool \<Rightarrow> int \<Rightarrow> http_target" where
  "http_st123 relaxed c =
    (if c = 58 then goto_st 125
     else if c < 65 then (if 48 \<le> c \<and> c \<le> 57 then goto_st 124
       else goto_st 0)
     else if 70 < c then (if 97 \<le> c \<and> c \<le> 102 then goto_st 124
       else goto_st 0)
     else goto_st 124)"

definition http_st124 :: "bool \<Rightarrow> int \<Rightarrow> http_target" where
  "http_st124 relaxed c =
    (if c = 58 then goto_st 125
     else goto_st 0)"

definition http_st125 :: "bool \<Rightarrow> int \<Rightarrow> http_target" where
  "http_st125 relaxed c =
    (if c = 58 then goto_st 126
     else if c < 65 then (if 48 \<le> c \<and> c \<le> 57 then goto_st 121
       else goto_st 0)
     else if 70 < c then (if 97 \<le> c \<and> c \<le> 102 then goto_st 121
       else goto_st 0)
     else goto_st 121)"

definition http_st126 :: "bool \<Rightarrow> int \<Rightarrow> http_target" where
  "http_st126 relaxed c =
    (if c = 49 then goto_st 143
     else if c = 50 then goto_st 146
     else if c = 93 then goto_st 61
     else if c < 48 then (if 2 \<le> c \<and> c \<le> 3 then goto_st 48
       else goto_st 0)
     else if 57 < c then (if 70 < c then (if 97 \<le> c \<and> c \<le> 102 then goto_st 149
         else goto_st 0)
       else if 65 \<le> c then goto_st 149
       else goto_st 0)
     else goto_st 127)"

definition http_st127 :: "bool \<Rightarrow> int \<Rightarrow> http_target" where
  "http_st127 relaxed c =
    (if c = 46 then goto_st 55
     else if c = 58 then goto_st 131
     else if c = 93 then goto_st 61
     else if c < 65 then (if 48 \<le> c \<and> c \<le> 57 then goto_st 128
       else goto_st 0)
     else if 70 < c then (if 97 \<le> c \<and> c \<le> 102 then goto_st 128
       else goto_st 0)
     else goto_st 128)"

definition http_st128 :: "bool \<Rightarrow> int \<Rightarrow> http_target" where
  "http_st128 relaxed c =
    (if c = 58 then goto_st 131
     else if c = 93 then goto_st 61
     else if c < 65 then (if 48 \<le> c \<and> c \<le> 57 then goto_st 129
       else goto_st 0)
     else if 70 < c then (if 97 \<le> c \<and> c \<le> 102 then goto_st 129
       else goto_st 0)
     else goto_st 129)"

definition http_st129 :: "bool \<Rightarrow> int \<Rightarrow> http_target" where
  "http_st129 relaxed c =
    (if c = 58 then goto_st 131
     else if c = 93 then goto_st 61
     else if c < 65 then (if 48 \<le> c \<and> c \<le> 57 then goto_st 130
       else goto_st 0)
     else if 70 < c then (if 97 \<le> c \<and> c \<le> 102 then goto_st 130
       else goto_st 0)
     else goto_st 130)"

definition http_st130 :: "bool \<Rightarrow> int \<Rightarrow> http_target" where
  "http_st130 relaxed c =
    (if c = 58 then goto_st 131
     else if c = 93 then goto_st 61
     else goto_st 0)"

definition http_st131 :: "bool \<Rightarrow> int \<Rightarrow> http_target" where
  "http_st131 relaxed c =
    (if c = 49 then goto_st 136
     else if c = 50 then goto_st 139
     else if c < 65 then (if 48 \<le> c \<and> c \<le> 57 then goto_st 132
       else goto_st 0)
     else if 70 < c then (if 97 \<le> c \<and> c \<le> 102 then goto_st 142
       else goto_st 0)
     else goto_st 142)"

definition http_st132 :: "bool \<Rightarrow> int \<Rightarrow> http_target" where
  "http_st132 relaxed c =
    (if c = 46 then goto_st 55
     else if c = 58 then goto_st 80
     else if c = 93 then goto_st 61
     else if c < 65 then (if 48 \<le> c \<and> c \<le> 57 then goto_st 133
       else goto_st 0)
     else if 70 < c then (if 97 \<le> c \<and> c \<le> 102 then goto_st 133
       else goto_st 0)
     else goto_st 133)"

definition http_st133 :: "bool \<Rightarrow> int \<Rightarrow> http_target" where
  "http_st133 relaxed c =
    (if c = 58 then goto_st 80
     else if c = 93 then goto_st 61
     else if c < 65 then (if 48 \<le> c \<and> c \<le> 57 then goto_st 134
       else goto_st 0)
     else if 70 < c then (if 97 \<le> c \<and> c \<le> 102 then goto_st 134
       else goto_st 0)
     else goto_st 134)"

definition http_st134 :: "bool \<Rightarrow> int \<Rightarrow> http_target" where
  "http_st134 relaxed c =
    (if c = 58 then goto_st 80
     else if c = 93 then goto_st 61
     else if c < 65 then (if 48 \<le> c \<and> c \<le> 57 then goto_st 135
       else goto_st 0)
     else if 70 < c then (if 97 \<le> c \<and> c \<le> 102 then goto_st 135
       else goto_st 0)
     else goto_st 135)"

definition http_st135 :: "bool \<Rightarrow> int \<Rightarrow> http_target" where
  "http_st135 relaxed c =
    (if c = 58 then goto_st 80
     else if c = 93 then goto_st 61
     else goto_st 0)"

definition http_st136 :: "bool \<Rightarrow> int \<Rightarrow> http_target" where
  "http_st136 relaxed c =
    (if c = 46 then goto_st 55
     else if c = 58 then goto_st 80
     else if c = 93 then goto_st 61
     else if c < 65 then (if 48 \<le> c \<and> c \<le> 57 then goto_st 137
       else goto_st 0)
     else if 70 < c then (if 97 \<le> c \<and> c \<le> 102 then goto_st 133
       else goto_st 0)
     else goto_st 133)"

definition http_st137 :: "bool \<Rightarrow> int \<Rightarrow> http_target" where
  "http_st137 relaxed c =
    (if c = 46 then goto_st 55
     else if c = 58 then goto_st 80
     else if c = 93 then goto_st 61
     else if c < 65 then (if 48 \<le> c \<and> c \<le> 57 then goto_st 138
       else goto_st 0)
     else if 70 < c then (if 97 \<le> c \<and> c \<le> 102 then goto_st 134
       else goto_st 0)
     else goto_st 134)"

definition http_st138 :: "bool \<Rightarrow> int \<Rightarrow> http_target" where
  "http_st138 relaxed c =
    (if c = 46 then goto_st 55
     else if c = 58 then goto_st 80
     else if c = 93 then goto_st 61
     else if c < 65 then (if 48 \<le> c \<and> c \<le> 57 then goto_st 135
       else goto_st 0)
     else if 70 < c then (if 97 \<le> c \<and> c \<le> 102 then goto_st 135
       else goto_st 0)
     else goto_st 135)"

definition http_st139 :: "bool \<Rightarrow> int \<Rightarrow> http_target" where
  "http_st139 relaxed c =
    (if c = 46 then goto_st 55
     else if c = 48 then goto_st 140
     else if c = 53 then goto_st 141
     else if c = 58 then goto_st 80
     else if c = 93 then goto_st 61
     else if c < 65 then (if 49 \<le> c \<and> c \<le> 57 then goto_st 133
       else goto_st 0)
     else if 70 < c then (if 97 \<le> c \<and> c \<le> 102 then goto_st 133
       else goto_st 0)
     else goto_st 133)"

definition http_st140 :: "bool \<Rightarrow> int \<Rightarrow> http_target" where
  "http_st140 relaxed c =
    (if c = 58 then goto_st 80
     else if c = 93 then goto_st 61
     else if c < 65 then (if 48 \<le> c \<and> c \<le> 57 then goto_st 138
       else goto_st 0)
     else if 70 < c then (if 97 \<le> c \<and> c \<le> 102 then goto_st 134
       else goto_st 0)
     else goto_st 134)"

definition http_st141 :: "bool \<Rightarrow> int \<Rightarrow> http_target" where
  "http_st141 relaxed c =
    (if c = 48 then goto_st 138
     else if c = 58 then goto_st 80
     else if c = 93 then goto_st 61
     else if c < 65 then (if 49 \<le> c \<and> c \<le> 57 then goto_st 134
       else goto_st 0)
     else if 70 < c then (if 97 \<le> c \<and> c \<le> 102 then goto_st 134
       else goto_st 0)
     else goto_st 134)"

definition http_st142 :: "bool \<Rightarrow> int \<Rightarrow> http_target" where
  "http_st142 relaxed c =
    (if c = 58 then goto_st 80
     else if c = 93 then goto_st 61
     else if c < 65 then (if 48 \<le> c \<and> c \<le> 57 then goto_st 133
       else goto_st 0)
     else if 70 < c then (if 97 \<le> c \<and> c \<le> 102 then goto_st 133
       else goto_st 0)
     else goto_st 133)"

definition http_st143 :: "bool \<Rightarrow> int \<Rightarrow> http_target" where
  "http_st143 relaxed c =
    (if c = 46 then goto_st 55
     else if c = 58 then goto_st 131
     else if c = 93 then goto_st 61
     else if c < 65 then (if 48 \<le> c \<and> c \<le> 57 then goto_st 144
       else goto_st 0)
     else if 70 < c then (if 97 \<le> c \<and> c \<le> 102 then goto_st 128
       else goto_st 0)
     else goto_st 128)"

definition http_st144 :: "bool \<Rightarrow> int \<Rightarrow> http_target" where
  "http_st144 relaxed c =
    (if c = 46 then goto_st 55
     else if c = 58 then goto_st 131
     else if c = 93 then goto_st 61
     else if c < 65 then (if 48 \<le> c \<and> c \<le> 57 then goto_st 145
       else goto_st 0)
     else if 70 < c then (if 97 \<le> c \<and> c \<le> 102 then goto_st 129
       else goto_st 0)
     else goto_st 129)"

definition http_st145 :: "bool \<Rightarrow> int \<Rightarrow> http_target" where
  "http_st145 relaxed c =
    (if c = 46 then goto_st 55
     else if c = 58 then goto_st 131
     else if c = 93 then goto_st 61
     else if c < 65 then (if 48 \<le> c \<and> c \<le> 57 then goto_st 130
       else goto_st 0)
     else if 70 < c then (if 97 \<le> c \<and> c \<le> 102 then goto_st 130
       else goto_st 0)
     else goto_st 130)"

definition http_st146 :: "bool \<Rightarrow> int \<Rightarrow> http_target" where
  "http_st146 relaxed c =
    (if c = 46 then goto_st 55
     else if c = 48 then goto_st 147
     else if c = 53 then goto_st 148
     else if c = 58 then goto_st 131
     else if c = 93 then goto_st 61
     else if c < 65 then (if 49 \<le> c \<and> c \<le> 57 then goto_st 128
       else goto_st 0)
     else if 70 < c then (if 97 \<le> c \<and> c \<le> 102 then goto_st 128
       else goto_st 0)
     else goto_st 128)"

definition http_st147 :: "bool \<Rightarrow> int \<Rightarrow> http_target" where
  "http_st147 relaxed c =
    (if c = 58 then goto_st 131
     else if c = 93 then goto_st 61
     else if c < 65 then (if 48 \<le> c \<and> c \<le> 57 then goto_st 145
       else goto_st 0)
     else if 70 < c then (if 97 \<le> c \<and> c \<le> 102 then goto_st 129
       else goto_st 0)
     else goto_st 129)"

definition http_st148 :: "bool \<Rightarrow> int \<Rightarrow> http_target" where
  "http_st148 relaxed c =
    (if c = 48 then goto_st 145
     else if c = 58 then goto_st 131
     else if c = 93 then goto_st 61
     else if c < 65 then (if 49 \<le> c \<and> c \<le> 57 then goto_st 129
       else goto_st 0)
     else if 70 < c then (if 97 \<le> c \<and> c \<le> 102 then goto_st 129
       else goto_st 0)
     else goto_st 129)"

definition http_st149 :: "bool \<Rightarrow> int \<Rightarrow> http_target" where
  "http_st149 relaxed c =
    (if c = 58 then goto_st 131
     else if c = 93 then goto_st 61
     else if c < 65 then (if 48 \<le> c \<and> c \<le> 57 then goto_st 128
       else goto_st 0)
     else if 70 < c then (if 97 \<le> c \<and> c \<le> 102 then goto_st 128
       else goto_st 0)
     else goto_st 128)"

definition http_st150 :: "bool \<Rightarrow> int \<Rightarrow> http_target" where
  "http_st150 relaxed c =
    (if c = 49 then goto_st 143
     else if c = 50 then goto_st 146
     else if c < 48 then (if 2 \<le> c \<and> c \<le> 3 then goto_st 48
       else goto_st 0)
     else if 57 < c then (if 70 < c then (if 97 \<le> c \<and> c \<le> 102 then goto_st 149
         else goto_st 0)
       else if 65 \<le> c then goto_st 149
       else goto_st 0)
     else goto_st 127)"

definition http_st151 :: "bool \<Rightarrow> int \<Rightarrow> http_target" where
  "http_st151 relaxed c =
    (if c = 49 then goto_st 156
     else if c = 50 then goto_st 159
     else if c < 48 then (if 2 \<le> c \<and> c \<le> 3 then goto_st 48
       else goto_st 0)
     else if 57 < c then (if 70 < c then (if 97 \<le> c \<and> c \<le> 102 then goto_st 162
         else goto_st 0)
       else if 65 \<le> c then goto_st 162
       else goto_st 0)
     else goto_st 152)"

definition http_st152 :: "bool \<Rightarrow> int \<Rightarrow> http_target" where
  "http_st152 relaxed c =
    (if c = 46 then goto_st 55
     else if c = 58 then goto_st 131
     else if c < 65 then (if 48 \<le> c \<and> c \<le> 57 then goto_st 153
       else goto_st 0)
     else if 70 < c then (if 97 \<le> c \<and> c \<le> 102 then goto_st 153
       else goto_st 0)
     else goto_st 153)"

definition http_st153 :: "bool \<Rightarrow> int \<Rightarrow> http_target" where
  "http_st153 relaxed c =
    (if c = 58 then goto_st 131
     else if c < 65 then (if 48 \<le> c \<and> c \<le> 57 then goto_st 154
       else goto_st 0)
     else if 70 < c then (if 97 \<le> c \<and> c \<le> 102 then goto_st 154
       else goto_st 0)
     else goto_st 154)"

definition http_st154 :: "bool \<Rightarrow> int \<Rightarrow> http_target" where
  "http_st154 relaxed c =
    (if c = 58 then goto_st 131
     else if c < 65 then (if 48 \<le> c \<and> c \<le> 57 then goto_st 155
       else goto_st 0)
     else if 70 < c then (if 97 \<le> c \<and> c \<le> 102 then goto_st 155
       else goto_st 0)
     else goto_st 155)"

definition http_st155 :: "bool \<Rightarrow> int \<Rightarrow> http_target" where
  "http_st155 relaxed c =
    (if c = 58 then goto_st 131
     else goto_st 0)"

definition http_st156 :: "bool \<Rightarrow> int \<Rightarrow> http_target" where
  "http_st156 relaxed c =
    (if c = 46 then goto_st 55
     else if c = 58 then goto_st 131
     else if c < 65 then (if 48 \<le> c \<and> c \<le> 57 then goto_st 157
       else goto_st 0)
     else if 70 < c then (if 97 \<le> c \<and> c \<le> 102 then goto_st 153
       else goto_st 0)
     else goto_st 153)"

definition http_st157 :: "bool \<Rightarrow> int \<Rightarrow> http_target" where
  "http_st157 relaxed c =
    (if c = 46 then goto_st 55
     else if c = 58 then goto_st 131
     else if c < 65 then (if 48 \<le> c \<and> c \<le> 57 then goto_st 158
       else goto_st 0)
     else if 70 < c then (if 97 \<le> c \<and> c \<le> 102 then goto_st 154
       else goto_st 0)
     else goto_st 154)"

definition http_st158 :: "bool \<Rightarrow> int \<Rightarrow> http_target" where
  "http_st158 relaxed c =
    (if c = 46 then goto_st 55
     else if c = 58 then goto_st 131
     else if c < 65 then (if 48 \<le> c \<and> c \<le> 57 then goto_st 155
       else goto_st 0)
     else if 70 < c then (if 97 \<le> c \<and> c \<le> 102 then goto_st 155
       else goto_st 0)
     else goto_st 155)"

definition http_st159 :: "bool \<Rightarrow> int \<Rightarrow> http_target" where
  "http_st159 relaxed c =
    (if c = 46 then goto_st 55
     else if c = 48 then goto_st 160
     else if c = 53 then goto_st 161
     else if c = 58 then goto_st 131
     else if c < 65 then (if 49 \<le> c \<and> c \<le> 57 then goto_st 153
       else goto_st 0)
     else if 70 < c then (if 97 \<le> c \<and> c \<le> 102 then goto_st 153
       else goto_st 0)
     else goto_st 153)"

definition http_st160 :: "bool \<Rightarrow> int \<Rightarrow> http_target" where
  "http_st160 relaxed c =
    (if c = 58 then goto_st 131
     else if c < 65 then (if 48 \<le> c \<and> c \<le> 57 then goto_st 158
       else goto_st 0)
     else if 70 < c then (if 97 \<le> c \<and> c \<le> 102 then goto_st 154
       else goto_st 0)
     else goto_st 154)"

definition http_st161 :: "bool \<Rightarrow> int \<Rightarrow> http_target" where
  "http_st161 relaxed c =
    (if c = 48 then goto_st 158
     else if c = 58 then goto_st 131
     else if c < 65 then (if 49 \<le> c \<and> c \<le> 57 then goto_st 154
       else goto_st 0)
     else if 70 < c then (if 97 \<le> c \<and> c \<le> 102 then goto_st 154
       else goto_st 0)
     else goto_st 154)"

definition http_st162 :: "bool \<Rightarrow> int \<Rightarrow> http_target" where
  "http_st162 relaxed c =
    (if c = 58 then goto_st 131
     else if c < 65 then (if 48 \<le> c \<and> c \<le> 57 then goto_st 153
       else goto_st 0)
     else if 70 < c then (if 97 \<le> c \<and> c \<le> 102 then goto_st 153
       else goto_st 0)
     else goto_st 153)"

definition http_st163 :: "bool \<Rightarrow> int \<Rightarrow> http_target" where
  "http_st163 relaxed c =
    (if c < 48 then (if 2 \<le> c \<and> c \<le> 3 then goto_st 48
       else goto_st 0)
     else if 57 < c then (if 70 < c then (if 97 \<le> c \<and> c \<le> 102 then goto_st 49
         else goto_st 0)
       else if 65 \<le> c then goto_st 49
       else goto_st 0)
     else goto_st 49)"

definition http_st164 :: "bool \<Rightarrow> int \<Rightarrow> http_target" where
  "http_st164 relaxed c =
    (if 2 \<le> c \<and> c \<le> 3 then goto_st 48
     else goto_st 0)"

definition http_st165 :: "bool \<Rightarrow> int \<Rightarrow> http_target" where
  "http_st165 relaxed c =
    (if c = 3 then goto_st 48
     else goto_st 0)"

definition http_st166 :: "bool \<Rightarrow> int \<Rightarrow> http_target" where
  "http_st166 relaxed c =
    (if c = 4 then goto_st 48
     else goto_st 0)"

definition http_st167 :: "bool \<Rightarrow> int \<Rightarrow> http_target" where
  "http_st167 relaxed c =
    (if c = 58 then goto_st 168
     else goto_st 0)"

definition http_st168 :: "bool \<Rightarrow> int \<Rightarrow> http_target" where
  "http_st168 relaxed c =
    (if c = 49 then goto_st 143
     else if c = 50 then goto_st 146
     else if c = 93 then goto_st 61
     else if c < 48 then (if 2 \<le> c \<and> c \<le> 5 then goto_st 48
       else goto_st 0)
     else if 57 < c then (if 70 < c then (if 97 \<le> c \<and> c \<le> 102 then goto_st 149
         else goto_st 0)
       else if 65 \<le> c then goto_st 149
       else goto_st 0)
     else goto_st 127)"

definition http_st169 :: "bool \<Rightarrow> int \<Rightarrow> http_target" where
  "http_st169 relaxed c =
    (if c < 65 then (if 48 \<le> c \<and> c \<le> 57 then goto_st 170
       else goto_st 0)
     else if 70 < c then (if 97 \<le> c \<and> c \<le> 102 then goto_st 170
       else goto_st 0)
     else goto_st 170)"

definition http_st170 :: "bool \<Rightarrow> int \<Rightarrow> http_target" where
  "http_st170 relaxed c =
    (if c = 46 then goto_st 171
     else if c < 65 then (if 48 \<le> c \<and> c \<le> 57 then goto_st 170
       else goto_st 0)
     else if 70 < c then (if 97 \<le> c \<and> c \<le> 102 then goto_st 170
       else goto_st 0)
     else goto_st 170)"

definition http_st171 :: "bool \<Rightarrow> int \<Rightarrow> http_target" where
  "http_st171 relaxed c =
    (let w = widec relaxed c in
     if w \<in> {33, 36, 61, 95, 126, 606, 635, 637} then goto_st 172
     else if w < 48 then (if 38 \<le> w \<and> w \<le> 46 then goto_st 172
       else goto_st 0)
     else if 59 < w then (if 90 < w then (if 97 \<le> w \<and> w \<le> 122 then goto_st 172
         else goto_st 0)
       else if 65 \<le> w then goto_st 172
       else goto_st 0)
     else goto_st 172)"

definition http_st172 :: "bool \<Rightarrow> int \<Rightarrow> http_target" where
  "http_st172 relaxed c =
    (let w = widec relaxed c in
     if w \<in> {33, 36, 61, 95, 126, 606, 635, 637} then goto_st 172
     else if w = 93 then goto_st 61
     else if w < 48 then (if 38 \<le> w \<and> w \<le> 46 then goto_st 172
       else goto_st 0)
     else if 59 < w then (if 90 < w then (if 97 \<le> w \<and> w \<le> 122 then goto_st 172
         else goto_st 0)
       else if 65 \<le> w then goto_st 172
       else goto_st 0)
     else goto_st 172)"

definition http_st173 :: "bool \<Rightarrow> int \<Rightarrow> http_target" where
  "http_st173 relaxed c =
    (let w = widec relaxed c in
     if w = 32 then http_tr37
     else if w \<in> {33, 59, 61, 64, 95, 126, 606, 635, 637} then goto_st 19
     else if w = 35 then http_tr39
     else if w = 37 then goto_st 24
     else if w = 43 then goto_st 173
     else if w = 47 then goto_st 26
     else if w = 58 then goto_st 174
     else if w = 63 then http_tr42
     else if w < 45 then (if 36 \<le> w \<and> w \<le> 44 then goto_st 19
       else goto_st 0)
     else if 57 < w then (if 90 < w then (if 97 \<le> w \<and> w \<le> 122 then goto_st 173
         else goto_st 0)
       else if 65 \<le> w then goto_st 173
       else goto_st 0)
     else goto_st 173)"

definition http_st174 :: "bool \<Rightarrow> int \<Rightarrow> http_target" where
  "http_st174 relaxed c =
    (let w = widec relaxed c in
     if w = 32 then http_tr6
     else if w \<in> {33, 61, 95, 126, 606, 635, 637} then http_tr203
     else if w = 35 then http_tr8
     else if w = 37 then http_tr204
     else if w = 47 then http_tr10
     else if w = 63 then http_tr11
     else if w < 36 then (if w \<le> - 1 then http_tr203
       else goto_st 0)
     else if 59 < w then (if 90 < w then (if 97 \<le> w \<and> w \<le> 122 then http_tr203
         else goto_st 0)
       else if 64 \<le> w then http_tr203
       else goto_st 0)
     else http_tr203)"

definition http_st175 :: "bool \<Rightarrow> int \<Rightarrow> http_target" where
  "http_st175 relaxed c =
    (if c = 32 then http_tr4
     else if 57 < c then (if 65 \<le> c \<and> c \<le> 90 then goto_st 176
       else goto_st 0)
     else if 48 \<le> c then goto_st 176
     else goto_st 0)"

definition http_st176 :: "bool \<Rightarrow> int \<Rightarrow> http_target" where
  "http_st176 relaxed c =
    (if c = 32 then http_tr4
     else if 57 < c then (if 65 \<le> c \<and> c \<le> 90 then goto_st 177
       else goto_st 0)
     else if 48 \<le> c then goto_st 177
     else goto_st 0)"

definition http_st177 :: "bool \<Rightarrow> int \<Rightarrow> http_target" where
  "http_st177 relaxed c =
    (if c = 32 then http_tr4
     else if 57 < c then (if 65 \<le> c \<and> c \<le> 90 then goto_st 178
       else goto_st 0)
     else if 48 \<le> c then goto_st 178
     else goto_st 0)"

definition http_st178 :: "bool \<Rightarrow> int \<Rightarrow> http_target" where
  "http_st178 relaxed c =
    (if c = 32 then http_tr4
     else if 57 < c then (if 65 \<le> c \<and> c \<le> 90 then goto_st 179
       else goto_st 0)
     else if 48 \<le> c then goto_st 179
     else goto_st 0)"

definition http_st179 :: "bool \<Rightarrow> int \<Rightarrow> http_target" where
  "http_st179 relaxed c =
    (if c = 32 then http_tr4
     else if 57 < c then (if 65 \<le> c \<and> c \<le> 90 then goto_st 180
       else goto_st 0)
     else if 48 \<le> c then goto_st 180
     else goto_st 0)"

definition http_st180 :: "bool \<Rightarrow> int \<Rightarrow> http_target" where
  "http_st180 relaxed c =
    (if c = 32 then http_tr4
     else if 57 < c then (if 65 \<le> c \<and> c \<le> 90 then goto_st 181
       else goto_st 0)
     else if 48 \<le> c then goto_st 181
     else goto_st 0)"

definition http_st181 :: "bool \<Rightarrow> int \<Rightarrow> http_target" where
  "http_st181 relaxed c =
    (if c = 32 then http_tr4
     else if 57 < c then (if 65 \<le> c \<and> c \<le> 90 then goto_st 182
       else goto_st 0)
     else if 48 \<le> c then goto_st 182
     else goto_st 0)"

definition http_st182 :: "bool \<Rightarrow> int \<Rightarrow> http_target" where
  "http_st182 relaxed c =
    (if c = 32 then http_tr4
     else if 57 < c then (if 65 \<le> c \<and> c \<le> 90 then goto_st 183
       else goto_st 0)
     else if 48 \<le> c then goto_st 183
     else goto_st 0)"

definition http_st183 :: "bool \<Rightarrow> int \<Rightarrow> http_target" where
  "http_st183 relaxed c =
    (if c = 32 then http_tr4
     else if 57 < c then (if 65 \<le> c \<and> c \<le> 90 then goto_st 184
       else goto_st 0)
     else if 48 \<le> c then goto_st 184
     else goto_st 0)"

definition http_st184 :: "bool \<Rightarrow> int \<Rightarrow> http_target" where
  "http_st184 relaxed c =
    (if c = 32 then http_tr4
     else if 57 < c then (if 65 \<le> c \<and> c \<le> 90 then goto_st 185
       else goto_st 0)
     else if 48 \<le> c then goto_st 185
     else goto_st 0)"

definition http_st185 :: "bool \<Rightarrow> int \<Rightarrow> http_target" where
  "http_st185 relaxed c =
    (if c = 32 then http_tr4
     else if 57 < c then (if 65 \<le> c \<and> c \<le> 90 then goto_st 186
       else goto_st 0)
     else if 48 \<le> c then goto_st 186
     else goto_st 0)"

definition http_st186 :: "bool \<Rightarrow> int \<Rightarrow> http_target" where
  "http_st186 relaxed c =
    (if c = 32 then http_tr4
     else if 57 < c then (if 65 \<le> c \<and> c \<le> 90 then goto_st 187
       else goto_st 0)
     else if 48 \<le> c then goto_st 187
     else goto_st 0)"

definition http_st187 :: "bool \<Rightarrow> int \<Rightarrow> http_target" where
  "http_st187 relaxed c =
    (if c = 32 then http_tr4
     else if 57 < c then (if 65 \<le> c \<and> c \<le> 90 then goto_st 188
       else goto_st 0)
     else if 48 \<le> c then goto_st 188
     else goto_st 0)"

definition http_st188 :: "bool \<Rightarrow> int \<Rightarrow> http_target" where
  "http_st188 relaxed c =
    (if c = 32 then http_tr4
     else if 57 < c then (if 65 \<le> c \<and> c \<le> 90 then goto_st 189
       else goto_st 0)
     else if 48 \<le> c then goto_st 189
     else goto_st 0)"

definition http_st189 :: "bool \<Rightarrow> int \<Rightarrow> http_target" where
  "http_st189 relaxed c =
    (if c = 32 then http_tr4
     else if 57 < c then (if 65 \<le> c \<and> c \<le> 90 then goto_st 190
       else goto_st 0)
     else if 48 \<le> c then goto_st 190
     else goto_st 0)"

definition http_st190 :: "bool \<Rightarrow> int \<Rightarrow> http_target" where
  "http_st190 relaxed c =
    (if c = 32 then http_tr4
     else if 57 < c then (if 65 \<le> c \<and> c \<le> 90 then goto_st 191
       else goto_st 0)
     else if 48 \<le> c then goto_st 191
     else goto_st 0)"

definition http_st191 :: "bool \<Rightarrow> int \<Rightarrow> http_target" where
  "http_st191 relaxed c =
    (if c = 32 then http_tr4
     else if 57 < c then (if 65 \<le> c \<and> c \<le> 90 then goto_st 192
       else goto_st 0)
     else if 48 \<le> c then goto_st 192
     else goto_st 0)"

definition http_st192 :: "bool \<Rightarrow> int \<Rightarrow> http_target" where
  "http_st192 relaxed c =
    (if c = 32 then http_tr4
     else if 57 < c then (if 65 \<le> c \<and> c \<le> 90 then goto_st 193
       else goto_st 0)
     else if 48 \<le> c then goto_st 193
     else goto_st 0)"

definition http_st193 :: "bool \<Rightarrow> int \<Rightarrow> http_target" where
  "http_st193 relaxed c =
    (if c = 32 then http_tr4
     else goto_st 0)"

definition http_st194 :: "bool \<Rightarrow> int \<Rightarrow> http_target" where
  "http_st194 relaxed c =
    (if c < 48 then (if 45 \<le> c \<and> c \<le> 46 then goto_st 195
       else goto_st 0)
     else if 57 < c then (if 90 < c then (if 97 \<le> c \<and> c \<le> 122 then goto_st 195
         else goto_st 0)
       else if 65 \<le> c then goto_st 195
       else goto_st 0)
     else goto_st 195)"

definition http_st195 :: "bool \<Rightarrow> int \<Rightarrow> http_target" where
  "http_st195 relaxed c =
    (if c \<in> {32, 47, 62} then http_tr224
     else if c < 45 then (if 9 \<le> c \<and> c \<le> 13 then http_tr224
       else goto_st 0)
     else if 57 < c then (if 90 < c then (if 97 \<le> c \<and> c \<le> 122 then goto_st 195
         else goto_st 0)
       else if 65 \<le> c then goto_st 195
       else goto_st 0)
     else goto_st 195)"

definition http_st196 :: "bool \<Rightarrow> int \<Rightarrow> http_target" where
  "http_st196 relaxed c =
    (if c = 62 then goto_st 197
     else goto_st 196)"

definition http_st197 :: "bool \<Rightarrow> int \<Rightarrow> http_target" where
  "http_st197 relaxed c =
    (if c = 0 then http_tr227
     else if c = 62 then goto_st 197
     else goto_st 196)"

definition http_st198 :: "bool \<Rightarrow> int \<Rightarrow> http_target" where
  "http_st198 relaxed c =
    (let w = widec relaxed c in
     if w = 32 then http_tr228
     else if w \<in> {33, 59, 61, 95, 126, 606, 635, 637} then goto_st 202
     else if w = 37 then goto_st 203
     else if w = 47 then goto_st 208
     else if w < 64 then (if 36 \<le> w \<and> w \<le> 57 then goto_st 202
       else goto_st 0)
     else if 90 < w then (if 97 \<le> w \<and> w \<le> 122 then goto_st 202
       else goto_st 0)
     else goto_st 202)"

definition http_st199 :: "bool \<Rightarrow> int \<Rightarrow> http_target" where
  "http_st199 relaxed c =
    (if c = 123 then http_tr232
     else goto_st 0)"

definition http_st200 :: "bool \<Rightarrow> int \<Rightarrow> http_target" where
  "http_st200 relaxed c =
    (if c = 125 then goto_st 201
     else goto_st 200)"

definition http_st201 :: "bool \<Rightarrow> int \<Rightarrow> http_target" where
  "http_st201 relaxed c =
    (if c = 0 then http_tr235
     else if c = 125 then goto_st 201
     else goto_st 200)"

definition http_st202 :: "bool \<Rightarrow> int \<Rightarrow> http_target" where
  "http_st202 relaxed c =
    (let w = widec relaxed c in
     if w = 32 then http_tr228
     else if w \<in> {33, 59, 61, 95, 126, 606, 635, 637} then goto_st 202
     else if w = 37 then goto_st 203
     else if w = 47 then goto_st 205
     else if w < 64 then (if 36 \<le> w \<and> w \<le> 57 then goto_st 202
       else goto_st 0)
     else if 90 < w then (if 97 \<le> w \<and> w \<le> 122 then goto_st 202
       else goto_st 0)
     else goto_st 202)"

definition http_st203 :: "bool \<Rightarrow> int \<Rightarrow> http_target" where
  "http_st203 relaxed c =
    (if c < 65 then (if 48 \<le> c \<and> c \<le> 57 then goto_st 204
       else goto_st 0)
     else if 70 < c then (if 97 \<le> c \<and> c \<le> 102 then goto_st 204
       else goto_st 0)
     else goto_st 204)"

definition http_st204 :: "bool \<Rightarrow> int \<Rightarrow> http_target" where
  "http_st204 relaxed c =
    (if c < 65 then (if 48 \<le> c \<and> c \<le> 57 then goto_st 202
       else goto_st 0)
     else if 70 < c then (if 97 \<le> c \<and> c \<le> 102 then goto_st 202
       else goto_st 0)
     else goto_st 202)"

definition http_st205 :: "bool \<Rightarrow> int \<Rightarrow> http_target" where
  "http_st205 relaxed c =
    (let w = widec relaxed c in
     if w = 32 then http_tr228
     else if w \<in> {33, 61, 95, 126, 606, 635, 637} then goto_st 205
     else if w = 37 then goto_st 206
     else if w < 36 then (if w \<le> - 1 then goto_st 205
       else goto_st 0)
     else if 59 < w then (if 90 < w then (if 97 \<le> w \<and> w \<le> 122 then goto_st 205
         else goto_st 0)
       else if 64 \<le> w then goto_st 205
       else goto_st 0)
     else goto_st 205)"

definition http_st206 :: "bool \<Rightarrow> int \<Rightarrow> http_target" where
  "http_st206 relaxed c =
    (if c < 65 then (if 48 \<le> c \<and> c \<le> 57 then goto_st 207
       else goto_st 0)
     else if 70 < c then (if 97 \<le> c \<and> c \<le> 102 then goto_st 207
       else goto_st 0)
     else goto_st 207)"

definition http_st207 :: "bool \<Rightarrow> int \<Rightarrow> http_target" where
  "http_st207 relaxed c =
    (if c < 65 then (if 48 \<le> c \<and> c \<le> 57 then goto_st 205
       else goto_st 0)
     else if 70 < c then (if 97 \<le> c \<and> c \<le> 102 then goto_st 205
       else goto_st 0)
     else goto_st 205)"

definition http_st208 :: "bool \<Rightarrow> int \<Rightarrow> http_target" where
  "http_st208 relaxed c =
    (let w = widec relaxed c in
     if w = 32 then http_tr228
     else if w \<in> {33, 61, 95, 126, 606, 635, 637} then goto_st 205
     else if w = 37 then goto_st 206
     else if w = 47 then goto_st 209
     else if w < 36 then (if w \<le> - 1 then goto_st 205
       else goto_st 0)
     else if 59 < w then (if 90 < w then (if 97 \<le> w \<and> w \<le> 122 then goto_st 205
         else goto_st 0)
       else if 64 \<le> w then goto_st 205
       else goto_st 0)
     else goto_st 205)"

definition http_st209 :: "bool \<Rightarrow> int \<Rightarrow> http_target" where
  "http_st209 relaxed c =
    (let w = widec relaxed c in
     if w = 32 then http_tr228
     else if w \<in> {33, 61, 95, 126, 606, 635, 637} then goto_st 210
     else if w = 37 then goto_st 211
     else if w = 47 then goto_st 205
     else if w = 58 then goto_st 213
     else if w = 64 then goto_st 217
     else if w = 91 then goto_st 222
     else if w < 65 then (if 36 \<le> w \<and> w \<le> 59 then goto_st 210
       else goto_st 0)
     else if 90 < w then (if 97 \<le> w \<and> w \<le> 122 then goto_st 210
       else goto_st 0)
     else goto_st 210)"

definition http_st210 :: "bool \<Rightarrow> int \<Rightarrow> http_target" where
  "http_st210 relaxed c =
    (let w = widec relaxed c in
     if w = 32 then http_tr228
     else if w \<in> {33, 61, 95, 126, 606, 635, 637} then goto_st 210
     else if w = 37 then goto_st 211
     else if w = 47 then goto_st 205
     else if w = 58 then goto_st 213
     else if w = 64 then goto_st 217
     else if w < 65 then (if 36 \<le> w \<and> w \<le> 59 then goto_st 210
       else goto_st 0)
     else if 90 < w then (if 97 \<le> w \<and> w \<le> 122 then goto_st 210
       else goto_st 0)
     else goto_st 210)"

definition http_st211 :: "bool \<Rightarrow> int \<Rightarrow> http_target" where
  "http_st211 relaxed c =
    (if c < 65 then (if 48 \<le> c \<and> c \<le> 57 then goto_st 212
       else goto_st 0)
     else if 70 < c then (if 97 \<le> c \<and> c \<le> 102 then goto_st 212
       else goto_st 0)
     else goto_st 212)"

definition http_st212 :: "bool \<Rightarrow> int \<Rightarrow> http_target" where
  "http_st212 relaxed c =
    (if c < 65 then (if 48 \<le> c \<and> c \<le> 57 then goto_st 210
       else goto_st 0)
     else if 70 < c then (if 97 \<le> c \<and> c \<le> 102 then goto_st 210
       else goto_st 0)
     else goto_st 210)"

definition http_st213 :: "bool \<Rightarrow> int \<Rightarrow> http_target" where
  "http_st213 relaxed c =
    (let w = widec relaxed c in
     if w = 32 then http_tr228
     else if w \<in> {33, 61, 95, 126, 606, 635, 637} then goto_st 214
     else if w = 37 then goto_st 215
     else if w = 47 then goto_st 205
     else if w = 64 then goto_st 217
     else if w < 58 then (if 46 < w then (if 48 \<le> w \<and> w \<le> 57 then goto_st 213
         else goto_st 0)
       else if 36 \<le> w then goto_st 214
       else goto_st 0)
     else if 59 < w then (if 90 < w then (if 97 \<le> w \<and> w \<le> 122 then goto_st 214
         else goto_st 0)
       else if 65 \<le> w then goto_st 214
       else goto_st 0)
     else goto_st 214)"

definition http_st214 :: "bool \<Rightarrow> int \<Rightarrow> http_target" where
  "http_st214 relaxed c =
    (let w = widec relaxed c in
     if w \<in> {33, 61, 95, 126, 606, 635, 637} then goto_st 214
     else if w = 37 then goto_st 215
     else if w = 64 then goto_st 217
     else if w < 48 then (if 36 \<le> w \<and> w \<le> 46 then goto_st 214
       else goto_st 0)
     else if 59 < w then (if 90 < w then (if 97 \<le> w \<and> w \<le> 122 then goto_st 214
         else goto_st 0)
       else if 65 \<le> w then goto_st 214
       else goto_st 0)
     else goto_st 214)"

definition http_st215 :: "bool \<Rightarrow> int \<Rightarrow> http_target" where
  "http_st215 relaxed c =
    (if c < 65 then (if 48 \<le> c \<and> c \<le> 57 then goto_st 216
       else goto_st 0)
     else if 70 < c then (if 97 \<le> c \<and> c \<le> 102 then goto_st 216
       else goto_st 0)
     else goto_st 216)"

definition http_st216 :: "bool \<Rightarrow> int \<Rightarrow> http_target" where
  "http_st216 relaxed c =
    (if c < 65 then (if 48 \<le> c \<and> c \<le> 57 then goto_st 214
       else goto_st 0)
     else if 70 < c then (if 97 \<le> c \<and> c \<le> 102 then goto_st 214
       else goto_st 0)
     else goto_st 214)"

definition http_st217 :: "bool \<Rightarrow> int \<Rightarrow> http_target" where
  "http_st217 relaxed c =
    (let w = widec relaxed c in
     if w = 32 then http_tr228
     else if w \<in> {33, 61, 95, 126, 606, 635, 637} then goto_st 218
     else if w = 37 then goto_st 219
     else if w = 47 then goto_st 205
     else if w = 58 then goto_st 221
     else if w = 91 then goto_st 222
     else if w < 65 then (if 36 \<le> w \<and> w \<le> 59 then goto_st 218
       else goto_st 0)
     else if 90 < w then (if 97 \<le> w \<and> w \<le> 122 then goto_st 218
       else goto_st 0)
     else goto_st 218)"

definition http_st218 :: "bool \<Rightarrow> int \<Rightarrow> http_target" where
  "http_st218 relaxed c =
    (let w = widec relaxed c in
     if w = 32 then http_tr228
     else if w \<in> {33, 61, 95, 126, 606, 635, 637} then goto_st 218
     else if w = 37 then goto_st 219
     else if w = 47 then goto_st 205
     else if w = 58 then goto_st 221
     else if w < 65 then (if 36 \<le> w \<and> w \<le> 59 then goto_st 218
       else goto_st 0)
     else if 90 < w then (if 97 \<le> w \<and> w \<le> 122 then goto_st 218
       else goto_st 0)
     else goto_st 218)"

definition http_st219 :: "bool \<Rightarrow> int \<Rightarrow> http_target" where
  "http_st219 relaxed c =
    (if c < 65 then (if 48 \<le> c \<and> c \<le> 57 then goto_st 220
       else goto_st 0)
     else if 70 < c then (if 97 \<le> c \<and> c \<le> 102 then goto_st 220
       else goto_st 0)
     else goto_st 220)"

definition http_st220 :: "bool \<Rightarrow> int \<Rightarrow> http_target" where
  "http_st220 relaxed c =
    (if c < 65 then (if 48 \<le> c \<and> c \<le> 57 then goto_st 218
       else goto_st 0)
     else if 70 < c then (if 97 \<le> c \<and> c \<le> 102 then goto_st 218
       else goto_st 0)
     else goto_st 218)"

definition http_st221 :: "bool \<Rightarrow> int \<Rightarrow> http_target" where
  "http_st221 relaxed c =
    (if c = 32 then http_tr228
     else if c = 47 then goto_st 205
     else if 48 \<le> c \<and> c \<le> 57 then goto_st 221
     else goto_st 0)"

definition http_st222 :: "bool \<Rightarrow> int \<Rightarrow> http_target" where
  "http_st222 relaxed c =
    (if c = 6 then goto_st 223
     else if c = 58 then goto_st 342
     else if c = 118 then goto_st 344
     else if c < 65 then (if 48 \<le> c \<and> c \<le> 57 then goto_st 266
       else goto_st 0)
     else if 70 < c then (if 97 \<le> c \<and> c \<le> 102 then goto_st 266
       else goto_st 0)
     else goto_st 266)"

definition http_st223 :: "bool \<Rightarrow> int \<Rightarrow> http_target" where
  "http_st223 relaxed c =
    (if c < 65 then (if 48 \<le> c \<and> c \<le> 57 then goto_st 224
       else goto_st 0)
     else if 70 < c then (if 97 \<le> c \<and> c \<le> 102 then goto_st 224
       else goto_st 0)
     else goto_st 224)"

definition http_st224 :: "bool \<Rightarrow> int \<Rightarrow> http_target" where
  "http_st224 relaxed c =
    (if c = 58 then goto_st 228
     else if c < 65 then (if 48 \<le> c \<and> c \<le> 57 then goto_st 225
       else goto_st 0)
     else if 70 < c then (if 97 \<le> c \<and> c \<le> 102 then goto_st 225
       else goto_st 0)
     else goto_st 225)"

definition http_st225 :: "bool \<Rightarrow> int \<Rightarrow> http_target" where
  "http_st225 relaxed c =
    (if c = 58 then goto_st 228
     else if c < 65 then (if 48 \<le> c \<and> c \<le> 57 then goto_st 226
       else goto_st 0)
     else if 70 < c then (if 97 \<le> c \<and> c \<le> 102 then goto_st 226
       else goto_st 0)
     else goto_st 226)"

definition http_st226 :: "bool \<Rightarrow> int \<Rightarrow> http_target" where
  "http_st226 relaxed c =
    (if c = 58 then goto_st 228
     else if c < 65 then (if 48 \<le> c \<and> c \<le> 57 then goto_st 227
       else goto_st 0)
     else if 70 < c then (if 97 \<le> c \<and> c \<le> 102 then goto_st 227
       else goto_st 0)
     else goto_st 227)"

definition http_st227 :: "bool \<Rightarrow> int \<Rightarrow> http_target" where
  "http_st227 relaxed c =
    (if c = 58 then goto_st 228
     else goto_st 0)"

definition http_st228 :: "bool \<Rightarrow> int \<Rightarrow> http_target" where
  "http_st228 relaxed c =
    (if c = 49 then goto_st 259
     else if c = 50 then goto_st 262
     else if c < 65 then (if 48 \<le> c \<and> c \<le> 57 then goto_st 229
       else goto_st 0)
     else if 70 < c then (if 97 \<le> c \<and> c \<le> 102 then goto_st 265
       else goto_st 0)
     else goto_st 265)"

definition http_st229 :: "bool \<Rightarrow> int \<Rightarrow> http_target" where
  "http_st229 relaxed c =
    (if c = 46 then goto_st 230
     else if c = 58 then goto_st 255
     else if c < 65 then (if 48 \<le> c \<and> c \<le> 57 then goto_st 252
       else goto_st 0)
     else if 70 < c then (if 97 \<le> c \<and> c \<le> 102 then goto_st 252
       else goto_st 0)
     else goto_st 252)"

definition http_st230 :: "bool \<Rightarrow> int \<Rightarrow> http_target" where
  "http_st230 relaxed c =
    (if c = 49 then goto_st 247
     else if c = 50 then goto_st 249
     else if 48 \<le> c \<and> c \<le> 57 then goto_st 231
     else goto_st 0)"

definition http_st231 :: "bool \<Rightarrow> int \<Rightarrow> http_target" where
  "http_st231 relaxed c =
    (if c = 46 then goto_st 232
     else goto_st 0)"

definition http_st232 :: "bool \<Rightarrow> int \<Rightarrow> http_target" where
  "http_st232 relaxed c =
    (if c = 49 then goto_st 242
     else if c = 50 then goto_st 244
     else if 48 \<le> c \<and> c \<le> 57 then goto_st 233
     else goto_st 0)"

definition http_st233 :: "bool \<Rightarrow> int \<Rightarrow> http_target" where
  "http_st233 relaxed c =
    (if c = 46 then goto_st 234
     else goto_st 0)"

definition http_st234 :: "bool \<Rightarrow> int \<Rightarrow> http_target" where
  "http_st234 relaxed c =
    (if c = 49 then goto_st 237
     else if c = 50 then goto_st 239
     else if 48 \<le> c \<and> c \<le> 57 then goto_st 235
     else goto_st 0)"

definition http_st235 :: "bool \<Rightarrow> int \<Rightarrow> http_target" where
  "http_st235 relaxed c =
    (if c = 93 then goto_st 236
     else goto_st 0)"

definition http_st236 :: "bool \<Rightarrow> int \<Rightarrow> http_target" where
  "http_st236 relaxed c =
    (if c = 32 then http_tr228
     else if c = 47 then goto_st 205
     else if c = 58 then goto_st 221
     else goto_st 0)"

definition http_st237 :: "bool \<Rightarrow> int \<Rightarrow> http_target" where
  "http_st237 relaxed c =
    (if c = 93 then goto_st 236
     else if 48 \<le> c \<and> c \<le> 57 then goto_st 238
     else goto_st 0)"

definition http_st238 :: "bool \<Rightarrow> int \<Rightarrow> http_target" where
  "http_st238 relaxed c =
    (if c = 93 then goto_st 236
     else if 48 \<le> c \<and> c \<le> 57 then goto_st 235
     else goto_st 0)"

definition http_st239 :: "bool \<Rightarrow> int \<Rightarrow> http_target" where
  "http_st239 relaxed c =
    (if c = 48 then goto_st 240
     else if c = 53 then goto_st 241
     else if c = 93 then goto_st 236
     else goto_st 0)"

definition http_st240 :: "bool \<Rightarrow> int \<Rightarrow> http_target" where
  "http_st240 relaxed c =
    (if 48 \<le> c \<and> c \<le> 57 then goto_st 235
     else goto_st 0)"

definition http_st241 :: "bool \<Rightarrow> int \<Rightarrow> http_target" where
  "http_st241 relaxed c =
    (if c = 48 then goto_st 235
     else goto_st 0)"

definition http_st242 :: "bool \<Rightarrow> int \<Rightarrow> http_target" where
  "http_st242 relaxed c =
    (if c = 46 then goto_st 234
     else if 48 \<le> c \<and> c \<le> 57 then goto_st 243
     else goto_st 0)"

definition http_st243 :: "bool \<Rightarrow> int \<Rightarrow> http_target" where
  "http_st243 relaxed c =
    (if c = 46 then goto_st 234
     else if 48 \<le> c \<and> c \<le> 57 then goto_st 233
     else goto_st 0)"

definition http_st244 :: "bool \<Rightarrow> int \<Rightarrow> http_target" where
  "http_st244 relaxed c =
    (if c = 46 then goto_st 234
     else if c = 48 then goto_st 245
     else if c = 53 then goto_st 246
     else goto_st 0)"

definition http_st245 :: "bool \<Rightarrow> int \<Rightarrow> http_target" where
  "http_st245 relaxed c =
    (if 48 \<le> c \<and> c \<le> 57 then goto_st 233
     else goto_st 0)"

definition http_st246 :: "bool \<Rightarrow> int \<Rightarrow> http_target" where
  "http_st246 relaxed c =
    (if c = 48 then goto_st 233
     else goto_st 0)"

definition http_st247 :: "bool \<Rightarrow> int \<Rightarrow> http_target" where
  "http_st247 relaxed c =
    (if c = 46 then goto_st 232
     else if 48 \<le> c \<and> c \<le> 57 then goto_st 248
     else goto_st 0)"

definition http_st248 :: "bool \<Rightarrow> int \<Rightarrow> http_target" where
  "http_st248 relaxed c =
    (if c = 46 then goto_st 232
     else if 48 \<le> c \<and> c \<le> 57 then goto_st 231
     else goto_st 0)"

definition http_st249 :: "bool \<Rightarrow> int \<Rightarrow> http_target" where
  "http_st249 relaxed c =
    (if c = 46 then goto_st 232
     else if c = 48 then goto_st 250
     else if c = 53 then goto_st 251
     else goto_st 0)"

definition http_st250 :: "bool \<Rightarrow> int \<Rightarrow> http_target" where
  "http_st250 relaxed c =
    (if 48 \<le> c \<and> c \<le> 57 then goto_st 231
     else goto_st 0)"

definition http_st251 :: "bool \<Rightarrow> int \<Rightarrow> http_target" where
  "http_st251 relaxed c =
    (if c = 48 then goto_st 231
     else goto_st 0)"

definition http_st252 :: "bool \<Rightarrow> int \<Rightarrow> http_target" where
  "http_st252 relaxed c =
    (if c = 58 then goto_st 255
     else if c < 65 then (if 48 \<le> c \<and> c \<le> 57 then goto_st 253
       else goto_st 0)
     else if 70 < c then (if 97 \<le> c \<and> c \<le> 102 then goto_st 253
       else goto_st 0)
     else goto_st 253)"

definition http_st253 :: "bool \<Rightarrow> int \<Rightarrow> http_target" where
  "http_st253 relaxed c =
    (if c = 58 then goto_st 255
     else if c < 65 then (if 48 \<le> c \<and> c \<le> 57 then goto_st 254
       else goto_st 0)
     else if 70 < c then (if 97 \<le> c \<and> c \<le> 102 then goto_st 254
       else goto_st 0)
     else goto_st 254)"

definition http_st254 :: "bool \<Rightarrow> int \<Rightarrow> http_target" where
  "http_st254 relaxed c =
    (if c = 58 then goto_st 255
     else goto_st 0)"

definition http_st255 :: "bool \<Rightarrow> int \<Rightarrow> http_target" where
  "http_st255 relaxed c =
    (if c < 65 then (if 48 \<le> c \<and> c \<le> 57 then goto_st 256
       else goto_st 0)
     else if 70 < c then (if 97 \<le> c \<and> c \<le> 102 then goto_st 256
       else goto_st 0)
     else goto_st 256)"

definition http_st256 :: "bool \<Rightarrow> int \<Rightarrow> http_target" where
  "http_st256 relaxed c =
    (if c = 93 then goto_st 236
     else if c < 65 then (if 48 \<le> c \<and> c \<le> 57 then goto_st 257
       else goto_st 0)
     else if 70 < c then (if 97 \<le> c \<and> c \<le> 102 then goto_st 257
       else goto_st 0)
     else goto_st 257)"

definition http_st257 :: "bool \<Rightarrow> int \<Rightarrow> http_target" where
  "http_st257 relaxed c =
    (if c = 93 then goto_st 236
     else if c < 65 then (if 48 \<le> c \<and> c \<le> 57 then goto_st 258
       else goto_st 0)
     else if 70 < c then (if 97 \<le> c \<and> c \<le> 102 then goto_st 258
       else goto_st 0)
     else goto_st 258)"

definition http_st258 :: "bool \<Rightarrow> int \<Rightarrow> http_target" where
  "http_st258 relaxed c =
    (if c = 93 then goto_st 236
     else if c < 65 then (if 48 \<le> c \<and> c \<le> 57 then goto_st 235
       else goto_st 0)
     else if 70 < c then (if 97 \<le> c \<and> c \<le> 102 then goto_st 235
       else goto_st 0)
     else goto_st 235)"

definition http_st259 :: "bool \<Rightarrow> int \<Rightarrow> http_target" where
  "http_st259 relaxed c =
    (if c = 46 then goto_st 230
     else if c = 58 then goto_st 255
     else if c < 65 then (if 48 \<le> c \<and> c \<le> 57 then goto_st 260
       else goto_st 0)
     else if 70 < c then (if 97 \<le> c \<and> c \<le> 102 then goto_st 252
       else goto_st 0)
     else goto_st 252)"

definition http_st260 :: "bool \<Rightarrow> int \<Rightarrow> http_target" where
  "http_st260 relaxed c =
    (if c = 46 then goto_st 230
     else if c = 58 then goto_st 255
     else if c < 65 then (if 48 \<le> c \<and> c \<le> 57 then goto_st 261
       else goto_st 0)
     else if 70 < c then (if 97 \<le> c \<and> c \<le> 102 then goto_st 253
       else goto_st 0)
     else goto_st 253)"

definition http_st261 :: "bool \<Rightarrow> int \<Rightarrow> http_target" where
  "http_st261 relaxed c =
    (if c = 46 then goto_st 230
     else if c = 58 then goto_st 255
     else if c < 65 then (if 48 \<le> c \<and> c \<le> 57 then goto_st 254
       else goto_st 0)
     else if 70 < c then (if 97 \<le> c \<and> c \<le> 102 then goto_st 254
       else goto_st 0)
     else goto_st 254)"

definition http_st262 :: "bool \<Rightarrow> int \<Rightarrow> http_target" where
  "http_st262 relaxed c =
    (if c = 46 then goto_st 230
     else if c = 48 then goto_st 263
     else if c = 53 then goto_st 264
     else if c = 58 then goto_st 255
     else if c < 65 then (if 49 \<le> c \<and> c \<le> 57 then goto_st 252
       else goto_st 0)
     else if 70 < c then (if 97 \<le> c \<and> c \<le> 102 then goto_st 252
       else goto_st 0)
     else goto_st 252)"

definition http_st263 :: "bool \<Rightarrow> int \<Rightarrow> http_target" where
  "http_st263 relaxed c =
    (if c = 58 then goto_st 255
     else if c < 65 then (if 48 \<le> c \<and> c \<le> 57 then goto_st 261
       else goto_st 0)
     else if 70 < c then (if 97 \<le> c \<and> c \<le> 102 then goto_st 253
       else goto_st 0)
     else goto_st 253)"

definition http_st264 :: "bool \<Rightarrow> int \<Rightarrow> http_target" where
  "http_st264 relaxed c =
    (if c = 48 then goto_st 261
     else if c = 58 then goto_st 255
     else if c < 65 then (if 49 \<le> c \<and> c \<le> 57 then goto_st 253
       else goto_st 0)
     else if 70 < c then (if 97 \<le> c \<and> c \<le> 102 then goto_st 253
       else goto_st 0)
     else goto_st 253)"

definition http_st265 :: "bool \<Rightarrow> int \<Rightarrow> http_target" where
  "http_st265 relaxed c =
    (if c = 58 then goto_st 255
     else if c < 65 then (if 48 \<le> c \<and> c \<le> 57 then goto_st 252
       else goto_st 0)
     else if 70 < c then (if 97 \<le> c \<and> c \<le> 102 then goto_st 252
       else goto_st 0)
     else goto_st 252)"

definition http_st266 :: "bool \<Rightarrow> int \<Rightarrow> http_target" where
  "http_st266 relaxed c =
    (if c = 58 then goto_st 270
     else if c < 65 then (if 48 \<le> c \<and> c \<le> 57 then goto_st 267
       else goto_st 0)
     else if 70 < c then (if 97 \<le> c \<and> c \<le> 102 then goto_st 267
       else goto_st 0)
     else goto_st 267)"

definition http_st267 :: "bool \<Rightarrow> int \<Rightarrow> http_target" where
  "http_st267 relaxed c =
    (if c = 58 then goto_st 270
     else if c < 65 then (if 48 \<le> c \<and> c \<le> 57 then goto_st 268
       else goto_st 0)
     else if 70 < c then (if 97 \<le> c \<and> c \<le> 102 then goto_st 268
       else goto_st 0)
     else goto_st 268)"

definition http_st268 :: "bool \<Rightarrow> int \<Rightarrow> http_target" where
  "http_st268 relaxed c =
    (if c = 58 then goto_st 270
     else if c < 65 then (if 48 \<le> c \<and> c \<le> 57 then goto_st 269
       else goto_st 0)
     else if 70 < c then (if 97 \<le> c \<and> c \<le> 102 then goto_st 269
       else goto_st 0)
     else goto_st 269)"

definition http_st269 :: "bool \<Rightarrow> int \<Rightarrow> http_target" where
  "http_st269 relaxed c =
    (if c = 58 then goto_st 270
     else goto_st 0)"

definition http_st270 :: "bool \<Rightarrow> int \<Rightarrow> http_target" where
  "http_st270 relaxed c =
    (if c = 58 then goto_st 341
     else if c < 65 then (if 48 \<le> c \<and> c \<le> 57 then goto_st 271
       else goto_st 0)
     else if 70 < c then (if 97 \<le> c \<and> c \<le> 102 then goto_st 271
       else goto_st 0)
     else goto_st 271)"

definition http_st271 :: "bool \<Rightarrow> int \<Rightarrow> http_target" where
  "http_st271 relaxed c =
    (if c = 58 then goto_st 275
     else if c < 65 then (if 48 \<le> c \<and> c \<le> 57 then goto_st 272
       else goto_st 0)
     else if 70 < c then (if 97 \<le> c \<and> c \<le> 102 then goto_st 272
       else goto_st 0)
     else goto_st 272)"

definition http_st272 :: "bool \<Rightarrow> int \<Rightarrow> http_target" where
  "http_st272 relaxed c =
    (if c = 58 then goto_st 275
     else if c < 65 then (if 48 \<le> c \<and> c \<le> 57 then goto_st 273
       else goto_st 0)
     else if 70 < c then (if 97 \<le> c \<and> c \<le> 102 then goto_st 273
       else goto_st 0)
     else goto_st 273)"

definition http_st273 :: "bool \<Rightarrow> int \<Rightarrow> http_target" where
  "http_st273 relaxed c =
    (if c = 58 then goto_st 275
     else if c < 65 then (if 48 \<le> c \<and> c \<le> 57 then goto_st 274
       else goto_st 0)
     else if 70 < c then (if 97 \<le> c \<and> c \<le> 102 then goto_st 274
       else goto_st 0)
     else goto_st 274)"

definition http_st274 :: "bool \<Rightarrow> int \<Rightarrow> http_target" where
  "http_st274 relaxed c =
    (if c = 58 then goto_st 275
     else goto_st 0)"

definition http_st275 :: "bool \<Rightarrow> int \<Rightarrow> http_target" where
  "http_st275 relaxed c =
    (if c = 58 then goto_st 340
     else if c < 65 then (if 48 \<le> c \<and> c \<le> 57 then goto_st 276
       else goto_st 0)
     else if 70 < c then (if 97 \<le> c \<and> c \<le> 102 then goto_st 276
       else goto_st 0)
     else goto_st 276)"

definition http_st276 :: "bool \<Rightarrow> int \<Rightarrow> http_target" where
  "http_st276 relaxed c =
    (if c = 58 then goto_st 280
     else if c < 65 then (if 48 \<le> c \<and> c \<le> 57 then goto_st 277
       else goto_st 0)
     else if 70 < c then (if 97 \<le> c \<and> c \<le> 102 then goto_st 277
       else goto_st 0)
     else goto_st 277)"

definition http_st277 :: "bool \<Rightarrow> int \<Rightarrow> http_target" where
  "http_st277 relaxed c =
    (if c = 58 then goto_st 280
     else if c < 65 then (if 48 \<le> c \<and> c \<le> 57 then goto_st 278
       else goto_st 0)
     else if 70 < c then (if 97 \<le> c \<and> c \<le> 102 then goto_st 278
       else goto_st 0)
     else goto_st 278)"

definition http_st278 :: "bool \<Rightarrow> int \<Rightarrow> http_target" where
  "http_st278 relaxed c =
    (if c = 58 then goto_st 280
     else if c < 65 then (if 48 \<le> c \<and> c \<le> 57 then goto_st 279
       else goto_st 0)
     else if 70 < c then (if 97 \<le> c \<and> c \<le> 102 then goto_st 279
       else goto_st 0)
     else goto_st 279)"

definition http_st279 :: "bool \<Rightarrow> int \<Rightarrow> http_target" where
  "http_st279 relaxed c =
    (if c = 58 then goto_st 280
     else goto_st 0)"

definition http_st280 :: "bool \<Rightarrow> int \<Rightarrow> http_target" where
  "http_st280 relaxed c =
    (if c = 58 then goto_st 339
     else if c < 65 then (if 48 \<le> c \<and> c \<le> 57 then goto_st 281
       else goto_st 0)
     else if 70 < c then (if 97 \<le> c \<and> c \<le> 102 then goto_st 281
       else goto_st 0)
     else goto_st 281)"

definition http_st281 :: "bool \<Rightarrow> int \<Rightarrow> http_target" where
  "http_st281 relaxed c =
    (if c = 58 then goto_st 285
     else if c < 65 then (if 48 \<le> c \<and> c \<le> 57 then goto_st 282
       else goto_st 0)
     else if 70 < c then (if 97 \<le> c \<and> c \<le> 102 then goto_st 282
       else goto_st 0)
     else goto_st 282)"

definition http_st282 :: "bool \<Rightarrow> int \<Rightarrow> http_target" where
  "http_st282 relaxed c =
    (if c = 58 then goto_st 285
     else if c < 65 then (if 48 \<le> c \<and> c \<le> 57 then goto_st 283
       else goto_st 0)
     else if 70 < c then (if 97 \<le> c \<and> c \<le> 102 then goto_st 283
       else goto_st 0)
     else goto_st 283)"

definition http_st283 :: "bool \<Rightarrow> int \<Rightarrow> http_target" where
  "http_st283 relaxed c =
    (if c = 58 then goto_st 285
     else if c < 65 then (if 48 \<le> c \<and> c \<le> 57 then goto_st 284
       else goto_st 0)
     else if 70 < c then (if 97 \<le> c \<and> c \<le> 102 then goto_st 284
       else goto_st 0)
     else goto_st 284)"

definition http_st284 :: "bool \<Rightarrow> int \<Rightarrow> http_target" where
  "http_st284 relaxed c =
    (if c = 58 then goto_st 285
     else goto_st 0)"

definition http_st285 :: "bool \<Rightarrow> int \<Rightarrow> http_target" where
  "http_st285 relaxed c =
    (if c = 58 then goto_st 338
     else if c < 65 then (if 48 \<le> c \<and> c \<le> 57 then goto_st 286
       else goto_st 0)
     else if 70 < c then (if 97 \<le> c \<and> c \<le> 102 then goto_st 286
       else goto_st 0)
     else goto_st 286)"

definition http_st286 :: "bool \<Rightarrow> int \<Rightarrow> http_target" where
  "http_st286 relaxed c =
    (if c = 58 then goto_st 290
     else if c < 65 then (if 48 \<le> c \<and> c \<le> 57 then goto_st 287
       else goto_st 0)
     else if 70 < c then (if 97 \<le> c \<and> c \<le> 102 then goto_st 287
       else goto_st 0)
     else goto_st 287)"

definition http_st287 :: "bool \<Rightarrow> int \<Rightarrow> http_target" where
  "http_st287 relaxed c =
    (if c = 58 then goto_st 290
     else if c < 65 then (if 48 \<le> c \<and> c \<le> 57 then goto_st 288
       else goto_st 0)
     else if 70 < c then (if 97 \<le> c \<and> c \<le> 102 then goto_st 288
       else goto_st 0)
     else goto_st 288)"

definition http_st288 :: "bool \<Rightarrow> int \<Rightarrow> http_target" where
  "http_st288 relaxed c =
    (if c = 58 then goto_st 290
     else if c < 65 then (if 48 \<le> c \<and> c \<le> 57 then goto_st 289
       else goto_st 0)
     else if 70 < c then (if 97 \<le> c \<and> c \<le> 102 then goto_st 289
       else goto_st 0)
     else goto_st 289)"

definition http_st289 :: "bool \<Rightarrow> int \<Rightarrow> http_target" where
  "http_st289 relaxed c =
    (if c = 58 then goto_st 290
     else goto_st 0)"

definition http_st290 :: "bool \<Rightarrow> int \<Rightarrow> http_target" where
  "http_st290 relaxed c =
    (if c = 58 then goto_st 326
     else if c < 65 then (if 48 \<le> c \<and> c \<le> 57 then goto_st 291
       else goto_st 0)
     else if 70 < c then (if 97 \<le> c \<and> c \<le> 102 then goto_st 291
       else goto_st 0)
     else goto_st 291)"

definition http_st291 :: "bool \<Rightarrow> int \<Rightarrow> http_target" where
  "http_st291 relaxed c =
    (if c = 58 then goto_st 295
     else if c < 65 then (if 48 \<le> c \<and> c \<le> 57 then goto_st 292
       else goto_st 0)
     else if 70 < c then (if 97 \<le> c \<and> c \<le> 102 then goto_st 292
       else goto_st 0)
     else goto_st 292)"

definition http_st292 :: "bool \<Rightarrow> int \<Rightarrow> http_target" where
  "http_st292 relaxed c =
    (if c = 58 then goto_st 295
     else if c < 65 then (if 48 \<le> c \<and> c \<le> 57 then goto_st 293
       else goto_st 0)
     else if 70 < c then (if 97 \<le> c \<and> c \<le> 102 then goto_st 293
       else goto_st 0)
     else goto_st 293)"

definition http_st293 :: "bool \<Rightarrow> int \<Rightarrow> http_target" where
  "http_st293 relaxed c =
    (if c = 58 then goto_st 295
     else if c < 65 then (if 48 \<le> c \<and> c \<le> 57 then goto_st 294
       else goto_st 0)
     else if 70 < c then (if 97 \<le> c \<and> c \<le> 102 then goto_st 294
       else goto_st 0)
     else goto_st 294)"

definition http_st294 :: "bool \<Rightarrow> int \<Rightarrow> http_target" where
  "http_st294 relaxed c =
    (if c = 58 then goto_st 295
     else goto_st 0)"

definition http_st295 :: "bool \<Rightarrow> int \<Rightarrow> http_target" where
  "http_st295 relaxed c =
    (if c = 58 then goto_st 325
     else if c < 65 then (if 48 \<le> c \<and> c \<le> 57 then goto_st 296
       else goto_st 0)
     else if 70 < c then (if 97 \<le> c \<and> c \<le> 102 then goto_st 296
       else goto_st 0)
     else goto_st 296)"

definition http_st296 :: "bool \<Rightarrow> int \<Rightarrow> http_target" where
  "http_st296 relaxed c =
    (if c = 58 then goto_st 300
     else if c < 65 then (if 48 \<le> c \<and> c \<le> 57 then goto_st 297
       else goto_st 0)
     else if 70 < c then (if 97 \<le> c \<and> c \<le> 102 then goto_st 297
       else goto_st 0)
     else goto_st 297)"

definition http_st297 :: "bool \<Rightarrow> int \<Rightarrow> http_target" where
  "http_st297 relaxed c =
    (if c = 58 then goto_st 300
     else if c < 65 then (if 48 \<le> c \<and> c \<le> 57 then goto_st 298
       else goto_st 0)
     else if 70 < c then (if 97 \<le> c \<and> c \<le> 102 then goto_st 298
       else goto_st 0)
     else goto_st 298)"

definition http_st298 :: "bool \<Rightarrow> int \<Rightarrow> http_target" where
  "http_st298 relaxed c =
    (if c = 58 then goto_st 300
     else if c < 65 then (if 48 \<le> c \<and> c \<le> 57 then goto_st 299
       else goto_st 0)
     else if 70 < c then (if 97 \<le> c \<and> c \<le> 102 then goto_st 299
       else goto_st 0)
     else goto_st 299)"

definition http_st299 :: "bool \<Rightarrow> int \<Rightarrow> http_target" where
  "http_st299 relaxed c =
    (if c = 58 then goto_st 300
     else goto_st 0)"

definition http_st300 :: "bool \<Rightarrow> int \<Rightarrow> http_target" where
  "http_st300 relaxed c =
    (if c = 58 then goto_st 301
     else if c < 65 then (if 48 \<le> c \<and> c \<le> 57 then goto_st 296
       else goto_st 0)
     else if 70 < c then (if 97 \<le> c \<and> c \<le> 102 then goto_st 296
       else goto_st 0)
     else goto_st 296)"

definition http_st301 :: "bool \<Rightarrow> int \<Rightarrow> http_target" where
  "http_st301 relaxed c =
    (if c = 49 then goto_st 318
     else if c = 50 then goto_st 321
     else if c = 93 then goto_st 236
     else if c < 48 then (if 2 \<le> c \<and> c \<le> 3 then goto_st 223
       else goto_st 0)
     else if 57 < c then (if 70 < c then (if 97 \<le> c \<and> c \<le> 102 then goto_st 324
         else goto_st 0)
       else if 65 \<le> c then goto_st 324
       else goto_st 0)
     else goto_st 302)"

definition http_st302 :: "bool \<Rightarrow> int \<Rightarrow> http_target" where
  "http_st302 relaxed c =
    (if c = 46 then goto_st 230
     else if c = 58 then goto_st 306
     else if c = 93 then goto_st 236
     else if c < 65 then (if 48 \<le> c \<and> c \<le> 57 then goto_st 303
       else goto_st 0)
     else if 70 < c then (if 97 \<le> c \<and> c \<le> 102 then goto_st 303
       else goto_st 0)
     else goto_st 303)"

definition http_st303 :: "bool \<Rightarrow> int \<Rightarrow> http_target" where
  "http_st303 relaxed c =
    (if c = 58 then goto_st 306
     else if c = 93 then goto_st 236
     else if c < 65 then (if 48 \<le> c \<and> c \<le> 57 then goto_st 304
       else goto_st 0)
     else if 70 < c then (if 97 \<le> c \<and> c \<le> 102 then goto_st 304
       else goto_st 0)
     else goto_st 304)"

definition http_st304 :: "bool \<Rightarrow> int \<Rightarrow> http_target" where
  "http_st304 relaxed c =
    (if c = 58 then goto_st 306
     else if c = 93 then goto_st 236
     else if c < 65 then (if 48 \<le> c \<and> c \<le> 57 then goto_st 305
       else goto_st 0)
     else if 70 < c then (if 97 \<le> c \<and> c \<le> 102 then goto_st 305
       else goto_st 0)
     else goto_st 305)"

definition http_st305 :: "bool \<Rightarrow> int \<Rightarrow> http_target" where
  "http_st305 relaxed c =
    (if c = 58 then goto_st 306
     else if c = 93 then goto_st 236
     else goto_st 0)"

definition http_st306 :: "bool \<Rightarrow> int \<Rightarrow> http_target" where
  "http_st306 relaxed c =
    (if c = 49 then goto_st 311
     else if c = 50 then goto_st 314
     else if c < 65 then (if 48 \<le> c \<and> c \<le> 57 then goto_st 307
       else goto_st 0)
     else if 70 < c then (if 97 \<le> c \<and> c \<le> 102 then goto_st 317
       else goto_st 0)
     else goto_st 317)"

definition http_st307 :: "bool \<Rightarrow> int \<Rightarrow> http_target" where
  "http_st307 relaxed c =
    (if c = 46 then goto_st 230
     else if c = 58 then goto_st 255
     else if c = 93 then goto_st 236
     else if c < 65 then (if 48 \<le> c \<and> c \<le> 57 then goto_st 308
       else goto_st 0)
     else if 70 < c then (if 97 \<le> c \<and> c \<le> 102 then goto_st 308
       else goto_st 0)
     else goto_st 308)"

definition http_st308 :: "bool \<Rightarrow> int \<Rightarrow> http_target" where
  "http_st308 relaxed c =
    (if c = 58 then goto_st 255
     else if c = 93 then goto_st 236
     else if c < 65 then (if 48 \<le> c \<and> c \<le> 57 then goto_st 309
       else goto_st 0)
     else if 70 < c then (if 97 \<le> c \<and> c \<le> 102 then goto_st 309
       else goto_st 0)
     else goto_st 309)"

definition http_st309 :: "bool \<Rightarrow> int \<Rightarrow> http_target" where
  "http_st309 relaxed c =
    (if c = 58 then goto_st 255
     else if c = 93 then goto_st 236
     else if c < 65 then (if 48 \<le> c \<and> c \<le> 57 then goto_st 310
       else goto_st 0)
     else if 70 < c then (if 97 \<le> c \<and> c \<le> 102 then goto_st 310
       else goto_st 0)
     else goto_st 310)"

definition http_st310 :: "bool \<Rightarrow> int \<Rightarrow> http_target" where
  "http_st310 relaxed c =
    (if c = 58 then goto_st 255
     else if c = 93 then goto_st 236
     else goto_st 0)"

definition http_st311 :: "bool \<Rightarrow> int \<Rightarrow> http_target" where
  "http_st311 relaxed c =
    (if c = 46 then goto_st 230
     else if c = 58 then goto_st 255
     else if c = 93 then goto_st 236
     else if c < 65 then (if 48 \<le> c \<and> c \<le> 57 then goto_st 312
       else goto_st 0)
     else if 70 < c then (if 97 \<le> c \<and> c \<le> 102 then goto_st 308
       else goto_st 0)
     else goto_st 308)"

definition http_st312 :: "bool \<Rightarrow> int \<Rightarrow> http_target" where
  "http_st312 relaxed c =
    (if c = 46 then goto_st 230
     else if c = 58 then goto_st 255
     else if c = 93 then goto_st 236
     else if c < 65 then (if 48 \<le> c \<and> c \<le> 57 then goto_st 313
       else goto_st 0)
     else if 70 < c then (if 97 \<le> c \<and> c \<le> 102 then goto_st 309
       else goto_st 0)
     else goto_st 309)"

definition http_st313 :: "bool \<Rightarrow> int \<Rightarrow> http_target" where
  "http_st313 relaxed c =
    (if c = 46 then goto_st 230
     else if c = 58 then goto_st 255
     else if c = 93 then goto_st 236
     else if c < 65 then (if 48 \<le> c \<and> c \<le> 57 then goto_st 310
       else goto_st 0)
     else if 70 < c then (if 97 \<le> c \<and> c \<le> 102 then goto_st 310
       else goto_st 0)
     else goto_st 310)"

definition http_st314 :: "bool \<Rightarrow> int \<Rightarrow> http_target" where
  "http_st314 relaxed c =
    (if c = 46 then goto_st 230
     else if c = 48 then goto_st 315
     else if c = 53 then goto_st 316
     else if c = 58 then goto_st 255
     else if c = 93 then goto_st 236
     else if c < 65 then (if 49 \<le> c \<and> c \<le> 57 then goto_st 308
       else goto_st 0)
     else if 70 < c then (if 97 \<le> c \<and> c \<le> 102 then goto_st 308
       else goto_st 0)
     else goto_st 308)"

definition http_st315 :: "bool \<Rightarrow> int \<Rightarrow> http_target" where
  "http_st315 relaxed c =
    (if c = 58 then goto_st 255
     else if c = 93 then goto_st 236
     else if c < 65 then (if 48 \<le> c \<and> c \<le> 57 then goto_st 313
       else goto_st 0)
     else if 70 < c then (if 97 \<le> c \<and> c \<le> 102 then goto_st 309
       else goto_st 0)
     else goto_st 309)"

definition http_st316 :: "bool \<Rightarrow> int \<Rightarrow> http_target" where
  "http_st316 relaxed c =
    (if c = 48 then goto_st 313
     else if c = 58 then goto_st 255
     else if c = 93 then goto_st 236
     else if c < 65 then (if 49 \<le> c \<and> c \<le> 57 then goto_st 309
       else goto_st 0)
     else if 70 < c then (if 97 \<le> c \<and> c \<le> 102 then goto_st 309
       else goto_st 0)
     else goto_st 309)"

definition http_st317 :: "bool \<Rightarrow> int \<Rightarrow> http_target" where
  "http_st317 relaxed c =
    (if c = 58 then goto_st 255
     else if c = 93 then goto_st 236
     else if c < 65 then (if 48 \<le> c \<and> c \<le> 57 then goto_st 308
       else goto_st 0)
     else if 70 < c then (if 97 \<le> c \<and> c \<le> 102 then goto_st 308
       else goto_st 0)
     else goto_st 308)"

definition http_st318 :: "bool \<Rightarrow> int \<Rightarrow> http_target" where
  "http_st318 relaxed c =
    (if c = 46 then goto_st 230
     else if c = 58 then goto_st 306
     else if c = 93 then goto_st 236
     else if c < 65 then (if 48 \<le> c \<and> c \<le> 57 then goto_st 319
       else goto_st 0)
     else if 70 < c then (if 97 \<le> c \<and> c \<le> 102 then goto_st 303
       else goto_st 0)
     else goto_st 303)"

definition http_st319 :: "bool \<Rightarrow> int \<Rightarrow> http_target" where
  "http_st319 relaxed c =
    (if c = 46 then goto_st 230
     else if c = 58 then goto_st 306
     else if c = 93 then goto_st 236
     else if c < 65 then (if 48 \<le> c \<and> c \<le> 57 then goto_st 320
       else goto_st 0)
     else if 70 < c then (if 97 \<le> c \<and> c \<le> 102 then goto_st 304
       else goto_st 0)
     else goto_st 304)"

definition http_st320 :: "bool \<Rightarrow> int \<Rightarrow> http_target" where
  "http_st320 relaxed c =
    (if c = 46 then goto_st 230
     else if c = 58 then goto_st 306
     else if c = 93 then goto_st 236
     else if c < 65 then (if 48 \<le> c \<and> c \<le> 57 then goto_st 305
       else goto_st 0)
     else if 70 < c then (if 97 \<le> c \<and> c \<le> 102 then goto_st 305
       else goto_st 0)
     else goto_st 305)"

definition http_st321 :: "bool \<Rightarrow> int \<Rightarrow> http_target" where
  "http_st321 relaxed c =
    (if c = 46 then goto_st 230
     else if c = 48 then goto_st 322
     else if c = 53 then goto_st 323
     else if c = 58 then goto_st 306
     else if c = 93 then goto_st 236
     else if c < 65 then (if 49 \<le> c \<and> c \<le> 57 then goto_st 303
       else goto_st 0)
     else if 70 < c then (if 97 \<le> c \<and> c \<le> 102 then goto_st 303
       else goto_st 0)
     else goto_st 303)"

definition http_st322 :: "bool \<Rightarrow> int \<Rightarrow> http_target" where
  "http_st322 relaxed c =
    (if c = 58 then goto_st 306
     else if c = 93 then goto_st 236
     else if c < 65 then (if 48 \<le> c \<and> c \<le> 57 then goto_st 320
       else goto_st 0)
     else if 70 < c then (if 97 \<le> c \<and> c \<le> 102 then goto_st 304
       else goto_st 0)
     else goto_st 304)"

definition http_st323 :: "bool \<Rightarrow> int \<Rightarrow> http_target" where
  "http_st323 relaxed c =
    (if c = 48 then goto_st 320
     else if c = 58 then goto_st 306
     else if c = 93 then goto_st 236
     else if c < 65 then (if 49 \<le> c \<and> c \<le> 57 then goto_st 304
       else goto_st 0)
     else if 70 < c then (if 97 \<le> c \<and> c \<le> 102 then goto_st 304
       else goto_st 0)
     else goto_st 304)"

definition http_st324 :: "bool \<Rightarrow> int \<Rightarrow> http_target" where
  "http_st324 relaxed c =
    (if c = 58 then goto_st 306
     else if c = 93 then goto_st 236
     else if c < 65 then (if 48 \<le> c \<and> c \<le> 57 then goto_st 303
       else goto_st 0)
     else if 70 < c then (if 97 \<le> c \<and> c \<le> 102 then goto_st 303
       else goto_st 0)
     else goto_st 303)"

definition http_st325 :: "bool \<Rightarrow> int \<Rightarrow> http_target" where
  "http_st325 relaxed c =
    (if c = 49 then goto_st 318
     else if c = 50 then goto_st 321
     else if c < 48 then (if 2 \<le> c \<and> c \<le> 3 then goto_st 223
       else goto_st 0)
     else if 57 < c then (if 70 < c then (if 97 \<le> c \<and> c \<le> 102 then goto_st 324
         else goto_st 0)
       else if 65 \<le> c then goto_st 324
       else goto_st 0)
     else goto_st 302)"

definition http_st326 :: "bool \<Rightarrow> int \<Rightarrow> http_target" where
  "http_st326 relaxed c =
    (if c = 49 then goto_st 331
     else if c = 50 then goto_st 334
     else if c < 48 then (if 2 \<le> c \<and> c \<le> 3 then goto_st 223
       else goto_st 0)
     else if 57 < c then (if 70 < c then (if 97 \<le> c \<and> c \<le> 102 then goto_st 337
         else goto_st 0)
       else if 65 \<le> c then goto_st 337
       else goto_st 0)
     else goto_st 327)"

definition http_st327 :: "bool \<Rightarrow> int \<Rightarrow> http_target" where
  "http_st327 relaxed c =
    (if c = 46 then goto_st 230
     else if c = 58 then goto_st 306
     else if c < 65 then (if 48 \<le> c \<and> c \<le> 57 then goto_st 328
       else goto_st 0)
     else if 70 < c then (if 97 \<le> c \<and> c \<le> 102 then goto_st 328
       else goto_st 0)
     else goto_st 328)"

definition http_st328 :: "bool \<Rightarrow> int \<Rightarrow> http_target" where
  "http_st328 relaxed c =
    (if c = 58 then goto_st 306
     else if c < 65 then (if 48 \<le> c \<and> c \<le> 57 then goto_st 329
       else goto_st 0)
     else if 70 < c then (if 97 \<le> c \<and> c \<le> 102 then goto_st 329
       else goto_st 0)
     else goto_st 329)"

definition http_st329 :: "bool \<Rightarrow> int \<Rightarrow> http_target" where
  "http_st329 relaxed c =
    (if c = 58 then goto_st 306
     else if c < 65 then (if 48 \<le> c \<and> c \<le> 57 then goto_st 330
       else goto_st 0)
     else if 70 < c then (if 97 \<le> c \<and> c \<le> 102 then goto_st 330
       else goto_st 0)
     else goto_st 330)"

definition http_st330 :: "bool \<Rightarrow> int \<Rightarrow> http_target" where
  "http_st330 relaxed c =
    (if c = 58 then goto_st 306
     else goto_st 0)"

definition http_st331 :: "bool \<Rightarrow> int \<Rightarrow> http_target" where
  "http_st331 relaxed c =
    (if c = 46 then goto_st 230
     else if c = 58 then goto_st 306
     else if c < 65 then (if 48 \<le> c \<and> c \<le> 57 then goto_st 332
       else goto_st 0)
     else if 70 < c then (if 97 \<le> c \<and> c \<le> 102 then goto_st 328
       else goto_st 0)
     else goto_st 328)"

definition http_st332 :: "bool \<Rightarrow> int \<Rightarrow> http_target" where
  "http_st332 relaxed c =
    (if c = 46 then goto_st 230
     else if c = 58 then goto_st 306
     else if c < 65 then (if 48 \<le> c \<and> c \<le> 57 then goto_st 333
       else goto_st 0)
     else if 70 < c then (if 97 \<le> c \<and> c \<le> 102 then goto_st 329
       else goto_st 0)
     else goto_st 329)"

definition http_st333 :: "bool \<Rightarrow> int \<Rightarrow> http_target" where
  "http_st333 relaxed c =
    (if c = 46 then goto_st 230
     else if c = 58 then goto_st 306
     else if c < 65 then (if 48 \<le> c \<and> c \<le> 57 then goto_st 330
       else goto_st 0)
     else if 70 < c then (if 97 \<le> c \<and> c \<le> 102 then goto_st 330
       else goto_st 0)
     else goto_st 330)"

definition http_st334 :: "bool \<Rightarrow> int \<Rightarrow> http_target" where
  "http_st334 relaxed c =
    (if c = 46 then goto_st 230
     else if c = 48 then goto_st 335
     else if c = 53 then goto_st 336
     else if c = 58 then goto_st 306
     else if c < 65 then (if 49 \<le> c \<and> c \<le> 57 then goto_st 328
       else goto_st 0)
     else if 70 < c then (if 97 \<le> c \<and> c \<le> 102 then goto_st 328
       else goto_st 0)
     else goto_st 328)"

definition http_st335 :: "bool \<Rightarrow> int \<Rightarrow> http_target" where
  "http_st335 relaxed c =
    (if c = 58 then goto_st 306
     else if c < 65 then (if 48 \<le> c \<and> c \<le> 57 then goto_st 333
       else goto_st 0)
     else if 70 < c then (if 97 \<le> c \<and> c \<le> 102 then goto_st 329
       else goto_st 0)
     else goto_st 329)"

definition http_st336 :: "bool \<Rightarrow> int \<Rightarrow> http_target" where
  "http_st336 relaxed c =
    (if c = 48 then goto_st 333
     else if c = 58 then goto_st 306
     else if c < 65 then (if 49 \<le> c \<and> c \<le> 57 then goto_st 329
       else goto_st 0)
     else if 70 < c then (if 97 \<le> c \<and> c \<le> 102 then goto_st 329
       else goto_st 0)
     else goto_st 329)"

definition http_st337 :: "bool \<Rightarrow> int \<Rightarrow> http_target" where
  "http_st337 relaxed c =
    (if c = 58 then goto_st 306
     else if c < 65 then (if 48 \<le> c \<and> c \<le> 57 then goto_st 328
       else goto_st 0)
     else if 70 < c then (if 97 \<le> c \<and> c \<le> 102 then goto_st 328
       else goto_st 0)
     else goto_st 328)"

definition http_st338 :: "bool \<Rightarrow> int \<Rightarrow> http_target" where
  "http_st338 relaxed c =
    (if c < 48 then (if 2 \<le> c \<and> c \<le> 3 then goto_st 223
       else goto_st 0)
     else if 57 < c then (if 70 < c then (if 97 \<le> c \<and> c \<le> 102 then goto_st 224
         else goto_st 0)
       else if 65 \<le> c then goto_st 224
       else goto_st 0)
     else goto_st 224)"

definition http_st339 :: "bool \<Rightarrow> int \<Rightarrow> http_target" where
  "http_st339 relaxed c =
    (if 2 \<le> c \<and> c \<le> 3 then goto_st 223
     else goto_st 0)"

definition http_st340 :: "bool \<Rightarrow> int \<Rightarrow> http_target" where
  "http_st340 relaxed c =
    (if c = 3 then goto_st 223
     else goto_st 0)"

definition http_st341 :: "bool \<Rightarrow> int \<Rightarrow> http_target" where
  "http_st341 relaxed c =
    (if c = 4 then goto_st 223
     else goto_st 0)"

definition http_st342 :: "bool \<Rightarrow> int \<Rightarrow> http_target" where
  "http_st342 relaxed c =
    (if c = 58 then goto_st 343
     else goto_st 0)"

definition http_st343 :: "bool \<Rightarrow> int \<Rightarrow> http_target" where
  "http_st343 relaxed c =
    (if c = 49 then goto_st 318
     else if c = 50 then goto_st 321
     else if c = 93 then goto_st 236
     else if c < 48 then (if 2 \<le> c \<and> c \<le> 5 then goto_st 223
       else goto_st 0)
     else if 57 < c then (if 70 < c then (if 97 \<le> c \<and> c \<le> 102 then goto_st 324
         else goto_st 0)
       else if 65 \<le> c then goto_st 324
       else goto_st 0)
     else goto_st 302)"

definition http_st344 :: "bool \<Rightarrow> int \<Rightarrow> http_target" where
  "http_st344 relaxed c =
    (if c < 65 then (if 48 \<le> c \<and> c \<le> 57 then goto_st 345
       else goto_st 0)
     else if 70 < c then (if 97 \<le> c \<and> c \<le> 102 then goto_st 345
       else goto_st 0)
     else goto_st 345)"

definition http_st345 :: "bool \<Rightarrow> int \<Rightarrow> http_target" where
  "http_st345 relaxed c =
    (if c = 46 then goto_st 346
     else if c < 65 then (if 48 \<le> c \<and> c \<le> 57 then goto_st 345
       else goto_st 0)
     else if 70 < c then (if 97 \<le> c \<and> c \<le> 102 then goto_st 345
       else goto_st 0)
     else goto_st 345)"

definition http_st346 :: "bool \<Rightarrow> int \<Rightarrow> http_target" where
  "http_st346 relaxed c =
    (let w = widec relaxed c in
     if w \<in> {33, 36, 61, 95, 126, 606, 635, 637} then goto_st 347
     else if w < 48 then (if 38 \<le> w \<and> w \<le> 46 then goto_st 347
       else goto_st 0)
     else if 59 < w then (if 90 < w then (if 97 \<le> w \<and> w \<le> 122 then goto_st 347
         else goto_st 0)
       else if 65 \<le> w then goto_st 347
       else goto_st 0)
     else goto_st 347)"

definition http_st347 :: "bool \<Rightarrow> int \<Rightarrow> http_target" where
  "http_st347 relaxed c =
    (let w = widec relaxed c in
     if w \<in> {33, 36, 61, 95, 126, 606, 635, 637} then goto_st 347
     else if w = 93 then goto_st 236
     else if w < 48 then (if 38 \<le> w \<and> w \<le> 46 then goto_st 347
       else goto_st 0)
     else if 59 < w then (if 90 < w then (if 97 \<le> w \<and> w \<le> 122 then goto_st 347
         else goto_st 0)
       else if 65 \<le> w then goto_st 347
       else goto_st 0)
     else goto_st 347)"

definition http_st348 :: "bool \<Rightarrow> int \<Rightarrow> http_target" where
  "http_st348 relaxed c =
    (if c \<in> {33, 124, 126} then goto_st 14
     else if c = 58 then http_tr27
     else if c < 42 then (if c < 10 then (if 1 \<le> c \<and> c \<le> 8 then goto_st 14
         else goto_st 0)
       else if 31 < c then (if 35 \<le> c \<and> c \<le> 39 then goto_st 14
         else goto_st 0)
       else goto_st 14)
     else if 43 < c then (if c < 48 then (if 45 \<le> c \<and> c \<le> 46 then goto_st 14
         else goto_st 0)
       else if 57 < c then (if 90 < c then (if 94 \<le> c \<and> c \<le> 122 then goto_st 14
           else goto_st 0)
         else if 65 \<le> c then goto_st 14
         else goto_st 0)
       else goto_st 14)
     else goto_st 14)"

definition http_st349 :: "bool \<Rightarrow> int \<Rightarrow> http_target" where
  "http_st349 relaxed c =
    (goto_st 0)"

lemmas http_st_defs =
  http_st1_def http_st2_def http_st3_def http_st4_def http_st5_def http_st6_def
  http_st7_def http_st8_def http_st9_def http_st10_def http_st11_def http_st12_def
  http_st13_def http_st14_def http_st15_def http_st16_def http_st17_def http_st18_def
  http_st19_def http_st20_def http_st21_def http_st22_def http_st23_def http_st24_def
  http_st25_def http_st26_def http_st27_def http_st28_def http_st29_def http_st30_def
  http_st31_def http_st32_def http_st33_def http_st34_def http_st35_def http_st36_def
  http_st37_def http_st38_def http_st39_def http_st40_def http_st41_def http_st42_def
  http_st43_def http_st44_def http_st45_def http_st46_def http_st47_def http_st48_def
  http_st49_def http_st50_def http_st51_def http_st52_def http_st53_def http_st54_def
  http_st55_def http_st56_def http_st57_def http_st58_def http_st59_def http_st60_def
  http_st61_def http_st62_def http_st63_def http_st64_def http_st65_def http_st66_def
  http_st67_def http_st68_def http_st69_def http_st70_def http_st71_def http_st72_def
  http_st73_def http_st74_def http_st75_def http_st76_def http_st77_def http_st78_def
  http_st79_def http_st80_def http_st81_def http_st82_def http_st83_def http_st84_def
  http_st85_def http_st86_def http_st87_def http_st88_def http_st89_def http_st90_def
  http_st91_def http_st92_def http_st93_def http_st94_def http_st95_def http_st96_def
  http_st97_def http_st98_def http_st99_def http_st100_def http_st101_def http_st102_def
  http_st103_def http_st104_def http_st105_def http_st106_def http_st107_def http_st108_def
  http_st109_def http_st110_def http_st111_def http_st112_def http_st113_def http_st114_def
  http_st115_def http_st116_def http_st117_def http_st118_def http_st119_def http_st120_def
  http_st121_def http_st122_def http_st123_def http_st124_def http_st125_def http_st126_def
  http_st127_def http_st128_def http_st129_def http_st130_def http_st131_def http_st132_def
  http_st133_def http_st134_def http_st135_def http_st136_def http_st137_def http_st138_def
  http_st139_def http_st140_def http_st141_def http_st142_def http_st143_def http_st144_def
  http_st145_def http_st146_def http_st147_def http_st148_def http_st149_def http_st150_def
  http_st151_def http_st152_def http_st153_def http_st154_def http_st155_def http_st156_def
  http_st157_def http_st158_def http_st159_def http_st160_def http_st161_def http_st162_def
  http_st163_def http_st164_def http_st165_def http_st166_def http_st167_def http_st168_def
  http_st169_def http_st170_def http_st171_def http_st172_def http_st173_def http_st174_def
  http_st175_def http_st176_def http_st177_def http_st178_def http_st179_def http_st180_def
  http_st181_def http_st182_def http_st183_def http_st184_def http_st185_def http_st186_def
  http_st187_def http_st188_def http_st189_def http_st190_def http_st191_def http_st192_def
  http_st193_def http_st194_def http_st195_def http_st196_def http_st197_def http_st198_def
  http_st199_def http_st200_def http_st201_def http_st202_def http_st203_def http_st204_def
  http_st205_def http_st206_def http_st207_def http_st208_def http_st209_def http_st210_def
  http_st211_def http_st212_def http_st213_def http_st214_def http_st215_def http_st216_def
  http_st217_def http_st218_def http_st219_def http_st220_def http_st221_def http_st222_def
  http_st223_def http_st224_def http_st225_def http_st226_def http_st227_def http_st228_def
  http_st229_def http_st230_def http_st231_def http_st232_def http_st233_def http_st234_def
  http_st235_def http_st236_def http_st237_def http_st238_def http_st239_def http_st240_def
  http_st241_def http_st242_def http_st243_def http_st244_def http_st245_def http_st246_def
  http_st247_def http_st248_def http_st249_def http_st250_def http_st251_def http_st252_def
  http_st253_def http_st254_def http_st255_def http_st256_def http_st257_def http_st258_def
  http_st259_def http_st260_def http_st261_def http_st262_def http_st263_def http_st264_def
  http_st265_def http_st266_def http_st267_def http_st268_def http_st269_def http_st270_def
  http_st271_def http_st272_def http_st273_def http_st274_def http_st275_def http_st276_def
  http_st277_def http_st278_def http_st279_def http_st280_def http_st281_def http_st282_def
  http_st283_def http_st284_def http_st285_def http_st286_def http_st287_def http_st288_def
  http_st289_def http_st290_def http_st291_def http_st292_def http_st293_def http_st294_def
  http_st295_def http_st296_def http_st297_def http_st298_def http_st299_def http_st300_def
  http_st301_def http_st302_def http_st303_def http_st304_def http_st305_def http_st306_def
  http_st307_def http_st308_def http_st309_def http_st310_def http_st311_def http_st312_def
  http_st313_def http_st314_def http_st315_def http_st316_def http_st317_def http_st318_def
  http_st319_def http_st320_def http_st321_def http_st322_def http_st323_def http_st324_def
  http_st325_def http_st326_def http_st327_def http_st328_def http_st329_def http_st330_def
  http_st331_def http_st332_def http_st333_def http_st334_def http_st335_def http_st336_def
  http_st337_def http_st338_def http_st339_def http_st340_def http_st341_def http_st342_def
  http_st343_def http_st344_def http_st345_def http_st346_def http_st347_def http_st348_def
  http_st349_def

section \<open>The table\<close>

text \<open>
  \<open>switch (cs)\<close>: state 0 has no case, and entering it leaves the loop. (The list starts with
  state 1.)
\<close>

definition http_states_1 :: "(bool \<Rightarrow> int \<Rightarrow> http_target) list" where
  "http_states_1 =
    [http_st1, http_st2, http_st3, http_st4, http_st5, http_st6, http_st7, http_st8,
     http_st9, http_st10, http_st11, http_st12, http_st13, http_st14, http_st15, http_st16,
     http_st17, http_st18, http_st19, http_st20, http_st21, http_st22, http_st23, http_st24,
     http_st25, http_st26, http_st27, http_st28, http_st29, http_st30, http_st31, http_st32,
     http_st33, http_st34, http_st35, http_st36, http_st37, http_st38, http_st39, http_st40,
     http_st41, http_st42, http_st43, http_st44, http_st45, http_st46, http_st47, http_st48,
     http_st49, http_st50, http_st51, http_st52, http_st53, http_st54, http_st55, http_st56,
     http_st57, http_st58, http_st59, http_st60, http_st61, http_st62, http_st63, http_st64,
     http_st65, http_st66, http_st67, http_st68, http_st69, http_st70, http_st71, http_st72,
     http_st73, http_st74, http_st75, http_st76, http_st77, http_st78, http_st79, http_st80,
     http_st81, http_st82, http_st83, http_st84, http_st85, http_st86, http_st87, http_st88,
     http_st89, http_st90, http_st91, http_st92, http_st93, http_st94, http_st95, http_st96,
     http_st97, http_st98, http_st99, http_st100]"

definition http_states_2 :: "(bool \<Rightarrow> int \<Rightarrow> http_target) list" where
  "http_states_2 =
    [http_st101, http_st102, http_st103, http_st104, http_st105, http_st106, http_st107, http_st108,
     http_st109, http_st110, http_st111, http_st112, http_st113, http_st114, http_st115, http_st116,
     http_st117, http_st118, http_st119, http_st120, http_st121, http_st122, http_st123, http_st124,
     http_st125, http_st126, http_st127, http_st128, http_st129, http_st130, http_st131, http_st132,
     http_st133, http_st134, http_st135, http_st136, http_st137, http_st138, http_st139, http_st140,
     http_st141, http_st142, http_st143, http_st144, http_st145, http_st146, http_st147, http_st148,
     http_st149, http_st150, http_st151, http_st152, http_st153, http_st154, http_st155, http_st156,
     http_st157, http_st158, http_st159, http_st160, http_st161, http_st162, http_st163, http_st164,
     http_st165, http_st166, http_st167, http_st168, http_st169, http_st170, http_st171, http_st172,
     http_st173, http_st174, http_st175, http_st176, http_st177, http_st178, http_st179, http_st180,
     http_st181, http_st182, http_st183, http_st184, http_st185, http_st186, http_st187, http_st188,
     http_st189, http_st190, http_st191, http_st192, http_st193, http_st194, http_st195, http_st196,
     http_st197, http_st198, http_st199, http_st200]"

definition http_states_3 :: "(bool \<Rightarrow> int \<Rightarrow> http_target) list" where
  "http_states_3 =
    [http_st201, http_st202, http_st203, http_st204, http_st205, http_st206, http_st207, http_st208,
     http_st209, http_st210, http_st211, http_st212, http_st213, http_st214, http_st215, http_st216,
     http_st217, http_st218, http_st219, http_st220, http_st221, http_st222, http_st223, http_st224,
     http_st225, http_st226, http_st227, http_st228, http_st229, http_st230, http_st231, http_st232,
     http_st233, http_st234, http_st235, http_st236, http_st237, http_st238, http_st239, http_st240,
     http_st241, http_st242, http_st243, http_st244, http_st245, http_st246, http_st247, http_st248,
     http_st249, http_st250, http_st251, http_st252, http_st253, http_st254, http_st255, http_st256,
     http_st257, http_st258, http_st259, http_st260, http_st261, http_st262, http_st263, http_st264,
     http_st265, http_st266, http_st267, http_st268, http_st269, http_st270, http_st271, http_st272,
     http_st273, http_st274, http_st275, http_st276, http_st277, http_st278, http_st279, http_st280,
     http_st281, http_st282, http_st283, http_st284, http_st285, http_st286, http_st287, http_st288,
     http_st289, http_st290, http_st291, http_st292, http_st293, http_st294, http_st295, http_st296,
     http_st297, http_st298, http_st299, http_st300]"

definition http_states_4 :: "(bool \<Rightarrow> int \<Rightarrow> http_target) list" where
  "http_states_4 =
    [http_st301, http_st302, http_st303, http_st304, http_st305, http_st306, http_st307, http_st308,
     http_st309, http_st310, http_st311, http_st312, http_st313, http_st314, http_st315, http_st316,
     http_st317, http_st318, http_st319, http_st320, http_st321, http_st322, http_st323, http_st324,
     http_st325, http_st326, http_st327, http_st328, http_st329, http_st330, http_st331, http_st332,
     http_st333, http_st334, http_st335, http_st336, http_st337, http_st338, http_st339, http_st340,
     http_st341, http_st342, http_st343, http_st344, http_st345, http_st346, http_st347, http_st348,
     http_st349]"

definition http_states :: "(bool \<Rightarrow> int \<Rightarrow> http_target) list" where
  "http_states = http_states_1 @ http_states_2 @ http_states_3 @ http_states_4"

definition http_trans :: "nat \<Rightarrow> bool \<Rightarrow> int \<Rightarrow> http_target" where
  "http_trans cs relaxed c =
     (if cs = 0 \<or> length http_states < cs then goto_st 0 else (http_states ! (cs - 1)) relaxed c)"

end
