(* ===== verification/Http11_Parser.thy ===== *)
theory Http11_Parser
  imports Http Http11_Machine
begin

text \<open>
  Running the request automaton: \<open>struct http_parser\<close> with its marks into the buffer, the actions,
  the loop of \<open>http_parser_execute\<close> with its assertions (\<open>http11_parser.rl.cc\<close>), and the class
  around it, \<open>HttpRequestParser\<close> with its callbacks (\<open>http_parser.cc\<close>).

  A pointer into the buffer is an offset, and the text a callback can read from it the rest of
  the buffer. Differences of offsets are \<open>size_t\<close> and wrap. \<open>std::string(at, length)\<close> throws on a
  length no string can have, and reads outside the buffer when it is longer than what is there.
\<close>

section \<open>The parser\<close>

record http_parser =
  hp_cs :: nat
  hp_body_start :: nat
  hp_content_len :: "32 word"
  hp_nread :: nat
  hp_mark :: nat
  hp_field_start :: nat
  hp_field_len :: nat
  hp_query_start :: nat
  hp_xml_sent :: bool
  hp_json_sent :: bool
  hp_uri_relaxed :: bool

datatype hp_error = Hp_assert string | Length_error | Read_outside

text \<open>The calls through the function pointers: the text at the pointer and the length.\<close>

datatype hp_call =
    Call_method string nat
  | Call_uri string nat
  | Call_fragment string nat
  | Call_path string nat
  | Call_query string nat
  | Call_version string nat
  | Call_header_done string nat
  | Call_field string nat string nat

type_synonym 'd hp_callbacks = "hp_call \<Rightarrow> 'd \<Rightarrow> hp_error + 'd"

text \<open>\<open>query_start\<close> and \<open>uri_relaxed\<close> are left as they are, whatever they are.\<close>

definition http_parser_init :: "http_parser \<Rightarrow> http_parser" where
  "http_parser_init P =
     P\<lparr>hp_cs := 1, hp_body_start := 0, hp_content_len := 0, hp_mark := 0, hp_nread := 0,
       hp_field_len := 0, hp_field_start := 0, hp_xml_sent := False, hp_json_sent := False\<rparr>"

section \<open>Actions\<close>

definition LEN :: "nat \<Rightarrow> nat \<Rightarrow> nat" where
  "LEN at fpc = sub64 fpc at"

definition PTR_TO :: "string \<Rightarrow> nat \<Rightarrow> string" where
  "PTR_TO buffer f = drop f buffer"

definition with_data :: "http_parser \<Rightarrow> hp_error + 'd \<Rightarrow> hp_error + (http_parser \<times> 'd)" where
  "with_data P r = (case r of Inl e \<Rightarrow> Inl e | Inr d \<Rightarrow> Inr (P, d))"

fun hp_act ::
  "'d hp_callbacks \<Rightarrow> string \<Rightarrow> nat \<Rightarrow> http_act \<Rightarrow> http_parser \<times> 'd \<Rightarrow> hp_error + (http_parser \<times> 'd)"
where
  "hp_act cb buf p Mark (P, d) = Inr (P\<lparr>hp_mark := p\<rparr>, d)"
| "hp_act cb buf p Start_field (P, d) = Inr (P\<lparr>hp_field_start := p\<rparr>, d)"
| "hp_act cb buf p Start_query (P, d) = Inr (P\<lparr>hp_query_start := p\<rparr>, d)"
| "hp_act cb buf p Write_field (P, d) = Inr (P\<lparr>hp_field_len := LEN (hp_field_start P) p\<rparr>, d)"
| "hp_act cb buf p Write_value (P, d) =
     with_data P (cb (Call_field (PTR_TO buf (hp_field_start P)) (hp_field_len P)
                        (PTR_TO buf (hp_mark P)) (LEN (hp_mark P) p)) d)"
| "hp_act cb buf p Request_method (P, d) =
     with_data P (cb (Call_method (PTR_TO buf (hp_mark P)) (LEN (hp_mark P) p)) d)"
| "hp_act cb buf p Request_uri (P, d) =
     with_data P (cb (Call_uri (PTR_TO buf (hp_mark P)) (LEN (hp_mark P) p)) d)"
| "hp_act cb buf p Fragment (P, d) =
     with_data P (cb (Call_fragment (PTR_TO buf (hp_mark P)) (LEN (hp_mark P) p)) d)"
| "hp_act cb buf p Query_string (P, d) =
     with_data P (cb (Call_query (PTR_TO buf (hp_query_start P)) (LEN (hp_query_start P) p)) d)"
| "hp_act cb buf p Http_version (P, d) =
     with_data P (cb (Call_version (PTR_TO buf (hp_mark P)) (LEN (hp_mark P) p)) d)"
| "hp_act cb buf p Request_path (P, d) =
     with_data P (cb (Call_path (PTR_TO buf (hp_mark P)) (LEN (hp_mark P) p)) d)"
| "hp_act cb buf p Xml (P, d) = Inr (P\<lparr>hp_xml_sent := True\<rparr>, d)"
| "hp_act cb buf p Json (P, d) = Inr (P\<lparr>hp_json_sent := True\<rparr>, d)"
| "hp_act cb buf p (Done cs) (P, d) =
     (if hp_xml_sent P \<or> hp_json_sent P then
        Inr (P\<lparr>hp_body_start := hp_mark P, hp_content_len := of_nat (LEN (hp_mark P) p + 1)\<rparr>, d)
      else with_data (P\<lparr>hp_body_start := p + 1\<rparr>)
             (cb (Call_header_done (drop (p + 1) buf) (length buf - p - 1)) d))"

fun hp_acts ::
  "'d hp_callbacks \<Rightarrow> string \<Rightarrow> nat \<Rightarrow> http_act list \<Rightarrow> http_parser \<times> 'd \<Rightarrow> hp_error + (http_parser \<times> 'd)"
where
  "hp_acts cb buf p [] s = Inr s"
| "hp_acts cb buf p (a # as) s =
     (case hp_act cb buf p a s of Inl e \<Rightarrow> Inl e | Inr s' \<Rightarrow> hp_acts cb buf p as s')"

fun done_state :: "http_act list \<Rightarrow> nat option" where
  "done_state [] = None"
| "done_state (Done cs # as) = Some cs"
| "done_state (a # as) = done_state as"

section \<open>The loop\<close>

text \<open>\<open>*p\<close> as a (signed) \<open>char\<close>.\<close>

definition schar :: "char \<Rightarrow> int" where
  "schar c = (let n = of_char c :: int in if 128 \<le> n then n - 256 else n)"

text \<open>
  From state \<open>cs\<close> with the character at \<open>p\<close> still to be looked at; the result has the state and the
  position the loop is left with (\<open>_test_eof\<close>: the text is used up; \<open>_out\<close>: error or done).
\<close>

function hp_loop ::
  "'d hp_callbacks \<Rightarrow> string \<Rightarrow> nat \<Rightarrow> nat \<Rightarrow> http_parser \<times> 'd \<Rightarrow> hp_error + (nat \<times> nat \<times> http_parser \<times> 'd)"
where
  "hp_loop cb buf p cs s =
     (if length buf \<le> p then Inr (cs, p, s)
      else case http_trans cs (hp_uri_relaxed (fst s)) (schar (buf ! p)) of
        (as, n) \<Rightarrow>
          if n = 0 then Inr (0, p, s)
          else case hp_acts cb buf p as s of
                 Inl e \<Rightarrow> Inl e
               | Inr s' \<Rightarrow>
                   (case done_state as of
                      Some k \<Rightarrow> Inr (k, p + 1, s')
                    | None \<Rightarrow> hp_loop cb buf (p + 1) n s'))"
  by pat_completeness auto
termination
  by (relation "measure (\<lambda>(cb, buf, p, cs, s). length buf - p)") auto

declare hp_loop.simps [simp del]

definition hp_check :: "bool \<Rightarrow> string \<Rightarrow> hp_error + 'a \<Rightarrow> hp_error + 'a" where
  "hp_check b msg r = (if b then r else Inl (Hp_assert msg))"

text \<open>
  A parser in state 0 has no \<open>case\<close> to go to: control falls to the first label behind the
  \<open>switch\<close>, and the state is then kept because the parser has an error.
\<close>

definition http_parser_has_error :: "http_parser \<Rightarrow> bool" where
  "http_parser_has_error P \<longleftrightarrow> hp_cs P = 0"

definition http_parser_is_finished :: "http_parser \<Rightarrow> bool" where
  "http_parser_is_finished P \<longleftrightarrow> 348 \<le> hp_cs P"

definition http_parser_finish :: "http_parser \<Rightarrow> int" where
  "http_parser_finish P =
     (if http_parser_has_error P then - 1 else if http_parser_is_finished P then 1 else 0)"

definition http_parser_execute ::
  "'d hp_callbacks \<Rightarrow> string \<Rightarrow> nat \<Rightarrow> http_parser \<times> 'd \<Rightarrow> hp_error + (nat \<times> http_parser \<times> 'd)" where
  "http_parser_execute cb buf off s =
     (case s of (P, d) \<Rightarrow>
        if buf = [] then Inr (0, P, d)
        else
          let P = P\<lparr>hp_nread := 0, hp_mark := 0, hp_field_len := 0, hp_field_start := 0\<rparr>;
              cs = hp_cs P;
              len = length buf
          in hp_check (off \<le> len) ''offset past end of buffer''
            (case (if cs = 0 \<and> off < len then Inr (2, off, P, d) else hp_loop cb buf off cs (P, d)) of
               Inl e \<Rightarrow> Inl e
             | Inr (cs', p, P, d) \<Rightarrow>
                 let P = (if http_parser_has_error P then P else P\<lparr>hp_cs := cs'\<rparr>);
                     P = P\<lparr>hp_nread := hp_nread P + (p - off)\<rparr>
                 in hp_check (p \<le> len) ''Buffer overflow after parsing.''
                   (hp_check (hp_nread P \<le> len) ''nread longer than length''
                   (hp_check (hp_body_start P \<le> len) ''body starts after buffer end''
                   (hp_check (hp_mark P < len) ''mark is after buffer end''
                   (hp_check (hp_field_len P \<le> len) ''field has length longer than whole buffer''
                   (hp_check (hp_field_start P < len) ''field starts after buffer end''
                   (Inr (hp_nread P, P, d)))))))))"

section \<open>The callbacks of HttpRequestParser\<close>

text \<open>What the callbacks see of the object: \<open>m_data\<close> and \<open>m_error\<close>.\<close>

type_synonym request_data = "HttpRequest \<times> int"

definition std_string :: "string \<Rightarrow> nat \<Rightarrow> hp_error + string" where
  "std_string at len =
     (if 2 ^ 63 \<le> len then Inl Length_error
      else if length at < len then Inl Read_outside
      else Inr (take len at))"

definition with_string ::
  "string \<Rightarrow> nat \<Rightarrow> (string \<Rightarrow> hp_error + 'a) \<Rightarrow> hp_error + 'a" where
  "with_string at len f = (case std_string at len of Inl e \<Rightarrow> Inl e | Inr s \<Rightarrow> f s)"

text \<open>\<open>strncmp(a, b, n) == 0\<close>; a text that has run out reads as NUL.\<close>

fun strncmp_eq :: "string \<Rightarrow> string \<Rightarrow> nat \<Rightarrow> bool" where
  "strncmp_eq a b 0 \<longleftrightarrow> True"
| "strncmp_eq a b (Suc n) \<longleftrightarrow>
     (let x = (case a of [] \<Rightarrow> CHR 0x00 | c # _ \<Rightarrow> c);
          y = (case b of [] \<Rightarrow> CHR 0x00 | c # _ \<Rightarrow> c)
      in if x \<noteq> y then False else if x = CHR 0x00 then True else strncmp_eq (tl a) (tl b) n)"

definition on_request_method :: "string \<Rightarrow> nat \<Rightarrow> request_data \<Rightarrow> hp_error + request_data" where
  "on_request_method at len d =
     (let m = CharsToHttpMethod at
      in if m = INVALID_METHOD then with_string at len (\<lambda>_. Inr (fst d, 1000))
         else Inr ((fst d)\<lparr>req_method := m\<rparr>, snd d))"

definition on_request_fragment :: "string \<Rightarrow> nat \<Rightarrow> request_data \<Rightarrow> hp_error + request_data" where
  "on_request_fragment at len d =
     with_string at len (\<lambda>s. Inr ((fst d)\<lparr>req_fragment := s\<rparr>, snd d))"

definition on_request_path :: "string \<Rightarrow> nat \<Rightarrow> request_data \<Rightarrow> hp_error + request_data" where
  "on_request_path at len d = with_string at len (\<lambda>s. Inr ((fst d)\<lparr>req_path := s\<rparr>, snd d))"

definition on_request_query :: "string \<Rightarrow> nat \<Rightarrow> request_data \<Rightarrow> hp_error + request_data" where
  "on_request_query at len d = with_string at len (\<lambda>s. Inr ((fst d)\<lparr>req_query := s\<rparr>, snd d))"

definition on_request_version :: "string \<Rightarrow> nat \<Rightarrow> request_data \<Rightarrow> hp_error + request_data" where
  "on_request_version at len d =
     (if strncmp_eq at ''HTTP/1.1'' len then Inr ((fst d)\<lparr>req_version := 0x11\<rparr>, snd d)
      else if strncmp_eq at ''HTTP/1.0'' len then Inr ((fst d)\<lparr>req_version := 0x10\<rparr>, snd d)
      else with_string at len (\<lambda>_. Inr (fst d, 1001)))"

definition on_request_http_field ::
  "string \<Rightarrow> nat \<Rightarrow> string \<Rightarrow> nat \<Rightarrow> request_data \<Rightarrow> hp_error + request_data" where
  "on_request_http_field field flen val vlen d =
     (if flen = 0 then Inr d
      else with_string field flen (\<lambda>k. with_string val vlen (\<lambda>v.
             Inr (req_setHeader k v (fst d), snd d))))"

fun request_callbacks :: "request_data hp_callbacks" where
  "request_callbacks (Call_method at len) d = on_request_method at len d"
| "request_callbacks (Call_uri at len) d = Inr d"
| "request_callbacks (Call_fragment at len) d = on_request_fragment at len d"
| "request_callbacks (Call_path at len) d = on_request_path at len d"
| "request_callbacks (Call_query at len) d = on_request_query at len d"
| "request_callbacks (Call_version at len) d = on_request_version at len d"
| "request_callbacks (Call_header_done at len) d = Inr d"
| "request_callbacks (Call_field field flen val vlen) d = on_request_http_field field flen val vlen d"

section \<open>HttpRequestParser\<close>

record HttpRequestParser =
  rp_parser :: http_parser
  rp_data :: HttpRequest
  rp_error :: int

text \<open>\<open>P\<close> is the memory the object is made in.\<close>

definition HttpRequestParser_new :: "http_parser \<Rightarrow> HttpRequestParser" where
  "HttpRequestParser_new P =
     \<lparr>rp_parser = http_parser_init P, rp_data = HttpRequest_new 0x11 True, rp_error = 0\<rparr>"

text \<open>The result: how much was parsed, what is left at the front of \<open>data\<close>, the parser.\<close>

definition request_execute ::
  "HttpRequestParser \<Rightarrow> string \<Rightarrow> hp_error + (nat \<times> string \<times> HttpRequestParser)" where
  "request_execute R data =
     (case http_parser_execute request_callbacks data 0 (rp_parser R, (rp_data R, rp_error R)) of
        Inl e \<Rightarrow> Inl e
      | Inr (offset, P, (q, err)) \<Rightarrow>
          Inr (offset, drop offset data, \<lparr>rp_parser = P, rp_data = q, rp_error = err\<rparr>))"

definition request_isFinished :: "HttpRequestParser \<Rightarrow> int" where
  "request_isFinished R = http_parser_finish (rp_parser R)"

definition request_hasError :: "HttpRequestParser \<Rightarrow> bool" where
  "request_hasError R \<longleftrightarrow> rp_error R \<noteq> 0 \<or> http_parser_has_error (rp_parser R)"

definition request_setError :: "int \<Rightarrow> HttpRequestParser \<Rightarrow> HttpRequestParser" where
  "request_setError v R = R\<lparr>rp_error := v\<rparr>"

text \<open>\<open>conv\<close> stands for the conversion of \<open>getHeaderAs<uint64_t>\<close>.\<close>

definition request_getContentLength :: "(string \<Rightarrow> nat option) \<Rightarrow> HttpRequestParser \<Rightarrow> nat" where
  "request_getContentLength conv R = getAs conv (req_headers (rp_data R)) ''content-length'' 0"

end
