(* ===== verification/Httpclient_Machine.thy ===== *)
theory Httpclient_Machine
  imports Main
begin

text \<open>
  The automaton of the HTTP response parser, state by state as
  \<open>src/htttp/httpclient_parser.rl.cc\<close> has it: \<open>client_st\<close>\<^emph>\<open>n\<close> is the decision \<open>case\<close> \<^emph>\<open>n\<close> makes on the
  character at \<open>p\<close> (a signed \<open>char\<close>, so from -128 to 127), \<open>client_tr\<close>\<^emph>\<open>n\<close> the actions under the
  label \<open>tr\<close>\<^emph>\<open>n\<close> and the state they go to. A \<open>switch\<close> lists its values per target. What the actions
  do to the parser, and the loop that runs the automaton, are in \<open>Httpclient_Parser\<close>.
\<close>

section \<open>Actions and targets\<close>

text \<open>The actions of \<open>httpclient_parser.rl\<close>; \<open>C_Done cs\<close> leaves the loop in state \<open>cs\<close> after it.\<close>

datatype client_act =
    C_Mark | C_Start_field | C_Write_field | C_Write_content_len | C_Write_connection_close
  | C_Write_value | C_Reason_phrase | C_Status_code | C_Http_version | C_Chunk_size
  | C_Trans_chunked | C_Done nat

type_synonym client_target = "client_act list \<times> nat"

definition to_st :: "nat \<Rightarrow> client_target" where
  "to_st n = ([], n)"

section \<open>Transitions\<close>

definition client_tr0 :: client_target where
  "client_tr0 = ([C_Mark], 2)"

definition client_tr3 :: client_target where
  "client_tr3 = ([C_Chunk_size, C_Done 120], 120)"

definition client_tr7 :: client_target where
  "client_tr7 = ([C_Done 120], 120)"

definition client_tr9 :: client_target where
  "client_tr9 = ([C_Write_field, C_Mark, C_Write_value, C_Done 120], 120)"

definition client_tr15 :: client_target where
  "client_tr15 = ([C_Write_value, C_Done 120], 120)"

definition client_tr74 :: client_target where
  "client_tr74 = ([C_Write_connection_close, C_Done 120], 120)"

definition client_tr4 :: client_target where
  "client_tr4 = ([C_Chunk_size], 3)"

definition client_tr10 :: client_target where
  "client_tr10 = ([C_Write_field, C_Mark, C_Write_value], 3)"

definition client_tr16 :: client_target where
  "client_tr16 = ([C_Write_value], 3)"

definition client_tr75 :: client_target where
  "client_tr75 = ([C_Write_connection_close], 3)"

definition client_tr6 :: client_target where
  "client_tr6 = ([C_Chunk_size], 4)"

definition client_tr12 :: client_target where
  "client_tr12 = ([C_Write_field, C_Mark, C_Write_value], 4)"

definition client_tr18 :: client_target where
  "client_tr18 = ([C_Write_value], 4)"

definition client_tr8 :: client_target where
  "client_tr8 = ([C_Start_field], 5)"

definition client_tr13 :: client_target where
  "client_tr13 = ([C_Write_field, C_Mark], 6)"

definition client_tr14 :: client_target where
  "client_tr14 = ([C_Mark], 7)"

definition client_tr2 :: client_target where
  "client_tr2 = ([C_Mark], 8)"

definition client_tr26 :: client_target where
  "client_tr26 = ([C_Http_version], 16)"

definition client_tr27 :: client_target where
  "client_tr27 = ([C_Mark], 17)"

definition client_tr28 :: client_target where
  "client_tr28 = ([C_Status_code], 18)"

definition client_tr30 :: client_target where
  "client_tr30 = ([C_Mark], 19)"

definition client_tr45 :: client_target where
  "client_tr45 = ([C_Write_value], 20)"

definition client_tr32 :: client_target where
  "client_tr32 = ([C_Reason_phrase], 20)"

definition client_tr42 :: client_target where
  "client_tr42 = ([C_Mark, C_Write_value], 20)"

definition client_tr111 :: client_target where
  "client_tr111 = ([C_Write_value, C_Trans_chunked], 20)"

definition client_tr113 :: client_target where
  "client_tr113 = ([C_Trans_chunked], 20)"

definition client_tr158 :: client_target where
  "client_tr158 = ([C_Write_content_len, C_Write_value], 20)"

definition client_tr35 :: client_target where
  "client_tr35 = ([C_Start_field], 21)"

definition client_tr76 :: client_target where
  "client_tr76 = ([C_Write_connection_close, C_Start_field], 21)"

definition client_tr41 :: client_target where
  "client_tr41 = ([C_Mark], 22)"

definition client_tr39 :: client_target where
  "client_tr39 = ([C_Write_field], 22)"

definition client_tr40 :: client_target where
  "client_tr40 = ([C_Mark], 23)"

definition client_tr46 :: client_target where
  "client_tr46 = ([C_Write_value], 24)"

definition client_tr33 :: client_target where
  "client_tr33 = ([C_Reason_phrase], 24)"

definition client_tr43 :: client_target where
  "client_tr43 = ([C_Mark, C_Write_value], 24)"

definition client_tr159 :: client_target where
  "client_tr159 = ([C_Write_content_len, C_Write_value], 24)"

definition client_tr36 :: client_target where
  "client_tr36 = ([C_Start_field], 25)"

definition client_tr77 :: client_target where
  "client_tr77 = ([C_Write_connection_close, C_Start_field], 25)"

definition client_tr59 :: client_target where
  "client_tr59 = ([C_Mark], 35)"

definition client_tr58 :: client_target where
  "client_tr58 = ([C_Write_field], 35)"

definition client_tr60 :: client_target where
  "client_tr60 = ([C_Mark, C_Write_value], 36)"

definition client_tr136 :: client_target where
  "client_tr136 = ([C_Write_value], 43)"

definition client_tr37 :: client_target where
  "client_tr37 = ([C_Start_field], 44)"

definition client_tr78 :: client_target where
  "client_tr78 = ([C_Write_connection_close, C_Start_field], 44)"

definition client_tr96 :: client_target where
  "client_tr96 = ([C_Mark], 61)"

definition client_tr95 :: client_target where
  "client_tr95 = ([C_Write_field], 61)"

definition client_tr97 :: client_target where
  "client_tr97 = ([C_Mark, C_Write_value], 62)"

definition client_tr104 :: client_target where
  "client_tr104 = ([C_Mark], 64)"

definition client_tr112 :: client_target where
  "client_tr112 = ([C_Write_value], 71)"

definition client_tr101 :: client_target where
  "client_tr101 = ([C_Done 121], 121)"

definition client_tr103 :: client_target where
  "client_tr103 = ([C_Mark, C_Start_field], 73)"

definition client_tr98 :: client_target where
  "client_tr98 = ([C_Mark, C_Write_value], 80)"

definition client_tr99 :: client_target where
  "client_tr99 = ([C_Mark], 81)"

definition client_tr137 :: client_target where
  "client_tr137 = ([C_Write_value], 88)"

definition client_tr64 :: client_target where
  "client_tr64 = ([C_Done 122], 122)"

definition client_tr66 :: client_target where
  "client_tr66 = ([C_Start_field], 90)"

definition client_tr61 :: client_target where
  "client_tr61 = ([C_Mark, C_Write_value], 95)"

definition client_tr62 :: client_target where
  "client_tr62 = ([C_Mark], 96)"

definition client_tr149 :: client_target where
  "client_tr149 = ([C_Mark], 112)"

definition client_tr148 :: client_target where
  "client_tr148 = ([C_Write_field], 112)"

definition client_tr150 :: client_target where
  "client_tr150 = ([C_Mark, C_Write_value], 113)"

definition client_tr157 :: client_target where
  "client_tr157 = ([C_Mark], 115)"

definition client_tr154 :: client_target where
  "client_tr154 = ([C_Done 123], 123)"

definition client_tr156 :: client_target where
  "client_tr156 = ([C_Mark, C_Start_field], 117)"

definition client_tr151 :: client_target where
  "client_tr151 = ([C_Mark, C_Write_value], 118)"

definition client_tr152 :: client_target where
  "client_tr152 = ([C_Mark], 119)"

lemmas client_tr_defs =
  client_tr0_def client_tr3_def client_tr7_def client_tr9_def
  client_tr15_def client_tr74_def client_tr4_def client_tr10_def
  client_tr16_def client_tr75_def client_tr6_def client_tr12_def
  client_tr18_def client_tr8_def client_tr13_def client_tr14_def
  client_tr2_def client_tr26_def client_tr27_def client_tr28_def
  client_tr30_def client_tr45_def client_tr32_def client_tr42_def
  client_tr111_def client_tr113_def client_tr158_def client_tr35_def
  client_tr76_def client_tr41_def client_tr39_def client_tr40_def
  client_tr46_def client_tr33_def client_tr43_def client_tr159_def
  client_tr36_def client_tr77_def client_tr59_def client_tr58_def
  client_tr60_def client_tr136_def client_tr37_def client_tr78_def
  client_tr96_def client_tr95_def client_tr97_def client_tr104_def
  client_tr112_def client_tr101_def client_tr103_def client_tr98_def
  client_tr99_def client_tr137_def client_tr64_def client_tr66_def
  client_tr61_def client_tr62_def client_tr149_def client_tr148_def
  client_tr150_def client_tr157_def client_tr154_def client_tr156_def
  client_tr151_def client_tr152_def

section \<open>States\<close>

definition client_st1 :: "int \<Rightarrow> client_target" where
  "client_st1 c =
    (if c = 72 then client_tr2
     else if c < 65 then (if 48 \<le> c \<and> c \<le> 57 then client_tr0
       else to_st 0)
     else if 70 < c then (if 97 \<le> c \<and> c \<le> 102 then client_tr0
       else to_st 0)
     else client_tr0)"

definition client_st2 :: "int \<Rightarrow> client_target" where
  "client_st2 c =
    (if c = 10 then client_tr3
     else if c = 13 then client_tr4
     else if c = 59 then client_tr6
     else if c < 65 then (if 48 \<le> c \<and> c \<le> 57 then to_st 2
       else to_st 0)
     else if 70 < c then (if 97 \<le> c \<and> c \<le> 102 then to_st 2
       else to_st 0)
     else to_st 2)"

definition client_st3 :: "int \<Rightarrow> client_target" where
  "client_st3 c =
    (if c = 10 then client_tr7
     else to_st 0)"

definition client_st4 :: "int \<Rightarrow> client_target" where
  "client_st4 c =
    (if c \<in> {33, 124, 126} then client_tr8
     else if c < 45 then (if 39 < c then (if 42 \<le> c \<and> c \<le> 43 then client_tr8
         else to_st 0)
       else if 35 \<le> c then client_tr8
       else to_st 0)
     else if 46 < c then (if c < 65 then (if 48 \<le> c \<and> c \<le> 57 then client_tr8
         else to_st 0)
       else if 90 < c then (if 94 \<le> c \<and> c \<le> 122 then client_tr8
         else to_st 0)
       else client_tr8)
     else client_tr8)"

definition client_st5 :: "int \<Rightarrow> client_target" where
  "client_st5 c =
    (if c = 10 then client_tr9
     else if c = 13 then client_tr10
     else if c \<in> {33, 124, 126} then to_st 5
     else if c = 59 then client_tr12
     else if c = 61 then client_tr13
     else if c < 45 then (if 39 < c then (if 42 \<le> c \<and> c \<le> 43 then to_st 5
         else to_st 0)
       else if 35 \<le> c then to_st 5
       else to_st 0)
     else if 46 < c then (if c < 65 then (if 48 \<le> c \<and> c \<le> 57 then to_st 5
         else to_st 0)
       else if 90 < c then (if 94 \<le> c \<and> c \<le> 122 then to_st 5
         else to_st 0)
       else to_st 5)
     else to_st 5)"

definition client_st6 :: "int \<Rightarrow> client_target" where
  "client_st6 c =
    (if c \<in> {33, 124, 126} then client_tr14
     else if c < 45 then (if 39 < c then (if 42 \<le> c \<and> c \<le> 43 then client_tr14
         else to_st 0)
       else if 35 \<le> c then client_tr14
       else to_st 0)
     else if 46 < c then (if c < 65 then (if 48 \<le> c \<and> c \<le> 57 then client_tr14
         else to_st 0)
       else if 90 < c then (if 94 \<le> c \<and> c \<le> 122 then client_tr14
         else to_st 0)
       else client_tr14)
     else client_tr14)"

definition client_st7 :: "int \<Rightarrow> client_target" where
  "client_st7 c =
    (if c = 10 then client_tr15
     else if c = 13 then client_tr16
     else if c \<in> {33, 124, 126} then to_st 7
     else if c = 59 then client_tr18
     else if c < 45 then (if 39 < c then (if 42 \<le> c \<and> c \<le> 43 then to_st 7
         else to_st 0)
       else if 35 \<le> c then to_st 7
       else to_st 0)
     else if 46 < c then (if c < 65 then (if 48 \<le> c \<and> c \<le> 57 then to_st 7
         else to_st 0)
       else if 90 < c then (if 94 \<le> c \<and> c \<le> 122 then to_st 7
         else to_st 0)
       else to_st 7)
     else to_st 7)"

definition client_st8 :: "int \<Rightarrow> client_target" where
  "client_st8 c =
    (if c = 84 then to_st 9
     else to_st 0)"

definition client_st9 :: "int \<Rightarrow> client_target" where
  "client_st9 c =
    (if c = 84 then to_st 10
     else to_st 0)"

definition client_st10 :: "int \<Rightarrow> client_target" where
  "client_st10 c =
    (if c = 80 then to_st 11
     else to_st 0)"

definition client_st11 :: "int \<Rightarrow> client_target" where
  "client_st11 c =
    (if c = 47 then to_st 12
     else to_st 0)"

definition client_st12 :: "int \<Rightarrow> client_target" where
  "client_st12 c =
    (if 48 \<le> c \<and> c \<le> 57 then to_st 13
     else to_st 0)"

definition client_st13 :: "int \<Rightarrow> client_target" where
  "client_st13 c =
    (if c = 46 then to_st 14
     else if 48 \<le> c \<and> c \<le> 57 then to_st 13
     else to_st 0)"

definition client_st14 :: "int \<Rightarrow> client_target" where
  "client_st14 c =
    (if 48 \<le> c \<and> c \<le> 57 then to_st 15
     else to_st 0)"

definition client_st15 :: "int \<Rightarrow> client_target" where
  "client_st15 c =
    (if c = 32 then client_tr26
     else if 48 \<le> c \<and> c \<le> 57 then to_st 15
     else to_st 0)"

definition client_st16 :: "int \<Rightarrow> client_target" where
  "client_st16 c =
    (if 48 \<le> c \<and> c \<le> 57 then client_tr27
     else to_st 0)"

definition client_st17 :: "int \<Rightarrow> client_target" where
  "client_st17 c =
    (if c = 32 then client_tr28
     else if 48 \<le> c \<and> c \<le> 57 then to_st 17
     else to_st 0)"

definition client_st18 :: "int \<Rightarrow> client_target" where
  "client_st18 c =
    (if c = 10 then to_st 0
     else client_tr30)"

definition client_st19 :: "int \<Rightarrow> client_target" where
  "client_st19 c =
    (if c = 10 then client_tr32
     else if c = 13 then client_tr33
     else to_st 19)"

definition client_st20 :: "int \<Rightarrow> client_target" where
  "client_st20 c =
    (if c = 10 then client_tr7
     else if c = 13 then to_st 3
     else if c \<in> {33, 124, 126} then client_tr35
     else if c \<in> {67, 99} then client_tr36
     else if c \<in> {84, 116} then client_tr37
     else if c < 45 then (if 39 < c then (if 42 \<le> c \<and> c \<le> 43 then client_tr35
         else to_st 0)
       else if 35 \<le> c then client_tr35
       else to_st 0)
     else if 46 < c then (if c < 65 then (if 48 \<le> c \<and> c \<le> 57 then client_tr35
         else to_st 0)
       else if 90 < c then (if 94 \<le> c \<and> c \<le> 122 then client_tr35
         else to_st 0)
       else client_tr35)
     else client_tr35)"

definition client_st21 :: "int \<Rightarrow> client_target" where
  "client_st21 c =
    (if c \<in> {33, 124, 126} then to_st 21
     else if c = 58 then client_tr39
     else if c < 45 then (if 39 < c then (if 42 \<le> c \<and> c \<le> 43 then to_st 21
         else to_st 0)
       else if 35 \<le> c then to_st 21
       else to_st 0)
     else if 46 < c then (if c < 65 then (if 48 \<le> c \<and> c \<le> 57 then to_st 21
         else to_st 0)
       else if 90 < c then (if 94 \<le> c \<and> c \<le> 122 then to_st 21
         else to_st 0)
       else to_st 21)
     else to_st 21)"

definition client_st22 :: "int \<Rightarrow> client_target" where
  "client_st22 c =
    (if c = 10 then client_tr42
     else if c = 13 then client_tr43
     else if c = 32 then client_tr41
     else if 9 \<le> c \<and> c \<le> 12 then client_tr41
     else client_tr40)"

definition client_st23 :: "int \<Rightarrow> client_target" where
  "client_st23 c =
    (if c = 10 then client_tr45
     else if c = 13 then client_tr46
     else to_st 23)"

definition client_st24 :: "int \<Rightarrow> client_target" where
  "client_st24 c =
    (if c = 10 then to_st 20
     else to_st 0)"

definition client_st25 :: "int \<Rightarrow> client_target" where
  "client_st25 c =
    (if c \<in> {33, 124, 126} then to_st 21
     else if c = 58 then client_tr39
     else if c \<in> {79, 111} then to_st 26
     else if c < 45 then (if 39 < c then (if 42 \<le> c \<and> c \<le> 43 then to_st 21
         else to_st 0)
       else if 35 \<le> c then to_st 21
       else to_st 0)
     else if 46 < c then (if c < 65 then (if 48 \<le> c \<and> c \<le> 57 then to_st 21
         else to_st 0)
       else if 90 < c then (if 94 \<le> c \<and> c \<le> 122 then to_st 21
         else to_st 0)
       else to_st 21)
     else to_st 21)"

definition client_st26 :: "int \<Rightarrow> client_target" where
  "client_st26 c =
    (if c \<in> {33, 124, 126} then to_st 21
     else if c = 58 then client_tr39
     else if c \<in> {78, 110} then to_st 27
     else if c < 45 then (if 39 < c then (if 42 \<le> c \<and> c \<le> 43 then to_st 21
         else to_st 0)
       else if 35 \<le> c then to_st 21
       else to_st 0)
     else if 46 < c then (if c < 65 then (if 48 \<le> c \<and> c \<le> 57 then to_st 21
         else to_st 0)
       else if 90 < c then (if 94 \<le> c \<and> c \<le> 122 then to_st 21
         else to_st 0)
       else to_st 21)
     else to_st 21)"

definition client_st27 :: "int \<Rightarrow> client_target" where
  "client_st27 c =
    (if c \<in> {33, 124, 126} then to_st 21
     else if c = 58 then client_tr39
     else if c \<in> {78, 110} then to_st 28
     else if c \<in> {84, 116} then to_st 101
     else if c < 45 then (if 39 < c then (if 42 \<le> c \<and> c \<le> 43 then to_st 21
         else to_st 0)
       else if 35 \<le> c then to_st 21
       else to_st 0)
     else if 46 < c then (if c < 65 then (if 48 \<le> c \<and> c \<le> 57 then to_st 21
         else to_st 0)
       else if 90 < c then (if 94 \<le> c \<and> c \<le> 122 then to_st 21
         else to_st 0)
       else to_st 21)
     else to_st 21)"

definition client_st28 :: "int \<Rightarrow> client_target" where
  "client_st28 c =
    (if c \<in> {33, 124, 126} then to_st 21
     else if c = 58 then client_tr39
     else if c \<in> {69, 101} then to_st 29
     else if c < 45 then (if 39 < c then (if 42 \<le> c \<and> c \<le> 43 then to_st 21
         else to_st 0)
       else if 35 \<le> c then to_st 21
       else to_st 0)
     else if 46 < c then (if c < 65 then (if 48 \<le> c \<and> c \<le> 57 then to_st 21
         else to_st 0)
       else if 90 < c then (if 94 \<le> c \<and> c \<le> 122 then to_st 21
         else to_st 0)
       else to_st 21)
     else to_st 21)"

definition client_st29 :: "int \<Rightarrow> client_target" where
  "client_st29 c =
    (if c \<in> {33, 124, 126} then to_st 21
     else if c = 58 then client_tr39
     else if c \<in> {67, 99} then to_st 30
     else if c < 45 then (if 39 < c then (if 42 \<le> c \<and> c \<le> 43 then to_st 21
         else to_st 0)
       else if 35 \<le> c then to_st 21
       else to_st 0)
     else if 46 < c then (if c < 65 then (if 48 \<le> c \<and> c \<le> 57 then to_st 21
         else to_st 0)
       else if 90 < c then (if 94 \<le> c \<and> c \<le> 122 then to_st 21
         else to_st 0)
       else to_st 21)
     else to_st 21)"

definition client_st30 :: "int \<Rightarrow> client_target" where
  "client_st30 c =
    (if c \<in> {33, 124, 126} then to_st 21
     else if c = 58 then client_tr39
     else if c \<in> {84, 116} then to_st 31
     else if c < 45 then (if 39 < c then (if 42 \<le> c \<and> c \<le> 43 then to_st 21
         else to_st 0)
       else if 35 \<le> c then to_st 21
       else to_st 0)
     else if 46 < c then (if c < 65 then (if 48 \<le> c \<and> c \<le> 57 then to_st 21
         else to_st 0)
       else if 90 < c then (if 94 \<le> c \<and> c \<le> 122 then to_st 21
         else to_st 0)
       else to_st 21)
     else to_st 21)"

definition client_st31 :: "int \<Rightarrow> client_target" where
  "client_st31 c =
    (if c \<in> {33, 124, 126} then to_st 21
     else if c = 58 then client_tr39
     else if c \<in> {73, 105} then to_st 32
     else if c < 45 then (if 39 < c then (if 42 \<le> c \<and> c \<le> 43 then to_st 21
         else to_st 0)
       else if 35 \<le> c then to_st 21
       else to_st 0)
     else if 46 < c then (if c < 65 then (if 48 \<le> c \<and> c \<le> 57 then to_st 21
         else to_st 0)
       else if 90 < c then (if 94 \<le> c \<and> c \<le> 122 then to_st 21
         else to_st 0)
       else to_st 21)
     else to_st 21)"

definition client_st32 :: "int \<Rightarrow> client_target" where
  "client_st32 c =
    (if c \<in> {33, 124, 126} then to_st 21
     else if c = 58 then client_tr39
     else if c \<in> {79, 111} then to_st 33
     else if c < 45 then (if 39 < c then (if 42 \<le> c \<and> c \<le> 43 then to_st 21
         else to_st 0)
       else if 35 \<le> c then to_st 21
       else to_st 0)
     else if 46 < c then (if c < 65 then (if 48 \<le> c \<and> c \<le> 57 then to_st 21
         else to_st 0)
       else if 90 < c then (if 94 \<le> c \<and> c \<le> 122 then to_st 21
         else to_st 0)
       else to_st 21)
     else to_st 21)"

definition client_st33 :: "int \<Rightarrow> client_target" where
  "client_st33 c =
    (if c \<in> {33, 124, 126} then to_st 21
     else if c = 58 then client_tr39
     else if c \<in> {78, 110} then to_st 34
     else if c < 45 then (if 39 < c then (if 42 \<le> c \<and> c \<le> 43 then to_st 21
         else to_st 0)
       else if 35 \<le> c then to_st 21
       else to_st 0)
     else if 46 < c then (if c < 65 then (if 48 \<le> c \<and> c \<le> 57 then to_st 21
         else to_st 0)
       else if 90 < c then (if 94 \<le> c \<and> c \<le> 122 then to_st 21
         else to_st 0)
       else to_st 21)
     else to_st 21)"

definition client_st34 :: "int \<Rightarrow> client_target" where
  "client_st34 c =
    (if c \<in> {33, 124, 126} then to_st 21
     else if c = 58 then client_tr58
     else if c < 45 then (if 39 < c then (if 42 \<le> c \<and> c \<le> 43 then to_st 21
         else to_st 0)
       else if 35 \<le> c then to_st 21
       else to_st 0)
     else if 46 < c then (if c < 65 then (if 48 \<le> c \<and> c \<le> 57 then to_st 21
         else to_st 0)
       else if 90 < c then (if 94 \<le> c \<and> c \<le> 122 then to_st 21
         else to_st 0)
       else to_st 21)
     else to_st 21)"

definition client_st35 :: "int \<Rightarrow> client_target" where
  "client_st35 c =
    (if c = 10 then client_tr60
     else if c = 13 then client_tr61
     else if c = 32 then client_tr59
     else if c \<in> {67, 99} then client_tr62
     else if 9 \<le> c \<and> c \<le> 12 then client_tr59
     else client_tr40)"

definition client_st36 :: "int \<Rightarrow> client_target" where
  "client_st36 c =
    (if c = 10 then client_tr64
     else if c = 13 then to_st 89
     else if c = 32 then to_st 37
     else if c \<in> {33, 124, 126} then client_tr35
     else if c \<in> {67, 99} then client_tr66
     else if c \<in> {84, 116} then client_tr37
     else if c < 45 then (if c < 35 then (if 9 \<le> c \<and> c \<le> 12 then to_st 37
         else to_st 0)
       else if 39 < c then (if 42 \<le> c \<and> c \<le> 43 then client_tr35
         else to_st 0)
       else client_tr35)
     else if 46 < c then (if c < 65 then (if 48 \<le> c \<and> c \<le> 57 then client_tr35
         else to_st 0)
       else if 90 < c then (if 94 \<le> c \<and> c \<le> 122 then client_tr35
         else to_st 0)
       else client_tr35)
     else client_tr35)"

definition client_st37 :: "int \<Rightarrow> client_target" where
  "client_st37 c =
    (if c = 32 then to_st 37
     else if c \<in> {67, 99} then to_st 38
     else if 9 \<le> c \<and> c \<le> 13 then to_st 37
     else to_st 0)"

definition client_st38 :: "int \<Rightarrow> client_target" where
  "client_st38 c =
    (if c \<in> {76, 108} then to_st 39
     else to_st 0)"

definition client_st39 :: "int \<Rightarrow> client_target" where
  "client_st39 c =
    (if c \<in> {79, 111} then to_st 40
     else to_st 0)"

definition client_st40 :: "int \<Rightarrow> client_target" where
  "client_st40 c =
    (if c \<in> {83, 115} then to_st 41
     else to_st 0)"

definition client_st41 :: "int \<Rightarrow> client_target" where
  "client_st41 c =
    (if c \<in> {69, 101} then to_st 42
     else to_st 0)"

definition client_st42 :: "int \<Rightarrow> client_target" where
  "client_st42 c =
    (if c = 10 then to_st 43
     else if c = 13 then to_st 88
     else to_st 0)"

definition client_st43 :: "int \<Rightarrow> client_target" where
  "client_st43 c =
    (if c = 10 then client_tr74
     else if c = 13 then client_tr75
     else if c \<in> {33, 124, 126} then client_tr76
     else if c \<in> {67, 99} then client_tr77
     else if c \<in> {84, 116} then client_tr78
     else if c < 45 then (if 39 < c then (if 42 \<le> c \<and> c \<le> 43 then client_tr76
         else to_st 0)
       else if 35 \<le> c then client_tr76
       else to_st 0)
     else if 46 < c then (if c < 65 then (if 48 \<le> c \<and> c \<le> 57 then client_tr76
         else to_st 0)
       else if 90 < c then (if 94 \<le> c \<and> c \<le> 122 then client_tr76
         else to_st 0)
       else client_tr76)
     else client_tr76)"

definition client_st44 :: "int \<Rightarrow> client_target" where
  "client_st44 c =
    (if c \<in> {33, 124, 126} then to_st 21
     else if c = 58 then client_tr39
     else if c \<in> {82, 114} then to_st 45
     else if c < 45 then (if 39 < c then (if 42 \<le> c \<and> c \<le> 43 then to_st 21
         else to_st 0)
       else if 35 \<le> c then to_st 21
       else to_st 0)
     else if 46 < c then (if c < 65 then (if 48 \<le> c \<and> c \<le> 57 then to_st 21
         else to_st 0)
       else if 90 < c then (if 94 \<le> c \<and> c \<le> 122 then to_st 21
         else to_st 0)
       else to_st 21)
     else to_st 21)"

definition client_st45 :: "int \<Rightarrow> client_target" where
  "client_st45 c =
    (if c \<in> {33, 124, 126} then to_st 21
     else if c = 58 then client_tr39
     else if c \<in> {65, 97} then to_st 46
     else if c < 45 then (if 39 < c then (if 42 \<le> c \<and> c \<le> 43 then to_st 21
         else to_st 0)
       else if 35 \<le> c then to_st 21
       else to_st 0)
     else if 46 < c then (if c < 66 then (if 48 \<le> c \<and> c \<le> 57 then to_st 21
         else to_st 0)
       else if 90 < c then (if 94 \<le> c \<and> c \<le> 122 then to_st 21
         else to_st 0)
       else to_st 21)
     else to_st 21)"

definition client_st46 :: "int \<Rightarrow> client_target" where
  "client_st46 c =
    (if c \<in> {33, 124, 126} then to_st 21
     else if c = 58 then client_tr39
     else if c \<in> {78, 110} then to_st 47
     else if c < 45 then (if 39 < c then (if 42 \<le> c \<and> c \<le> 43 then to_st 21
         else to_st 0)
       else if 35 \<le> c then to_st 21
       else to_st 0)
     else if 46 < c then (if c < 65 then (if 48 \<le> c \<and> c \<le> 57 then to_st 21
         else to_st 0)
       else if 90 < c then (if 94 \<le> c \<and> c \<le> 122 then to_st 21
         else to_st 0)
       else to_st 21)
     else to_st 21)"

definition client_st47 :: "int \<Rightarrow> client_target" where
  "client_st47 c =
    (if c \<in> {33, 124, 126} then to_st 21
     else if c = 58 then client_tr39
     else if c \<in> {83, 115} then to_st 48
     else if c < 45 then (if 39 < c then (if 42 \<le> c \<and> c \<le> 43 then to_st 21
         else to_st 0)
       else if 35 \<le> c then to_st 21
       else to_st 0)
     else if 46 < c then (if c < 65 then (if 48 \<le> c \<and> c \<le> 57 then to_st 21
         else to_st 0)
       else if 90 < c then (if 94 \<le> c \<and> c \<le> 122 then to_st 21
         else to_st 0)
       else to_st 21)
     else to_st 21)"

definition client_st48 :: "int \<Rightarrow> client_target" where
  "client_st48 c =
    (if c \<in> {33, 124, 126} then to_st 21
     else if c = 58 then client_tr39
     else if c \<in> {70, 102} then to_st 49
     else if c < 45 then (if 39 < c then (if 42 \<le> c \<and> c \<le> 43 then to_st 21
         else to_st 0)
       else if 35 \<le> c then to_st 21
       else to_st 0)
     else if 46 < c then (if c < 65 then (if 48 \<le> c \<and> c \<le> 57 then to_st 21
         else to_st 0)
       else if 90 < c then (if 94 \<le> c \<and> c \<le> 122 then to_st 21
         else to_st 0)
       else to_st 21)
     else to_st 21)"

definition client_st49 :: "int \<Rightarrow> client_target" where
  "client_st49 c =
    (if c \<in> {33, 124, 126} then to_st 21
     else if c = 58 then client_tr39
     else if c \<in> {69, 101} then to_st 50
     else if c < 45 then (if 39 < c then (if 42 \<le> c \<and> c \<le> 43 then to_st 21
         else to_st 0)
       else if 35 \<le> c then to_st 21
       else to_st 0)
     else if 46 < c then (if c < 65 then (if 48 \<le> c \<and> c \<le> 57 then to_st 21
         else to_st 0)
       else if 90 < c then (if 94 \<le> c \<and> c \<le> 122 then to_st 21
         else to_st 0)
       else to_st 21)
     else to_st 21)"

definition client_st50 :: "int \<Rightarrow> client_target" where
  "client_st50 c =
    (if c \<in> {33, 124, 126} then to_st 21
     else if c = 58 then client_tr39
     else if c \<in> {82, 114} then to_st 51
     else if c < 45 then (if 39 < c then (if 42 \<le> c \<and> c \<le> 43 then to_st 21
         else to_st 0)
       else if 35 \<le> c then to_st 21
       else to_st 0)
     else if 46 < c then (if c < 65 then (if 48 \<le> c \<and> c \<le> 57 then to_st 21
         else to_st 0)
       else if 90 < c then (if 94 \<le> c \<and> c \<le> 122 then to_st 21
         else to_st 0)
       else to_st 21)
     else to_st 21)"

definition client_st51 :: "int \<Rightarrow> client_target" where
  "client_st51 c =
    (if c \<in> {33, 46, 124, 126} then to_st 21
     else if c = 45 then to_st 52
     else if c = 58 then client_tr39
     else if c < 48 then (if 39 < c then (if 42 \<le> c \<and> c \<le> 43 then to_st 21
         else to_st 0)
       else if 35 \<le> c then to_st 21
       else to_st 0)
     else if 57 < c then (if 90 < c then (if 94 \<le> c \<and> c \<le> 122 then to_st 21
         else to_st 0)
       else if 65 \<le> c then to_st 21
       else to_st 0)
     else to_st 21)"

definition client_st52 :: "int \<Rightarrow> client_target" where
  "client_st52 c =
    (if c \<in> {33, 124, 126} then to_st 21
     else if c = 58 then client_tr39
     else if c \<in> {69, 101} then to_st 53
     else if c < 45 then (if 39 < c then (if 42 \<le> c \<and> c \<le> 43 then to_st 21
         else to_st 0)
       else if 35 \<le> c then to_st 21
       else to_st 0)
     else if 46 < c then (if c < 65 then (if 48 \<le> c \<and> c \<le> 57 then to_st 21
         else to_st 0)
       else if 90 < c then (if 94 \<le> c \<and> c \<le> 122 then to_st 21
         else to_st 0)
       else to_st 21)
     else to_st 21)"

definition client_st53 :: "int \<Rightarrow> client_target" where
  "client_st53 c =
    (if c \<in> {33, 124, 126} then to_st 21
     else if c = 58 then client_tr39
     else if c \<in> {78, 110} then to_st 54
     else if c < 45 then (if 39 < c then (if 42 \<le> c \<and> c \<le> 43 then to_st 21
         else to_st 0)
       else if 35 \<le> c then to_st 21
       else to_st 0)
     else if 46 < c then (if c < 65 then (if 48 \<le> c \<and> c \<le> 57 then to_st 21
         else to_st 0)
       else if 90 < c then (if 94 \<le> c \<and> c \<le> 122 then to_st 21
         else to_st 0)
       else to_st 21)
     else to_st 21)"

definition client_st54 :: "int \<Rightarrow> client_target" where
  "client_st54 c =
    (if c \<in> {33, 124, 126} then to_st 21
     else if c = 58 then client_tr39
     else if c \<in> {67, 99} then to_st 55
     else if c < 45 then (if 39 < c then (if 42 \<le> c \<and> c \<le> 43 then to_st 21
         else to_st 0)
       else if 35 \<le> c then to_st 21
       else to_st 0)
     else if 46 < c then (if c < 65 then (if 48 \<le> c \<and> c \<le> 57 then to_st 21
         else to_st 0)
       else if 90 < c then (if 94 \<le> c \<and> c \<le> 122 then to_st 21
         else to_st 0)
       else to_st 21)
     else to_st 21)"

definition client_st55 :: "int \<Rightarrow> client_target" where
  "client_st55 c =
    (if c \<in> {33, 124, 126} then to_st 21
     else if c = 58 then client_tr39
     else if c \<in> {79, 111} then to_st 56
     else if c < 45 then (if 39 < c then (if 42 \<le> c \<and> c \<le> 43 then to_st 21
         else to_st 0)
       else if 35 \<le> c then to_st 21
       else to_st 0)
     else if 46 < c then (if c < 65 then (if 48 \<le> c \<and> c \<le> 57 then to_st 21
         else to_st 0)
       else if 90 < c then (if 94 \<le> c \<and> c \<le> 122 then to_st 21
         else to_st 0)
       else to_st 21)
     else to_st 21)"

definition client_st56 :: "int \<Rightarrow> client_target" where
  "client_st56 c =
    (if c \<in> {33, 124, 126} then to_st 21
     else if c = 58 then client_tr39
     else if c \<in> {68, 100} then to_st 57
     else if c < 45 then (if 39 < c then (if 42 \<le> c \<and> c \<le> 43 then to_st 21
         else to_st 0)
       else if 35 \<le> c then to_st 21
       else to_st 0)
     else if 46 < c then (if c < 65 then (if 48 \<le> c \<and> c \<le> 57 then to_st 21
         else to_st 0)
       else if 90 < c then (if 94 \<le> c \<and> c \<le> 122 then to_st 21
         else to_st 0)
       else to_st 21)
     else to_st 21)"

definition client_st57 :: "int \<Rightarrow> client_target" where
  "client_st57 c =
    (if c \<in> {33, 124, 126} then to_st 21
     else if c = 58 then client_tr39
     else if c \<in> {73, 105} then to_st 58
     else if c < 45 then (if 39 < c then (if 42 \<le> c \<and> c \<le> 43 then to_st 21
         else to_st 0)
       else if 35 \<le> c then to_st 21
       else to_st 0)
     else if 46 < c then (if c < 65 then (if 48 \<le> c \<and> c \<le> 57 then to_st 21
         else to_st 0)
       else if 90 < c then (if 94 \<le> c \<and> c \<le> 122 then to_st 21
         else to_st 0)
       else to_st 21)
     else to_st 21)"

definition client_st58 :: "int \<Rightarrow> client_target" where
  "client_st58 c =
    (if c \<in> {33, 124, 126} then to_st 21
     else if c = 58 then client_tr39
     else if c \<in> {78, 110} then to_st 59
     else if c < 45 then (if 39 < c then (if 42 \<le> c \<and> c \<le> 43 then to_st 21
         else to_st 0)
       else if 35 \<le> c then to_st 21
       else to_st 0)
     else if 46 < c then (if c < 65 then (if 48 \<le> c \<and> c \<le> 57 then to_st 21
         else to_st 0)
       else if 90 < c then (if 94 \<le> c \<and> c \<le> 122 then to_st 21
         else to_st 0)
       else to_st 21)
     else to_st 21)"

definition client_st59 :: "int \<Rightarrow> client_target" where
  "client_st59 c =
    (if c \<in> {33, 124, 126} then to_st 21
     else if c = 58 then client_tr39
     else if c \<in> {71, 103} then to_st 60
     else if c < 45 then (if 39 < c then (if 42 \<le> c \<and> c \<le> 43 then to_st 21
         else to_st 0)
       else if 35 \<le> c then to_st 21
       else to_st 0)
     else if 46 < c then (if c < 65 then (if 48 \<le> c \<and> c \<le> 57 then to_st 21
         else to_st 0)
       else if 90 < c then (if 94 \<le> c \<and> c \<le> 122 then to_st 21
         else to_st 0)
       else to_st 21)
     else to_st 21)"

definition client_st60 :: "int \<Rightarrow> client_target" where
  "client_st60 c =
    (if c \<in> {33, 124, 126} then to_st 21
     else if c = 58 then client_tr95
     else if c < 45 then (if 39 < c then (if 42 \<le> c \<and> c \<le> 43 then to_st 21
         else to_st 0)
       else if 35 \<le> c then to_st 21
       else to_st 0)
     else if 46 < c then (if c < 65 then (if 48 \<le> c \<and> c \<le> 57 then to_st 21
         else to_st 0)
       else if 90 < c then (if 94 \<le> c \<and> c \<le> 122 then to_st 21
         else to_st 0)
       else to_st 21)
     else to_st 21)"

definition client_st61 :: "int \<Rightarrow> client_target" where
  "client_st61 c =
    (if c = 10 then client_tr97
     else if c = 13 then client_tr98
     else if c = 32 then client_tr96
     else if c \<in> {67, 99} then client_tr99
     else if 9 \<le> c \<and> c \<le> 12 then client_tr96
     else client_tr40)"

definition client_st62 :: "int \<Rightarrow> client_target" where
  "client_st62 c =
    (if c = 10 then client_tr101
     else if c = 13 then to_st 72
     else if c = 32 then to_st 63
     else if c \<in> {33, 124, 126} then client_tr35
     else if c \<in> {67, 99} then client_tr103
     else if c \<in> {84, 116} then client_tr37
     else if c < 45 then (if c < 35 then (if 9 \<le> c \<and> c \<le> 12 then to_st 63
         else to_st 0)
       else if 39 < c then (if 42 \<le> c \<and> c \<le> 43 then client_tr35
         else to_st 0)
       else client_tr35)
     else if 46 < c then (if c < 65 then (if 48 \<le> c \<and> c \<le> 57 then client_tr35
         else to_st 0)
       else if 90 < c then (if 94 \<le> c \<and> c \<le> 122 then client_tr35
         else to_st 0)
       else client_tr35)
     else client_tr35)"

definition client_st63 :: "int \<Rightarrow> client_target" where
  "client_st63 c =
    (if c = 32 then to_st 63
     else if c \<in> {67, 99} then client_tr104
     else if 9 \<le> c \<and> c \<le> 13 then to_st 63
     else to_st 0)"

definition client_st64 :: "int \<Rightarrow> client_target" where
  "client_st64 c =
    (if c \<in> {72, 104} then to_st 65
     else to_st 0)"

definition client_st65 :: "int \<Rightarrow> client_target" where
  "client_st65 c =
    (if c \<in> {85, 117} then to_st 66
     else to_st 0)"

definition client_st66 :: "int \<Rightarrow> client_target" where
  "client_st66 c =
    (if c \<in> {78, 110} then to_st 67
     else to_st 0)"

definition client_st67 :: "int \<Rightarrow> client_target" where
  "client_st67 c =
    (if c \<in> {75, 107} then to_st 68
     else to_st 0)"

definition client_st68 :: "int \<Rightarrow> client_target" where
  "client_st68 c =
    (if c \<in> {69, 101} then to_st 69
     else to_st 0)"

definition client_st69 :: "int \<Rightarrow> client_target" where
  "client_st69 c =
    (if c \<in> {68, 100} then to_st 70
     else to_st 0)"

definition client_st70 :: "int \<Rightarrow> client_target" where
  "client_st70 c =
    (if c = 10 then client_tr111
     else if c = 13 then client_tr112
     else to_st 0)"

definition client_st71 :: "int \<Rightarrow> client_target" where
  "client_st71 c =
    (if c = 10 then client_tr113
     else to_st 0)"

definition client_st72 :: "int \<Rightarrow> client_target" where
  "client_st72 c =
    (if c = 10 then client_tr101
     else if c = 32 then to_st 63
     else if c \<in> {67, 99} then client_tr104
     else if 9 \<le> c \<and> c \<le> 13 then to_st 63
     else to_st 0)"

definition client_st73 :: "int \<Rightarrow> client_target" where
  "client_st73 c =
    (if c \<in> {33, 124, 126} then to_st 21
     else if c = 58 then client_tr39
     else if c \<in> {72, 104} then to_st 74
     else if c \<in> {79, 111} then to_st 26
     else if c < 45 then (if 39 < c then (if 42 \<le> c \<and> c \<le> 43 then to_st 21
         else to_st 0)
       else if 35 \<le> c then to_st 21
       else to_st 0)
     else if 46 < c then (if c < 65 then (if 48 \<le> c \<and> c \<le> 57 then to_st 21
         else to_st 0)
       else if 90 < c then (if 94 \<le> c \<and> c \<le> 122 then to_st 21
         else to_st 0)
       else to_st 21)
     else to_st 21)"

definition client_st74 :: "int \<Rightarrow> client_target" where
  "client_st74 c =
    (if c \<in> {33, 124, 126} then to_st 21
     else if c = 58 then client_tr39
     else if c \<in> {85, 117} then to_st 75
     else if c < 45 then (if 39 < c then (if 42 \<le> c \<and> c \<le> 43 then to_st 21
         else to_st 0)
       else if 35 \<le> c then to_st 21
       else to_st 0)
     else if 46 < c then (if c < 65 then (if 48 \<le> c \<and> c \<le> 57 then to_st 21
         else to_st 0)
       else if 90 < c then (if 94 \<le> c \<and> c \<le> 122 then to_st 21
         else to_st 0)
       else to_st 21)
     else to_st 21)"

definition client_st75 :: "int \<Rightarrow> client_target" where
  "client_st75 c =
    (if c \<in> {33, 124, 126} then to_st 21
     else if c = 58 then client_tr39
     else if c \<in> {78, 110} then to_st 76
     else if c < 45 then (if 39 < c then (if 42 \<le> c \<and> c \<le> 43 then to_st 21
         else to_st 0)
       else if 35 \<le> c then to_st 21
       else to_st 0)
     else if 46 < c then (if c < 65 then (if 48 \<le> c \<and> c \<le> 57 then to_st 21
         else to_st 0)
       else if 90 < c then (if 94 \<le> c \<and> c \<le> 122 then to_st 21
         else to_st 0)
       else to_st 21)
     else to_st 21)"

definition client_st76 :: "int \<Rightarrow> client_target" where
  "client_st76 c =
    (if c \<in> {33, 124, 126} then to_st 21
     else if c = 58 then client_tr39
     else if c \<in> {75, 107} then to_st 77
     else if c < 45 then (if 39 < c then (if 42 \<le> c \<and> c \<le> 43 then to_st 21
         else to_st 0)
       else if 35 \<le> c then to_st 21
       else to_st 0)
     else if 46 < c then (if c < 65 then (if 48 \<le> c \<and> c \<le> 57 then to_st 21
         else to_st 0)
       else if 90 < c then (if 94 \<le> c \<and> c \<le> 122 then to_st 21
         else to_st 0)
       else to_st 21)
     else to_st 21)"

definition client_st77 :: "int \<Rightarrow> client_target" where
  "client_st77 c =
    (if c \<in> {33, 124, 126} then to_st 21
     else if c = 58 then client_tr39
     else if c \<in> {69, 101} then to_st 78
     else if c < 45 then (if 39 < c then (if 42 \<le> c \<and> c \<le> 43 then to_st 21
         else to_st 0)
       else if 35 \<le> c then to_st 21
       else to_st 0)
     else if 46 < c then (if c < 65 then (if 48 \<le> c \<and> c \<le> 57 then to_st 21
         else to_st 0)
       else if 90 < c then (if 94 \<le> c \<and> c \<le> 122 then to_st 21
         else to_st 0)
       else to_st 21)
     else to_st 21)"

definition client_st78 :: "int \<Rightarrow> client_target" where
  "client_st78 c =
    (if c \<in> {33, 124, 126} then to_st 21
     else if c = 58 then client_tr39
     else if c \<in> {68, 100} then to_st 79
     else if c < 45 then (if 39 < c then (if 42 \<le> c \<and> c \<le> 43 then to_st 21
         else to_st 0)
       else if 35 \<le> c then to_st 21
       else to_st 0)
     else if 46 < c then (if c < 65 then (if 48 \<le> c \<and> c \<le> 57 then to_st 21
         else to_st 0)
       else if 90 < c then (if 94 \<le> c \<and> c \<le> 122 then to_st 21
         else to_st 0)
       else to_st 21)
     else to_st 21)"

definition client_st79 :: "int \<Rightarrow> client_target" where
  "client_st79 c =
    (if c = 10 then client_tr111
     else if c = 13 then client_tr112
     else if c \<in> {33, 124, 126} then to_st 21
     else if c = 58 then client_tr39
     else if c < 45 then (if 39 < c then (if 42 \<le> c \<and> c \<le> 43 then to_st 21
         else to_st 0)
       else if 35 \<le> c then to_st 21
       else to_st 0)
     else if 46 < c then (if c < 65 then (if 48 \<le> c \<and> c \<le> 57 then to_st 21
         else to_st 0)
       else if 90 < c then (if 94 \<le> c \<and> c \<le> 122 then to_st 21
         else to_st 0)
       else to_st 21)
     else to_st 21)"

definition client_st80 :: "int \<Rightarrow> client_target" where
  "client_st80 c =
    (if c = 10 then to_st 62
     else if c = 32 then to_st 63
     else if c \<in> {67, 99} then client_tr104
     else if 9 \<le> c \<and> c \<le> 13 then to_st 63
     else to_st 0)"

definition client_st81 :: "int \<Rightarrow> client_target" where
  "client_st81 c =
    (if c = 10 then client_tr45
     else if c = 13 then client_tr46
     else if c \<in> {72, 104} then to_st 82
     else to_st 23)"

definition client_st82 :: "int \<Rightarrow> client_target" where
  "client_st82 c =
    (if c = 10 then client_tr45
     else if c = 13 then client_tr46
     else if c \<in> {85, 117} then to_st 83
     else to_st 23)"

definition client_st83 :: "int \<Rightarrow> client_target" where
  "client_st83 c =
    (if c = 10 then client_tr45
     else if c = 13 then client_tr46
     else if c \<in> {78, 110} then to_st 84
     else to_st 23)"

definition client_st84 :: "int \<Rightarrow> client_target" where
  "client_st84 c =
    (if c = 10 then client_tr45
     else if c = 13 then client_tr46
     else if c \<in> {75, 107} then to_st 85
     else to_st 23)"

definition client_st85 :: "int \<Rightarrow> client_target" where
  "client_st85 c =
    (if c = 10 then client_tr45
     else if c = 13 then client_tr46
     else if c \<in> {69, 101} then to_st 86
     else to_st 23)"

definition client_st86 :: "int \<Rightarrow> client_target" where
  "client_st86 c =
    (if c = 10 then client_tr45
     else if c = 13 then client_tr46
     else if c \<in> {68, 100} then to_st 87
     else to_st 23)"

definition client_st87 :: "int \<Rightarrow> client_target" where
  "client_st87 c =
    (if c = 10 then client_tr111
     else if c = 13 then client_tr112
     else to_st 23)"

definition client_st88 :: "int \<Rightarrow> client_target" where
  "client_st88 c =
    (if c = 10 then to_st 43
     else to_st 0)"

definition client_st89 :: "int \<Rightarrow> client_target" where
  "client_st89 c =
    (if c = 10 then client_tr64
     else if c = 32 then to_st 37
     else if c \<in> {67, 99} then to_st 38
     else if 9 \<le> c \<and> c \<le> 13 then to_st 37
     else to_st 0)"

definition client_st90 :: "int \<Rightarrow> client_target" where
  "client_st90 c =
    (if c \<in> {33, 124, 126} then to_st 21
     else if c = 58 then client_tr39
     else if c \<in> {76, 108} then to_st 91
     else if c \<in> {79, 111} then to_st 26
     else if c < 45 then (if 39 < c then (if 42 \<le> c \<and> c \<le> 43 then to_st 21
         else to_st 0)
       else if 35 \<le> c then to_st 21
       else to_st 0)
     else if 46 < c then (if c < 65 then (if 48 \<le> c \<and> c \<le> 57 then to_st 21
         else to_st 0)
       else if 90 < c then (if 94 \<le> c \<and> c \<le> 122 then to_st 21
         else to_st 0)
       else to_st 21)
     else to_st 21)"

definition client_st91 :: "int \<Rightarrow> client_target" where
  "client_st91 c =
    (if c \<in> {33, 124, 126} then to_st 21
     else if c = 58 then client_tr39
     else if c \<in> {79, 111} then to_st 92
     else if c < 45 then (if 39 < c then (if 42 \<le> c \<and> c \<le> 43 then to_st 21
         else to_st 0)
       else if 35 \<le> c then to_st 21
       else to_st 0)
     else if 46 < c then (if c < 65 then (if 48 \<le> c \<and> c \<le> 57 then to_st 21
         else to_st 0)
       else if 90 < c then (if 94 \<le> c \<and> c \<le> 122 then to_st 21
         else to_st 0)
       else to_st 21)
     else to_st 21)"

definition client_st92 :: "int \<Rightarrow> client_target" where
  "client_st92 c =
    (if c \<in> {33, 124, 126} then to_st 21
     else if c = 58 then client_tr39
     else if c \<in> {83, 115} then to_st 93
     else if c < 45 then (if 39 < c then (if 42 \<le> c \<and> c \<le> 43 then to_st 21
         else to_st 0)
       else if 35 \<le> c then to_st 21
       else to_st 0)
     else if 46 < c then (if c < 65 then (if 48 \<le> c \<and> c \<le> 57 then to_st 21
         else to_st 0)
       else if 90 < c then (if 94 \<le> c \<and> c \<le> 122 then to_st 21
         else to_st 0)
       else to_st 21)
     else to_st 21)"

definition client_st93 :: "int \<Rightarrow> client_target" where
  "client_st93 c =
    (if c \<in> {33, 124, 126} then to_st 21
     else if c = 58 then client_tr39
     else if c \<in> {69, 101} then to_st 94
     else if c < 45 then (if 39 < c then (if 42 \<le> c \<and> c \<le> 43 then to_st 21
         else to_st 0)
       else if 35 \<le> c then to_st 21
       else to_st 0)
     else if 46 < c then (if c < 65 then (if 48 \<le> c \<and> c \<le> 57 then to_st 21
         else to_st 0)
       else if 90 < c then (if 94 \<le> c \<and> c \<le> 122 then to_st 21
         else to_st 0)
       else to_st 21)
     else to_st 21)"

definition client_st94 :: "int \<Rightarrow> client_target" where
  "client_st94 c =
    (if c = 10 then to_st 43
     else if c = 13 then to_st 88
     else if c \<in> {33, 124, 126} then to_st 21
     else if c = 58 then client_tr39
     else if c < 45 then (if 39 < c then (if 42 \<le> c \<and> c \<le> 43 then to_st 21
         else to_st 0)
       else if 35 \<le> c then to_st 21
       else to_st 0)
     else if 46 < c then (if c < 65 then (if 48 \<le> c \<and> c \<le> 57 then to_st 21
         else to_st 0)
       else if 90 < c then (if 94 \<le> c \<and> c \<le> 122 then to_st 21
         else to_st 0)
       else to_st 21)
     else to_st 21)"

definition client_st95 :: "int \<Rightarrow> client_target" where
  "client_st95 c =
    (if c = 10 then to_st 36
     else if c = 32 then to_st 37
     else if c \<in> {67, 99} then to_st 38
     else if 9 \<le> c \<and> c \<le> 13 then to_st 37
     else to_st 0)"

definition client_st96 :: "int \<Rightarrow> client_target" where
  "client_st96 c =
    (if c = 10 then client_tr45
     else if c = 13 then client_tr46
     else if c \<in> {76, 108} then to_st 97
     else to_st 23)"

definition client_st97 :: "int \<Rightarrow> client_target" where
  "client_st97 c =
    (if c = 10 then client_tr45
     else if c = 13 then client_tr46
     else if c \<in> {79, 111} then to_st 98
     else to_st 23)"

definition client_st98 :: "int \<Rightarrow> client_target" where
  "client_st98 c =
    (if c = 10 then client_tr45
     else if c = 13 then client_tr46
     else if c \<in> {83, 115} then to_st 99
     else to_st 23)"

definition client_st99 :: "int \<Rightarrow> client_target" where
  "client_st99 c =
    (if c = 10 then client_tr45
     else if c = 13 then client_tr46
     else if c \<in> {69, 101} then to_st 100
     else to_st 23)"

definition client_st100 :: "int \<Rightarrow> client_target" where
  "client_st100 c =
    (if c = 10 then client_tr136
     else if c = 13 then client_tr137
     else to_st 23)"

definition client_st101 :: "int \<Rightarrow> client_target" where
  "client_st101 c =
    (if c \<in> {33, 124, 126} then to_st 21
     else if c = 58 then client_tr39
     else if c \<in> {69, 101} then to_st 102
     else if c < 45 then (if 39 < c then (if 42 \<le> c \<and> c \<le> 43 then to_st 21
         else to_st 0)
       else if 35 \<le> c then to_st 21
       else to_st 0)
     else if 46 < c then (if c < 65 then (if 48 \<le> c \<and> c \<le> 57 then to_st 21
         else to_st 0)
       else if 90 < c then (if 94 \<le> c \<and> c \<le> 122 then to_st 21
         else to_st 0)
       else to_st 21)
     else to_st 21)"

definition client_st102 :: "int \<Rightarrow> client_target" where
  "client_st102 c =
    (if c \<in> {33, 124, 126} then to_st 21
     else if c = 58 then client_tr39
     else if c \<in> {78, 110} then to_st 103
     else if c < 45 then (if 39 < c then (if 42 \<le> c \<and> c \<le> 43 then to_st 21
         else to_st 0)
       else if 35 \<le> c then to_st 21
       else to_st 0)
     else if 46 < c then (if c < 65 then (if 48 \<le> c \<and> c \<le> 57 then to_st 21
         else to_st 0)
       else if 90 < c then (if 94 \<le> c \<and> c \<le> 122 then to_st 21
         else to_st 0)
       else to_st 21)
     else to_st 21)"

definition client_st103 :: "int \<Rightarrow> client_target" where
  "client_st103 c =
    (if c \<in> {33, 124, 126} then to_st 21
     else if c = 58 then client_tr39
     else if c \<in> {84, 116} then to_st 104
     else if c < 45 then (if 39 < c then (if 42 \<le> c \<and> c \<le> 43 then to_st 21
         else to_st 0)
       else if 35 \<le> c then to_st 21
       else to_st 0)
     else if 46 < c then (if c < 65 then (if 48 \<le> c \<and> c \<le> 57 then to_st 21
         else to_st 0)
       else if 90 < c then (if 94 \<le> c \<and> c \<le> 122 then to_st 21
         else to_st 0)
       else to_st 21)
     else to_st 21)"

definition client_st104 :: "int \<Rightarrow> client_target" where
  "client_st104 c =
    (if c \<in> {33, 46, 124, 126} then to_st 21
     else if c = 45 then to_st 105
     else if c = 58 then client_tr39
     else if c < 48 then (if 39 < c then (if 42 \<le> c \<and> c \<le> 43 then to_st 21
         else to_st 0)
       else if 35 \<le> c then to_st 21
       else to_st 0)
     else if 57 < c then (if 90 < c then (if 94 \<le> c \<and> c \<le> 122 then to_st 21
         else to_st 0)
       else if 65 \<le> c then to_st 21
       else to_st 0)
     else to_st 21)"

definition client_st105 :: "int \<Rightarrow> client_target" where
  "client_st105 c =
    (if c \<in> {33, 124, 126} then to_st 21
     else if c = 58 then client_tr39
     else if c \<in> {76, 108} then to_st 106
     else if c < 45 then (if 39 < c then (if 42 \<le> c \<and> c \<le> 43 then to_st 21
         else to_st 0)
       else if 35 \<le> c then to_st 21
       else to_st 0)
     else if 46 < c then (if c < 65 then (if 48 \<le> c \<and> c \<le> 57 then to_st 21
         else to_st 0)
       else if 90 < c then (if 94 \<le> c \<and> c \<le> 122 then to_st 21
         else to_st 0)
       else to_st 21)
     else to_st 21)"

definition client_st106 :: "int \<Rightarrow> client_target" where
  "client_st106 c =
    (if c \<in> {33, 124, 126} then to_st 21
     else if c = 58 then client_tr39
     else if c \<in> {69, 101} then to_st 107
     else if c < 45 then (if 39 < c then (if 42 \<le> c \<and> c \<le> 43 then to_st 21
         else to_st 0)
       else if 35 \<le> c then to_st 21
       else to_st 0)
     else if 46 < c then (if c < 65 then (if 48 \<le> c \<and> c \<le> 57 then to_st 21
         else to_st 0)
       else if 90 < c then (if 94 \<le> c \<and> c \<le> 122 then to_st 21
         else to_st 0)
       else to_st 21)
     else to_st 21)"

definition client_st107 :: "int \<Rightarrow> client_target" where
  "client_st107 c =
    (if c \<in> {33, 124, 126} then to_st 21
     else if c = 58 then client_tr39
     else if c \<in> {78, 110} then to_st 108
     else if c < 45 then (if 39 < c then (if 42 \<le> c \<and> c \<le> 43 then to_st 21
         else to_st 0)
       else if 35 \<le> c then to_st 21
       else to_st 0)
     else if 46 < c then (if c < 65 then (if 48 \<le> c \<and> c \<le> 57 then to_st 21
         else to_st 0)
       else if 90 < c then (if 94 \<le> c \<and> c \<le> 122 then to_st 21
         else to_st 0)
       else to_st 21)
     else to_st 21)"

definition client_st108 :: "int \<Rightarrow> client_target" where
  "client_st108 c =
    (if c \<in> {33, 124, 126} then to_st 21
     else if c = 58 then client_tr39
     else if c \<in> {71, 103} then to_st 109
     else if c < 45 then (if 39 < c then (if 42 \<le> c \<and> c \<le> 43 then to_st 21
         else to_st 0)
       else if 35 \<le> c then to_st 21
       else to_st 0)
     else if 46 < c then (if c < 65 then (if 48 \<le> c \<and> c \<le> 57 then to_st 21
         else to_st 0)
       else if 90 < c then (if 94 \<le> c \<and> c \<le> 122 then to_st 21
         else to_st 0)
       else to_st 21)
     else to_st 21)"

definition client_st109 :: "int \<Rightarrow> client_target" where
  "client_st109 c =
    (if c \<in> {33, 124, 126} then to_st 21
     else if c = 58 then client_tr39
     else if c \<in> {84, 116} then to_st 110
     else if c < 45 then (if 39 < c then (if 42 \<le> c \<and> c \<le> 43 then to_st 21
         else to_st 0)
       else if 35 \<le> c then to_st 21
       else to_st 0)
     else if 46 < c then (if c < 65 then (if 48 \<le> c \<and> c \<le> 57 then to_st 21
         else to_st 0)
       else if 90 < c then (if 94 \<le> c \<and> c \<le> 122 then to_st 21
         else to_st 0)
       else to_st 21)
     else to_st 21)"

definition client_st110 :: "int \<Rightarrow> client_target" where
  "client_st110 c =
    (if c \<in> {33, 124, 126} then to_st 21
     else if c = 58 then client_tr39
     else if c \<in> {72, 104} then to_st 111
     else if c < 45 then (if 39 < c then (if 42 \<le> c \<and> c \<le> 43 then to_st 21
         else to_st 0)
       else if 35 \<le> c then to_st 21
       else to_st 0)
     else if 46 < c then (if c < 65 then (if 48 \<le> c \<and> c \<le> 57 then to_st 21
         else to_st 0)
       else if 90 < c then (if 94 \<le> c \<and> c \<le> 122 then to_st 21
         else to_st 0)
       else to_st 21)
     else to_st 21)"

definition client_st111 :: "int \<Rightarrow> client_target" where
  "client_st111 c =
    (if c \<in> {33, 124, 126} then to_st 21
     else if c = 58 then client_tr148
     else if c < 45 then (if 39 < c then (if 42 \<le> c \<and> c \<le> 43 then to_st 21
         else to_st 0)
       else if 35 \<le> c then to_st 21
       else to_st 0)
     else if 46 < c then (if c < 65 then (if 48 \<le> c \<and> c \<le> 57 then to_st 21
         else to_st 0)
       else if 90 < c then (if 94 \<le> c \<and> c \<le> 122 then to_st 21
         else to_st 0)
       else to_st 21)
     else to_st 21)"

definition client_st112 :: "int \<Rightarrow> client_target" where
  "client_st112 c =
    (if c = 10 then client_tr150
     else if c = 13 then client_tr151
     else if c = 32 then client_tr149
     else if 12 < c then (if 48 \<le> c \<and> c \<le> 57 then client_tr152
       else client_tr40)
     else if 9 \<le> c then client_tr149
     else client_tr40)"

definition client_st113 :: "int \<Rightarrow> client_target" where
  "client_st113 c =
    (if c = 10 then client_tr154
     else if c = 13 then to_st 116
     else if c = 32 then to_st 114
     else if c \<in> {33, 124, 126} then client_tr35
     else if c \<in> {67, 99} then client_tr36
     else if c \<in> {84, 116} then client_tr37
     else if c < 45 then (if c < 35 then (if 9 \<le> c \<and> c \<le> 12 then to_st 114
         else to_st 0)
       else if 39 < c then (if 42 \<le> c \<and> c \<le> 43 then client_tr35
         else to_st 0)
       else client_tr35)
     else if 46 < c then (if c < 65 then (if 48 \<le> c \<and> c \<le> 57 then client_tr156
         else to_st 0)
       else if 90 < c then (if 94 \<le> c \<and> c \<le> 122 then client_tr35
         else to_st 0)
       else client_tr35)
     else client_tr35)"

definition client_st114 :: "int \<Rightarrow> client_target" where
  "client_st114 c =
    (if c = 32 then to_st 114
     else if 13 < c then (if 48 \<le> c \<and> c \<le> 57 then client_tr157
       else to_st 0)
     else if 9 \<le> c then to_st 114
     else to_st 0)"

definition client_st115 :: "int \<Rightarrow> client_target" where
  "client_st115 c =
    (if c = 10 then client_tr158
     else if c = 13 then client_tr159
     else if 48 \<le> c \<and> c \<le> 57 then to_st 115
     else to_st 0)"

definition client_st116 :: "int \<Rightarrow> client_target" where
  "client_st116 c =
    (if c = 10 then client_tr154
     else if c = 32 then to_st 114
     else if 13 < c then (if 48 \<le> c \<and> c \<le> 57 then client_tr157
       else to_st 0)
     else if 9 \<le> c then to_st 114
     else to_st 0)"

definition client_st117 :: "int \<Rightarrow> client_target" where
  "client_st117 c =
    (if c = 10 then client_tr158
     else if c = 13 then client_tr159
     else if c \<in> {33, 124, 126} then to_st 21
     else if c = 58 then client_tr39
     else if c < 45 then (if 39 < c then (if 42 \<le> c \<and> c \<le> 43 then to_st 21
         else to_st 0)
       else if 35 \<le> c then to_st 21
       else to_st 0)
     else if 46 < c then (if c < 65 then (if 48 \<le> c \<and> c \<le> 57 then to_st 117
         else to_st 0)
       else if 90 < c then (if 94 \<le> c \<and> c \<le> 122 then to_st 21
         else to_st 0)
       else to_st 21)
     else to_st 21)"

definition client_st118 :: "int \<Rightarrow> client_target" where
  "client_st118 c =
    (if c = 10 then to_st 113
     else if c = 32 then to_st 114
     else if 13 < c then (if 48 \<le> c \<and> c \<le> 57 then client_tr157
       else to_st 0)
     else if 9 \<le> c then to_st 114
     else to_st 0)"

definition client_st119 :: "int \<Rightarrow> client_target" where
  "client_st119 c =
    (if c = 10 then client_tr158
     else if c = 13 then client_tr159
     else if 48 \<le> c \<and> c \<le> 57 then to_st 119
     else to_st 23)"

definition client_st120 :: "int \<Rightarrow> client_target" where
  "client_st120 c =
    (to_st 0)"

definition client_st121 :: "int \<Rightarrow> client_target" where
  "client_st121 c =
    (if c = 32 then to_st 63
     else if c \<in> {67, 99} then client_tr104
     else if 9 \<le> c \<and> c \<le> 13 then to_st 63
     else to_st 0)"

definition client_st122 :: "int \<Rightarrow> client_target" where
  "client_st122 c =
    (if c = 32 then to_st 37
     else if c \<in> {67, 99} then to_st 38
     else if 9 \<le> c \<and> c \<le> 13 then to_st 37
     else to_st 0)"

definition client_st123 :: "int \<Rightarrow> client_target" where
  "client_st123 c =
    (if c = 32 then to_st 114
     else if 13 < c then (if 48 \<le> c \<and> c \<le> 57 then client_tr157
       else to_st 0)
     else if 9 \<le> c then to_st 114
     else to_st 0)"

lemmas client_st_defs =
  client_st1_def client_st2_def client_st3_def client_st4_def client_st5_def
  client_st6_def client_st7_def client_st8_def client_st9_def client_st10_def
  client_st11_def client_st12_def client_st13_def client_st14_def client_st15_def
  client_st16_def client_st17_def client_st18_def client_st19_def client_st20_def
  client_st21_def client_st22_def client_st23_def client_st24_def client_st25_def
  client_st26_def client_st27_def client_st28_def client_st29_def client_st30_def
  client_st31_def client_st32_def client_st33_def client_st34_def client_st35_def
  client_st36_def client_st37_def client_st38_def client_st39_def client_st40_def
  client_st41_def client_st42_def client_st43_def client_st44_def client_st45_def
  client_st46_def client_st47_def client_st48_def client_st49_def client_st50_def
  client_st51_def client_st52_def client_st53_def client_st54_def client_st55_def
  client_st56_def client_st57_def client_st58_def client_st59_def client_st60_def
  client_st61_def client_st62_def client_st63_def client_st64_def client_st65_def
  client_st66_def client_st67_def client_st68_def client_st69_def client_st70_def
  client_st71_def client_st72_def client_st73_def client_st74_def client_st75_def
  client_st76_def client_st77_def client_st78_def client_st79_def client_st80_def
  client_st81_def client_st82_def client_st83_def client_st84_def client_st85_def
  client_st86_def client_st87_def client_st88_def client_st89_def client_st90_def
  client_st91_def client_st92_def client_st93_def client_st94_def client_st95_def
  client_st96_def client_st97_def client_st98_def client_st99_def client_st100_def
  client_st101_def client_st102_def client_st103_def client_st104_def client_st105_def
  client_st106_def client_st107_def client_st108_def client_st109_def client_st110_def
  client_st111_def client_st112_def client_st113_def client_st114_def client_st115_def
  client_st116_def client_st117_def client_st118_def client_st119_def client_st120_def
  client_st121_def client_st122_def client_st123_def

section \<open>The table\<close>

text \<open>
  \<open>switch (cs)\<close>: state 0 has no case, and entering it leaves the loop. (The list starts with
  state 1.)
\<close>

definition client_states :: "(int \<Rightarrow> client_target) list" where
  "client_states =
    [client_st1, client_st2, client_st3, client_st4, client_st5, client_st6, client_st7, client_st8,
     client_st9, client_st10, client_st11, client_st12, client_st13, client_st14, client_st15, client_st16,
     client_st17, client_st18, client_st19, client_st20, client_st21, client_st22, client_st23, client_st24,
     client_st25, client_st26, client_st27, client_st28, client_st29, client_st30, client_st31, client_st32,
     client_st33, client_st34, client_st35, client_st36, client_st37, client_st38, client_st39, client_st40,
     client_st41, client_st42, client_st43, client_st44, client_st45, client_st46, client_st47, client_st48,
     client_st49, client_st50, client_st51, client_st52, client_st53, client_st54, client_st55, client_st56,
     client_st57, client_st58, client_st59, client_st60, client_st61, client_st62, client_st63, client_st64,
     client_st65, client_st66, client_st67, client_st68, client_st69, client_st70, client_st71, client_st72,
     client_st73, client_st74, client_st75, client_st76, client_st77, client_st78, client_st79, client_st80,
     client_st81, client_st82, client_st83, client_st84, client_st85, client_st86, client_st87, client_st88,
     client_st89, client_st90, client_st91, client_st92, client_st93, client_st94, client_st95, client_st96,
     client_st97, client_st98, client_st99, client_st100, client_st101, client_st102, client_st103, client_st104,
     client_st105, client_st106, client_st107, client_st108, client_st109, client_st110, client_st111, client_st112,
     client_st113, client_st114, client_st115, client_st116, client_st117, client_st118, client_st119, client_st120,
     client_st121, client_st122, client_st123]"

definition client_trans :: "nat \<Rightarrow> int \<Rightarrow> client_target" where
  "client_trans cs c =
     (if cs = 0 \<or> length client_states < cs then to_st 0 else (client_states ! (cs - 1)) c)"

end
