(* ===== verification/Httpclient_Parser.thy ===== *)
theory Httpclient_Parser
  imports Http11_Parser Httpclient_Machine
begin

text \<open>
  Running the response automaton: \<open>struct httpclient_parser\<close>, the actions, the loop of
  \<open>httpclient_parser_execute\<close> with its assertions and checks (\<open>httpclient_parser.rl.cc\<close>), and the
  class around it, \<open>HttpResponseParser\<close> with its callbacks (\<open>http_parser.cc\<close>).

  As for the request parser a pointer into the buffer is an offset, and the text a callback can
  read from it the rest of the memory: the \<open>len\<close> characters given to \<open>execute\<close>, and \<open>tail\<close>, what
  is behind them, which the code wants to start with NUL. \<open>strtol\<close>, \<open>atoi\<close> and \<open>strncmp\<close> do not read past
  a NUL.
\<close>

section \<open>Numbers of the C library\<close>

definition isspace :: "char \<Rightarrow> bool" where
  "isspace c \<longleftrightarrow> c \<in> {CHR '' '', CHR 0x09, CHR 0x0A, CHR 0x0B, CHR 0x0C, CHR 0x0D}"

definition digit_val :: "char \<Rightarrow> nat" where
  "digit_val c =
     (let n = of_char c :: nat
      in if 48 \<le> n \<and> n \<le> 57 then n - 48
         else if 97 \<le> n \<and> n \<le> 122 then n - 87
         else if 65 \<le> n \<and> n \<le> 90 then n - 55
         else 255)"

text \<open>The number the text starts with, after \<open>acc\<close>.\<close>

fun digits_of :: "nat \<Rightarrow> nat \<Rightarrow> string \<Rightarrow> nat" where
  "digits_of base acc [] = acc"
| "digits_of base acc (c # cs) =
     (if digit_val c < base then digits_of base (acc * base + digit_val c) cs else acc)"

definition skip_0x :: "nat \<Rightarrow> string \<Rightarrow> string" where
  "skip_0x base s =
     (case s of
        z # x # d # _ \<Rightarrow>
          if base = 16 \<and> z = CHR ''0'' \<and> (x = CHR ''x'' \<or> x = CHR ''X'') \<and> digit_val d < 16 then drop 2 s else s
      | _ \<Rightarrow> s)"

text \<open>\<open>strtol(s, NULL, base)\<close>: a \<open>long\<close>, the nearest one if the number is none.\<close>

definition strtol :: "nat \<Rightarrow> string \<Rightarrow> int" where
  "strtol base s =
     (let s = dropWhile isspace s;
          neg = (s \<noteq> [] \<and> hd s = CHR ''-'');
          s = (if s \<noteq> [] \<and> hd s \<in> {CHR ''-'', CHR ''+''} then tl s else s);
          n = int (digits_of base 0 (skip_0x base s))
      in max (- (2 ^ 63)) (min (2 ^ 63 - 1) (if neg then - n else n)))"

definition atoi :: "string \<Rightarrow> int" where
  "atoi s = int32 (strtol 10 s)"

section \<open>The parser\<close>

record httpclient_parser =
  cp_cs :: nat
  cp_body_start :: nat
  cp_content_len :: int
  cp_status :: int
  cp_chunked :: bool
  cp_chunks_done :: bool
  cp_close :: bool
  cp_nread :: nat
  cp_mark :: nat
  cp_field_start :: nat
  cp_field_len :: nat

text \<open>The calls through the function pointers: the text at the pointer and the length.\<close>

datatype client_call =
    Cc_field string nat string nat
  | Cc_reason string nat
  | Cc_status string nat
  | Cc_chunk string nat
  | Cc_version string nat
  | Cc_header_done string nat
  | Cc_last_chunk string nat

type_synonym 'd client_callbacks = "client_call \<Rightarrow> 'd \<Rightarrow> hp_error + 'd"

text \<open>\<open>status\<close> is left as it is.\<close>

definition httpclient_parser_init :: "httpclient_parser \<Rightarrow> httpclient_parser" where
  "httpclient_parser_init P =
     P\<lparr>cp_cs := 1, cp_body_start := 0, cp_content_len := - 1, cp_chunked := False, cp_chunks_done := False,
       cp_mark := 0, cp_nread := 0, cp_field_len := 0, cp_field_start := 0, cp_close := False\<rparr>"

section \<open>Actions\<close>

definition with_client :: "httpclient_parser \<Rightarrow> hp_error + 'd \<Rightarrow> hp_error + (httpclient_parser \<times> 'd)" where
  "with_client P r = (case r of Inl e \<Rightarrow> Inl e | Inr d \<Rightarrow> Inr (P, d))"

fun cp_act ::
  "'d client_callbacks \<Rightarrow> string \<Rightarrow> string \<Rightarrow> nat \<Rightarrow> client_act \<Rightarrow> httpclient_parser \<times> 'd \<Rightarrow>
     hp_error + (httpclient_parser \<times> 'd)"
where
  "cp_act cb buf tail p C_Mark (P, d) = Inr (P\<lparr>cp_mark := p\<rparr>, d)"
| "cp_act cb buf tail p C_Start_field (P, d) = Inr (P\<lparr>cp_field_start := p\<rparr>, d)"
| "cp_act cb buf tail p C_Write_field (P, d) = Inr (P\<lparr>cp_field_len := LEN (cp_field_start P) p\<rparr>, d)"
| "cp_act cb buf tail p C_Write_content_len (P, d) =
     Inr (P\<lparr>cp_content_len := int32 (strtol 10 (PTR_TO (buf @ tail) (cp_mark P)))\<rparr>, d)"
| "cp_act cb buf tail p C_Write_connection_close (P, d) = Inr (P\<lparr>cp_close := True\<rparr>, d)"
| "cp_act cb buf tail p C_Write_value (P, d) =
     with_client P (cb (Cc_field (PTR_TO (buf @ tail) (cp_field_start P)) (cp_field_len P)
                          (PTR_TO (buf @ tail) (cp_mark P)) (LEN (cp_mark P) p)) d)"
| "cp_act cb buf tail p C_Reason_phrase (P, d) =
     with_client P (cb (Cc_reason (PTR_TO (buf @ tail) (cp_mark P)) (LEN (cp_mark P) p)) d)"
| "cp_act cb buf tail p C_Status_code (P, d) =
     (let P = P\<lparr>cp_status := int32 (strtol 10 (PTR_TO (buf @ tail) (cp_mark P)))\<rparr>
      in with_client P (cb (Cc_status (PTR_TO (buf @ tail) (cp_mark P)) (LEN (cp_mark P) p)) d))"
| "cp_act cb buf tail p C_Http_version (P, d) =
     with_client P (cb (Cc_version (PTR_TO (buf @ tail) (cp_mark P)) (LEN (cp_mark P) p)) d)"
| "cp_act cb buf tail p C_Chunk_size (P, d) =
     (let n = int32 (strtol 16 (PTR_TO (buf @ tail) (cp_mark P)));
          P = P\<lparr>cp_chunked := True, cp_content_len := n, cp_chunks_done := (n \<le> 0)\<rparr>
      in if cp_chunks_done P then
           with_client P (cb (Cc_last_chunk (PTR_TO (buf @ tail) (cp_mark P)) (LEN (cp_mark P) p)) d)
         else with_client P (cb (Cc_chunk (PTR_TO (buf @ tail) (cp_mark P)) (LEN (cp_mark P) p)) d))"
| "cp_act cb buf tail p C_Trans_chunked (P, d) = Inr (P\<lparr>cp_chunked := True\<rparr>, d)"
| "cp_act cb buf tail p (C_Done cs) (P, d) =
     with_client (P\<lparr>cp_body_start := p + 1\<rparr>)
       (cb (Cc_header_done (drop (p + 1) (buf @ tail)) (length buf - p - 1)) d)"

fun cp_acts ::
  "'d client_callbacks \<Rightarrow> string \<Rightarrow> string \<Rightarrow> nat \<Rightarrow> client_act list \<Rightarrow> httpclient_parser \<times> 'd \<Rightarrow>
     hp_error + (httpclient_parser \<times> 'd)"
where
  "cp_acts cb buf tail p [] s = Inr s"
| "cp_acts cb buf tail p (a # as) s =
     (case cp_act cb buf tail p a s of Inl e \<Rightarrow> Inl e | Inr s' \<Rightarrow> cp_acts cb buf tail p as s')"

fun client_done :: "client_act list \<Rightarrow> nat option" where
  "client_done [] = None"
| "client_done (C_Done cs # as) = Some cs"
| "client_done (a # as) = client_done as"

section \<open>The loop\<close>

text \<open>As the loop of the request parser.\<close>

function cp_loop ::
  "'d client_callbacks \<Rightarrow> string \<Rightarrow> string \<Rightarrow> nat \<Rightarrow> nat \<Rightarrow> httpclient_parser \<times> 'd \<Rightarrow>
     hp_error + (nat \<times> nat \<times> httpclient_parser \<times> 'd)"
where
  "cp_loop cb buf tail p cs s =
     (if length buf \<le> p then Inr (cs, p, s)
      else case client_trans cs (schar (buf ! p)) of
        (as, n) \<Rightarrow>
          if n = 0 then Inr (0, p, s)
          else case cp_acts cb buf tail p as s of
                 Inl e \<Rightarrow> Inl e
               | Inr s' \<Rightarrow>
                   (case client_done as of
                      Some k \<Rightarrow> Inr (k, p + 1, s')
                    | None \<Rightarrow> cp_loop cb buf tail (p + 1) n s'))"
  by pat_completeness auto
termination
  by (relation "measure (\<lambda>(cb, buf, tail, p, cs, s). length buf - p)") auto

declare cp_loop.simps [simp del]

definition httpclient_parser_has_error :: "httpclient_parser \<Rightarrow> bool" where
  "httpclient_parser_has_error P \<longleftrightarrow> cp_cs P = 0"

definition httpclient_parser_is_finished :: "httpclient_parser \<Rightarrow> bool" where
  "httpclient_parser_is_finished P \<longleftrightarrow> cp_cs P = 120"

definition httpclient_parser_finish :: "httpclient_parser \<Rightarrow> int" where
  "httpclient_parser_finish P =
     (if httpclient_parser_has_error P then - 1 else if httpclient_parser_is_finished P then 1 else 0)"

text \<open>
  A parser in state 0 has no \<open>case\<close> to go to: control falls to the first label behind the \<open>switch\<close>,
  which sets state 2. A failing \<open>check\<close> returns -1.
\<close>

definition httpclient_parser_execute ::
  "'d client_callbacks \<Rightarrow> string \<Rightarrow> string \<Rightarrow> nat \<Rightarrow> httpclient_parser \<times> 'd \<Rightarrow> hp_error + (int \<times> httpclient_parser \<times> 'd)"
where
  "httpclient_parser_execute cb buf tail off s =
     (case s of (P, d) \<Rightarrow>
        let P = P\<lparr>cp_nread := 0, cp_mark := 0, cp_field_len := 0, cp_field_start := 0\<rparr>;
            cs = cp_cs P;
            len = length buf
        in hp_check (off \<le> len) ''offset past end of buffer''
          (if tail = [] then Inl Read_outside
           else hp_check (hd tail = CHR 0x00) ''pointer does not end on NUL''
          (hp_check (int (len - off) = int32 (int len) - int32 (int off)) ''pointers are not same distance''
          (case (if cs = 0 \<and> off < len then Inr (2, off, P, d) else cp_loop cb buf tail off cs (P, d)) of
             Inl e \<Rightarrow> Inl e
           | Inr (cs', p, P, d) \<Rightarrow>
               let P = P\<lparr>cp_cs := cs'\<rparr>;
                   P = P\<lparr>cp_nread := cp_nread P + (p - off)\<rparr>
               in hp_check (p \<le> len) ''buffer overflow after parsing execute''
                 (hp_check (cp_nread P \<le> len) ''nread longer than length''
                 (hp_check (cp_body_start P \<le> len) ''body starts after buffer end''
                 (Inr (if cp_mark P < len \<and> cp_field_len P \<le> len \<and> cp_field_start P < len
                       then int32 (int (cp_nread P)) else - 1, P, d))))))))"

section \<open>The callbacks of HttpResponseParser\<close>

type_synonym response_data = "HttpResponse \<times> int"

definition on_response_reason :: "string \<Rightarrow> nat \<Rightarrow> response_data \<Rightarrow> hp_error + response_data" where
  "on_response_reason at len d = with_string at len (\<lambda>s. Inr ((fst d)\<lparr>rsp_reason := s\<rparr>, snd d))"

definition on_response_status :: "string \<Rightarrow> nat \<Rightarrow> response_data \<Rightarrow> hp_error + response_data" where
  "on_response_status at len d = Inr ((fst d)\<lparr>rsp_status := atoi at\<rparr>, snd d)"

definition on_response_version :: "string \<Rightarrow> nat \<Rightarrow> response_data \<Rightarrow> hp_error + response_data" where
  "on_response_version at len d =
     (if strncmp_eq at ''HTTP/1.1'' len then Inr ((fst d)\<lparr>rsp_version := 0x11\<rparr>, snd d)
      else if strncmp_eq at ''HTTP/1.0'' len then Inr ((fst d)\<lparr>rsp_version := 0x10\<rparr>, snd d)
      else with_string at len (\<lambda>_. Inr (fst d, 1001)))"

definition on_response_http_field ::
  "string \<Rightarrow> nat \<Rightarrow> string \<Rightarrow> nat \<Rightarrow> response_data \<Rightarrow> hp_error + response_data" where
  "on_response_http_field field flen val vlen d =
     (if flen = 0 then Inr d
      else with_string field flen (\<lambda>k. with_string val vlen (\<lambda>v.
             Inr (rsp_setHeader k v (fst d), snd d))))"

fun response_callbacks :: "response_data client_callbacks" where
  "response_callbacks (Cc_field field flen val vlen) d = on_response_http_field field flen val vlen d"
| "response_callbacks (Cc_reason at len) d = on_response_reason at len d"
| "response_callbacks (Cc_status at len) d = on_response_status at len d"
| "response_callbacks (Cc_chunk at len) d = Inr d"
| "response_callbacks (Cc_version at len) d = on_response_version at len d"
| "response_callbacks (Cc_header_done at len) d = Inr d"
| "response_callbacks (Cc_last_chunk at len) d = Inr d"

section \<open>HttpResponseParser\<close>

record HttpResponseParser =
  sp_parser :: httpclient_parser
  sp_data :: HttpResponse
  sp_error :: int

text \<open>\<open>P\<close> is the memory the object is made in.\<close>

definition HttpResponseParser_new :: "httpclient_parser \<Rightarrow> HttpResponseParser" where
  "HttpResponseParser_new P =
     \<lparr>sp_parser = httpclient_parser_init P, sp_data = HttpResponse_new 0x11 True, sp_error = 0\<rparr>"

text \<open>
  The result: how much was parsed, what is left at the front of the memory and what is behind it
  then, the parser. A negative offset is a huge \<open>size_t\<close>, and moving the rest then reads in front
  of the buffer.
\<close>

definition response_execute ::
  "bool \<Rightarrow> string \<Rightarrow> string \<Rightarrow> HttpResponseParser \<Rightarrow> hp_error + (nat \<times> string \<times> string \<times> HttpResponseParser)" where
  "response_execute chunck data tail R =
     (let P = (if chunck then httpclient_parser_init (sp_parser R) else sp_parser R)
      in case httpclient_parser_execute response_callbacks data tail 0 (P, (sp_data R, sp_error R)) of
           Inl e \<Rightarrow> Inl e
         | Inr (offset, P, (r, err)) \<Rightarrow>
             if offset < 0 then Inl Read_outside
             else
               let left = drop (nat offset) data
               in Inr (nat offset, left, drop (length left) (data @ tail),
                       \<lparr>sp_parser = P, sp_data = r, sp_error = err\<rparr>))"

definition response_isFinished :: "HttpResponseParser \<Rightarrow> int" where
  "response_isFinished R = httpclient_parser_finish (sp_parser R)"

definition response_hasError :: "HttpResponseParser \<Rightarrow> bool" where
  "response_hasError R \<longleftrightarrow> sp_error R \<noteq> 0 \<or> httpclient_parser_has_error (sp_parser R)"

definition response_setError :: "int \<Rightarrow> HttpResponseParser \<Rightarrow> HttpResponseParser" where
  "response_setError v R = R\<lparr>sp_error := v\<rparr>"

text \<open>\<open>conv\<close> stands for the conversion of \<open>getHeaderAs<uint64_t>\<close>.\<close>

definition response_getContentLength :: "(string \<Rightarrow> nat option) \<Rightarrow> HttpResponseParser \<Rightarrow> nat" where
  "response_getContentLength conv R = getAs conv (rsp_headers (sp_data R)) ''content-length'' 0"

end
