(* ===== verification/Uri.thy ===== *)
theory Uri
  imports Httpclient_Parser Uri_Machine
begin

text \<open>
  The class \<open>Uri\<close> (\<open>src/uri.h\<close>, \<open>src/uri.cc\<close>): the loop of \<open>Uri::Create\<close> over the automaton of
  \<open>Uri_Machine\<close> with its actions, and the accessors. The pointers \<open>p\<close> and \<open>mark\<close> are offsets into the
  text, \<open>None\<close> the null pointer: \<open>std::string(mark, n)\<close> throws \<open>logic_error\<close> on it, and \<open>atoi\<close>
  dereferences it.
\<close>

section \<open>The class\<close>

record Uri =
  ur_scheme :: string
  ur_userinfo :: string
  ur_host :: string
  ur_path :: string
  ur_query :: string
  ur_fragment :: string
  ur_port :: int

definition Uri_new :: Uri where
  "Uri_new = \<lparr>ur_scheme = [], ur_userinfo = [], ur_host = [], ur_path = [], ur_query = [], ur_fragment = [], ur_port = 0\<rparr>"

definition uri_setScheme :: "string \<Rightarrow> Uri \<Rightarrow> Uri" where "uri_setScheme v u = u\<lparr>ur_scheme := v\<rparr>"
definition uri_setUserinfo :: "string \<Rightarrow> Uri \<Rightarrow> Uri" where "uri_setUserinfo v u = u\<lparr>ur_userinfo := v\<rparr>"
definition uri_setHost :: "string \<Rightarrow> Uri \<Rightarrow> Uri" where "uri_setHost v u = u\<lparr>ur_host := v\<rparr>"
definition uri_setPath :: "string \<Rightarrow> Uri \<Rightarrow> Uri" where "uri_setPath v u = u\<lparr>ur_path := v\<rparr>"
definition uri_setQuery :: "string \<Rightarrow> Uri \<Rightarrow> Uri" where "uri_setQuery v u = u\<lparr>ur_query := v\<rparr>"
definition uri_setFragment :: "string \<Rightarrow> Uri \<Rightarrow> Uri" where "uri_setFragment v u = u\<lparr>ur_fragment := v\<rparr>"
definition uri_setPort :: "int \<Rightarrow> Uri \<Rightarrow> Uri" where "uri_setPort v u = u\<lparr>ur_port := v\<rparr>"

section \<open>Actions\<close>

datatype uri_error = Null_string | Null_number

text \<open>What is done with the string from the mark to \<open>p\<close>.\<close>

definition at_mark :: "string \<Rightarrow> nat \<Rightarrow> nat option \<Rightarrow> (string \<Rightarrow> Uri \<Rightarrow> Uri) \<Rightarrow> Uri \<Rightarrow> uri_error + Uri" where
  "at_mark s p mark f u =
     (case mark of None \<Rightarrow> Inl Null_string | Some m \<Rightarrow> Inr (f (take (p - m) (drop m s)) u))"

definition unmark :: "uri_error + Uri \<Rightarrow> uri_error + (nat option \<times> Uri)" where
  "unmark r = map_sum id (Pair None) r"

fun uri_act :: "string \<Rightarrow> nat \<Rightarrow> uri_act \<Rightarrow> nat option \<times> Uri \<Rightarrow> uri_error + (nat option \<times> Uri)" where
  "uri_act s p U_Mark (mark, u) = Inr (Some p, u)"
| "uri_act s p U_Scheme (mark, u) = unmark (at_mark s p mark uri_setScheme u)"
| "uri_act s p U_Port (mark, u) =
     unmark (if mark \<noteq> Some p
             then (case mark of None \<Rightarrow> Inl Null_number | Some m \<Rightarrow> Inr (uri_setPort (atoi (drop m s)) u))
             else Inr u)"
| "uri_act s p U_Userinfo (mark, u) =
     unmark (if mark \<noteq> None then at_mark s p mark uri_setUserinfo u else Inr u)"
| "uri_act s p U_Host (mark, u) =
     map_sum id (Pair mark) (if mark \<noteq> None then at_mark s p mark uri_setHost u else Inr u)"
| "uri_act s p U_Path (mark, u) = unmark (at_mark s p mark uri_setPath u)"
| "uri_act s p U_Query (mark, u) = unmark (at_mark s p mark uri_setQuery u)"
| "uri_act s p U_Fragment (mark, u) = unmark (at_mark s p mark uri_setFragment u)"

fun uri_acts :: "string \<Rightarrow> nat \<Rightarrow> uri_act list \<Rightarrow> nat option \<times> Uri \<Rightarrow> uri_error + (nat option \<times> Uri)" where
  "uri_acts s p [] x = Inr x"
| "uri_acts s p (a # as) x = (case uri_act s p a x of Inl e \<Rightarrow> Inl e | Inr x \<Rightarrow> uri_acts s p as x)"

section \<open>Parsing\<close>

text \<open>
  From state \<open>cs\<close> with the character at \<open>p\<close> still to be looked at, up to the end of the text, where
  the actions of the state there are run; state 0 leaves without them.
\<close>

function uri_loop :: "string \<Rightarrow> nat \<Rightarrow> nat \<Rightarrow> nat option \<times> Uri \<Rightarrow> uri_error + (nat \<times> Uri)" where
  "uri_loop s p cs x =
     (if length s \<le> p then
        (case uri_acts s p (uri_eof cs) x of Inl e \<Rightarrow> Inl e | Inr (_, u) \<Rightarrow> Inr (cs, u))
      else
        case uri_trans cs (schar (s ! p)) of
          (as, n) \<Rightarrow>
            if n = 0 then Inr (0, snd x)
            else (case uri_acts s p as x of Inl e \<Rightarrow> Inl e | Inr x \<Rightarrow> uri_loop s (Suc p) n x))"
  by pat_completeness auto
termination
  by (relation "measure (\<lambda>(s, p, cs, x). length s - p)") auto

declare uri_loop.simps [simp del]

text \<open>\<open>None\<close> is the null pointer; 451 is the start and the first final state.\<close>

definition Uri_Create :: "string \<Rightarrow> uri_error + Uri option" where
  "Uri_Create uristr =
     (case uri_loop uristr 0 451 (None, Uri_new) of
        Inl e \<Rightarrow> Inl e
      | Inr (cs, u) \<Rightarrow> Inr (if cs = 0 then None else if 451 \<le> cs then Some u else None))"

section \<open>Accessors\<close>

definition uri_isDefaultPort :: "Uri \<Rightarrow> bool" where
  "uri_isDefaultPort u =
     (if ur_port u = 0 then True
      else if ur_scheme u = ''http'' \<or> ur_scheme u = ''ws'' then ur_port u = 80
      else if ur_scheme u = ''https'' \<or> ur_scheme u = ''wss'' then ur_port u = 443
      else False)"

definition uri_getPath :: "Uri \<Rightarrow> string" where
  "uri_getPath u = (if ur_path u = [] then ''/'' else ur_path u)"

definition uri_getPort :: "Uri \<Rightarrow> int" where
  "uri_getPort u =
     (if ur_port u \<noteq> 0 then ur_port u
      else if ur_scheme u = ''http'' \<or> ur_scheme u = ''ws'' then 80
      else if ur_scheme u = ''https'' \<or> ur_scheme u = ''wss'' then 443
      else ur_port u)"

text \<open>\<open>std::to_string\<close> of an \<open>int32_t\<close>.\<close>

definition show_int :: "int \<Rightarrow> string" where
  "show_int n = (if n < 0 then CHR ''-'' # show_nat (nat (- n)) else show_nat (nat n))"

definition uri_toString :: "Uri \<Rightarrow> string" where
  "uri_toString u =
     ur_scheme u @ ''://'' @ ur_userinfo u @ (if ur_userinfo u = [] then [] else ''@'') @ ur_host u
       @ (if uri_isDefaultPort u then [] else '':'' @ show_int (ur_port u)) @ uri_getPath u
       @ (if ur_query u = [] then [] else ''?'') @ ur_query u
       @ (if ur_fragment u = [] then [] else ''#'') @ ur_fragment u"

end
