(* ===== verification/Http11_Safety.thy ===== *)
theory Http11_Safety
  imports Http11_Parser
begin

text \<open>
  The request parser on arbitrary bytes: every step of the automaton is one of a few lists of
  actions, header names are complete before their value is reported, and marks lie before the
  current character. So feeding any bytes to the parser never trips an assertion, never reads
  outside the buffer and never builds an impossible string, unless the call continues in the
  middle of a query, whose start is an offset into the previous buffer.
\<close>

section \<open>What the steps of the automaton look like\<close>

text \<open>States inside a header name, and inside a query.\<close>

definition name_state :: "nat \<Rightarrow> bool" where
  "name_state n \<longleftrightarrow> n = 14 \<or> n = 18 \<or> n = 348"

definition query_state :: "nat \<Rightarrow> bool" where
  "query_state n \<longleftrightarrow> 30 \<le> n \<and> n \<le> 32"

text \<open>The lists of actions that may run anywhere, and those that belong to names and queries.\<close>

definition plain_acts :: "http_act list list" where
  "plain_acts =
     [[], [Mark], [Request_method], [Mark, Request_path, Request_uri], [Request_path, Request_uri],
      [Mark, Fragment], [Fragment], [Http_version],
      [Mark, Request_path], [Request_path], [Done 348], [Xml, Done 349], [Json, Done 349]]"

fun step_ok :: "nat \<Rightarrow> http_target \<Rightarrow> bool" where
  "step_ok cs (as, n) \<longleftrightarrow>
     n = 0 \<or>
     as \<in> set plain_acts \<and> (query_state n \<longrightarrow> query_state cs) \<and> (name_state cs \<longrightarrow> name_state n) \<or>
     as = [Start_query] \<and> \<not> name_state cs \<or>
     as = [Start_query, Query_string, Request_uri] \<and> \<not> query_state n \<and> \<not> name_state cs \<or>
     as = [Query_string, Request_uri] \<and> query_state cs \<and> \<not> query_state n \<and> \<not> name_state cs \<or>
     as \<in> {[Start_field], [Start_field, Done 348]} \<and> name_state n \<and> \<not> query_state n \<or>
     as = [Write_field] \<and> name_state cs \<and> \<not> query_state n \<or>
     as \<in> {[Mark, Write_value], [Write_value]} \<and> \<not> name_state cs \<and> \<not> query_state n"

fun table_ok :: "nat \<Rightarrow> (bool \<Rightarrow> int \<Rightarrow> http_target) list \<Rightarrow> bool" where
  "table_ok k [] \<longleftrightarrow> True"
| "table_ok k (f # fs) \<longleftrightarrow> (\<forall>r c. step_ok k (f r c)) \<and> table_ok (Suc k) fs"

lemma table_ok_append: "table_ok k (fs @ gs) \<longleftrightarrow> table_ok k fs \<and> table_ok (k + length fs) gs"
  by (induction k fs rule: table_ok.induct) auto

lemma table_ok_nth: "table_ok k fs \<Longrightarrow> i < length fs \<Longrightarrow> step_ok (k + i) ((fs ! i) r c)"
proof (induction k fs arbitrary: i rule: table_ok.induct)
  case (2 k f fs)
  then show ?case by (cases i) (fastforce simp: nth_Cons')+
qed simp

lemma goto_ok:
  "n = 0 \<or> (query_state n \<longrightarrow> query_state cs) \<and> (name_state cs \<longrightarrow> name_state n) \<Longrightarrow>
   step_ok cs (goto_st n)"
  by (auto simp: goto_st_def plain_acts_def)

lemma step_ok_if: "step_ok k x \<Longrightarrow> step_ok k y \<Longrightarrow> step_ok k (if b then x else y)"
  by simp

lemma step_ok_Let: "(\<And>w. step_ok k (f w)) \<Longrightarrow> step_ok k (Let e f)"
  by (simp add: Let_def)

lemmas step_ok_rules = http_st_defs http_tr_defs goto_ok step_ok_if step_ok_Let
  name_state_def query_state_def plain_acts_def

lemma states_ok_1: "table_ok 1 http_states_1"
  by (simp add: http_states_1_def step_ok_rules cong: if_weak_cong del: if_split)

lemma states_ok_2: "table_ok 101 http_states_2"
  by (simp add: http_states_2_def step_ok_rules cong: if_weak_cong del: if_split)

lemma states_ok_3: "table_ok 201 http_states_3"
  by (simp add: http_states_3_def step_ok_rules cong: if_weak_cong del: if_split)

lemma states_ok_4: "table_ok 301 http_states_4"
  by (simp add: http_states_4_def step_ok_rules cong: if_weak_cong del: if_split)

lemma length_http_states:
  "length http_states_1 = 100" "length http_states_2 = 100" "length http_states_3 = 100"
  "length http_states = 349"
  by (simp_all add: http_states_def http_states_1_def http_states_2_def http_states_3_def
      http_states_4_def)

lemma table_ok_states: "table_ok 1 http_states"
  unfolding http_states_def table_ok_append length_http_states
  using states_ok_1 states_ok_2 states_ok_3 states_ok_4 by (simp del: table_ok.simps One_nat_def)

lemma step_ok_trans: "step_ok cs (http_trans cs r c)"
proof (cases "cs = 0 \<or> 349 < cs")
  case False
  then have "cs - 1 < length http_states" "1 + (cs - 1) = cs"
    by (auto simp: length_http_states)
  then have "step_ok cs ((http_states ! (cs - 1)) r c)"
    using table_ok_nth [OF table_ok_states, of "cs - 1" r c] by simp
  then show ?thesis using False by (simp add: http_trans_def length_http_states)
qed (simp add: http_trans_def length_http_states goto_st_def)

section \<open>Marks\<close>

text \<open>
  Where the marks are when the character at \<open>p\<close> is to be looked at in state \<open>cs\<close>. \<open>n\<close> is the
  length of the buffer.
\<close>

definition marks_ok :: "nat \<Rightarrow> nat \<Rightarrow> nat \<Rightarrow> http_parser \<Rightarrow> bool" where
  "marks_ok n p cs P \<longleftrightarrow>
     p \<le> n \<and> hp_mark P \<le> p \<and> hp_mark P < n \<and> hp_field_start P \<le> p \<and> hp_field_start P < n \<and>
     hp_field_len P \<le> p \<and> (\<not> name_state cs \<longrightarrow> hp_field_start P + hp_field_len P \<le> p) \<and>
     (query_state cs \<longrightarrow> hp_query_start P \<le> p) \<and> hp_body_start P \<le> n"

lemma with_string_fits:
  "len \<le> length at \<Longrightarrow> length at < 2 ^ 63 \<Longrightarrow> with_string at len f = f (take len at)"
  by (simp add: with_string_def std_string_def)

text \<open>The callbacks succeed on text that is in the buffer.\<close>

fun call_fits :: "hp_call \<Rightarrow> bool" where
  "call_fits (Call_method at len) \<longleftrightarrow> len \<le> length at \<and> length at < 2 ^ 63"
| "call_fits (Call_uri at len) \<longleftrightarrow> True"
| "call_fits (Call_fragment at len) \<longleftrightarrow> len \<le> length at \<and> length at < 2 ^ 63"
| "call_fits (Call_path at len) \<longleftrightarrow> len \<le> length at \<and> length at < 2 ^ 63"
| "call_fits (Call_query at len) \<longleftrightarrow> len \<le> length at \<and> length at < 2 ^ 63"
| "call_fits (Call_version at len) \<longleftrightarrow> len \<le> length at \<and> length at < 2 ^ 63"
| "call_fits (Call_header_done at len) \<longleftrightarrow> True"
| "call_fits (Call_field field flen val vlen) \<longleftrightarrow>
     flen \<le> length field \<and> length field < 2 ^ 63 \<and> vlen \<le> length val \<and> length val < 2 ^ 63"

lemma call_fits_ok: "call_fits c \<Longrightarrow> \<exists>d'. request_callbacks c d = Inr d'"
  by (cases c)
    (auto simp: with_string_fits on_request_method_def on_request_fragment_def on_request_path_def
      on_request_query_def on_request_version_def on_request_http_field_def Let_def)

text \<open>Actions that change no field or query marks.\<close>

fun plain_act :: "http_act \<Rightarrow> bool" where
  "plain_act Start_field = False"
| "plain_act Start_query = False"
| "plain_act Write_field = False"
| "plain_act Write_value = False"
| "plain_act Query_string = False"
| "plain_act a = True"

definition keeps :: "nat \<Rightarrow> nat \<Rightarrow> http_parser \<Rightarrow> http_parser \<Rightarrow> bool" where
  "keeps n p P P' \<longleftrightarrow>
     hp_mark P' \<le> p \<and> hp_body_start P' \<le> n \<and> hp_cs P' = hp_cs P \<and> hp_nread P' = hp_nread P \<and>
     hp_field_start P' = hp_field_start P \<and> hp_field_len P' = hp_field_len P \<and>
     hp_query_start P' = hp_query_start P"

lemma with_data_ok: "call_fits c \<Longrightarrow> \<exists>d'. with_data P (request_callbacks c d) = Inr (P, d')"
  using call_fits_ok [of c d] by (auto simp: with_data_def)

lemma plain_act_ok:
  assumes "plain_act a" "hp_mark P \<le> p" "p < length buf" "hp_body_start P \<le> length buf" "length buf < 2 ^ 63"
  shows "\<exists>P' d'. hp_act request_callbacks buf p a (P, d) = Inr (P', d') \<and> keeps (length buf) p P P' \<and>
    (done_state [a] = None \<longrightarrow> hp_body_start P' = hp_body_start P)"
proof -
  have fits: "length (drop (hp_mark P) buf) < 2 ^ 63" "p - hp_mark P \<le> length (drop (hp_mark P) buf)"
    using assms by auto
  show ?thesis
    using assms fits call_fits_ok [of "Call_method (drop (hp_mark P) buf) (p - hp_mark P)" d]
      call_fits_ok [of "Call_fragment (drop (hp_mark P) buf) (p - hp_mark P)" d]
      call_fits_ok [of "Call_path (drop (hp_mark P) buf) (p - hp_mark P)" d]
      call_fits_ok [of "Call_version (drop (hp_mark P) buf) (p - hp_mark P)" d]
    by (cases a) (auto simp: keeps_def with_data_def LEN_def PTR_TO_def sub64_le)
qed

lemma plain_acts_ok:
  assumes "\<forall>a\<in>set as. plain_act a" "hp_mark P \<le> p" "p < length buf" "hp_body_start P \<le> length buf"
    "length buf < 2 ^ 63"
  shows "\<exists>P' d'. hp_acts request_callbacks buf p as (P, d) = Inr (P', d') \<and> keeps (length buf) p P P' \<and>
    (done_state as = None \<longrightarrow> hp_body_start P' = hp_body_start P)"
  using assms(1,2,4)
proof (induction as arbitrary: P d)
  case Nil
  then show ?case by (simp add: keeps_def)
next
  case (Cons a as)
  obtain P1 d1 where 1: "hp_act request_callbacks buf p a (P, d) = Inr (P1, d1)"
    "keeps (length buf) p P P1" "done_state [a] = None \<Longrightarrow> hp_body_start P1 = hp_body_start P"
    using plain_act_ok [of a P p buf d] Cons.prems assms by auto
  then have "hp_mark P1 \<le> p" "hp_body_start P1 \<le> length buf" by (simp_all add: keeps_def)
  then obtain P2 d2 where 2: "hp_acts request_callbacks buf p as (P1, d1) = Inr (P2, d2)"
    "keeps (length buf) p P1 P2" "done_state as = None \<Longrightarrow> hp_body_start P2 = hp_body_start P1"
    using Cons.IH [of P1 d1] Cons.prems(1) by auto
  have "done_state (a # as) = None \<Longrightarrow> done_state [a] = None \<and> done_state as = None"
    by (cases a) auto
  then show ?case using 1 2 by (auto simp: keeps_def)
qed

lemma plain_acts_plain: "as \<in> set plain_acts \<Longrightarrow> \<forall>a\<in>set as. plain_act a"
  by (auto simp: plain_acts_def)

text \<open>One step: the actions succeed and the marks stay in order.\<close>

definition step_result ::
  "nat \<Rightarrow> nat \<Rightarrow> nat \<Rightarrow> http_act list \<Rightarrow> http_parser \<Rightarrow> hp_error + (http_parser \<times> request_data) \<Rightarrow> bool" where
  "step_result n p cs as P r \<longleftrightarrow>
     (\<exists>P' d'. r = Inr (P', d') \<and> marks_ok n (p + 1) cs P' \<and> hp_cs P' = hp_cs P \<and> hp_nread P' = hp_nread P \<and>
        (done_state as = None \<longrightarrow> hp_body_start P' = hp_body_start P))"

lemmas marks_defs = marks_ok_def step_result_def PTR_TO_def LEN_def sub64_le with_data_def

lemma query_acts_ok:
  assumes "marks_ok (length buf) p cs P" "p < length buf" "length buf < 2 ^ 63" "hp_query_start P \<le> p"
    "\<not> query_state n'" "\<not> name_state cs"
  shows "step_result (length buf) p n' [Query_string, Request_uri] P
    (hp_acts request_callbacks buf p [Query_string, Request_uri] (P, d))"
proof -
  have "call_fits (Call_query (drop (hp_query_start P) buf) (p - hp_query_start P))"
    using assms by (auto simp: diff_le_mono)
  from call_fits_ok [OF this, of d] obtain d'
    where "on_request_query (drop (hp_query_start P) buf) (p - hp_query_start P) d = Inr d'" by auto
  then show ?thesis using assms by (cases d') (auto simp: marks_defs)
qed

lemma value_acts_ok:
  assumes "marks_ok (length buf) p cs P" "p < length buf" "length buf < 2 ^ 63"
    "\<not> query_state n'" "\<not> name_state cs"
  shows "step_result (length buf) p n' [Write_value] P (hp_acts request_callbacks buf p [Write_value] (P, d))"
proof -
  have "call_fits (Call_field (drop (hp_field_start P) buf) (hp_field_len P)
      (drop (hp_mark P) buf) (p - hp_mark P))"
    using assms by (auto simp: marks_ok_def)
  from call_fits_ok [OF this, of d] obtain d'
    where "on_request_http_field (drop (hp_field_start P) buf) (hp_field_len P)
      (drop (hp_mark P) buf) (p - hp_mark P) d = Inr d'" by auto
  then show ?thesis using assms by (cases d') (auto simp: marks_defs)
qed

lemma hp_acts_ok:
  assumes "step_ok cs (as, n')" "n' \<noteq> 0" "marks_ok (length buf) p cs P" "p < length buf" "length buf < 2 ^ 63"
  shows "step_result (length buf) p n' as P (hp_acts request_callbacks buf p as (P, d))"
proof -
  consider "as \<in> set plain_acts" "query_state n' \<longrightarrow> query_state cs" "name_state cs \<longrightarrow> name_state n'"
    | "as = [Start_query]" "\<not> name_state cs"
    | "as = [Start_query, Query_string, Request_uri]" "\<not> query_state n'" "\<not> name_state cs"
    | "as = [Query_string, Request_uri]" "query_state cs" "\<not> query_state n'" "\<not> name_state cs"
    | "as \<in> {[Start_field], [Start_field, Done 348]}" "name_state n'" "\<not> query_state n'"
    | "as = [Write_field]" "name_state cs" "\<not> query_state n'"
    | "as = [Mark, Write_value]" "\<not> name_state cs" "\<not> query_state n'"
    | "as = [Write_value]" "\<not> name_state cs" "\<not> query_state n'"
    using assms(1,2) by auto
  then show ?thesis
  proof cases
    case 1
    then show ?thesis
      using plain_acts_ok [OF plain_acts_plain, of as P p buf d] assms
      by (fastforce simp: marks_ok_def step_result_def keeps_def)
  next
    case 3
    then show ?thesis
      using query_acts_ok [of buf p cs "P\<lparr>hp_query_start := p\<rparr>" n' d] assms
      by (simp add: marks_ok_def step_result_def)
  next
    case 4
    then show ?thesis using query_acts_ok [of buf p cs P n' d] assms by (simp add: marks_ok_def)
  next
    case 7
    then show ?thesis
      using value_acts_ok [of buf p cs "P\<lparr>hp_mark := p\<rparr>" n' d] assms
      by (simp add: marks_ok_def step_result_def)
  next
    case 8
    then show ?thesis using value_acts_ok assms by simp
  next
    case 5
    then show ?thesis using assms
      by (cases "hp_xml_sent P \<or> hp_json_sent P") (auto simp: marks_defs)
  qed (use assms in \<open>auto simp: marks_defs\<close>)
qed

text \<open>The loop.\<close>

definition loop_result ::
  "nat \<Rightarrow> nat \<Rightarrow> http_parser \<Rightarrow> hp_error + (nat \<times> nat \<times> http_parser \<times> request_data) \<Rightarrow> bool" where
  "loop_result n p P r \<longleftrightarrow>
     (\<exists>cs' p' P' d'. r = Inr (cs', p', P', d') \<and> p \<le> p' \<and> p' \<le> n \<and> marks_ok n p' 348 P' \<and>
        hp_cs P' = hp_cs P \<and> hp_nread P' = hp_nread P \<and> (cs' < 348 \<longrightarrow> hp_body_start P' = hp_body_start P))"

lemma done_final: "step_ok cs (as, n) \<Longrightarrow> n \<noteq> 0 \<Longrightarrow> done_state as = Some k \<Longrightarrow> 348 \<le> k"
  by (auto simp: plain_acts_def)

lemma marks_ok_le: "marks_ok n p cs P \<Longrightarrow> p \<le> n"
  by (simp add: marks_ok_def)

lemma marks_ok_348: "marks_ok n p cs P \<Longrightarrow> marks_ok n p 348 P"
  by (simp add: marks_ok_def name_state_def query_state_def)

lemma hp_loop_ok:
  assumes "marks_ok (length buf) p cs P" "length buf < 2 ^ 63"
  shows "loop_result (length buf) p P (hp_loop request_callbacks buf p cs (P, d))"
  using assms(1)
proof (induction "length buf - p" arbitrary: p cs P d rule: less_induct)
  case less
  show ?case
  proof (cases "length buf \<le> p")
    case True
    then show ?thesis using marks_ok_348 [OF less.prems] marks_ok_le [OF less.prems]
      by (subst hp_loop.simps) (simp add: loop_result_def)
  next
    case False
    obtain as n where t: "http_trans cs (hp_uri_relaxed P) (schar (buf ! p)) = (as, n)"
      by (cases "http_trans cs (hp_uri_relaxed P) (schar (buf ! p))")
    show ?thesis
    proof (cases "n = 0")
      case True
      then show ?thesis using marks_ok_348 [OF less.prems] marks_ok_le [OF less.prems] t False
        by (subst hp_loop.simps) (simp add: loop_result_def)
    next
      case n: False
      have ok: "step_ok cs (as, n)" using step_ok_trans t by metis
      have "step_result (length buf) p n as P (hp_acts request_callbacks buf p as (P, d))"
        using hp_acts_ok [OF ok n less.prems] False assms(2) by simp
      then obtain P1 d1 where 1: "hp_acts request_callbacks buf p as (P, d) = Inr (P1, d1)"
        "marks_ok (length buf) (p + 1) n P1" "hp_cs P1 = hp_cs P" "hp_nread P1 = hp_nread P"
        "done_state as = None \<Longrightarrow> hp_body_start P1 = hp_body_start P"
        by (auto simp: step_result_def)
      show ?thesis
      proof (cases "done_state as")
        case None
        then have "hp_loop request_callbacks buf p cs (P, d) = hp_loop request_callbacks buf (p + 1) n (P1, d1)"
          using t False n 1 by (subst hp_loop.simps) simp
        moreover have "loop_result (length buf) (p + 1) P1 (hp_loop request_callbacks buf (p + 1) n (P1, d1))"
          by (rule less.hyps) (use False 1 in auto)
        ultimately show ?thesis using 1(3,4) 1(5) [OF None] by (auto simp: loop_result_def)
      next
        case (Some k)
        then show ?thesis
          using t False n 1 done_final [OF ok n Some] marks_ok_348 [OF 1(2)] marks_ok_le [OF 1(2)]
          by (subst hp_loop.simps) (simp add: loop_result_def)
      qed
    qed
  qed
qed

text \<open>A parser between two calls, with its request not finished and not in the middle of a query.\<close>

definition between_calls :: "HttpRequestParser \<Rightarrow> bool" where
  "between_calls R \<longleftrightarrow> \<not> query_state (hp_cs (rp_parser R)) \<and> hp_body_start (rp_parser R) = 0"

text \<open>
  C16. The request parser is safe on arbitrary bytes: a call of \<open>execute\<close> on a parser that is new or
  was left anywhere but in the middle of a query returns whatever the buffer holds; it trips no
  assertion, no callback reads outside the buffer or builds an impossible string, it reports no
  more than there is, keeps what it did not parse, and while the request is not finished (and
  there is no error) only a query that was cut off stands in the way of calling it again.
\<close>

theorem request_parser_safe:
  assumes "between_calls R" and "length data < 2 ^ 63"
  shows "\<exists>n R'. request_execute R data = Inr (n, drop n data, R') \<and> n \<le> length data \<and>
    (request_isFinished R' = 0 \<longrightarrow> between_calls R' \<or> query_state (hp_cs (rp_parser R')))"
proof (cases "data = []")
  case True
  then show ?thesis using assms
    by (auto simp: request_execute_def http_parser_execute_def between_calls_def)
next
  case False
  let ?P = "(rp_parser R)\<lparr>hp_nread := 0, hp_mark := 0, hp_field_len := 0, hp_field_start := 0\<rparr>"
  let ?d = "(rp_data R, rp_error R)"
  have m: "marks_ok (length data) 0 (hp_cs ?P) ?P"
    using assms False by (simp add: marks_ok_def between_calls_def)
  then have "loop_result (length data) 0 ?P
      (if hp_cs ?P = 0 then Inr (2, 0, ?P, ?d) else hp_loop request_callbacks data 0 (hp_cs ?P) (?P, ?d))"
    using hp_loop_ok [OF m assms(2)] marks_ok_348 [OF m] by (auto simp: loop_result_def)
  then obtain cs' p' P' d' where r:
    "(if hp_cs ?P = 0 then Inr (2, 0, ?P, ?d) else hp_loop request_callbacks data 0 (hp_cs ?P) (?P, ?d))
      = Inr (cs', p', P', d')"
    "p' \<le> length data" "marks_ok (length data) p' 348 P'" "hp_cs P' = hp_cs ?P" "hp_nread P' = hp_nread ?P"
    "cs' < 348 \<Longrightarrow> hp_body_start P' = hp_body_start ?P"
    by (auto simp: loop_result_def)
  let ?Q = "(if hp_cs P' = 0 then P' else P'\<lparr>hp_cs := cs'\<rparr>)\<lparr>hp_nread := p'\<rparr>"
  let ?R = "\<lparr>rp_parser = ?Q, rp_data = fst d', rp_error = snd d'\<rparr>"
  have "request_execute R data = Inr (p', drop p' data, ?R)"
    using r False
    by (cases d') (auto simp: request_execute_def http_parser_execute_def Let_def hp_check_def
        marks_ok_def http_parser_has_error_def)
  moreover have "request_isFinished ?R = 0 \<Longrightarrow> between_calls ?R \<or> query_state (hp_cs (rp_parser ?R))"
    using r assms(1)
    by (auto simp: request_isFinished_def http_parser_finish_def http_parser_is_finished_def
        http_parser_has_error_def between_calls_def split: if_splits)
  ultimately show ?thesis using r(2) by blast
qed

text \<open>Memory that happens to hold zeros.\<close>

definition zero_parser :: http_parser where
  "zero_parser = \<lparr>hp_cs = 0, hp_body_start = 0, hp_content_len = 0, hp_nread = 0, hp_mark = 0,
     hp_field_start = 0, hp_field_len = 0, hp_query_start = 0, hp_xml_sent = False,
     hp_json_sent = False, hp_uri_relaxed = False\<rparr>"

lemma request_parser_safe_witness:
  "\<exists>n R'. request_execute (HttpRequestParser_new zero_parser) ''GET / HT'' = Inr (n, drop n ''GET / HT'', R') \<and> n \<le> 8"
proof -
  have "between_calls (HttpRequestParser_new zero_parser)" by code_simp
  from request_parser_safe [OF this, of "''GET / HT''"] show ?thesis by auto
qed

end
