(* ===== verification/Http_Props.thy ===== *)
theory Http_Props
  imports Http "HOL-Library.Sublist"
begin

text \<open>
  What the HTTP message objects promise: method names are read back, headers behave as a map
  whose keys ignore case, parameters and cookies written with percent encoding are read back
  by the lazy parser, and a written response can be split again into its lines and its body.
\<close>

section \<open>Method names\<close>

definition table_ok :: bool where
  "table_ok \<longleftrightarrow>
     list_all (\<lambda>(n, m, s). HttpMethodToString m = s \<and> m \<noteq> INVALID_METHOD
        \<and> StringToHttpMethod s = m \<and> c_str s = s
        \<and> list_all (\<lambda>(n', m', s'). take (length s') s = s' \<longrightarrow> m' = m) HTTP_METHOD_MAP) HTTP_METHOD_MAP"

lemma table_ok: "table_ok"
  by code_simp

lemma table_entry:
  assumes "(n, m, s) \<in> set HTTP_METHOD_MAP"
  shows "HttpMethodToString m = s" "m \<noteq> INVALID_METHOD" "StringToHttpMethod s = m" "c_str s = s"
    and "(n', m', s') \<in> set HTTP_METHOD_MAP \<Longrightarrow> prefix s' s \<Longrightarrow> m' = m"
proof -
  have 1: "HttpMethodToString m = s \<and> m \<noteq> INVALID_METHOD \<and> StringToHttpMethod s = m \<and> c_str s = s
      \<and> list_all (\<lambda>(n', m', s'). take (length s') s = s' \<longrightarrow> m' = m) HTTP_METHOD_MAP"
    using table_ok assms by (auto simp: table_ok_def list_all_iff)
  then show "HttpMethodToString m = s" "m \<noteq> INVALID_METHOD" "StringToHttpMethod s = m" "c_str s = s"
    by simp_all
  show "m' = m" if "(n', m', s') \<in> set HTTP_METHOD_MAP" "prefix s' s"
    using 1 that by (auto simp: list_all_iff prefix_def)
qed

lemma method_in_table:
  assumes "m \<noteq> INVALID_METHOD"
  obtains n s where "(n, m, s) \<in> set HTTP_METHOD_MAP"
  using assms that by (cases m) (fastforce simp: HTTP_METHOD_MAP_def)+

lemma find_entry:
  "find P HTTP_METHOD_MAP = Some e \<Longrightarrow> e \<in> set HTTP_METHOD_MAP \<and> P e"
  "find P HTTP_METHOD_MAP = None \<Longrightarrow> e \<in> set HTTP_METHOD_MAP \<Longrightarrow> \<not> P e"
proof -
  show "find P HTTP_METHOD_MAP = Some e \<Longrightarrow> e \<in> set HTTP_METHOD_MAP \<and> P e"
    by (metis find_Some_iff nth_mem)
  show "find P HTTP_METHOD_MAP = None \<Longrightarrow> e \<in> set HTTP_METHOD_MAP \<Longrightarrow> \<not> P e"
    by (metis find_None_iff)
qed

lemma StringToHttpMethod_iff:
  assumes "m \<noteq> INVALID_METHOD"
  shows "StringToHttpMethod s = m \<longleftrightarrow> c_str s = HttpMethodToString m"
proof
  assume "StringToHttpMethod s = m"
  then obtain n t where "find (\<lambda>(n, m', t). t = c_str s) HTTP_METHOD_MAP = Some (n, m, t)"
    using assms by (auto simp: StringToHttpMethod_def split: option.splits)
  then have "(n, m, t) \<in> set HTTP_METHOD_MAP" "t = c_str s" using find_entry(1) by fastforce+
  then show "c_str s = HttpMethodToString m" using table_entry(1) by simp
next
  assume *: "c_str s = HttpMethodToString m"
  obtain n t where e: "(n, m, t) \<in> set HTTP_METHOD_MAP" using method_in_table assms by blast
  then have "c_str s = c_str t" using * table_entry(1,4) by simp
  then have "StringToHttpMethod s = StringToHttpMethod t" by (simp add: StringToHttpMethod_def)
  then show "StringToHttpMethod s = m" using table_entry(3) [OF e] by simp
qed

lemma CharsToHttpMethod_iff:
  assumes "m \<noteq> INVALID_METHOD"
  shows "CharsToHttpMethod s = m \<longleftrightarrow> prefix (HttpMethodToString m) s"
proof
  assume "CharsToHttpMethod s = m"
  then obtain n t where "find (\<lambda>(n, m', t). take (length t) s = t) HTTP_METHOD_MAP = Some (n, m, t)"
    using assms by (auto simp: CharsToHttpMethod_def split: option.splits)
  then have "(n, m, t) \<in> set HTTP_METHOD_MAP" "take (length t) s = t" using find_entry(1) by fastforce+
  then show "prefix (HttpMethodToString m) s" using table_entry(1) take_is_prefix by metis
next
  assume p: "prefix (HttpMethodToString m) s"
  obtain n t where e: "(n, m, t) \<in> set HTTP_METHOD_MAP" using method_in_table assms by blast
  then have t: "prefix t s" using p table_entry(1) by simp
  then have "take (length t) s = t" by (auto simp: prefix_def)
  then obtain n' m' t' where f: "find (\<lambda>(n, m', t). take (length t) s = t) HTTP_METHOD_MAP = Some (n', m', t')"
    using find_entry(2) [OF _ e] by (cases "find (\<lambda>(n, m', t). take (length t) s = t) HTTP_METHOD_MAP") fastforce+
  then have e': "(n', m', t') \<in> set HTTP_METHOD_MAP" and "take (length t') s = t'"
    using find_entry(1) by fastforce+
  then have "prefix t' s" using take_is_prefix by metis
  then have "m' = m"
    using t prefix_same_cases table_entry(5) [OF e e'] table_entry(5) [OF e' e] by blast
  then show "CharsToHttpMethod s = m" using f by (simp add: CharsToHttpMethod_def)
qed

text \<open>
  Method names: a text is read as a method exactly when it is the name the method is printed
  with (so printing and reading are inverse), while the parser's reader, which gets a pointer
  into the request, takes the method whose name the text starts with: there is at most one, and
  whatever follows the name, \<open>GETX\<close> included, is not looked at.
\<close>

theorem method_names:
  assumes "m \<noteq> INVALID_METHOD"
  shows "(StringToHttpMethod s = m \<longleftrightarrow> c_str s = HttpMethodToString m) \<and>
         StringToHttpMethod (HttpMethodToString m) = m \<and>
         (CharsToHttpMethod s = m \<longleftrightarrow> (\<exists>rest. s = HttpMethodToString m @ rest))"
proof -
  obtain n t where e: "(n, m, t) \<in> set HTTP_METHOD_MAP" using method_in_table assms by blast
  show ?thesis
    using StringToHttpMethod_iff [OF assms] CharsToHttpMethod_iff [OF assms] table_entry(1,3) [OF e]
    by (auto simp: prefix_def)
qed

theorem method_names_witness:
  "CharsToHttpMethod ''GETX / HTTP/1.1'' = GET \<and> StringToHttpMethod ''GETX'' \<noteq> GET"
proof -
  have *: "GET \<noteq> INVALID_METHOD" "HttpMethodToString GET = ''GET''" by code_simp+
  show ?thesis
    using method_names [OF *(1), of "''GETX / HTTP/1.1''"] method_names [OF *(1), of "''GETX''"] *(2)
    by (simp add: c_str_def)
qed

section \<open>Headers\<close>

text \<open>The changes a program makes to the headers, and the map they amount to.\<close>

datatype header_op = SetHeader string string | DelHeader string

fun header_step :: "header_op \<Rightarrow> HttpRequest \<Rightarrow> HttpRequest" where
  "header_step (SetHeader k v) r = req_setHeader k v r"
| "header_step (DelHeader k) r = req_delHeader k r"

fun header_spec :: "header_op \<Rightarrow> (nat list \<rightharpoonup> string) \<Rightarrow> (nat list \<rightharpoonup> string)" where
  "header_spec (SetHeader k v) M = M(ci_key k \<mapsto> v)"
| "header_spec (DelHeader k) M = M(ci_key k := None)"

lemma header_step_refines:
  assumes "ci.map_ok (req_headers r)"
    and "\<forall>k. map_find CaseInsensitiveLess k (req_headers r) = M (ci_key k)"
  shows "ci.map_ok (req_headers (header_step op r)) \<and>
         (\<forall>k. map_find CaseInsensitiveLess k (req_headers (header_step op r)) = header_spec op M (ci_key k))"
  using assms by (cases op) (auto simp: req_setHeader_def req_delHeader_def same_header)

lemma header_run_refines:
  assumes "ci.map_ok (req_headers r)"
    and "\<forall>k. map_find CaseInsensitiveLess k (req_headers r) = M (ci_key k)"
  shows "ci.map_ok (req_headers (fold header_step ops r)) \<and>
         (\<forall>k. map_find CaseInsensitiveLess k (req_headers (fold header_step ops r)) =
              fold header_spec ops M (ci_key k))"
  using assms
proof (induction ops arbitrary: r M)
  case (Cons op ops)
  note step = header_step_refines [OF Cons.prems, of op]
  show ?case using Cons.IH [OF conjunct1 [OF step] conjunct2 [OF step]] by simp
qed simp

text \<open>
  The headers of a request are a map whose keys ignore case: after any sequence of
  \<open>setHeader\<close> and \<open>delHeader\<close>, \<open>getHeader\<close> answers what was last set under any spelling of the
  key, and the default when nothing was or it was deleted since; \<open>hasHeader\<close> agrees; and the
  headers stay sorted, each key at most once.
\<close>

theorem headers_refine_map:
  "let r = fold header_step ops (HttpRequest_new version close);
       M = fold header_spec ops Map.empty
   in req_hasHeader r key = M (ci_key key) \<and>
      req_getHeader r key d = (case M (ci_key key) of Some v \<Rightarrow> v | None \<Rightarrow> d) \<and>
      sorted_wrt (\<lambda>p q. ci_key (fst p) < ci_key (fst q)) (req_headers r)"
proof -
  let ?r = "HttpRequest_new version close"
  have "ci.map_ok (req_headers ?r)"
    and "\<forall>k. map_find CaseInsensitiveLess k (req_headers ?r) = Map.empty (ci_key k)"
    by (simp_all add: HttpRequest_new_def)
  from header_run_refines [OF this, of ops] show ?thesis
    by (auto simp: Let_def req_hasHeader_def req_getHeader_def map_get_def ci.map_ok_def
        CaseInsensitiveLess_key split: option.splits)
qed

section \<open>Parameters\<close>

text \<open>A parameter list as a client writes it: percent-encoded values, any separator.\<close>

fun render_params :: "char \<Rightarrow> bool \<Rightarrow> (string \<times> string) list \<Rightarrow> string" where
  "render_params flag sp [] = []"
| "render_params flag sp [(k, v)] = k @ ''='' @ UrlEncode v sp"
| "render_params flag sp ((k, v) # p # ps) =
     k @ ''='' @ UrlEncode v sp @ [flag] @ render_params flag sp (p # ps)"

definition param_map :: "(string \<times> string) list \<Rightarrow> MapType \<Rightarrow> MapType" where
  "param_map kvs m = fold (\<lambda>(k, v). map_insert CaseInsensitiveLess (trim_default k) v) kvs m"

lemma index_of_append:
  "index_of c (xs @ ys) =
     (if c \<in> set xs then index_of c xs else map_option (\<lambda>i. length xs + i) (index_of c ys))"
  by (induction xs) (auto simp: map_option_case split: option.splits)

lemma index_of_None: "index_of c xs = None \<longleftrightarrow> c \<notin> set xs"
  by (induction xs) auto

lemma find_char_append:
  "find_char (pre @ xs) c (length pre) = map_option (\<lambda>i. length pre + i) (index_of c xs)"
  by (simp add: find_char_def)

lemma separator_not_encoded:
  "flag \<in> {CHR ''&'', CHR '';''} \<Longrightarrow> flag \<notin> set (UrlEncode v sp)"
proof -
  have "\<not> CHAR_IS_UNRESERVED (CHR ''&'')" "\<not> CHAR_IS_UNRESERVED (CHR '';'')" by code_simp+
  then show "flag \<in> {CHR ''&'', CHR '';''} \<Longrightarrow> flag \<notin> set (UrlEncode v sp)"
    using UrlEncode_chars by blast
qed

lemma decode_encoded: "UrlDecode (UrlEncode v sp) True = v"
  by (simp add: UrlDecode_dec UrlEncode_concat url_dec_enc reread_def [abs_def])

text \<open>One parameter at the end of the text, and one before a separator.\<close>

lemma PARSE_PARAM_last:
  assumes "CHR ''='' \<notin> set k" "flag \<in> {CHR ''&'', CHR '';''}"
  shows "PARSE_PARAM (pre @ k @ CHR ''='' # UrlEncode v sp) flag trim (length pre) m =
         map_insert CaseInsensitiveLess (trim k) v m"
proof -
  let ?s = "pre @ k @ CHR ''='' # UrlEncode v sp"
  have 1: "find_char ?s (CHR ''='') (length pre) = Some (length pre + length k)"
    using assms(1) by (simp add: find_char_append index_of_append index_of_None)
  have 2: "find_char ?s flag (length pre + length k) = None"
    using find_char_append [of "pre @ k" "CHR ''='' # UrlEncode v sp" flag]
      separator_not_encoded [OF assms(2), of v sp] assms(2) by (auto simp: index_of_None)
  show ?thesis
    by (subst PARSE_PARAM.simps) (simp add: 1 2 substr_def decode_encoded add.assoc)
qed

lemma PARSE_PARAM_next:
  assumes "CHR ''='' \<notin> set k" "flag \<in> {CHR ''&'', CHR '';''}"
  shows "PARSE_PARAM (pre @ k @ CHR ''='' # UrlEncode v sp @ flag # rest) flag trim (length pre) m =
         PARSE_PARAM (pre @ k @ CHR ''='' # UrlEncode v sp @ flag # rest) flag trim
           (length (pre @ k @ CHR ''='' # UrlEncode v sp @ [flag]))
           (map_insert CaseInsensitiveLess (trim k) v m)"
proof -
  let ?e = "UrlEncode v sp"
  let ?s = "pre @ k @ CHR ''='' # ?e @ flag # rest"
  have 1: "find_char ?s (CHR ''='') (length pre) = Some (length pre + length k)"
    using assms(1) by (simp add: find_char_append index_of_append index_of_None)
  have "index_of flag (CHR ''='' # ?e @ flag # rest) = Some (Suc (length ?e))"
    using separator_not_encoded [OF assms(2), of v sp] assms(2)
    by (auto simp: index_of_append)
  then have 2: "find_char ?s flag (length pre + length k) = Some (length pre + length k + Suc (length ?e))"
    using find_char_append [of "pre @ k" "CHR ''='' # ?e @ flag # rest" flag] by simp
  show ?thesis
    by (subst PARSE_PARAM.simps) (simp add: 1 2 substr_def decode_encoded add.assoc)
qed

lemma param_map_simps [simp]:
  "param_map [] m = m"
  "param_map ((k, v) # kvs) m =
     param_map kvs (map_insert CaseInsensitiveLess (trim_default k) v m)"
  by (simp_all add: param_map_def)

lemma PARSE_PARAM_render:
  assumes "\<forall>(k, v)\<in>set kvs. CHR ''='' \<notin> set k" "flag \<in> {CHR ''&'', CHR '';''}"
  shows "PARSE_PARAM (pre @ render_params flag sp kvs) flag trim_default (length pre) m = param_map kvs m"
  using assms
proof (induction flag sp kvs arbitrary: pre m rule: render_params.induct)
  case (1 flag sp)
  show ?case by (subst PARSE_PARAM.simps) (simp add: find_char_def)
next
  case (2 flag sp k v)
  then show ?case using PARSE_PARAM_last [of k flag] by simp
next
  case (3 flag sp k v p ps)
  then have k: "CHR ''='' \<notin> set k" by simp
  let ?pre = "pre @ k @ CHR ''='' # UrlEncode v sp @ [flag]"
  have "pre @ render_params flag sp ((k, v) # p # ps) = ?pre @ render_params flag sp (p # ps)"
    by simp
  moreover have "PARSE_PARAM (?pre @ render_params flag sp (p # ps)) flag trim_default (length pre) m =
      PARSE_PARAM (?pre @ render_params flag sp (p # ps)) flag trim_default (length ?pre)
        (map_insert CaseInsensitiveLess (trim_default k) v m)"
    using PARSE_PARAM_next [OF k 3(3), of pre v sp "render_params flag sp (p # ps)"] by simp
  moreover have "PARSE_PARAM (?pre @ render_params flag sp (p # ps)) flag trim_default (length ?pre)
        (map_insert CaseInsensitiveLess (trim_default k) v m) =
      param_map (p # ps) (map_insert CaseInsensitiveLess (trim_default k) v m)"
    by (rule 3(1)) (use 3(2,3) in simp_all)
  ultimately show ?case by simp
qed

text \<open>\<open>insert\<close> keeps what is there: the first occurrence of a name counts.\<close>

lemma find_param_map:
  "map_find CaseInsensitiveLess key (param_map kvs m) =
     (case map_find CaseInsensitiveLess key m of
        Some v \<Rightarrow> Some v
      | None \<Rightarrow> map_option snd (find (\<lambda>(k, v). ci_key (trim_default k) = ci_key key) kvs))"
proof (induction kvs arbitrary: m)
  case Nil
  show ?case by (simp split: option.splits)
next
  case (Cons p kvs)
  obtain k v where p: "p = (k, v)" by (cases p)
  show ?case
  proof (cases "ci_key (trim_default k) = ci_key key")
    case True
    then have "map_find CaseInsensitiveLess (trim_default k) m = map_find CaseInsensitiveLess key m"
      by (intro ci.find_same_key) (simp add: same_header)
    then show ?thesis using True by (simp add: p Cons.IH same_header split: option.splits)
  next
    case False
    then show ?thesis by (auto simp: p Cons.IH same_header split: option.splits)
  qed
qed

lemma no_form: "strcasestr [] ''application/x-www-form-urlencoded'' = None"
  by code_simp

text \<open>
  C14. Parameters and cookies are a round trip: what a client writes into the query (or the
  cookie header) as a list of names and percent-encoded values, \<open>getParam\<close> (\<open>getCookie\<close>)
  gives back, whatever bytes the values hold; names are compared without case and after
  trimming, the first of several equal names counts, and the default is given for others.
\<close>

theorem params_roundtrip:
  assumes "\<forall>(k, v)\<in>set kvs. CHR ''='' \<notin> set k"
  shows "fst (getParam key d (HttpRequest_new version close\<lparr>req_query := render_params (CHR ''&'') sp kvs\<rparr>)) =
           (case find (\<lambda>(k, v). ci_key (trim_default k) = ci_key key) kvs of
              Some (k, v) \<Rightarrow> v | None \<Rightarrow> d) \<and>
         fst (getCookie key d (req_setHeader ''Cookie'' (render_params (CHR '';'') sp kvs)
                (HttpRequest_new version close))) =
           (case find (\<lambda>(k, v). ci_key (trim_default k) = ci_key key) kvs of
              Some (k, v) \<Rightarrow> v | None \<Rightarrow> d)"
proof -
  let ?q = "HttpRequest_new version close\<lparr>req_query := render_params (CHR ''&'') sp kvs\<rparr>"
  let ?c = "req_setHeader ''Cookie'' (render_params (CHR '';'') sp kvs) (HttpRequest_new version close)"
  have q: "PARSE_PARAM (render_params (CHR ''&'') sp kvs) (CHR ''&'') trim_default 0 [] = param_map kvs []"
    using PARSE_PARAM_render [OF assms, of "CHR ''&''" "[]"] by simp
  have c: "PARSE_PARAM (render_params (CHR '';'') sp kvs) (CHR '';'') trim_default 0 [] = param_map kvs []"
    using PARSE_PARAM_render [OF assms, of "CHR '';''" "[]"] by simp
  have "req_params (initBodyParam (initQueryParam ?q)) = param_map kvs []"
    by (simp add: initBodyParam_def initQueryParam_def HttpRequest_new_def q req_getHeader_def
        map_get_def c_str_def no_form)
  moreover have "ci_key ''cookie'' = ci_key ''Cookie''" by code_simp
  then have "req_getHeader ?c ''cookie'' [] = render_params (CHR '';'') sp kvs"
    by (simp add: req_getHeader_def req_setHeader_def map_get_def same_header)
  then have "req_cookies (initCookies ?c) = param_map kvs []"
    using c by (auto simp: initCookies_def Let_def req_setHeader_def HttpRequest_new_def
        PARSE_PARAM.simps find_char_def)
  ultimately show ?thesis
    by (simp add: getParam_def getCookie_def Let_def map_get_def find_param_map
        option.case_eq_if map_option_case split: option.splits prod.splits)
qed

theorem params_roundtrip_witness:
  "fst (getParam ''A'' [] (HttpRequest_new 0x11 True\<lparr>req_query :=
      render_params (CHR ''&'') True [('' a '', ''x &=''), (''a'', ''second'')]\<rparr>)) = ''x &=''"
proof -
  have *: "\<forall>(k, v)\<in>set [('' a '', ''x &=''), (''a'', ''second'')]. CHR ''='' \<notin> set k" by simp
  have k: "ci_key (trim_default '' a '') = ci_key ''A''" by code_simp
  show ?thesis using conjunct1 [OF params_roundtrip [OF *, where key = "''A''" and d = "[]" and version = "0x11"
        and close = True and sp = True]] k
    by simp
qed

lemma flag_tests:
  "(x :: byte) AND 1 = 0 \<longleftrightarrow> \<not> bit x 0" "x AND 2 = 0 \<longleftrightarrow> \<not> bit x 1" "x AND 4 = 0 \<longleftrightarrow> \<not> bit x 2"
  using and_exp_eq_0_iff_not_bit [of x 0] and_exp_eq_0_iff_not_bit [of x 1]
    and_exp_eq_0_iff_not_bit [of x 2] by simp_all

lemma flag_sets:
  "bit ((x :: byte) OR 1) n \<longleftrightarrow> bit x n \<or> n = 0"
  "bit (x OR 2) n \<longleftrightarrow> bit x n \<or> n = 1"
  "bit (x OR 4) n \<longleftrightarrow> bit x n \<or> n = 2"
  using bit_exp_iff [of 0 n, where 'a = byte] bit_exp_iff [of 1 n, where 'a = byte]
    bit_exp_iff [of 2 n, where 'a = byte] by (auto simp: bit_or_iff)

text \<open>\<open>initParam\<close> keeps what the maps hold already.\<close>

lemma PARSE_PARAM_keeps:
  "map_find CaseInsensitiveLess k m = Some v \<Longrightarrow>
   map_find CaseInsensitiveLess k (PARSE_PARAM str flag trim pos m) = Some v"
proof (induction str flag trim pos m rule: PARSE_PARAM.induct)
  case (1 str flag trim pos m)
  have ins: "map_find CaseInsensitiveLess k (map_insert CaseInsensitiveLess k' w m) = Some v" for k' w
  proof (cases "ci.same_key k k'")
    case True
    then show ?thesis using "1.prems" ci.find_same_key [OF True, of m] by simp
  qed (use "1.prems" in simp)
  show ?case
    using "1.IH" "1.prems" ins by (subst PARSE_PARAM.simps) (auto simp: Let_def split: option.splits)
qed

lemma initParams_keep:
  "map_find CaseInsensitiveLess k (req_params r) = Some v \<Longrightarrow>
   map_find CaseInsensitiveLess k (req_params (initBodyParam (initQueryParam r))) = Some v"
  by (simp add: initBodyParam_def initQueryParam_def PARSE_PARAM_keeps)

lemma initCookies_keep:
  "map_find CaseInsensitiveLess k (req_cookies r) = Some v \<Longrightarrow>
   map_find CaseInsensitiveLess k (req_cookies (initCookies r)) = Some v"
  by (simp add: initCookies_def Let_def PARSE_PARAM_keeps)

lemma initParam_flags:
  "bit (req_parserParamFlag (initQueryParam r)) 0"
  "bit (req_parserParamFlag (initBodyParam r)) (Suc 0)"
  "bit (req_parserParamFlag (initCookies r)) 2"
  by (auto simp: initQueryParam_def initBodyParam_def initCookies_def flag_tests flag_sets Let_def)

lemma initParam_flags_kept:
  "bit (req_parserParamFlag r) n \<Longrightarrow> bit (req_parserParamFlag (initQueryParam r)) n"
  "bit (req_parserParamFlag r) n \<Longrightarrow> bit (req_parserParamFlag (initBodyParam r)) n"
  "bit (req_parserParamFlag r) n \<Longrightarrow> bit (req_parserParamFlag (initCookies r)) n"
  by (auto simp: initQueryParam_def initBodyParam_def initCookies_def flag_sets Let_def)

lemma initParam_done:
  "bit (req_parserParamFlag r) 0 \<Longrightarrow> initQueryParam r = r"
  "bit (req_parserParamFlag r) (Suc 0) \<Longrightarrow> initBodyParam r = r"
  "bit (req_parserParamFlag r) 2 \<Longrightarrow> initCookies r = r"
  by (simp_all add: initQueryParam_def initBodyParam_def initCookies_def flag_tests)

lemma initParam_idem: "initParam (initParam r) = initParam r"
  by (simp add: initParam_def initParam_done initParam_flags initParam_flags_kept)

text \<open>
  Lazy parsing happens once and never overrides the program: parsing again changes nothing,
  and a parameter or cookie the program has set is what the getters answer under any spelling
  of its name, whether it was set before the texts were parsed or after.
\<close>

theorem explicit_params_win:
  assumes "ci_key key' = ci_key key"
  shows "initParam (initParam r) = initParam r \<and>
         fst (getParam key' d (req_setParam key v r)) = v \<and>
         fst (getCookie key' d (req_setCookie key v r)) = v"
proof -
  have "map_find CaseInsensitiveLess key' (req_params (req_setParam key v r)) = Some v"
    and "map_find CaseInsensitiveLess key' (req_cookies (req_setCookie key v r)) = Some v"
    using assms by (simp_all add: req_setParam_def req_setCookie_def same_header)
  then show ?thesis
    by (simp add: initParam_idem getParam_def getCookie_def Let_def map_get_def
        initParams_keep initCookies_keep)
qed

theorem explicit_params_win_witness:
  "fst (getParam ''ID'' [] (req_setParam ''id'' ''7''
      (HttpRequest_new 0x11 True\<lparr>req_query := ''id=8''\<rparr>))) = ''7''"
proof -
  have "ci_key ''ID'' = ci_key ''id''" by code_simp
  from explicit_params_win [OF this] show ?thesis by blast
qed

section \<open>The text of a response\<close>

text \<open>A reader of messages: lines up to the first empty one, and what follows it.\<close>

fun read_line :: "string \<Rightarrow> (string \<times> string) option" where
  "read_line [] = None"
| "read_line (c # cs) =
     (if c = CHR 0x0D \<and> cs \<noteq> [] \<and> hd cs = CHR 0x0A then Some ([], tl cs)
      else map_option (\<lambda>(l, rest). (c # l, rest)) (read_line cs))"

lemma read_line_shorter: "read_line s = Some (l, rest) \<Longrightarrow> length rest < length s"
  by (induction s arbitrary: l rest) (auto split: if_splits simp: less_SucI)

function read_head :: "string \<Rightarrow> (string list \<times> string) option" where
  "read_head s =
     (case read_line s of
        None \<Rightarrow> None
      | Some (l, rest) \<Rightarrow>
          if l = [] then Some ([], rest)
          else map_option (\<lambda>(ls, body). (l # ls, body)) (read_head rest))"
  by pat_completeness auto
termination by (relation "measure length") (auto dest: read_line_shorter)

declare read_head.simps [simp del]

lemma read_line_append:
  "CHR 0x0D \<notin> set l \<Longrightarrow> read_line (l @ crlf @ rest) = Some (l, rest)"
  by (induction l) (auto simp: crlf_def)

lemma read_head_lines:
  assumes "\<forall>l\<in>set ls. l \<noteq> [] \<and> CHR 0x0D \<notin> set l"
  shows "read_head (concat (map (\<lambda>l. l @ crlf) ls) @ crlf @ body) = Some (ls, body)"
  using assms
proof (induction ls)
  case Nil
  show ?case
    using read_line_append [of "[]" body] by (subst read_head.simps) simp
next
  case (Cons l ls)
  then show ?case
    using read_line_append [of l "concat (map (\<lambda>l. l @ crlf) ls) @ crlf @ body"]
    by (subst read_head.simps) simp
qed

text \<open>The lines a response consists of.\<close>

definition is_connection :: "string \<Rightarrow> bool" where
  "is_connection k \<longleftrightarrow> ci_key k = ci_key ''connection''"

definition rsp_lines :: "HttpResponse \<Rightarrow> string list" where
  "rsp_lines r =
     [show_version (rsp_version r) @ '' '' @ show_nat (nat (rsp_status r mod 2 ^ 32)) @ '' ''
        @ (if rsp_reason r = [] then HttpStatusToString (rsp_status r) else rsp_reason r)]
     @ map (\<lambda>(k, v). k @ '': '' @ v)
         (filter (\<lambda>(k, v). rsp_websocket r \<or> \<not> is_connection k) (rsp_headers r))
     @ map (\<lambda>c. ''Set-Cookie: '' @ c) (rsp_cookies r)
     @ (if rsp_websocket r then []
        else [''connection: '' @ (if rsp_close r then ''close'' else ''keep-alive'')])
     @ (if rsp_body r = [] then [] else [''content-length: '' @ show_nat (length (rsp_body r))])"

definition req_lines :: "HttpRequest \<Rightarrow> string list" where
  "req_lines r =
     [HttpMethodToString (req_method r) @ '' '' @ req_path r
        @ (if req_query r = [] then [] else ''?'' @ req_query r)
        @ (if req_fragment r = [] then [] else ''#'' @ req_fragment r)
        @ '' '' @ show_version (req_version r)]
     @ (if req_websocket r then []
        else [''connection: '' @ (if req_close r then ''close'' else ''keep-alive'')])
     @ map (\<lambda>(k, v). k @ '': '' @ v)
         (filter (\<lambda>(k, v). req_websocket r \<or> \<not> is_connection k) (req_headers r))
     @ (if req_body r = [] then [] else [''content-length: '' @ show_nat (length (req_body r))])"

lemma strcasecmp_0:
  assumes "\<forall>c\<in>set a \<union> set b. lower_code c > 0"
  shows "strcasecmp a b = 0 \<longleftrightarrow> map lower_code a = map lower_code b"
  using assms by (induction a b rule: strcasecmp.induct) auto

lemma connection_key: "strcasecmp (c_str k) ''connection'' = 0 \<longleftrightarrow> is_connection k"
proof -
  have *: "c_str ''connection'' = ''connection''" by code_simp
  have "\<forall>c\<in>set (c_str k) \<union> set ''connection''. lower_code c > 0"
    using c_str_nonzero [of _ k] c_str_nonzero [of _ "''connection''"] unfolding * by blast
  from strcasecmp_0 [OF this] show ?thesis unfolding is_connection_def ci_key_def * .
qed

lemma header_lines_eq:
  "header_lines ws m = concat (map (\<lambda>l. l @ crlf)
     (map (\<lambda>(k, v). k @ '': '' @ v) (filter (\<lambda>(k, v). ws \<or> \<not> is_connection k) m)))"
  by (induction m) (auto simp: header_lines_def connection_key)

lemma cookie_lines_eq:
  "concat (map (\<lambda>c. ''Set-Cookie: '' @ c @ crlf) cs) =
   concat (map (\<lambda>l. l @ crlf) (map (\<lambda>c. ''Set-Cookie: '' @ c) cs))"
  by (induction cs) auto

lemma rsp_dump_lines:
  "rsp_dump r = concat (map (\<lambda>l. l @ crlf) (rsp_lines r)) @ crlf @ rsp_body r"
  unfolding rsp_dump_def rsp_lines_def header_lines_eq cookie_lines_eq connection_line_def dump_body_def
  by (simp del: map_map)

lemma req_dump_lines:
  "req_dump r = concat (map (\<lambda>l. l @ crlf) (req_lines r)) @ crlf @ req_body r"
  unfolding req_dump_def req_lines_def header_lines_eq connection_line_def dump_body_def
  by (simp del: map_map)

text \<open>The fixed texts hold no carriage return.\<close>

lemma digit_no_cr: "n < 10 \<Longrightarrow> char_of (48 + n) \<noteq> CHR 0x0D" for n :: nat
proof
  assume "n < 10" "char_of (48 + n) = CHR 0x0D"
  then have "of_char (char_of (48 + n) :: char) = (of_char (CHR 0x0D) :: nat)" by simp
  then show False using \<open>n < 10\<close> by simp
qed

lemma show_nat_no_cr: "CHR 0x0D \<notin> set (show_nat n)"
proof (induction n rule: show_nat.induct)
  case (1 n)
  have "n mod 10 < 10" by simp
  then show ?case using 1 digit_no_cr [of n] digit_no_cr [of "n mod 10"]
    by (subst show_nat.simps) (auto simp del: char_of_def)
qed

lemma status_no_cr: "CHR 0x0D \<notin> set (HttpStatusToString s)"
proof -
  have "list_all (\<lambda>(c, t). CHR 0x0D \<notin> set t) HTTP_STATUS_MAP" by code_simp
  then show ?thesis
    by (auto simp: HttpStatusToString_def list_all_iff dest!: map_of_SomeD split: option.splits)
qed

lemma method_no_cr: "CHR 0x0D \<notin> set (HttpMethodToString m)"
proof (cases "m = INVALID_METHOD")
  case True
  have "CHR 0x0D \<notin> set (HttpMethodToString INVALID_METHOD)" by code_simp
  then show ?thesis using True by simp
next
  case False
  then obtain n s where e: "(n, m, s) \<in> set HTTP_METHOD_MAP" by (rule method_in_table)
  have "list_all (\<lambda>(n, m, s). CHR 0x0D \<notin> set s) HTTP_METHOD_MAP" by code_simp
  then show ?thesis using e table_entry(1) [OF e] by (auto simp: list_all_iff)
qed

lemma version_no_cr: "CHR 0x0D \<notin> set (show_version v)"
  by (simp add: show_version_def show_nat_no_cr)

text \<open>
  A written message can be split again: when no carriage return is put into the reason,
  the headers, the cookies (the path, the query and the fragment of a request), reading lines up
  to the first empty one gives the status (request) line, one line per header (a \<open>connection\<close>
  header only on a websocket), the cookies, the computed \<open>connection\<close> line unless it is a
  websocket, and \<open>content-length\<close> with the size of the body when there is one; what follows is
  the body, byte for byte, whatever it holds.
\<close>

theorem message_framing:
  assumes "\<forall>(k, v)\<in>set (rsp_headers r) \<union> set (req_headers q). CHR 0x0D \<notin> set k \<union> set v"
    and "\<forall>c\<in>set (rsp_cookies r). CHR 0x0D \<notin> set c"
    and "CHR 0x0D \<notin> set (rsp_reason r @ req_path q @ req_query q @ req_fragment q)"
  shows "read_head (rsp_dump r) = Some (rsp_lines r, rsp_body r) \<and>
         read_head (req_dump q) = Some (req_lines q, req_body q)"
proof
  have rsp: "(k, v) \<in> set (rsp_headers r) \<Longrightarrow> CHR 0x0D \<notin> set k"
    "(k, v) \<in> set (rsp_headers r) \<Longrightarrow> CHR 0x0D \<notin> set v" for k v
    using assms(1) by fastforce+
  show "read_head (rsp_dump r) = Some (rsp_lines r, rsp_body r)"
    unfolding rsp_dump_lines
    by (rule read_head_lines) (use assms(2,3) in \<open>auto simp: rsp_lines_def version_no_cr
      show_nat_no_cr status_no_cr split: if_splits dest: rsp\<close>)
  have req: "(k, v) \<in> set (req_headers q) \<Longrightarrow> CHR 0x0D \<notin> set k"
    "(k, v) \<in> set (req_headers q) \<Longrightarrow> CHR 0x0D \<notin> set v" for k v
    using assms(1) by fastforce+
  show "read_head (req_dump q) = Some (req_lines q, req_body q)"
    unfolding req_dump_lines
    by (rule read_head_lines) (use assms(3) in \<open>auto simp: req_lines_def version_no_cr
      show_nat_no_cr method_no_cr split: if_splits dest: req\<close>)
qed

theorem message_framing_witness:
  "read_head (rsp_dump (setRedirect ''/a'' (HttpResponse_new 0x11 True))) =
     Some ([''HTTP/1.1 302 Found'', ''Location: /a'', ''connection: close''], [])"
proof -
  let ?r = "setRedirect ''/a'' (HttpResponse_new 0x11 True)"
  have 1: "\<forall>(k, v)\<in>set (rsp_headers ?r) \<union> set (req_headers (HttpRequest_new 0x11 True)).
      CHR 0x0D \<notin> set k \<union> set v"
    by (simp add: setRedirect_def rsp_setHeader_def HttpResponse_new_def HttpRequest_new_def)
  have 2: "\<forall>c\<in>set (rsp_cookies ?r). CHR 0x0D \<notin> set c"
    by (simp add: setRedirect_def rsp_setHeader_def HttpResponse_new_def)
  have 3: "CHR 0x0D \<notin> set (rsp_reason ?r @ req_path (HttpRequest_new 0x11 True) @
      req_query (HttpRequest_new 0x11 True) @ req_fragment (HttpRequest_new 0x11 True))"
    by (simp add: setRedirect_def rsp_setHeader_def HttpResponse_new_def HttpRequest_new_def)
  have "rsp_lines ?r = [''HTTP/1.1 302 Found'', ''Location: /a'', ''connection: close'']"
    "rsp_body ?r = []"
    by code_simp+
  then show ?thesis using conjunct1 [OF message_framing [OF 1 2 3]] by simp
qed

end
