(* ===== verification/Http11_Props.thy ===== *)
theory Http11_Props
  imports Http11_Safety Http_Props
begin

text \<open>
  The request parser on well-formed requests, and what it does to requests that arrive in
  pieces. \<open>runs\<close> relates a point of the parser's loop (position, state, what the callbacks have
  stored) to a later one, whatever the marks are; the pieces of a request are proved one by one
  and put together.
\<close>

section \<open>The table at the states of a request\<close>

lemma http_trans_chunk:
  "0 < k \<Longrightarrow> k \<le> 100 \<Longrightarrow> http_trans k = http_states_1 ! (k - 1)"
  "100 < k \<Longrightarrow> k \<le> 200 \<Longrightarrow> http_trans k = http_states_2 ! (k - 101)"
proof -
  show "0 < k \<Longrightarrow> k \<le> 100 \<Longrightarrow> http_trans k = http_states_1 ! (k - 1)"
    by (intro ext) (auto simp: http_trans_def length_http_states http_states_def nth_append)
  assume k: "100 < k" "k \<le> 200"
  then have "http_states ! (k - 1) = http_states_2 ! (k - 101)"
    by (auto simp: http_states_def nth_append length_http_states)
  then show "http_trans k = http_states_2 ! (k - 101)"
    using k by (intro ext) (simp add: http_trans_def length_http_states)
qed

lemma http_trans_1: "http_trans (Suc 0) = http_st1"
  by (simp add: http_trans_chunk) (simp add: http_states_1_def)

lemma http_trans_at:
  "http_trans 2 = http_st2" "http_trans 3 = http_st3" "http_trans 4 = http_st4"
  "http_trans 5 = http_st5" "http_trans 6 = http_st6" "http_trans 7 = http_st7"
  "http_trans 8 = http_st8" "http_trans 9 = http_st9" "http_trans 10 = http_st10"
  "http_trans 11 = http_st11" "http_trans 12 = http_st12" "http_trans 13 = http_st13"
  "http_trans 14 = http_st14" "http_trans 15 = http_st15" "http_trans 16 = http_st16"
  "http_trans 17 = http_st17" "http_trans 18 = http_st18"
  "http_trans 26 = http_st26" "http_trans 27 = http_st27" "http_trans 28 = http_st28"
  "http_trans 29 = http_st29" "http_trans 30 = http_st30" "http_trans 31 = http_st31"
  "http_trans 32 = http_st32" "http_trans 33 = http_st33"
  "http_trans 175 = http_st175" "http_trans 176 = http_st176" "http_trans 177 = http_st177"
  "http_trans 178 = http_st178" "http_trans 179 = http_st179" "http_trans 180 = http_st180"
  "http_trans 181 = http_st181" "http_trans 182 = http_st182" "http_trans 183 = http_st183"
  "http_trans 184 = http_st184" "http_trans 185 = http_st185" "http_trans 186 = http_st186"
  by (simp_all add: http_trans_chunk) (simp_all add: http_states_1_def http_states_2_def)

lemmas table = http_trans_1 http_trans_at http_st_defs http_tr_defs goto_st_def
  widec_def widen_def Let_def

section \<open>Running the parser\<close>

definition runs ::
  "string \<Rightarrow> nat \<times> nat \<times> request_data \<Rightarrow> nat \<times> nat \<times> request_data \<Rightarrow> bool" where
  "runs buf a b \<longleftrightarrow> (case (a, b) of ((p, cs, d), (p', cs', d')) \<Rightarrow>
     \<forall>P. \<exists>P'. hp_loop request_callbacks buf p cs (P, d) = hp_loop request_callbacks buf p' cs' (P', d'))"

lemma runs_refl: "runs buf a a"
  by (auto simp: runs_def)

lemma runs_trans [trans]: "runs buf a b \<Longrightarrow> runs buf b c \<Longrightarrow> runs buf a c"
  unfolding runs_def by (clarsimp split: prod.splits) metis

text \<open>One step on a character whose actions succeed.\<close>

lemma hp_loop_step:
  assumes "drop p buf = c # rest"
    and "http_trans cs (hp_uri_relaxed P) (schar c) = (as, n)" and "n \<noteq> 0" and "done_state as = None"
    and "hp_acts request_callbacks buf p as (P, d) = Inr s'"
  shows "hp_loop request_callbacks buf p cs (P, d) = hp_loop request_callbacks buf (Suc p) n s'"
proof -
  have "p < length buf" using assms(1) by (metis drop_eq_Nil leI list.distinct(1))
  moreover have "buf ! p = c" using assms(1) by (metis hd_drop_conv_nth calculation list.sel(1))
  ultimately show ?thesis using assms(2-) by (subst hp_loop.simps) simp
qed

lemma runs_step:
  assumes "drop p buf = c # rest"
    and "\<And>r. http_trans cs r (schar c) = (as, n)" and "n \<noteq> 0" and "done_state as = None"
    and "\<And>P. \<exists>P'. hp_acts request_callbacks buf p as (P, d) = Inr (P', d')"
  shows "runs buf (p, cs, d) (Suc p, n, d')"
  unfolding runs_def
proof (clarsimp)
  fix P
  obtain P' where "hp_acts request_callbacks buf p as (P, d) = Inr (P', d')" using assms(5) by blast
  from hp_loop_step [OF assms(1) assms(2) assms(3,4) this]
  show "\<exists>P'. hp_loop request_callbacks buf p cs (P, d) = hp_loop request_callbacks buf (Suc p) n (P', d')"
    by blast
qed

text \<open>A block of characters that changes nothing.\<close>

lemma hp_loop_block:
  assumes "drop p buf = xs @ rest" and "cs \<noteq> 0"
    and "\<And>c r. c \<in> set xs \<Longrightarrow> http_trans cs r (schar c) = ([], cs)"
  shows "hp_loop request_callbacks buf p cs s = hp_loop request_callbacks buf (p + length xs) cs s"
  using assms(1,3)
proof (induction xs arbitrary: p)
  case (Cons x xs)
  have "drop p buf = x # (xs @ rest)" using Cons.prems(1) by simp
  from hp_loop_step [OF this, of cs "fst s" "[]" cs "snd s" s] drop_Suc_eq [OF this]
  show ?case using Cons.IH [of "Suc p"] Cons.prems(2) assms(2) by simp
qed simp

text \<open>URI text: characters of a class, and percent-encoded bytes.\<close>

fun uri_text :: "(char \<Rightarrow> bool) \<Rightarrow> string \<Rightarrow> bool" where
  "uri_text ok [] \<longleftrightarrow> True"
| "uri_text ok (c # cs) \<longleftrightarrow>
     (if c = CHR ''%'' then 2 \<le> length cs \<and> isxdigit (cs ! 0) \<and> isxdigit (cs ! 1) \<and> uri_text ok (drop 2 cs)
      else ok c \<and> uri_text ok cs)"

text \<open>A run over URI text in any automaton that takes percent-encoded bytes in three steps.\<close>

lemma uri_text_run:
  fixes run :: "nat \<Rightarrow> nat \<Rightarrow> 'r"
  assumes "drop p buf = xs @ rest" and "uri_text ok xs"
    and k: "\<And>p c r. drop p buf = c # r \<Longrightarrow> c \<noteq> CHR ''%'' \<Longrightarrow> ok c \<Longrightarrow> run p k = run (Suc p) k"
    and p: "\<And>p r. drop p buf = CHR ''%'' # r \<Longrightarrow> run p k = run (Suc p) k1"
    and x: "\<And>p c r. drop p buf = c # r \<Longrightarrow> isxdigit c \<Longrightarrow> run p k1 = run (Suc p) k2"
      "\<And>p c r. drop p buf = c # r \<Longrightarrow> isxdigit c \<Longrightarrow> run p k2 = run (Suc p) k"
  shows "run p k = run (p + length xs) k"
  using assms(1,2)
proof (induction xs arbitrary: p rule: length_induct)
  case (1 xs)
  show ?case
  proof (cases xs)
    case Nil
    then show ?thesis by simp
  next
    case (Cons c cs)
    have 0: "drop p buf = c # (cs @ rest)" using 1 Cons by simp
    show ?thesis
    proof (cases "c = CHR ''%''")
      case False
      then have "run p k = run (Suc p) k" using k [OF 0] 1 Cons by simp
      also have "\<dots> = run (Suc p + length cs) k"
        using "1.IH" [rule_format, of cs "Suc p"] drop_Suc_eq [OF 0] 1 Cons False by simp
      finally show ?thesis using Cons by simp
    next
      case True
      then have u: "2 \<le> length cs" "isxdigit (cs ! 0)" "isxdigit (cs ! 1)" "uri_text ok (drop 2 cs)"
        using 1(3) Cons by simp_all
      obtain a b cs' where "cs = a # b # cs'"
        using u(1) by (metis Suc_1 Suc_le_length_iff numeral_2_eq_2 one_add_one plus_1_eq_Suc)
      then have cs: "cs = a # b # cs'" "isxdigit a" "isxdigit b" "uri_text ok cs'"
        using u by (simp_all add: numeral_2_eq_2)
      have d1: "drop (Suc p) buf = a # (b # cs' @ rest)" using drop_Suc_eq [OF 0] cs by simp
      have d2: "drop (Suc (Suc p)) buf = b # (cs' @ rest)" using drop_Suc_eq [OF d1] by simp
      have "run p k = run (Suc (Suc (Suc p))) k" using p [of p "cs @ rest"] x(1) [OF d1] x(2) [OF d2] 0 True cs by simp
      also have "\<dots> = run (Suc (Suc (Suc p)) + length cs') k"
        using "1.IH" [rule_format, of cs' "Suc (Suc (Suc p))"] drop_Suc_eq [OF d2] cs Cons by simp
      finally show ?thesis using Cons cs by simp
    qed
  qed
qed

lemma hp_loop_uri_text:
  assumes "drop p buf = xs @ rest" and "uri_text ok xs" and "k \<noteq> 0" "k1 \<noteq> 0" "k2 \<noteq> 0"
    and k: "\<And>c r. c \<noteq> CHR ''%'' \<Longrightarrow> ok c \<Longrightarrow> http_trans k r (schar c) = ([], k)"
    and p: "\<And>r. http_trans k r (schar (CHR ''%'')) = ([], k1)"
    and x: "\<And>c r. isxdigit c \<Longrightarrow> http_trans k1 r (schar c) = ([], k2)"
      "\<And>c r. isxdigit c \<Longrightarrow> http_trans k2 r (schar c) = ([], k)"
  shows "hp_loop request_callbacks buf p k s = hp_loop request_callbacks buf (p + length xs) k s"
proof -
  obtain P d where s: "s = (P, d)" by (cases s)
  note step = hp_loop_step [where s' = "(P, d)" and as = "[]" and P = P and d = d]
  show ?thesis unfolding s
    by (rule uri_text_run [where run = "\<lambda>p k. hp_loop request_callbacks buf p k (P, d)" and ?k1.0 = k1 and ?k2.0 = k2, OF assms(1,2)])
      (erule step; use assms in simp)+
qed

section \<open>The pieces of a request\<close>

text \<open>The characters of a method, a URI, a header name and a header value.\<close>

definition is_upper_digit :: "char \<Rightarrow> bool" where
  "is_upper_digit c \<longleftrightarrow> (let n = schar c in 48 \<le> n \<and> n \<le> 57 \<or> 65 \<le> n \<and> n \<le> 90)"

definition is_pchar :: "char \<Rightarrow> bool" where
  "is_pchar c \<longleftrightarrow> (let n = schar c in n < 0 \<or> n \<in> {33, 95, 126} \<or> 36 \<le> n \<and> n \<le> 59 \<or> n = 61
     \<or> 64 \<le> n \<and> n \<le> 90 \<or> 97 \<le> n \<and> n \<le> 122)"

definition is_qchar :: "char \<Rightarrow> bool" where
  "is_qchar c \<longleftrightarrow> is_pchar c \<or> c = CHR ''?''"

definition is_token_char :: "char \<Rightarrow> bool" where
  "is_token_char c \<longleftrightarrow> (let n = schar c in n \<in> {33, 42, 43, 45, 46, 124, 126} \<or> 35 \<le> n \<and> n \<le> 39
     \<or> 48 \<le> n \<and> n \<le> 57 \<or> 65 \<le> n \<and> n \<le> 90 \<or> 94 \<le> n \<and> n \<le> 122)"

definition is_value :: "string \<Rightarrow> bool" where
  "is_value v \<longleftrightarrow> (\<forall>c\<in>set v. schar c \<notin> {0, 10, 13, 127}) \<and> (v = [] \<or> schar (hd v) \<notin> {9, 32})"

lemma schar_lit: "schar (CHR '' '') = 32" "schar (CHR ''%'') = 37" "schar (CHR ''/'') = 47"
  "schar (CHR ''?'') = 63" "schar (CHR '':'') = 58" "schar (CHR 0x0D) = 13" "schar (CHR 0x0A) = 10"
  "schar (CHR ''H'') = 72" "schar (CHR ''T'') = 84" "schar (CHR ''P'') = 80" "schar (CHR ''1'') = 49"
  "schar (CHR ''.'') = 46" "schar (CHR ''0'') = 48"
  by (simp_all add: schar_def Let_def)

lemma schar_inj: "schar c = schar d \<longleftrightarrow> c = d"
proof -
  have "(of_char c :: int) < 256" for c
    using nat_of_char_less_256 [of c] by (metis of_nat_less_iff of_nat_numeral of_nat_of_char)
  moreover have "(0 :: int) \<le> of_char c" for c
    by (metis of_nat_of_char of_nat_0_le_iff)
  ultimately have "schar c = schar d \<Longrightarrow> (of_char c :: int) = of_char d"
    unfolding schar_def Let_def by (smt (verit) zero_le)
  then show ?thesis by (metis of_char_eq_iff)
qed

text \<open>Method: the states 2, 175, 176, ... count the characters.\<close>

definition method_state :: "nat \<Rightarrow> nat" where
  "method_state j = (if j = 0 then 2 else 174 + j)"

lemma method_state_trans:
  assumes "j \<le> 11"
  shows "is_upper_digit c \<Longrightarrow> http_trans (method_state j) r (schar c) = ([], method_state (Suc j))"
    and "http_trans (method_state j) r 32 = ([Request_method], 3)"
proof -
  have "j \<in> {0, 1, 2, 3, 4, 5, 6, 7, 8, 9, 10, 11}"
    using assms by (simp only: insert_iff empty_iff) presburger
  then show "is_upper_digit c \<Longrightarrow> http_trans (method_state j) r (schar c) = ([], method_state (Suc j))"
    and "http_trans (method_state j) r 32 = ([Request_method], 3)"
    by (auto simp: method_state_def table is_upper_digit_def)
qed

lemma hp_loop_method:
  assumes "drop p buf = xs @ rest" "\<forall>c\<in>set xs. is_upper_digit c" "j + length xs \<le> 12"
  shows "hp_loop request_callbacks buf p (method_state j) s =
    hp_loop request_callbacks buf (p + length xs) (method_state (j + length xs)) s"
  using assms
proof (induction xs arbitrary: p j)
  case (Cons x xs)
  obtain P d where s: "s = (P, d)" by (cases s)
  have d0: "drop p buf = x # (xs @ rest)" using Cons.prems by simp
  have "hp_loop request_callbacks buf p (method_state j) s = hp_loop request_callbacks buf (Suc p) (method_state (Suc j)) s"
    using hp_loop_step [OF d0, of "method_state j" P "[]" "method_state (Suc j)" d "(P, d)"]
      method_state_trans(1) [of j x] Cons.prems s by (simp add: method_state_def)
  then show ?case using Cons.IH [of "Suc p" "Suc j"] Cons.prems drop_Suc_eq [OF d0] by simp
qed simp

lemma runs_method:
  assumes buf: "buf = t @ CHR '' '' # rest" and t: "t \<noteq> []" "\<forall>c\<in>set t. is_upper_digit c" "length t \<le> 11"
    and m: "CharsToHttpMethod buf = m" "m \<noteq> INVALID_METHOD"
  shows "runs buf (0, 1, d) (length t + 1, 3, ((fst d)\<lparr>req_method := m\<rparr>, snd d))"
proof -
  obtain c t' where ct: "t = c # t'" using t by (cases t) auto
  have d0: "drop 0 buf = c # (t' @ CHR '' '' # rest)" using buf ct by simp
  have d1: "drop 1 buf = t' @ CHR '' '' # rest" using buf ct by simp
  have d2: "drop (length t) buf = CHR '' '' # rest" using buf by simp
  have "\<exists>P'. hp_loop request_callbacks buf 0 1 (P, d) =
      hp_loop request_callbacks buf (length t + 1) 3 (P', ((fst d)\<lparr>req_method := m\<rparr>, snd d))" for P
  proof -
    let ?P = "P\<lparr>hp_mark := 0\<rparr>"
    have "http_trans 1 (hp_uri_relaxed P) (schar c) = ([Mark], 2)"
      using t ct by (auto simp: table is_upper_digit_def)
    from hp_loop_step [OF d0 this, of d]
    have "hp_loop request_callbacks buf 0 1 (P, d) = hp_loop request_callbacks buf 1 (method_state 0) (?P, d)"
      by (simp add: method_state_def)
    also have "\<dots> = hp_loop request_callbacks buf (1 + length t') (method_state (length t')) (?P, d)"
      using hp_loop_method [OF d1, of 0] t ct by simp
    also have "\<dots> = hp_loop request_callbacks buf (Suc (length t)) 3 (?P, ((fst d)\<lparr>req_method := m\<rparr>, snd d))"
      using hp_loop_step [OF d2, of "method_state (length t')" ?P "[Request_method]" 3 d]
        method_state_trans(2) [of "length t'"] t ct m
      by (simp add: PTR_TO_def with_data_def on_request_method_def schar_lit)
    finally show ?thesis by auto
  qed
  then show ?thesis by (simp add: runs_def)
qed

text \<open>Path and query.\<close>

lemma schar_xdigit:
  "isxdigit c \<Longrightarrow> 48 \<le> schar c \<and> schar c \<le> 57 \<or> 65 \<le> schar c \<and> schar c \<le> 70 \<or> 97 \<le> schar c \<and> schar c \<le> 102"
proof -
  have "(of_char c :: int) = int (of_char c :: nat)" by (simp only: of_nat_of_char)
  then show "isxdigit c \<Longrightarrow> ?thesis" by (auto simp: isxdigit_def schar_def Let_def)
qed

lemma path_trans:
  "is_pchar c \<Longrightarrow> c \<noteq> CHR ''%'' \<Longrightarrow> http_trans 26 r (schar c) = ([], 26)"
  "http_trans 26 r 37 = ([], 27)"
  "isxdigit c \<Longrightarrow> http_trans 27 r (schar c) = ([], 28)"
  "isxdigit c \<Longrightarrow> http_trans 28 r (schar c) = ([], 26)"
  "http_trans 26 r 32 = ([Request_path, Request_uri], 4)"
  "http_trans 26 r 63 = ([Request_path], 29)"
  using schar_inj [of c "CHR ''%''"] schar_xdigit [of c]
  by (auto simp: table is_pchar_def schar_lit)

lemma query_trans:
  "is_qchar c \<Longrightarrow> c \<noteq> CHR ''%'' \<Longrightarrow> http_trans 30 r (schar c) = ([], 30)"
  "http_trans 30 r 37 = ([], 31)"
  "isxdigit c \<Longrightarrow> http_trans 31 r (schar c) = ([], 32)"
  "isxdigit c \<Longrightarrow> http_trans 32 r (schar c) = ([], 30)"
  "http_trans 30 r 32 = ([Query_string, Request_uri], 4)"
  "is_qchar c \<Longrightarrow> c \<noteq> CHR ''%'' \<Longrightarrow> http_trans 29 r (schar c) = ([Start_query], 30)"
  "http_trans 29 r 37 = ([Start_query], 31)"
  using schar_inj [of c "CHR ''%''"] schar_xdigit [of c]
  by (auto simp: table is_pchar_def is_qchar_def schar_lit)

text \<open>Behind the first slash the state 33 differs from 26 only on a second slash.\<close>

lemma first_segment: "c \<noteq> CHR ''/'' \<Longrightarrow> http_trans 33 r (schar c) = http_trans 26 r (schar c)"
  using schar_inj [of c "CHR ''/''"] by (simp add: table schar_lit)

lemma hp_loop_first_segment:
  assumes "drop p buf = c # rest" "c \<noteq> CHR ''/''"
  shows "hp_loop request_callbacks buf p 33 s = hp_loop request_callbacks buf p 26 s"
proof -
  have "p < length buf" using assms(1) by (metis drop_eq_Nil leI list.distinct(1))
  moreover have "buf ! p = c" using assms(1) by (metis hd_drop_conv_nth calculation list.sel(1))
  ultimately show ?thesis
    using first_segment [OF assms(2), of "hp_uri_relaxed (fst s)"]
    by (subst (1 2) hp_loop.simps) simp
qed

lemma hp_loop_path:
  assumes "drop p buf = CHR ''/'' # seg @ c # rest" "c = CHR '' '' \<or> c = CHR ''?''"
    and "seg = [] \<or> hd seg \<noteq> CHR ''/''" "uri_text is_pchar seg"
  shows "hp_loop request_callbacks buf p 3 (P, d) =
    hp_loop request_callbacks buf (p + length seg + 1) 26 (P\<lparr>hp_mark := p\<rparr>, d)"
proof -
  have "http_trans 3 r 47 = ([Mark], 33)" for r by (simp add: table)
  then have "hp_loop request_callbacks buf p 3 (P, d) = hp_loop request_callbacks buf (Suc p) 33 (P\<lparr>hp_mark := p\<rparr>, d)"
    using hp_loop_step [OF assms(1), of 3 P "[Mark]" 33 d] by (simp add: schar_lit)
  also have "\<dots> = hp_loop request_callbacks buf (Suc p) 26 (P\<lparr>hp_mark := p\<rparr>, d)"
    using drop_Suc_eq [OF assms(1)] assms(2,3)
    by (cases seg) (auto intro: hp_loop_first_segment)
  also have "\<dots> = hp_loop request_callbacks buf (Suc p + length seg) 26 (P\<lparr>hp_mark := p\<rparr>, d)"
    by (rule hp_loop_uri_text [OF drop_Suc_eq [OF assms(1)] assms(4), where ?k1.0 = 27 and ?k2.0 = 28])
      (simp_all add: path_trans schar_lit)
  finally show ?thesis by simp
qed

lemma hp_loop_query:
  assumes "drop p buf = xs @ rest" "uri_text is_qchar xs" "xs \<noteq> []"
  shows "hp_loop request_callbacks buf p 29 (P, d) =
    hp_loop request_callbacks buf (p + length xs) 30 (P\<lparr>hp_query_start := p\<rparr>, d)"
proof -
  obtain c cs where xs: "xs = c # cs" using assms(3) by (cases xs) auto
  have d0: "drop p buf = c # (cs @ rest)" using assms(1) xs by simp
  have start: "hp_loop request_callbacks buf p 29 (P, d) = hp_loop request_callbacks buf p 30 (P\<lparr>hp_query_start := p\<rparr>, d)"
  proof (cases "c = CHR ''%''")
    case True
    then show ?thesis
      using hp_loop_step [OF d0, of 29 P "[Start_query]" 31 d]
        hp_loop_step [OF d0, of 30 "P\<lparr>hp_query_start := p\<rparr>" "[]" 31 d] query_trans
      by (simp add: schar_lit)
  next
    case False
    then show ?thesis
      using hp_loop_step [OF d0, of 29 P "[Start_query]" 30 d]
        hp_loop_step [OF d0, of 30 "P\<lparr>hp_query_start := p\<rparr>" "[]" 30 d] query_trans(1,6) [of c] assms(2) xs
      by simp
  qed
  also have "\<dots> = hp_loop request_callbacks buf (p + length xs) 30 (P\<lparr>hp_query_start := p\<rparr>, d)"
    by (rule hp_loop_uri_text [OF assms(1,2), where ?k1.0 = 31 and ?k2.0 = 32])
      (simp_all add: query_trans schar_lit)
  finally show ?thesis .
qed

lemma with_string_part:
  "length buf < 2 ^ 63 \<Longrightarrow> drop p buf = xs @ rest \<Longrightarrow>
   with_string (PTR_TO buf p) (LEN p (p + length xs)) f = f xs"
  using with_string_fits [of "length xs" "xs @ rest" f]
  by (simp add: PTR_TO_def LEN_def sub64_le) (metis length_append length_drop less_imp_diff_less)

text \<open>What stands between the method and the version.\<close>

definition query_text :: "string \<Rightarrow> string" where
  "query_text query = (if query = [] then [] else CHR ''?'' # query)"

lemma hp_loop_target_query:
  assumes p: "drop p buf = CHR ''/'' # seg @ CHR ''?'' # (query @ rest)"
    and seg: "seg = [] \<or> hd seg \<noteq> CHR ''/''" "uri_text is_pchar seg"
    and query: "uri_text is_qchar query" "query \<noteq> []" and len: "length buf < 2 ^ 63"
  shows "hp_loop request_callbacks buf p 3 (P, (q, e)) =
    hp_loop request_callbacks buf (p + length seg + 2 + length query) 30
      (P\<lparr>hp_mark := p, hp_query_start := p + length seg + 2\<rparr>, (q\<lparr>req_path := CHR ''/'' # seg\<rparr>, e))"
proof -
  let ?q = "q\<lparr>req_path := CHR ''/'' # seg\<rparr>"
  have ws: "with_string (PTR_TO buf p) (LEN p (Suc (p + length seg))) f = f (CHR ''/'' # seg)" for f :: "_ \<Rightarrow> _ + request_data"
    using with_string_part [OF len, of p "CHR ''/'' # seg" "CHR ''?'' # query @ rest" f] p by simp
  have e: "drop (p + length seg + 1) buf = CHR ''?'' # (query @ rest)"
    using drop_append_eq [of p buf "CHR ''/'' # seg"] p by simp
  have "hp_loop request_callbacks buf p 3 (P, (q, e)) =
    hp_loop request_callbacks buf (p + length seg + 1) 26 (P\<lparr>hp_mark := p\<rparr>, (q, e))"
    by (rule hp_loop_path [OF p]) (use seg in auto)
  also have "\<dots> = hp_loop request_callbacks buf (Suc (p + length seg + 1)) 29 (P\<lparr>hp_mark := p\<rparr>, (?q, e))"
    by (rule hp_loop_step [OF e, where as = "[Request_path]"])
      (simp_all add: ws path_trans schar_lit on_request_path_def with_data_def)
  also have "\<dots> = hp_loop request_callbacks buf (Suc (p + length seg + 1) + length query) 30
      (P\<lparr>hp_mark := p, hp_query_start := Suc (p + length seg + 1)\<rparr>, (?q, e))"
    using hp_loop_query [OF drop_Suc_eq [OF e] query] by simp
  finally show ?thesis by simp
qed

lemma runs_target:
  assumes p: "drop p buf = CHR ''/'' # seg @ query_text query @ CHR '' '' # rest"
    and "seg = [] \<or> hd seg \<noteq> CHR ''/''" "uri_text is_pchar seg" "uri_text is_qchar query"
    and len: "length buf < 2 ^ 63"
  shows "runs buf (p, 3, (q, e)) (p + length seg + length (query_text query) + 2, 4,
     (if query = [] then q\<lparr>req_path := CHR ''/'' # seg\<rparr>
      else q\<lparr>req_path := CHR ''/'' # seg, req_query := query\<rparr>, e))"
proof (cases "query = []")
  case True
  then have p': "drop p buf = CHR ''/'' # seg @ CHR '' '' # rest" using p by (simp add: query_text_def)
  have ws: "with_string (PTR_TO buf p) (LEN p (Suc (p + length seg))) f = f (CHR ''/'' # seg)" for f :: "_ \<Rightarrow> _ + request_data"
    using with_string_part [OF len, of p "CHR ''/'' # seg" "CHR '' '' # rest" f] p' by simp
  have e: "drop (p + length seg + 1) buf = CHR '' '' # rest"
    using drop_append_eq [of p buf "CHR ''/'' # seg"] p' by simp
  have "\<exists>P'. hp_loop request_callbacks buf p 3 (P, (q, e)) =
    hp_loop request_callbacks buf (p + length seg + 2) 4 (P', (q\<lparr>req_path := CHR ''/'' # seg\<rparr>, e))" for P
  proof -
    have "hp_loop request_callbacks buf p 3 (P, (q, e)) =
      hp_loop request_callbacks buf (p + length seg + 1) 26 (P\<lparr>hp_mark := p\<rparr>, (q, e))"
      by (rule hp_loop_path [OF p']) (use assms in auto)
    also have "\<dots> = hp_loop request_callbacks buf (Suc (p + length seg + 1)) 4
        (P\<lparr>hp_mark := p\<rparr>, (q\<lparr>req_path := CHR ''/'' # seg\<rparr>, e))"
      by (rule hp_loop_step [OF e, where as = "[Request_path, Request_uri]"])
        (simp_all add: ws path_trans schar_lit on_request_path_def with_data_def)
    finally show ?thesis by auto
  qed
  then show ?thesis using True by (simp add: runs_def query_text_def)
next
  case False
  then have p': "drop p buf = CHR ''/'' # seg @ CHR ''?'' # (query @ CHR '' '' # rest)"
    using p by (simp add: query_text_def)
  let ?p = "p + length seg + 2"
  have e2: "drop ?p buf = query @ CHR '' '' # rest"
    using drop_append_eq [of p buf "CHR ''/'' # seg @ ''?''"] p' by simp
  note e3 = drop_append_eq [OF e2]
  have ws2: "with_string (PTR_TO buf ?p) (LEN ?p (?p + length query)) f = f query" for f :: "_ \<Rightarrow> _ + request_data"
    by (rule with_string_part [OF len e2])
  have "\<exists>P'. hp_loop request_callbacks buf p 3 (P, (q, e)) =
    hp_loop request_callbacks buf (Suc (?p + length query)) 4
      (P', (q\<lparr>req_path := CHR ''/'' # seg, req_query := query\<rparr>, e))" for P
  proof -
    let ?P = "P\<lparr>hp_mark := p, hp_query_start := ?p\<rparr>"
    let ?q = "q\<lparr>req_path := CHR ''/'' # seg\<rparr>"
    have "hp_acts request_callbacks buf (?p + length query) [Query_string, Request_uri] (?P, (?q, e))
        = Inr (?P, (?q\<lparr>req_query := query\<rparr>, e))"
      using ws2 by (simp only: hp_acts.simps hp_act.simps) (simp add: on_request_query_def with_data_def)
    then have "hp_loop request_callbacks buf (?p + length query) 30 (?P, (?q, e)) =
        hp_loop request_callbacks buf (Suc (?p + length query)) 4 (?P, (?q\<lparr>req_query := query\<rparr>, e))"
      by (intro hp_loop_step [OF e3, where as = "[Query_string, Request_uri]"]) (simp_all add: query_trans schar_lit)
    then show ?thesis using hp_loop_target_query [OF p' assms(2-4) False len, of P q e] by auto
  qed
  then show ?thesis using False by (simp add: runs_def query_text_def numeral_3_eq_3)
qed


text \<open>The version.\<close>

lemma version_trans:
  "http_trans 4 r 72 = ([Mark], 5)" "http_trans 5 r 84 = ([], 6)" "http_trans 6 r 84 = ([], 7)"
  "http_trans 7 r 80 = ([], 8)" "http_trans 8 r 47 = ([], 9)" "http_trans 9 r 49 = ([], 10)"
  "http_trans 10 r 46 = ([], 11)" "c = 48 \<or> c = 49 \<Longrightarrow> http_trans 11 r c = ([], 12)"
  "http_trans 12 r 13 = ([Http_version], 17)" "http_trans 17 r 10 = ([], 13)"
  by (auto simp: table)

lemma version_read:
  "strncmp_eq (''HTTP/1.1'' @ crlf @ rest) ''HTTP/1.1'' 8"
  "\<not> strncmp_eq (''HTTP/1.0'' @ crlf @ rest) ''HTTP/1.1'' 8"
  "strncmp_eq (''HTTP/1.0'' @ crlf @ rest) ''HTTP/1.0'' 8"
  by (simp_all add: crlf_def Let_def numeral_eq_Suc)

definition version_text :: "byte \<Rightarrow> string" where
  "version_text v = (if v = 0x11 then ''HTTP/1.1'' else ''HTTP/1.0'')"

lemma runs_version:
  assumes p: "drop p buf = version_text v @ crlf @ rest" and v: "v = 0x11 \<or> v = 0x10"
  shows "runs buf (p, 4, (q, e)) (p + 10, 13, (q\<lparr>req_version := v\<rparr>, e))"
proof -
  obtain vc where vc: "version_text v = [CHR ''H'', CHR ''T'', CHR ''T'', CHR ''P'', CHR ''/'', CHR ''1'', CHR ''.'', vc]"
    "schar vc = 48 \<or> schar vc = 49"
    using v by (auto simp: version_text_def schar_lit)
  have d0: "drop p buf = CHR ''H'' # [CHR ''T'', CHR ''T'', CHR ''P'', CHR ''/'', CHR ''1'', CHR ''.'', vc, CHR 0x0D, CHR 0x0A] @ rest"
    using p vc by (simp add: crlf_def)
  note d1 = drop_Suc_eq [OF d0, simplified]
  note d2 = drop_Suc_eq [OF d1]
  note d3 = drop_Suc_eq [OF d2]
  note d4 = drop_Suc_eq [OF d3]
  note d5 = drop_Suc_eq [OF d4]
  note d6 = drop_Suc_eq [OF d5]
  note d7 = drop_Suc_eq [OF d6]
  note d8 = drop_Suc_eq [OF d7]
  note d9 = drop_Suc_eq [OF d8]
  have call: "on_request_version (drop p buf) (LEN p (p + 8)) (q, e) = Inr (q\<lparr>req_version := v\<rparr>, e)"
    using v p version_read [of rest]
    by (auto simp: on_request_version_def version_text_def LEN_def sub64_le)
  have "hp_loop request_callbacks buf p 4 (P, (q, e)) =
      hp_loop request_callbacks buf (p + 10) 13 (P\<lparr>hp_mark := p\<rparr>, (q\<lparr>req_version := v\<rparr>, e))" for P
  proof -
    let ?P = "P\<lparr>hp_mark := p\<rparr>"
    let ?p8 = "Suc (Suc (Suc (Suc (Suc (Suc (Suc (Suc p)))))))"
    have p8: "p + 8 = ?p8" by simp
    note step = hp_loop_step [where as = "[]" and d = "(q, e)" and s' = "(?P, (q, e))" and P = ?P]
    have "hp_loop request_callbacks buf p 4 (P, (q, e)) = hp_loop request_callbacks buf (Suc p) 5 (?P, (q, e))"
      by (rule hp_loop_step [OF d0, where as = "[Mark]"]) (simp_all add: version_trans schar_lit)
    also have "\<dots> = hp_loop request_callbacks buf ?p8 12 (?P, (q, e))"
      using step [OF d1, of 5 6] step [OF d2, of 6 7] step [OF d3, of 7 8] step [OF d4, of 8 9]
        step [OF d5, of 9 10] step [OF d6, of 10 11] step [OF d7, of 11 12] vc(2)
      by (simp add: version_trans schar_lit)
    also have "\<dots> = hp_loop request_callbacks buf (Suc ?p8) 17 (?P, (q\<lparr>req_version := v\<rparr>, e))"
      by (rule hp_loop_step [OF d8, where as = "[Http_version]"])
        (use call p8 in \<open>simp_all add: version_trans schar_lit with_data_def PTR_TO_def\<close>)
    also have "\<dots> = hp_loop request_callbacks buf (Suc (Suc ?p8)) 13 (?P, (q\<lparr>req_version := v\<rparr>, e))"
      by (rule hp_loop_step [OF d9, where as = "[]"]) (simp_all add: version_trans schar_lit)
    also have "Suc (Suc ?p8) = p + 10" by simp
    finally show ?thesis .
  qed
  then show ?thesis by (auto simp: runs_def)
qed

end
