(* ===== verification/Uri_Safety.thy ===== *)
theory Uri_Safety
  imports Uri Http11_Props
begin

text \<open>
  A typing of the states of the URI automaton: whether the mark is set there, and whether the text so
  far has the \<open>//\<close> of an authority. Every transition keeps the types, except those that leave an empty
  port, so that the parser never makes a string from the null pointer on a text without one.
\<close>

section \<open>Types of states\<close>

text \<open>The states in which the mark may be null; those from the \<open>//\<close> of a URI with a scheme on.\<close>

definition no_mark :: "nat \<Rightarrow> bool" where
  "no_mark n \<longleftrightarrow> 3 \<le> n \<and> n \<le> 6 \<or> 451 \<le> n \<and> n \<le> 453 \<or> n \<in> {455, 456, 458, 459, 469, 509, 510, 511, 522}"

definition authority :: "nat \<Rightarrow> bool" where
  "authority n \<longleftrightarrow> 229 \<le> n \<and> n \<le> 242 \<or> 245 \<le> n \<and> n \<le> 450 \<or> n \<in> {511, 512, 514} \<or> 516 \<le> n"

text \<open>The mark before and after actions: \<open>None\<close> when one needs a mark that may be null.\<close>

fun mark_acts :: "bool \<Rightarrow> uri_act list \<Rightarrow> bool option" where
  "mark_acts m [] = Some m"
| "mark_acts m (U_Mark # as) = mark_acts True as"
| "mark_acts m (U_Userinfo # as) = mark_acts False as"
| "mark_acts m (U_Host # as) = mark_acts m as"
| "mark_acts m (a # as) = (if m then mark_acts False as else None)"

text \<open>A port without digits in front of \<open>#\<close>, \<open>/\<close> or \<open>?\<close>.\<close>

definition empty_port_step :: "nat \<Rightarrow> int \<Rightarrow> bool" where
  "empty_port_step k c \<longleftrightarrow> k \<in> {514, 521} \<and> c \<in> {35, 47, 63}"

fun uri_mark_ok :: "nat \<Rightarrow> int \<Rightarrow> uri_target \<Rightarrow> bool" where
  "uri_mark_ok k c (as, n) \<longleftrightarrow>
     empty_port_step k c \<or> (case mark_acts (\<not> no_mark k) as of None \<Rightarrow> False | Some m \<Rightarrow> no_mark n \<or> m)"

fun uri_place_ok :: "nat \<Rightarrow> int \<Rightarrow> uri_target \<Rightarrow> bool" where
  "uri_place_ok k c (as, n) \<longleftrightarrow>
     (authority n \<longrightarrow> authority k \<or> n = 511) \<and> (n = 511 \<longrightarrow> k = 510 \<and> c = 47) \<and> (n = 510 \<longrightarrow> k = 509 \<and> c = 47) \<and>
     (n = 509 \<longrightarrow> c = 58) \<and> (n \<in> {514, 521} \<longrightarrow> authority k \<and> c = 58)"

definition uri_step_ok :: "nat \<Rightarrow> int \<Rightarrow> uri_target \<Rightarrow> bool" where
  "uri_step_ok k c t \<longleftrightarrow> snd t = 0 \<or> uri_mark_ok k c t \<and> uri_place_ok k c t"

fun uri_table_ok :: "nat \<Rightarrow> (int \<Rightarrow> uri_target) list \<Rightarrow> bool" where
  "uri_table_ok k [] \<longleftrightarrow> True"
| "uri_table_ok k (f # fs) \<longleftrightarrow> (\<forall>c. uri_step_ok k c (f c)) \<and> uri_table_ok (Suc k) fs"

lemma uri_table_ok_nth: "uri_table_ok k fs \<Longrightarrow> i < length fs \<Longrightarrow> uri_step_ok (k + i) c ((fs ! i) c)"
proof (induction k fs arbitrary: i rule: uri_table_ok.induct)
  case (2 k f fs)
  then show ?case by (cases i) fastforce+
qed simp

lemma uri_table_ok_append: "uri_table_ok k (fs @ gs) \<longleftrightarrow> uri_table_ok k fs \<and> uri_table_ok (k + length fs) gs"
  by (induction k fs rule: uri_table_ok.induct) auto

lemma uri_step_ok_if:
  "uri_step_ok k c x \<Longrightarrow> uri_step_ok k c y \<Longrightarrow> uri_step_ok k c (if b then x else y)"
  "uri_step_ok k v x \<Longrightarrow> uri_step_ok k c y \<Longrightarrow> uri_step_ok k c (if c = v then x else y)"
  by simp_all

lemma uri_step_ok_goto:
  "uri_step_ok k c (uri_goto n) \<longleftrightarrow>
     n = 0 \<or> (empty_port_step k c \<or> no_mark n \<or> \<not> no_mark k) \<and> uri_place_ok k c ([], n)"
  by (auto simp: uri_step_ok_def uri_goto_def)

lemma uri_step_ok_pair:
  "uri_step_ok k c (as, n) \<longleftrightarrow> n = 0 \<or> uri_mark_ok k c (as, n) \<and> uri_place_ok k c (as, n)"
  by (simp add: uri_step_ok_def)

lemmas uri_step_rules = uri_step_ok_if uri_step_ok_goto uri_step_ok_pair uri_tr_defs no_mark_def authority_def empty_port_step_def

lemma uri_states_ok_1:
  "uri_table_ok 1 uri_states_1" "uri_table_ok 21 uri_states_2" "uri_table_ok 41 uri_states_3"
  "uri_table_ok 61 uri_states_4" "uri_table_ok 81 uri_states_5" "uri_table_ok 101 uri_states_6"
  "uri_table_ok 121 uri_states_7"
  by (simp_all add: uri_states_1_def uri_states_2_def uri_states_3_def uri_states_4_def uri_states_5_def uri_states_6_def uri_states_7_def
      uri_st_defs_1 uri_st_defs_2 uri_st_defs_3 uri_st_defs_4 uri_st_defs_5 uri_st_defs_6 uri_st_defs_7
      uri_step_rules cong: if_weak_cong del: if_split)

lemma uri_states_ok_2:
  "uri_table_ok 141 uri_states_8" "uri_table_ok 161 uri_states_9" "uri_table_ok 181 uri_states_10"
  "uri_table_ok 201 uri_states_11" "uri_table_ok 221 uri_states_12" "uri_table_ok 241 uri_states_13"
  "uri_table_ok 261 uri_states_14"
  by (simp_all add: uri_states_8_def uri_states_9_def uri_states_10_def uri_states_11_def uri_states_12_def uri_states_13_def uri_states_14_def
      uri_st_defs_8 uri_st_defs_9 uri_st_defs_10 uri_st_defs_11 uri_st_defs_12 uri_st_defs_13 uri_st_defs_14
      uri_step_rules cong: if_weak_cong del: if_split)

lemma uri_states_ok_3:
  "uri_table_ok 281 uri_states_15" "uri_table_ok 301 uri_states_16" "uri_table_ok 321 uri_states_17"
  "uri_table_ok 341 uri_states_18" "uri_table_ok 361 uri_states_19" "uri_table_ok 381 uri_states_20"
  "uri_table_ok 401 uri_states_21"
  by (simp_all add: uri_states_15_def uri_states_16_def uri_states_17_def uri_states_18_def uri_states_19_def uri_states_20_def uri_states_21_def
      uri_st_defs_15 uri_st_defs_16 uri_st_defs_17 uri_st_defs_18 uri_st_defs_19 uri_st_defs_20 uri_st_defs_21
      uri_step_rules cong: if_weak_cong del: if_split)

lemma uri_states_ok_4:
  "uri_table_ok 421 uri_states_22" "uri_table_ok 441 uri_states_23" "uri_table_ok 461 uri_states_24"
  "uri_table_ok 481 uri_states_25" "uri_table_ok 501 uri_states_26" "uri_table_ok 521 uri_states_27"
  "uri_table_ok 541 uri_states_28"
  by (simp_all add: uri_states_22_def uri_states_23_def uri_states_24_def uri_states_25_def uri_states_26_def uri_states_27_def uri_states_28_def
      uri_st_defs_22 uri_st_defs_23 uri_st_defs_24 uri_st_defs_25 uri_st_defs_26 uri_st_defs_27 uri_st_defs_28
      uri_step_rules cong: if_weak_cong del: if_split)

lemma length_uri_states: "length uri_states = 560"
  by (simp add: uri_states_def uri_states_defs)

lemma uri_table_ok_states: "uri_table_ok 1 uri_states"
  unfolding uri_states_def uri_table_ok_append
  by (simp add: uri_states_defs [THEN arg_cong [where f = length]] uri_states_ok_1 uri_states_ok_2 uri_states_ok_3 uri_states_ok_4 del: One_nat_def uri_table_ok.simps)

lemma uri_step_ok_trans: "0 < k \<Longrightarrow> uri_step_ok k c (uri_trans k c)"
proof (cases "560 < k")
  case False
  assume "0 < k"
  with False have "k - 1 < length uri_states" "1 + (k - 1) = k" by (auto simp: length_uri_states)
  then have "uri_step_ok k c ((uri_states ! (k - 1)) c)"
    using uri_table_ok_nth [OF uri_table_ok_states, of "k - 1" c] by simp
  then show ?thesis using False \<open>0 < k\<close> by (simp add: uri_trans_def length_uri_states)
qed (simp add: uri_trans_def length_uri_states uri_goto_def uri_step_ok_def)

section \<open>Runs\<close>

lemma mark_acts_ok:
  assumes "mark_acts m as = Some m'" and "m \<longrightarrow> mark \<noteq> None" and "\<forall>i. mark = Some i \<longrightarrow> i \<le> p"
  shows "\<exists>mark' u'. uri_acts s p as (mark, u) = Inr (mark', u') \<and> (m' \<longrightarrow> mark' \<noteq> None) \<and> (\<forall>i. mark' = Some i \<longrightarrow> i \<le> p)"
  using assms
proof (induction as arbitrary: m mark u)
  case (Cons a as)
  obtain m1 mark1 u1 where "uri_act s p a (mark, u) = Inr (mark1, u1)" "mark_acts m1 as = Some m'"
    "m1 \<longrightarrow> mark1 \<noteq> None" "\<forall>i. mark1 = Some i \<longrightarrow> i \<le> p"
  proof (cases a)
    case U_Mark
    then show ?thesis using Cons.prems by (intro that [of "Some p" u True]) auto
  next
    case U_Host
    then show ?thesis using Cons.prems
      by (cases mark) (auto intro!: that [of mark _ m] simp: at_mark_def)
  next
    case U_Userinfo
    then show ?thesis using Cons.prems
      by (cases mark) (auto intro!: that [of None _ False] simp: at_mark_def unmark_def)
  next
    case U_Port
    then have "m" "mark_acts False as = Some m'" using Cons.prems(1) by (auto split: if_splits)
    moreover have "\<exists>u1. uri_act s p U_Port (mark, u) = Inr (None, u1)"
      using \<open>m\<close> Cons.prems(2) by (cases mark) (auto simp: unmark_def)
    ultimately show ?thesis using U_Port by (auto intro: that [of None _ False])
  qed (use Cons.prems in \<open>cases mark; auto intro!: that [of None _ False] simp: at_mark_def unmark_def split: if_splits\<close>)+
  then show ?case using Cons.IH [of m1 mark1 u1] by auto
qed simp

text \<open>A port without digits: a colon behind the \<open>//\<close> that the text or the authority ends with.\<close>

definition empty_port :: "string \<Rightarrow> bool" where
  "empty_port s \<longleftrightarrow> (\<exists>a b c. s = a @ ''://'' @ b @ '':'' @ c \<and> (c = [] \<or> hd c \<in> {CHR ''#'', CHR ''/'', CHR ''?''}))"

text \<open>What is known in front of the character at \<open>p\<close>.\<close>

definition uri_typed :: "string \<Rightarrow> nat \<Rightarrow> nat \<Rightarrow> nat option \<Rightarrow> bool" where
  "uri_typed s p k mark \<longleftrightarrow>
     0 < k \<and> (\<not> no_mark k \<longrightarrow> mark \<noteq> None) \<and> (\<forall>i. mark = Some i \<longrightarrow> i \<le> p) \<and>
     (authority k \<longrightarrow> (\<exists>a b. take p s = a @ ''://'' @ b)) \<and>
     (k = 509 \<longrightarrow> (\<exists>a. take p s = a @ '':'')) \<and> (k = 510 \<longrightarrow> (\<exists>a. take p s = a @ '':/'')) \<and>
     (k \<in> {514, 521} \<longrightarrow> (\<exists>a b. take p s = a @ ''://'' @ b @ '':''))"

lemma schar_uri: "schar c = 35 \<longleftrightarrow> c = CHR ''#''" "schar c = 47 \<longleftrightarrow> c = CHR ''/''" "schar c = 63 \<longleftrightarrow> c = CHR ''?''"
  "schar c = 58 \<longleftrightarrow> c = CHR '':''"
proof -
  have lits: "schar (CHR ''#'') = 35" "schar (CHR ''/'') = 47" "schar (CHR ''?'') = 63" "schar (CHR '':'') = 58"
    by (simp_all add: schar_def Let_def)
  show "schar c = 35 \<longleftrightarrow> c = CHR ''#''" "schar c = 47 \<longleftrightarrow> c = CHR ''/''" "schar c = 63 \<longleftrightarrow> c = CHR ''?''"
    "schar c = 58 \<longleftrightarrow> c = CHR '':''"
    using schar_inj [of c "CHR ''#''"] schar_inj [of c "CHR ''/''"] schar_inj [of c "CHR ''?''"] schar_inj [of c "CHR '':''"]
    unfolding lits by simp_all
qed

lemma empty_port_at:
  assumes "uri_typed s p k mark" "k \<in> {514, 521}" "p < length s \<longrightarrow> s ! p \<in> {CHR ''#'', CHR ''/'', CHR ''?''}"
  shows "empty_port s"
proof -
  obtain a b where "take p s = a @ ''://'' @ b @ '':''" using assms(1,2) unfolding uri_typed_def by blast
  then have "s = a @ ''://'' @ b @ '':'' @ drop p s" by (metis append.assoc append_take_drop_id)
  moreover have "drop p s = [] \<or> hd (drop p s) \<in> {CHR ''#'', CHR ''/'', CHR ''?''}"
    using assms(3) by (cases "p < length s") (simp_all add: hd_drop_conv_nth)
  ultimately show ?thesis unfolding empty_port_def by blast
qed

lemma uri_typed_step:
  assumes t: "uri_typed s p k mark" and p: "p < length s" and tr: "uri_trans k (schar (s ! p)) = (as, n)" "n \<noteq> 0"
    and ne: "\<not> empty_port s"
  shows "\<exists>mark' u'. uri_acts s p as (mark, u) = Inr (mark', u') \<and> uri_typed s (Suc p) n mark'"
proof -
  have k: "0 < k" "\<not> no_mark k \<longrightarrow> mark \<noteq> None" "\<forall>i. mark = Some i \<longrightarrow> i \<le> p" using t by (simp_all add: uri_typed_def)
  have ok: "uri_mark_ok k (schar (s ! p)) (as, n)" "uri_place_ok k (schar (s ! p)) (as, n)"
    using uri_step_ok_trans [OF k(1), of "schar (s ! p)"] tr by (simp_all add: uri_step_ok_def)
  have "\<not> empty_port_step k (schar (s ! p))"
    using empty_port_at [OF t] ne by (auto simp: empty_port_step_def schar_uri)
  then obtain m' where m': "mark_acts (\<not> no_mark k) as = Some m'" "no_mark n \<or> m'"
    using ok(1) by (auto split: option.splits)
  from mark_acts_ok [OF m'(1) k(2,3), of s u] obtain mark' u' where
    run: "uri_acts s p as (mark, u) = Inr (mark', u')" "m' \<longrightarrow> mark' \<noteq> None" "\<forall>i. mark' = Some i \<longrightarrow> i \<le> p" by blast
  have take: "take (Suc p) s = take p s @ [s ! p]" using p by (simp add: take_Suc_conv_app_nth)
  have a510: "\<exists>a. take p s = a @ '':/''" if "k = 510" using t that by (simp add: uri_typed_def)
  have a509: "\<exists>a. take p s = a @ '':''" if "k = 509" using t that by (simp add: uri_typed_def)
  have auth: "\<exists>a b. take p s = a @ ''://'' @ b" if "authority k" using t that by (simp add: uri_typed_def)
  have "\<exists>a b. take (Suc p) s = a @ ''://'' @ b" if "authority n"
  proof (cases "authority k")
    case True
    then show ?thesis using auth take by fastforce
  next
    case False
    then have "k = 510" "s ! p = CHR ''/''" using that ok(2) by (auto simp: schar_uri)
    then show ?thesis using a510 take by fastforce
  qed
  moreover have "\<exists>a. take (Suc p) s = a @ '':''" if "n = 509" using that ok(2) take by (auto simp: schar_uri)
  moreover have "\<exists>a. take (Suc p) s = a @ '':/''" if "n = 510"
    using that ok(2) a509 take by (auto simp: schar_uri)
  moreover have "\<exists>a b. take (Suc p) s = a @ ''://'' @ b @ '':''" if "n \<in> {514, 521}"
    using that ok(2) auth take by (fastforce simp: schar_uri)
  moreover have "\<not> no_mark n \<longrightarrow> mark' \<noteq> None" using m'(2) run(2) by blast
  moreover have "\<forall>i. mark' = Some i \<longrightarrow> i \<le> Suc p" using run(3) by auto
  ultimately have "uri_typed s (Suc p) n mark'" using tr(2) unfolding uri_typed_def by blast
  then show ?thesis using run(1) by blast
qed

lemma uri_eof_ok: "k \<notin> {514, 521} \<Longrightarrow> mark_acts (\<not> no_mark k) (uri_eof k) \<noteq> None"
proof -
  have rule: "(b \<Longrightarrow> mark_acts m x \<noteq> None) \<Longrightarrow> mark_acts m y \<noteq> None \<Longrightarrow> mark_acts m (if b then x else y) \<noteq> None" for b m x y
    by simp
  assume "k \<notin> {514, 521}"
  then show ?thesis unfolding uri_eof_def by (intro rule) (auto simp: no_mark_def)
qed

lemma uri_typed_eof:
  assumes "uri_typed s p k mark" "k \<notin> {514, 521}"
  shows "\<exists>r. uri_acts s p (uri_eof k) (mark, u) = Inr r"
proof -
  obtain m where "mark_acts (\<not> no_mark k) (uri_eof k) = Some m" using uri_eof_ok [OF assms(2)] by blast
  then show ?thesis using mark_acts_ok [of "\<not> no_mark k" "uri_eof k" m mark p s u] assms(1) unfolding uri_typed_def by blast
qed

lemma uri_loop_typed:
  assumes "uri_typed s p k mark" "\<not> empty_port s"
  shows "\<exists>r. uri_loop s p k (mark, u) = Inr r"
  using assms(1)
proof (induction "length s - p" arbitrary: p k mark u rule: less_induct)
  case less
  show ?case
  proof (cases "length s \<le> p")
    case True
    then have "k \<notin> {514, 521}" using empty_port_at [OF less.prems] assms(2) by auto
    then show ?thesis using uri_typed_eof [OF less.prems, of u] True by (subst uri_loop.simps) auto
  next
    case False
    obtain as n where tr: "uri_trans k (schar (s ! p)) = (as, n)" by fastforce
    show ?thesis
    proof (cases "n = 0")
      case True
      then show ?thesis using False tr by (subst uri_loop.simps) simp
    next
      case n: False
      obtain mark' u' where "uri_acts s p as (mark, u) = Inr (mark', u')" "uri_typed s (Suc p) n mark'"
        using uri_typed_step [OF less.prems _ tr n assms(2)] False by (meson not_le)
      then show ?thesis using less.hyps [of "Suc p" n mark' u'] False n tr by (subst uri_loop.simps) simp
    qed
  qed
qed


lemma empty_port_index:
  assumes "empty_port s"
  shows "\<exists>i < length s. 3 \<le> i \<and> s ! i = CHR '':'' \<and> (Suc i < length s \<longrightarrow> s ! Suc i \<in> {CHR ''#'', CHR ''/'', CHR ''?''})"
proof -
  obtain a b c where s: "s = a @ ''://'' @ b @ '':'' @ c" "c = [] \<or> hd c \<in> {CHR ''#'', CHR ''/'', CHR ''?''}"
    using assms unfolding empty_port_def by blast
  obtain d where d: "s = d @ CHR '':'' # c" "3 \<le> length d" using s(1) by (intro that [of "a @ ''://'' @ b"]) simp_all
  have "s ! Suc (length d) = hd c" if "c \<noteq> []" using that d(1) by (cases c) (simp_all add: nth_append)
  then show ?thesis using d s(2) by (intro exI [where x = "length d"]) (cases "c = []"; simp)
qed


end
