(* ===== verification/Httpclient_Safety.thy ===== *)
theory Httpclient_Safety
  imports Httpclient_Parser Http11_Safety
begin

text \<open>
  The response parser on arbitrary bytes. As for the request parser, every step of the automaton
  is one of a few lists of actions and marks lie before the current character. One thing is
  different: the grammar lets a line end inside the blanks behind \<open>Content-Length:\<close> and
  \<open>Transfer-Encoding:\<close>, and the same characters can then be the start of the next header name; the
  value is reported with the new start of the name and the old length, at most 17 characters
  behind the start, which may be behind the text.
\<close>

section \<open>What the steps of the automaton look like\<close>

text \<open>States in which the start of a header name is set and its length is the one of the name before.\<close>

definition late_state :: "nat \<Rightarrow> bool" where
  "late_state n \<longleftrightarrow>
     n \<in> {3, 5, 20, 21, 24, 71, 88, 117, 120} \<or> 25 \<le> n \<and> n \<le> 34 \<or> 43 \<le> n \<and> n \<le> 60 \<or> 73 \<le> n \<and> n \<le> 79 \<or>
     90 \<le> n \<and> n \<le> 94 \<or> 101 \<le> n \<and> n \<le> 111"

text \<open>How far such a state is behind the start of a name that begins like one of the special names.\<close>

definition name_rank :: "nat \<Rightarrow> nat option" where
  "name_rank n =
     (if 25 \<le> n \<and> n \<le> 34 then Some (n - 24)
      else if 101 \<le> n \<and> n \<le> 111 then Some (n - 97)
      else if 44 \<le> n \<and> n \<le> 60 then Some (n - 43)
      else if n = 73 \<or> n = 90 then Some 1
      else None)"

text \<open>States behind \<open>Transfer-Encoding:\<close> and \<open>Content-Length:\<close> where a line may have ended.\<close>

definition folded :: "nat \<Rightarrow> bool" where
  "folded n \<longleftrightarrow> n \<in> {61, 62, 80, 112, 113, 117, 118} \<or> 73 \<le> n \<and> n \<le> 79"

text \<open>Lists of actions without the marks of names, and those around the value of a header.\<close>

definition easy_acts :: "client_act list list" where
  "easy_acts =
     [[], [C_Chunk_size], [C_Chunk_size, C_Done 120], [C_Done 120], [C_Done 121], [C_Done 122], [C_Done 123],
      [C_Http_version], [C_Mark], [C_Reason_phrase], [C_Status_code], [C_Trans_chunked],
      [C_Write_connection_close], [C_Write_connection_close, C_Done 120]]"

definition start_acts :: "client_act list list" where
  "start_acts = [[C_Start_field], [C_Mark, C_Start_field], [C_Write_connection_close, C_Start_field]]"

definition value_acts :: "client_act list list" where
  "value_acts =
     [[C_Write_value], [C_Mark, C_Write_value], [C_Write_value, C_Trans_chunked], [C_Write_value, C_Done 120],
      [C_Write_content_len, C_Write_value]]"

definition length_acts :: "client_act list list" where
  "length_acts =
     [[C_Write_field], [C_Write_field, C_Mark], [C_Write_field, C_Mark, C_Write_value],
      [C_Write_field, C_Mark, C_Write_value, C_Done 120]]"

definition rank_step :: "nat \<Rightarrow> nat \<Rightarrow> bool" where
  "rank_step cs n \<longleftrightarrow>
     (case name_rank n of None \<Rightarrow> True
      | Some r \<Rightarrow> (case name_rank cs of None \<Rightarrow> False | Some r' \<Rightarrow> r' + 1 \<le> r))"

fun client_step_ok :: "nat \<Rightarrow> client_target \<Rightarrow> bool" where
  "client_step_ok cs (as, n) \<longleftrightarrow>
     n = 0 \<or>
     as \<in> set easy_acts \<and> (late_state cs \<longrightarrow> late_state n) \<and> (folded n \<longrightarrow> folded cs) \<and> rank_step cs n \<or>
     as \<in> set start_acts \<and> late_state n \<and> (folded n \<longrightarrow> folded cs) \<or>
     as \<in> set value_acts \<and> (late_state cs \<longrightarrow> folded cs \<and> late_state n) \<and> (folded n \<longrightarrow> folded cs) \<and> name_rank n = None \<or>
     as \<in> set length_acts \<and> late_state cs \<and> (folded n \<longrightarrow> name_rank cs \<noteq> None) \<and> name_rank n = None"

fun client_table_ok :: "nat \<Rightarrow> (int \<Rightarrow> client_target) list \<Rightarrow> bool" where
  "client_table_ok k [] \<longleftrightarrow> True"
| "client_table_ok k (f # fs) \<longleftrightarrow> (\<forall>c. client_step_ok k (f c)) \<and> client_table_ok (Suc k) fs"

lemma client_table_ok_nth: "client_table_ok k fs \<Longrightarrow> i < length fs \<Longrightarrow> client_step_ok (k + i) ((fs ! i) c)"
proof (induction k fs arbitrary: i rule: client_table_ok.induct)
  case (2 k f fs)
  then show ?case by (cases i) (fastforce simp: nth_Cons')+
qed simp

lemma client_table_ok_append:
  "client_table_ok k (fs @ gs) \<longleftrightarrow> client_table_ok k fs \<and> client_table_ok (k + length fs) gs"
  by (induction k fs rule: client_table_ok.induct) auto

lemma to_st_ok:
  "n = 0 \<or> (late_state cs \<longrightarrow> late_state n) \<and> (folded n \<longrightarrow> folded cs) \<and> rank_step cs n \<Longrightarrow>
   client_step_ok cs (to_st n)"
  by (auto simp: to_st_def easy_acts_def)

lemma client_step_ok_if: "client_step_ok k x \<Longrightarrow> client_step_ok k y \<Longrightarrow> client_step_ok k (if b then x else y)"
  by simp

lemmas client_state_defs = late_state_def name_rank_def folded_def rank_step_def
lemmas client_acts_defs = easy_acts_def start_acts_def value_acts_def length_acts_def
lemmas client_step_rules = client_st_defs client_tr_defs to_st_ok client_step_ok_if client_state_defs client_acts_defs

lemma client_states_ok_1: "client_table_ok 1 (take 40 client_states)"
  by (simp add: client_states_def client_step_rules cong: if_weak_cong del: if_split)

lemma client_states_ok_2: "client_table_ok 41 (take 40 (drop 40 client_states))"
  by (simp add: client_states_def client_step_rules cong: if_weak_cong del: if_split)

lemma client_states_ok_3: "client_table_ok 81 (drop 80 client_states)"
  by (simp add: client_states_def client_step_rules cong: if_weak_cong del: if_split)

lemma length_client_states: "length client_states = 123"
  by (simp add: client_states_def)

lemma client_table_ok_states: "client_table_ok 1 client_states"
proof -
  have 1: "client_states = take 40 client_states @ take 40 (drop 40 client_states) @ drop 80 client_states"
    by (metis append_take_drop_id drop_drop numeral_Bit0)
  show ?thesis
    by (subst 1, unfold client_table_ok_append)
      (simp add: length_client_states client_states_ok_1 client_states_ok_2 client_states_ok_3 del: One_nat_def client_table_ok.simps)
qed

lemma client_step_ok_trans: "client_step_ok cs (client_trans cs c)"
proof (cases "cs = 0 \<or> 123 < cs")
  case False
  then have "cs - 1 < length client_states" "1 + (cs - 1) = cs"
    by (auto simp: length_client_states)
  then have "client_step_ok cs ((client_states ! (cs - 1)) c)"
    using client_table_ok_nth [OF client_table_ok_states, of "cs - 1" c] by simp
  then show ?thesis using False by (simp add: client_trans_def length_client_states)
qed (simp add: client_trans_def length_client_states to_st_def)

section \<open>Marks\<close>

text \<open>Where the marks are when the character at \<open>p\<close> is to be looked at in state \<open>cs\<close>.\<close>

definition client_marks :: "nat \<Rightarrow> nat \<Rightarrow> nat \<Rightarrow> httpclient_parser \<Rightarrow> bool" where
  "client_marks n p cs P \<longleftrightarrow>
     p \<le> n \<and> cp_mark P \<le> p \<and> cp_mark P < n \<and> cp_field_start P \<le> p \<and> cp_field_start P < n \<and>
     cp_field_len P \<le> p \<and> (\<not> late_state cs \<longrightarrow> cp_field_start P + cp_field_len P \<le> p) \<and>
     (\<forall>r. name_rank cs = Some r \<longrightarrow> p \<le> cp_field_start P + r) \<and> (folded cs \<longrightarrow> cp_field_len P \<le> 17) \<and>
     cp_body_start P \<le> n"

text \<open>The callbacks succeed on text that is in the memory.\<close>

fun client_call_fits :: "client_call \<Rightarrow> bool" where
  "client_call_fits (Cc_field field flen val vlen) \<longleftrightarrow>
     flen \<le> length field \<and> length field < 2 ^ 63 \<and> vlen \<le> length val \<and> length val < 2 ^ 63"
| "client_call_fits (Cc_reason at len) \<longleftrightarrow> len \<le> length at \<and> length at < 2 ^ 63"
| "client_call_fits (Cc_version at len) \<longleftrightarrow> len \<le> length at \<and> length at < 2 ^ 63"
| "client_call_fits c \<longleftrightarrow> True"

lemma client_call_ok: "client_call_fits c \<Longrightarrow> \<exists>d'. response_callbacks c d = Inr d'"
  by (cases c)
    (auto simp: with_string_fits on_response_reason_def on_response_status_def on_response_version_def
      on_response_http_field_def)

lemma with_client_ok: "client_call_fits c \<Longrightarrow> \<exists>d'. with_client P (response_callbacks c d) = Inr (P, d')"
  using client_call_ok [of c d] by (auto simp: with_client_def)

text \<open>Actions that leave the marks of names alone.\<close>

fun easy_act :: "client_act \<Rightarrow> bool" where
  "easy_act C_Start_field = False"
| "easy_act C_Write_field = False"
| "easy_act C_Write_value = False"
| "easy_act a = True"

definition client_keeps :: "nat \<Rightarrow> nat \<Rightarrow> httpclient_parser \<Rightarrow> httpclient_parser \<Rightarrow> bool" where
  "client_keeps n p P P' \<longleftrightarrow>
     cp_mark P' \<le> p \<and> cp_body_start P' \<le> n \<and> cp_cs P' = cp_cs P \<and> cp_nread P' = cp_nread P \<and>
     cp_field_start P' = cp_field_start P \<and> cp_field_len P' = cp_field_len P"

lemma easy_act_ok:
  assumes "easy_act a" "cp_mark P \<le> p" "p < length buf" "cp_body_start P \<le> length buf"
    and "length (buf @ tail) < 2 ^ 31"
  shows "\<exists>P' d'. cp_act response_callbacks buf tail p a (P, d) = Inr (P', d') \<and> client_keeps (length buf) p P P' \<and>
    (client_done [a] = None \<longrightarrow> cp_body_start P' = cp_body_start P)"
proof -
  let ?at = "drop (cp_mark P) (buf @ tail)" and ?n = "p - cp_mark P"
  have "length ?at < 2 ^ 63" "?n \<le> length ?at" using assms by auto
  then show ?thesis
    using assms client_call_ok [of "Cc_reason ?at ?n" d] client_call_ok [of "Cc_version ?at ?n" d]
    by (cases a) (auto simp: client_keeps_def with_client_def LEN_def PTR_TO_def on_response_status_def Let_def)
qed

lemma easy_acts_ok:
  assumes "\<forall>a\<in>set as. easy_act a" "cp_mark P \<le> p" "p < length buf" "cp_body_start P \<le> length buf"
    "length (buf @ tail) < 2 ^ 31"
  shows "\<exists>P' d'. cp_acts response_callbacks buf tail p as (P, d) = Inr (P', d') \<and> client_keeps (length buf) p P P' \<and>
    (client_done as = None \<longrightarrow> cp_body_start P' = cp_body_start P)"
  using assms(1,2,4)
proof (induction as arbitrary: P d)
  case Nil
  then show ?case by (simp add: client_keeps_def)
next
  case (Cons a as)
  obtain P1 d1 where 1: "cp_act response_callbacks buf tail p a (P, d) = Inr (P1, d1)"
    "client_keeps (length buf) p P P1" "client_done [a] = None \<Longrightarrow> cp_body_start P1 = cp_body_start P"
    using easy_act_ok [of a P p buf tail d] Cons.prems assms by auto
  then have "cp_mark P1 \<le> p" "cp_body_start P1 \<le> length buf" by (simp_all add: client_keeps_def)
  then obtain P2 d2 where 2: "cp_acts response_callbacks buf tail p as (P1, d1) = Inr (P2, d2)"
    "client_keeps (length buf) p P1 P2" "client_done as = None \<Longrightarrow> cp_body_start P2 = cp_body_start P1"
    using Cons.IH [of P1 d1] Cons.prems(1) by auto
  have "client_done (a # as) = None \<Longrightarrow> client_done [a] = None \<and> client_done as = None"
    by (cases a) auto
  then show ?case using 1 2 by (auto simp: client_keeps_def)
qed

lemma easy_acts_easy: "as \<in> set easy_acts \<Longrightarrow> \<forall>a\<in>set as. easy_act a"
  by (auto simp: easy_acts_def)

text \<open>One step: the actions succeed and the marks stay in order.\<close>

definition client_result ::
  "nat \<Rightarrow> nat \<Rightarrow> nat \<Rightarrow> client_act list \<Rightarrow> httpclient_parser \<Rightarrow> hp_error + (httpclient_parser \<times> response_data) \<Rightarrow> bool"
where
  "client_result n p cs as P r \<longleftrightarrow>
     (\<exists>P' d'. r = Inr (P', d') \<and> client_marks n (p + 1) cs P' \<and> cp_cs P' = cp_cs P \<and> cp_nread P' = cp_nread P \<and>
        (client_done as = None \<longrightarrow> cp_body_start P' = cp_body_start P))"

lemma write_value_ok:
  assumes "cp_mark P \<le> p" "p < length buf" "cp_field_start P + cp_field_len P \<le> length (buf @ tail)"
    "length (buf @ tail) < 2 ^ 31"
  shows "\<exists>d'. cp_act response_callbacks buf tail p C_Write_value (P, d) = Inr (P, d')"
proof -
  let ?c = "Cc_field (drop (cp_field_start P) (buf @ tail)) (cp_field_len P)
    (drop (cp_mark P) (buf @ tail)) (p - cp_mark P)"
  have "client_call_fits ?c" using assms by auto
  from with_client_ok [OF this, of P d] show ?thesis using assms by (simp add: LEN_def PTR_TO_def)
qed

text \<open>The four kinds of steps, one after the other.\<close>

lemma easy_step_ok:
  assumes "as \<in> set easy_acts" "late_state cs \<longrightarrow> late_state n'" "folded n' \<longrightarrow> folded cs" "rank_step cs n'"
    and "client_marks (length buf) p cs P" "p < length buf" "length (buf @ tail) < 2 ^ 31"
  shows "client_result (length buf) p n' as P (cp_acts response_callbacks buf tail p as (P, d))"
proof -
  have m: "cp_mark P \<le> p" "cp_body_start P \<le> length buf" using assms(5) by (simp_all add: client_marks_def)
  from easy_acts_ok [OF easy_acts_easy [OF assms(1)] m(1) assms(6) m(2) assms(7), of d] obtain P' d'
    where r: "cp_acts response_callbacks buf tail p as (P, d) = Inr (P', d')" "client_keeps (length buf) p P P'"
      "client_done as = None \<longrightarrow> cp_body_start P' = cp_body_start P" by auto
  have "p + 1 \<le> cp_field_start P + r" if rank: "name_rank n' = Some r" for r
  proof -
    obtain r' where "name_rank cs = Some r'" "r' + 1 \<le> r"
      using rank assms(4) by (auto simp: rank_step_def split: option.splits)
    then show ?thesis using assms(5) by (auto simp: client_marks_def)
  qed
  then show ?thesis using r assms by (auto simp: client_result_def client_marks_def client_keeps_def)
qed

lemma start_step_ok:
  assumes "as \<in> set start_acts" "late_state n'" "folded n' \<longrightarrow> folded cs"
    and "client_marks (length buf) p cs P" "p < length buf"
  shows "client_result (length buf) p n' as P (cp_acts response_callbacks buf tail p as (P, d))"
proof -
  have "1 \<le> r" if "name_rank n' = Some r" for r
    using that by (auto simp: name_rank_def split: if_splits)
  then show ?thesis using assms
    by (auto simp: start_acts_def client_result_def client_marks_def le_Suc_eq)
qed

lemma value_step_ok:
  assumes "as \<in> set value_acts" "late_state cs \<longrightarrow> folded cs \<and> late_state n'" "folded n' \<longrightarrow> folded cs" "name_rank n' = None"
    and "client_marks (length buf) p cs P" "p < length buf" "length (buf @ tail) < 2 ^ 31" "17 \<le> length tail"
  shows "client_result (length buf) p n' as P (cp_acts response_callbacks buf tail p as (P, d))"
proof -
  have fits: "cp_field_start P + cp_field_len P \<le> length (buf @ tail)"
    using assms(2,5,6,8) by (cases "late_state cs") (auto simp: client_marks_def)
  have 1: "\<exists>d'. cp_act response_callbacks buf tail p C_Write_value (P, d) = Inr (P, d')"
    by (rule write_value_ok [OF _ assms(6) fits assms(7)]) (use assms(5) in \<open>simp add: client_marks_def\<close>)
  have 2: "\<exists>d'. cp_act response_callbacks buf tail p C_Write_value (P\<lparr>cp_mark := p\<rparr>, d) = Inr (P\<lparr>cp_mark := p\<rparr>, d')"
    by (rule write_value_ok [OF _ assms(6) _ assms(7)]) (use fits in simp_all)
  have 3: "\<exists>d'. cp_act response_callbacks buf tail p C_Write_value (P\<lparr>cp_content_len := l\<rparr>, d)
      = Inr (P\<lparr>cp_content_len := l\<rparr>, d')" for l
    by (rule write_value_ok [OF _ assms(6) _ assms(7)]) (use fits assms(5) in \<open>simp_all add: client_marks_def\<close>)
  consider "as = [C_Write_value]" | "as = [C_Mark, C_Write_value]" | "as = [C_Write_value, C_Trans_chunked]"
    | "as = [C_Write_value, C_Done 120]" | "as = [C_Write_content_len, C_Write_value]"
    using assms(1) by (auto simp: value_acts_def)
  then show ?thesis
  proof cases
    case 1
    then show ?thesis using \<open>\<exists>d'. cp_act _ _ _ _ C_Write_value (P, d) = _\<close> assms
      by (auto simp: client_result_def client_marks_def simp del: cp_act.simps(6))
  next
    case 2
    then show ?thesis using \<open>\<exists>d'. cp_act _ _ _ _ C_Write_value (P\<lparr>cp_mark := p\<rparr>, d) = _\<close> assms
      by (auto simp: client_result_def client_marks_def simp del: cp_act.simps(6))
  next
    case 3
    then show ?thesis using \<open>\<exists>d'. cp_act _ _ _ _ C_Write_value (P, d) = _\<close> assms
      by (auto simp: client_result_def client_marks_def simp del: cp_act.simps(6))
  next
    case 4
    then show ?thesis using \<open>\<exists>d'. cp_act _ _ _ _ C_Write_value (P, d) = _\<close> assms
      by (auto simp: client_result_def client_marks_def with_client_def simp del: cp_act.simps(6))
  next
    case 5
    then show ?thesis using 3 [of "int32 (strtol 10 (PTR_TO (buf @ tail) (cp_mark P)))"] assms
      by (auto simp: client_result_def client_marks_def simp del: cp_act.simps(6))
  qed
qed

lemma length_step_ok:
  assumes "as \<in> set length_acts" "folded n' \<longrightarrow> name_rank cs \<noteq> None" "name_rank n' = None"
    and "client_marks (length buf) p cs P" "p < length buf" "length (buf @ tail) < 2 ^ 31"
  shows "client_result (length buf) p n' as P (cp_acts response_callbacks buf tail p as (P, d))"
proof -
  let ?P = "P\<lparr>cp_field_len := LEN (cp_field_start P) p, cp_mark := p\<rparr>"
  have LEN: "LEN (cp_field_start P) p = p - cp_field_start P" using assms(4) by (simp add: LEN_def client_marks_def)
  have "p - cp_field_start P \<le> 17" if fold: "folded n'"
  proof -
    obtain r where "name_rank cs = Some r" using fold assms(2) by auto
    moreover then have "r \<le> 17" by (auto simp: name_rank_def split: if_splits)
    ultimately show ?thesis using assms(4) by (fastforce simp: client_marks_def)
  qed
  note len = this
  have 2: "\<exists>d'. cp_act response_callbacks buf tail p C_Write_value (?P, d) = Inr (?P, d')"
    by (rule write_value_ok [OF _ assms(5) _ assms(6)]) (use assms LEN in \<open>simp_all add: client_marks_def\<close>)
  show ?thesis
    using assms len LEN 2 unfolding length_acts_def
    by (auto simp: client_result_def client_marks_def with_client_def simp del: cp_act.simps(6))
qed

lemma cp_acts_ok:
  assumes "client_step_ok cs (as, n')" "n' \<noteq> 0" "client_marks (length buf) p cs P" "p < length buf"
    "length (buf @ tail) < 2 ^ 31" "17 \<le> length tail"
  shows "client_result (length buf) p n' as P (cp_acts response_callbacks buf tail p as (P, d))"
  using assms(1,2) easy_step_ok [of as cs n' buf p P tail d] start_step_ok [of as n' cs buf p P tail d]
    value_step_ok [of as cs n' buf p P tail d] length_step_ok [of as n' cs buf p P tail d] assms(3-)
  by auto

section \<open>The loop\<close>

definition client_loop_result ::
  "nat \<Rightarrow> nat \<Rightarrow> httpclient_parser \<Rightarrow> hp_error + (nat \<times> nat \<times> httpclient_parser \<times> response_data) \<Rightarrow> bool" where
  "client_loop_result n p P r \<longleftrightarrow>
     (\<exists>cs' p' P' d'. r = Inr (cs', p', P', d') \<and> p \<le> p' \<and> client_marks n p' 120 P' \<and>
        cp_nread P' = cp_nread P \<and> (120 \<le> cs' \<and> cs' \<le> 123 \<or> cp_body_start P' = cp_body_start P))"

lemma client_done_final: "client_step_ok cs (as, n) \<Longrightarrow> n \<noteq> 0 \<Longrightarrow> client_done as = Some k \<Longrightarrow> 120 \<le> k \<and> k \<le> 123"
  by (auto simp: client_acts_defs)

lemma client_marks_le: "client_marks n p cs P \<Longrightarrow> p \<le> n"
  by (simp add: client_marks_def)

lemma client_marks_120: "client_marks n p cs P \<Longrightarrow> client_marks n p 120 P"
  by (simp add: client_marks_def client_state_defs)

lemma cp_loop_ok:
  assumes "client_marks (length buf) p cs P" "length (buf @ tail) < 2 ^ 31" "17 \<le> length tail"
  shows "client_loop_result (length buf) p P (cp_loop response_callbacks buf tail p cs (P, d))"
  using assms(1)
proof (induction "length buf - p" arbitrary: p cs P d rule: less_induct)
  case less
  show ?case
  proof (cases "length buf \<le> p")
    case True
    then show ?thesis using client_marks_120 [OF less.prems] client_marks_le [OF less.prems]
      by (subst cp_loop.simps) (simp add: client_loop_result_def)
  next
    case False
    obtain as n where t: "client_trans cs (schar (buf ! p)) = (as, n)"
      by (cases "client_trans cs (schar (buf ! p))")
    show ?thesis
    proof (cases "n = 0")
      case True
      then show ?thesis using client_marks_120 [OF less.prems] client_marks_le [OF less.prems] t False
        by (subst cp_loop.simps) (simp add: client_loop_result_def)
    next
      case n: False
      have ok: "client_step_ok cs (as, n)" using client_step_ok_trans t by metis
      have "client_result (length buf) p n as P (cp_acts response_callbacks buf tail p as (P, d))"
        using cp_acts_ok [OF ok n less.prems _ assms(2,3)] False by simp
      then obtain P1 d1 where 1: "cp_acts response_callbacks buf tail p as (P, d) = Inr (P1, d1)"
        "client_marks (length buf) (p + 1) n P1" "cp_nread P1 = cp_nread P"
        "client_done as = None \<Longrightarrow> cp_body_start P1 = cp_body_start P"
        by (auto simp: client_result_def)
      show ?thesis
      proof (cases "client_done as")
        case None
        then have "cp_loop response_callbacks buf tail p cs (P, d) = cp_loop response_callbacks buf tail (p + 1) n (P1, d1)"
          using t False n 1 by (subst cp_loop.simps) simp
        moreover have "client_loop_result (length buf) (p + 1) P1 (cp_loop response_callbacks buf tail (p + 1) n (P1, d1))"
          by (rule less.hyps) (use False 1 in auto)
        ultimately show ?thesis using 1(3) 1(4) [OF None] by (auto simp: client_loop_result_def)
      next
        case (Some k)
        then show ?thesis
          using t False n 1 client_done_final [OF ok n Some] client_marks_120 [OF 1(2)] client_marks_le [OF 1(2)]
          by (subst cp_loop.simps) (simp add: client_loop_result_def)
      qed
    qed
  qed
qed

text \<open>A parser between two calls: its response is not finished.\<close>

definition client_between_calls :: "HttpResponseParser \<Rightarrow> bool" where
  "client_between_calls R \<longleftrightarrow> cp_body_start (sp_parser R) = 0"

text \<open>
  C24. The response parser is safe on arbitrary bytes as long as the memory goes on for 17 characters
  behind the NUL: \<open>execute\<close> on a parser that is new, or started again for a chunk, or left between
  two calls, trips no assertion, builds no impossible string and reads nothing outside the memory,
  whatever the (non-empty) text is; it reports no more than there is and keeps what it did not
  parse. If the response is not finished then the parser is ready for the next call, unless it
  stopped in one of three states that end a header in mid-air.
\<close>

theorem response_parser_safe:
  assumes "chunck \<or> client_between_calls R" and "data \<noteq> []" "length data < 2 ^ 30"
    and "tail \<noteq> []" "hd tail = CHR 0x00" "17 \<le> length tail" "length tail < 2 ^ 30"
  shows "\<exists>n R'. response_execute chunck data tail R
      = Inr (n, drop n data, drop (length data - n) (data @ tail), R') \<and> n \<le> length data \<and>
    (response_isFinished R' \<noteq> 1 \<longrightarrow> client_between_calls R' \<or> cp_cs (sp_parser R') \<in> {121, 122, 123})"
proof -
  let ?P = "(if chunck then httpclient_parser_init (sp_parser R) else sp_parser R)
    \<lparr>cp_nread := 0, cp_mark := 0, cp_field_len := 0, cp_field_start := 0\<rparr>"
  let ?d = "(sp_data R, sp_error R)"
  have body: "cp_body_start ?P = 0"
    using assms(1) by (auto simp: client_between_calls_def httpclient_parser_init_def)
  then have m: "client_marks (length data) 0 (cp_cs ?P) ?P" using assms(2) by (simp add: client_marks_def)
  have len: "length (data @ tail) < 2 ^ 31" using assms(3,7) by simp
  have "client_loop_result (length data) 0 ?P
      (if cp_cs ?P = 0 then Inr (2, 0, ?P, ?d) else cp_loop response_callbacks data tail 0 (cp_cs ?P) (?P, ?d))"
    using cp_loop_ok [OF m len assms(6)] client_marks_120 [OF m] by (auto simp: client_loop_result_def)
  then obtain cs' p' P' d' where r:
    "(if cp_cs ?P = 0 then Inr (2, 0, ?P, ?d) else cp_loop response_callbacks data tail 0 (cp_cs ?P) (?P, ?d))
      = Inr (cs', p', P', d')"
    "client_marks (length data) p' 120 P'" "cp_nread P' = cp_nread ?P"
    "120 \<le> cs' \<and> cs' \<le> 123 \<or> cp_body_start P' = cp_body_start ?P"
    by (auto simp: client_loop_result_def)
  let ?R = "\<lparr>sp_parser = P'\<lparr>cp_cs := cs', cp_nread := p'\<rparr>, sp_data = fst d', sp_error = snd d'\<rparr>"
  have p': "p' \<le> length data" using r(2) by (rule client_marks_le)
  then have i32: "int32 (int p') = int p'" "int32 (int (length data)) = int (length data)" "int32 0 = 0"
    using assms(3) by (auto intro!: int32_id)
  have "response_execute chunck data tail R = Inr (p', drop p' data, drop (length data - p') (data @ tail), ?R)"
    using r(1,2,3) i32 assms(2,4,5)
    by (cases d') (auto simp: response_execute_def httpclient_parser_execute_def Let_def hp_check_def client_marks_def)
  moreover have "response_isFinished ?R \<noteq> 1 \<Longrightarrow> client_between_calls ?R \<or> cp_cs (sp_parser ?R) \<in> {121, 122, 123}"
    using r(4) body
    by (auto simp: response_isFinished_def httpclient_parser_finish_def httpclient_parser_is_finished_def
        httpclient_parser_has_error_def client_between_calls_def split: if_splits)
  ultimately show ?thesis using p' by blast
qed

text \<open>Memory that happens to hold zeros.\<close>

definition zero_client :: httpclient_parser where
  "zero_client = \<lparr>cp_cs = 0, cp_body_start = 0, cp_content_len = 0, cp_status = 0, cp_chunked = False,
     cp_chunks_done = False, cp_close = False, cp_nread = 0, cp_mark = 0, cp_field_start = 0, cp_field_len = 0\<rparr>"

lemma response_parser_safe_witness:
  "\<exists>n R'. response_execute False ''HTTP/1.1 2'' (replicate 20 (CHR 0x00)) (HttpResponseParser_new zero_client)
    = Inr (n, drop n ''HTTP/1.1 2'', drop (10 - n) (''HTTP/1.1 2'' @ replicate 20 (CHR 0x00)), R') \<and> n \<le> 10"
proof -
  let ?d = "''HTTP/1.1 2''" and ?t = "replicate 20 (CHR 0x00)" and ?R = "HttpResponseParser_new zero_client"
  have 1: "client_between_calls ?R"
    by (simp add: client_between_calls_def HttpResponseParser_new_def httpclient_parser_init_def)
  have 2: "?d \<noteq> []" "length ?d = 10" "?t \<noteq> []" "hd ?t = CHR 0x00" "length ?t = 20" by simp_all
  have "\<exists>n R'. response_execute False ?d ?t ?R = Inr (n, drop n ?d, drop (length ?d - n) (?d @ ?t), R') \<and>
    n \<le> length ?d \<and> (response_isFinished R' \<noteq> 1 \<longrightarrow>
      client_between_calls R' \<or> cp_cs (sp_parser R') \<in> {121, 122, 123})"
    by (rule response_parser_safe) (use 1 2 in simp_all)
  then show ?thesis unfolding 2(2) by blast
qed

end
