(* ===== verification/Http11_Roundtrip.thy ===== *)
theory Http11_Roundtrip
  imports Http11_Props
begin

text \<open>
  Written and read back: the header block a \<open>dump\<close> writes, run through the request parser, and
  the round trip of a whole request. Then the requests a client may send in two pieces, and what
  becomes of them.
\<close>

section \<open>Header lines\<close>

definition render_headers :: "(string \<times> string) list \<Rightarrow> string" where
  "render_headers hs = concat (map (\<lambda>(k, v). k @ '': '' @ v @ crlf) hs)"

definition wire_header :: "string \<times> string \<Rightarrow> bool" where
  "wire_header h \<longleftrightarrow> fst h \<noteq> [] \<and> (\<forall>c\<in>set (fst h). is_token_char c) \<and> is_value (snd h)"

lemma header_trans:
  "is_token_char c \<Longrightarrow> http_trans 13 r (schar c) = ([Start_field], 14)"
  "is_token_char c \<Longrightarrow> http_trans 14 r (schar c) = ([], 14)"
  "http_trans 14 r 58 = ([Write_field], 15)"
  "http_trans 15 r 32 = ([Mark], 15)"
  "http_trans 15 r 13 = ([Mark, Write_value], 17)"
  "schar c \<notin> {0, 9, 10, 13, 32, 127} \<Longrightarrow> http_trans 15 r (schar c) = ([Mark], 16)"
  "schar c \<notin> {0, 10, 13, 127} \<Longrightarrow> http_trans 16 r (schar c) = ([], 16)"
  "http_trans 16 r 13 = ([Write_value], 17)"
  "http_trans 13 r 13 = ([Start_field], 18)"
  "http_trans 18 r 10 = ([Done 348], 348)"
  by (auto simp: table is_token_char_def)

lemma on_request_http_field_part:
  assumes "length buf < 2 ^ 63" "drop f buf = k @ x" "drop m buf = v @ y" "k \<noteq> []"
  shows "on_request_http_field (PTR_TO buf f) (length k) (PTR_TO buf m) (length v) (q, e)
    = Inr (req_setHeader k v q, e)"
proof -
  have "with_string (PTR_TO buf f) (length k) g = g k" "with_string (PTR_TO buf m) (length v) g = g v"
    for g :: "string \<Rightarrow> hp_error + request_data"
    using with_string_part [OF assms(1,2), of g] with_string_part [OF assms(1,3), of g]
    by (simp_all add: LEN_def sub64_le)
  then show ?thesis using assms(4) by (simp add: on_request_http_field_def)
qed

text \<open>The rest of a header name, its colon and the blank; a whole name.\<close>

lemma hp_loop_name_rest:
  assumes p: "drop p buf = k @ '': '' @ rest" and k: "\<forall>c\<in>set k. is_token_char c"
    and f: "hp_field_start P \<le> p"
  shows "hp_loop request_callbacks buf p 14 (P, d) = hp_loop request_callbacks buf (p + length k + 2) 15
    (P\<lparr>hp_field_len := p + length k - hp_field_start P, hp_mark := p + length k + 1\<rparr>, d)"
proof -
  have d2: "drop (p + length k) buf = CHR '':'' # (CHR '' '' # rest)"
    using drop_append_eq [OF p] by simp
  note d3 = drop_Suc_eq [OF d2]
  let ?P = "P\<lparr>hp_field_len := p + length k - hp_field_start P\<rparr>"
  have "hp_loop request_callbacks buf p 14 (P, d) = hp_loop request_callbacks buf (p + length k) 14 (P, d)"
    by (rule hp_loop_block [OF p]) (use k in \<open>simp_all add: header_trans\<close>)
  also have "\<dots> = hp_loop request_callbacks buf (Suc (p + length k)) 15 (?P, d)"
    by (rule hp_loop_step [OF d2, where as = "[Write_field]"])
      (use f in \<open>simp_all add: header_trans schar_lit LEN_def sub64_le\<close>)
  also have "\<dots> = hp_loop request_callbacks buf (Suc (Suc (p + length k))) 15
      (?P\<lparr>hp_mark := Suc (p + length k)\<rparr>, d)"
    by (rule hp_loop_step [OF d3, where as = "[Mark]"]) (simp_all add: header_trans schar_lit)
  finally show ?thesis by simp
qed

lemma hp_loop_name_start:
  assumes "drop p buf = c # rest" "is_token_char c"
  shows "hp_loop request_callbacks buf p 13 (P, d) =
    hp_loop request_callbacks buf (Suc p) 14 (P\<lparr>hp_field_start := p\<rparr>, d)"
  by (rule hp_loop_step [OF assms(1), where as = "[Start_field]"]) (use assms(2) in \<open>simp_all add: header_trans\<close>)

lemma hp_loop_header_name:
  assumes p: "drop p buf = k @ '': '' @ rest" and k: "k \<noteq> []" "\<forall>c\<in>set k. is_token_char c"
  shows "hp_loop request_callbacks buf p 13 (P, d) = hp_loop request_callbacks buf (p + length k + 2) 15
    (P\<lparr>hp_field_start := p, hp_field_len := length k, hp_mark := p + length k + 1\<rparr>, d)"
proof -
  obtain c cs where kc: "k = c # cs" using k by (cases k) auto
  have d0: "drop p buf = c # (cs @ '': '' @ rest)" using p kc by simp
  show ?thesis
    using hp_loop_name_start [OF d0, of P d] hp_loop_name_rest [OF drop_Suc_eq [OF d0], of "P\<lparr>hp_field_start := p\<rparr>" d] k kc
    by simp
qed

text \<open>The value, with the name's marks set.\<close>

lemma hp_loop_header_value:
  assumes f: "drop (hp_field_start P) buf = k @ x" "hp_field_len P = length k" "k \<noteq> []"
    and m: "drop m buf = v @ crlf @ rest" and v: "is_value v" and len: "length buf < 2 ^ 63"
  shows "\<exists>P'. hp_loop request_callbacks buf m 15 (P, (q, e)) =
      hp_loop request_callbacks buf (m + length v + 2) 13 (P', (req_setHeader k v q, e)) \<and>
    (hp_mark P' = m \<and> hp_field_start P' = hp_field_start P)"
proof -
  let ?n = "m + length v"
  let ?P = "P\<lparr>hp_mark := m\<rparr>"
  let ?q = "req_setHeader k v q"
  have dn: "drop ?n buf = CHR 0x0D # (CHR 0x0A # rest)"
    using drop_append_eq [OF m] by (simp add: crlf_def)
  note dn' = drop_Suc_eq [OF dn]
  have call: "on_request_http_field (PTR_TO buf (hp_field_start P)) (length k) (PTR_TO buf m) (length v) (q, e) = Inr (?q, e)"
    by (rule on_request_http_field_part [OF len f(1) m f(3)])
  have "hp_loop request_callbacks buf m 15 (P, (q, e)) = hp_loop request_callbacks buf (Suc ?n) 17 (?P, (?q, e))"
  proof (cases v)
    case Nil
    then show ?thesis
      using hp_loop_step [OF dn, of 15 P "[Mark, Write_value]" 17 "(q, e)"] call f(2)
      by (simp add: header_trans schar_lit with_data_def LEN_def sub64_le)
  next
    case (Cons c cs)
    have c: "schar c \<notin> {0, 9, 10, 13, 32, 127}" "\<forall>x\<in>set cs. schar x \<notin> {0, 10, 13, 127}"
      using v Cons by (auto simp: is_value_def)
    have d0: "drop m buf = c # (cs @ crlf @ rest)" using m Cons by simp
    note d1 = drop_Suc_eq [OF d0]
    have "hp_loop request_callbacks buf m 15 (P, (q, e)) = hp_loop request_callbacks buf (Suc m) 16 (?P, (q, e))"
      by (rule hp_loop_step [OF d0, where as = "[Mark]"]) (use c header_trans(6) [of c] in simp_all)
    also have "\<dots> = hp_loop request_callbacks buf (Suc m + length cs) 16 (?P, (q, e))"
      by (rule hp_loop_block [OF d1]) (use c in \<open>auto simp: header_trans\<close>)
    also have "Suc m + length cs = ?n" using Cons by simp
    also have "hp_loop request_callbacks buf ?n 16 (?P, (q, e)) = hp_loop request_callbacks buf (Suc ?n) 17 (?P, (?q, e))"
      by (rule hp_loop_step [OF dn, where as = "[Write_value]"])
        (use call f(2) in \<open>simp_all add: header_trans schar_lit with_data_def LEN_def sub64_le\<close>)
    finally show ?thesis .
  qed
  also have "\<dots> = hp_loop request_callbacks buf (Suc (Suc ?n)) 13 (?P, (?q, e))"
    by (rule hp_loop_step [OF dn', where as = "[]"]) (simp_all add: version_trans schar_lit)
  finally show ?thesis by (intro exI [where x = ?P]) simp
qed

lemma runs_header:
  assumes p: "drop p buf = k @ '': '' @ v @ crlf @ rest" and h: "wire_header (k, v)"
    and len: "length buf < 2 ^ 63"
  shows "runs buf (p, 13, (q, e)) (p + length (k @ '': '' @ v @ crlf), 13, (req_setHeader k v q, e))"
proof -
  have k: "k \<noteq> []" "\<forall>c\<in>set k. is_token_char c" and v: "is_value v"
    using h by (simp_all add: wire_header_def)
  let ?m = "p + length k + 2"
  have dm: "drop ?m buf = v @ crlf @ rest"
    using drop_append_eq [of p buf "k @ '': ''" "v @ crlf @ rest"] p by simp
  have "\<exists>P'. hp_loop request_callbacks buf p 13 (P, (q, e)) =
      hp_loop request_callbacks buf (?m + length v + 2) 13 (P', (req_setHeader k v q, e))" for P
    using hp_loop_header_value [of "P\<lparr>hp_field_start := p, hp_field_len := length k, hp_mark := p + length k + 1\<rparr>",
        OF _ _ k(1) dm v len, of _ q e] p hp_loop_header_name [OF p k, of P "(q, e)"]
    by simp metis
  moreover have "p + length (k @ '': '' @ v @ crlf) = ?m + length v + 2"
    by (simp add: crlf_def)
  ultimately show ?thesis by (simp only: runs_def prod.case) blast
qed

definition set_headers :: "(string \<times> string) list \<Rightarrow> HttpRequest \<Rightarrow> HttpRequest" where
  "set_headers hs q = fold (\<lambda>(k, v). req_setHeader k v) hs q"

lemma runs_headers:
  assumes "drop p buf = render_headers hs @ rest" "list_all wire_header hs" "length buf < 2 ^ 63"
  shows "runs buf (p, 13, (q, e)) (p + length (render_headers hs), 13, (set_headers hs q, e))"
  using assms(1,2)
proof (induction hs arbitrary: p q)
  case Nil
  then show ?case by (simp add: render_headers_def set_headers_def runs_refl)
next
  case (Cons h hs)
  obtain k v where h: "h = (k, v)" by (cases h)
  have p: "drop p buf = k @ '': '' @ v @ crlf @ (render_headers hs @ rest)"
    using Cons.prems(1) h by (simp add: render_headers_def)
  have "drop (p + length (k @ '': '' @ v @ crlf)) buf = render_headers hs @ rest"
    using drop_append_eq [of p buf "k @ '': '' @ v @ crlf"] p by simp
  from Cons.IH [OF this, of "req_setHeader k v q"] runs_header [OF p _ assms(3), of q e] Cons.prems(2) h
  show ?case
    using runs_trans by (fastforce simp: render_headers_def set_headers_def add.assoc)
qed

text \<open>The empty line behind the headers.\<close>

lemma hp_loop_done:
  assumes "drop p buf = crlf @ rest"
  shows "\<exists>P'. hp_loop request_callbacks buf p 13 (P, d) = Inr (348, p + 2, P', d)"
proof -
  have d0: "drop p buf = CHR 0x0D # (CHR 0x0A # rest)" using assms by (simp add: crlf_def)
  note d1 = drop_Suc_eq [OF d0]
  have "hp_loop request_callbacks buf p 13 (P, d) =
      hp_loop request_callbacks buf (Suc p) 18 (P\<lparr>hp_field_start := p\<rparr>, d)"
    by (rule hp_loop_step [OF d0, where as = "[Start_field]"]) (simp_all add: header_trans schar_lit)
  moreover have "Suc p < length buf" using d1 by (metis drop_eq_Nil leI list.distinct(1))
  moreover have "buf ! Suc p = CHR 0x0A" using d1 calculation(2) by (metis hd_drop_conv_nth list.sel(1))
  ultimately show ?thesis
    by (subst (asm) hp_loop.simps [where p = "Suc p"]) (auto simp: header_trans schar_lit with_data_def)
qed

section \<open>Headers as a map\<close>

definition header_map :: "(string \<times> string) list \<Rightarrow> (nat list \<rightharpoonup> string)" where
  "header_map hs = map_of (rev (map (\<lambda>(k, v). (ci_key k, v)) hs))"

lemma header_map_simps [simp]:
  "header_map [] K = None"
  "header_map (xs @ ys) K = (case header_map ys K of None \<Rightarrow> header_map xs K | Some v \<Rightarrow> Some v)"
  "header_map [(k, v)] K = (if K = ci_key k then Some v else None)"
  by (simp_all add: header_map_def map_add_def split: option.splits)

lemma find_set_headers:
  "req_hasHeader (set_headers hs q) key =
     (case header_map hs (ci_key key) of Some v \<Rightarrow> Some v | None \<Rightarrow> req_hasHeader q key)"
proof (induction hs rule: rev_induct)
  case (snoc h hs)
  then show ?case
    by (cases h) (simp add: set_headers_def req_hasHeader_def req_setHeader_def same_header)
qed (simp add: set_headers_def)

lemma header_map_Cons: "header_map ((k, v) # hs) K =
    (case header_map hs K of None \<Rightarrow> if K = ci_key k then Some v else None | Some w \<Rightarrow> Some w)"
  using header_map_simps(2) [of "[(k, v)]" hs K] by (simp split: option.splits)

lemma header_map_dom: "header_map hs K = Some v \<Longrightarrow> \<exists>h\<in>set hs. K = ci_key (fst h)"
  by (induction hs) (auto simp: header_map_Cons split: option.splits if_splits)

lemma header_map_filter:
  "header_map (filter (\<lambda>(k, v). ws \<or> \<not> is_connection k) hs) K =
     (if \<not> ws \<and> K = ci_key ''connection'' then None else header_map hs K)"
  by (induction hs) (auto simp: header_map_Cons is_connection_def split: option.splits)

lemma map_find_header_map: "ci.map_ok m \<Longrightarrow> map_find CaseInsensitiveLess key m = header_map m (ci_key key)"
proof (induction m)
  case (Cons h m)
  obtain k v where h: "h = (k, v)" by (cases h)
  have above: "ci_key k < ci_key (fst x)" if "x \<in> set m" for x
    using that Cons.prems h by (simp add: ci.map_ok_Cons CaseInsensitiveLess_key [symmetric])
  have "header_map m K = None" if "K \<le> ci_key k" for K
    using above header_map_dom [of m K] that by (cases "header_map m K") force+
  then show ?case
    using Cons.IH Cons.prems h unfolding ci.map_ok_Cons
    by (auto simp: header_map_Cons CaseInsensitiveLess_key [of key k] CaseInsensitiveLess_key [of k key]
        split: option.splits)
qed simp

section \<open>A request written and read\<close>

definition wire_headers :: "HttpRequest \<Rightarrow> (string \<times> string) list" where
  "wire_headers q =
     (if req_websocket q then []
      else [(''connection'', if req_close q then ''close'' else ''keep-alive'')])
     @ filter (\<lambda>(k, v). req_websocket q \<or> \<not> is_connection k) (req_headers q)
     @ (if req_body q = [] then [] else [(''content-length'', show_nat (length (req_body q)))])"

text \<open>The requests whose text means what they say.\<close>

definition path_text :: "string \<Rightarrow> bool" where
  "path_text s \<longleftrightarrow> (case s of [] \<Rightarrow> False
     | c # seg \<Rightarrow> c = CHR ''/'' \<and> (seg = [] \<or> hd seg \<noteq> CHR ''/'') \<and> uri_text is_pchar seg)"

definition sendable :: "HttpRequest \<Rightarrow> bool" where
  "sendable q \<longleftrightarrow>
     req_method q \<noteq> INVALID_METHOD \<and> req_method q \<noteq> MSEARCH \<and>
     path_text (req_path q) \<and> uri_text is_qchar (req_query q) \<and> req_fragment q = [] \<and>
     (req_version q = 0x11 \<or> req_version q = 0x10) \<and> list_all wire_header (req_headers q)"

lemma method_table_upper:
  "list_all (\<lambda>(n, m, s). m = MSEARCH \<or> s \<noteq> [] \<and> list_all is_upper_digit s \<and> length s \<le> 11) HTTP_METHOD_MAP"
  by code_simp

lemma method_text:
  assumes "m \<noteq> INVALID_METHOD" "m \<noteq> MSEARCH"
  shows "HttpMethodToString m \<noteq> []" "\<forall>c\<in>set (HttpMethodToString m). is_upper_digit c"
    "length (HttpMethodToString m) \<le> 11"
proof -
  obtain n s where e: "(n, m, s) \<in> set HTTP_METHOD_MAP" using method_in_table assms(1) by blast
  have "s \<noteq> [] \<and> list_all is_upper_digit s \<and> length s \<le> 11"
    using method_table_upper e assms(2) unfolding list_all_iff by fastforce
  then show "HttpMethodToString m \<noteq> []" "\<forall>c\<in>set (HttpMethodToString m). is_upper_digit c"
    "length (HttpMethodToString m) \<le> 11"
    using table_entry(1) [OF e] by (simp_all add: list_all_iff)
qed

lemma digit_value:
  assumes "n < 10" shows "schar (char_of (48 + n :: nat)) = 48 + int n"
proof -
  have "(of_char (char_of (48 + n) :: char) :: int) = int (of_char (char_of (48 + n) :: char))"
    by (simp only: of_nat_of_char)
  then show ?thesis using assms by (simp add: schar_def Let_def)
qed

lemma show_nat_digits: "c \<in> set (show_nat n) \<Longrightarrow> 48 \<le> schar c \<and> schar c \<le> 57"
proof (induction n rule: show_nat.induct)
  case (1 n)
  then show ?case
    using digit_value [of n] digit_value [of "n mod 10"]
    by (subst (asm) (2) show_nat.simps) (auto split: if_splits)
qed

lemma is_value_show_nat: "is_value (show_nat n)"
proof -
  have "schar c \<notin> {0, 10, 13, 127}" if "c \<in> set (show_nat n)" for c
    using show_nat_digits [OF that] by auto
  moreover have "schar (hd (show_nat n)) \<notin> {9, 32}" if "show_nat n \<noteq> []"
    using show_nat_digits [OF hd_in_set [OF that]] by auto
  ultimately show ?thesis unfolding is_value_def by blast
qed

lemma wire_headers_ok: "sendable q \<Longrightarrow> list_all wire_header (wire_headers q)"
proof -
  have "wire_header (''connection'', ''close'')" "wire_header (''connection'', ''keep-alive'')"
    by code_simp+
  moreover have "wire_header (''content-length'', [])" by code_simp
  then have "wire_header (''content-length'', show_nat n)" for n
    using is_value_show_nat by (simp add: wire_header_def)
  ultimately show "sendable q \<Longrightarrow> list_all wire_header (wire_headers q)"
    by (auto simp: wire_headers_def sendable_def list_all_iff)
qed

text \<open>The text of a request, in the parts the parser goes through.\<close>

lemma header_lines_render:
  "header_lines ws m = render_headers (filter (\<lambda>(k, v). ws \<or> \<not> is_connection k) m)"
  by (induction m) (auto simp: header_lines_def render_headers_def connection_key)

lemma render_headers_append: "render_headers (xs @ ys) = render_headers xs @ render_headers ys"
  by (simp add: render_headers_def)

lemma show_version_text: "v = 0x11 \<or> v = 0x10 \<Longrightarrow> show_version v = version_text v"
proof -
  have "show_version 0x11 = ''HTTP/1.1''" "show_version 0x10 = ''HTTP/1.0''" by code_simp+
  then show "v = 0x11 \<or> v = 0x10 \<Longrightarrow> show_version v = version_text v" by (auto simp: version_text_def)
qed

text \<open>The head of a request: everything in front of the body.\<close>

definition req_head :: "HttpRequest \<Rightarrow> string" where
  "req_head q = HttpMethodToString (req_method q) @ CHR '' '' # req_path q @ query_text (req_query q)
    @ CHR '' '' # version_text (req_version q) @ crlf @ render_headers (wire_headers q) @ crlf"

lemma req_dump_parts:
  assumes "sendable q"
  shows "req_dump q = req_head q @ req_body q"
proof -
  have "connection_line (req_websocket q) (req_close q) = render_headers
      (if req_websocket q then [] else [(''connection'', if req_close q then ''close'' else ''keep-alive'')])"
    by (simp add: connection_line_def render_headers_def)
  moreover have "dump_body (req_body q) = render_headers
      (if req_body q = [] then [] else [(''content-length'', show_nat (length (req_body q)))]) @ crlf @ req_body q"
    by (simp add: dump_body_def render_headers_def)
  ultimately show ?thesis
    using assms show_version_text
    by (auto simp: req_dump_def req_head_def sendable_def wire_headers_def header_lines_render
        render_headers_append query_text_def)
qed

text \<open>The request the parser makes of it.\<close>

definition received :: "HttpRequest \<Rightarrow> HttpRequest" where
  "received q = set_headers (wire_headers q)
     ((HttpRequest_new 0x11 True)\<lparr>req_method := req_method q, req_path := req_path q,
        req_query := req_query q, req_version := req_version q\<rparr>)"

lemma runs_request:
  assumes q: "sendable q" and buf: "buf = req_head q @ x" and len: "length buf < 2 ^ 63"
  shows "\<exists>p. drop p buf = crlf @ x \<and> p + 2 = length (req_head q) \<and>
    runs buf (0, 1, (HttpRequest_new 0x11 True, 0)) (p, 13, (received q, 0))"
proof -
  let ?t = "HttpMethodToString (req_method q)"
  let ?q0 = "HttpRequest_new 0x11 True"
  let ?q1 = "?q0\<lparr>req_method := req_method q\<rparr>"
  let ?q2 = "?q1\<lparr>req_path := req_path q, req_query := req_query q\<rparr>"
  let ?q3 = "?q2\<lparr>req_version := req_version q\<rparr>"
  let ?heads = "render_headers (wire_headers q)"
  obtain seg where seg: "req_path q = CHR ''/'' # seg" "seg = [] \<or> hd seg \<noteq> CHR ''/''" "uri_text is_pchar seg"
    using q by (auto simp: sendable_def path_text_def split: list.splits)
  let ?r3 = "crlf @ x"
  let ?r2 = "version_text (req_version q) @ crlf @ ?heads @ ?r3"
  let ?r1 = "CHR ''/'' # seg @ query_text (req_query q) @ CHR '' '' # ?r2"
  have buf': "buf = ?t @ CHR '' '' # ?r1" using buf seg by (simp add: req_head_def)
  have m: "req_method q \<noteq> INVALID_METHOD" "req_method q \<noteq> MSEARCH" using q by (simp_all add: sendable_def)
  have cm: "CharsToHttpMethod buf = req_method q"
    using CharsToHttpMethod_iff [OF m(1), of buf] buf' by simp
  let ?p1 = "length ?t + 1"
  have run1: "runs buf (0, 1, (?q0, 0)) (?p1, 3, (?q1, 0))"
    using runs_method [OF buf' method_text [OF m] cm m(1), of "(?q0, 0)"] by simp
  have d1: "drop ?p1 buf = ?r1" using buf' by simp
  let ?p2 = "?p1 + length seg + length (query_text (req_query q)) + 2"
  have run2: "runs buf (?p1, 3, (?q1, 0)) (?p2, 4, (?q2, 0))"
    using runs_target [OF d1 seg(2,3) _ len, of ?q1 0] q seg(1)
    by (cases "req_query q = []") (simp_all add: sendable_def HttpRequest_new_def)
  have d2: "drop ?p2 buf = ?r2"
    using drop_append_eq [of ?p1 buf "CHR ''/'' # seg @ query_text (req_query q) @ '' ''" ?r2] d1
    by (simp add: add.assoc)
  let ?p3 = "?p2 + 10"
  have v: "req_version q = 0x11 \<or> req_version q = 0x10" using q by (simp add: sendable_def)
  have run3: "runs buf (?p2, 4, (?q2, 0)) (?p3, 13, (?q3, 0))"
    by (rule runs_version [OF d2 v])
  have "length (version_text (req_version q) @ crlf) = 10"
    by (simp add: version_text_def crlf_def)
  then have d3: "drop ?p3 buf = ?heads @ ?r3"
    using drop_append_eq [of ?p2 buf "version_text (req_version q) @ crlf" "?heads @ ?r3"] d2 by simp
  have run4: "runs buf (?p3, 13, (?q3, 0)) (?p3 + length ?heads, 13, (received q, 0))"
    using runs_headers [OF d3 wire_headers_ok [OF q] len, of ?q3 0] by (simp add: received_def)
  have "drop (?p3 + length ?heads) buf = ?r3" by (rule drop_append_eq [OF d3])
  moreover have "?p3 + length ?heads + 2 = length (req_head q)"
    using v by (auto simp: req_head_def seg version_text_def crlf_def)
  ultimately show ?thesis
    using runs_trans [OF runs_trans [OF runs_trans [OF run1 run2] run3] run4] by blast
qed

lemma execute_finished:
  assumes "hp_loop request_callbacks buf 0 1 ((http_parser_init P)\<lparr>hp_nread := 0, hp_mark := 0, hp_field_len := 0, hp_field_start := 0\<rparr>,
      (HttpRequest_new 0x11 True, 0)) = Inr (348, n, P', (q, 0))"
    and len: "length buf < 2 ^ 63" and "buf \<noteq> []"
  shows "\<exists>R. request_execute (HttpRequestParser_new P) buf = Inr (n, drop n buf, R) \<and>
    request_isFinished R = 1 \<and> \<not> request_hasError R \<and> rp_data R = q"
proof -
  let ?P = "(http_parser_init P)\<lparr>hp_nread := 0, hp_mark := 0, hp_field_len := 0, hp_field_start := 0\<rparr>"
  have "marks_ok (length buf) 0 1 ?P"
    using assms(3) by (simp add: marks_ok_def http_parser_init_def query_state_def)
  from hp_loop_ok [OF this len, of "(HttpRequest_new 0x11 True, 0)"] assms(1)
  have P': "n \<le> length buf" "marks_ok (length buf) n 348 P'" "hp_cs P' = 1" "hp_nread P' = 0"
    by (auto simp: loop_result_def http_parser_init_def)
  let ?R = "\<lparr>rp_parser = P'\<lparr>hp_cs := 348, hp_nread := n\<rparr>, rp_data = q, rp_error = 0\<rparr>"
  have "request_execute (HttpRequestParser_new P) buf = Inr (n, drop n buf, ?R)"
    using assms P'
    by (auto simp: request_execute_def HttpRequestParser_new_def http_parser_execute_def Let_def hp_check_def
        marks_ok_def http_parser_has_error_def http_parser_init_def)
  then show ?thesis
    by (auto simp: request_isFinished_def request_hasError_def http_parser_finish_def
        http_parser_has_error_def http_parser_is_finished_def)
qed

lemma wire_header_map:
  "header_map (wire_headers q) K =
    (if \<not> req_websocket q \<and> K = ci_key ''connection''
     then Some (if req_close q then ''close'' else ''keep-alive'')
     else if req_body q \<noteq> [] \<and> K = ci_key ''content-length'' then Some (show_nat (length (req_body q)))
     else header_map (req_headers q) K)"
proof -
  have "ci_key ''connection'' \<noteq> ci_key ''content-length''" by code_simp
  then show ?thesis
    by (auto simp: wire_headers_def header_map_filter header_map_filter [of False, simplified]
        header_map_Cons split: option.splits)
qed

lemma received_headers:
  assumes "sorted_wrt (\<lambda>x y. ci_key (fst x) < ci_key (fst y)) (req_headers q)"
  shows "req_hasHeader (received q) key =
    (if \<not> req_websocket q \<and> ci_key key = ci_key ''connection''
     then Some (if req_close q then ''close'' else ''keep-alive'')
     else if req_body q \<noteq> [] \<and> ci_key key = ci_key ''content-length'' then Some (show_nat (length (req_body q)))
     else req_hasHeader q key)"
proof -
  have "ci.map_ok (req_headers q)"
    using assms by (simp add: ci.map_ok_def CaseInsensitiveLess_key)
  from map_find_header_map [OF this, of key]
  have "header_map (req_headers q) (ci_key key) = req_hasHeader q key"
    by (simp add: req_hasHeader_def)
  moreover have "req_hasHeader (HttpRequest_new 0x11 True\<lparr>req_method := m, req_path := a, req_query := b, req_version := v\<rparr>) key = None" for m a b v
    by (simp add: req_hasHeader_def HttpRequest_new_def)
  ultimately show ?thesis
    unfolding received_def find_set_headers wire_header_map by (simp split: option.splits)
qed

lemma received_rest:
  "req_method (set_headers hs r) = req_method r" "req_version (set_headers hs r) = req_version r"
  "req_path (set_headers hs r) = req_path r" "req_query (set_headers hs r) = req_query r"
  "req_fragment (set_headers hs r) = req_fragment r" "req_close (set_headers hs r) = req_close r"
  by (induction hs arbitrary: r) (auto simp: set_headers_def req_setHeader_def)

lemma received_close:
  assumes "sorted_wrt (\<lambda>x y. ci_key (fst x) < ci_key (fst y)) (req_headers q)" "\<not> req_websocket q"
  shows "req_close (req_init (received q)) = req_close q"
proof -
  have "strcasecmp (c_str ''close'') ''keep-alive'' \<noteq> 0" "strcasecmp (c_str ''keep-alive'') ''keep-alive'' = 0"
    by code_simp+
  then show ?thesis
    using received_headers [OF assms(1), of "''connection''"] assms(2)
    by (auto simp: req_init_def req_getHeader_def req_hasHeader_def map_get_def Let_def)
qed

lemma request_head_parse:
  assumes "sendable q" and "length (req_head q @ x) < 2 ^ 63"
  shows "\<exists>R. request_execute (HttpRequestParser_new P) (req_head q @ x) = Inr (length (req_head q), x, R) \<and>
      request_isFinished R = 1 \<and> \<not> request_hasError R \<and> rp_data R = received q"
proof -
  let ?buf = "req_head q @ x"
  obtain p where p: "drop p ?buf = crlf @ x" "p + 2 = length (req_head q)"
    "runs ?buf (0, 1, (HttpRequest_new 0x11 True, 0)) (p, 13, (received q, 0))"
    using runs_request [OF assms(1) refl assms(2)] by blast
  let ?P = "(http_parser_init P)\<lparr>hp_nread := 0, hp_mark := 0, hp_field_len := 0, hp_field_start := 0\<rparr>"
  obtain P1 where "hp_loop request_callbacks ?buf 0 1 (?P, (HttpRequest_new 0x11 True, 0))
      = hp_loop request_callbacks ?buf p 13 (P1, (received q, 0))"
    using p(3) by (auto simp: runs_def)
  moreover obtain P2 where "hp_loop request_callbacks ?buf p 13 (P1, (received q, 0)) = Inr (348, p + 2, P2, (received q, 0))"
    using hp_loop_done [OF p(1)] by blast
  ultimately have run: "hp_loop request_callbacks ?buf 0 1 (?P, (HttpRequest_new 0x11 True, 0))
      = Inr (348, p + 2, P2, (received q, 0))" by simp
  have ne: "?buf \<noteq> []" using p(1) by (auto simp: crlf_def)
  have "drop (p + 2) ?buf = x" using drop_append_eq [OF p(1)] by (simp add: crlf_def)
  then show ?thesis using execute_finished [OF run assms(2) ne] p(2) by simp
qed

text \<open>
  C17. A request that is written is read back: what \<open>HttpRequest::dump\<close> writes for a request with a
  method the grammar can spell, an absolute path, well-formed query text and header lines, the
  parser accepts in one call, up to the end of the head and with the body left in front of the
  data; the object it fills has the same method, version, path and query, it answers
  \<open>hasHeader\<close> for every key as the original does (the connection header written from the close
  flag and the length of the body added), and \<open>init\<close> recovers the close flag.
\<close>

theorem request_dump_parse:
  assumes "sendable q" and "sorted_wrt (\<lambda>x y. ci_key (fst x) < ci_key (fst y)) (req_headers q)"
    and "length (req_dump q) < 2 ^ 63"
  shows "\<exists>R. request_execute (HttpRequestParser_new P) (req_dump q)
        = Inr (length (req_dump q) - length (req_body q), req_body q, R) \<and>
      request_isFinished R = 1 \<and> \<not> request_hasError R \<and>
      req_method (rp_data R) = req_method q \<and> req_version (rp_data R) = req_version q \<and>
      req_path (rp_data R) = req_path q \<and> req_query (rp_data R) = req_query q \<and>
      req_fragment (rp_data R) = req_fragment q \<and>
      (\<forall>key. req_hasHeader (rp_data R) key =
         (if \<not> req_websocket q \<and> ci_key key = ci_key ''connection''
          then Some (if req_close q then ''close'' else ''keep-alive'')
          else if req_body q \<noteq> [] \<and> ci_key key = ci_key ''content-length''
          then Some (show_nat (length (req_body q)))
          else req_hasHeader q key)) \<and>
      (req_websocket q \<or> req_close (req_init (rp_data R)) = req_close q)"
proof -
  have dump: "req_dump q = req_head q @ req_body q" by (rule req_dump_parts [OF assms(1)])
  obtain R where "request_execute (HttpRequestParser_new P) (req_head q @ req_body q)
      = Inr (length (req_head q), req_body q, R)"
    "request_isFinished R = 1" "\<not> request_hasError R" "rp_data R = received q"
    using request_head_parse [OF assms(1), of "req_body q" P] assms(3) dump by auto
  then show ?thesis
    using assms(1) dump received_close [OF assms(2)] received_headers [OF assms(2)]
    by (intro exI [where x = R]) (auto simp: received_def received_rest sendable_def HttpRequest_new_def)
qed

definition sample_request :: HttpRequest where
  "sample_request = (HttpRequest_new 0x11 False)\<lparr>req_method := POST, req_path := ''/a/%41'',
     req_query := ''x=1'', req_body := ''ab'', req_headers := [(''Host'', ''h'')]\<rparr>"

lemma request_dump_parse_witness:
  "\<exists>R. request_execute (HttpRequestParser_new zero_parser) (req_dump sample_request)
     = Inr (length (req_dump sample_request) - 2, ''ab'', R) \<and> request_isFinished R = 1 \<and>
     req_hasHeader (rp_data R) ''HOST'' = Some ''h''"
proof -
  have 1: "sendable sample_request" by code_simp
  have 2: "sorted_wrt (\<lambda>x y. ci_key (fst x) < ci_key (fst y)) (req_headers sample_request)"
    by (simp add: sample_request_def HttpRequest_new_def)
  have "length (req_dump sample_request) < 200" by code_simp
  then have 3: "length (req_dump sample_request) < 2 ^ 63" by simp
  have body: "req_body sample_request = ''ab''" by code_simp
  have keys: "ci_key ''HOST'' \<noteq> ci_key ''connection''" "ci_key ''HOST'' \<noteq> ci_key ''content-length''"
    "req_hasHeader sample_request ''HOST'' = Some ''h''" by code_simp+
  obtain R where R: "request_execute (HttpRequestParser_new zero_parser) (req_dump sample_request)
     = Inr (length (req_dump sample_request) - length (req_body sample_request), req_body sample_request, R)"
    "request_isFinished R = 1" "req_hasHeader (rp_data R) ''HOST'' = Some ''h''"
    using request_dump_parse [OF 1 2 3, of zero_parser] keys by auto
  show ?thesis by (rule exI [of _ R]) (use R body in simp)
qed

end
