(* ===== verification/Httpclient_Props.thy ===== *)
theory Httpclient_Props
  imports Httpclient_Safety Http11_Roundtrip
begin

text \<open>
  The response parser on well-formed responses: the table at the states of a response, and runs of
  the loop over its pieces (status line, header lines, chunk sizes), put together. Header names
  that begin like \<open>Connection\<close>, \<open>Content-Length\<close> or \<open>Transfer-Encoding\<close> go through states of their own;
  what these have in common is stated for sets of states.
\<close>

section \<open>The table at the states of a response\<close>

lemma client_trans_nth: "0 < k \<Longrightarrow> k \<le> 123 \<Longrightarrow> client_trans k = client_states ! (k - 1)"
  by (intro ext) (simp add: client_trans_def length_client_states)

lemma client_trans_1: "client_trans (Suc 0) = client_st1"
  by (simp add: client_trans_nth) (simp add: client_states_def)

lemma client_trans_at:
  "client_trans 2 = client_st2" "client_trans 3 = client_st3" "client_trans 8 = client_st8"
  "client_trans 9 = client_st9" "client_trans 10 = client_st10" "client_trans 11 = client_st11"
  "client_trans 12 = client_st12" "client_trans 13 = client_st13" "client_trans 14 = client_st14"
  "client_trans 15 = client_st15" "client_trans 16 = client_st16" "client_trans 17 = client_st17"
  "client_trans 18 = client_st18" "client_trans 19 = client_st19" "client_trans 20 = client_st20"
  "client_trans 21 = client_st21" "client_trans 22 = client_st22" "client_trans 23 = client_st23"
  "client_trans 24 = client_st24" "client_trans 25 = client_st25" "client_trans 26 = client_st26"
  "client_trans 27 = client_st27" "client_trans 28 = client_st28" "client_trans 29 = client_st29"
  "client_trans 30 = client_st30" "client_trans 31 = client_st31" "client_trans 32 = client_st32"
  "client_trans 33 = client_st33" "client_trans 34 = client_st34" "client_trans 35 = client_st35"
  "client_trans 36 = client_st36" "client_trans 43 = client_st43" "client_trans 44 = client_st44"
  "client_trans 45 = client_st45" "client_trans 46 = client_st46" "client_trans 47 = client_st47"
  "client_trans 48 = client_st48" "client_trans 49 = client_st49" "client_trans 50 = client_st50"
  "client_trans 51 = client_st51" "client_trans 52 = client_st52" "client_trans 53 = client_st53"
  "client_trans 54 = client_st54" "client_trans 55 = client_st55" "client_trans 56 = client_st56"
  "client_trans 57 = client_st57" "client_trans 58 = client_st58" "client_trans 59 = client_st59"
  "client_trans 60 = client_st60" "client_trans 61 = client_st61" "client_trans 71 = client_st71"
  "client_trans 81 = client_st81" "client_trans 82 = client_st82" "client_trans 83 = client_st83"
  "client_trans 84 = client_st84" "client_trans 85 = client_st85" "client_trans 86 = client_st86"
  "client_trans 87 = client_st87" "client_trans 88 = client_st88" "client_trans 95 = client_st95"
  "client_trans 96 = client_st96" "client_trans 97 = client_st97" "client_trans 98 = client_st98"
  "client_trans 99 = client_st99" "client_trans 100 = client_st100" "client_trans 101 = client_st101"
  "client_trans 102 = client_st102" "client_trans 103 = client_st103" "client_trans 104 = client_st104"
  "client_trans 105 = client_st105" "client_trans 106 = client_st106" "client_trans 107 = client_st107"
  "client_trans 108 = client_st108" "client_trans 109 = client_st109" "client_trans 110 = client_st110"
  "client_trans 111 = client_st111" "client_trans 112 = client_st112" "client_trans 119 = client_st119"
  by (simp_all add: client_trans_nth) (simp_all add: client_states_def)

lemmas client_table = client_trans_1 client_trans_at client_st_defs client_tr_defs to_st_def

text \<open>The codes of token characters and of \<open>transfer-encoding\<close>.\<close>

definition token_code :: "int \<Rightarrow> bool" where
  "token_code n \<longleftrightarrow> n \<in> {33, 42, 43, 45, 46, 124, 126} \<or> 35 \<le> n \<and> n \<le> 39
     \<or> 48 \<le> n \<and> n \<le> 57 \<or> 65 \<le> n \<and> n \<le> 90 \<or> 94 \<le> n \<and> n \<le> 122"

definition te_codes :: "int list" where
  "te_codes = [116, 114, 97, 110, 115, 102, 101, 114, 45, 101, 110, 99, 111, 100, 105, 110, 103]"

definition lower_int :: "int \<Rightarrow> int" where
  "lower_int n = (if 65 \<le> n \<and> n \<le> 90 then n + 32 else n)"

definition name_st :: "nat \<Rightarrow> bool" where
  "name_st n \<longleftrightarrow> n = 21 \<or> 25 \<le> n \<and> n \<le> 34 \<or> 44 \<le> n \<and> n \<le> 60 \<or> 101 \<le> n \<and> n \<le> 111"

text \<open>A token character inside a name; states 44 to 60 count the letters of \<open>transfer-encoding\<close>.\<close>

fun name_step :: "int \<Rightarrow> nat \<Rightarrow> client_target \<Rightarrow> bool" where
  "name_step c s (as, t) \<longleftrightarrow> as = [] \<and> name_st t \<and>
     (44 \<le> t \<and> t \<le> 60 \<longrightarrow> 44 \<le> s \<and> t = s + 1 \<and> lower_int c = te_codes ! (t - 44))"

lemma token_codes:
  assumes "token_code c"
  shows "c \<noteq> 58" "39 < c \<Longrightarrow> c < 45 \<Longrightarrow> 42 \<le> c \<and> c \<le> 43" "c \<le> 39 \<Longrightarrow> c \<noteq> 33 \<Longrightarrow> 35 \<le> c"
    "46 < c \<Longrightarrow> c < 65 \<Longrightarrow> 48 \<le> c \<and> c \<le> 57" "90 < c \<Longrightarrow> c \<noteq> 124 \<Longrightarrow> c \<noteq> 126 \<Longrightarrow> 94 \<le> c \<and> c \<le> 122"
    "39 < c \<Longrightarrow> c < 48 \<Longrightarrow> c \<noteq> 45 \<Longrightarrow> c \<noteq> 46 \<Longrightarrow> 42 \<le> c \<and> c \<le> 43" "57 < c \<Longrightarrow> 65 \<le> c"
  using assms unfolding token_code_def insert_iff empty_iff by presburger+

lemma name_21: "name_step c s (to_st 21)"
  by (simp add: to_st_def name_st_def)

text \<open>The tests most of these states have in common.\<close>

definition token_tests :: "int \<Rightarrow> int \<Rightarrow> 'a \<Rightarrow> 'a \<Rightarrow> 'a" where
  "token_tests m c x z =
     (if c < 45 then (if 39 < c then (if 42 \<le> c \<and> c \<le> 43 then x else z)
       else if 35 \<le> c then x
       else z)
     else if 46 < c then (if c < m then (if 48 \<le> c \<and> c \<le> 57 then x
         else z)
       else if 90 < c then (if 94 \<le> c \<and> c \<le> 122 then x
         else z)
       else x)
     else x)"

lemma token_tests_yes:
  assumes "token_code c" "c \<notin> {33, 124, 126}" "m = 65 \<or> m = 66 \<and> c \<noteq> 65"
  shows "token_tests m c x z = x"
proof -
  have "c \<noteq> 33" "c \<noteq> 124" "c \<noteq> 126" using assms(2) by simp_all
  moreover have "46 < c \<Longrightarrow> c < m \<Longrightarrow> 48 \<le> c \<and> c \<le> 57" using token_codes(4) [OF assms(1)] assms(3) by linarith
  ultimately show ?thesis using token_codes [OF assms(1)] unfolding token_tests_def by simp
qed

lemma name_tests_0:
  assumes "token_code c" and "name_step c s x"
  shows "name_step c s (if c \<in> {33, 124, 126} then x else if c = 58 then y else token_tests 65 c x z)"
  using assms token_codes(1) [OF assms(1)] by (simp add: token_tests_yes)

lemma name_tests_1:
  assumes "token_code c" and "name_step c s x" and "c \<in> L \<Longrightarrow> name_step c s w" and "m = 65 \<or> m = 66 \<and> 65 \<in> L"
  shows "name_step c s (if c \<in> {33, 124, 126} then x else if c = 58 then y else if c \<in> L then w else token_tests m c x z)"
proof -
  have "token_tests m c x z = x" if "c \<notin> {33, 124, 126}" "c \<notin> L"
    by (rule token_tests_yes) (use assms that in auto)
  then show ?thesis using assms token_codes(1) [OF assms(1)] by auto
qed

lemma name_tests_2:
  assumes "token_code c" and "name_step c s x" and "c \<in> L \<Longrightarrow> name_step c s w" and "c \<in> L' \<Longrightarrow> name_step c s w'"
  shows "name_step c s (if c \<in> {33, 124, 126} then x else if c = 58 then y else if c \<in> L then w
    else if c \<in> L' then w' else token_tests 65 c x z)"
  using assms token_codes(1) [OF assms(1)] by (auto simp: token_tests_yes)

lemma name_tests_3:
  assumes "token_code c" and "name_step c s x" and "c = 45 \<Longrightarrow> name_step c s w"
  shows "name_step c s (if c \<in> {33, 46, 124, 126} then x else if c = 45 then w else if c = 58 then y
    else if c < 48 then (if 39 < c then (if 42 \<le> c \<and> c \<le> 43 then x else z) else if 35 \<le> c then x else z)
    else if 57 < c then (if 90 < c then (if 94 \<le> c \<and> c \<le> 122 then x else z) else if 65 \<le> c then x else z)
    else x)"
  using assms token_codes [OF assms(1)] by simp

lemmas name_step_defs = to_st_def name_st_def lower_int_def te_codes_def

lemmas name_tests = name_21 name_tests_0 [unfolded token_tests_def] name_tests_1 [unfolded token_tests_def]
  name_tests_2 [unfolded token_tests_def] name_tests_3

lemma name_steps_1:
  assumes "token_code c"
  shows "name_step c 21 (client_st21 c)" and "name_step c 25 (client_st25 c)"
    and "name_step c 26 (client_st26 c)" and "name_step c 27 (client_st27 c)"
    and "name_step c 28 (client_st28 c)" and "name_step c 29 (client_st29 c)"
    and "name_step c 30 (client_st30 c)" and "name_step c 31 (client_st31 c)"
    and "name_step c 32 (client_st32 c)" and "name_step c 33 (client_st33 c)"
  unfolding 
    client_st21_def client_st25_def client_st26_def client_st27_def 
    client_st28_def client_st29_def client_st30_def client_st31_def 
    client_st32_def client_st33_def
  by (rule name_tests, rule assms, rule name_21; auto simp: name_step_defs)+

lemma name_steps_2:
  assumes "token_code c"
  shows "name_step c 34 (client_st34 c)" and "name_step c 44 (client_st44 c)"
    and "name_step c 45 (client_st45 c)" and "name_step c 46 (client_st46 c)"
    and "name_step c 47 (client_st47 c)" and "name_step c 48 (client_st48 c)"
    and "name_step c 49 (client_st49 c)" and "name_step c 50 (client_st50 c)"
    and "name_step c 51 (client_st51 c)" and "name_step c 52 (client_st52 c)"
  unfolding 
    client_st34_def client_st44_def client_st45_def client_st46_def 
    client_st47_def client_st48_def client_st49_def client_st50_def 
    client_st51_def client_st52_def
  by (rule name_tests, rule assms, rule name_21; auto simp: name_step_defs)+

lemma name_steps_3:
  assumes "token_code c"
  shows "name_step c 53 (client_st53 c)" and "name_step c 54 (client_st54 c)"
    and "name_step c 55 (client_st55 c)" and "name_step c 56 (client_st56 c)"
    and "name_step c 57 (client_st57 c)" and "name_step c 58 (client_st58 c)"
    and "name_step c 59 (client_st59 c)" and "name_step c 60 (client_st60 c)"
    and "name_step c 101 (client_st101 c)" and "name_step c 102 (client_st102 c)"
  unfolding 
    client_st53_def client_st54_def client_st55_def client_st56_def 
    client_st57_def client_st58_def client_st59_def client_st60_def 
    client_st101_def client_st102_def
  by (rule name_tests, rule assms, rule name_21; auto simp: name_step_defs)+

lemma name_steps_4:
  assumes "token_code c"
  shows "name_step c 103 (client_st103 c)" and "name_step c 104 (client_st104 c)"
    and "name_step c 105 (client_st105 c)" and "name_step c 106 (client_st106 c)"
    and "name_step c 107 (client_st107 c)" and "name_step c 108 (client_st108 c)"
    and "name_step c 109 (client_st109 c)" and "name_step c 110 (client_st110 c)"
    and "name_step c 111 (client_st111 c)"
  unfolding 
    client_st103_def client_st104_def client_st105_def client_st106_def 
    client_st107_def client_st108_def client_st109_def client_st110_def 
    client_st111_def
  by (rule name_tests, rule assms, rule name_21; auto simp: name_step_defs)+


end
