(* ===== verification/Httpclient_Roundtrip.thy ===== *)
theory Httpclient_Roundtrip
  imports Httpclient_Props
begin

text \<open>
  Written and read back by the client: what \<open>HttpResponse::dump\<close> writes, run through the response
  parser, and the header of a chunk.
\<close>

section \<open>Running the parser\<close>

lemma cp_loop_step:
  assumes "drop p buf = c # rest" and "client_trans cs (schar c) = (as, n)" and "n \<noteq> 0" and "client_done as = None"
    and "cp_acts response_callbacks buf tail p as s = Inr s'"
  shows "cp_loop response_callbacks buf tail p cs s = cp_loop response_callbacks buf tail (Suc p) n s'"
  using drop_nth [OF assms(1)] assms(2-) by (subst cp_loop.simps) simp

lemma cp_loop_block:
  assumes "drop p buf = xs @ rest" and "cs \<noteq> 0" and "\<And>c. c \<in> set xs \<Longrightarrow> client_trans cs (schar c) = ([], cs)"
  shows "cp_loop response_callbacks buf tail p cs s = cp_loop response_callbacks buf tail (p + length xs) cs s"
  using assms(1,3)
proof (induction xs arbitrary: p)
  case (Cons x xs)
  have d: "drop p buf = x # (xs @ rest)" using Cons.prems(1) by simp
  have "cp_loop response_callbacks buf tail p cs s = cp_loop response_callbacks buf tail (Suc p) cs s"
    by (rule cp_loop_step [OF d, where as = "[]"]) (use Cons.prems(2) assms(2) in simp_all)
  then show ?case using Cons.IH [of "Suc p"] Cons.prems(2) drop_Suc_eq [OF d] by simp
qed simp

lemma string_part:
  assumes "length (buf @ tail) < 2 ^ 63" "drop p buf = xs @ rest"
  shows "with_string (PTR_TO (buf @ tail) p) (LEN p (p + length xs)) f = f xs"
    and "with_string (PTR_TO (buf @ tail) p) (length xs) f = f xs"
proof -
  have "p \<le> length buf \<or> xs @ rest = []" using assms(2) by (metis drop_all linorder_linear)
  moreover have "xs = []" if "xs @ rest = []" using that by simp
  ultimately have eq: "drop p (buf @ tail) = xs @ (rest @ drop (p - length buf) tail)"
    using assms(2) by auto
  then show "with_string (PTR_TO (buf @ tail) p) (LEN p (p + length xs)) f = f xs"
    using with_string_part [OF assms(1) eq, of f] by simp
  then show "with_string (PTR_TO (buf @ tail) p) (length xs) f = f xs" by (simp add: LEN_def sub64_le)
qed

section \<open>Header names\<close>

lemma token_code_schar: "is_token_char c \<longleftrightarrow> token_code (schar c)"
  by (simp add: is_token_char_def token_code_def Let_def)

lemma name_st_cases:
  "name_st s \<Longrightarrow> s \<in> {21, 25, 26, 27, 28, 29, 30, 31, 32, 33, 34, 44, 45, 46, 47, 48, 49, 50, 51, 52, 53, 54, 55, 56, 57,
      58, 59, 60, 101, 102, 103, 104, 105, 106, 107, 108, 109, 110, 111}"
  unfolding name_st_def insert_iff empty_iff by presburger

lemma name_trans:
  assumes "name_st s" "token_code c"
  shows "name_step c s (client_trans s c)"
  using name_st_cases [OF assms(1)] name_steps_1 [OF assms(2)] name_steps_2 [OF assms(2)] name_steps_3 [OF assms(2)]
    name_steps_4 [OF assms(2)]
  by (elim insertE emptyE; simp only: client_trans_at)

lemma name_colon:
  assumes "name_st s"
  shows "\<exists>v. client_trans s 58 = ([C_Write_field], v) \<and> v \<in> {22, 35, 61, 112} \<and> (v = 61 \<longrightarrow> s = 60)"
  using name_st_cases [OF assms] by (elim insertE emptyE; simp add: client_table)

text \<open>At the start of a line: state 20, or 43 behind \<open>Connection: close\<close>.\<close>

definition line_st :: "nat \<Rightarrow> bool" where
  "line_st s \<longleftrightarrow> s = 20 \<or> s = 43"

fun start_step :: "int \<Rightarrow> client_target \<Rightarrow> bool" where
  "start_step c (as, t) \<longleftrightarrow> as \<in> {[C_Start_field], [C_Write_connection_close, C_Start_field]} \<and> name_st t \<and>
     (44 \<le> t \<and> t \<le> 60 \<longrightarrow> t = 44 \<and> lower_int c = 116)"

lemma start_tests:
  assumes "token_code c" and "start_step c x" and "c \<in> L \<Longrightarrow> start_step c w" and "c \<in> L' \<Longrightarrow> start_step c w'"
  shows "start_step c (if c = 10 then y else if c = 13 then y' else if c \<in> {33, 124, 126} then x
    else if c \<in> L then w else if c \<in> L' then w' else token_tests 65 c x z)"
proof -
  have "c \<noteq> 10" "c \<noteq> 13" using assms(1) by (auto simp: token_code_def)
  then show ?thesis using assms by (auto simp: token_tests_yes)
qed

lemma line_start_trans:
  assumes "line_st s" "token_code c"
  shows "start_step c (client_trans s c)"
proof -
  have "start_step c (client_st20 c)" "start_step c (client_st43 c)"
    unfolding client_st20_def client_st43_def
    by (rule start_tests [unfolded token_tests_def], rule assms(2);
        auto simp: client_tr_defs name_st_def lower_int_def)+
  then show ?thesis using assms(1) by (auto simp: line_st_def client_trans_at)
qed

text \<open>States 44 to 60 are reached with the beginning of \<open>transfer-encoding\<close> only.\<close>

definition te_upto :: "nat \<Rightarrow> string \<Rightarrow> bool" where
  "te_upto t xs \<longleftrightarrow> (44 \<le> t \<and> t \<le> 60 \<longrightarrow> map (\<lambda>c. lower_int (schar c)) xs = take (t - 43) te_codes)"

lemma te_upto_step: "te_upto s xs \<Longrightarrow> name_step (schar c) s (as, t) \<Longrightarrow> te_upto t (xs @ [c])"
proof (unfold te_upto_def, intro impI)
  assume te: "44 \<le> s \<and> s \<le> 60 \<longrightarrow> map (\<lambda>c. lower_int (schar c)) xs = take (s - 43) te_codes"
    and n: "name_step (schar c) s (as, t)" and t: "44 \<le> t \<and> t \<le> 60"
  have s: "44 \<le> s" "t = s + 1" "lower_int (schar c) = te_codes ! (t - 44)" using n t by simp_all
  have "length te_codes = 17" by (simp add: te_codes_def)
  then have "take (Suc (s - 43)) te_codes = take (s - 43) te_codes @ [te_codes ! (s - 43)]"
    using s t by (intro take_Suc_conv_app_nth) simp
  then have "take (t - 43) te_codes = take (s - 43) te_codes @ [lower_int (schar c)]"
  proof -
    have "Suc (s - 43) = t - 43" "s - 43 = t - 44" using s by simp_all
    then show ?thesis using s(3) \<open>take (Suc (s - 43)) te_codes = _\<close> by (simp only:)
  qed
  moreover have "map (\<lambda>c. lower_int (schar c)) xs = take (s - 43) te_codes" using te s t by linarith
  ultimately show "map (\<lambda>c. lower_int (schar c)) (xs @ [c]) = take (t - 43) te_codes" by simp
qed

lemma cp_loop_name_block:
  assumes "drop p buf = xs @ rest" "\<forall>c\<in>set xs. is_token_char c" "name_st s" "te_upto s pre"
  shows "\<exists>t. cp_loop response_callbacks buf tail p s \<sigma> = cp_loop response_callbacks buf tail (p + length xs) t \<sigma> \<and>
    name_st t \<and> te_upto t (pre @ xs)"
  using assms
proof (induction xs arbitrary: p s pre)
  case (Cons c xs)
  have d: "drop p buf = c # (xs @ rest)" using Cons.prems(1) by simp
  obtain as t where t: "client_trans s (schar c) = (as, t)" by (cases "client_trans s (schar c)")
  have n: "name_step (schar c) s (as, t)"
    using name_trans [of s "schar c"] Cons.prems(2,3) t by (simp add: token_code_schar)
  then have t': "as = []" "name_st t" by simp_all
  have "t \<noteq> 0" using t'(2) by (auto simp: name_st_def)
  then have "cp_loop response_callbacks buf tail p s \<sigma> = cp_loop response_callbacks buf tail (Suc p) t \<sigma>"
    by (intro cp_loop_step [OF d t]) (simp_all add: t')
  then show ?case
    using Cons.IH [OF drop_Suc_eq [OF d] _ t'(2) te_upto_step [OF Cons.prems(4) n]] Cons.prems(2) by simp
qed auto

text \<open>A whole name with its colon and the blank: the marks are set, and behind \<open>Transfer-Encoding\<close> only is state 61.\<close>

lemma cp_loop_header_name:
  assumes p: "drop p buf = k @ '': '' @ rest" and k: "k \<noteq> []" "\<forall>c\<in>set k. is_token_char c" and s: "line_st s"
  shows "\<exists>v P'. cp_loop response_callbacks buf tail p s (P, d) =
      cp_loop response_callbacks buf tail (p + length k + 2) v (P', d) \<and>
    cp_field_start P' = p \<and> cp_field_len P' = length k \<and> cp_chunked P' = cp_chunked P \<and> v \<in> {22, 35, 61, 112} \<and>
    (v = 61 \<longrightarrow> map (\<lambda>c. lower_int (schar c)) k = te_codes)"
proof -
  obtain c cs where kc: "k = c # cs" using k by (cases k) auto
  have d0: "drop p buf = c # (cs @ '': '' @ rest)" using p kc by simp
  note d1 = drop_Suc_eq [OF d0]
  obtain as t where t: "client_trans s (schar c) = (as, t)" by (cases "client_trans s (schar c)")
  have st: "start_step (schar c) (as, t)"
    using line_start_trans [OF s, of "schar c"] k kc t by (simp add: token_code_schar)
  then obtain P1 where P1: "cp_acts response_callbacks buf tail p as (P, d) = Inr (P1, d)" "client_done as = None"
    "cp_field_start P1 = p" "cp_chunked P1 = cp_chunked P" "t \<noteq> 0"
    by (auto simp: name_st_def)
  have "te_upto t [c]" using st by (auto simp: te_upto_def te_codes_def)
  then obtain u where u: "cp_loop response_callbacks buf tail (Suc p) t (P1, d)
      = cp_loop response_callbacks buf tail (Suc p + length cs) u (P1, d)" "name_st u" "te_upto u k"
    using cp_loop_name_block [OF d1, of t "[c]" tail "(P1, d)"] st k kc by auto
  have d2: "drop (p + length k) buf = CHR '':'' # (CHR '' '' # rest)" using drop_append_eq [OF p] by simp
  note d3 = drop_Suc_eq [OF d2]
  obtain v where v: "client_trans u 58 = ([C_Write_field], v)" "v \<in> {22, 35, 61, 112}" "v = 61 \<longrightarrow> u = 60"
    using name_colon [OF u(2)] by blast
  let ?P2 = "P1\<lparr>cp_field_len := length k\<rparr>"
  have "cp_loop response_callbacks buf tail p s (P, d) = cp_loop response_callbacks buf tail (Suc p) t (P1, d)"
    by (rule cp_loop_step [OF d0 t P1(5,2,1)])
  also have "\<dots> = cp_loop response_callbacks buf tail (p + length k) u (P1, d)" using u(1) kc by simp
  also have "\<dots> = cp_loop response_callbacks buf tail (Suc (p + length k)) v (?P2, d)"
    by (rule cp_loop_step [OF d2, where as = "[C_Write_field]"])
      (use v P1(3) in \<open>auto simp: schar_lit LEN_def sub64_le\<close>)
  also have "\<dots> = cp_loop response_callbacks buf tail (Suc (Suc (p + length k))) v (?P2\<lparr>cp_mark := Suc (p + length k)\<rparr>, d)"
    by (rule cp_loop_step [OF d3, where as = "[C_Mark]"]) (use v(2) in \<open>auto simp: schar_lit client_table\<close>)
  finally have "cp_loop response_callbacks buf tail p s (P, d) = cp_loop response_callbacks buf tail (p + length k + 2) v
      (?P2\<lparr>cp_mark := Suc (p + length k)\<rparr>, d)" by simp
  moreover have "v = 61 \<longrightarrow> map (\<lambda>c. lower_int (schar c)) k = te_codes"
    using u(3) v(3) by (simp add: te_upto_def te_codes_def)
  ultimately show ?thesis using P1(3,4) v(2) by (intro exI conjI) (assumption | simp)+
qed

section \<open>Header values\<close>

definition is_field_value :: "string \<Rightarrow> bool" where
  "is_field_value v \<longleftrightarrow> v \<noteq> [] \<and> (\<forall>c\<in>set v. schar c \<notin> {10, 13}) \<and> schar (hd v) \<notin> {9, 11, 12, 32}"

definition val_st :: "nat \<Rightarrow> bool" where
  "val_st w \<longleftrightarrow> w = 23 \<or> 81 \<le> w \<and> w \<le> 87 \<or> 96 \<le> w \<and> w \<le> 100 \<or> w = 119"

lemma val_st_cases: "val_st w \<Longrightarrow> w \<in> {23, 81, 82, 83, 84, 85, 86, 87, 96, 97, 98, 99, 100, 119}"
  unfolding val_st_def insert_iff empty_iff by presburger

lemma value_first:
  assumes "v \<in> {22, 35, 61, 112}" "c \<notin> {9, 10, 11, 12, 13, 32}"
  shows "\<exists>w. client_trans v c = ([C_Mark], w) \<and> val_st w \<and> (81 \<le> w \<and> w \<le> 87 \<longrightarrow> v = 61)"
proof -
  have "\<not> (9 \<le> c \<and> c \<le> 12)" "c \<noteq> 10" "c \<noteq> 13" "c \<noteq> 32" "12 < c \<or> c < 9"
    using assms(2) by (simp_all, presburger+)
  then show ?thesis using assms(1)
    by (elim insertE emptyE; simp add: client_table val_st_def split: if_split; linarith?)
qed

lemma value_next:
  assumes "val_st w" "c \<noteq> 10" "c \<noteq> 13"
  shows "\<exists>w'. client_trans w c = ([], w') \<and> val_st w' \<and> (81 \<le> w' \<and> w' \<le> 87 \<longrightarrow> 81 \<le> w \<and> w \<le> 87)"
  using val_st_cases [OF assms(1)] assms(2,3)
  by (elim insertE emptyE; simp add: client_table val_st_def split: if_split)

lemma value_end:
  assumes "val_st w"
  shows "\<exists>as e. client_trans w 13 = (as, e) \<and> as \<in> {[C_Write_value], [C_Write_content_len, C_Write_value]} \<and>
    (e = 24 \<or> e = 88 \<or> e = 71 \<and> w = 87)"
  using val_st_cases [OF assms] by (elim insertE emptyE; simp add: client_table)

lemma cp_loop_value_block:
  assumes "drop p buf = xs @ rest" "\<forall>c\<in>set xs. schar c \<notin> {10, 13}" "val_st w"
  shows "\<exists>w'. cp_loop response_callbacks buf tail p w \<sigma> = cp_loop response_callbacks buf tail (p + length xs) w' \<sigma> \<and>
    val_st w' \<and> (81 \<le> w' \<and> w' \<le> 87 \<longrightarrow> 81 \<le> w \<and> w \<le> 87)"
  using assms
proof (induction xs arbitrary: p w)
  case (Cons c xs)
  have d: "drop p buf = c # (xs @ rest)" using Cons.prems(1) by simp
  obtain w1 where w1: "client_trans w (schar c) = ([], w1)" "val_st w1" "81 \<le> w1 \<and> w1 \<le> 87 \<longrightarrow> 81 \<le> w \<and> w \<le> 87"
    using value_next [OF Cons.prems(3), of "schar c"] Cons.prems(2) by auto
  have "w1 \<noteq> 0" using w1(2) by (auto simp: val_st_def)
  then have "cp_loop response_callbacks buf tail p w \<sigma> = cp_loop response_callbacks buf tail (Suc p) w1 \<sigma>"
    by (intro cp_loop_step [OF d w1(1)]) simp_all
  then show ?case
    using Cons.IH [OF drop_Suc_eq [OF d] _ w1(2)] Cons.prems(2) w1(3) by fastforce
qed auto

lemma on_response_field_part:
  assumes "length (buf @ tail) < 2 ^ 63" "drop f buf = k @ x" "drop m buf = v @ y" "k \<noteq> []"
  shows "on_response_http_field (PTR_TO (buf @ tail) f) (length k) (PTR_TO (buf @ tail) m) (LEN m (m + length v)) (q, e)
    = Inr (rsp_setHeader k v q, e)"
proof -
  have "with_string (PTR_TO (buf @ tail) f) (length k) g = g k"
    "with_string (PTR_TO (buf @ tail) m) (LEN m (m + length v)) g = g v"
    for g :: "string \<Rightarrow> hp_error + response_data"
    using string_part(2) [OF assms(1,2), of g] string_part(1) [OF assms(1,3), of g] by simp_all
  then show ?thesis using assms(4) by (simp add: on_response_http_field_def)
qed

lemma cp_loop_header_value:
  assumes f: "drop (cp_field_start P) buf = k @ x" "cp_field_len P = length k" "k \<noteq> []"
    and m: "drop m buf = v @ crlf @ rest" and v: "is_field_value v" and len: "length (buf @ tail) < 2 ^ 63"
    and s: "s \<in> {22, 35, 61, 112}"
  shows "\<exists>s' P'. cp_loop response_callbacks buf tail m s (P, (q, e)) =
      cp_loop response_callbacks buf tail (m + length v + 2) s' (P', (rsp_setHeader k v q, e)) \<and> line_st s' \<and>
    (s \<noteq> 61 \<longrightarrow> cp_chunked P' = cp_chunked P)"
proof -
  let ?n = "m + length v" and ?P = "P\<lparr>cp_mark := m\<rparr>" and ?q = "rsp_setHeader k v q"
  obtain c cs where vc: "v = c # cs" using v by (cases v) (auto simp: is_field_value_def)
  have c: "schar c \<notin> {9, 10, 11, 12, 13, 32}" "\<forall>x\<in>set cs. schar x \<notin> {10, 13}"
    using v vc by (auto simp: is_field_value_def)
  have d0: "drop m buf = c # (cs @ crlf @ rest)" using m vc by simp
  have dn: "drop ?n buf = CHR 0x0D # (CHR 0x0A # rest)" using drop_append_eq [OF m] by (simp add: crlf_def)
  note dn' = drop_Suc_eq [OF dn]
  obtain w where w: "client_trans s (schar c) = ([C_Mark], w)" "val_st w" "81 \<le> w \<and> w \<le> 87 \<longrightarrow> s = 61"
    using value_first [OF s c(1)] by blast
  obtain w' where w': "cp_loop response_callbacks buf tail (Suc m) w (?P, (q, e))
      = cp_loop response_callbacks buf tail (Suc m + length cs) w' (?P, (q, e))"
    "val_st w'" "81 \<le> w' \<and> w' \<le> 87 \<longrightarrow> 81 \<le> w \<and> w \<le> 87"
    using cp_loop_value_block [OF drop_Suc_eq [OF d0] c(2) w(2)] by blast
  obtain as t where t: "client_trans w' 13 = (as, t)" "as \<in> {[C_Write_value], [C_Write_content_len, C_Write_value]}"
    "t = 24 \<or> t = 88 \<or> t = 71 \<and> w' = 87" using value_end [OF w'(2)] by blast
  have call: "on_response_http_field (PTR_TO (buf @ tail) (cp_field_start P)) (length k) (PTR_TO (buf @ tail) m)
      (LEN m ?n) (q, e) = Inr (?q, e)"
    by (rule on_response_field_part [OF len f(1) m f(3)])
  have w0: "w \<noteq> 0" "w' \<noteq> 0" using w(2) w'(2) by (auto simp: val_st_def)
  obtain P2 where P2: "cp_acts response_callbacks buf tail ?n as (?P, (q, e)) = Inr (P2, (?q, e))"
    "cp_chunked P2 = cp_chunked P" "client_done as = None"
    using t(2) call f(2) by (auto simp: with_client_def)
  have 1: "cp_loop response_callbacks buf tail m s (P, (q, e)) = cp_loop response_callbacks buf tail (Suc m) w (?P, (q, e))"
    by (rule cp_loop_step [OF d0 w(1) w0(1)]) simp_all
  have 2: "cp_loop response_callbacks buf tail ?n w' (?P, (q, e)) = cp_loop response_callbacks buf tail (Suc ?n) t (P2, (?q, e))"
    by (rule cp_loop_step [OF dn _ _ P2(3,1)]) (use t in \<open>auto simp: schar_lit\<close>)
  obtain as' s' P3 where s': "client_trans t 10 = (as', s')" "line_st s'" "client_done as' = None"
    "cp_acts response_callbacks buf tail (Suc ?n) as' (P2, (?q, e)) = Inr (P3, (?q, e))"
    "t \<noteq> 71 \<longrightarrow> cp_chunked P3 = cp_chunked P2"
    using t(3) by (auto simp: client_table line_st_def)
  have 3: "cp_loop response_callbacks buf tail (Suc ?n) t (P2, (?q, e)) = cp_loop response_callbacks buf tail (Suc (Suc ?n)) s' (P3, (?q, e))"
    by (rule cp_loop_step [OF dn' _ _ s'(3,4)]) (use s' in \<open>auto simp: schar_lit line_st_def\<close>)
  have "t \<noteq> 71" if "s \<noteq> 61" using t(3) w(3) w'(3) that by auto
  then show ?thesis
    using 1 2 3 w'(1) vc s'(2,5) P2(2) by (intro exI [where x = s'] exI [where x = P3]) simp
qed

text \<open>A header line whose name is not \<open>Transfer-Encoding\<close>.\<close>

definition wire_field :: "string \<times> string \<Rightarrow> bool" where
  "wire_field h \<longleftrightarrow> fst h \<noteq> [] \<and> (\<forall>c\<in>set (fst h). is_token_char c) \<and> is_field_value (snd h) \<and>
     ci_key (fst h) \<noteq> ci_key ''transfer-encoding''"

lemma te_name:
  assumes "\<forall>c\<in>set k. is_token_char c" "map (\<lambda>c. lower_int (schar c)) k = te_codes"
  shows "ci_key k = ci_key ''transfer-encoding''"
proof -
  have low: "lower_int (schar c) = int (lower_code c) \<and> c \<noteq> CHR 0x00" if "is_token_char c" for c
  proof -
    define n :: nat where "n = of_char c"
    have n: "(of_char c :: nat) = n" "(of_char c :: int) = int n"
      unfolding n_def by (rule refl, simp only: of_nat_of_char)
    have "n < 256" using nat_of_char_less_256 [of c] n_def by simp
    moreover have "c \<noteq> CHR 0x00" using that by (auto simp: is_token_char_def schar_def)
    ultimately show ?thesis
      using that unfolding lower_int_def lower_code_def schar_def Let_def is_token_char_def n by auto
  qed
  have "c_str k = k" using assms(1) low by (auto simp: c_str_def takeWhile_eq_all_conv)
  then have "map int (ci_key k) = te_codes"
    unfolding ci_key_def assms(2) [symmetric] using assms(1) low by simp
  also have "te_codes = map int (ci_key ''transfer-encoding'')" by code_simp
  finally show ?thesis by (simp add: inj_map_eq_map)
qed

text \<open>From the start of one line to the start of another; \<open>chunked\<close> is not set on the way.\<close>

definition line_runs :: "string \<Rightarrow> string \<Rightarrow> nat \<times> response_data \<Rightarrow> nat \<times> response_data \<Rightarrow> bool" where
  "line_runs buf tail a b \<longleftrightarrow> (case (a, b) of ((p, d), (p', d')) \<Rightarrow>
     \<forall>P s. line_st s \<longrightarrow> (\<exists>P' s'. cp_loop response_callbacks buf tail p s (P, d)
         = cp_loop response_callbacks buf tail p' s' (P', d') \<and> line_st s' \<and> cp_chunked P' = cp_chunked P))"

lemma line_runsD:
  assumes "line_runs buf tail (p, d) (p', d')" "line_st s"
  obtains P' s' where "cp_loop response_callbacks buf tail p s (P, d) = cp_loop response_callbacks buf tail p' s' (P', d')"
    "line_st s'" "cp_chunked P' = cp_chunked P"
  using assms unfolding line_runs_def prod.case by blast

lemma line_runs_refl: "line_runs buf tail a a"
  by (auto simp: line_runs_def)

lemma line_runs_trans: "line_runs buf tail a b \<Longrightarrow> line_runs buf tail b c \<Longrightarrow> line_runs buf tail a c"
  unfolding line_runs_def by (clarsimp split: prod.splits) metis

lemma line_runs_header:
  assumes p: "drop p buf = k @ '': '' @ v @ crlf @ rest" and h: "wire_field (k, v)"
    and len: "length (buf @ tail) < 2 ^ 63"
  shows "line_runs buf tail (p, (q, e)) (p + length (k @ '': '' @ v @ crlf), (rsp_setHeader k v q, e))"
  unfolding line_runs_def prod.case
proof (intro allI impI)
  fix P s
  assume s: "line_st s"
  have k: "k \<noteq> []" "\<forall>c\<in>set k. is_token_char c" and v: "is_field_value v"
    using h by (simp_all add: wire_field_def)
  let ?m = "p + length k + 2"
  have dm: "drop ?m buf = v @ crlf @ rest"
    using drop_append_eq [of p buf "k @ '': ''" "v @ crlf @ rest"] p by simp
  obtain u P1 where 1: "cp_loop response_callbacks buf tail p s (P, (q, e)) = cp_loop response_callbacks buf tail ?m u (P1, (q, e))"
    "cp_field_start P1 = p" "cp_field_len P1 = length k" "cp_chunked P1 = cp_chunked P" "u \<in> {22, 35, 61, 112}"
    "u = 61 \<longrightarrow> map (\<lambda>c. lower_int (schar c)) k = te_codes"
    using cp_loop_header_name [OF p k s, of tail P "(q, e)"] by blast
  have "u \<noteq> 61" using 1(6) te_name [OF k(2)] h by (auto simp: wire_field_def)
  moreover have "drop (cp_field_start P1) buf = k @ ('': '' @ v @ crlf @ rest)" using p 1(2) by simp
  ultimately obtain s' P2 where "cp_loop response_callbacks buf tail ?m u (P1, (q, e)) =
      cp_loop response_callbacks buf tail (?m + length v + 2) s' (P2, (rsp_setHeader k v q, e))" "line_st s'"
    "cp_chunked P2 = cp_chunked P1"
    using cp_loop_header_value [OF _ 1(3) k(1) dm v len 1(5)] by blast
  moreover have "p + length (k @ '': '' @ v @ crlf) = ?m + length v + 2" by (simp add: crlf_def)
  ultimately show "\<exists>P' s'. cp_loop response_callbacks buf tail p s (P, (q, e)) =
      cp_loop response_callbacks buf tail (p + length (k @ '': '' @ v @ crlf)) s' (P', (rsp_setHeader k v q, e)) \<and>
      line_st s' \<and> cp_chunked P' = cp_chunked P"
    using 1(1,4) by metis
qed

definition set_fields :: "(string \<times> string) list \<Rightarrow> HttpResponse \<Rightarrow> HttpResponse" where
  "set_fields hs r = fold (\<lambda>(k, v). rsp_setHeader k v) hs r"

lemma line_runs_headers:
  assumes "drop p buf = render_headers hs @ rest" "list_all wire_field hs" "length (buf @ tail) < 2 ^ 63"
  shows "line_runs buf tail (p, (q, e)) (p + length (render_headers hs), (set_fields hs q, e))"
  using assms(1,2)
proof (induction hs arbitrary: p q)
  case Nil
  then show ?case by (simp add: render_headers_def set_fields_def line_runs_refl)
next
  case (Cons h hs)
  obtain k v where h: "h = (k, v)" by (cases h)
  have p: "drop p buf = k @ '': '' @ v @ crlf @ (render_headers hs @ rest)"
    using Cons.prems(1) h by (simp add: render_headers_def)
  have "drop (p + length (k @ '': '' @ v @ crlf)) buf = render_headers hs @ rest"
    using drop_append_eq [of p buf "k @ '': '' @ v @ crlf"] p by simp
  from Cons.IH [OF this, of "rsp_setHeader k v q"] line_runs_header [OF p _ assms(3), of q e] Cons.prems(2) h
  show ?case
    using line_runs_trans by (fastforce simp: render_headers_def set_fields_def add.assoc)
qed

text \<open>The empty line behind the headers.\<close>

lemma cp_loop_done:
  assumes "drop p buf = crlf @ rest" "line_st s"
  shows "\<exists>P'. cp_loop response_callbacks buf tail p s (P, d) = Inr (120, p + 2, P', d) \<and> cp_chunked P' = cp_chunked P"
proof -
  have d0: "drop p buf = CHR 0x0D # (CHR 0x0A # rest)" using assms by (simp add: crlf_def)
  note d1 = drop_Suc_eq [OF d0]
  obtain as P1 where 1: "client_trans s 13 = (as, 3)" "client_done as = None"
    "cp_acts response_callbacks buf tail p as (P, d) = Inr (P1, d)" "cp_chunked P1 = cp_chunked P"
    using assms(2) by (auto simp: line_st_def client_table)
  have "cp_loop response_callbacks buf tail p s (P, d) = cp_loop response_callbacks buf tail (Suc p) 3 (P1, d)"
    by (rule cp_loop_step [OF d0 _ _ 1(2,3)]) (use 1(1) in \<open>simp_all add: schar_lit\<close>)
  also have "\<dots> = Inr (120, p + 2, P1\<lparr>cp_body_start := Suc (Suc p)\<rparr>, d)"
    using drop_nth [OF d1] by (subst cp_loop.simps) (simp add: client_table schar_lit with_client_def)
  finally show ?thesis using 1(4) by simp
qed

section \<open>Numbers\<close>

definition all_digits :: "nat \<Rightarrow> string \<Rightarrow> bool" where
  "all_digits base xs \<longleftrightarrow> (\<forall>c\<in>set xs. digit_val c < base)"

lemma digits_of_append: "all_digits base xs \<Longrightarrow> digits_of base a (xs @ r) = digits_of base (digits_of base a xs) r"
  by (induction xs arbitrary: a) (simp_all add: all_digits_def)

lemma digits_of_show_nat: "digits_of 10 0 (show_nat n) = n \<and> all_digits 10 (show_nat n)"
proof (induction n rule: show_nat.induct)
  case (1 n)
  have d: "digit_val (char_of (48 + k)) = k" if "k < 10" for k :: nat
    using that by (simp add: digit_val_def Let_def)
  show ?case
  proof (cases "n < 10")
    case True
    then show ?thesis by (subst (1 2) show_nat.simps) (simp add: d all_digits_def)
  next
    case False
    then show ?thesis using 1 d [of "n mod 10"]
      by (subst (1 2) show_nat.simps) (auto simp: digits_of_append all_digits_def)
  qed
qed

lemma show_nat_nonempty: "show_nat n \<noteq> []"
  by (subst show_nat.simps) simp

text \<open>A number with what cannot be part of it behind it.\<close>

lemma strtol_digits:
  assumes xs: "xs \<noteq> []" "all_digits base xs" "base = 10 \<or> base = 16" and r: "digit_val (hd r) = 255" "r \<noteq> []"
  shows "strtol base (xs @ r) = min (2 ^ 63 - 1) (int (digits_of base 0 xs))"
proof -
  obtain c cs where c: "xs = c # cs" "digit_val c < 16" using xs by (cases xs) (auto simp: all_digits_def)
  have no: "\<not> isspace c" "c \<noteq> CHR ''-''" "c \<noteq> CHR ''+''"
    using c(2) by (auto simp: isspace_def digit_val_def)
  have bad: "\<not> digit_val (CHR ''x'') < 16" "\<not> digit_val (CHR ''X'') < 16" "digit_val (CHR ''x'') \<noteq> 255"
    "digit_val (CHR ''X'') \<noteq> 255" by code_simp+
  have "skip_0x base (xs @ r) = xs @ r"
  proof (cases cs)
    case Nil
    then show ?thesis using c r bad by (cases r) (auto simp: skip_0x_def split: list.splits)
  next
    case (Cons d ds)
    then have "base = 16 \<Longrightarrow> digit_val d < 16" using xs(2) c by (auto simp: all_digits_def)
    then have "base = 16 \<Longrightarrow> d \<noteq> CHR ''x'' \<and> d \<noteq> CHR ''X''" using bad by auto
    then show ?thesis using c Cons by (auto simp: skip_0x_def split: list.splits)
  qed
  moreover have "digits_of base a r = a" for a using r xs(3) by (cases r) auto
  then have "digits_of base 0 (xs @ r) = digits_of base 0 xs" by (simp add: digits_of_append [OF xs(2)])
  ultimately show ?thesis
    using c no by (simp add: strtol_def Let_def del: digits_of.simps)
qed

text \<open>The status line.\<close>

lemma version_part:
  assumes "v = 0x11 \<or> v = 0x10"
  shows "on_response_version (version_text v @ rest) 8 (q, e) = Inr (q\<lparr>rsp_version := v\<rparr>, e)"
proof -
  have "strncmp_eq (''HTTP/1.1'' @ rest) ''HTTP/1.1'' 8" "\<not> strncmp_eq (''HTTP/1.0'' @ rest) ''HTTP/1.1'' 8"
    "strncmp_eq (''HTTP/1.0'' @ rest) ''HTTP/1.0'' 8"
    by (simp_all add: Let_def numeral_eq_Suc)
  then show ?thesis using assms by (auto simp: on_response_version_def version_text_def)
qed

lemma cp_loop_version:
  assumes buf: "buf = version_text v @ '' '' @ rest" and v: "v = 0x11 \<or> v = 0x10"
  shows "cp_loop response_callbacks buf tail 0 1 (P, (q, e)) =
    cp_loop response_callbacks buf tail 9 16 (P\<lparr>cp_mark := 0\<rparr>, (q\<lparr>rsp_version := v\<rparr>, e))"
proof -
  obtain vc where vc: "version_text v = [CHR ''H'', CHR ''T'', CHR ''T'', CHR ''P'', CHR ''/'', CHR ''1'', CHR ''.'', vc]"
    "schar vc = 48 \<or> schar vc = 49"
    using v by (auto simp: version_text_def schar_lit)
  have d0: "drop 0 buf = CHR ''H'' # [CHR ''T'', CHR ''T'', CHR ''P'', CHR ''/'', CHR ''1'', CHR ''.'', vc, CHR '' ''] @ rest"
    using buf vc by simp
  note d1 = drop_Suc_eq [OF d0, simplified]
  note d2 = drop_Suc_eq [OF d1]
  note d3 = drop_Suc_eq [OF d2]
  note d4 = drop_Suc_eq [OF d3]
  note d5 = drop_Suc_eq [OF d4]
  note d6 = drop_Suc_eq [OF d5]
  note d7 = drop_Suc_eq [OF d6]
  note d8 = drop_Suc_eq [OF d7]
  let ?s = "(P\<lparr>cp_mark := 0\<rparr>, (q, e))" and ?run = "cp_loop response_callbacks buf tail"
  have "LEN 0 (Suc (Suc (Suc (Suc (Suc (Suc (Suc (Suc 0)))))))) = 8" by (simp add: LEN_def sub64_le)
  then have call: "on_response_version (buf @ tail) (LEN 0 (Suc (Suc (Suc (Suc (Suc (Suc (Suc (Suc 0)))))))))
      (q, e) = Inr (q\<lparr>rsp_version := v\<rparr>, e)"
    using version_part [OF v, of "'' '' @ rest @ tail" q e] buf by simp
  note step = cp_loop_step [where as = "[]" and s = ?s and s' = ?s]
  have "?run 0 1 (P, (q, e)) = ?run (Suc 0) 8 ?s"
    by (rule cp_loop_step [OF d0, where as = "[C_Mark]"]) (simp_all add: client_table schar_lit)
  also have "\<dots> = ?run (Suc (Suc 0)) 9 ?s" by (rule step [OF d1]) (simp_all add: client_table schar_lit)
  also have "\<dots> = ?run (Suc (Suc (Suc 0))) 10 ?s" by (rule step [OF d2]) (simp_all add: client_table schar_lit)
  also have "\<dots> = ?run (Suc (Suc (Suc (Suc 0)))) 11 ?s" by (rule step [OF d3]) (simp_all add: client_table schar_lit)
  also have "\<dots> = ?run (Suc (Suc (Suc (Suc (Suc 0))))) 12 ?s" by (rule step [OF d4]) (simp_all add: client_table schar_lit)
  also have "\<dots> = ?run (Suc (Suc (Suc (Suc (Suc (Suc 0)))))) 13 ?s" by (rule step [OF d5]) (simp_all add: client_table schar_lit)
  also have "\<dots> = ?run (Suc (Suc (Suc (Suc (Suc (Suc (Suc 0))))))) 14 ?s" by (rule step [OF d6]) (simp_all add: client_table schar_lit)
  also have "\<dots> = ?run (Suc (Suc (Suc (Suc (Suc (Suc (Suc (Suc 0)))))))) 15 ?s"
    by (rule step [OF d7]) (use vc(2) in \<open>auto simp: client_table\<close>)
  also have "\<dots> = ?run (Suc (Suc (Suc (Suc (Suc (Suc (Suc (Suc (Suc 0))))))))) 16 (P\<lparr>cp_mark := 0\<rparr>, (q\<lparr>rsp_version := v\<rparr>, e))"
    by (rule cp_loop_step [OF d8, where as = "[C_Http_version]"])
      (use call in \<open>simp_all add: client_table schar_lit PTR_TO_def with_client_def\<close>)
  finally show ?thesis by (simp add: eval_nat_numeral)
qed

lemma cp_loop_status:
  assumes p: "drop p buf = show_nat n @ '' '' @ rest" and n: "n < 2 ^ 31"
  shows "cp_loop response_callbacks buf tail p 16 (P, (q, e)) =
    cp_loop response_callbacks buf tail (p + length (show_nat n) + 1) 18
      (P\<lparr>cp_mark := p, cp_status := int n\<rparr>, (q\<lparr>rsp_status := int n\<rparr>, e))"
proof -
  let ?run = "cp_loop response_callbacks buf tail" and ?xs = "show_nat n"
  let ?s = "(P\<lparr>cp_mark := p\<rparr>, (q, e))"
  obtain c cs where xs: "?xs = c # cs" using show_nat_nonempty [of n] by (cases ?xs) auto
  have c: "48 \<le> schar x \<and> schar x \<le> 57" if "x \<in> set ?xs" for x using show_nat_digits [OF that] .
  have d0: "drop p buf = c # (cs @ '' '' @ rest)" using p xs by simp
  have d2: "drop (p + length ?xs) buf = CHR '' '' # rest" using drop_append_eq [OF p] by simp
  have "p \<le> length buf" using p by (metis append_is_Nil_conv drop_all linorder_linear xs list.distinct(1))
  then have at: "PTR_TO (buf @ tail) p = ?xs @ (CHR '' '' # rest @ tail)" using p by (simp add: PTR_TO_def)
  have "digit_val (CHR '' '') = 255" by code_simp
  then have "strtol 10 (?xs @ (CHR '' '' # rest @ tail)) = min (2 ^ 63 - 1) (int n)"
    using strtol_digits [where xs = ?xs and base = 10] show_nat_nonempty digits_of_show_nat [of n] by simp
  then have num: "int32 (strtol 10 (PTR_TO (buf @ tail) p)) = int n" using n at by (simp add: int32_id)
  have "?run p 16 (P, (q, e)) = ?run (Suc p) 17 ?s"
    by (rule cp_loop_step [OF d0, where as = "[C_Mark]"]) (use c [of c] xs in \<open>simp_all add: client_table\<close>)
  also have "\<dots> = ?run (Suc p + length cs) 17 ?s"
    by (rule cp_loop_block [OF drop_Suc_eq [OF d0]]) (use c xs in \<open>fastforce simp: client_table\<close>)+
  also have "Suc p + length cs = p + length ?xs" using xs by simp
  also have "?run (p + length ?xs) 17 ?s = ?run (Suc (p + length ?xs)) 18
      (P\<lparr>cp_mark := p, cp_status := int n\<rparr>, (q\<lparr>rsp_status := int n\<rparr>, e))"
    by (rule cp_loop_step [OF d2, where as = "[C_Status_code]"])
      (use num in \<open>simp_all add: client_table schar_lit with_client_def on_response_status_def atoi_def Let_def\<close>)
  finally show ?thesis by simp
qed

lemma cp_loop_reason:
  assumes p: "drop p buf = reason @ crlf @ rest" and r: "reason \<noteq> []" "\<forall>c\<in>set reason. schar c \<notin> {10, 13}"
    and len: "length (buf @ tail) < 2 ^ 63"
  shows "cp_loop response_callbacks buf tail p 18 (P, (q, e)) =
    cp_loop response_callbacks buf tail (p + length reason + 2) 20 (P\<lparr>cp_mark := p\<rparr>, (q\<lparr>rsp_reason := reason\<rparr>, e))"
proof -
  let ?run = "cp_loop response_callbacks buf tail" and ?s = "(P\<lparr>cp_mark := p\<rparr>, (q, e))"
  obtain c cs where xs: "reason = c # cs" using r by (cases reason) auto
  have d0: "drop p buf = c # (cs @ crlf @ rest)" using p xs by simp
  have d2: "drop (p + length reason) buf = CHR 0x0D # (CHR 0x0A # rest)" using drop_append_eq [OF p] by (simp add: crlf_def)
  have call: "on_response_reason (PTR_TO (buf @ tail) p) (LEN p (p + length reason)) (q, e) = Inr (q\<lparr>rsp_reason := reason\<rparr>, e)"
    using string_part(1) [OF len p] by (simp add: on_response_reason_def)
  have "?run p 18 (P, (q, e)) = ?run (Suc p) 19 ?s"
    by (rule cp_loop_step [OF d0, where as = "[C_Mark]"]) (use r xs in \<open>simp_all add: client_table\<close>)
  also have "\<dots> = ?run (Suc p + length cs) 19 ?s"
    by (rule cp_loop_block [OF drop_Suc_eq [OF d0]]) (use r xs in \<open>auto simp: client_table\<close>)
  also have "Suc p + length cs = p + length reason" using xs by simp
  also have "?run (p + length reason) 19 ?s = ?run (Suc (p + length reason)) 24 (P\<lparr>cp_mark := p\<rparr>, (q\<lparr>rsp_reason := reason\<rparr>, e))"
    by (rule cp_loop_step [OF d2, where as = "[C_Reason_phrase]"])
      (use call in \<open>simp_all add: client_table schar_lit with_client_def\<close>)
  also have "\<dots> = ?run (Suc (Suc (p + length reason))) 20 (P\<lparr>cp_mark := p\<rparr>, (q\<lparr>rsp_reason := reason\<rparr>, e))"
    by (rule cp_loop_step [OF drop_Suc_eq [OF d2], where as = "[]"]) (simp_all add: client_table schar_lit)
  finally show ?thesis by simp
qed

section \<open>A response written and read\<close>

definition reason_text :: "HttpResponse \<Rightarrow> string" where
  "reason_text r = (if rsp_reason r = [] then HttpStatusToString (rsp_status r) else rsp_reason r)"

definition wire_fields :: "HttpResponse \<Rightarrow> (string \<times> string) list" where
  "wire_fields r =
     filter (\<lambda>(k, v). rsp_websocket r \<or> \<not> is_connection k) (rsp_headers r)
     @ map (Pair ''Set-Cookie'') (rsp_cookies r)
     @ (if rsp_websocket r then []
        else [(''connection'', if rsp_close r then ''close'' else ''keep-alive'')])
     @ (if rsp_body r = [] then [] else [(''content-length'', show_nat (length (rsp_body r)))])"

text \<open>The responses whose text means what they say.\<close>

definition answerable :: "HttpResponse \<Rightarrow> bool" where
  "answerable r \<longleftrightarrow>
     (rsp_version r = 0x11 \<or> rsp_version r = 0x10) \<and> 0 \<le> rsp_status r \<and> rsp_status r < 2 ^ 31 \<and>
     reason_text r \<noteq> [] \<and> (\<forall>c\<in>set (reason_text r). schar c \<notin> {10, 13}) \<and>
     list_all wire_field (rsp_headers r) \<and> list_all is_field_value (rsp_cookies r)"

definition rsp_head :: "HttpResponse \<Rightarrow> string" where
  "rsp_head r = version_text (rsp_version r) @ '' '' @ show_nat (nat (rsp_status r)) @ '' '' @ reason_text r @ crlf
    @ render_headers (wire_fields r) @ crlf"

text \<open>The head without the empty line.\<close>

definition rsp_lines :: "HttpResponse \<Rightarrow> string" where
  "rsp_lines r = version_text (rsp_version r) @ '' '' @ show_nat (nat (rsp_status r)) @ '' '' @ reason_text r @ crlf
    @ render_headers (wire_fields r)"

lemma rsp_head_lines: "rsp_head r = rsp_lines r @ crlf"
  by (simp add: rsp_head_def rsp_lines_def)

lemma wire_fields_ok: "answerable r \<Longrightarrow> list_all wire_field (wire_fields r)"
proof -
  have "wire_field (''connection'', ''close'')" "wire_field (''connection'', ''keep-alive'')" by code_simp+
  moreover have "wire_field (''content-length'', show_nat n)" for n
  proof -
    have "\<forall>c\<in>set ''content-length''. is_token_char c" "ci_key ''content-length'' \<noteq> ci_key ''transfer-encoding''"
      by code_simp+
    moreover have "schar c \<notin> {9, 10, 11, 12, 13, 32}" if "c \<in> set (show_nat n)" for c
      using show_nat_digits [OF that] by auto
    then have "is_field_value (show_nat n)"
      using show_nat_nonempty [of n] hd_in_set [of "show_nat n"] by (auto simp: is_field_value_def)
    ultimately show ?thesis by (simp add: wire_field_def)
  qed
  moreover have "wire_field (''Set-Cookie'', c)" if "is_field_value c" for c
  proof -
    have "\<forall>c\<in>set ''Set-Cookie''. is_token_char c" "ci_key ''Set-Cookie'' \<noteq> ci_key ''transfer-encoding''"
      by code_simp+
    then show ?thesis using that by (simp add: wire_field_def)
  qed
  ultimately show "answerable r \<Longrightarrow> list_all wire_field (wire_fields r)"
    by (auto simp: wire_fields_def answerable_def list_all_iff)
qed

lemma rsp_dump_parts:
  assumes "answerable r"
  shows "rsp_dump r = rsp_head r @ rsp_body r"
proof -
  have "connection_line (rsp_websocket r) (rsp_close r) = render_headers
      (if rsp_websocket r then [] else [(''connection'', if rsp_close r then ''close'' else ''keep-alive'')])"
    by (simp add: connection_line_def render_headers_def)
  moreover have "dump_body (rsp_body r) = render_headers
      (if rsp_body r = [] then [] else [(''content-length'', show_nat (length (rsp_body r)))]) @ crlf @ rsp_body r"
    by (simp add: dump_body_def render_headers_def)
  moreover have "concat (map (\<lambda>c. ''Set-Cookie: '' @ c @ crlf) cs) = render_headers (map (Pair ''Set-Cookie'') cs)" for cs
    by (induction cs) (simp_all add: render_headers_def)
  moreover have "rsp_status r mod 2 ^ 32 = rsp_status r" using assms by (simp add: answerable_def)
  ultimately show ?thesis
    using assms show_version_text
    by (auto simp: rsp_dump_def rsp_head_def answerable_def wire_fields_def header_lines_render
        render_headers_append reason_text_def)
qed

text \<open>The response the parser makes of it.\<close>

definition answered :: "HttpResponse \<Rightarrow> HttpResponse" where
  "answered r = set_fields (wire_fields r)
     ((HttpResponse_new 0x11 True)\<lparr>rsp_version := rsp_version r, rsp_status := rsp_status r, rsp_reason := reason_text r\<rparr>)"

lemma cp_loop_lines:
  assumes r: "answerable r" and buf: "buf = rsp_lines r @ x" and len: "length (buf @ tail) < 2 ^ 63"
  shows "\<exists>P' s'. cp_loop response_callbacks buf tail 0 1 (P, (HttpResponse_new 0x11 True, 0))
      = cp_loop response_callbacks buf tail (length (rsp_lines r)) s' (P', (answered r, 0)) \<and> line_st s' \<and>
    cp_chunked P' = cp_chunked P"
proof -
  let ?run = "cp_loop response_callbacks buf tail" and ?n = "nat (rsp_status r)"
  let ?heads = "render_headers (wire_fields r)"
  let ?r3 = "?heads @ x"
  let ?r2 = "reason_text r @ crlf @ ?r3"
  let ?r1 = "show_nat ?n @ '' '' @ ?r2"
  let ?q0 = "HttpResponse_new 0x11 True"
  let ?q1 = "?q0\<lparr>rsp_version := rsp_version r\<rparr>"
  let ?q2 = "?q1\<lparr>rsp_status := rsp_status r\<rparr>"
  let ?q3 = "?q2\<lparr>rsp_reason := reason_text r\<rparr>"
  have v: "rsp_version r = 0x11 \<or> rsp_version r = 0x10" and n: "?n < 2 ^ 31" "int ?n = rsp_status r"
    using r by (auto simp: answerable_def nat_less_iff)
  have buf': "buf = version_text (rsp_version r) @ '' '' @ ?r1" using buf by (simp add: rsp_lines_def)
  have vl: "length (version_text (rsp_version r)) = 8" by (simp add: version_text_def)
  let ?P1 = "P\<lparr>cp_mark := 0\<rparr>"
  let ?P2 = "?P1\<lparr>cp_mark := 9, cp_status := int ?n\<rparr>"
  let ?p2 = "9 + length (show_nat ?n) + 1" and ?p3 = "9 + length (show_nat ?n) + 1 + length (reason_text r) + 2"
  have d1: "drop 9 buf = ?r1" using drop_append_eq [of 0 buf "version_text (rsp_version r) @ '' ''" ?r1] buf' vl by simp
  have d2: "drop ?p2 buf = ?r2" using drop_append_eq [of 9 buf "show_nat ?n @ '' ''" ?r2] d1 by simp
  have d3: "drop ?p3 buf = ?r3"
    using drop_append_eq [of ?p2 buf "reason_text r @ crlf" ?r3] d2 by (simp add: crlf_def)
  have "?run 0 1 (P, (?q0, 0)) = ?run 9 16 (?P1, (?q1, 0))" by (rule cp_loop_version [OF buf' v])
  also have "\<dots> = ?run ?p2 18 (?P2, (?q2, 0))" using cp_loop_status [OF d1 n(1), of tail ?P1 ?q1 0] n(2) by simp
  also have "\<dots> = ?run ?p3 20 (?P2\<lparr>cp_mark := ?p2\<rparr>, (?q3, 0))"
    by (rule cp_loop_reason [OF d2]) (use r len in \<open>simp_all add: answerable_def\<close>)
  finally have run0: "?run 0 1 (P, (?q0, 0)) = ?run ?p3 20 (?P2\<lparr>cp_mark := ?p2\<rparr>, (?q3, 0))" .
  have "line_st 20" by (simp add: line_st_def)
  from line_runsD [OF line_runs_headers [OF d3 wire_fields_ok [OF r] len] this, of "?P2\<lparr>cp_mark := ?p2\<rparr>" ?q3 0]
  obtain P' s' where headers: "?run ?p3 20 (?P2\<lparr>cp_mark := ?p2\<rparr>, (?q3, 0))
      = ?run (?p3 + length ?heads) s' (P', (set_fields (wire_fields r) ?q3, 0))"
    "line_st s'" "cp_chunked P' = cp_chunked (?P2\<lparr>cp_mark := ?p2\<rparr>)" by blast
  note run0
  also note headers(1)
  also have "set_fields (wire_fields r) ?q3 = answered r" by (simp add: answered_def)
  finally have run: "?run 0 1 (P, (?q0, 0)) = ?run (?p3 + length ?heads) s' (P', (answered r, 0))" .
  have "?p3 + length ?heads = length (rsp_lines r)" using vl by (simp add: rsp_lines_def crlf_def)
  then show ?thesis using run headers(2,3) by (intro exI [where x = P'] exI [where x = s']) simp
qed

lemma cp_loop_response:
  assumes r: "answerable r" and buf: "buf = rsp_head r @ x" and len: "length (buf @ tail) < 2 ^ 63"
  shows "\<exists>P'. cp_loop response_callbacks buf tail 0 1 (P, (HttpResponse_new 0x11 True, 0))
      = Inr (120, length (rsp_head r), P', (answered r, 0)) \<and> cp_chunked P' = cp_chunked P"
proof -
  have buf': "buf = rsp_lines r @ (crlf @ x)" using buf by (simp add: rsp_head_lines)
  then have "drop (length (rsp_lines r)) buf = crlf @ x" by simp
  then show ?thesis
    using cp_loop_lines [OF r buf' len, of P] cp_loop_done [of "length (rsp_lines r)" buf x] by (fastforce simp: rsp_head_lines crlf_def)
qed

lemma find_set_fields:
  "map_find CaseInsensitiveLess key (rsp_headers (set_fields hs r)) =
     (case header_map hs (ci_key key) of Some v \<Rightarrow> Some v | None \<Rightarrow> map_find CaseInsensitiveLess key (rsp_headers r))"
proof (induction hs rule: rev_induct)
  case (snoc h hs)
  then show ?case by (cases h) (simp add: set_fields_def rsp_setHeader_def same_header)
qed (simp add: set_fields_def)

lemma header_map_cookies:
  "header_map (map (Pair ''Set-Cookie'') cs) K = (if cs \<noteq> [] \<and> K = ci_key ''Set-Cookie'' then Some (last cs) else None)"
  by (induction cs) (auto simp: header_map_Cons)

lemma wire_fields_map:
  "header_map (wire_fields r) K =
    (if \<not> rsp_websocket r \<and> K = ci_key ''connection''
     then Some (if rsp_close r then ''close'' else ''keep-alive'')
     else if rsp_body r \<noteq> [] \<and> K = ci_key ''content-length'' then Some (show_nat (length (rsp_body r)))
     else if rsp_cookies r \<noteq> [] \<and> K = ci_key ''Set-Cookie'' then Some (last (rsp_cookies r))
     else header_map (rsp_headers r) K)"
proof -
  have "ci_key ''connection'' \<noteq> ci_key ''content-length''" "ci_key ''connection'' \<noteq> ci_key ''Set-Cookie''"
    "ci_key ''content-length'' \<noteq> ci_key ''Set-Cookie''" by code_simp+
  then show ?thesis
    by (auto simp: wire_fields_def header_map_filter header_map_filter [of False, simplified] header_map_cookies
        header_map_Cons split: option.splits)
qed

lemma answered_headers:
  assumes "sorted_wrt (\<lambda>x y. ci_key (fst x) < ci_key (fst y)) (rsp_headers r)"
  shows "map_find CaseInsensitiveLess key (rsp_headers (answered r)) =
    (if \<not> rsp_websocket r \<and> ci_key key = ci_key ''connection''
     then Some (if rsp_close r then ''close'' else ''keep-alive'')
     else if rsp_body r \<noteq> [] \<and> ci_key key = ci_key ''content-length'' then Some (show_nat (length (rsp_body r)))
     else if rsp_cookies r \<noteq> [] \<and> ci_key key = ci_key ''Set-Cookie'' then Some (last (rsp_cookies r))
     else map_find CaseInsensitiveLess key (rsp_headers r))"
proof -
  have "ci.map_ok (rsp_headers r)" using assms by (simp add: ci.map_ok_def CaseInsensitiveLess_key)
  from map_find_header_map [OF this, of key] show ?thesis
    unfolding answered_def find_set_fields wire_fields_map
    by (simp add: HttpResponse_new_def split: option.splits)
qed

lemma answered_rest:
  "rsp_status (set_fields hs r) = rsp_status r" "rsp_version (set_fields hs r) = rsp_version r"
  "rsp_reason (set_fields hs r) = rsp_reason r" "rsp_body (set_fields hs r) = rsp_body r"
  by (induction hs arbitrary: r) (auto simp: set_fields_def rsp_setHeader_def)

lemma answered_simps:
  "rsp_status (answered r) = rsp_status r" "rsp_version (answered r) = rsp_version r"
  "rsp_reason (answered r) = reason_text r" "rsp_body (answered r) = []"
  by (simp_all add: answered_def answered_rest HttpResponse_new_def)

lemma response_execute_finished:
  assumes run: "cp_loop response_callbacks buf tail 0 1
      ((if chunck then httpclient_parser_init (sp_parser R) else sp_parser R)
        \<lparr>cp_nread := 0, cp_mark := 0, cp_field_len := 0, cp_field_start := 0\<rparr>, (sp_data R, sp_error R))
      = Inr (120, n, P', (q, 0))"
    and R: "chunck \<or> cp_cs (sp_parser R) = 1 \<and> cp_body_start (sp_parser R) = 0"
    and "buf \<noteq> []" "length (buf @ tail) < 2 ^ 31" "17 \<le> length tail" "hd tail = CHR 0x00"
  shows "\<exists>R'. response_execute chunck buf tail R = Inr (n, drop n buf, drop (length buf - n) (buf @ tail), R') \<and>
    response_isFinished R' = 1 \<and> \<not> response_hasError R' \<and> sp_data R' = q \<and> n \<le> length buf \<and>
    cp_chunked (sp_parser R') = cp_chunked P' \<and> cp_content_len (sp_parser R') = cp_content_len P' \<and>
    cp_chunks_done (sp_parser R') = cp_chunks_done P' \<and> sp_error R' = 0"
proof -
  let ?P = "(if chunck then httpclient_parser_init (sp_parser R) else sp_parser R)
    \<lparr>cp_nread := 0, cp_mark := 0, cp_field_len := 0, cp_field_start := 0\<rparr>"
  have P: "cp_cs ?P = 1" "cp_body_start ?P = 0" using R by (auto simp: httpclient_parser_init_def)
  have "client_marks (length buf) 0 1 ?P" using assms(3) P by (simp add: client_marks_def)
  from cp_loop_ok [OF this assms(4,5), of "(sp_data R, sp_error R)"] run
  have P': "client_marks (length buf) n 120 P'" "cp_nread P' = 0" by (auto simp: client_loop_result_def)
  then have n: "n \<le> length buf" by (simp add: client_marks_le)
  have tail: "tail \<noteq> []" using assms(5) by auto
  have i32: "int32 (int n) = int n" "int32 (int (length buf)) = int (length buf)" "int32 0 = 0"
    using n assms(4) by (auto intro!: int32_id)
  let ?R = "\<lparr>sp_parser = P'\<lparr>cp_cs := 120, cp_nread := n\<rparr>, sp_data = q, sp_error = 0\<rparr>"
  have "response_execute chunck buf tail R = Inr (n, drop n buf, drop (length buf - n) (buf @ tail), ?R)"
    using run P P' i32 tail n assms(3,6)
    by (auto simp: response_execute_def httpclient_parser_execute_def Let_def hp_check_def client_marks_def)
  then show ?thesis using n
    by (auto simp: response_isFinished_def response_hasError_def httpclient_parser_finish_def
        httpclient_parser_has_error_def httpclient_parser_is_finished_def)
qed

lemma response_head_parse:
  assumes r: "answerable r" and len: "length (rsp_head r @ x @ tail) < 2 ^ 31" and tail: "17 \<le> length tail" "hd tail = CHR 0x00"
  shows "\<exists>R. response_execute False (rsp_head r @ x) tail (HttpResponseParser_new P)
      = Inr (length (rsp_head r), x, drop (length x) (rsp_head r @ x @ tail), R) \<and>
    response_isFinished R = 1 \<and> \<not> response_hasError R \<and> sp_data R = answered r \<and>
    \<not> cp_chunked (sp_parser R) \<and> sp_error R = 0"
proof -
  let ?buf = "rsp_head r @ x" and ?R = "HttpResponseParser_new P"
  let ?P = "(sp_parser ?R)\<lparr>cp_nread := 0, cp_mark := 0, cp_field_len := 0, cp_field_start := 0\<rparr>"
  have "length (?buf @ tail) < 2 ^ 63" using len by simp
  from cp_loop_response [OF r refl this, of ?P] obtain P' where run:
    "cp_loop response_callbacks ?buf tail 0 1 (?P, (sp_data ?R, sp_error ?R)) = Inr (120, length (rsp_head r), P', (answered r, 0))"
    "cp_chunked P' = cp_chunked ?P"
    by (auto simp: HttpResponseParser_new_def)
  have "?buf \<noteq> []" by (simp add: rsp_head_def crlf_def)
  moreover have "cp_cs (sp_parser ?R) = 1 \<and> cp_body_start (sp_parser ?R) = 0"
    by (simp add: HttpResponseParser_new_def httpclient_parser_init_def)
  moreover have "\<not> cp_chunked ?P" by (simp add: HttpResponseParser_new_def httpclient_parser_init_def)
  ultimately show ?thesis
    using response_execute_finished [where chunck = False and buf = ?buf and tail = tail and R = ?R and P' = P'
        and q = "answered r" and n = "length (rsp_head r)"] run len tail by auto
qed

text \<open>
  C25. A response that is written is read back: what \<open>HttpResponse::dump\<close> writes for a response with
  a version and a status of its own, a reason that is a line, and well-formed header lines that
  do not ask for chunked coding, the client's parser accepts in one call, up to the end of the
  head and with the body left in front of the data. The object it fills has the same status,
  version and reason, and every header name is answered as in the original, with the connection
  header written from the close flag and the length of the body added; of several cookies the
  last one is kept.
\<close>

theorem response_dump_parse:
  assumes "answerable r" and "sorted_wrt (\<lambda>x y. ci_key (fst x) < ci_key (fst y)) (rsp_headers r)"
    and "length (rsp_dump r @ tail) < 2 ^ 31" and "17 \<le> length tail" "hd tail = CHR 0x00"
  shows "\<exists>behind R. response_execute False (rsp_dump r) tail (HttpResponseParser_new P)
      = Inr (length (rsp_dump r) - length (rsp_body r), rsp_body r, behind, R) \<and>
    response_isFinished R = 1 \<and> \<not> response_hasError R \<and> \<not> cp_chunked (sp_parser R) \<and>
    rsp_status (sp_data R) = rsp_status r \<and> rsp_version (sp_data R) = rsp_version r \<and>
    rsp_reason (sp_data R) = reason_text r \<and>
    (\<forall>key d. rsp_getHeader (sp_data R) key d =
       (if \<not> rsp_websocket r \<and> ci_key key = ci_key ''connection'' then (if rsp_close r then ''close'' else ''keep-alive'')
        else if rsp_body r \<noteq> [] \<and> ci_key key = ci_key ''content-length'' then show_nat (length (rsp_body r))
        else if rsp_cookies r \<noteq> [] \<and> ci_key key = ci_key ''Set-Cookie'' then last (rsp_cookies r)
        else rsp_getHeader r key d))"
proof -
  have dump: "rsp_dump r = rsp_head r @ rsp_body r" by (rule rsp_dump_parts [OF assms(1)])
  then obtain R where R: "response_execute False (rsp_dump r) tail (HttpResponseParser_new P)
      = Inr (length (rsp_head r), rsp_body r, drop (length (rsp_body r)) (rsp_head r @ rsp_body r @ tail), R)"
    "response_isFinished R = 1" "\<not> response_hasError R" "sp_data R = answered r" "\<not> cp_chunked (sp_parser R)"
    using response_head_parse [OF assms(1) _ assms(4,5), of "rsp_body r" P] assms(3) by auto
  have "rsp_getHeader (answered r) key d =
       (if \<not> rsp_websocket r \<and> ci_key key = ci_key ''connection'' then (if rsp_close r then ''close'' else ''keep-alive'')
        else if rsp_body r \<noteq> [] \<and> ci_key key = ci_key ''content-length'' then show_nat (length (rsp_body r))
        else if rsp_cookies r \<noteq> [] \<and> ci_key key = ci_key ''Set-Cookie'' then last (rsp_cookies r)
        else rsp_getHeader r key d)" for key d
    by (simp add: rsp_getHeader_def map_get_def answered_headers [OF assms(2)])
  then show ?thesis using R dump by (intro exI [where x = R] exI) (simp add: answered_simps)
qed

definition sample_response :: HttpResponse where
  "sample_response = (HttpResponse_new 0x11 False)\<lparr>rsp_body := ''ab'', rsp_cookies := [''c=1'', ''d=2''],
     rsp_headers := [(''Content-Type'', ''text/html''), (''Server'', ''s'')]\<rparr>"

lemma sample_answerable:
  "answerable sample_response" "sorted_wrt (\<lambda>x y. ci_key (fst x) < ci_key (fst y)) (rsp_headers sample_response)"
  "length (rsp_dump sample_response) \<le> 200" "rsp_body sample_response = ''ab''"
  by code_simp+

lemma response_dump_parse_witness:
  "\<exists>behind R. response_execute False (rsp_dump sample_response) (replicate 20 (CHR 0x00)) (HttpResponseParser_new zero_client)
      = Inr (length (rsp_dump sample_response) - 2, ''ab'', behind, R) \<and>
    rsp_status (sp_data R) = 200 \<and> rsp_getHeader (sp_data R) ''set-cookie'' [] = ''d=2''"
proof -
  have keys: "ci_key ''set-cookie'' \<noteq> ci_key ''connection''" "ci_key ''set-cookie'' \<noteq> ci_key ''content-length''"
    "ci_key ''set-cookie'' = ci_key ''Set-Cookie''" "rsp_cookies sample_response \<noteq> []" "rsp_status sample_response = 200"
    "last (rsp_cookies sample_response) = ''d=2''" by code_simp+
  have "length (rsp_dump sample_response @ replicate 20 (CHR 0x00)) < 2 ^ 31" using sample_answerable(3) by simp
  from response_dump_parse [OF sample_answerable(1,2) this, of zero_client]
  show ?thesis using keys sample_answerable(4) by auto
qed

section \<open>The size of a chunk\<close>

lemma xdigit_trans:
  assumes "isxdigit c"
  shows "client_trans 1 (schar c) = ([C_Mark], 2)" and "client_trans 2 (schar c) = ([], 2)" and "digit_val c < 16"
proof -
  have n: "48 \<le> schar c \<and> schar c \<le> 57 \<or> 65 \<le> schar c \<and> schar c \<le> 70 \<or> 97 \<le> schar c \<and> schar c \<le> 102"
    by (rule schar_xdigit [OF assms])
  then show "client_trans 1 (schar c) = ([C_Mark], 2)" by (auto simp: client_table)
  show "client_trans 2 (schar c) = ([], 2)" using n by (auto simp: client_table)
  show "digit_val c < 16" using assms by (auto simp: isxdigit_def digit_val_def Let_def)
qed

lemma chunk_head_parse:
  assumes hs: "hs \<noteq> []" "\<forall>c\<in>set hs. isxdigit c" and size: "digits_of 16 0 hs < 2 ^ 31"
    and len: "length (hs @ crlf @ x @ tail) < 2 ^ 31" and tail: "17 \<le> length tail" "hd tail = CHR 0x00"
    and R: "sp_error R = 0"
  shows "\<exists>R'. response_execute True (hs @ crlf @ x) tail R
      = Inr (length hs + 2, x, drop (length x) (hs @ crlf @ x @ tail), R') \<and>
    response_isFinished R' = 1 \<and> \<not> response_hasError R' \<and> sp_data R' = sp_data R \<and> sp_error R' = 0 \<and>
    cp_content_len (sp_parser R') = int (digits_of 16 0 hs) \<and>
    cp_chunks_done (sp_parser R') = (digits_of 16 0 hs = 0)"
proof -
  let ?buf = "hs @ crlf @ x" and ?run = "cp_loop response_callbacks (hs @ crlf @ x) tail" and ?n = "length hs"
  let ?P = "(httpclient_parser_init (sp_parser R))\<lparr>cp_nread := 0, cp_mark := 0, cp_field_len := 0, cp_field_start := 0\<rparr>"
  let ?d = "(sp_data R, sp_error R)" and ?v = "digits_of 16 0 hs"
  obtain c cs where c: "hs = c # cs" "isxdigit c" "\<forall>x\<in>set cs. isxdigit x" using hs by (cases hs) auto
  have d0: "drop 0 ?buf = c # (cs @ crlf @ x)" using c by simp
  have dn: "drop ?n ?buf = CHR 0x0D # (CHR 0x0A # x)" by (simp add: crlf_def)
  note dn' = drop_Suc_eq [OF dn]
  let ?P1 = "?P\<lparr>cp_mark := 0\<rparr>"
  let ?P2 = "?P1\<lparr>cp_chunked := True, cp_content_len := int ?v, cp_chunks_done := (?v = 0)\<rparr>"
  let ?P3 = "?P2\<lparr>cp_body_start := Suc (Suc ?n)\<rparr>"
  have "all_digits 16 hs" using hs(2) xdigit_trans(3) by (auto simp: all_digits_def)
  moreover have "digit_val (CHR 0x0D) = 255" by code_simp
  ultimately have num: "int32 (strtol 16 (hs @ CHR 0x0D # CHR 0x0A # x @ tail)) = int ?v"
    using strtol_digits [where xs = hs and base = 16 and r = "CHR 0x0D # CHR 0x0A # x @ tail"] hs size
    by (simp add: int32_id)
  have "?run 0 1 (?P, ?d) = ?run (Suc 0) 2 (?P1, ?d)"
    by (rule cp_loop_step [OF d0, where as = "[C_Mark]"]) (use xdigit_trans [OF c(2)] in simp_all)
  also have "\<dots> = ?run (Suc 0 + length cs) 2 (?P1, ?d)"
    by (rule cp_loop_block [OF drop_Suc_eq [OF d0]]) (use xdigit_trans(2) c(3) in auto)
  also have "Suc 0 + length cs = ?n" using c by simp
  also have "?run ?n 2 (?P1, ?d) = ?run (Suc ?n) 3 (?P2, ?d)"
    by (rule cp_loop_step [OF dn, where as = "[C_Chunk_size]"])
      (use num in \<open>auto simp: client_table schar_lit PTR_TO_def crlf_def with_client_def Let_def\<close>)
  also have "\<dots> = Inr (120, ?n + 2, ?P3, ?d)"
    using drop_nth [OF dn'] by (subst cp_loop.simps) (simp add: client_table schar_lit with_client_def)
  finally have run: "cp_loop response_callbacks ?buf tail 0 1 (?P, ?d) = Inr (120, ?n + 2, ?P3, (sp_data R, 0))"
    using R by simp
  have "?buf \<noteq> []" using c by simp
  moreover have "drop (?n + 2) ?buf = x" by (simp add: crlf_def)
  moreover have "length ?buf - (?n + 2) = length x" by (simp add: crlf_def)
  ultimately show ?thesis
    using response_execute_finished [where chunck = True and buf = ?buf and tail = tail and R = R and P' = ?P3
        and q = "sp_data R" and n = "?n + 2"] run len tail by auto
qed

end
