(* ===== verification/Uri_Props.thy ===== *)
theory Uri_Props
  imports Uri_Safety Httpclient_Roundtrip
begin

text \<open>
  What \<open>Uri::Create\<close> makes of a text: a URI with a scheme, a user, a host, a port, a path, a query and a
  fragment is taken apart into these, so that what \<open>toString\<close> writes is read back; and where the
  parser loses a part: the path of a URI without an authority, a password of digits, an empty port.
\<close>

section \<open>Running the automaton\<close>

lemma uri_loop_step:
  assumes "drop p s = c # rest" and "uri_trans k (schar c) = (as, n)" and "n \<noteq> 0" and "uri_acts s p as x = Inr x'"
  shows "uri_loop s p k x = uri_loop s (Suc p) n x'"
  using drop_nth [OF assms(1)] assms(2-) by (subst uri_loop.simps) simp

lemma uri_loop_goto:
  assumes "drop p s = c # rest" and "uri_trans k (schar c) = ([], n)" and "n \<noteq> 0"
  shows "uri_loop s p k x = uri_loop s (Suc p) n x"
  using uri_loop_step [OF assms(1,2,3), of x x] by simp

lemma uri_loop_block:
  assumes "drop p s = xs @ rest" and "k \<noteq> 0" and "\<And>c. c \<in> set xs \<Longrightarrow> uri_trans k (schar c) = ([], k)"
  shows "uri_loop s p k x = uri_loop s (p + length xs) k x"
  using assms(1,3)
proof (induction xs arbitrary: p)
  case (Cons c xs)
  have d: "drop p s = c # (xs @ rest)" using Cons.prems(1) by simp
  have "uri_loop s p k x = uri_loop s (Suc p) k x"
    by (rule uri_loop_goto [OF d]) (use Cons.prems(2) assms(2) in simp_all)
  then show ?case using Cons.IH [of "Suc p"] Cons.prems(2) drop_Suc_eq [OF d] by simp
qed simp

text \<open>Text with percent-encoded bytes, over a state and the two states behind its percent sign.\<close>

definition text_state :: "(char \<Rightarrow> bool) \<Rightarrow> nat \<Rightarrow> nat \<Rightarrow> nat \<Rightarrow> bool" where
  "text_state ok k k1 k2 \<longleftrightarrow> k \<noteq> 0 \<and> k1 \<noteq> 0 \<and> k2 \<noteq> 0 \<and>
     (\<forall>c. c \<noteq> CHR ''%'' \<longrightarrow> ok c \<longrightarrow> uri_trans k (schar c) = ([], k)) \<and> uri_trans k 37 = ([], k1) \<and>
     (\<forall>c. isxdigit c \<longrightarrow> uri_trans k1 (schar c) = ([], k2) \<and> uri_trans k2 (schar c) = ([], k))"

lemma uri_loop_text:
  assumes "drop p s = xs @ rest" and "uri_text ok xs" and "text_state ok k k1 k2"
  shows "uri_loop s p k x = uri_loop s (p + length xs) k x"
  by (rule uri_text_run [where run = "\<lambda>p k. uri_loop s p k x" and ?k1.0 = k1 and ?k2.0 = k2, OF assms(1,2)])
    (erule uri_loop_goto; use assms(3) in \<open>simp add: text_state_def schar_lit\<close>)+

text \<open>The first character of such a text, in a state that only sets the mark on it.\<close>

lemma uri_loop_first:
  assumes d: "drop p s = xs @ rest" "xs \<noteq> []" "uri_text ok xs" and t: "text_state ok k k1 k2"
    and f: "\<And>c. c \<noteq> CHR ''%'' \<Longrightarrow> ok c \<Longrightarrow> c = hd xs \<Longrightarrow> uri_trans k0 (schar c) = ([U_Mark], k)"
      "uri_trans k0 37 = ([U_Mark], k1)"
  shows "uri_loop s p k0 (mark, u) = uri_loop s (p + length xs) k (Some p, u)"
proof -
  obtain c cs where xs: "xs = c # cs" using d(2) by (cases xs) auto
  have d0: "drop p s = c # (cs @ rest)" using d(1) xs by simp
  have t': "k \<noteq> 0" "k1 \<noteq> 0" "uri_trans k 37 = ([], k1)" "c \<noteq> CHR ''%'' \<Longrightarrow> ok c \<Longrightarrow> uri_trans k (schar c) = ([], k)"
    using t unfolding text_state_def by blast+
  have "\<exists>n. uri_trans k0 (schar c) = ([U_Mark], n) \<and> uri_trans k (schar c) = ([], n) \<and> n \<noteq> 0"
  proof (cases "c = CHR ''%''")
    case True
    then show ?thesis using f(2) t'(2,3) by (intro exI [where x = k1]) (simp add: schar_lit)
  next
    case False
    have "ok c" using False d(3) unfolding xs by simp
    moreover have "c = hd xs" unfolding xs by simp
    ultimately show ?thesis using f(1) [OF False] t'(4) [OF False] t'(1) by blast
  qed
  then obtain n where n: "uri_trans k0 (schar c) = ([U_Mark], n)" "uri_trans k (schar c) = ([], n)" "n \<noteq> 0" by blast
  have "uri_loop s p k0 (mark, u) = uri_loop s (Suc p) n (Some p, u)" using uri_loop_step [OF d0 n(1,3)] by simp
  also have "\<dots> = uri_loop s p k (Some p, u)" using uri_loop_goto [OF d0 n(2,3)] by simp
  also have "\<dots> = uri_loop s (p + length xs) k (Some p, u)" by (rule uri_loop_text [OF d(1,3) t])
  finally show ?thesis .
qed

section \<open>The states of a URI\<close>

lemma uri_trans_nth: "0 < k \<Longrightarrow> k \<le> 560 \<Longrightarrow> uri_trans k = uri_states ! (k - 1)"
  by (intro ext) (simp add: uri_trans_def length_uri_states)

lemma uri_trans_at:
  "uri_trans 2 = uri_st2" "uri_trans 5 = uri_st5" "uri_trans 6 = uri_st6" "uri_trans 7 = uri_st7" "uri_trans 8 = uri_st8"
  "uri_trans 243 = uri_st243" "uri_trans 244 = uri_st244" "uri_trans 253 = uri_st253" "uri_trans 254 = uri_st254"
  "uri_trans 258 = uri_st258" "uri_trans 259 = uri_st259" "uri_trans 451 = uri_st451" "uri_trans 453 = uri_st453"
  "uri_trans 454 = uri_st454" "uri_trans 455 = uri_st455" "uri_trans 456 = uri_st456" "uri_trans 457 = uri_st457"
  "uri_trans 458 = uri_st458" "uri_trans 508 = uri_st508" "uri_trans 509 = uri_st509" "uri_trans 510 = uri_st510"
  "uri_trans 511 = uri_st511" "uri_trans 513 = uri_st513" "uri_trans 514 = uri_st514" "uri_trans 515 = uri_st515"
  "uri_trans 520 = uri_st520" "uri_trans 521 = uri_st521" "uri_trans 522 = uri_st522" "uri_trans 523 = uri_st523"
  "uri_trans 542 = uri_st542" "uri_trans (Suc 0) = uri_st1"
  by (simp_all add: uri_trans_nth uri_states_def uri_states_defs)

lemmas uri_table = uri_trans_at uri_st_defs uri_tr_defs uri_goto_def

section \<open>The parts of a URI\<close>

definition is_letter :: "char \<Rightarrow> bool" where
  "is_letter c \<longleftrightarrow> (let n = schar c in 65 \<le> n \<and> n \<le> 90 \<or> 97 \<le> n \<and> n \<le> 122)"

definition is_scheme_char :: "char \<Rightarrow> bool" where
  "is_scheme_char c \<longleftrightarrow> is_letter c \<or> (let n = schar c in 48 \<le> n \<and> n \<le> 57 \<or> n \<in> {43, 45, 46})"

definition is_digit :: "char \<Rightarrow> bool" where
  "is_digit c \<longleftrightarrow> 48 \<le> schar c \<and> schar c \<le> 57"

text \<open>The characters of a user and of a registered name: \<open>unreserved\<close> and \<open>sub_delims\<close>.\<close>

definition is_reg_char :: "char \<Rightarrow> bool" where
  "is_reg_char c \<longleftrightarrow> (let n = schar c in n \<in> {33, 61, 95, 126} \<or> 36 \<le> n \<and> n \<le> 46 \<or> 48 \<le> n \<and> n \<le> 57 \<or> n = 59) \<or> is_letter c"

definition wf_scheme :: "string \<Rightarrow> bool" where
  "wf_scheme s \<longleftrightarrow> s \<noteq> [] \<and> is_letter (hd s) \<and> (\<forall>c\<in>set s. is_scheme_char c)"

definition wf_name :: "string \<Rightarrow> bool" where
  "wf_name s \<longleftrightarrow> s \<noteq> [] \<and> uri_text is_reg_char s \<and> \<not> is_digit (hd s)"

lemmas char_classes = is_letter_def is_scheme_char_def is_digit_def is_reg_char_def is_pchar_def is_qchar_def Let_def

lemma uri_text_states:
  "text_state is_pchar 513 243 244" "text_state is_qchar 457 7 8" "text_state is_qchar 454 1 2"
  "text_state is_pchar 455 5 6" "text_state is_reg_char 520 253 254" "text_state is_reg_char 523 258 259"
proof -
  have pct: "c \<noteq> CHR ''%'' \<longleftrightarrow> schar c \<noteq> 37" for c using schar_inj [of c "CHR ''%''"] by (simp add: schar_lit)
  have q: "c = CHR ''?'' \<longleftrightarrow> schar c = 63" for c using schar_inj [of c "CHR ''?''"] by (simp add: schar_lit)
  show "text_state is_pchar 513 243 244" "text_state is_qchar 457 7 8" "text_state is_qchar 454 1 2"
    "text_state is_pchar 455 5 6" "text_state is_reg_char 520 253 254" "text_state is_reg_char 523 258 259"
    unfolding text_state_def pct by (auto simp: uri_table char_classes q dest!: schar_xdigit)
qed

lemma uri_codes: "schar (CHR ''#'') = 35" "schar (CHR ''@'') = 64" "schar (CHR ''/'') = 47" "schar (CHR ''?'') = 63"
  "schar (CHR '':'') = 58"
  by (simp_all add: schar_def Let_def)

lemma at_mark_text:
  assumes "drop m s = xs @ rest"
  shows "at_mark s (m + length xs) (Some m) f u = Inr (f xs u)"
  using assms by (simp add: at_mark_def)

lemma uri_loop_scheme:
  assumes s: "s = sch @ ''://'' @ rest" and sch: "wf_scheme sch"
  shows "uri_loop s 0 451 (None, Uri_new) = uri_loop s (length sch + 3) 511 (None, Uri_new\<lparr>ur_scheme := sch\<rparr>)"
proof -
  obtain c cs where c: "sch = c # cs" "is_letter c" "\<forall>c\<in>set cs. is_scheme_char c"
    using sch by (cases sch) (auto simp: wf_scheme_def)
  have d0: "drop 0 s = c # (cs @ ''://'' @ rest)" using s c(1) by simp
  note d1 = drop_Suc_eq [OF d0]
  have d2: "drop (length sch) s = CHR '':'' # CHR ''/'' # CHR ''/'' # rest" using s by simp
  note d3 = drop_Suc_eq [OF d2]
  note d4 = drop_Suc_eq [OF d3]
  have scheme: "at_mark s (length sch) (Some 0) f u = Inr (f sch u)" for f u
    using at_mark_text [of 0 s sch "''://'' @ rest" f u] s by simp
  have "uri_loop s 0 451 (None, Uri_new) = uri_loop s (Suc 0) 508 (Some 0, Uri_new)"
    by (rule uri_loop_step [OF d0, where as = "[U_Mark]"]) (use c(2) in \<open>auto simp: uri_table char_classes\<close>)
  also have "\<dots> = uri_loop s (Suc 0 + length cs) 508 (Some 0, Uri_new)"
    by (rule uri_loop_block [OF d1]) (use c(3) in \<open>auto simp: uri_table char_classes\<close>)
  also have "Suc 0 + length cs = length sch" using c(1) by simp
  also have "uri_loop s (length sch) 508 (Some 0, Uri_new) = uri_loop s (Suc (length sch)) 509 (None, Uri_new\<lparr>ur_scheme := sch\<rparr>)"
    by (rule uri_loop_step [OF d2, where as = "[U_Scheme]"])
      (simp_all add: uri_table uri_codes scheme unmark_def uri_setScheme_def)
  also have "\<dots> = uri_loop s (Suc (Suc (length sch))) 510 (None, Uri_new\<lparr>ur_scheme := sch\<rparr>)"
    by (rule uri_loop_goto [OF d3]) (simp_all add: uri_table uri_codes)
  also have "\<dots> = uri_loop s (Suc (Suc (Suc (length sch)))) 511 (None, Uri_new\<lparr>ur_scheme := sch\<rparr>)"
    by (rule uri_loop_goto [OF d4]) (simp_all add: uri_table uri_codes)
  finally show ?thesis by (simp add: numeral_3_eq_3)
qed

text \<open>The states of an authority, without a user in front and behind one.\<close>

definition auth_states :: "nat \<Rightarrow> nat \<Rightarrow> nat \<Rightarrow> nat \<Rightarrow> bool" where
  "auth_states k0 k kc kd \<longleftrightarrow> k0 = 511 \<and> k = 520 \<and> kc = 521 \<and> kd = 542 \<or> k0 = 522 \<and> k = 523 \<and> kc = 514 \<and> kd = 515"

lemma uri_loop_name:
  assumes d: "drop p s = h @ rest" and h: "wf_name h" and k: "auth_states k0 k kc kd"
  shows "uri_loop s p k0 (mark, u) = uri_loop s (p + length h) k (Some p, u)"
proof -
  have h': "h \<noteq> []" "uri_text is_reg_char h" "\<not> is_digit (hd h)" using h by (simp_all add: wf_name_def)
  have pct: "c \<noteq> CHR ''%'' \<longleftrightarrow> schar c \<noteq> 37" for c using schar_inj [of c "CHR ''%''"] by (simp add: schar_lit)
  have first: "uri_trans k0 (schar c) = ([U_Mark], k)" if "c \<noteq> CHR ''%''" "is_reg_char c" "c = hd h" for c
    using that h'(3) k unfolding pct by (auto simp: auth_states_def uri_table char_classes)
  show ?thesis
  proof (cases "k0 = 511")
    case True
    then have eq: "k = 520" using k by (simp add: auth_states_def)
    show ?thesis by (rule uri_loop_first [OF d h'(1,2), where ?k1.0 = 253 and ?k2.0 = 254])
      (use first True eq uri_text_states in \<open>auto simp: uri_table\<close>)
  next
    case False
    then have eq: "k0 = 522" "k = 523" using k by (auto simp: auth_states_def)
    show ?thesis by (rule uri_loop_first [OF d h'(1,2), where ?k1.0 = 258 and ?k2.0 = 259])
      (use first eq uri_text_states in \<open>auto simp: uri_table\<close>)
  qed
qed

text \<open>The digits of a port behind its colon.\<close>

lemma uri_loop_digits:
  assumes d: "drop p s = ds @ rest" and ds: "ds \<noteq> []" "\<forall>c\<in>set ds. is_digit c" and k: "auth_states k0 k kc kd"
  shows "uri_loop s p kc (mark, u) = uri_loop s (p + length ds) kd (Some p, u)"
proof -
  obtain c cs where c: "ds = c # cs" "is_digit c" "\<forall>c\<in>set cs. is_digit c" using ds by (cases ds) auto
  have d0: "drop p s = c # (cs @ rest)" using d c(1) by simp
  have "uri_loop s p kc (mark, u) = uri_loop s (Suc p) kd (Some p, u)"
    by (rule uri_loop_step [OF d0, where as = "[U_Mark]"]) (use c(2) k in \<open>auto simp: auth_states_def uri_table char_classes\<close>)
  also have "\<dots> = uri_loop s (Suc p + length cs) kd (Some p, u)"
    by (rule uri_loop_block [OF drop_Suc_eq [OF d0]]) (use c(3) k in \<open>auto simp: auth_states_def uri_table char_classes\<close>)
  finally show ?thesis using c(1) by simp
qed

lemma is_digit_val:
  assumes "is_digit c"
  shows "digit_val c < 10"
proof -
  have eq: "(of_char c :: int) = int (of_char c :: nat)" by (simp only: of_nat_of_char)
  have "int (of_char c :: nat) < 256" using nat_of_char_less_256 [of c] by linarith
  then have "\<not> 256 \<le> (of_char c :: int)" unfolding eq by linarith
  then have "48 \<le> (of_char c :: int)" "(of_char c :: int) \<le> 57"
    using assms by (auto simp: is_digit_def schar_def Let_def simp del: of_nat_of_char split: if_splits)
  then have "48 \<le> (of_char c :: nat)" "(of_char c :: nat) \<le> 57" unfolding eq by linarith+
  then show ?thesis by (simp add: digit_val_def Let_def)
qed

lemma atoi_digits:
  assumes "ds \<noteq> []" "\<forall>c\<in>set ds. is_digit c" "digits_of 10 0 ds < 2 ^ 31" "digit_val c = 255"
  shows "atoi (ds @ c # rest) = int (digits_of 10 0 ds)"
proof -
  have "all_digits 10 ds" using assms(2) is_digit_val by (simp add: all_digits_def)
  then have "strtol 10 (ds @ c # rest) = min (2 ^ 63 - 1) (int (digits_of 10 0 ds))"
    using strtol_digits [where xs = ds and base = 10 and r = "c # rest"] assms(1,4) by simp
  then show ?thesis using assms(3) by (simp add: atoi_def int32_id)
qed

definition port_text :: "string \<Rightarrow> string" where
  "port_text ds = (if ds = [] then [] else CHR '':'' # ds)"

definition wf_port :: "string \<Rightarrow> bool" where
  "wf_port ds \<longleftrightarrow> (\<forall>c\<in>set ds. is_digit c) \<and> digits_of 10 0 ds < 2 ^ 31"

definition with_port :: "string \<Rightarrow> Uri \<Rightarrow> Uri" where
  "with_port ds u = (if ds = [] then u else u\<lparr>ur_port := int (digits_of 10 0 ds)\<rparr>)"

text \<open>From the start of the host to the slash of the path.\<close>

lemma uri_loop_host:
  assumes d: "drop p s = h @ port_text ds @ CHR ''/'' # rest" and h: "wf_name h" and ds: "wf_port ds"
    and k: "auth_states k0 k kc kd"
  shows "uri_loop s p k0 (mark, u) = uri_loop s (Suc (p + length h + length (port_text ds))) 513
    (Some (p + length h + length (port_text ds)), with_port ds (u\<lparr>ur_host := h\<rparr>))"
proof -
  let ?n = "p + length h" and ?u = "u\<lparr>ur_host := h\<rparr>"
  have host: "at_mark s ?n (Some p) uri_setHost u = Inr ?u"
    using at_mark_text [OF d, of uri_setHost u] by (simp add: uri_setHost_def)
  have 0: "uri_loop s p k0 (mark, u) = uri_loop s ?n k (Some p, u)" by (rule uri_loop_name [OF d h k])
  show ?thesis
  proof (cases "ds = []")
    case True
    have dn: "drop ?n s = CHR ''/'' # rest" using drop_append_eq [OF d] True by (simp add: port_text_def)
    have "uri_loop s ?n k (Some p, u) = uri_loop s (Suc ?n) 513 (Some ?n, ?u)"
      by (rule uri_loop_step [OF dn, where as = "[U_Host, U_Mark]"])
        (use k host in \<open>auto simp: auth_states_def uri_table uri_codes\<close>)
    then show ?thesis using 0 True by (simp add: port_text_def with_port_def)
  next
    case False
    let ?m = "Suc ?n" and ?port = "int (digits_of 10 0 ds)"
    have dn: "drop ?n s = CHR '':'' # (ds @ CHR ''/'' # rest)" using drop_append_eq [OF d] False by (simp add: port_text_def)
    note dm = drop_Suc_eq [OF dn]
    note dp = drop_append_eq [OF dm]
    have digits: "\<forall>c\<in>set ds. is_digit c" "digits_of 10 0 ds < 2 ^ 31" using ds by (simp_all add: wf_port_def)
    have "digit_val (CHR ''/'') = 255" by code_simp
    then have port: "atoi (drop ?m s) = ?port" using atoi_digits [OF False digits] dm by simp
    have "uri_loop s ?n k (Some p, u) = uri_loop s ?m kc (Some p, ?u)"
      by (rule uri_loop_step [OF dn, where as = "[U_Host]"])
        (use k host in \<open>auto simp: auth_states_def uri_table uri_codes\<close>)
    also have "\<dots> = uri_loop s (?m + length ds) kd (Some ?m, ?u)" by (rule uri_loop_digits [OF dm False digits(1) k])
    also have "\<dots> = uri_loop s (Suc (?m + length ds)) 513 (Some (?m + length ds), ?u\<lparr>ur_port := ?port\<rparr>)"
      by (rule uri_loop_step [OF dp, where as = "[U_Port, U_Mark]"])
        (use k port False in \<open>auto simp: auth_states_def uri_table uri_codes unmark_def uri_setPort_def\<close>)
    finally show ?thesis using 0 False by (simp add: port_text_def with_port_def)
  qed
qed

lemma uri_loop_user:
  assumes d: "drop p s = n @ CHR ''@'' # rest" and n: "wf_name n"
  shows "uri_loop s p 511 (mark, u) = uri_loop s (Suc (p + length n)) 522 (None, u\<lparr>ur_userinfo := n\<rparr>)"
proof -
  have "at_mark s (p + length n) (Some p) uri_setUserinfo u = Inr (u\<lparr>ur_userinfo := n\<rparr>)"
    using at_mark_text [OF d, of uri_setUserinfo u] by (simp add: uri_setUserinfo_def)
  then have "uri_loop s (p + length n) 520 (Some p, u) = uri_loop s (Suc (p + length n)) 522 (None, u\<lparr>ur_userinfo := n\<rparr>)"
    by (intro uri_loop_step [OF drop_append_eq [OF d], where as = "[U_Userinfo]"])
      (simp_all add: uri_table uri_codes unmark_def)
  then show ?thesis using uri_loop_name [OF d n, of 511 520 521 542] by (simp add: auth_states_def)
qed

text \<open>A user with a password of digits.\<close>

lemma uri_loop_password:
  assumes d: "drop p s = n @ CHR '':'' # ds @ CHR ''@'' # rest" and n: "wf_name n" and ds: "ds \<noteq> []" "\<forall>c\<in>set ds. is_digit c"
  shows "uri_loop s p 511 (mark, u) =
    uri_loop s (p + length n + length ds + 2) 522 (None, u\<lparr>ur_host := n, ur_userinfo := ds\<rparr>)"
proof -
  let ?n = "p + length n" and ?u = "u\<lparr>ur_host := n\<rparr>"
  have k: "auth_states 511 520 521 542" by (simp add: auth_states_def)
  have dn: "drop ?n s = CHR '':'' # (ds @ CHR ''@'' # rest)" using drop_append_eq [OF d] by simp
  note dm = drop_Suc_eq [OF dn]
  note dp = drop_append_eq [OF dm]
  have host: "at_mark s ?n (Some p) uri_setHost u = Inr ?u"
    using at_mark_text [OF d, of uri_setHost u] by (simp add: uri_setHost_def)
  have user: "at_mark s (Suc ?n + length ds) (Some (Suc ?n)) uri_setUserinfo ?u = Inr (?u\<lparr>ur_userinfo := ds\<rparr>)"
    using at_mark_text [OF dm, of uri_setUserinfo ?u] by (simp add: uri_setUserinfo_def)
  have "uri_loop s p 511 (mark, u) = uri_loop s ?n 520 (Some p, u)" by (rule uri_loop_name [OF d n k])
  also have "\<dots> = uri_loop s (Suc ?n) 521 (Some p, ?u)"
    by (rule uri_loop_step [OF dn, where as = "[U_Host]"]) (use host in \<open>simp_all add: uri_table uri_codes\<close>)
  also have "\<dots> = uri_loop s (Suc ?n + length ds) 542 (Some (Suc ?n), ?u)" by (rule uri_loop_digits [OF dm ds k])
  also have "\<dots> = uri_loop s (Suc (Suc ?n + length ds)) 522 (None, ?u\<lparr>ur_userinfo := ds\<rparr>)"
    by (rule uri_loop_step [OF dp, where as = "[U_Userinfo]"]) (use user in \<open>simp_all add: uri_table uri_codes unmark_def\<close>)
  finally show ?thesis by simp
qed

text \<open>Behind the path: the query and the fragment, up to the end of the text.\<close>

definition frag_text :: "string \<Rightarrow> string" where
  "frag_text f = (if f = [] then [] else CHR ''#'' # f)"

definition query_text :: "string \<Rightarrow> string" where
  "query_text q = (if q = [] then [] else CHR ''?'' # q)"

definition with_fragment :: "string \<Rightarrow> Uri \<Rightarrow> Uri" where
  "with_fragment f u = (if f = [] then u else u\<lparr>ur_fragment := f\<rparr>)"

definition with_query :: "string \<Rightarrow> Uri \<Rightarrow> Uri" where
  "with_query q u = (if q = [] then u else u\<lparr>ur_query := q\<rparr>)"

lemma uri_loop_eof:
  assumes "drop p s = []" and "uri_acts s p (uri_eof k) x = Inr (mark, u)" and "p \<le> length s"
  shows "uri_loop s p k x = Inr (k, u)"
  using assms by (subst uri_loop.simps) simp

lemma drop_end: "drop p s = xs \<Longrightarrow> xs \<noteq> [] \<Longrightarrow> p + length xs = length s"
  by (cases "p < length s") auto

lemma uri_loop_fragment:
  assumes d: "drop p s = f" and f: "f \<noteq> []" "uri_text is_qchar f"
  shows "uri_loop s p 453 (mark, u) = Inr (454, u\<lparr>ur_fragment := f\<rparr>)"
proof -
  have d': "drop p s = f @ []" using d by simp
  have "at_mark s (p + length f) (Some p) uri_setFragment u = Inr (u\<lparr>ur_fragment := f\<rparr>)"
    using at_mark_text [OF d', of uri_setFragment u] by (simp add: uri_setFragment_def)
  then have eof: "uri_loop s (p + length f) 454 (Some p, u) = Inr (454, u\<lparr>ur_fragment := f\<rparr>)"
    using drop_end [OF d f(1)] by (intro uri_loop_eof) (simp_all add: uri_eof_def unmark_def)
  have pct: "c \<noteq> CHR ''%'' \<longleftrightarrow> schar c \<noteq> 37" for c using schar_inj [of c "CHR ''%''"] by (simp add: schar_lit)
  have q: "c = CHR ''?'' \<longleftrightarrow> schar c = 63" for c using schar_inj [of c "CHR ''?''"] by (simp add: schar_lit)
  have "uri_loop s p 453 (mark, u) = uri_loop s (p + length f) 454 (Some p, u)"
    by (rule uri_loop_first [OF d' f uri_text_states(3)]) (auto simp: uri_table char_classes pct q)
  then show ?thesis using eof by simp
qed

lemma uri_loop_query:
  assumes d: "drop p s = q @ frag_text f" and q: "q \<noteq> []" "uri_text is_qchar q" and f: "uri_text is_qchar f"
  shows "\<exists>k. uri_loop s p 456 (mark, u) = Inr (k, with_fragment f (u\<lparr>ur_query := q\<rparr>)) \<and> 451 \<le> k"
proof -
  let ?n = "p + length q" and ?u = "u\<lparr>ur_query := q\<rparr>"
  have query: "at_mark s ?n (Some p) uri_setQuery u = Inr ?u"
    using at_mark_text [OF d, of uri_setQuery u] by (simp add: uri_setQuery_def)
  have pct: "c \<noteq> CHR ''%'' \<longleftrightarrow> schar c \<noteq> 37" for c using schar_inj [of c "CHR ''%''"] by (simp add: schar_lit)
  have qm: "c = CHR ''?'' \<longleftrightarrow> schar c = 63" for c using schar_inj [of c "CHR ''?''"] by (simp add: schar_lit)
  have 0: "uri_loop s p 456 (mark, u) = uri_loop s ?n 457 (Some p, u)"
    by (rule uri_loop_first [OF d q uri_text_states(2)]) (auto simp: uri_table char_classes pct qm)
  show ?thesis
  proof (cases "f = []")
    case True
    then have "?n = length s" using d q(1) drop_end [of p s q] by (simp add: frag_text_def)
    then have "uri_loop s ?n 457 (Some p, u) = Inr (457, ?u)"
      using query by (intro uri_loop_eof) (simp_all add: uri_eof_def unmark_def)
    then show ?thesis using 0 True by (simp add: with_fragment_def)
  next
    case False
    have dn: "drop ?n s = CHR ''#'' # f" using drop_append_eq [OF d] False by (simp add: frag_text_def)
    have "uri_loop s ?n 457 (Some p, u) = uri_loop s (Suc ?n) 453 (None, ?u)"
      by (rule uri_loop_step [OF dn, where as = "[U_Query]"]) (use query in \<open>simp_all add: uri_table uri_codes unmark_def\<close>)
    also have "\<dots> = Inr (454, ?u\<lparr>ur_fragment := f\<rparr>)" by (rule uri_loop_fragment [OF drop_Suc_eq [OF dn] False f])
    finally show ?thesis using 0 False by (simp add: with_fragment_def)
  qed
qed

lemma uri_loop_path:
  assumes d: "drop m s = CHR ''/'' # r @ query_text q @ frag_text f" and r: "uri_text is_pchar r"
    and q: "uri_text is_qchar q" and f: "uri_text is_qchar f"
  shows "\<exists>k. uri_loop s (Suc m) 513 (Some m, u) =
    Inr (k, with_fragment f (with_query q (u\<lparr>ur_path := CHR ''/'' # r\<rparr>))) \<and> 451 \<le> k"
proof -
  let ?n = "Suc m + length r" and ?u = "u\<lparr>ur_path := CHR ''/'' # r\<rparr>"
  note d1 = drop_Suc_eq [OF d]
  note dn = drop_append_eq [OF d1]
  have "drop m s = (CHR ''/'' # r) @ query_text q @ frag_text f" using d by simp
  from at_mark_text [OF this, of uri_setPath u]
  have path: "at_mark s ?n (Some m) uri_setPath u = Inr ?u" by (simp add: uri_setPath_def)
  have 0: "uri_loop s (Suc m) 513 (Some m, u) = uri_loop s ?n 513 (Some m, u)"
    by (rule uri_loop_text [OF d1 r uri_text_states(1)])
  consider "q = []" "f = []" | "q = []" "f \<noteq> []" | "q \<noteq> []" by blast
  then show ?thesis
  proof cases
    case 1
    have "m < length s" using d by (metis drop_eq_Nil leI list.distinct(1))
    then have "drop ?n s = []" "?n \<le> length s" using 1 dn drop_end [of m s] d
      by (simp_all add: query_text_def frag_text_def)
    then have "uri_loop s ?n 513 (Some m, u) = Inr (513, ?u)"
      using path by (intro uri_loop_eof) (simp_all add: uri_eof_def unmark_def)
    then show ?thesis using 0 1 by (simp add: with_fragment_def with_query_def)
  next
    case 2
    have dn': "drop ?n s = CHR ''#'' # f" using dn 2 by (simp add: query_text_def frag_text_def)
    have "uri_loop s ?n 513 (Some m, u) = uri_loop s (Suc ?n) 453 (None, ?u)"
      by (rule uri_loop_step [OF dn', where as = "[U_Path]"]) (use path in \<open>simp_all add: uri_table uri_codes unmark_def\<close>)
    also have "\<dots> = Inr (454, ?u\<lparr>ur_fragment := f\<rparr>)" by (rule uri_loop_fragment [OF drop_Suc_eq [OF dn'] 2(2) f])
    finally show ?thesis using 0 2 by (simp add: with_fragment_def with_query_def)
  next
    case 3
    have dn': "drop ?n s = CHR ''?'' # (q @ frag_text f)" using dn 3 by (simp add: query_text_def)
    have "uri_loop s ?n 513 (Some m, u) = uri_loop s (Suc ?n) 456 (None, ?u)"
      by (rule uri_loop_step [OF dn', where as = "[U_Path]"]) (use path in \<open>simp_all add: uri_table uri_codes unmark_def\<close>)
    moreover obtain k where "uri_loop s (Suc ?n) 456 (None, ?u) = Inr (k, with_fragment f (?u\<lparr>ur_query := q\<rparr>))" "451 \<le> k"
      using uri_loop_query [OF drop_Suc_eq [OF dn'] 3 q f, of None ?u] by blast
    ultimately show ?thesis using 0 3 by (simp add: with_query_def)
  qed
qed

section \<open>Whole URIs\<close>

text \<open>From the host to the end of the text.\<close>

definition host_text :: "string \<Rightarrow> string \<Rightarrow> string \<Rightarrow> string \<Rightarrow> string \<Rightarrow> string" where
  "host_text h ds r q f = h @ port_text ds @ CHR ''/'' # r @ query_text q @ frag_text f"

definition with_host :: "string \<Rightarrow> string \<Rightarrow> string \<Rightarrow> string \<Rightarrow> string \<Rightarrow> Uri \<Rightarrow> Uri" where
  "with_host h ds r q f u =
     with_fragment f (with_query q ((with_port ds (u\<lparr>ur_host := h\<rparr>))\<lparr>ur_path := CHR ''/'' # r\<rparr>))"

definition wf_host :: "string \<Rightarrow> string \<Rightarrow> string \<Rightarrow> string \<Rightarrow> string \<Rightarrow> bool" where
  "wf_host h ds r q f \<longleftrightarrow>
     wf_name h \<and> wf_port ds \<and> uri_text is_pchar r \<and> uri_text is_qchar q \<and> uri_text is_qchar f"

lemma uri_loop_rest:
  assumes d: "drop p s = host_text h ds r q f" and wf: "wf_host h ds r q f" and k0: "k0 \<in> {511, 522}"
  shows "\<exists>k. uri_loop s p k0 (mark, u) = Inr (k, with_host h ds r q f u) \<and> 451 \<le> k"
proof -
  obtain k kc kd where k: "auth_states k0 k kc kd" using k0 by (auto simp: auth_states_def)
  let ?m = "p + length h + length (port_text ds)" and ?u = "with_port ds (u\<lparr>ur_host := h\<rparr>)"
  have d': "drop p s = h @ port_text ds @ CHR ''/'' # (r @ query_text q @ frag_text f)" using d by (simp add: host_text_def)
  have "drop p s = (h @ port_text ds) @ CHR ''/'' # r @ query_text q @ frag_text f" using d' by simp
  from drop_append_eq [OF this] have dm: "drop ?m s = CHR ''/'' # r @ query_text q @ frag_text f" by (simp add: add.assoc)
  have "uri_loop s p k0 (mark, u) = uri_loop s (Suc ?m) 513 (Some ?m, ?u)"
    using uri_loop_host [OF d' _ _ k] wf by (simp add: wf_host_def)
  moreover obtain k' where "uri_loop s (Suc ?m) 513 (Some ?m, ?u)
      = Inr (k', with_fragment f (with_query q (?u\<lparr>ur_path := CHR ''/'' # r\<rparr>)))" "451 \<le> k'"
    using uri_loop_path [OF dm, of ?u] wf by (auto simp: wf_host_def)
  ultimately show ?thesis by (simp add: with_host_def)
qed

lemma Uri_Create_run: "uri_loop s 0 451 (None, Uri_new) = Inr (k, u) \<Longrightarrow> 451 \<le> k \<Longrightarrow> Uri_Create s = Inr (Some u)"
  by (simp add: Uri_Create_def)

lemma drop_scheme: "s = sch @ ''://'' @ rest \<Longrightarrow> drop (length sch + 3) s = rest"
  by simp

text \<open>A URI as \<open>toString\<close> writes it, taken apart.\<close>

definition user_text :: "string \<Rightarrow> string" where
  "user_text n = (if n = [] then [] else n @ ''@'')"

lemma uri_parts:
  assumes sch: "wf_scheme sch" and n: "n = [] \<or> wf_name n" and wf: "wf_host h ds r q f"
  shows "Uri_Create (sch @ ''://'' @ user_text n @ host_text h ds r q f)
    = Inr (Some (with_host h ds r q f (Uri_new\<lparr>ur_scheme := sch, ur_userinfo := n\<rparr>)))"
proof -
  let ?s = "sch @ ''://'' @ user_text n @ host_text h ds r q f" and ?p = "length sch + 3"
  let ?u = "Uri_new\<lparr>ur_scheme := sch\<rparr>"
  have start: "uri_loop ?s 0 451 (None, Uri_new) = uri_loop ?s ?p 511 (None, ?u)"
    by (rule uri_loop_scheme [OF refl sch])
  have d: "drop ?p ?s = user_text n @ host_text h ds r q f" by (rule drop_scheme [OF refl])
  show ?thesis
  proof (cases "n = []")
    case True
    have "drop ?p ?s = host_text h ds r q f" using d True by (simp add: user_text_def)
    moreover have "?u\<lparr>ur_userinfo := n\<rparr> = ?u" using True by (simp add: Uri_new_def)
    ultimately show ?thesis
      using uri_loop_rest [of ?p ?s h ds r q f 511 None ?u] wf start Uri_Create_run by fastforce
  next
    case False
    have d': "drop ?p ?s = n @ CHR ''@'' # host_text h ds r q f" using d False by (simp add: user_text_def)
    have "drop (?p + length n) ?s = CHR ''@'' # host_text h ds r q f" by (rule drop_append_eq [OF d'])
    from drop_Suc_eq [OF this] have d'': "drop (Suc (?p + length n)) ?s = host_text h ds r q f" .
    have "uri_loop ?s ?p 511 (None, ?u) = uri_loop ?s (Suc (?p + length n)) 522 (None, ?u\<lparr>ur_userinfo := n\<rparr>)"
      using uri_loop_user [OF d'] n False by simp
    then show ?thesis
      using uri_loop_rest [OF d'' wf, of 522 None "?u\<lparr>ur_userinfo := n\<rparr>"] start Uri_Create_run by fastforce
  qed
qed

text \<open>The URIs whose text is taken apart as it was put together; what is kept of the port and the path.\<close>

definition wf_uri :: "Uri \<Rightarrow> bool" where
  "wf_uri u \<longleftrightarrow>
     wf_scheme (ur_scheme u) \<and> (ur_userinfo u = [] \<or> wf_name (ur_userinfo u)) \<and> wf_name (ur_host u) \<and>
     0 \<le> ur_port u \<and> ur_port u < 2 ^ 31 \<and> (ur_path u = [] \<or> hd (ur_path u) = CHR ''/'') \<and>
     uri_text is_pchar (tl (ur_path u)) \<and> uri_text is_qchar (ur_query u) \<and> uri_text is_qchar (ur_fragment u)"


text \<open>
  A password of digits replaces the user: in a URI whose user is followed by a colon and digits, the
  colon is taken for the one of a port, the mark moves to the digits, and they alone are stored as
  the user information.
\<close>

theorem numeric_password_replaces_user:
  assumes "wf_scheme sch" and "wf_name n" and "ds \<noteq> []" "\<forall>c\<in>set ds. is_digit c" and "wf_host h ps r q f"
  shows "\<exists>u. Uri_Create (sch @ ''://'' @ n @ '':'' @ ds @ ''@'' @ host_text h ps r q f) = Inr (Some u) \<and>
    ur_userinfo u = ds \<and> ur_host u = h"
proof -
  let ?s = "sch @ ''://'' @ n @ '':'' @ ds @ ''@'' @ host_text h ps r q f" and ?p = "length sch + 3"
  let ?u = "Uri_new\<lparr>ur_scheme := sch\<rparr>"
  have d: "drop ?p ?s = n @ CHR '':'' # ds @ CHR ''@'' # host_text h ps r q f" by simp
  have "drop ?p ?s = (n @ '':'' @ ds @ ''@'') @ host_text h ps r q f" by simp
  from drop_append_eq [OF this] have d': "drop (?p + length n + length ds + 2) ?s = host_text h ps r q f"
    by (simp add: add.commute add.left_commute)
  obtain k where "uri_loop ?s (?p + length n + length ds + 2) 522 (None, ?u\<lparr>ur_host := n, ur_userinfo := ds\<rparr>)
      = Inr (k, with_host h ps r q f (?u\<lparr>ur_host := n, ur_userinfo := ds\<rparr>))" "451 \<le> k"
    using uri_loop_rest [OF d' assms(5), of 522 None] by auto
  then have "Uri_Create ?s = Inr (Some (with_host h ps r q f (?u\<lparr>ur_host := n, ur_userinfo := ds\<rparr>)))"
    using uri_loop_scheme [OF refl assms(1), of "n @ '':'' @ ds @ ''@'' @ host_text h ps r q f"]
      uri_loop_password [OF d assms(2-4), of None ?u] by (intro Uri_Create_run) simp_all
  then show ?thesis
    by (auto simp: with_host_def with_port_def with_query_def with_fragment_def)
qed

definition sample_uri :: Uri where
  "sample_uri = \<lparr>ur_scheme = ''http'', ur_userinfo = ''me'', ur_host = ''h.com'', ur_path = ''/a/%20'', ur_query = ''q=1'',
     ur_fragment = ''f'', ur_port = 8080\<rparr>"

lemma sample_uri_wf: "wf_uri sample_uri"
  by code_simp


lemma numeric_password_replaces_user_witness:
  "\<exists>u. Uri_Create (''http'' @ ''://'' @ ''me'' @ '':'' @ ''42'' @ ''@'' @ host_text ''h'' [] [] [] []) = Inr (Some u) \<and>
    ur_userinfo u = ''42'' \<and> ur_host u = ''h''"
proof -
  have wf: "wf_scheme ''http''" "wf_name ''me''" "\<forall>c\<in>set ''42''. is_digit c" "wf_name ''h''" by code_simp+
  have "wf_host ''h'' [] [] [] []" using wf(4) by (simp add: wf_host_def wf_port_def)
  from numeric_password_replaces_user [OF wf(1,2) _ wf(3) this] show ?thesis by simp
qed

section \<open>Parts that are lost\<close>

lemma uri_loop_relative:
  assumes d: "drop p s = query_text q @ frag_text f" and p: "p \<le> length s" and k: "k = 455 \<or> k = 458"
    and q: "uri_text is_qchar q" and f: "uri_text is_qchar f"
  shows "\<exists>k'. uri_loop s p k (mark, u) = Inr (k', with_fragment f (with_query q u)) \<and> 451 \<le> k'"
proof -
  consider "q = []" "f = []" | "q = []" "f \<noteq> []" | "q \<noteq> []" by blast
  then show ?thesis
  proof cases
    case 1
    have "uri_eof 455 = []" "uri_eof 458 = []" by (simp_all add: uri_eof_def)
    then have "uri_acts s p (uri_eof k) (mark, u) = Inr (mark, u)" using k by auto
    moreover have "drop p s = []" using d 1 by (simp add: query_text_def frag_text_def)
    ultimately have "uri_loop s p k (mark, u) = Inr (k, u)" using uri_loop_eof p by blast
    then show ?thesis using 1 k by (auto simp: with_fragment_def with_query_def)
  next
    case 2
    have d': "drop p s = CHR ''#'' # f" using d 2 by (simp add: query_text_def frag_text_def)
    have "uri_loop s p k (mark, u) = uri_loop s (Suc p) 453 (mark, u)"
      by (rule uri_loop_goto [OF d']) (use k in \<open>auto simp: uri_table uri_codes\<close>)
    then show ?thesis using uri_loop_fragment [OF drop_Suc_eq [OF d'] 2(2) f] 2 by (simp add: with_fragment_def with_query_def)
  next
    case 3
    have d': "drop p s = CHR ''?'' # (q @ frag_text f)" using d 3 by (simp add: query_text_def)
    have "uri_loop s p k (mark, u) = uri_loop s (Suc p) 456 (mark, u)"
      by (rule uri_loop_goto [OF d']) (use k in \<open>auto simp: uri_table uri_codes\<close>)
    then show ?thesis using uri_loop_query [OF drop_Suc_eq [OF d'] 3 q f, of mark u] 3 by (simp add: with_query_def)
  qed
qed

text \<open>
  The path of a reference without an authority is lost: a text that starts with one slash is
  accepted as an absolute path, with its query and fragment, but the path is not stored, so that
  \<open>getPath\<close> answers \<open>/\<close> whatever it was.
\<close>

theorem relative_path_lost:
  assumes "uri_text is_pchar r" "r = [] \<or> hd r \<noteq> CHR ''/''" "uri_text is_qchar q" "uri_text is_qchar f"
  shows "\<exists>u. Uri_Create (CHR ''/'' # r @ query_text q @ frag_text f) = Inr (Some u) \<and>
    uri_getPath u = ''/'' \<and> ur_query u = q \<and> ur_fragment u = f"
proof -
  let ?s = "CHR ''/'' # r @ query_text q @ frag_text f"
  have d0: "drop 0 ?s = CHR ''/'' # (r @ query_text q @ frag_text f)" by simp
  note d1 = drop_Suc_eq [OF d0]
  note dn = drop_append_eq [OF d1]
  have pct: "c \<noteq> CHR ''%'' \<longleftrightarrow> schar c \<noteq> 37" "c \<noteq> CHR ''/'' \<longleftrightarrow> schar c \<noteq> 47" for c
    using schar_inj [of c "CHR ''%''"] schar_inj [of c "CHR ''/''"] by (simp_all add: schar_lit)
  have 0: "uri_loop ?s 0 451 (None, Uri_new) = uri_loop ?s (Suc 0) 458 (None, Uri_new)"
    by (rule uri_loop_goto [OF d0]) (simp_all add: uri_table uri_codes)
  have "\<exists>k. uri_loop ?s (Suc 0) 458 (None, Uri_new) = uri_loop ?s (Suc 0 + length r) k (None, Uri_new) \<and> (k = 455 \<or> k = 458)"
  proof (cases r)
    case (Cons c cs)
    have dc: "drop (Suc 0) ?s = c # (cs @ query_text q @ frag_text f)" using d1 Cons by simp
    have "uri_trans 458 (schar c) = uri_trans 455 (schar c)"
      using assms(2) Cons pct(2) [of c] by (simp add: uri_table)
    moreover obtain n where n: "uri_trans 455 (schar c) = ([], n)" "n \<noteq> 0"
      using uri_text_states(4) assms(1) Cons by (cases "c = CHR ''%''") (auto simp: text_state_def schar_lit)
    ultimately have "uri_loop ?s (Suc 0) 458 (None, Uri_new) = uri_loop ?s (Suc 0) 455 (None, Uri_new)"
      using uri_loop_goto [OF dc, of 458 n] uri_loop_goto [OF dc n] by simp
    also have "\<dots> = uri_loop ?s (Suc 0 + length r) 455 (None, Uri_new)"
      by (rule uri_loop_text [OF d1 assms(1) uri_text_states(4)])
    finally show ?thesis by blast
  qed auto
  then obtain k where k: "uri_loop ?s (Suc 0) 458 (None, Uri_new) = uri_loop ?s (Suc 0 + length r) k (None, Uri_new)" "k = 455 \<or> k = 458" by blast
  have "Suc 0 + length r \<le> length ?s" by simp
  from uri_loop_relative [OF dn this k(2) assms(3,4), of None Uri_new] 0 k(1)
  have "Uri_Create ?s = Inr (Some (with_fragment f (with_query q Uri_new)))" using Uri_Create_run by auto
  then show ?thesis by (simp add: with_fragment_def with_query_def Uri_new_def uri_getPath_def)
qed

lemma relative_path_lost_witness:
  "\<exists>u. Uri_Create (''/'' @ ''index.html'' @ query_text ''a=1'' @ frag_text []) = Inr (Some u) \<and> uri_getPath u = ''/''"
proof -
  have "uri_text is_pchar ''index.html''" "uri_text is_qchar ''a=1''" "uri_text is_qchar []" by code_simp+
  then show ?thesis using relative_path_lost [of "''index.html''" "''a=1''" "[]"] by auto
qed

lemma uri_loop_throws:
  assumes "drop p s = c # rest" and "uri_trans k (schar c) = (as, n)" and "n \<noteq> 0" and "uri_acts s p as x = Inl e"
  shows "uri_loop s p k x = Inl e"
  using drop_nth [OF assms(1)] assms(2-) by (subst uri_loop.simps) simp

text \<open>The path ends where the mark is null, or an empty port does.\<close>

lemma uri_loop_null_path:
  assumes d: "drop p s = query_text q @ frag_text f" and k: "k = 521 \<or> k = 513 \<and> mark = None"
  shows "uri_loop s p k (mark, u) = Inl Null_string"
proof (cases "query_text q @ frag_text f")
  case Nil
  then have "length s \<le> p" using d by simp
  then show ?thesis using k by (subst uri_loop.simps) (auto simp: uri_eof_def unmark_def at_mark_def)
next
  case (Cons c cs)
  then have c: "c = CHR ''?'' \<or> c = CHR ''#''" by (auto simp: query_text_def frag_text_def split: if_splits)
  have d': "drop p s = c # cs" using d Cons by simp
  let ?as = "if k = 521 then [U_Mark, U_Port, U_Path] else [U_Path]" and ?n = "if c = CHR ''?'' then 456 else 453 :: nat"
  have "uri_trans k (schar c) = (?as, ?n)" using c k by (auto simp: uri_table uri_codes)
  moreover have "uri_acts s p ?as (mark, u) = Inl Null_string" using k by (auto simp: unmark_def at_mark_def)
  moreover have "?n \<noteq> 0" by simp
  ultimately show ?thesis by (intro uri_loop_throws [OF d'])
qed

text \<open>
  C29. An empty port throws: a URI with a host and a colon without digits behind it, at the end or in
  front of a path, a query or a fragment, is no syntax error, and the action that stores the path
  then makes a string from the null pointer, so that \<open>logic_error\<close> leaves \<open>Uri::Create\<close>.
\<close>

theorem empty_port_throws:
  assumes sch: "wf_scheme sch" and h: "wf_name h" and path: "path = [] \<or> hd path = CHR ''/'' \<and> uri_text is_pchar (tl path)"
  shows "Uri_Create (sch @ ''://'' @ h @ '':'' @ path @ query_text q @ frag_text f) = Inl Null_string"
proof -
  let ?s = "sch @ ''://'' @ h @ '':'' @ path @ query_text q @ frag_text f" and ?p = "length sch + 3"
  let ?u = "Uri_new\<lparr>ur_scheme := sch\<rparr>" and ?n = "length sch + 3 + length h"
  let ?v = "?u\<lparr>ur_host := h\<rparr>" and ?rest = "query_text q @ frag_text f"
  have d: "drop ?p ?s = h @ CHR '':'' # (path @ ?rest)" by simp
  note dn = drop_append_eq [OF d]
  note dm = drop_Suc_eq [OF dn]
  have host: "at_mark ?s ?n (Some ?p) uri_setHost ?u = Inr ?v"
    using at_mark_text [OF d, of uri_setHost ?u] by (simp add: uri_setHost_def)
  have "uri_loop ?s 0 451 (None, Uri_new) = uri_loop ?s ?p 511 (None, ?u)" by (rule uri_loop_scheme [OF refl sch])
  also have "\<dots> = uri_loop ?s ?n 520 (Some ?p, ?u)"
    by (rule uri_loop_name [OF d h, of 511 520 521 542]) (simp add: auth_states_def)
  also have "\<dots> = uri_loop ?s (Suc ?n) 521 (Some ?p, ?v)"
    by (rule uri_loop_step [OF dn, where as = "[U_Host]"]) (use host in \<open>simp_all add: uri_table uri_codes\<close>)
  also have "\<dots> = Inl Null_string"
  proof (cases path)
    case Nil
    then show ?thesis using uri_loop_null_path [of "Suc ?n" ?s q f 521] dm by simp
  next
    case (Cons c cs)
    then have c: "c = CHR ''/''" "uri_text is_pchar cs" using path by simp_all
    have dm': "drop (Suc ?n) ?s = CHR ''/'' # (cs @ ?rest)" using dm Cons c(1) by simp
    note dp = drop_Suc_eq [OF dm']
    have "uri_loop ?s (Suc ?n) 521 (Some ?p, ?v) = uri_loop ?s (Suc (Suc ?n)) 513 (None, ?v)"
      by (rule uri_loop_step [OF dm', where as = "[U_Mark, U_Port]"]) (simp_all add: uri_table uri_codes unmark_def)
    also have "\<dots> = uri_loop ?s (Suc (Suc ?n) + length cs) 513 (None, ?v)"
      by (rule uri_loop_text [OF dp c(2) uri_text_states(1)])
    also have "\<dots> = Inl Null_string" by (rule uri_loop_null_path [OF drop_append_eq [OF dp]]) simp
    finally show ?thesis .
  qed
  finally show ?thesis by (simp add: Uri_Create_def)
qed

lemma empty_port_throws_witness:
  "Uri_Create (''http'' @ ''://'' @ ''h.com'' @ '':'' @ ''/a'' @ query_text [] @ frag_text []) = Inl Null_string"
proof -
  have "wf_scheme ''http''" "wf_name ''h.com''" "uri_text is_pchar (tl ''/a'')" by code_simp+
  then show ?thesis by (intro empty_port_throws) simp_all
qed

end
