(* ===== verification/Endian.thy ===== *)
theory Endian
  imports Prelude
begin

unbundle bit_operations_syntax

text \<open>
  Byte order (\<^verbatim>\<open>src/endian.h\<close>). The two order constants, the bytes of a word in memory on
  a host of either order (what \<open>memcpy\<close> of an integer reads and writes), and \<open>byteswap\<close> with
  its two conditional forms. The byte swap of the C library reverses the bytes of its
  argument. The host's order is an argument of the definitions, since the code picks it by a
  preprocessor test.
\<close>

section \<open>Words and their bytes\<close>

datatype endian = LITTLE_ENDIAN | BIG_ENDIAN

text \<open>The bytes of a word, least significant first, and back.\<close>

definition le_bytes :: "'a::len word \<Rightarrow> byte list" where
  "le_bytes w = map (\<lambda>k. ucast (drop_bit (8 * k) w)) [0..<LENGTH('a) div 8]"

fun of_le_bytes :: "byte list \<Rightarrow> 'a::len word" where
  "of_le_bytes [] = 0"
| "of_le_bytes (b # bs) = ucast b OR push_bit 8 (of_le_bytes bs)"

definition byteswap :: "'a::len word \<Rightarrow> 'a word" where
  "byteswap w = of_le_bytes (rev (le_bytes w))"

definition byteswapOnLittleEndian :: "endian \<Rightarrow> 'a::len word \<Rightarrow> 'a word" where
  "byteswapOnLittleEndian host w = (if host = BIG_ENDIAN then w else byteswap w)"

definition byteswapOnBigEndian :: "endian \<Rightarrow> 'a::len word \<Rightarrow> 'a word" where
  "byteswapOnBigEndian host w = (if host = BIG_ENDIAN then byteswap w else w)"

text \<open>The memory image of an integer variable on the host.\<close>

definition mem_bytes :: "endian \<Rightarrow> 'a::len word \<Rightarrow> byte list" where
  "mem_bytes host w = (if host = LITTLE_ENDIAN then le_bytes w else rev (le_bytes w))"

definition of_mem_bytes :: "endian \<Rightarrow> byte list \<Rightarrow> 'a::len word" where
  "of_mem_bytes host bs = of_le_bytes (if host = LITTLE_ENDIAN then bs else rev bs)"

section \<open>Round trips\<close>

lemma length_le_bytes [simp]: "length (le_bytes (w :: 'a::len word)) = LENGTH('a) div 8"
  by (simp add: le_bytes_def)

lemma length_mem_bytes [simp]: "length (mem_bytes h (w :: 'a::len word)) = LENGTH('a) div 8"
  by (simp add: mem_bytes_def)

lemma bit_of_le_bytes:
  "bit (of_le_bytes bs :: 'a::len word) i \<longleftrightarrow>
     i < LENGTH('a) \<and> i div 8 < length bs \<and> bit (bs ! (i div 8)) (i mod 8)"
proof (induction bs arbitrary: i)
  case Nil
  then show ?case by simp
next
  case (Cons b bs)
  show ?case
  proof (cases "i < 8")
    case True
    then show ?thesis
      by (auto simp: bit_or_iff bit_push_bit_iff bit_ucast_iff dest: bit_imp_le_length)
  next
    case False
    then have "i div 8 = Suc ((i - 8) div 8)" "i mod 8 = (i - 8) mod 8"
      by (simp_all add: le_div_geq le_mod_geq)
    moreover have "\<not> bit b i" using False by (auto dest: bit_imp_le_length)
    ultimately show ?thesis using False Cons.IH [of "i - 8"]
      by (auto simp: bit_or_iff bit_push_bit_iff bit_ucast_iff)
  qed
qed

lemma bit_le_bytes_nth:
  "k < LENGTH('a) div 8 \<Longrightarrow>
    bit (le_bytes (w :: 'a::len word) ! k) j \<longleftrightarrow> j < 8 \<and> bit w (8 * k + j)"
  by (auto simp: le_bytes_def bit_ucast_iff bit_drop_bit_eq)

lemma of_le_bytes_le_bytes:
  assumes "8 dvd LENGTH('a)"
  shows "of_le_bytes (le_bytes w) = (w :: 'a::len word)"
proof (rule bit_word_eqI)
  fix i assume i: "i < LENGTH('a)"
  from assms i have "i div 8 < LENGTH('a) div 8" by (auto elim!: dvdE)
  then show "bit (of_le_bytes (le_bytes w) :: 'a word) i = bit w i"
    using i by (simp add: bit_of_le_bytes bit_le_bytes_nth)
qed

lemma le_bytes_of_le_bytes:
  assumes "8 * length bs = LENGTH('a)"
  shows "le_bytes (of_le_bytes bs :: 'a::len word) = bs"
proof (rule nth_equalityI)
  show len: "length (le_bytes (of_le_bytes bs :: 'a word)) = length bs"
    using assms by (simp flip: assms)
  fix k assume "k < length (le_bytes (of_le_bytes bs :: 'a word))"
  then have k: "k < length bs" using len by simp
  show "le_bytes (of_le_bytes bs :: 'a word) ! k = bs ! k"
  proof (rule bit_word_eqI)
    fix j :: nat assume "j < LENGTH(8)"
    then have j: "j < 8" by simp
    have "8 * k + j < LENGTH('a)" using k j assms by linarith
    with k j assms show "bit (le_bytes (of_le_bytes bs :: 'a word) ! k) j = bit (bs ! k) j"
      by (simp add: bit_le_bytes_nth bit_of_le_bytes flip: assms)
  qed
qed

lemma of_mem_bytes_mem_bytes:
  "8 dvd LENGTH('a) \<Longrightarrow> of_mem_bytes h (mem_bytes h w) = (w :: 'a::len word)"
  by (simp add: of_mem_bytes_def mem_bytes_def of_le_bytes_le_bytes)

lemma le_bytes_byteswap:
  "8 dvd LENGTH('a) \<Longrightarrow> le_bytes (byteswap w) = rev (le_bytes (w :: 'a::len word))"
  unfolding byteswap_def by (rule le_bytes_of_le_bytes) simp

lemma byteswap_byteswap:
  "8 dvd LENGTH('a) \<Longrightarrow> byteswap (byteswap w) = (w :: 'a::len word)"
  by (subst byteswap_def) (simp add: le_bytes_byteswap of_le_bytes_le_bytes)

lemma mem_bytes_byteswap:
  "8 dvd LENGTH('a) \<Longrightarrow> mem_bytes h (byteswap w) = rev (mem_bytes h (w :: 'a::len word))"
  by (simp add: mem_bytes_def le_bytes_byteswap)

lemma byteswapOnLittleEndian_invol:
  "8 dvd LENGTH('a) \<Longrightarrow>
    byteswapOnLittleEndian h (byteswapOnLittleEndian h w) = (w :: 'a::len word)"
  by (simp add: byteswapOnLittleEndian_def byteswap_byteswap)

lemma byteswapOnBigEndian_invol:
  "8 dvd LENGTH('a) \<Longrightarrow> byteswapOnBigEndian h (byteswapOnBigEndian h w) = (w :: 'a::len word)"
  by (simp add: byteswapOnBigEndian_def byteswap_byteswap)

end
