(* ===== verification/Address.thy ===== *)
theory Address
  imports Endian Http "HOL-Library.Char_ord"
begin

text \<open>
  The address classes (\<open>src/address.h\<close>, \<open>src/address.cc\<close>). A socket address structure is a record
  of its fields as they lie in memory (ports and IPv4 addresses in network order), and \<open>getAddr\<close> its
  memory image on a host of either byte order. The masks are computed as the code computes them: a
  shift or a difference that has no defined value, and a read or write outside an array, is an error
  of its own. Name resolution, \<open>inet_pton\<close> and \<open>getifaddrs\<close> are arguments.
\<close>

section \<open>Structures\<close>

datatype addr_error = Undefined_shift | Signed_overflow | Out_of_bounds | Path_too_long | Null_address

definition AF_UNSPEC :: "16 word" where "AF_UNSPEC = 0"
definition AF_UNIX :: "16 word" where "AF_UNIX = 1"
definition AF_INET :: "16 word" where "AF_INET = 2"
definition AF_INET6 :: "16 word" where "AF_INET6 = 10"

record sockaddr_in =
  sin_family :: "16 word"
  sin_port :: "16 word"
  sin_addr :: "32 word"
  sin_zero :: "byte list"

record sockaddr_in6 =
  sin6_family :: "16 word"
  sin6_port :: "16 word"
  sin6_flowinfo :: "32 word"
  sin6_addr :: "byte list"
  sin6_scope_id :: "32 word"

record sockaddr_un =
  sun_family :: "16 word"
  sun_path :: "byte list"

record sockaddr =
  sa_family :: "16 word"
  sa_data :: "byte list"

text \<open>The four classes; a \<open>UnixAddress\<close> also keeps its length.\<close>

datatype Address =
    IPv4Address sockaddr_in | IPv6Address sockaddr_in6 | UnixAddress sockaddr_un "32 word" | UnknownAddress sockaddr

fun is_ip :: "Address \<Rightarrow> bool" where
  "is_ip (IPv4Address _) = True"
| "is_ip (IPv6Address _) = True"
| "is_ip _ = False"

fun getAddr :: "endian \<Rightarrow> Address \<Rightarrow> byte list" where
  "getAddr host (IPv4Address a) =
     mem_bytes host (sin_family a) @ mem_bytes host (sin_port a) @ mem_bytes host (sin_addr a) @ sin_zero a"
| "getAddr host (IPv6Address a) =
     mem_bytes host (sin6_family a) @ mem_bytes host (sin6_port a) @ mem_bytes host (sin6_flowinfo a)
       @ sin6_addr a @ mem_bytes host (sin6_scope_id a)"
| "getAddr host (UnixAddress a l) = mem_bytes host (sun_family a) @ sun_path a"
| "getAddr host (UnknownAddress a) = mem_bytes host (sa_family a) @ sa_data a"

fun getAddrLen :: "Address \<Rightarrow> nat" where
  "getAddrLen (IPv4Address _) = 16"
| "getAddrLen (IPv6Address _) = 28"
| "getAddrLen (UnixAddress _ l) = unat l"
| "getAddrLen (UnknownAddress _) = 16"

fun getFamily :: "Address \<Rightarrow> 16 word" where
  "getFamily (IPv4Address a) = sin_family a"
| "getFamily (IPv6Address a) = sin6_family a"
| "getFamily (UnixAddress a _) = sun_family a"
| "getFamily (UnknownAddress a) = sa_family a"

section \<open>Construction\<close>

definition IPv4Address_new :: "endian \<Rightarrow> 32 word \<Rightarrow> 16 word \<Rightarrow> Address" where
  "IPv4Address_new host address port =
     IPv4Address \<lparr>sin_family = AF_INET, sin_port = byteswapOnLittleEndian host port,
       sin_addr = byteswapOnLittleEndian host address, sin_zero = replicate 8 0\<rparr>"

definition IPv6Address_empty :: sockaddr_in6 where
  "IPv6Address_empty = \<lparr>sin6_family = AF_INET6, sin6_port = 0, sin6_flowinfo = 0, sin6_addr = replicate 16 0, sin6_scope_id = 0\<rparr>"

definition IPv6Address_new :: "endian \<Rightarrow> byte list \<Rightarrow> 16 word \<Rightarrow> Address" where
  "IPv6Address_new host address port =
     IPv6Address (IPv6Address_empty\<lparr>sin6_port := byteswapOnLittleEndian host port, sin6_addr := take 16 address\<rparr>)"

definition UnknownAddress_new :: "int \<Rightarrow> Address" where
  "UnknownAddress_new family = UnknownAddress \<lparr>sa_family = word_of_int family, sa_data = replicate 14 0\<rparr>"

text \<open>
  \<open>inet_pton\<close> gives the address it reads from a text, in network order, or fails.
\<close>

definition IPv4Address_Create :: "endian \<Rightarrow> (string \<Rightarrow> 32 word option) \<Rightarrow> string \<Rightarrow> 16 word \<Rightarrow> Address option" where
  "IPv4Address_Create host pton address port =
     (case pton address of
        None \<Rightarrow> None
      | Some x \<Rightarrow> Some (IPv4Address \<lparr>sin_family = AF_INET, sin_port = byteswapOnLittleEndian host port,
                                   sin_addr = x, sin_zero = replicate 8 0\<rparr>))"

definition IPv6Address_Create :: "endian \<Rightarrow> (string \<Rightarrow> byte list option) \<Rightarrow> string \<Rightarrow> 16 word \<Rightarrow> Address option" where
  "IPv6Address_Create host pton address port =
     (case pton address of
        None \<Rightarrow> None
      | Some x \<Rightarrow> Some (IPv6Address (IPv6Address_empty\<lparr>sin6_port := byteswapOnLittleEndian host port, sin6_addr := x\<rparr>)))"

definition MAX_PATH_LEN :: nat where "MAX_PATH_LEN = 107"

definition UnixAddress_empty :: Address where
  "UnixAddress_empty = UnixAddress \<lparr>sun_family = AF_UNIX, sun_path = replicate 108 0\<rparr> (of_nat (2 + MAX_PATH_LEN))"

text \<open>The length is a \<open>socklen_t\<close>: it wraps before it is compared with the size of the array.\<close>

definition UnixAddress_new :: "string \<Rightarrow> addr_error + Address" where
  "UnixAddress_new path =
     (let m_length = of_nat (length path) + 1 :: 32 word;
          m_length = (if path \<noteq> [] \<and> hd path = CHR 0x00 then m_length - 1 else m_length)
      in if 108 < m_length then Inl Path_too_long
         else Inr (UnixAddress \<lparr>sun_family = AF_UNIX,
                     sun_path = blit (replicate 108 0) 0 (take (unat m_length) (map of_char path @ [0]))\<rparr> (m_length + 2)))"

fun setAddrLen :: "32 word \<Rightarrow> Address \<Rightarrow> Address" where
  "setAddrLen v (UnixAddress a _) = UnixAddress a v"
| "setAddrLen v a = a"

text \<open>
  \<open>Address::Create\<close>: the structure is read from memory by its family; the length given is not looked
  at, so that fewer bytes than the structure has are read past.
\<close>

definition Address_Create :: "endian \<Rightarrow> byte list option \<Rightarrow> addr_error + Address option" where
  "Address_Create host p =
     (case p of
        None \<Rightarrow> Inr None
      | Some bs \<Rightarrow>
          let family = of_mem_bytes host (take 2 bs);
              need = (if family = AF_INET6 then 28 else 16)
          in if length bs < need then Inl Out_of_bounds
             else if family = AF_INET then
               Inr (Some (IPv4Address \<lparr>sin_family = family, sin_port = of_mem_bytes host (take 2 (drop 2 bs)),
                 sin_addr = of_mem_bytes host (take 4 (drop 4 bs)), sin_zero = take 8 (drop 8 bs)\<rparr>))
             else if family = AF_INET6 then
               Inr (Some (IPv6Address \<lparr>sin6_family = family, sin6_port = of_mem_bytes host (take 2 (drop 2 bs)),
                 sin6_flowinfo = of_mem_bytes host (take 4 (drop 4 bs)), sin6_addr = take 16 (drop 8 bs),
                 sin6_scope_id = of_mem_bytes host (take 4 (drop 24 bs))\<rparr>))
             else Inr (Some (UnknownAddress \<lparr>sa_family = family, sa_data = take 14 (drop 2 bs)\<rparr>)))"

section \<open>Ports\<close>

fun getPort :: "endian \<Rightarrow> Address \<Rightarrow> 32 word" where
  "getPort host (IPv4Address a) = ucast (byteswapOnLittleEndian host (sin_port a))"
| "getPort host (IPv6Address a) = ucast (byteswapOnLittleEndian host (sin6_port a))"
| "getPort host _ = 0"

fun setPort :: "endian \<Rightarrow> 16 word \<Rightarrow> Address \<Rightarrow> Address" where
  "setPort host v (IPv4Address a) = IPv4Address (a\<lparr>sin_port := byteswapOnLittleEndian host v\<rparr>)"
| "setPort host v (IPv6Address a) = IPv6Address (a\<lparr>sin6_port := byteswapOnLittleEndian host v\<rparr>)"
| "setPort host v a = a"

section \<open>Masks and networks\<close>

text \<open>
  \<open>CreateMask\<close> on a type of \<open>width\<close> bits: the shift is of an \<open>int\<close>, by a distance of type \<open>size_t\<close>, so
  that it is undefined from 32 on (and below zero, which wraps), and by 31 gives the least \<open>int\<close>, from
  which 1 cannot be taken.
\<close>

definition CreateMask :: "nat \<Rightarrow> nat \<Rightarrow> addr_error + 'a::len word" where
  "CreateMask width bits =
     (let s = sub64 width bits
      in if 32 \<le> s then Inl Undefined_shift
         else if s = 31 then Inl Signed_overflow
         else Inr (word_of_int (2 ^ s - 1)))"

text \<open>The loop of \<open>CountBytes\<close> clears the lowest bit that is set each time round.\<close>

function CountBytes_loop :: "'a::len word \<Rightarrow> 32 word \<Rightarrow> 32 word" where
  "CountBytes_loop value result =
     (if value = 0 then result else CountBytes_loop (value AND (value - 1)) (result + 1))"
  by pat_completeness auto
termination
proof (relation "measure (\<lambda>(value, _). unat value)", goal_cases)
  case (2 v r)
  have "unat (v AND (v - 1)) \<le> unat (v - 1)" by (simp add: word_and_le1 flip: word_le_nat_alt)
  also have "\<dots> < unat v" using 2 by (simp add: unat_minus_one unat_gt_0)
  finally show ?case by simp
qed simp

declare CountBytes_loop.simps [simp del]

definition CountBytes :: "'a::len word \<Rightarrow> 32 word" where
  "CountBytes value = CountBytes_loop value 0"

definition IPv4_broadcastAddress :: "endian \<Rightarrow> 32 word \<Rightarrow> sockaddr_in \<Rightarrow> addr_error + Address option" where
  "IPv4_broadcastAddress host prefix_len a =
     (if 32 < prefix_len then Inr None
      else case CreateMask 32 (unat prefix_len) of
        Inl e \<Rightarrow> Inl e
      | Inr m \<Rightarrow> Inr (Some (IPv4Address (a\<lparr>sin_addr := sin_addr a OR byteswapOnLittleEndian host m\<rparr>))))"

definition IPv4_networdAddress :: "endian \<Rightarrow> 32 word \<Rightarrow> sockaddr_in \<Rightarrow> addr_error + Address option" where
  "IPv4_networdAddress host prefix_len a =
     (if 32 < prefix_len then Inr None
      else case CreateMask 32 (unat prefix_len) of
        Inl e \<Rightarrow> Inl e
      | Inr m \<Rightarrow> Inr (Some (IPv4Address (a\<lparr>sin_addr := sin_addr a AND byteswapOnLittleEndian host m\<rparr>))))"

definition IPv4_subnetMask :: "endian \<Rightarrow> 32 word \<Rightarrow> sockaddr_in \<Rightarrow> addr_error + Address option" where
  "IPv4_subnetMask host prefix_len a =
     (case CreateMask 32 (unat prefix_len) of
        Inl e \<Rightarrow> Inl e
      | Inr m \<Rightarrow> Inr (Some (IPv4Address \<lparr>sin_family = AF_INET, sin_port = 0,
                              sin_addr = NOT (byteswapOnLittleEndian host m), sin_zero = replicate 8 0\<rparr>)))"

text \<open>
  The IPv6 versions change the byte at \<open>prefix_len / 8\<close> (outside the array for prefixes of 128 and
  more bits) and set the bytes behind it, in front of it for the mask.
\<close>

definition at_byte :: "nat \<Rightarrow> (byte \<Rightarrow> byte) \<Rightarrow> byte list \<Rightarrow> addr_error + byte list" where
  "at_byte i f bs = (if i < length bs then Inr (bs[i := f (bs ! i)]) else Inl Out_of_bounds)"

definition set_from :: "nat \<Rightarrow> byte \<Rightarrow> byte list \<Rightarrow> byte list" where
  "set_from i v bs = take i bs @ replicate (length bs - i) v"

definition IPv6_broadcastAddress :: "32 word \<Rightarrow> sockaddr_in6 \<Rightarrow> addr_error + Address option" where
  "IPv6_broadcastAddress prefix_len a =
     (let n = unat prefix_len in
      case CreateMask 8 (n mod 8) of
        Inl e \<Rightarrow> Inl e
      | Inr m \<Rightarrow>
          (case at_byte (n div 8) (\<lambda>b. b OR m) (sin6_addr a) of
             Inl e \<Rightarrow> Inl e
           | Inr bs \<Rightarrow> Inr (Some (IPv6Address (a\<lparr>sin6_addr := set_from (n div 8 + 1) 0xff bs\<rparr>)))))"

definition IPv6_networdAddress :: "32 word \<Rightarrow> sockaddr_in6 \<Rightarrow> addr_error + Address option" where
  "IPv6_networdAddress prefix_len a =
     (let n = unat prefix_len in
      case CreateMask 8 (n mod 8) of
        Inl e \<Rightarrow> Inl e
      | Inr m \<Rightarrow>
          (case at_byte (n div 8) (\<lambda>b. b AND m) (sin6_addr a) of
             Inl e \<Rightarrow> Inl e
           | Inr bs \<Rightarrow> Inr (Some (IPv6Address (a\<lparr>sin6_addr := set_from (n div 8 + 1) 0 bs\<rparr>)))))"

definition IPv6_subnetMask :: "32 word \<Rightarrow> sockaddr_in6 \<Rightarrow> addr_error + Address option" where
  "IPv6_subnetMask prefix_len a =
     (let n = unat prefix_len in
      case CreateMask 8 (n mod 8) of
        Inl e \<Rightarrow> Inl e
      | Inr m \<Rightarrow>
          (case at_byte (n div 8) (\<lambda>_. NOT m) (replicate 16 0) of
             Inl e \<Rightarrow> Inl e
           | Inr bs \<Rightarrow> Inr (Some (IPv6Address (IPv6Address_empty\<lparr>
                         sin6_addr := replicate (n div 8) 0xff @ drop (n div 8) bs\<rparr>)))))"

section \<open>Text\<close>

text \<open>A number below 16 as a hexadecimal digit; \<open>std::hex\<close> writes no leading zeros.\<close>

definition hex_char :: "nat \<Rightarrow> char" where
  "hex_char n = (if n < 10 then char_of (48 + n) else char_of (87 + n))"

fun show_hex :: "nat \<Rightarrow> string" where
  "show_hex n = (if n < 16 then [hex_char n] else show_hex (n div 16) @ [hex_char (n mod 16)])"

declare show_hex.simps [simp del]

definition IPv4_insert :: "endian \<Rightarrow> sockaddr_in \<Rightarrow> string" where
  "IPv4_insert host a =
     (let addr = byteswapOnLittleEndian host (sin_addr a);
          part = (\<lambda>k. show_nat (unat (drop_bit k addr AND 0xff)))
      in part 24 @ ''.'' @ part 16 @ ''.'' @ part 8 @ ''.'' @ part 0
           @ '':'' @ show_nat (unat (byteswapOnLittleEndian host (sin_port a))))"

text \<open>
  The loop over the eight groups from group \<open>i\<close> on, \<open>used\<close> when the double colon has been written;
  the result holds the text and whether it has.
\<close>

function groups_loop :: "(16 word \<Rightarrow> string) \<Rightarrow> 16 word list \<Rightarrow> nat \<Rightarrow> bool \<Rightarrow> string \<times> bool" where
  "groups_loop hex addr i used =
     (if length addr \<le> i then ([], used)
      else if addr ! i = 0 \<and> \<not> used then groups_loop hex addr (Suc i) used
      else
        let skip = (0 < i \<and> addr ! (i - 1) = 0 \<and> \<not> used);
            (text, used') = groups_loop hex addr (Suc i) (used \<or> skip)
        in ((if skip then '':'' else []) @ (if 0 < i then '':'' else []) @ hex (addr ! i) @ text, used'))"
  by pat_completeness auto
termination
  by (relation "measure (\<lambda>(hex, addr, i, used). length addr - i)") auto

declare groups_loop.simps [simp del]

text \<open>The bytes of the address seen as an array of \<open>uint16_t\<close>.\<close>

definition as_uint16 :: "endian \<Rightarrow> byte list \<Rightarrow> 16 word list" where
  "as_uint16 host bs = map (\<lambda>i. of_mem_bytes host (take 2 (drop (2 * i) bs))) [0..<8]"

definition IPv6_insert :: "endian \<Rightarrow> sockaddr_in6 \<Rightarrow> string" where
  "IPv6_insert host a =
     (let addr = as_uint16 host (sin6_addr a);
          (text, used_zeros) = groups_loop (\<lambda>w. show_hex (unat (byteswapOnLittleEndian host w))) addr 0 False
      in ''['' @ text @ (if \<not> used_zeros \<and> addr ! 7 = 0 then ''::'' else [])
           @ '']:'' @ show_nat (unat (byteswapOnLittleEndian host (sin6_port a))))"

text \<open>
  \<open>os << m_addr.sun_path\<close> writes up to the first zero byte; without one it reads past the array, as
  the constructor of a string does for a length that is too large.
\<close>

definition Unix_getPath :: "sockaddr_un \<Rightarrow> 32 word \<Rightarrow> addr_error + string" where
  "Unix_getPath a m_length =
     (if 2 < m_length \<and> hd (sun_path a) = 0 then
        if unat m_length - 3 \<le> length (sun_path a) - 1
        then Inr (CHR 0x5C # CHR ''0'' # map (\<lambda>b. char_of (unat b)) (take (unat m_length - 3) (tl (sun_path a))))
        else Inl Out_of_bounds
      else if 0 \<in> set (sun_path a) then Inr (map (\<lambda>b. char_of (unat b)) (takeWhile (\<lambda>b. b \<noteq> 0) (sun_path a)))
      else Inl Out_of_bounds)"

fun Address_toString :: "endian \<Rightarrow> Address \<Rightarrow> addr_error + string" where
  "Address_toString host (IPv4Address a) = Inr (IPv4_insert host a)"
| "Address_toString host (IPv6Address a) = Inr (IPv6_insert host a)"
| "Address_toString host (UnixAddress a l) = Unix_getPath a l"
| "Address_toString host (UnknownAddress a) =
     Inr (''[UnknownAddress family='' @ show_nat (unat (sa_family a)) @ '']'')"

section \<open>Order\<close>

text \<open>The sign of \<open>memcmp\<close> on the first \<open>n\<close> bytes, which both sides must have.\<close>

fun memcmp_loop :: "byte list \<Rightarrow> byte list \<Rightarrow> int" where
  "memcmp_loop (x # xs) (y # ys) = (if x < y then -1 else if y < x then 1 else memcmp_loop xs ys)"
| "memcmp_loop _ _ = 0"

definition memcmp :: "byte list \<Rightarrow> byte list \<Rightarrow> nat \<Rightarrow> addr_error + int" where
  "memcmp xs ys n =
     (if length xs < n \<or> length ys < n then Inl Out_of_bounds else Inr (memcmp_loop (take n xs) (take n ys)))"

definition addr_less :: "endian \<Rightarrow> Address \<Rightarrow> Address \<Rightarrow> addr_error + bool" where
  "addr_less host a b =
     (let minlen = min (getAddrLen a) (getAddrLen b) in
      case memcmp (getAddr host a) (getAddr host b) minlen of
        Inl e \<Rightarrow> Inl e
      | Inr result \<Rightarrow> Inr (if result < 0 then True else if 0 < result then False else getAddrLen a < getAddrLen b))"

definition addr_equal :: "endian \<Rightarrow> Address \<Rightarrow> Address \<Rightarrow> addr_error + bool" where
  "addr_equal host a b =
     (if getAddrLen a = getAddrLen b then
        case memcmp (getAddr host a) (getAddr host b) (getAddrLen a) of
          Inl e \<Rightarrow> Inl e | Inr r \<Rightarrow> Inr (r = 0)
      else Inr False)"

definition addr_unequal :: "endian \<Rightarrow> Address \<Rightarrow> Address \<Rightarrow> addr_error + bool" where
  "addr_unequal host a b = map_sum id Not (addr_equal host a b)"

section \<open>Resolution\<close>

text \<open>The position of a character, from position \<open>i\<close> on (\<open>memchr\<close>).\<close>

definition memchr :: "char \<Rightarrow> nat \<Rightarrow> string \<Rightarrow> nat option" where
  "memchr c i s = (if c \<in> set (drop i s) then Some (i + length (takeWhile (\<lambda>d. d \<noteq> c) (drop i s))) else None)"

text \<open>
  The node and the service that \<open>Address::Lookup\<close> takes from a host text; the service is a pointer
  into the text.
\<close>

definition lookup_split :: "string \<Rightarrow> string \<times> string option" where
  "lookup_split host =
     (let (node, service) =
        (if host \<noteq> [] \<and> hd host = CHR ''['' then
           case memchr (CHR '']'') 1 host of
             None \<Rightarrow> ([], None)
           | Some e \<Rightarrow> (substr host 1 (e - 1),
                        if Suc e < length host \<and> host ! Suc e = CHR '':'' then Some (drop (e + 2) host) else None)
         else ([], None));
      (node, service) =
        (if node = [] then
           case memchr (CHR '':'') 0 host of
             None \<Rightarrow> ([], None)
           | Some i \<Rightarrow> (if memchr (CHR '':'') (Suc i) host = None then (take i host, Some (drop (Suc i) host))
                        else ([], Some (drop i host)))
         else (node, service))
      in (if node = [] then host else node, service))"

text \<open>
  \<open>getaddrinfo\<close> is an argument: from node, service, family, type and protocol it gives an error or the
  addresses found, each a pointer to a structure. An address that cannot be read ends the loop.
\<close>

type_synonym resolver = "string \<Rightarrow> string option \<Rightarrow> int \<Rightarrow> int \<Rightarrow> int \<Rightarrow> int + byte list option list"

fun create_all :: "endian \<Rightarrow> byte list option list \<Rightarrow> Address option list \<Rightarrow> addr_error + Address option list" where
  "create_all host [] result = Inr result"
| "create_all host (p # ps) result =
     (case Address_Create host p of Inl e \<Rightarrow> Inl e | Inr a \<Rightarrow> create_all host ps (result @ [a]))"

definition Address_Lookup ::
    "endian \<Rightarrow> resolver \<Rightarrow> string \<Rightarrow> int \<Rightarrow> int \<Rightarrow> int \<Rightarrow> Address option list \<Rightarrow> addr_error + bool \<times> Address option list" where
  "Address_Lookup h getaddrinfo host family type protocol result =
     (let (node, service) = lookup_split host in
      case getaddrinfo (c_str node) (map_option c_str service) family type protocol of
        Inl error \<Rightarrow> Inr (False, result)
      | Inr results \<Rightarrow>
          (case create_all h results result of
             Inl e \<Rightarrow> Inl e
           | Inr result \<Rightarrow> Inr (result \<noteq> [], result)))"

definition LookupAny :: "endian \<Rightarrow> resolver \<Rightarrow> string \<Rightarrow> int \<Rightarrow> int \<Rightarrow> int \<Rightarrow> addr_error + Address option" where
  "LookupAny h getaddrinfo host family type protocol =
     (case Address_Lookup h getaddrinfo host family type protocol [] of
        Inl e \<Rightarrow> Inl e
      | Inr (ok, result) \<Rightarrow> Inr (if ok then hd result else None))"

fun first_ip :: "Address option list \<Rightarrow> Address option" where
  "first_ip [] = None"
| "first_ip (Some a # as) = (if is_ip a then Some a else first_ip as)"
| "first_ip (None # as) = first_ip as"

definition LookupAnyIPAddress :: "endian \<Rightarrow> resolver \<Rightarrow> string \<Rightarrow> int \<Rightarrow> int \<Rightarrow> int \<Rightarrow> addr_error + Address option" where
  "LookupAnyIPAddress h getaddrinfo host family type protocol =
     (case Address_Lookup h getaddrinfo host family type protocol [] of
        Inl e \<Rightarrow> Inl e
      | Inr (ok, result) \<Rightarrow> Inr (if ok then first_ip result else None))"

text \<open>\<open>IPAddress::Create\<close>: the resolver is asked for a numeric host; it answers at least one address.\<close>

definition IPAddress_Create ::
    "endian \<Rightarrow> (string \<Rightarrow> int + byte list option list) \<Rightarrow> string \<Rightarrow> 16 word \<Rightarrow> addr_error + Address option" where
  "IPAddress_Create h getaddrinfo address port =
     (case getaddrinfo address of
        Inl error \<Rightarrow> Inr None
      | Inr [] \<Rightarrow> Inl Null_address
      | Inr (p # _) \<Rightarrow>
          (case Address_Create h p of
             Inl e \<Rightarrow> Inl e
           | Inr None \<Rightarrow> Inr None
           | Inr (Some a) \<Rightarrow> Inr (if is_ip a then Some (setPort h port a) else None)))"

section \<open>Interfaces\<close>

record ifaddr =
  ifa_name :: string
  ifa_addr :: "byte list option"
  ifa_netmask :: "byte list option"

text \<open>\<open>std::multimap\<close>: sorted by key, equal keys in the order of insertion.\<close>

fun multimap_insert :: "string \<Rightarrow> 'v \<Rightarrow> (string \<times> 'v) list \<Rightarrow> (string \<times> 'v) list" where
  "multimap_insert k v [] = [(k, v)]"
| "multimap_insert k v ((k', v') # m) = (if k < k' then (k, v) # (k', v') # m else (k', v') # multimap_insert k v m)"

text \<open>
  The entry of one interface: its address and the number of bits in its mask. An interface without an
  address is a null pointer that the code reads through.
\<close>

definition interface_entry :: "endian \<Rightarrow> int \<Rightarrow> ifaddr \<Rightarrow> addr_error + (Address \<times> 32 word) option" where
  "interface_entry h family i =
     (case ifa_addr i of
        None \<Rightarrow> Inl Null_address
      | Some bs \<Rightarrow>
          let fam = of_mem_bytes h (take 2 bs) :: 16 word in
          if family \<noteq> uint AF_UNSPEC \<and> family \<noteq> uint fam then Inr None
          else if fam = AF_INET \<or> fam = AF_INET6 then
            (case Address_Create h (ifa_addr i) of
               Inl e \<Rightarrow> Inl e
             | Inr None \<Rightarrow> Inr None
             | Inr (Some addr) \<Rightarrow>
                 (case ifa_netmask i of
                    None \<Rightarrow> Inl Null_address
                  | Some nm \<Rightarrow>
                      if length nm < (if fam = AF_INET then 8 else 24) then Inl Out_of_bounds
                      else Inr (Some (addr,
                        if fam = AF_INET then CountBytes (of_mem_bytes h (take 4 (drop 4 nm)) :: 32 word)
                        else sum_list (map CountBytes (take 16 (drop 8 nm)))))))
          else Inr None)"

fun add_interfaces ::
    "endian \<Rightarrow> int \<Rightarrow> ifaddr list \<Rightarrow> (string \<times> Address \<times> 32 word) list \<Rightarrow> addr_error + (string \<times> Address \<times> 32 word) list" where
  "add_interfaces h family [] result = Inr result"
| "add_interfaces h family (i # is) result =
     (case interface_entry h family i of
        Inl e \<Rightarrow> Inl e
      | Inr None \<Rightarrow> add_interfaces h family is result
      | Inr (Some x) \<Rightarrow> add_interfaces h family is (multimap_insert (ifa_name i) x result))"

definition GetInterfaceAddresses ::
    "endian \<Rightarrow> (int + ifaddr list) \<Rightarrow> int \<Rightarrow> (string \<times> Address \<times> 32 word) list
      \<Rightarrow> addr_error + bool \<times> (string \<times> Address \<times> 32 word) list" where
  "GetInterfaceAddresses h getifaddrs family result =
     (case getifaddrs of
        Inl errno \<Rightarrow> Inr (False, result)
      | Inr results \<Rightarrow>
          (case add_interfaces h family results result of
             Inl e \<Rightarrow> Inl e
           | Inr result \<Rightarrow> Inr (result \<noteq> [], result)))"

definition GetInterfaceAddresses_of ::
    "endian \<Rightarrow> (int + ifaddr list) \<Rightarrow> string \<Rightarrow> int \<Rightarrow> (Address \<times> 32 word) list
      \<Rightarrow> addr_error + bool \<times> (Address \<times> 32 word) list" where
  "GetInterfaceAddresses_of h getifaddrs iface family result =
     (if iface = [] \<or> iface = ''*'' then
        let result = (if family = uint AF_INET \<or> family = uint AF_UNSPEC
              then result @ [(IPv4Address_new h 0 0, 0)] else result);
            result = (if family = uint AF_INET6 \<or> family = uint AF_UNSPEC
              then result @ [(IPv6Address IPv6Address_empty, 0)] else result)
        in Inr (True, result)
      else
        case GetInterfaceAddresses h getifaddrs family [] of
          Inl e \<Rightarrow> Inl e
        | Inr (False, _) \<Rightarrow> Inr (False, result)
        | Inr (True, results) \<Rightarrow>
            (let result = result @ map snd (filter (\<lambda>x. fst x = iface) results) in Inr (result \<noteq> [], result)))"

end
