(* ===== verification/Address_Props.thy ===== *)
theory Address_Props
  imports Address
begin

text \<open>
  What the address classes promise: addresses are ordered as the bytes of their structures are, networks
  and masks are those of the prefix (and where they are not), the text of an IPv6 address is the
  shortest over its first run of zeros, a host text is taken apart into node and service, and a
  structure read back from memory is the one written.
\<close>

section \<open>Byte order of bitwise operations\<close>

lemma bit_byteswap:
  assumes "8 dvd LENGTH('a)" and i: "i < LENGTH('a)"
  shows "bit (byteswap (w :: 'a::len word)) i \<longleftrightarrow> bit w (8 * (LENGTH('a) div 8 - 1 - i div 8) + i mod 8)"
proof -
  have "i div 8 < LENGTH('a) div 8" using assms by (auto elim!: dvdE)
  then show ?thesis using i
    by (simp add: byteswap_def bit_of_le_bytes rev_nth bit_le_bytes_nth)
qed

lemma byteswap_bitwise:
  assumes d: "8 dvd LENGTH('a)"
  shows "byteswap (x AND y) = byteswap x AND byteswap (y :: 'a::len word)"
    and "byteswap (x OR y) = byteswap x OR byteswap (y :: 'a::len word)"
    and "byteswap (NOT x) = NOT (byteswap (x :: 'a::len word))"
proof -
  have "8 * (LENGTH('a) div 8 - 1 - i div 8) + i mod 8 < LENGTH('a)" if "i < LENGTH('a)" for i
    using that d by (elim dvdE) auto
  then show "byteswap (NOT x) = NOT (byteswap (x :: 'a::len word))"
    by (intro bit_word_eqI) (simp add: bit_byteswap d bit_not_iff)
qed (intro bit_word_eqI; simp add: bit_byteswap d bit_and_iff bit_or_iff)+

lemma swap_bitwise:
  assumes "8 dvd LENGTH('a)"
  shows "byteswapOnLittleEndian h (x AND y) = byteswapOnLittleEndian h x AND byteswapOnLittleEndian h (y :: 'a::len word)"
    and "byteswapOnLittleEndian h (x OR y) = byteswapOnLittleEndian h x OR byteswapOnLittleEndian h (y :: 'a::len word)"
    and "byteswapOnLittleEndian h (NOT x) = NOT (byteswapOnLittleEndian h (x :: 'a::len word))"
  using byteswap_bitwise [OF assms] by (simp_all add: byteswapOnLittleEndian_def)

section \<open>Counting bits\<close>

lemma bits_finite [simp]: "finite {i. bit (v :: 'a::len word) i}"
  by (rule finite_subset [of _ "{..<LENGTH('a)}"]) (auto dest: bit_imp_le_length)

text \<open>Taking the word below away from a word clears its lowest bit.\<close>

lemma bit_clear_lowest:
  assumes "v \<noteq> (0 :: 'a::len word)"
  shows "\<exists>k. bit v k \<and> {i. bit (v AND (v - 1)) i} = {i. bit v i} - {k}"
proof -
  have "\<exists>k. bit v k" using assms by (auto simp: bit_eq_iff)
  define k where "k = (LEAST k. bit v k)"
  have k: "bit v k" "\<And>i. i < k \<Longrightarrow> \<not> bit v i"
    unfolding k_def using \<open>\<exists>k. bit v k\<close> by (auto intro: LeastI_ex dest: not_less_Least)
  have len: "k < LENGTH('a)" using k(1) by (rule bit_imp_le_length)
  define A where "A = v AND NOT (mask (Suc k))"
  have bitA: "bit A i \<longleftrightarrow> bit v i \<and> k < i" if "i < LENGTH('a)" for i
    using that by (auto simp: A_def bit_and_iff bit_not_iff bit_mask_iff)
  have "v = A OR 2 ^ k"
    using k bitA by (intro bit_word_eqI) (auto simp: bit_or_iff bit_exp_iff not_less_iff_gr_or_eq, metis linorder_neqE_nat)
  also have "\<dots> = A + 2 ^ k"
    by (rule disjunctive_add_eq_or [symmetric], intro bit_word_eqI) (auto simp: bit_and_iff bit_exp_iff bitA)
  finally have "v - 1 = A + mask k" by (simp add: mask_eq_exp_minus_1)
  also have "\<dots> = A OR mask k"
    by (rule disjunctive_add_eq_or, intro bit_word_eqI) (auto simp: bit_and_iff bit_mask_iff bitA)
  finally have "bit (v - 1) i \<longleftrightarrow> (if i \<le> k then i < k else bit v i)" if "i < LENGTH('a)" for i
    using that len by (auto simp: bit_or_iff bitA bit_mask_iff)
  then have "bit (v AND (v - 1)) i \<longleftrightarrow> bit v i \<and> i \<noteq> k" for i
    using k by (cases "i < LENGTH('a)") (auto simp: bit_and_iff le_less dest: bit_imp_le_length)
  then show ?thesis using k(1) by blast
qed
lemma CountBytes_loop_card:
  "CountBytes_loop (v :: 'a::len word) r = r + of_nat (card {i. bit v i})"
proof (induction v r rule: CountBytes_loop.induct)
  case (1 v r)
  show ?case
  proof (cases "v = 0")
    case False
    then obtain k where k: "bit v k" "{i. bit (v AND (v - 1)) i} = {i. bit v i} - {k}" using bit_clear_lowest by blast
    then have "card {i. bit v i} = Suc (card {i. bit (v AND (v - 1)) i})" by (metis bits_finite card.remove mem_Collect_eq)
    then show ?thesis using 1 False by (subst CountBytes_loop.simps) simp
  qed (subst CountBytes_loop.simps, simp add: bot_fun_def)
qed

text \<open>CountBytes counts the bits that are set, and ends.\<close>

theorem CountBytes_card:
  assumes "LENGTH('a) < 2 ^ 32"
  shows "unat (CountBytes (v :: 'a::len word)) = card {i. bit v i}"
proof -
  have "card {i. bit v i} \<le> LENGTH('a)"
    using card_mono [of "{..<LENGTH('a)}" "{i. bit v i}"] by (auto dest: bit_imp_le_length)
  then show ?thesis using assms by (simp add: CountBytes_def CountBytes_loop_card unat_of_nat)
qed

lemma card_byteswap:
  assumes d: "8 dvd LENGTH('a)"
  shows "card {i. bit (byteswap (w :: 'a::len word)) i} = card {i. bit w i}"
proof -
  let ?n = "LENGTH('a) div 8" and ?f = "\<lambda>i. 8 * (LENGTH('a) div 8 - 1 - i div 8) + i mod 8"
  have n: "LENGTH('a) = 8 * ?n" using d by simp
  have f: "?f i < LENGTH('a) \<and> ?f (?f i) = i" if "i < LENGTH('a)" for i
  proof -
    define q r where "q = i div 8" and "r = i mod 8"
    have i: "i = 8 * q + r" "r < 8" by (simp_all add: q_def r_def)
    have q: "q < ?n" using that n i by linarith
    have fi: "?f i = 8 * (?n - 1 - q) + r" by (simp add: q_def r_def)
    have "8 * (?n - 1 - q) + r < 8 * ?n" using q i(2) by linarith
    moreover have "?f (8 * (?n - 1 - q) + r) = 8 * (?n - 1 - (?n - 1 - q)) + r" using i(2) by simp
    moreover have "?n - 1 - (?n - 1 - q) = q" using q by linarith
    ultimately show ?thesis using n i(1) unfolding fi by metis
  qed
  have bits: "bit (byteswap w) i \<longleftrightarrow> bit w (?f i)" if "i < LENGTH('a)" for i using bit_byteswap [OF d that] .
  have "bij_betw ?f {i. bit (byteswap w) i} {i. bit w i}"
  proof (rule bij_betw_byWitness [where f' = ?f])
    show "\<forall>i\<in>{i. bit (byteswap w) i}. ?f (?f i) = i" "\<forall>i\<in>{i. bit w i}. ?f (?f i) = i"
      using f by (auto dest!: bit_imp_le_length)
    show "?f ` {i. bit (byteswap w) i} \<subseteq> {i. bit w i}"
      using bits by (auto dest: bit_imp_le_length)
    show "?f ` {i. bit w i} \<subseteq> {i. bit (byteswap w) i}"
    proof clarify
      fix i assume b: "bit w i"
      then have "i < LENGTH('a)" by (rule bit_imp_le_length)
      with f [of i] bits [of "?f i"] b show "bit (byteswap w) (?f i)" by simp
    qed
  qed
  then show ?thesis by (rule bij_betw_same_card)
qed

lemma card_swap:
  "8 dvd LENGTH('a) \<Longrightarrow> card {i. bit (byteswapOnLittleEndian h (w :: 'a::len word)) i} = card {i. bit w i}"
  by (simp add: byteswapOnLittleEndian_def card_byteswap)

section \<open>Networks\<close>

definition ipv4_host :: "endian \<Rightarrow> sockaddr_in \<Rightarrow> 32 word" where
  "ipv4_host h a = byteswapOnLittleEndian h (sin_addr a)"

lemma CreateMask_cases:
  "2 \<le> n \<Longrightarrow> n \<le> 32 \<Longrightarrow> CreateMask 32 n = Inr (mask (32 - n))"
  "CreateMask 32 0 = Inl Undefined_shift" "CreateMask 32 1 = Inl Signed_overflow"
  "32 < n \<Longrightarrow> n < 2 ^ 32 \<Longrightarrow> CreateMask 32 n = Inl Undefined_shift"
  "n < 8 \<Longrightarrow> CreateMask 8 n = Inr (mask (8 - n))"
  by (auto simp: CreateMask_def sub64_def mask_eq_exp_minus_1 Let_def)

lemma card_bits_not_mask:
  assumes "k \<le> LENGTH('a)"
  shows "card {i. bit (NOT (mask k) :: 'a::len word) i} = LENGTH('a) - k"
proof -
  have "{i. bit (NOT (mask k) :: 'a word) i} = {k..<LENGTH('a)}" by (auto simp: bit_not_iff bit_mask_iff)
  then show ?thesis by simp
qed

text \<open>
  C37. The IPv4 networks of a prefix of 2 to 32 bits, on any host: the broadcast address has the host bits
  set, the subnet mask has exactly the prefix bits set, which CountBytes counts as the prefix length
  again, but networdAddress keeps the host bits and clears the prefix: it is not the network.
\<close>

theorem ipv4_networks:
  assumes "2 \<le> unat n" and "unat n \<le> 32"
  shows "\<exists>b m c. IPv4_broadcastAddress h n a = Inr (Some (IPv4Address b)) \<and> ipv4_host h b = ipv4_host h a OR mask (32 - unat n) \<and>
    IPv4_subnetMask h n a = Inr (Some (IPv4Address m)) \<and> ipv4_host h m = NOT (mask (32 - unat n)) \<and> CountBytes (sin_addr m) = n \<and>
    IPv4_networdAddress h n a = Inr (Some (IPv4Address c)) \<and> ipv4_host h c = ipv4_host h a AND mask (32 - unat n)"
proof -
  let ?m = "byteswapOnLittleEndian h (mask (32 - unat n)) :: 32 word"
  have mask: "CreateMask 32 (unat n) = Inr (mask (32 - unat n) :: 32 word)" by (rule CreateMask_cases(1) [OF assms])
  have le: "\<not> 32 < n" using assms(2) by (simp add: word_less_nat_alt)
  have swap: "byteswapOnLittleEndian h ?m = mask (32 - unat n)" by (rule byteswapOnLittleEndian_invol) simp
  have "unat (CountBytes (NOT ?m)) = card {i. bit (NOT ?m) i}" by (rule CountBytes_card) simp
  also have "\<dots> = card {i. bit (NOT (mask (32 - unat n)) :: 32 word) i}"
    by (simp add: card_swap flip: swap_bitwise(3))
  also have "\<dots> = unat n" using assms(2) by (simp add: card_bits_not_mask)
  finally have count: "CountBytes (NOT ?m) = n" by (simp add: word_unat_eq_iff)
  show ?thesis using mask le swap count
    by (simp add: IPv4_broadcastAddress_def IPv4_subnetMask_def IPv4_networdAddress_def ipv4_host_def swap_bitwise)
qed

text \<open>The bits of an IPv6 address from the most significant one on.\<close>

definition addr_bit :: "byte list \<Rightarrow> nat \<Rightarrow> bool" where
  "addr_bit bs j \<longleftrightarrow> bit (bs ! (j div 8)) (7 - j mod 8)"

lemma at_byte_in: "i < length bs \<Longrightarrow> at_byte i f bs = Inr (bs[i := f (bs ! i)])"
  by (simp add: at_byte_def)

lemma set_from_nth: "k < length bs \<Longrightarrow> set_from i v bs ! k = (if k < i then bs ! k else v)"
  by (auto simp: set_from_def nth_append min_def)

text \<open>
  The IPv6 networks of a prefix below 128 bits: the broadcast address keeps the prefix and sets
  the bits behind it, the subnet mask has exactly the prefix bits; networdAddress keeps, in the byte
  where the prefix ends, the host bits instead of the prefix bits. From 128 bits on all three write
  behind the array.
\<close>

theorem ipv6_networks:
  assumes "length (sin6_addr a) = 16"
  shows "if unat n < 128
    then \<exists>b m c. IPv6_broadcastAddress n a = Inr (Some (IPv6Address b)) \<and>
        IPv6_subnetMask n a = Inr (Some (IPv6Address m)) \<and> IPv6_networdAddress n a = Inr (Some (IPv6Address c)) \<and>
        (\<forall>j < 128. addr_bit (sin6_addr b) j = (j < unat n \<longrightarrow> addr_bit (sin6_addr a) j) \<and>
          addr_bit (sin6_addr m) j = (j < unat n) \<and>
          addr_bit (sin6_addr c) j = (addr_bit (sin6_addr a) j \<and>
            (j div 8 < unat n div 8 \<or> j div 8 = unat n div 8 \<and> unat n \<le> j)))
    else IPv6_broadcastAddress n a = Inl Out_of_bounds \<and> IPv6_subnetMask n a = Inl Out_of_bounds \<and>
        IPv6_networdAddress n a = Inl Out_of_bounds"
proof -
  define q r where "q = unat n div 8" and "r = unat n mod 8"
  have n: "unat n = 8 * q + r" "r < 8" by (simp_all add: q_def r_def)
  have mask: "CreateMask 8 r = Inr (mask (8 - r) :: byte)" by (rule CreateMask_cases(5) [OF n(2)])
  note defs = IPv6_broadcastAddress_def IPv6_subnetMask_def IPv6_networdAddress_def Let_def q_def [symmetric] r_def [symmetric] mask
  show ?thesis
  proof (cases "unat n < 128")
    case False
    then have "\<not> q < 16" using n by linarith
    then show ?thesis using False assms by (simp add: defs at_byte_def)
  next
    case True
    then have q: "q < 16" using n by linarith
    let ?b = "set_from (q + 1) 0xff ((sin6_addr a)[q := sin6_addr a ! q OR mask (8 - r)])"
    let ?c = "set_from (q + 1) 0 ((sin6_addr a)[q := sin6_addr a ! q AND mask (8 - r)])"
    let ?m = "replicate q 0xff @ drop q ((replicate 16 0)[q := NOT (mask (8 - r))]) :: byte list"
    have bits: "addr_bit ?b j = (j < unat n \<longrightarrow> addr_bit (sin6_addr a) j) \<and> addr_bit ?m j = (j < unat n) \<and>
        addr_bit ?c j = (addr_bit (sin6_addr a) j \<and> (j div 8 < q \<or> j div 8 = q \<and> unat n \<le> j))" if "j < 128" for j
    proof -
      define k i where "k = j div 8" and "i = j mod 8"
      have j: "j = 8 * k + i" "i < 8" "k < 16" using that by (auto simp: k_def i_def)
      have ff: "bit (0xff :: byte) (7 - i)" using bit_mask_iff [of 8 "7 - i", where 'a = "8 word"] by (simp add: mask_numeral)
      have low: "bit (mask (8 - r) :: byte) (7 - i) \<longleftrightarrow> r \<le> i" using j(2) by (auto simp: bit_mask_iff)
      have lt: "j < unat n \<longleftrightarrow> k < q \<or> k = q \<and> i < r" using n j by linarith
      have m: "?m ! k = (if k < q then 0xff else if k = q then NOT (mask (8 - r)) else 0)"
        using q j(3) by (auto simp: nth_append)
      show ?thesis
        unfolding addr_bit_def k_def [symmetric] i_def [symmetric] m lt
        using assms q j ff low lt by (auto simp: set_from_nth bit_or_iff bit_and_iff bit_not_iff nth_list_update not_less)
    qed
    have "IPv6_broadcastAddress n a = Inr (Some (IPv6Address (a\<lparr>sin6_addr := ?b\<rparr>)))"
      "IPv6_subnetMask n a = Inr (Some (IPv6Address (IPv6Address_empty\<lparr>sin6_addr := ?m\<rparr>)))"
      "IPv6_networdAddress n a = Inr (Some (IPv6Address (a\<lparr>sin6_addr := ?c\<rparr>)))"
      using assms q by (simp_all add: defs at_byte_in)
    then show ?thesis unfolding if_P [OF True] using bits
      by (intro exI [where x = "a\<lparr>sin6_addr := ?b\<rparr>"] exI [where x = "IPv6Address_empty\<lparr>sin6_addr := ?m\<rparr>"]
          exI [where x = "a\<lparr>sin6_addr := ?c\<rparr>"]) (simp add: q_def)
  qed
qed

section \<open>Order\<close>

text \<open>What the comparisons look at: the first bytes of the structure, as many as its length says.\<close>

definition addr_key :: "endian \<Rightarrow> Address \<Rightarrow> byte list" where
  "addr_key h a = take (getAddrLen a) (getAddr h a)"

definition addr_sized :: "endian \<Rightarrow> Address \<Rightarrow> bool" where
  "addr_sized h a \<longleftrightarrow> getAddrLen a \<le> length (getAddr h a)"

lemma Nil_less_iff: "[] < (ys :: byte list) \<longleftrightarrow> ys \<noteq> []"
  by (cases ys) auto

lemma memcmp_loop_lex:
  "let n = min (length xs) (length ys); r = memcmp_loop (take n xs) (take n ys) in
    (if r < 0 then True else if 0 < r then False else length xs < length ys) = (xs < ys)"
  by (induction xs ys rule: memcmp_loop.induct) (auto simp: Let_def Nil_less_iff)

lemma memcmp_loop_eq: "length xs = length ys \<Longrightarrow> memcmp_loop xs ys = 0 \<longleftrightarrow> xs = ys"
  by (induction xs ys rule: memcmp_loop.induct) auto

text \<open>
  C36. Addresses of any kinds are ordered as the byte strings of their structures are lexicographically, and
  equal when these are, so that they can be the keys of ordered containers; the comparison reads no
  byte outside a structure that is at least as long as its length says.
\<close>

theorem address_order:
  assumes "addr_sized h a" and "addr_sized h b"
  shows "addr_less h a b = Inr (addr_key h a < addr_key h b) \<and> addr_equal h a b = Inr (addr_key h a = addr_key h b) \<and>
    addr_unequal h a b = Inr (addr_key h a \<noteq> addr_key h b)"
proof -
  let ?a = "addr_key h a" and ?b = "addr_key h b" and ?n = "min (getAddrLen a) (getAddrLen b)"
  have len: "length ?a = getAddrLen a" "length ?b = getAddrLen b" using assms by (simp_all add: addr_key_def addr_sized_def)
  have n: "\<not> length (getAddr h a) < ?n" "\<not> length (getAddr h b) < ?n" using assms by (auto simp: addr_sized_def)
  have t: "take ?n (getAddr h a) = take ?n ?a" "take ?n (getAddr h b) = take ?n ?b" by (simp_all add: addr_key_def)
  have less: "addr_less h a b = Inr (?a < ?b)"
    using memcmp_loop_lex [of ?a ?b] n unfolding addr_less_def memcmp_def Let_def len t by simp
  have eq: "addr_equal h a b = Inr (?a = ?b)"
  proof (cases "getAddrLen a = getAddrLen b")
    case True
    then have "memcmp (getAddr h a) (getAddr h b) (getAddrLen a) = Inr (memcmp_loop ?a ?b)"
      using n by (simp add: memcmp_def addr_key_def)
    then show ?thesis using True len memcmp_loop_eq [of ?a ?b] by (simp add: addr_equal_def)
  next
    case False
    then have "?a \<noteq> ?b" using len by metis
    then show ?thesis using False by (simp add: addr_equal_def)
  qed
  show ?thesis by (simp add: addr_unequal_def less eq)
qed

section \<open>Structures in memory\<close>

definition in_sized :: "sockaddr_in \<Rightarrow> bool" where
  "in_sized a \<longleftrightarrow> sin_family a = AF_INET \<and> length (sin_zero a) = 8"

definition in6_sized :: "sockaddr_in6 \<Rightarrow> bool" where
  "in6_sized a \<longleftrightarrow> sin6_family a = AF_INET6 \<and> length (sin6_addr a) = 16"

fun ip_sized :: "Address \<Rightarrow> bool" where
  "ip_sized (IPv4Address a) \<longleftrightarrow> in_sized a"
| "ip_sized (IPv6Address a) \<longleftrightarrow> in6_sized a"
| "ip_sized _ \<longleftrightarrow> False"

lemma drop_mem_bytes:
  assumes "8 * k = LENGTH('a)"
  shows "n = k + m \<Longrightarrow> drop n (mem_bytes h (w :: 'a::len word) @ xs) = drop m xs"
    and "take k (mem_bytes h (w :: 'a::len word) @ xs) = mem_bytes h w"
proof -
  have "length (mem_bytes h w) = k" using arg_cong [OF assms, of "\<lambda>x. x div 8"] by simp
  then show "n = k + m \<Longrightarrow> drop n (mem_bytes h w @ xs) = drop m xs" "take k (mem_bytes h w @ xs) = mem_bytes h w" by simp_all
qed

text \<open>
  An IP address whose structure the system has copied is read back as it was by Create, its length is
  that of the structure, and the port set is the port read.
\<close>

theorem create_getAddr:
  assumes "ip_sized a"
  shows "Address_Create h (Some (getAddr h a)) = Inr (Some a) \<and> length (getAddr h a) = getAddrLen a \<and> addr_sized h a \<and>
    getPort h (setPort h p a) = ucast p \<and> ip_sized (setPort h p a)"
proof (cases a)
  case (IPv4Address x)
  then show ?thesis using assms
    by (simp add: Address_Create_def in_sized_def drop_mem_bytes of_mem_bytes_mem_bytes addr_sized_def
        byteswapOnLittleEndian_invol AF_INET_def AF_INET6_def Let_def)
next
  case (IPv6Address x)
  then show ?thesis using assms
    by (simp add: Address_Create_def in6_sized_def drop_mem_bytes of_mem_bytes_mem_bytes addr_sized_def
        byteswapOnLittleEndian_invol AF_INET_def AF_INET6_def Let_def)
qed (use assms in simp_all)

section \<open>Text\<close>

text \<open>Groups joined by colons, and the text of an address after RFC 4291, over its first run of zeros.\<close>

fun join_groups :: "(16 word \<Rightarrow> string) \<Rightarrow> 16 word list \<Rightarrow> string" where
  "join_groups hex [] = []"
| "join_groups hex [g] = hex g"
| "join_groups hex (g # gs) = hex g @ '':'' @ join_groups hex gs"

definition groups_text :: "(16 word \<Rightarrow> string) \<Rightarrow> 16 word list \<Rightarrow> string" where
  "groups_text hex gs =
     (let pre = takeWhile (\<lambda>g. g \<noteq> 0) gs; behind = dropWhile (\<lambda>g. g \<noteq> 0) gs
      in if behind = [] then join_groups hex gs
         else join_groups hex pre @ ''::'' @ join_groups hex (dropWhile (\<lambda>g. g = 0) behind))"

lemma join_Cons: "join_groups hex (g # rest) = hex g @ (if rest = [] then [] else '':'' @ join_groups hex rest)"
  by (cases rest) simp_all

text \<open>Once the double colon is written the loop joins what is left.\<close>

lemma groups_loop_used:
  assumes "i \<le> length gs"
  shows "groups_loop hex gs i True = ((if 0 < i \<and> i < length gs then '':'' else []) @ join_groups hex (drop i gs), True)"
  using assms
proof (induction "length gs - i" arbitrary: i)
  case 0
  then show ?case by (subst groups_loop.simps) simp
next
  case (Suc k)
  then have i: "i < length gs" by simp
  then obtain g rest where d: "drop i gs = g # rest" "g = gs ! i" "rest = drop (Suc i) gs" by (simp add: Cons_nth_drop_Suc [symmetric])
  have "join_groups hex (g # rest) = hex g @ (if Suc i < length gs then '':'' else []) @ join_groups hex rest"
    unfolding join_Cons using d(3) by auto
  then show ?case using Suc(1) [of "Suc i"] Suc(2) i d by (subst groups_loop.simps) simp
qed

text \<open>In the first run of zeros nothing is written; behind it, the double colon.\<close>

lemma groups_loop_zeros:
  assumes "i \<le> length gs" and "0 < i \<Longrightarrow> gs ! (i - 1) = 0" and "0 < i \<or> i < length gs \<and> gs ! i = 0"
  shows "groups_loop hex gs i False =
    (let rest = dropWhile (\<lambda>g. g = 0) (drop i gs) in if rest = [] then ([], False) else (''::'' @ join_groups hex rest, True))"
  using assms
proof (induction "length gs - i" arbitrary: i)
  case 0
  then show ?case by (subst groups_loop.simps) simp
next
  case (Suc k)
  then have i: "i < length gs" by simp
  then have d: "drop i gs = gs ! i # drop (Suc i) gs" by (simp add: Cons_nth_drop_Suc)
  show ?case
  proof (cases "gs ! i = 0")
    case True
    then show ?thesis using Suc(1) [of "Suc i"] Suc(2) i d by (subst groups_loop.simps) simp
  next
    case False
    then show ?thesis using Suc(4,5) i groups_loop_used [of "Suc i" gs hex]
      by (subst groups_loop.simps) (auto simp: d join_Cons)
  qed
qed

text \<open>In front of the first run of zeros the groups are joined.\<close>

lemma groups_loop_prefix:
  assumes "i \<le> length gs" and "0 < i \<Longrightarrow> gs ! (i - 1) \<noteq> 0"
  shows "groups_loop hex gs i False =
    (let pre = takeWhile (\<lambda>g. g \<noteq> 0) (drop i gs); rest = dropWhile (\<lambda>g. g = 0) (dropWhile (\<lambda>g. g \<noteq> 0) (drop i gs))
     in ((if 0 < i \<and> pre \<noteq> [] then '':'' else []) @ join_groups hex pre @ (if rest = [] then [] else ''::'' @ join_groups hex rest),
         rest \<noteq> []))"
  using assms
proof (induction "length gs - i" arbitrary: i)
  case 0
  then show ?case by (subst groups_loop.simps) simp
next
  case (Suc k)
  then have i: "i < length gs" by simp
  then have d: "drop i gs = gs ! i # drop (Suc i) gs" by (simp add: Cons_nth_drop_Suc)
  show ?case
  proof (cases "gs ! i = 0")
    case True
    have "groups_loop hex gs i False = groups_loop hex gs (Suc i) False"
      using True i by (subst groups_loop.simps) simp
    then show ?thesis using groups_loop_zeros [of "Suc i" gs hex] True i d by (simp add: Let_def)
  next
    case False
    have "groups_loop hex gs i False =
      (let (text, used) = groups_loop hex gs (Suc i) False in ((if 0 < i then '':'' else []) @ hex (gs ! i) @ text, used))"
      using False Suc(4) i by (subst groups_loop.simps) (auto simp: Let_def)
    also have "groups_loop hex gs (Suc i) False =
      (let pre = takeWhile (\<lambda>g. g \<noteq> 0) (drop (Suc i) gs);
           rest = dropWhile (\<lambda>g. g = 0) (dropWhile (\<lambda>g. g \<noteq> 0) (drop (Suc i) gs))
       in ((if pre \<noteq> [] then '':'' else []) @ join_groups hex pre @ (if rest = [] then [] else ''::'' @ join_groups hex rest),
           rest \<noteq> []))"
      using Suc(1) [of "Suc i"] Suc(2) i False by simp
    finally show ?thesis using False by (simp add: d Let_def join_Cons)
  qed
qed

lemma colons_once:
  assumes "rest = [] \<Longrightarrow> z" and "j [] = []"
  shows "(pre @ (if rest = [] then [] else ''::'' @ j rest)) @ (if \<not> rest \<noteq> [] \<and> z then ''::'' else []) = pre @ ''::'' @ j rest"
  using assms by auto

lemma groups_loop_text:
  assumes "groups_loop hex gs 0 False = (text, used)" and "gs \<noteq> []"
  shows "text @ (if \<not> used \<and> last gs = 0 then ''::'' else []) = groups_text hex gs"
proof -
  let ?pre = "takeWhile (\<lambda>g. g \<noteq> 0) gs" and ?behind = "dropWhile (\<lambda>g. g \<noteq> 0) gs"
  let ?rest = "dropWhile (\<lambda>g. g = 0) ?behind"
  have run: "text = join_groups hex ?pre @ (if ?rest = [] then [] else ''::'' @ join_groups hex ?rest)" "used \<longleftrightarrow> ?rest \<noteq> []"
    using groups_loop_prefix [of 0 gs hex] assms(1) by (simp_all add: Let_def)
  show ?thesis
  proof (cases "?behind = []")
    case True
    then have "\<forall>g\<in>set gs. g \<noteq> 0" by (simp add: dropWhile_eq_Nil_conv)
    then have pre: "?pre = gs" and "last gs \<noteq> 0" using assms(2) by (simp_all add: takeWhile_eq_all_conv)
    then show ?thesis using run True unfolding groups_text_def Let_def pre by simp
  next
    case False
    then have "last ?behind = last gs" using last_appendR [OF False, of ?pre] by simp
    moreover have "last ?behind = 0" if "?rest = []"
      using that last_in_set [OF False] unfolding dropWhile_eq_Nil_conv by blast
    ultimately have zero: "last gs = 0" if "?rest = []" using that by metis
    have goal: "groups_text hex gs = join_groups hex ?pre @ ''::'' @ join_groups hex ?rest"
      unfolding groups_text_def Let_def if_not_P [OF False] ..
    show ?thesis unfolding goal run
      by (rule colons_once [where rest = ?rest and z = "last gs = 0" and j = "join_groups hex" and pre = "join_groups hex ?pre"])
        (fact zero, fact join_groups.simps(1))
  qed
qed

text \<open>The numbers of the groups: each two bytes in network order.\<close>

definition ipv6_groups :: "byte list \<Rightarrow> 16 word list" where
  "ipv6_groups bs = map (\<lambda>i. of_le_bytes (rev (take 2 (drop (2 * i) bs)))) [0..<8]"

lemma groups_text_map:
  assumes "\<And>g. s g = 0 \<longleftrightarrow> g = 0"
  shows "groups_text (\<lambda>g. f (s g)) gs = groups_text f (map s gs)"
proof -
  have join: "join_groups (\<lambda>g. f (s g)) xs = join_groups f (map s xs)" for xs
    by (induction xs) (simp_all add: join_Cons)
  show ?thesis by (simp add: groups_text_def Let_def join takeWhile_map dropWhile_map comp_def assms cong: if_cong)
qed

lemma swap_zero_iff: "8 dvd LENGTH('a) \<Longrightarrow> byteswapOnLittleEndian h w = 0 \<longleftrightarrow> w = (0 :: 'a::len word)"
proof -
  assume d: "8 dvd LENGTH('a)"
  have "byteswapOnLittleEndian h (0 :: 'a word) = 0" using swap_bitwise(1) [OF d, of h 0 "NOT 0"] swap_bitwise(3) [OF d, of h 0]
    by simp
  then show ?thesis using byteswapOnLittleEndian_invol [OF d, of h w] by auto
qed

lemma swap_of_mem_bytes:
  assumes "8 * length bs = LENGTH('a)"
  shows "byteswapOnLittleEndian h (of_mem_bytes h bs :: 'a::len word) = of_le_bytes (rev bs)"
  using le_bytes_of_le_bytes [OF assms] by (cases h) (simp_all add: byteswapOnLittleEndian_def of_mem_bytes_def byteswap_def)

lemma unat_port: "unat (ucast (w :: 16 word) :: 32 word) = unat w"
  by (simp add: unsigned_ucast_eq take_bit_nat_eq_self_iff order_less_trans [OF unsigned_less])

text \<open>
  C38. The text of an IPv6 address, on any host: its eight groups in hexadecimal without leading zeros,
  joined by colons, with the first run of zero groups (one or more) written as a double colon, in
  brackets, and the port behind them.
\<close>

theorem ipv6_text:
  assumes "length (sin6_addr a) = 16"
  shows "IPv6_insert h a = ''['' @ groups_text (\<lambda>g. show_hex (unat g)) (ipv6_groups (sin6_addr a)) @ '']:''
    @ show_nat (unat (getPort h (IPv6Address a)))"
proof -
  let ?s = "byteswapOnLittleEndian h :: 16 word \<Rightarrow> 16 word" and ?gs = "as_uint16 h (sin6_addr a)"
  let ?hex = "\<lambda>w. show_hex (unat (?s w))"
  obtain t u where run: "groups_loop ?hex ?gs 0 False = (t, u)" by fastforce
  have len: "length ?gs = 8" by (simp add: as_uint16_def)
  then have "?gs \<noteq> []" by auto
  with len have gs: "?gs \<noteq> []" "last ?gs = ?gs ! 7" by (simp_all add: last_conv_nth)
  have "map ?s ?gs = ipv6_groups (sin6_addr a)"
    using assms by (auto simp: as_uint16_def ipv6_groups_def swap_of_mem_bytes)
  moreover have "?s g = 0 \<longleftrightarrow> g = 0" for g by (rule swap_zero_iff) simp
  ultimately have "t @ (if \<not> u \<and> ?gs ! 7 = 0 then ''::'' else []) = groups_text (\<lambda>g. show_hex (unat g)) (ipv6_groups (sin6_addr a))"
    using groups_loop_text [OF run gs(1)] groups_text_map [of ?s "\<lambda>g. show_hex (unat g)" ?gs] gs(2) by simp
  then show ?thesis by (simp add: IPv6_insert_def run unat_port flip: append_assoc)
qed

section \<open>Host texts\<close>

lemma memchr_append:
  "drop i s = xs @ c # ys \<Longrightarrow> c \<notin> set xs \<Longrightarrow> memchr c i s = Some (i + length xs)"
  "c \<notin> set (drop i s) \<Longrightarrow> memchr c i s = None"
  by (auto simp: memchr_def takeWhile_append)

text \<open>
  C39. What Lookup takes for node and service: a name with or without a service behind a colon, and an
  address in brackets with or without one, are split as meant. Of a text with two colons and no
  brackets, such as a bare IPv6 address, all is the node, but the text from the first colon on is also
  passed on as the service.
\<close>

theorem lookup_split_forms:
  assumes name: "CHR '':'' \<notin> set name" "name \<noteq> []" "hd name \<noteq> CHR ''[''" and svc: "CHR '':'' \<notin> set svc"
    and v6: "CHR '']'' \<notin> set v6" "v6 \<noteq> []"
  shows "lookup_split name = (name, None) \<and> lookup_split (name @ '':'' @ svc) = (name, Some svc) \<and>
    lookup_split (''['' @ v6 @ '']'') = (v6, None) \<and> lookup_split (''['' @ v6 @ '']:'' @ rest) = (v6, Some rest) \<and>
    lookup_split (name @ '':'' @ svc @ '':'' @ rest) = (name @ '':'' @ svc @ '':'' @ rest, Some ('':'' @ svc @ '':'' @ rest))"
proof -
  have hd: "hd (name @ t) \<noteq> CHR ''[''" for t using name(2,3) by (cases name) auto
  have 1: "lookup_split name = (name, None)"
    using name by (simp add: lookup_split_def memchr_append(2))
  have 2: "lookup_split (name @ '':'' @ svc) = (name, Some svc)"
    using name(1,2) svc hd memchr_append(1) [of 0 "name @ '':'' @ svc" name "CHR '':''" svc]
      memchr_append(2) [of "CHR '':''" "Suc (length name)" "name @ '':'' @ svc"]
    by (simp add: lookup_split_def)
  have e: "memchr (CHR '']'') 1 (''['' @ v6 @ CHR '']'' # t) = Some (1 + length v6)" for t
    by (rule memchr_append(1) [of _ _ _ _ t]) (simp_all add: v6)
  have node: "substr (''['' @ v6 @ CHR '']'' # t) 1 (length v6) = v6" for t by (simp add: substr_def)
  have 3: "lookup_split (''['' @ v6 @ '']'') = (v6, None)"
    using e [of "[]"] node [of "[]"] v6(2) by (simp add: lookup_split_def)
  have 4: "lookup_split (''['' @ v6 @ '']:'' @ rest) = (v6, Some rest)"
    using e [of "CHR '':'' # rest"] node [of "CHR '':'' # rest"] v6(2) by (simp add: lookup_split_def nth_append)
  let ?bare = "name @ '':'' @ svc @ '':'' @ rest"
  have "memchr (CHR '':'') 0 ?bare = Some (length name)"
    using memchr_append(1) [of 0 ?bare name "CHR '':''" "svc @ '':'' @ rest"] name(1) by simp
  moreover have "memchr (CHR '':'') (Suc (length name)) ?bare = Some (Suc (length name) + length svc)"
    by (rule memchr_append(1) [of _ _ _ _ rest]) (simp_all add: svc)
  ultimately have "lookup_split ?bare = (?bare, Some ('':'' @ svc @ '':'' @ rest))"
    using hd by (simp add: lookup_split_def)
  with 1 2 3 4 show ?thesis by blast
qed

section \<open>Paths\<close>

lemma char_of_byte: "char_of (unat (of_char c :: byte)) = c"
proof -
  have "(of_char c :: byte) = word_of_nat (of_char c)" by (simp only: of_nat_of_char)
  then show ?thesis using nat_of_char_less_256 [of c] by (simp add: unat_of_nat)
qed

lemma of_char_zero: "(of_char c :: byte) = 0 \<longleftrightarrow> c = CHR 0x00"
proof
  assume "(of_char c :: byte) = 0"
  then have "c = char_of (0 :: nat)" using char_of_byte [of c] by simp
  also have "\<dots> = CHR 0x00" by code_simp
  finally show "c = CHR 0x00" .
qed simp

lemma map_char_of_byte: "map (\<lambda>b. char_of (unat b)) (map of_char s :: byte list) = s"
  using char_of_byte by (simp add: map_idI)

text \<open>
  C40. The path of a Unix socket: a path of up to 107 characters is given back by getPath, and a name in the
  abstract namespace (behind a zero byte) of as many characters is given back behind a backslash and
  a zero digit; longer paths throw.
\<close>

theorem unix_path:
  assumes "CHR 0x00 \<notin> set path" and "path \<noteq> []" and "length path < 2 ^ 32 - 1"
  shows "if length path \<le> 107
    then (\<exists>a l. UnixAddress_new path = Inr (UnixAddress a l) \<and> unat l = length path + 3 \<and> Unix_getPath a l = Inr path) \<and>
      (\<exists>a l. UnixAddress_new (CHR 0x00 # path) = Inr (UnixAddress a l) \<and> unat l = length path + 3 \<and>
        Unix_getPath a l = Inr (CHR 0x5C # CHR ''0'' # path))
    else UnixAddress_new path = Inl Path_too_long \<and> UnixAddress_new (CHR 0x00 # path) = Inl Path_too_long"
proof -
  let ?l = "of_nat (length path) + 1 :: 32 word"
  have l: "unat ?l = length path + 1" using assms(3) by (simp add: unat_word_ariths unat_of_nat)
  have hd: "hd path \<noteq> CHR 0x00" using assms(1,2) hd_in_set by metis
  have two: "unat (?l + 2) = length path + 3" if "length path \<le> 107"
    using that by (simp add: unat_word_ariths unat_of_nat)
  have small: "\<not> 108 < ?l \<longleftrightarrow> length path \<le> 107" using l by (simp add: word_less_nat_alt not_less)
  show ?thesis
  proof (cases "length path \<le> 107")
    case False
    then show ?thesis using small hd by (simp add: UnixAddress_new_def Let_def add.commute [of 1])
  next
    case True
    have plain: "UnixAddress_new path = Inr (UnixAddress \<lparr>sun_family = AF_UNIX,
        sun_path = map of_char path @ 0 # replicate (107 - length path) 0\<rparr> (?l + 2))"
      using True small hd l by (simp add: UnixAddress_new_def blit_def Let_def)
    have abstract: "UnixAddress_new (CHR 0x00 # path) = Inr (UnixAddress \<lparr>sun_family = AF_UNIX,
        sun_path = 0 # map of_char path @ replicate (107 - length path) 0\<rparr> (?l + 2))"
      using True small l by (simp add: UnixAddress_new_def blit_def Let_def add.commute [of 1])
    have no_zero: "\<forall>b \<in> set (map of_char path). b \<noteq> (0 :: byte)" using assms(1) of_char_zero by auto
    have "2 < ?l + 2" using two [OF True] assms(2) by (simp add: word_less_nat_alt)
    moreover have "hd (map of_char path :: byte list) \<noteq> 0" using hd assms(2) of_char_zero by (simp add: hd_map)
    ultimately show ?thesis using True plain abstract two [OF True] assms(2) no_zero map_char_of_byte
      by (auto simp: Unix_getPath_def takeWhile_append)
  qed
qed

section \<open>Instances\<close>

lemma CountBytes_card_witness: "unat (CountBytes (0xF7 :: byte)) = card {i. bit (0xF7 :: byte) i}"
  by (rule CountBytes_card) simp

definition sample_in :: sockaddr_in where
  "sample_in = \<lparr>sin_family = AF_INET, sin_port = 0x5000, sin_addr = 0x0701A8C0, sin_zero = replicate 8 0\<rparr>"

definition sample_in6 :: sockaddr_in6 where
  "sample_in6 = IPv6Address_empty\<lparr>sin6_port := 0x5000, sin6_addr := [0, 0x64, 0, 0xff] @ replicate 11 0 @ [1]\<rparr>"

lemma ipv4_networks_witness:
  "\<exists>m c. IPv4_subnetMask LITTLE_ENDIAN 24 sample_in = Inr (Some (IPv4Address m)) \<and> ipv4_host LITTLE_ENDIAN m = 0xFFFFFF00 \<and>
    IPv4_networdAddress LITTLE_ENDIAN 24 sample_in = Inr (Some (IPv4Address c)) \<and> ipv4_host LITTLE_ENDIAN c = 7"
proof -
  have x: "ipv4_host LITTLE_ENDIAN sample_in AND mask (32 - unat (24 :: 32 word)) = 7"
    "NOT (mask (32 - unat (24 :: 32 word))) = (0xFFFFFF00 :: 32 word)" by code_simp+
  show ?thesis using ipv4_networks [of 24 LITTLE_ENDIAN sample_in] unfolding x by auto
qed

lemma ipv6_networks_witness:
  "\<exists>m. IPv6_subnetMask 64 sample_in6 = Inr (Some (IPv6Address m)) \<and> addr_bit (sin6_addr m) 63 \<and> \<not> addr_bit (sin6_addr m) 64"
proof -
  have "length (sin6_addr sample_in6) = 16" by code_simp
  from ipv6_networks [OF this, of 64] show ?thesis by auto
qed

lemma address_order_witness: "addr_less LITTLE_ENDIAN (IPv4Address sample_in) (IPv6Address sample_in6) = Inr True"
proof -
  have "addr_sized LITTLE_ENDIAN (IPv4Address sample_in)" "addr_sized LITTLE_ENDIAN (IPv6Address sample_in6)"
    "addr_key LITTLE_ENDIAN (IPv4Address sample_in) < addr_key LITTLE_ENDIAN (IPv6Address sample_in6)" by code_simp+
  then show ?thesis using address_order by simp
qed

lemma create_getAddr_witness:
  "Address_Create BIG_ENDIAN (Some (getAddr BIG_ENDIAN (IPv6Address sample_in6))) = Inr (Some (IPv6Address sample_in6))"
proof -
  have "ip_sized (IPv6Address sample_in6)" by code_simp
  from create_getAddr [OF this] show ?thesis by blast
qed

lemma ipv6_text_witness: "IPv6_insert LITTLE_ENDIAN sample_in6 = ''[64:ff::1]:80''"
proof -
  have "length (sin6_addr sample_in6) = 16" by code_simp
  moreover have "''['' @ groups_text (\<lambda>g. show_hex (unat g)) (ipv6_groups (sin6_addr sample_in6)) @ '']:''
      @ show_nat (unat (getPort LITTLE_ENDIAN (IPv6Address sample_in6))) = ''[64:ff::1]:80''" by code_simp
  ultimately show ?thesis using ipv6_text by metis
qed

lemma lookup_split_forms_witness:
  "lookup_split (''['' @ ''::1'' @ '']:'' @ ''80'') = (''::1'', Some ''80'') \<and>
    lookup_split (''fe80'' @ '':'' @ [] @ '':'' @ ''1'') = (''fe80'' @ '':'' @ [] @ '':'' @ ''1'', Some ('':'' @ [] @ '':'' @ ''1''))"
proof -
  have "CHR '']'' \<notin> set ''::1''" "CHR '':'' \<notin> set ''fe80''" "hd ''fe80'' \<noteq> CHR ''[''" by code_simp+
  then show ?thesis
    using lookup_split_forms [of "''fe80''" "[]" "''::1''" "''80''"] lookup_split_forms [of "''fe80''" "[]" "''::1''" "''1''"] by simp
qed

lemma unix_path_witness: "\<exists>a l. UnixAddress_new ''/tmp/s'' = Inr (UnixAddress a l) \<and> Unix_getPath a l = Inr ''/tmp/s''"
proof -
  have "CHR 0x00 \<notin> set ''/tmp/s''" "length ''/tmp/s'' \<le> 107" by code_simp+
  then show ?thesis using unix_path [of "''/tmp/s''"] by auto
qed

end
