(* ===== verification/ByteArray.thy ===== *)
theory ByteArray
  imports Endian
begin

unbundle bit_operations_syntax

text \<open>
  The serialisation buffer (\<^verbatim>\<open>src/bytearray.h\<close>, \<^verbatim>\<open>src/bytearray.cc\<close>). The linked list of
  \<open>Node\<close>s is the list \<open>m_nodes\<close> of the nodes' bytes in chain order, \<open>m_cur\<close> is the index of the
  node the pointer names (\<open>None\<close> for the null pointer), the other fields are the code's. What
  \<open>new char[s]\<close> holds before it is written is the field \<open>heap_bytes\<close>, an arbitrary function
  (of the node's place in the chain and the offset), so nothing here depends on it. Reading
  through a null pointer, dividing by a zero block size and the exceptions are the values of
  \<open>ba_error\<close>; a method returns the object as it left it, an exception included.

  Sizes are naturals: an object's sizes are below \<open>2 ^ 64\<close> because its blocks are in memory, so
  additions do not wrap. The two subtractions that could (\<open>getReadSize\<close>, and the bound of the
  positioned read) are written with \<open>sub64\<close>.
\<close>

section \<open>State\<close>

datatype ba_error =
    Out_of_range string     \<comment> \<open>\<open>std::out_of_range\<close>\<close>
  | Null_deref              \<comment> \<open>\<open>m_cur->size\<close> or \<open>cur->ptr\<close> through a null pointer\<close>
  | Div_by_zero             \<comment> \<open>\<open>m_baseSize\<close> is 0\<close>
  | Bad_length              \<comment> \<open>a negative length given to \<open>ostream::write\<close>\<close>
  | Diverges                \<comment> \<open>\<open>readFromFile\<close> with a zero \<open>m_baseSize\<close> never sees the file's end\<close>

record bytearray =
  m_baseSize :: nat
  m_position :: nat
  m_capacity :: nat
  m_size :: nat
  m_endian :: endian
  m_nodes :: "byte list list"
  m_cur :: "nat option"
  heap_bytes :: "nat \<Rightarrow> nat \<Rightarrow> byte"

type_synonym 'a ba_prog = "(bytearray, ba_error, 'a) prog"

definition Node_new :: "(nat \<Rightarrow> byte) \<Rightarrow> nat \<Rightarrow> byte list" where
  "Node_new g s = map g [0..<s]"

definition ByteArray_new :: "(nat \<Rightarrow> nat \<Rightarrow> byte) \<Rightarrow> nat \<Rightarrow> bytearray" where
  "ByteArray_new g base_size =
     \<lparr> m_baseSize = base_size, m_position = 0, m_capacity = base_size, m_size = 0,
       m_endian = BIG_ENDIAN, m_nodes = [Node_new (g 0) base_size], m_cur = Some 0,
       heap_bytes = g \<rparr>"

definition isLittleEndian :: "bytearray \<Rightarrow> bool" where
  "isLittleEndian ba \<longleftrightarrow> m_endian ba = LITTLE_ENDIAN"

definition setIsLittleEndian :: "bool \<Rightarrow> bytearray \<Rightarrow> bytearray" where
  "setIsLittleEndian val ba =
     ba\<lparr>m_endian := (if val then LITTLE_ENDIAN else BIG_ENDIAN)\<rparr>"

definition getReadSize :: "bytearray \<Rightarrow> nat" where
  "getReadSize ba = sub64 (m_size ba) (m_position ba)"

definition getCapacity :: "bytearray \<Rightarrow> nat" where
  "getCapacity ba = sub64 (m_capacity ba) (m_position ba)"

text \<open>\<open>p->next\<close> of the node at index \<open>i\<close>, and \<open>p->size\<close> of a pointer.\<close>

definition node_next :: "byte list list \<Rightarrow> nat \<Rightarrow> nat option" where
  "node_next nodes i = (if Suc i < length nodes then Some (Suc i) else None)"

definition node_size :: "byte list list \<Rightarrow> nat option \<Rightarrow> nat option" where
  "node_size nodes p =
     (case p of None \<Rightarrow> None
      | Some i \<Rightarrow> if i < length nodes then Some (length (nodes ! i)) else None)"

section \<open>Capacity, clearing, positioning\<close>

text \<open>
  \<open>ceil(1.0 * size / m_baseSize)\<close> is exact for sizes below \<open>2 ^ 53\<close>, the integers a \<open>double\<close>
  holds; a zero block sz makes it infinite.
\<close>

definition addCapacity :: "nat \<Rightarrow> unit ba_prog" where
  "addCapacity sz ba =
     (if sz = 0 then (Inr (), ba)
      else let old_cap = getCapacity ba in
        if sz \<le> old_cap then (Inr (), ba)
        else if m_baseSize ba = 0 then (Inl Div_by_zero, ba)
        else
          let need = sz - old_cap;
              count = (need + m_baseSize ba - 1) div m_baseSize ba;
              n = length (m_nodes ba);
              fresh = map (\<lambda>k. Node_new (heap_bytes ba k) (m_baseSize ba)) [n..<n + count]
          in (Inr (), ba\<lparr> m_nodes := m_nodes ba @ fresh,
                           m_capacity := m_capacity ba + count * m_baseSize ba,
                           m_cur := (if old_cap = 0 then Some n else m_cur ba) \<rparr>))"

definition ba_clear :: "bytearray \<Rightarrow> bytearray" where
  "ba_clear ba = ba\<lparr> m_position := 0, m_size := 0, m_capacity := m_baseSize ba,
                     m_cur := Some 0, m_nodes := take 1 (m_nodes ba) \<rparr>"

text \<open>The walk of \<open>setPosition\<close> from the node with index \<open>i\<close>: the new \<open>m_cur\<close>.\<close>

fun seek :: "byte list list \<Rightarrow> nat \<Rightarrow> nat \<Rightarrow> ba_error + nat option" where
  "seek [] i v = Inl Null_deref"
| "seek (nd # nds) i v =
     (if length nd < v then seek nds (Suc i) (v - length nd)
      else if v = length nd then Inr (if nds = [] then None else Some (Suc i))
      else Inr (Some i))"

definition setPosition :: "nat \<Rightarrow> unit ba_prog" where
  "setPosition v ba =
     (if m_capacity ba < v then (Inl (Out_of_range ''set_position out of range''), ba)
      else
        let ba1 = ba\<lparr> m_position := v, m_size := (if m_size ba < v then v else m_size ba) \<rparr>
        in case seek (m_nodes ba) 0 v of
             Inl e \<Rightarrow> (Inl e, ba1\<lparr>m_cur := None\<rparr>)
           | Inr c \<Rightarrow> (Inr (), ba1\<lparr>m_cur := c\<rparr>))"

section \<open>Raw writes and reads\<close>

function write_loop :: "nat \<Rightarrow> nat \<Rightarrow> byte list \<Rightarrow> unit ba_prog" where
  "write_loop npos ncap buf ba =
     (if buf = [] then (Inr (), ba)
      else case m_cur ba of
        None \<Rightarrow> (Inl Null_deref, ba)
      | Some i \<Rightarrow>
          if length (m_nodes ba) \<le> i then (Inl Null_deref, ba)
          else if length buf \<le> ncap then
            (Inr (), ba\<lparr> m_nodes := (m_nodes ba)[i := blit (m_nodes ba ! i) npos buf],
                         m_cur := (if length (m_nodes ba ! i) = npos + length buf
                                   then node_next (m_nodes ba) i else Some i),
                         m_position := m_position ba + length buf \<rparr>)
          else
            let ba' = ba\<lparr> m_nodes := (m_nodes ba)[i := blit (m_nodes ba ! i) npos (take ncap buf)],
                          m_cur := node_next (m_nodes ba) i,
                          m_position := m_position ba + ncap \<rparr>
            in case node_size (m_nodes ba') (m_cur ba') of
                 None \<Rightarrow> (Inl Null_deref, ba')
               | Some s \<Rightarrow> write_loop 0 s (drop ncap buf) ba')"
  by pat_completeness auto
termination
  by (relation "measure (\<lambda>(npos, ncap, buf, ba).
        case m_cur ba of None \<Rightarrow> 0 | Some i \<Rightarrow> length (m_nodes ba) - i)")
    (auto simp: node_next_def split: if_splits option.splits)

definition ba_write :: "byte list \<Rightarrow> unit ba_prog" where
  "ba_write buf ba =
     (if buf = [] then (Inr (), ba)
      else case addCapacity (length buf) ba of
        (Inl e, ba1) \<Rightarrow> (Inl e, ba1)
      | (Inr _, ba1) \<Rightarrow>
          if m_baseSize ba1 = 0 then (Inl Div_by_zero, ba1)
          else
            let npos = m_position ba1 mod m_baseSize ba1 in
            case node_size (m_nodes ba1) (m_cur ba1) of
              None \<Rightarrow> (Inl Null_deref, ba1)
            | Some s \<Rightarrow>
                (case write_loop npos (s - npos) buf ba1 of
                   (Inl e, ba2) \<Rightarrow> (Inl e, ba2)
                 | (Inr _, ba2) \<Rightarrow>
                     (Inr (), ba2\<lparr>m_size := (if m_size ba2 < m_position ba2
                                             then m_position ba2 else m_size ba2)\<rparr>)))"

function read_loop :: "nat \<Rightarrow> nat \<Rightarrow> nat \<Rightarrow> byte list ba_prog" where
  "read_loop npos ncap sz ba =
     (if sz = 0 then (Inr [], ba)
      else case m_cur ba of
        None \<Rightarrow> (Inl Null_deref, ba)
      | Some i \<Rightarrow>
          if length (m_nodes ba) \<le> i then (Inl Null_deref, ba)
          else if sz \<le> ncap then
            (Inr (take sz (drop npos (m_nodes ba ! i))),
             ba\<lparr> m_cur := (if length (m_nodes ba ! i) = npos + sz
                           then node_next (m_nodes ba) i else Some i),
                 m_position := m_position ba + sz \<rparr>)
          else
            let ba' = ba\<lparr> m_cur := node_next (m_nodes ba) i,
                          m_position := m_position ba + ncap \<rparr>
            in case node_size (m_nodes ba') (m_cur ba') of
                 None \<Rightarrow> (Inl Null_deref, ba')
               | Some s \<Rightarrow>
                   (case read_loop 0 s (sz - ncap) ba' of
                      (Inl e, ba'') \<Rightarrow> (Inl e, ba'')
                    | (Inr bs, ba'') \<Rightarrow> (Inr (take ncap (drop npos (m_nodes ba ! i)) @ bs), ba'')))"
  by pat_completeness auto
termination
  by (relation "measure (\<lambda>(npos, ncap, sz, ba).
        case m_cur ba of None \<Rightarrow> 0 | Some i \<Rightarrow> length (m_nodes ba) - i)")
    (auto simp: node_next_def split: if_splits option.splits)

definition ba_read :: "nat \<Rightarrow> byte list ba_prog" where
  "ba_read sz ba =
     (if getReadSize ba < sz then (Inl (Out_of_range ''not enough len''), ba)
      else if m_baseSize ba = 0 then (Inl Div_by_zero, ba)
      else
        let npos = m_position ba mod m_baseSize ba in
        case node_size (m_nodes ba) (m_cur ba) of
          None \<Rightarrow> (Inl Null_deref, ba)
        | Some s \<Rightarrow> read_loop npos (s - npos) sz ba)"

text \<open>
  The positioned read. It works on a copy of \<open>m_cur\<close>, which it does not move to \<open>position\<close>.
\<close>

function read_at_loop ::
  "byte list list \<Rightarrow> nat option \<Rightarrow> nat \<Rightarrow> nat \<Rightarrow> nat \<Rightarrow> ba_error + byte list" where
  "read_at_loop nodes cur npos ncap sz =
     (if sz = 0 then Inr []
      else case cur of
        None \<Rightarrow> Inl Null_deref
      | Some i \<Rightarrow>
          if length nodes \<le> i then Inl Null_deref
          else if sz \<le> ncap then Inr (take sz (drop npos (nodes ! i)))
          else case node_size nodes (node_next nodes i) of
                 None \<Rightarrow> Inl Null_deref
               | Some s \<Rightarrow>
                   (case read_at_loop nodes (node_next nodes i) 0 s (sz - ncap) of
                      Inl e \<Rightarrow> Inl e
                    | Inr bs \<Rightarrow> Inr (take ncap (drop npos (nodes ! i)) @ bs)))"
  by pat_completeness auto
termination
  by (relation "measure (\<lambda>(nodes, cur, npos, ncap, sz).
        case cur of None \<Rightarrow> 0 | Some i \<Rightarrow> length nodes - i)")
    (auto simp: node_next_def split: if_splits option.splits)

definition read_at :: "nat \<Rightarrow> nat \<Rightarrow> bytearray \<Rightarrow> ba_error + byte list" where
  "read_at sz position ba =
     (if sub64 (m_size ba) position < sz then Inl (Out_of_range ''not enough len'')
      else if m_baseSize ba = 0 then Inl Div_by_zero
      else
        let npos = position mod m_baseSize ba in
        case node_size (m_nodes ba) (m_cur ba) of
          None \<Rightarrow> Inl Null_deref
        | Some s \<Rightarrow> read_at_loop (m_nodes ba) (m_cur ba) npos (s - npos) sz)"

definition ba_toString :: "bytearray \<Rightarrow> ba_error + byte list" where
  "ba_toString ba =
     (if getReadSize ba = 0 then Inr [] else read_at (getReadSize ba) (m_position ba) ba)"

text \<open>\<open>toHexString\<close>: two hex digits and a blank per byte, a newline before every 32nd.\<close>

definition hex_digit :: "nat \<Rightarrow> char" where
  "hex_digit d = ''0123456789abcdef'' ! d"

fun hex_dump :: "nat \<Rightarrow> byte list \<Rightarrow> string" where
  "hex_dump i [] = []"
| "hex_dump i (b # bs) =
     (if 0 < i \<and> i mod 32 = 0 then [CHR 0x0A] else [])
     @ [hex_digit (unat b div 16), hex_digit (unat b mod 16), CHR '' ''] @ hex_dump (Suc i) bs"

definition toHexString :: "bytearray \<Rightarrow> ba_error + string" where
  "toHexString ba = map_sum id (hex_dump 0) (ba_toString ba)"

section \<open>Scatter and gather buffers\<close>

text \<open>An \<open>iovec\<close>: the node, the offset in it, the length.\<close>

record iovec =
  iov_node :: nat
  iov_off :: nat
  iov_len :: nat

function iov_loop ::
  "byte list list \<Rightarrow> nat option \<Rightarrow> nat \<Rightarrow> nat \<Rightarrow> nat \<Rightarrow> ba_error + iovec list" where
  "iov_loop nodes cur npos ncap len =
     (if len = 0 then Inr []
      else case cur of
        None \<Rightarrow> Inl Null_deref
      | Some i \<Rightarrow>
          if length nodes \<le> i then Inl Null_deref
          else if len \<le> ncap then Inr [\<lparr>iov_node = i, iov_off = npos, iov_len = len\<rparr>]
          else case node_size nodes (node_next nodes i) of
                 None \<Rightarrow> Inl Null_deref
               | Some s \<Rightarrow>
                   map_sum id (Cons \<lparr>iov_node = i, iov_off = npos, iov_len = ncap\<rparr>)
                     (iov_loop nodes (node_next nodes i) 0 s (len - ncap)))"
  by pat_completeness auto
termination
  by (relation "measure (\<lambda>(nodes, cur, npos, ncap, len).
        case cur of None \<Rightarrow> 0 | Some i \<Rightarrow> length nodes - i)")
    (auto simp: node_next_def split: if_splits option.splits)

definition getReadBuffers :: "nat \<Rightarrow> bytearray \<Rightarrow> ba_error + (nat \<times> iovec list)" where
  "getReadBuffers len ba =
     (let len = (if getReadSize ba < len then getReadSize ba else len) in
      if len = 0 then Inr (0, [])
      else if m_baseSize ba = 0 then Inl Div_by_zero
      else
        let npos = m_position ba mod m_baseSize ba in
        case node_size (m_nodes ba) (m_cur ba) of
          None \<Rightarrow> Inl Null_deref
        | Some s \<Rightarrow>
            map_sum id (Pair len) (iov_loop (m_nodes ba) (m_cur ba) npos (s - npos) len))"

fun walk_next :: "byte list list \<Rightarrow> nat option \<Rightarrow> nat \<Rightarrow> ba_error + nat option" where
  "walk_next nodes cur 0 = Inr cur"
| "walk_next nodes cur (Suc c) =
     (case cur of None \<Rightarrow> Inl Null_deref | Some i \<Rightarrow> walk_next nodes (node_next nodes i) c)"

definition getReadBuffers_at ::
  "nat \<Rightarrow> nat \<Rightarrow> bytearray \<Rightarrow> ba_error + (nat \<times> iovec list)" where
  "getReadBuffers_at len position ba =
     (let len = (if getReadSize ba < len then getReadSize ba else len) in
      if len = 0 then Inr (0, [])
      else if m_baseSize ba = 0 then Inl Div_by_zero
      else
        let npos = position mod m_baseSize ba;
            count = position div m_baseSize ba
        in case walk_next (m_nodes ba) (Some 0) count of
             Inl e \<Rightarrow> Inl e
           | Inr cur \<Rightarrow>
               (case node_size (m_nodes ba) cur of
                  None \<Rightarrow> Inl Null_deref
                | Some s \<Rightarrow>
                    map_sum id (Pair len) (iov_loop (m_nodes ba) cur npos (s - npos) len)))"

definition getWriteBuffers :: "nat \<Rightarrow> (nat \<times> iovec list) ba_prog" where
  "getWriteBuffers len ba =
     (if len = 0 then (Inr (0, []), ba)
      else case addCapacity len ba of
        (Inl e, ba1) \<Rightarrow> (Inl e, ba1)
      | (Inr _, ba1) \<Rightarrow>
          if m_baseSize ba1 = 0 then (Inl Div_by_zero, ba1)
          else
            let npos = m_position ba1 mod m_baseSize ba1 in
            case node_size (m_nodes ba1) (m_cur ba1) of
              None \<Rightarrow> (Inl Null_deref, ba1)
            | Some s \<Rightarrow>
                (map_sum id (Pair len)
                   (iov_loop (m_nodes ba1) (m_cur ba1) npos (s - npos) len), ba1))"

section \<open>Files\<close>

text \<open>
  \<open>writeToFile\<close>: whether the file opens is an argument, the bytes written are the second
  component. The arithmetic is the code's, on signed 64-bit values.
\<close>

function wtf_loop ::
  "byte list list \<Rightarrow> nat \<Rightarrow> nat option \<Rightarrow> int \<Rightarrow> int \<Rightarrow> (ba_error + bool) \<times> byte list" where
  "wtf_loop nodes base cur pos read_size =
     (if read_size \<le> 0 then (Inr True, [])
      else case cur of
        None \<Rightarrow> (Inl Null_deref, [])
      | Some i \<Rightarrow>
          if length nodes \<le> i then (Inl Null_deref, [])
          else
            let diff = pos mod int base;
                len = (if int base < read_size then int base else read_size) - diff
            in if len < 0 then (Inl Bad_length, [])
               else
                 (case wtf_loop nodes base (node_next nodes i) (pos + len) (read_size - len) of
                    (r, bs) \<Rightarrow> (r, take (nat len) (drop (nat diff) (nodes ! i)) @ bs)))"
  by pat_completeness auto
termination
  by (relation "measure (\<lambda>(nodes, base, cur, pos, read_size).
        case cur of None \<Rightarrow> 0 | Some i \<Rightarrow> length nodes - i)")
    (auto simp: node_next_def split: if_splits option.splits)

definition writeToFile :: "bool \<Rightarrow> bytearray \<Rightarrow> (ba_error + bool) \<times> byte list" where
  "writeToFile opens ba =
     (if \<not> opens then (Inr False, [])
      else if 0 < getReadSize ba \<and> m_baseSize ba = 0 then (Inl Div_by_zero, [])
      else wtf_loop (m_nodes ba) (m_baseSize ba) (m_cur ba) (int (m_position ba))
             (int (getReadSize ba)))"

text \<open>
  \<open>readFromFile\<close>: the file's bytes, or \<open>None\<close> when it does not open. A read of \<open>m_baseSize\<close>
  bytes hits the end of the file exactly when fewer are left.
\<close>

function rff_loop :: "byte list \<Rightarrow> bool ba_prog" where
  "rff_loop file ba =
     (if m_baseSize ba = 0 then (Inl Diverges, ba)
      else
        let chunk = take (m_baseSize ba) file in
        case ba_write chunk ba of
          (Inl e, ba') \<Rightarrow> (Inl e, ba')
        | (Inr _, ba') \<Rightarrow>
            if length chunk < m_baseSize ba then (Inr True, ba')
            else rff_loop (drop (m_baseSize ba) file) ba')"
  by pat_completeness auto
termination
  by (relation "measure (\<lambda>(file, ba). length file)") auto

definition readFromFile :: "byte list option \<Rightarrow> bool ba_prog" where
  "readFromFile file ba = (case file of None \<Rightarrow> (Inr False, ba) | Some bs \<Rightarrow> rff_loop bs ba)"

section \<open>Fixed-width integers\<close>

text \<open>
  \<open>host\<close> is \<open>SYLAR_BYTE_ORDER\<close>. A word stands for the signed type of its width as well as for
  the unsigned one: the two have the same bytes, and \<open>byteswap\<close> converts through the unsigned.
\<close>

definition to_order :: "endian \<Rightarrow> bytearray \<Rightarrow> 'a::len word \<Rightarrow> 'a word" where
  "to_order host ba v = (if m_endian ba \<noteq> host then byteswap v else v)"

definition writeFint8 :: "8 word \<Rightarrow> unit ba_prog" where
  "writeFint8 v = ba_write [v]"

definition writeFuint8 :: "8 word \<Rightarrow> unit ba_prog" where
  "writeFuint8 v = ba_write [v]"

definition writeFint16 :: "endian \<Rightarrow> 16 word \<Rightarrow> unit ba_prog" where
  "writeFint16 host v ba = ba_write (mem_bytes host (to_order host ba v)) ba"

definition writeFuint16 :: "endian \<Rightarrow> 16 word \<Rightarrow> unit ba_prog" where
  "writeFuint16 host v ba = ba_write (mem_bytes host (to_order host ba v)) ba"

definition writeFint32 :: "endian \<Rightarrow> 32 word \<Rightarrow> unit ba_prog" where
  "writeFint32 host v ba = ba_write (mem_bytes host (to_order host ba v)) ba"

definition writeFuint32 :: "endian \<Rightarrow> 32 word \<Rightarrow> unit ba_prog" where
  "writeFuint32 host v ba = ba_write (mem_bytes host (to_order host ba v)) ba"

definition writeFint64 :: "endian \<Rightarrow> 64 word \<Rightarrow> unit ba_prog" where
  "writeFint64 host v ba = ba_write (mem_bytes host (to_order host ba v)) ba"

definition writeFuint64 :: "endian \<Rightarrow> 64 word \<Rightarrow> unit ba_prog" where
  "writeFuint64 host v ba = ba_write (mem_bytes host (to_order host ba v)) ba"

definition readFint8 :: "8 word ba_prog" where
  "readFint8 = pbind (ba_read 1) (\<lambda>bs. preturn (of_le_bytes bs))"

definition readFuint8 :: "8 word ba_prog" where
  "readFuint8 = pbind (ba_read 1) (\<lambda>bs. preturn (of_le_bytes bs))"

text \<open>The macro \<open>XX(type)\<close>: read the variable's bytes, swap unless the orders agree.\<close>

definition read_XX :: "endian \<Rightarrow> 'a::len word ba_prog" where
  "read_XX host ba =
     pbind (ba_read (LENGTH('a) div 8))
       (\<lambda>bs. preturn (let v = of_mem_bytes host bs
                       in if m_endian ba = host then v else byteswap v)) ba"

definition readFint16 :: "endian \<Rightarrow> 16 word ba_prog" where
  "readFint16 host = read_XX host"

definition readFuint16 :: "endian \<Rightarrow> 16 word ba_prog" where
  "readFuint16 host = read_XX host"

definition readFint32 :: "endian \<Rightarrow> 32 word ba_prog" where
  "readFint32 host = read_XX host"

definition readFuint32 :: "endian \<Rightarrow> 32 word ba_prog" where
  "readFuint32 host = read_XX host"

definition readFint64 :: "endian \<Rightarrow> 64 word ba_prog" where
  "readFint64 host = read_XX host"

definition readFuint64 :: "endian \<Rightarrow> 64 word ba_prog" where
  "readFuint64 host = read_XX host"

text \<open>A \<open>float\<close> and a \<open>double\<close> are given by their bit patterns, which \<open>memcpy\<close> copies.\<close>

definition writeFloat :: "endian \<Rightarrow> 32 word \<Rightarrow> unit ba_prog" where
  "writeFloat host bits = writeFuint32 host bits"

definition writeDouble :: "endian \<Rightarrow> 64 word \<Rightarrow> unit ba_prog" where
  "writeDouble host bits = writeFuint64 host bits"

definition readFloat :: "endian \<Rightarrow> 32 word ba_prog" where
  "readFloat host = readFuint32 host"

definition readDouble :: "endian \<Rightarrow> 64 word ba_prog" where
  "readDouble host = readFuint64 host"

section \<open>Variable-length integers\<close>

text \<open>
  Zigzag coding. The code negates and doubles in the signed type, which overflows for the
  smallest value (\<open>-v\<close>) and for large positive ones (\<open>v * 2\<close>); the model is the wrap-around
  that two's complement machines give.
\<close>

definition EncodeZigzag32 :: "32 word \<Rightarrow> 32 word" where
  "EncodeZigzag32 v = (if sint v < 0 then (- v) * 2 - 1 else v * 2)"

definition EncodeZigzag64 :: "64 word \<Rightarrow> 64 word" where
  "EncodeZigzag64 v = (if sint v < 0 then (- v) * 2 - 1 else v * 2)"

definition DecodeZigzag32 :: "32 word \<Rightarrow> 32 word" where
  "DecodeZigzag32 v = drop_bit 1 v XOR - (v AND 1)"

definition DecodeZigzag64 :: "64 word \<Rightarrow> 64 word" where
  "DecodeZigzag64 v = drop_bit 1 v XOR - (v AND 1)"

lemma drop_bit_7_less:
  "(0x80 :: 'a::len word) \<le> v \<Longrightarrow> (0x80 :: 'a word) \<noteq> 0 \<Longrightarrow> unat (drop_bit 7 v) < unat v"
proof -
  assume "(0x80 :: 'a word) \<le> v" "(0x80 :: 'a word) \<noteq> 0"
  then have "v \<noteq> 0" by auto
  then have "0 < unat v" by (simp add: unat_gt_0)
  moreover have "unat (drop_bit 7 v) = unat v div 2 ^ 7"
    unfolding unat_drop_bit_eq by (rule drop_bit_eq_div)
  ultimately show ?thesis by simp
qed

text \<open>The bytes \<open>tmp[0..i)\<close> that the loops of \<open>writeUint32\<close> and \<open>writeUint64\<close> fill.\<close>

function varint32 :: "32 word \<Rightarrow> byte list" where
  "varint32 v =
     (if 0x80 \<le> v then (ucast (v AND 0x7F) OR 0x80) # varint32 (drop_bit 7 v) else [ucast v])"
  by pat_completeness auto
termination
  by (relation "measure unat") (auto simp: drop_bit_7_less)

function varint64 :: "64 word \<Rightarrow> byte list" where
  "varint64 v =
     (if 0x80 \<le> v then (ucast (v AND 0x7F) OR 0x80) # varint64 (drop_bit 7 v) else [ucast v])"
  by pat_completeness auto
termination
  by (relation "measure unat") (auto simp: drop_bit_7_less)

definition writeUint32 :: "32 word \<Rightarrow> unit ba_prog" where
  "writeUint32 v = ba_write (varint32 v)"

definition writeInt32 :: "32 word \<Rightarrow> unit ba_prog" where
  "writeInt32 v = writeUint32 (EncodeZigzag32 v)"

definition writeUint64 :: "64 word \<Rightarrow> unit ba_prog" where
  "writeUint64 v = ba_write (varint64 v)"

definition writeInt64 :: "64 word \<Rightarrow> unit ba_prog" where
  "writeInt64 v = writeUint64 (EncodeZigzag64 v)"

function readUint32_loop :: "nat \<Rightarrow> 32 word \<Rightarrow> 32 word ba_prog" where
  "readUint32_loop i result ba =
     (if 32 \<le> i then (Inr result, ba)
      else case readFuint8 ba of
        (Inl e, ba') \<Rightarrow> (Inl e, ba')
      | (Inr b, ba') \<Rightarrow>
          if b < 0x80 then (Inr (result OR push_bit i (ucast b)), ba')
          else readUint32_loop (i + 7) (result OR push_bit i (ucast (b AND 0x7F))) ba')"
  by pat_completeness auto
termination
  by (relation "measure (\<lambda>(i, result, ba). 32 - i)") auto

definition readUint32 :: "32 word ba_prog" where
  "readUint32 = readUint32_loop 0 0"

definition readInt32 :: "32 word ba_prog" where
  "readInt32 = pbind readUint32 (\<lambda>v. preturn (DecodeZigzag32 v))"

function readUint64_loop :: "nat \<Rightarrow> 64 word \<Rightarrow> 64 word ba_prog" where
  "readUint64_loop i result ba =
     (if 64 \<le> i then (Inr result, ba)
      else case readFuint8 ba of
        (Inl e, ba') \<Rightarrow> (Inl e, ba')
      | (Inr b, ba') \<Rightarrow>
          if b < 0x80 then (Inr (result OR push_bit i (ucast b)), ba')
          else readUint64_loop (i + 7) (result OR push_bit i (ucast (b AND 0x7F))) ba')"
  by pat_completeness auto
termination
  by (relation "measure (\<lambda>(i, result, ba). 64 - i)") auto

definition readUint64 :: "64 word ba_prog" where
  "readUint64 = readUint64_loop 0 0"

definition readInt64 :: "64 word ba_prog" where
  "readInt64 = pbind readUint64 (\<lambda>v. preturn (DecodeZigzag64 v))"

section \<open>Strings\<close>

text \<open>
  A \<open>std::string\<close> is its list of bytes. The length converts to the width of the prefix. The
  resize of the buffer is taken to succeed.
\<close>

definition writeStringF16 :: "endian \<Rightarrow> byte list \<Rightarrow> unit ba_prog" where
  "writeStringF16 host v = pthen (writeFuint16 host (of_nat (length v))) (ba_write v)"

definition writeStringF32 :: "endian \<Rightarrow> byte list \<Rightarrow> unit ba_prog" where
  "writeStringF32 host v = pthen (writeFuint32 host (of_nat (length v))) (ba_write v)"

definition writeStringF64 :: "endian \<Rightarrow> byte list \<Rightarrow> unit ba_prog" where
  "writeStringF64 host v = pthen (writeFuint64 host (of_nat (length v))) (ba_write v)"

definition writeStringVint :: "byte list \<Rightarrow> unit ba_prog" where
  "writeStringVint v = pthen (writeUint64 (of_nat (length v))) (ba_write v)"

definition writeStringWithoutLength :: "byte list \<Rightarrow> unit ba_prog" where
  "writeStringWithoutLength v = ba_write v"

definition readStringF16 :: "endian \<Rightarrow> byte list ba_prog" where
  "readStringF16 host = pbind (readFuint16 host) (\<lambda>len. ba_read (unat len))"

definition readStringF32 :: "endian \<Rightarrow> byte list ba_prog" where
  "readStringF32 host = pbind (readFuint32 host) (\<lambda>len. ba_read (unat len))"

definition readStringF64 :: "endian \<Rightarrow> byte list ba_prog" where
  "readStringF64 host = pbind (readFuint64 host) (\<lambda>len. ba_read (unat len))"

definition readStringVint :: "byte list ba_prog" where
  "readStringVint = pbind readUint64 (\<lambda>len. ba_read (unat len))"

text \<open>The loops unfold by name only.\<close>

declare write_loop.simps [simp del] read_loop.simps [simp del] read_at_loop.simps [simp del]
  iov_loop.simps [simp del] wtf_loop.simps [simp del] rff_loop.simps [simp del]
  varint32.simps [simp del] varint64.simps [simp del]
  readUint32_loop.simps [simp del] readUint64_loop.simps [simp del]

end
