(* ===== verification/ByteArray_Refine.thy ===== *)
theory ByteArray_Refine
  imports ByteArray
begin

text \<open>
  The buffer against its specification. A well-formed buffer (\<open>ba_wf\<close>) is seen as its
  \<open>content\<close>, the bytes below \<open>m_size\<close>, and the position; \<open>unread\<close> is what lies between the two.
  A write splices bytes into the content at the position, a read takes them from \<open>unread\<close>,
  and the pointer \<open>m_cur\<close> is always the one the position determines.
\<close>

section \<open>Well-formedness and abstraction\<close>

definition cursor :: "nat \<Rightarrow> nat \<Rightarrow> nat \<Rightarrow> nat option" where
  "cursor b n p = (if p < b * n then Some (p div b) else None)"

definition ba_wf :: "bytearray \<Rightarrow> bool" where
  "ba_wf ba \<longleftrightarrow>
     0 < m_baseSize ba \<and> uniform (m_baseSize ba) (m_nodes ba) \<and> m_nodes ba \<noteq> [] \<and>
     m_capacity ba = m_baseSize ba * length (m_nodes ba) \<and>
     m_position ba \<le> m_size ba \<and> m_size ba \<le> m_capacity ba \<and>
     m_cur ba = cursor (m_baseSize ba) (length (m_nodes ba)) (m_position ba)"

definition content :: "bytearray \<Rightarrow> byte list" where
  "content ba = take (m_size ba) (concat (m_nodes ba))"

definition unread :: "bytearray \<Rightarrow> byte list" where
  "unread ba = drop (m_position ba) (content ba)"

text \<open>The abstract write: overwrite from \<open>p\<close>, extending the sequence where it ends.\<close>

definition splice :: "byte list \<Rightarrow> nat \<Rightarrow> byte list \<Rightarrow> byte list" where
  "splice c p bs = take p c @ bs @ drop (p + length bs) c"

text \<open>The position moved on, the pointer with it.\<close>

definition advance :: "nat \<Rightarrow> bytearray \<Rightarrow> bytearray" where
  "advance k ba =
     ba\<lparr> m_position := m_position ba + k,
         m_cur := cursor (m_baseSize ba) (length (m_nodes ba)) (m_position ba + k) \<rparr>"

lemma ba_wfD:
  assumes "ba_wf ba"
  shows "0 < m_baseSize ba" "uniform (m_baseSize ba) (m_nodes ba)" "m_nodes ba \<noteq> []"
    "m_capacity ba = m_baseSize ba * length (m_nodes ba)"
    "m_position ba \<le> m_size ba" "m_size ba \<le> m_capacity ba"
    "m_cur ba = cursor (m_baseSize ba) (length (m_nodes ba)) (m_position ba)"
  using assms by (simp_all add: ba_wf_def)

lemma length_flat: "ba_wf ba \<Longrightarrow> length (concat (m_nodes ba)) = m_capacity ba"
  by (simp add: ba_wf_def length_concat_uniform)

lemma length_content: "ba_wf ba \<Longrightarrow> length (content ba) = m_size ba"
  by (simp add: content_def length_flat min_absorb2 ba_wfD(6))

lemma length_unread: "ba_wf ba \<Longrightarrow> length (unread ba) = m_size ba - m_position ba"
  by (simp add: unread_def length_content)

lemma getReadSize_wf: "ba_wf ba \<Longrightarrow> getReadSize ba = length (unread ba)"
  by (simp add: getReadSize_def length_unread ba_wfD)

lemma getCapacity_wf: "ba_wf ba \<Longrightarrow> getCapacity ba = m_capacity ba - m_position ba"
  using ba_wfD(5,6) [of ba] by (simp add: getCapacity_def)

section \<open>The pointer and the position\<close>

lemma cursor_in [simp]: "j < b \<Longrightarrow> i < n \<Longrightarrow> cursor b n (i * b + j) = Some i"
proof -
  assume j: "j < b" and i: "i < n"
  have "Suc i * b \<le> n * b" using i by (intro mult_le_mono1) simp
  then show ?thesis using j by (simp add: cursor_def mult.commute)
qed

lemma cursor_block_end:
  "0 < b \<Longrightarrow> cursor b n (i * b + b) = (if Suc i < n then Some (Suc i) else None)"
proof -
  assume b: "0 < b"
  have "i * b + b < b * n \<longleftrightarrow> Suc i < n"
    using b by (metis add.commute mult.commute mult_Suc mult_less_cancel2)
  moreover have "(i * b + b) div b = Suc i" using b by simp
  ultimately show ?thesis by (simp add: cursor_def)
qed

lemma cursor_SomeD:
  assumes "cursor b n p = Some i" "0 < b"
  shows "i = p div b" "i < n" "p = i * b + p mod b" "p mod b < b"
  using assms by (auto simp: cursor_def less_mult_imp_div_less mult.commute split: if_splits)

lemma cursor_None_iff: "cursor b n p = None \<longleftrightarrow> b * n \<le> p"
  by (simp add: cursor_def not_less)

lemma next_block_exists:
  assumes "i * b + npos + len \<le> b * n" "b - npos < len" "npos < b" "i < n"
  shows "Suc i < n"
proof (rule ccontr)
  assume "\<not> Suc i < n"
  then have "n = Suc i" using assms(4) by simp
  then have "b * n = i * b + b" by simp
  then show False using assms by linarith
qed

lemma node_next_cursor:
  "0 < b \<Longrightarrow> length nodes = n \<Longrightarrow> node_next nodes i = cursor b n (i * b + b)"
  by (simp add: cursor_block_end node_next_def)

section \<open>The loops\<close>

lemma write_loop_spec:
  assumes "0 < b" "uniform b (m_nodes ba)" "m_cur ba = Some i" "i < length (m_nodes ba)"
    and "npos < b" "buf \<noteq> []" "i * b + npos + length buf \<le> b * length (m_nodes ba)"
  shows "\<exists>nodes. write_loop npos (b - npos) buf ba =
      (Inr (), ba\<lparr> m_nodes := nodes,
                  m_cur := cursor b (length (m_nodes ba)) (i * b + npos + length buf),
                  m_position := m_position ba + length buf \<rparr>) \<and>
    uniform b nodes \<and> length nodes = length (m_nodes ba) \<and>
    concat nodes = blit (concat (m_nodes ba)) (i * b + npos) buf"
  using assms(2-)
proof (induction "length buf" arbitrary: npos buf ba i rule: less_induct)
  case less
  let ?ns = "m_nodes ba"
  have len_i: "length (?ns ! i) = b" using less.prems by (simp add: uniform_nth)
  show ?case
  proof (cases "length buf \<le> b - npos")
    case True
    let ?ns' = "?ns[i := blit (?ns ! i) npos buf]"
    have cur: "(if length (?ns ! i) = npos + length buf then node_next ?ns i else Some i) =
        cursor b (length ?ns) (i * b + npos + length buf)"
    proof (cases "npos + length buf = b")
      case True
      then show ?thesis using assms(1) len_i
        by (simp add: node_next_cursor [of b _ "length ?ns"] add.assoc)
    next
      case False
      with \<open>length buf \<le> b - npos\<close> less.prems have "npos + length buf < b" by linarith
      then show ?thesis using less.prems len_i False by (simp add: add.assoc)
    qed
    have "write_loop npos (b - npos) buf ba =
        (Inr (), ba\<lparr> m_nodes := ?ns', m_cur := cursor b (length ?ns) (i * b + npos + length buf),
                    m_position := m_position ba + length buf \<rparr>)"
      using less.prems True by (subst write_loop.simps) (simp add: cur)
    moreover have "uniform b ?ns'"
      using less.prems True len_i by (intro uniform_update) auto
    moreover have "concat ?ns' = blit (concat ?ns) (i * b + npos) buf"
      using less.prems True by (intro concat_update_blit) auto
    ultimately show ?thesis by (intro exI [of _ ?ns']) simp
  next
    case False
    let ?k = "b - npos"
    let ?ns1 = "?ns[i := blit (?ns ! i) npos (take ?k buf)]"
    let ?ba1 = "ba\<lparr> m_nodes := ?ns1, m_cur := node_next ?ns i, m_position := m_position ba + ?k \<rparr>"
    have Suc_i: "Suc i < length ?ns"
      using less.prems False by (intro next_block_exists [of i b npos "length buf"]) auto
    have u1: "uniform b ?ns1"
      using less.prems False len_i by (intro uniform_update) auto
    have c1: "concat ?ns1 = blit (concat ?ns) (i * b + npos) (take ?k buf)"
      using less.prems False by (intro concat_update_blit) auto
    have step: "write_loop npos ?k buf ba = write_loop 0 (b - 0) (drop ?k buf) ?ba1"
      using less.prems False Suc_i u1
      by (subst write_loop.simps) (simp add: node_size_def node_next_def uniform_nth)
    have pos: "Suc i * b + 0 + length (drop ?k buf) = i * b + npos + length buf"
      using less.prems False by simp
    have "\<exists>nodes. write_loop 0 (b - 0) (drop ?k buf) ?ba1 =
        (Inr (), ?ba1\<lparr> m_nodes := nodes,
           m_cur := cursor b (length (m_nodes ?ba1)) (Suc i * b + 0 + length (drop ?k buf)),
           m_position := m_position ?ba1 + length (drop ?k buf) \<rparr>) \<and>
      uniform b nodes \<and> length nodes = length (m_nodes ?ba1) \<and>
      concat nodes = blit (concat (m_nodes ?ba1)) (Suc i * b + 0) (drop ?k buf)"
      using less.prems(6) False less.prems(4) u1 Suc_i pos assms(1)
      by (intro less.hyps) (simp_all add: node_next_def)
    then obtain nodes where nodes:
      "write_loop 0 (b - 0) (drop ?k buf) ?ba1 =
        (Inr (), ?ba1\<lparr> m_nodes := nodes,
           m_cur := cursor b (length ?ns) (i * b + npos + length buf),
           m_position := m_position ba + ?k + length (drop ?k buf) \<rparr>)"
      "uniform b nodes" "length nodes = length ?ns"
      "concat nodes = blit (concat ?ns1) (Suc i * b) (drop ?k buf)"
      unfolding pos by auto
    have "blit (concat ?ns1) (Suc i * b) (drop ?k buf) = blit (concat ?ns) (i * b + npos) buf"
      using blit_blit_append [of "i * b + npos" "take ?k buf" "drop ?k buf" "concat ?ns"]
        less.prems False by (simp add: c1 length_concat_uniform ac_simps)
    with nodes step False show ?thesis by (intro exI [of _ nodes]) simp
  qed
qed

lemma read_loop_spec:
  assumes "0 < b" "uniform b (m_nodes ba)" "m_cur ba = Some i" "i < length (m_nodes ba)"
    and "npos < b" "0 < k" "i * b + npos + k \<le> b * length (m_nodes ba)"
  shows "read_loop npos (b - npos) k ba =
      (Inr (take k (drop (i * b + npos) (concat (m_nodes ba)))),
       ba\<lparr> m_cur := cursor b (length (m_nodes ba)) (i * b + npos + k),
           m_position := m_position ba + k \<rparr>)"
  using assms(2-)
proof (induction k arbitrary: npos ba i rule: less_induct)
  case (less k)
  let ?ns = "m_nodes ba" and ?c = "b - npos"
  have len_i: "length (?ns ! i) = b" using less.prems by (simp add: uniform_nth)
  show ?case
  proof (cases "k \<le> ?c")
    case True
    have cur: "(if length (?ns ! i) = npos + k then node_next ?ns i else Some i) =
        cursor b (length ?ns) (i * b + npos + k)"
    proof (cases "npos + k = b")
      case True
      then show ?thesis using assms(1) len_i
        by (simp add: node_next_cursor [of b _ "length ?ns"] add.assoc)
    next
      case False
      with \<open>k \<le> ?c\<close> less.prems have "npos + k < b" by linarith
      then show ?thesis using less.prems len_i False by (simp add: add.assoc)
    qed
    then show ?thesis using less.prems True
      by (subst read_loop.simps) (simp add: take_drop_block [of b ?ns i npos k])
  next
    case False
    let ?ba1 = "ba\<lparr> m_cur := node_next ?ns i, m_position := m_position ba + ?c \<rparr>"
    have Suc_i: "Suc i < length ?ns"
      using less.prems False by (intro next_block_exists [of i b npos k]) auto
    have rest: "read_loop 0 (b - 0) (k - ?c) ?ba1 =
      (Inr (take (k - ?c) (drop (Suc i * b + 0) (concat (m_nodes ?ba1)))),
       ?ba1\<lparr> m_cur := cursor b (length (m_nodes ?ba1)) (Suc i * b + 0 + (k - ?c)),
             m_position := m_position ?ba1 + (k - ?c) \<rparr>)"
      using less.prems False Suc_i assms(1) by (intro less.IH) (auto simp: node_next_def)
    have pos: "i * b + npos + ?c = Suc i * b" "Suc i * b + (k - ?c) = i * b + npos + k"
      using less.prems False by auto
    have "take ?c (drop npos (?ns ! i)) @ take (k - ?c) (drop (Suc i * b) (concat ?ns))
        = take k (drop (i * b + npos) (concat ?ns))"
    proof -
      let ?rest = "drop (i * b + npos) (concat ?ns)"
      have "take k ?rest = take ?c ?rest @ take (k - ?c) (drop ?c ?rest)"
        using take_add [of ?c "k - ?c" ?rest] False by simp
      moreover have "drop ?c ?rest = drop (Suc i * b) (concat ?ns)"
        using pos(1) by (simp add: drop_drop add.commute)
      ultimately show ?thesis
        using take_drop_block [of b ?ns i npos ?c] less.prems by simp
    qed
    note bytes = this
    have len_next: "length (?ns ! Suc i) = b" using less.prems(1) Suc_i by (rule uniform_nth)
    have k: "k \<noteq> 0" "\<not> length ?ns \<le> i" using less.prems by auto
    have "read_loop npos ?c k ba =
      (case read_loop 0 (b - 0) (k - ?c) ?ba1 of
         (Inl e, ba'') \<Rightarrow> (Inl e, ba'')
       | (Inr bs, ba'') \<Rightarrow> (Inr (take ?c (drop npos (?ns ! i)) @ bs), ba''))"
      using k False Suc_i less.prems(2) len_next
      by (subst read_loop.simps) (simp add: node_size_def node_next_def Let_def)
    also have "\<dots> = (Inr (take k (drop (i * b + npos) (concat ?ns))),
        ba\<lparr> m_cur := cursor b (length ?ns) (i * b + npos + k), m_position := m_position ba + k \<rparr>)"
      using rest bytes pos(2) False by simp
    finally show ?thesis .
  qed
qed

section \<open>Growing\<close>

text \<open>The buffer with blocks added at the end: nothing that can be observed changes.\<close>

definition grown :: "bytearray \<Rightarrow> bytearray \<Rightarrow> bool" where
  "grown ba ba1 \<longleftrightarrow>
     (\<exists>fresh. m_nodes ba1 = m_nodes ba @ fresh) \<and> m_baseSize ba1 = m_baseSize ba \<and>
     m_position ba1 = m_position ba \<and> m_size ba1 = m_size ba \<and> m_endian ba1 = m_endian ba"

lemma grown_refl [simp]: "grown ba ba"
  by (simp add: grown_def)

lemma content_grown: "ba_wf ba \<Longrightarrow> grown ba ba1 \<Longrightarrow> content ba1 = content ba"
  using ba_wfD(6) [of ba] by (auto simp: grown_def content_def length_flat)

lemma ceil_div_mult: "0 < (b::nat) \<Longrightarrow> k \<le> (k + b - 1) div b * b"
proof -
  assume b: "0 < b"
  have "(k + b - 1) div b * b + (k + b - 1) mod b = k + b - 1" by simp
  moreover have "(k + b - 1) mod b < b" using b by simp
  ultimately show ?thesis using b by linarith
qed

lemma addCapacity_spec:
  assumes wf: "ba_wf ba"
  shows "\<exists>ba1. addCapacity k ba = (Inr (), ba1) \<and> ba_wf ba1 \<and> grown ba ba1 \<and>
    m_position ba + k \<le> m_capacity ba1"
proof (cases "k \<le> getCapacity ba")
  case True
  then have "m_position ba + k \<le> m_capacity ba"
    using wf ba_wfD(5,6) [OF wf] by (simp add: getCapacity_wf)
  then show ?thesis using True wf by (simp add: addCapacity_def)
next
  case False
  let ?b = "m_baseSize ba" and ?n = "length (m_nodes ba)" and ?p = "m_position ba"
  let ?count = "(k - getCapacity ba + ?b - 1) div ?b"
  let ?fresh = "map (\<lambda>j. Node_new (heap_bytes ba j) ?b) [?n..<?n + ?count]"
  let ?ba1 = "ba\<lparr> m_nodes := m_nodes ba @ ?fresh, m_capacity := m_capacity ba + ?count * ?b,
                  m_cur := (if getCapacity ba = 0 then Some ?n else m_cur ba) \<rparr>"
  have b: "0 < ?b" using wf by (rule ba_wfD)
  have cap: "getCapacity ba = m_capacity ba - ?p" "?p \<le> m_capacity ba"
    using wf ba_wfD(5,6) [OF wf] by (simp_all add: getCapacity_wf)
  have need: "k - getCapacity ba \<le> ?count * ?b" using b by (rule ceil_div_mult)
  with False have count: "0 < ?count" by (cases "?count = 0") auto
  have run: "addCapacity k ba = (Inr (), ?ba1)"
    using False b by (simp add: addCapacity_def Let_def)
  have "(if getCapacity ba = 0 then Some ?n else m_cur ba) = cursor ?b (?n + ?count) ?p"
    using cap b count ba_wfD(4,7) [OF wf]
    by (auto simp: cursor_def distrib_left simp flip: cap(1) dest!: sym [of "_ * _"])
  moreover have "uniform ?b ?fresh" by (simp add: uniform_def Node_new_def)
  ultimately have "ba_wf ?ba1"
    using wf by (simp add: ba_wf_def distrib_left mult.commute)
  moreover have "?p + k \<le> m_capacity ba + ?count * ?b" using need cap False by linarith
  ultimately show ?thesis using run by (intro exI [of _ ?ba1]) (simp add: grown_def)
qed

section \<open>Writing\<close>

lemma take_blit_splice:
  assumes "p \<le> s" "s \<le> length f" "p + length bs \<le> length f"
  shows "take (if s < p + length bs then p + length bs else s) (blit f p bs) = splice (take s f) p bs"
  using assms by (auto simp: blit_def splice_def min_def take_drop add.commute)

lemma node_size_wf:
  assumes "ba_wf ba" "m_position ba < m_capacity ba"
  shows "node_size (m_nodes ba) (m_cur ba) = Some (m_baseSize ba)"
    and "\<exists>i. m_cur ba = Some i \<and> i < length (m_nodes ba) \<and>
      m_position ba = i * m_baseSize ba + m_position ba mod m_baseSize ba"
proof -
  have "m_cur ba = Some (m_position ba div m_baseSize ba)"
    using assms by (simp add: ba_wf_def cursor_def)
  moreover have "m_position ba div m_baseSize ba < length (m_nodes ba)"
    using assms ba_wfD(1,4) [OF assms(1)] by (simp add: less_mult_imp_div_less mult.commute)
  ultimately show "node_size (m_nodes ba) (m_cur ba) = Some (m_baseSize ba)"
    "\<exists>i. m_cur ba = Some i \<and> i < length (m_nodes ba) \<and>
      m_position ba = i * m_baseSize ba + m_position ba mod m_baseSize ba"
    using ba_wfD(2) [OF assms(1)] by (simp_all add: node_size_def uniform_nth)
qed

lemma ba_write_spec:
  assumes wf: "ba_wf ba"
  shows "\<exists>ba'. ba_write bs ba = (Inr (), ba') \<and> ba_wf ba' \<and>
    content ba' = splice (content ba) (m_position ba) bs \<and>
    m_position ba' = m_position ba + length bs \<and>
    m_endian ba' = m_endian ba \<and> m_baseSize ba' = m_baseSize ba"
proof (cases "bs = []")
  case True
  then show ?thesis using wf by (simp add: ba_write_def splice_def)
next
  case False
  let ?p = "m_position ba" and ?b = "m_baseSize ba"
  obtain ba1 where ba1: "addCapacity (length bs) ba = (Inr (), ba1)" "ba_wf ba1" "grown ba ba1"
    "?p + length bs \<le> m_capacity ba1"
    using addCapacity_spec [OF wf] by blast
  have same: "m_position ba1 = ?p" "m_baseSize ba1 = ?b" "m_size ba1 = m_size ba"
    "m_endian ba1 = m_endian ba"
    using ba1(3) by (auto simp: grown_def)
  have b: "0 < ?b" using wf by (rule ba_wfD)
  let ?ns = "m_nodes ba1"
  have lt: "m_position ba1 < m_capacity ba1" using ba1(4) False same by (cases bs) auto
  obtain i where i: "m_cur ba1 = Some i" "i < length ?ns" "?p = i * ?b + ?p mod ?b"
    using node_size_wf(2) [OF ba1(2) lt] same by auto
  have cap: "m_capacity ba1 = ?b * length ?ns" "uniform ?b ?ns"
    using ba_wfD(2,4) [OF ba1(2)] same by simp_all
  obtain ns where ns: "write_loop (?p mod ?b) (?b - ?p mod ?b) bs ba1 =
      (Inr (), ba1\<lparr> m_nodes := ns, m_cur := cursor ?b (length ?ns) (?p + length bs),
                   m_position := ?p + length bs \<rparr>)"
    "uniform ?b ns" "length ns = length ?ns" "concat ns = blit (concat ?ns) ?p bs"
    using write_loop_spec [OF b cap(2) i(1,2), of "?p mod ?b" bs] ba1(4) cap(1) False b i(3) same
    by auto
  let ?ba' = "ba1\<lparr> m_nodes := ns, m_cur := cursor ?b (length ?ns) (?p + length bs),
                   m_position := ?p + length bs,
                   m_size := (if m_size ba < ?p + length bs then ?p + length bs else m_size ba) \<rparr>"
  have run: "ba_write bs ba = (Inr (), ?ba')"
    using False ba1(1) b same ns(1) node_size_wf(1) [OF ba1(2) lt]
    by (simp add: ba_write_def Let_def)
  have wf': "ba_wf ?ba'"
    using ba1(2,4) ns(2,3) b same cap by (auto simp: ba_wf_def)
  have "content ?ba' = splice (take (m_size ba) (concat ?ns)) ?p bs"
    using take_blit_splice [of ?p "m_size ba" "concat ?ns" bs] ba_wfD(5,6) [OF ba1(2)] ba1(2,4) same
    by (simp add: content_def ns(4) length_flat)
  also have "take (m_size ba) (concat ?ns) = content ba"
    using content_grown [OF wf ba1(3)] same by (simp add: content_def)
  finally show ?thesis using run wf' same by (intro exI [of _ ?ba']) simp
qed

section \<open>Reading and positioning\<close>

lemma advance_simps [simp]:
  "m_baseSize (advance k ba) = m_baseSize ba" "m_size (advance k ba) = m_size ba"
  "m_capacity (advance k ba) = m_capacity ba" "m_endian (advance k ba) = m_endian ba"
  "m_nodes (advance k ba) = m_nodes ba" "m_position (advance k ba) = m_position ba + k"
  "content (advance k ba) = content ba"
  by (simp_all add: advance_def content_def)

lemma advance_advance [simp]: "advance k (advance j ba) = advance (j + k) ba"
  by (simp add: advance_def add.assoc)

lemma ba_wf_advance: "ba_wf ba \<Longrightarrow> k \<le> length (unread ba) \<Longrightarrow> ba_wf (advance k ba)"
  using length_unread [of ba] by (auto simp: ba_wf_def) (simp add: advance_def)

lemma unread_advance [simp]: "unread (advance k ba) = drop k (unread ba)"
  by (simp add: unread_def add.commute)

lemma ba_read_spec:
  assumes wf: "ba_wf ba" and k: "k \<le> length (unread ba)" and "0 < k \<or> m_position ba < m_capacity ba"
  shows "ba_read k ba = (Inr (take k (unread ba)), advance k ba)"
proof -
  let ?p = "m_position ba" and ?b = "m_baseSize ba" and ?ns = "m_nodes ba"
  have sz: "?p + k \<le> m_size ba" "m_size ba \<le> m_capacity ba"
    using k wf ba_wfD(5,6) [OF wf] by (simp_all add: length_unread)
  with assms(3) have lt: "?p < m_capacity ba" by linarith
  have b: "0 < ?b" using wf by (rule ba_wfD)
  obtain i where i: "m_cur ba = Some i" "i < length ?ns" "?p = i * ?b + ?p mod ?b"
    using node_size_wf(2) [OF wf lt] by auto
  have loop: "read_loop (?p mod ?b) (?b - ?p mod ?b) k ba =
      (Inr (take k (drop ?p (concat ?ns))), advance k ba)"
  proof (cases "k = 0")
    case True
    then show ?thesis using ba_wfD(7) [OF wf] by (subst read_loop.simps) (simp add: advance_def)
  next
    case False
    then show ?thesis
      using read_loop_spec [OF b ba_wfD(2) [OF wf] i(1,2), of "?p mod ?b" k] b sz i(3)
        ba_wfD(4) [OF wf] by (simp add: advance_def)
  qed
  have "take k (drop ?p (concat ?ns)) = take k (unread ba)"
    using sz(1) by (simp add: unread_def content_def drop_take min_absorb1)
  then show ?thesis
    using b k loop node_size_wf(1) [OF wf lt] wf
    by (simp add: ba_read_def getReadSize_wf Let_def)
qed

lemma ba_read_too_long:
  "ba_wf ba \<Longrightarrow> length (unread ba) < k \<Longrightarrow>
    ba_read k ba = (Inl (Out_of_range ''not enough len''), ba)"
  by (simp add: ba_read_def getReadSize_wf)

lemma seek_spec:
  assumes "0 < b" "uniform b ns" "ns \<noteq> []" "v \<le> b * length ns"
  shows "seek ns i v = Inr (if v < b * length ns then Some (i + v div b) else None)"
  using assms(2-)
proof (induction ns arbitrary: i v)
  case Nil
  then show ?case by simp
next
  case (Cons nd ns)
  consider "v < b" | "v = b" | "b < v" by linarith
  then show ?case
  proof cases
    case 1
    then show ?thesis using Cons.prems by simp
  next
    case 2
    then show ?thesis using Cons.prems assms(1) by (cases ns) auto
  next
    case 3
    then have "ns \<noteq> []" using Cons.prems by auto
    moreover have "v div b = Suc ((v - b) div b)" using 3 assms(1) by (simp add: le_div_geq)
    ultimately show ?thesis using Cons 3 by (auto simp: less_diff_conv2)
  qed
qed

lemma setPosition_spec:
  assumes wf: "ba_wf ba" and v: "v \<le> m_capacity ba"
  shows "setPosition v ba =
    (Inr (), ba\<lparr> m_position := v, m_size := max (m_size ba) v,
                m_cur := cursor (m_baseSize ba) (length (m_nodes ba)) v \<rparr>)"
  using seek_spec [OF ba_wfD(1-3) [OF wf], of v 0] v ba_wfD(4) [OF wf]
  by (auto simp: setPosition_def Let_def cursor_def max_def)

lemma ba_wf_setPosition:
  assumes "ba_wf ba" "v \<le> m_capacity ba" "setPosition v ba = (r, ba')"
  shows "r = Inr ()" "ba_wf ba'" "m_position ba' = v" "m_endian ba' = m_endian ba"
  using assms by (auto simp: setPosition_spec ba_wf_def)

lemma setPosition_back:
  assumes "ba_wf ba" "v \<le> m_size ba"
  obtains ba' where "setPosition v ba = (Inr (), ba')" "ba_wf ba'" "content ba' = content ba"
    "m_position ba' = v" "m_endian ba' = m_endian ba" "m_size ba' = m_size ba"
    "m_capacity ba' = m_capacity ba" "unread ba' = drop v (content ba)"
  using assms ba_wfD(6) [OF assms(1)]
  by (simp add: setPosition_spec ba_wf_def content_def unread_def max_absorb1)

lemma ba_wf_new: "0 < base \<Longrightarrow> ba_wf (ByteArray_new g base)"
  by (simp add: ba_wf_def ByteArray_new_def Node_new_def cursor_def)

lemma ba_wf_clear: "ba_wf ba \<Longrightarrow> ba_wf (ba_clear ba)"
  by (cases "m_nodes ba") (auto simp: ba_wf_def ba_clear_def cursor_def)

lemma content_clear: "content (ba_clear ba) = []"
  by (simp add: content_def ba_clear_def)

end
