(* ===== verification/SocketStream.thy ===== *)
theory SocketStream
  imports ByteArray_Refine
begin

text \<open>
  From the system calls up to streams: the data path of \<open>Socket\<close> (\<open>src/socket.cc\<close>: send and receive,
  close), \<open>SocketStream\<close> (\<open>src/socket_stream.cc\<close>) with its transfers from and to a byte buffer, and
  the fixed-size transfers of \<open>Stream\<close> (\<open>src/stream.cc\<close>), which call the virtual read and write.
  The system calls are arguments, functions of a state of the system; the type of a byte is
  left open (bytes for a \<open>ByteArray\<close>, characters for text).
\<close>

section \<open>Sockets\<close>

text \<open>
  The calls of the system: descriptor, what to transfer, the system's state. Receiving gives
  the return value and the bytes put into the buffer (or, one after the other, into the
  \<open>iovec\<close>s, of which the call gets the lengths).
\<close>

record ('b, 'k) net =
  net_recv :: "int \<Rightarrow> nat \<Rightarrow> 'k \<Rightarrow> (int \<times> 'b list) \<times> 'k"
  net_recvmsg :: "int \<Rightarrow> nat list \<Rightarrow> 'k \<Rightarrow> (int \<times> 'b list) \<times> 'k"
  net_send :: "int \<Rightarrow> 'b list \<Rightarrow> 'k \<Rightarrow> int \<times> 'k"
  net_sendmsg :: "int \<Rightarrow> 'b list list \<Rightarrow> 'k \<Rightarrow> int \<times> 'k"
  net_close :: "int \<Rightarrow> 'k \<Rightarrow> 'k"

record Socket =
  sk_sock :: int
  sk_family :: int
  sk_type :: int
  sk_protocol :: int
  sk_isConnected :: bool

definition Socket_new :: "int \<Rightarrow> int \<Rightarrow> int \<Rightarrow> Socket" where
  "Socket_new family type protocol =
     \<lparr>sk_sock = - 1, sk_family = family, sk_type = type, sk_protocol = protocol, sk_isConnected = False\<rparr>"

fun Socket_close :: "('b, 'k) net \<Rightarrow> Socket \<times> 'k \<Rightarrow> bool \<times> (Socket \<times> 'k)" where
  "Socket_close net (sk, k) =
     (if \<not> sk_isConnected sk \<and> sk_sock sk = - 1 then (True, (sk, k))
      else
        let sk = sk\<lparr>sk_isConnected := False\<rparr>
        in if sk_sock sk \<noteq> - 1 then (False, (sk\<lparr>sk_sock := - 1\<rparr>, net_close net (sk_sock sk) k))
           else (False, (sk, k)))"

fun Socket_send :: "('b, 'k) net \<Rightarrow> 'b list \<Rightarrow> Socket \<times> 'k \<Rightarrow> int \<times> (Socket \<times> 'k)" where
  "Socket_send net buffer (sk, k) =
     (if sk_isConnected sk then
        (case net_send net (sk_sock sk) buffer k of (n, k) \<Rightarrow> (int32 n, (sk, k)))
      else (- 1, (sk, k)))"

fun Socket_send_iov :: "('b, 'k) net \<Rightarrow> 'b list list \<Rightarrow> Socket \<times> 'k \<Rightarrow> int \<times> (Socket \<times> 'k)" where
  "Socket_send_iov net buffers (sk, k) =
     (if sk_isConnected sk then
        (case net_sendmsg net (sk_sock sk) buffers k of (n, k) \<Rightarrow> (int32 n, (sk, k)))
      else (- 1, (sk, k)))"

fun Socket_recv :: "('b, 'k) net \<Rightarrow> nat \<Rightarrow> Socket \<times> 'k \<Rightarrow> (int \<times> 'b list) \<times> (Socket \<times> 'k)" where
  "Socket_recv net len (sk, k) =
     (if sk_isConnected sk then
        (case net_recv net (sk_sock sk) len k of ((n, bs), k) \<Rightarrow> ((int32 n, bs), (sk, k)))
      else ((- 1, []), (sk, k)))"

fun Socket_recv_iov :: "('b, 'k) net \<Rightarrow> nat list \<Rightarrow> Socket \<times> 'k \<Rightarrow> (int \<times> 'b list) \<times> (Socket \<times> 'k)" where
  "Socket_recv_iov net lens (sk, k) =
     (if sk_isConnected sk then
        (case net_recvmsg net (sk_sock sk) lens k of ((n, bs), k) \<Rightarrow> ((int32 n, bs), (sk, k)))
      else ((- 1, []), (sk, k)))"

section \<open>SocketStream\<close>

record SocketStream =
  ss_socket :: "Socket option"
  ss_owner :: bool

definition ss_isConnected :: "SocketStream \<Rightarrow> bool" where
  "ss_isConnected st \<longleftrightarrow> (case ss_socket st of None \<Rightarrow> False | Some sk \<Rightarrow> sk_isConnected sk)"

text \<open>A call of a method of \<open>m_socket\<close>, which is not null when the stream is connected.\<close>

definition with_socket ::
  "(Socket \<times> 'k \<Rightarrow> 'r \<times> (Socket \<times> 'k)) \<Rightarrow> SocketStream \<times> 'k \<Rightarrow> 'r \<times> (SocketStream \<times> 'k)" where
  "with_socket f x = (case x of (st, k) \<Rightarrow>
     case f (the (ss_socket st), k) of (r, (sk, k)) \<Rightarrow> (r, (st\<lparr>ss_socket := Some sk\<rparr>, k)))"

definition ss_read :: "('b, 'k) net \<Rightarrow> nat \<Rightarrow> SocketStream \<times> 'k \<Rightarrow> (int \<times> 'b list) \<times> (SocketStream \<times> 'k)" where
  "ss_read net len x =
     (if \<not> ss_isConnected (fst x) then ((- 1, []), x) else with_socket (Socket_recv net len) x)"

definition ss_write :: "('b, 'k) net \<Rightarrow> 'b list \<Rightarrow> SocketStream \<times> 'k \<Rightarrow> int \<times> (SocketStream \<times> 'k)" where
  "ss_write net buffer x =
     (if \<not> ss_isConnected (fst x) then (- 1, x) else with_socket (Socket_send net buffer) x)"

definition ss_close :: "('b, 'k) net \<Rightarrow> SocketStream \<times> 'k \<Rightarrow> SocketStream \<times> 'k" where
  "ss_close net x =
     (if ss_socket (fst x) \<noteq> None then snd (with_socket (Socket_close net) x) else x)"

definition ss_destroy :: "('b, 'k) net \<Rightarrow> SocketStream \<times> 'k \<Rightarrow> SocketStream \<times> 'k" where
  "ss_destroy net x =
     (if ss_owner (fst x) \<and> ss_socket (fst x) \<noteq> None then snd (with_socket (Socket_close net) x) else x)"

text \<open>The bytes a list of \<open>iovec\<close>s points to, and bytes received into them in order.\<close>

definition gather :: "byte list list \<Rightarrow> iovec list \<Rightarrow> byte list list" where
  "gather nodes iovs = map (\<lambda>v. take (iov_len v) (drop (iov_off v) (nodes ! iov_node v))) iovs"

fun scatter :: "byte list list \<Rightarrow> iovec list \<Rightarrow> byte list \<Rightarrow> byte list list" where
  "scatter nodes [] bs = nodes"
| "scatter nodes (v # vs) bs =
     scatter (nodes[iov_node v := blit (nodes ! iov_node v) (iov_off v) (take (iov_len v) bs)])
       vs (drop (iov_len v) bs)"

text \<open>Transfers between a stream and a byte buffer; the buffer's operations may throw.\<close>

definition ss_read_ba ::
  "(byte, 'k) net \<Rightarrow> nat \<Rightarrow> bytearray \<times> (SocketStream \<times> 'k) \<Rightarrow>
     (ba_error + int) \<times> (bytearray \<times> (SocketStream \<times> 'k))" where
  "ss_read_ba net len x = (case x of (ba, st) \<Rightarrow>
     if \<not> ss_isConnected (fst st) then (Inr (- 1), (ba, st))
     else
       case getWriteBuffers len ba of
         (Inl e, ba) \<Rightarrow> (Inl e, (ba, st))
       | (Inr (_, iovs), ba) \<Rightarrow>
           (case with_socket (Socket_recv_iov net (map iov_len iovs)) st of ((rt, bs), st) \<Rightarrow>
              let ba = ba\<lparr>m_nodes := scatter (m_nodes ba) iovs bs\<rparr>
              in if 0 < rt then
                   (case setPosition (m_position ba + nat rt) ba of
                      (Inl e, ba) \<Rightarrow> (Inl e, (ba, st))
                    | (Inr _, ba) \<Rightarrow> (Inr rt, (ba, st)))
                 else (Inr rt, (ba, st))))"

definition ss_write_ba ::
  "(byte, 'k) net \<Rightarrow> nat \<Rightarrow> bytearray \<times> (SocketStream \<times> 'k) \<Rightarrow>
     (ba_error + int) \<times> (bytearray \<times> (SocketStream \<times> 'k))" where
  "ss_write_ba net len x = (case x of (ba, st) \<Rightarrow>
     if \<not> ss_isConnected (fst st) then (Inr (- 1), (ba, st))
     else
       case getReadBuffers len ba of
         Inl e \<Rightarrow> (Inl e, (ba, st))
       | Inr (_, iovs) \<Rightarrow>
           (case with_socket (Socket_send_iov net (gather (m_nodes ba) iovs)) st of (rt, st) \<Rightarrow>
              if 0 < rt then
                (case setPosition (m_position ba + nat rt) ba of
                   (Inl e, ba) \<Rightarrow> (Inl e, (ba, st))
                 | (Inr _, ba) \<Rightarrow> (Inr rt, (ba, st)))
              else (Inr rt, (ba, st))))"

section \<open>Fixed-size transfers\<close>

text \<open>
  The loop the four functions of \<open>Stream\<close> share: \<open>op\<close> transfers at most \<open>left\<close> and says how much. The
  result is the return value the loop was left with, or \<open>None\<close> when nothing is left.
\<close>

function fix_loop ::
  "(nat \<Rightarrow> 's \<Rightarrow> ('e + int) \<times> 's) \<Rightarrow> int \<Rightarrow> 's \<Rightarrow> ('e + int option) \<times> 's" where
  "fix_loop op left s =
     (if 0 < left then
        (case op (nat left) s of
           (Inl e, s) \<Rightarrow> (Inl e, s)
         | (Inr len, s) \<Rightarrow> if len \<le> 0 then (Inr (Some len), s) else fix_loop op (left - len) s)
      else (Inr None, s))"
  by pat_completeness auto
termination
  by (relation "measure (\<lambda>(op, left, s). nat left)") auto

declare fix_loop.simps [simp del]

definition fix_result :: "nat \<Rightarrow> int option \<Rightarrow> int" where
  "fix_result len r = (case r of Some n \<Rightarrow> n | None \<Rightarrow> int32 (int len))"

text \<open>\<open>read\<close> into and \<open>write\<close> from a plain buffer: what was read so far, what is still to be written.\<close>

definition buf_read ::
  "(nat \<Rightarrow> 's \<Rightarrow> (int \<times> 'b list) \<times> 's) \<Rightarrow> nat \<Rightarrow> 'b list \<times> 's \<Rightarrow> (unit + int) \<times> ('b list \<times> 's)" where
  "buf_read rd left x =
     (case rd left (snd x) of ((len, new), s) \<Rightarrow>
        (Inr len, (if 0 < len then fst x @ take (nat len) new else fst x, s)))"

definition buf_write ::
  "('b list \<Rightarrow> 's \<Rightarrow> int \<times> 's) \<Rightarrow> nat \<Rightarrow> 'b list \<times> 's \<Rightarrow> (unit + int) \<times> ('b list \<times> 's)" where
  "buf_write wr left x =
     (case wr (take left (fst x)) (snd x) of (len, s) \<Rightarrow> (Inr len, (drop (nat len) (fst x), s)))"

definition readFixSize ::
  "(nat \<Rightarrow> 's \<Rightarrow> (int \<times> 'b list) \<times> 's) \<Rightarrow> nat \<Rightarrow> 's \<Rightarrow> (int \<times> 'b list) \<times> 's" where
  "readFixSize rd len s =
     (case fix_loop (buf_read rd) (int64 (int len)) ([], s) of (r, (bs, s)) \<Rightarrow>
        ((fix_result len (projr r), bs), s))"

definition writeFixSize ::
  "('b list \<Rightarrow> 's \<Rightarrow> int \<times> 's) \<Rightarrow> 'b list \<Rightarrow> 's \<Rightarrow> int \<times> 's" where
  "writeFixSize wr buffer s =
     (case fix_loop (buf_write wr) (int64 (int (length buffer))) (buffer, s) of (r, (_, s)) \<Rightarrow>
        (fix_result (length buffer) (projr r), s))"

definition readFixSize_ba :: "(nat \<Rightarrow> 's \<Rightarrow> ('e + int) \<times> 's) \<Rightarrow> nat \<Rightarrow> 's \<Rightarrow> ('e + int) \<times> 's" where
  "readFixSize_ba rd len s =
     (case fix_loop rd (int64 (int len)) s of (r, s) \<Rightarrow> (map_sum id (fix_result len) r, s))"

definition writeFixSize_ba :: "(nat \<Rightarrow> 's \<Rightarrow> ('e + int) \<times> 's) \<Rightarrow> nat \<Rightarrow> 's \<Rightarrow> ('e + int) \<times> 's" where
  "writeFixSize_ba wr len s =
     (case fix_loop wr (int64 (int len)) s of (r, s) \<Rightarrow> (map_sum id (fix_result len) r, s))"

end
