(* ===== verification/FdManager.thy ===== *)
theory FdManager
  imports Prelude
begin

unbundle bit_operations_syntax

text \<open>
  The table of file descriptors the hook layer keeps (\<open>fd_manager.h\<close>, \<open>fd_manager.cc\<close>). The
  operating system's calls are parameters acting on a kernel state: \<open>fstat_sock\<close> answers whether
  a descriptor is a socket (nothing when \<open>fstat\<close> fails), \<open>fcntl_f\<close> is the original \<open>fcntl\<close>.
  A context lives in the table; the handlers that change one through its shared pointer change
  the table's entry.
\<close>

section \<open>Data\<close>

datatype fcntl_cmd =
    F_SETFL | F_GETFL | F_DUPFD | F_DUPFD_CLOEXEC | F_SETFD | F_SETOWN | F_SETSIG | F_SETLEASE
  | F_NOTIFY | F_SETPIPE_SZ | F_GETFD | F_GETOWN | F_GETSIG | F_GETLEASE | F_GETPIPE_SZ
  | F_SETLK | F_SETLKW | F_GETLK | F_GETOWN_EX | F_SETOWN_EX | F_other nat

datatype fcntl_arg = No_arg | Int_arg "32 word" | Ptr_arg nat

type_synonym 'k fcntl_call = "int \<Rightarrow> fcntl_cmd \<Rightarrow> fcntl_arg \<Rightarrow> 'k \<Rightarrow> 32 word \<times> 'k"

definition O_NONBLOCK :: "32 word" where
  "O_NONBLOCK = 2048"

datatype timeout_type = SO_RCVTIMEO | SO_SNDTIMEO

record FdCtx =
  m_isInit :: bool
  m_isSocket :: bool
  m_sysNonblock :: bool
  m_userNonblock :: bool
  m_isClosed :: bool
  m_fd :: int
  m_recvTimeout :: "64 word"
  m_sendTimeout :: "64 word"

type_synonym fd_table = "FdCtx option list"

datatype fd_error = Bad_index

section \<open>A context\<close>

definition FdCtx_init :: "(int \<Rightarrow> 'k \<Rightarrow> bool option) \<Rightarrow> 'k fcntl_call \<Rightarrow> FdCtx \<Rightarrow> 'k \<Rightarrow> (bool \<times> FdCtx) \<times> 'k" where
  "FdCtx_init fstat_sock fcntl_f c k =
     (if m_isInit c then ((True, c), k)
      else let c = c\<lparr> m_recvTimeout := - 1, m_sendTimeout := - 1 \<rparr>;
               c = (case fstat_sock (m_fd c) k of
                      None \<Rightarrow> c\<lparr> m_isInit := False, m_isSocket := False \<rparr>
                    | Some sock \<Rightarrow> c\<lparr> m_isInit := True, m_isSocket := sock \<rparr>);
               (c, k) = (if m_isSocket c
                         then let (flags, k) = fcntl_f (m_fd c) F_GETFL (Int_arg 0) k;
                                  k = (if flags AND O_NONBLOCK = 0
                                       then snd (fcntl_f (m_fd c) F_SETFL
                                                   (Int_arg (flags OR O_NONBLOCK)) k)
                                       else k)
                              in (c\<lparr> m_sysNonblock := True \<rparr>, k)
                         else (c\<lparr> m_sysNonblock := False \<rparr>, k));
               c = c\<lparr> m_userNonblock := False, m_isClosed := False \<rparr>
           in ((m_isInit c, c), k))"

definition FdCtx_new :: "(int \<Rightarrow> 'k \<Rightarrow> bool option) \<Rightarrow> 'k fcntl_call \<Rightarrow> int \<Rightarrow> 'k \<Rightarrow> FdCtx \<times> 'k" where
  "FdCtx_new fstat_sock fcntl_f fd k =
     (let ((_, c), k) = FdCtx_init fstat_sock fcntl_f
            \<lparr> m_isInit = False, m_isSocket = False, m_sysNonblock = False, m_userNonblock = False,
              m_isClosed = False, m_fd = fd, m_recvTimeout = - 1, m_sendTimeout = - 1 \<rparr> k
      in (c, k))"

definition setTimeout :: "timeout_type \<Rightarrow> 64 word \<Rightarrow> FdCtx \<Rightarrow> FdCtx" where
  "setTimeout ty v c =
     (if ty = SO_RCVTIMEO then c\<lparr> m_recvTimeout := v \<rparr> else c\<lparr> m_sendTimeout := v \<rparr>)"

definition getTimeout :: "timeout_type \<Rightarrow> FdCtx \<Rightarrow> 64 word" where
  "getTimeout ty c = (if ty = SO_RCVTIMEO then m_recvTimeout c else m_sendTimeout c)"

section \<open>The table\<close>

definition FdManager_new :: fd_table where
  "FdManager_new = replicate 64 None"

definition table_resize :: "nat \<Rightarrow> fd_table \<Rightarrow> fd_table" where
  "table_resize sz t = take sz t @ replicate (sz - length t) None"

text \<open>
  \<open>get\<close>. A descriptor below -1 indexes before the table in the read section; \<open>fd * 1.5\<close> is a
  floating-point product, exact for an \<open>int\<close>, truncated.
\<close>

definition fd_get ::
  "(int \<Rightarrow> 'k \<Rightarrow> bool option) \<Rightarrow> 'k fcntl_call \<Rightarrow> int \<Rightarrow> bool \<Rightarrow> (fd_table \<times> 'k, fd_error, FdCtx option) prog" where
  "fd_get fstat_sock fcntl_f fd auto_create s =
     (let (datas, k) = s
      in if fd = - 1 then (Inr None, s)
         else if int (length datas) \<le> fd \<and> \<not> auto_create then (Inr None, s)
         else if fd < - 1 then (Inl Bad_index, s)
         else if fd < int (length datas) \<and> (datas ! nat fd \<noteq> None \<or> \<not> auto_create)
         then (Inr (datas ! nat fd), s)
         else let (ctx, k) = FdCtx_new fstat_sock fcntl_f fd k;
                  datas = (if int (length datas) \<le> fd
                           then table_resize (nat (fd * 3 div 2)) datas else datas)
              in (Inr (Some ctx), (datas[nat fd := Some ctx], k)))"

definition fd_del :: "int \<Rightarrow> (fd_table, fd_error, unit) prog" where
  "fd_del fd datas =
     (if int (length datas) \<le> fd then (Inr (), datas)
      else if fd < 0 then (Inl Bad_index, datas)
      else (Inr (), datas[nat fd := None]))"

section \<open>Properties of the table\<close>

text \<open>What the code relies on of \<open>fcntl\<close> on an open descriptor: \<open>nb k fd\<close> is its O_NONBLOCK bit.\<close>

definition fcntl_contract :: "'k fcntl_call \<Rightarrow> ('k \<Rightarrow> int \<Rightarrow> bool) \<Rightarrow> bool" where
  "fcntl_contract fcntl_f nb \<longleftrightarrow>
     (\<forall>fd arg k. nb (snd (fcntl_f fd F_SETFL (Int_arg arg) k)) =
        (nb k)(fd := arg AND O_NONBLOCK \<noteq> 0)) \<and>
     (\<forall>fd a k. snd (fcntl_f fd F_GETFL a k) = k \<and>
        (fst (fcntl_f fd F_GETFL a k) AND O_NONBLOCK \<noteq> 0) = nb k fd)"

lemma fcntl_contractD:
  assumes "fcntl_contract fcntl_f nb"
  shows "nb (snd (fcntl_f fd F_SETFL (Int_arg arg) k)) = (nb k)(fd := arg AND O_NONBLOCK \<noteq> 0)"
    "snd (fcntl_f fd F_GETFL a k) = k"
    "(fst (fcntl_f fd F_GETFL a k) AND O_NONBLOCK \<noteq> 0) = nb k fd"
    "(fst (fcntl_f fd F_GETFL a k) AND O_NONBLOCK = 0) = (\<not> nb k fd)"
  using assms unfolding fcntl_contract_def by metis+

lemma or_O_NONBLOCK: "(w OR O_NONBLOCK) AND O_NONBLOCK \<noteq> 0"
  by (simp add: word_ao_dist or_eq_0_iff O_NONBLOCK_def)

text \<open>Sockets in the table are non-blocking for the system, initialised and in their place.\<close>

definition entry_ok :: "('k \<Rightarrow> int \<Rightarrow> bool) \<Rightarrow> 'k \<Rightarrow> nat \<Rightarrow> FdCtx \<Rightarrow> bool" where
  "entry_ok nb k i c \<longleftrightarrow> m_fd c = int i \<and> \<not> m_isClosed c \<and> m_sysNonblock c = m_isSocket c \<and>
     (m_isSocket c \<longrightarrow> m_isInit c \<and> nb k (int i))"

definition table_ok :: "('k \<Rightarrow> int \<Rightarrow> bool) \<Rightarrow> fd_table \<times> 'k \<Rightarrow> bool" where
  "table_ok nb s \<longleftrightarrow> 64 \<le> length (fst s) \<and>
     (\<forall>i c. i < length (fst s) \<longrightarrow> fst s ! i = Some c \<longrightarrow> entry_ok nb (snd s) i c)"

lemma table_ok_new: "table_ok nb (FdManager_new, k)"
  by (simp add: table_ok_def FdManager_new_def)

lemma FdCtx_new_spec:
  assumes "fcntl_contract fcntl_f nb" and "FdCtx_new fstat_sock fcntl_f fd k = (c, k')"
  shows "m_fd c = fd \<and> \<not> m_isClosed c \<and> \<not> m_userNonblock c \<and>
    m_isSocket c = (fstat_sock fd k = Some True) \<and> m_isInit c = (fstat_sock fd k \<noteq> None) \<and>
    m_sysNonblock c = m_isSocket c \<and> m_recvTimeout c = - 1 \<and> m_sendTimeout c = - 1 \<and>
    nb k' = (if m_isSocket c then (nb k)(fd := True) else nb k)"
proof (cases "fstat_sock fd k = Some True")
  case True
  obtain flags where g: "fcntl_f fd F_GETFL (Int_arg 0) k = (flags, k)"
    using fcntl_contractD(2) [OF assms(1), of fd "Int_arg 0" k] by (metis prod.collapse)
  have bit: "(flags AND O_NONBLOCK = 0) = (\<not> nb k fd)"
    using fcntl_contractD(4) [OF assms(1), of fd "Int_arg 0" k] g by simp
  have "k' = (if flags AND O_NONBLOCK = 0
      then snd (fcntl_f fd F_SETFL (Int_arg (flags OR O_NONBLOCK)) k) else k)"
    using assms(2) True g by (simp add: FdCtx_new_def FdCtx_init_def Let_def split: if_splits)
  then have "nb k' = (nb k)(fd := True)"
    using bit fcntl_contractD(1) [OF assms(1), of fd "flags OR O_NONBLOCK" k] or_O_NONBLOCK
    by (simp add: fun_upd_idem)
  moreover have "c = \<lparr> m_isInit = True, m_isSocket = True, m_sysNonblock = True,
      m_userNonblock = False, m_isClosed = False, m_fd = fd, m_recvTimeout = - 1,
      m_sendTimeout = - 1 \<rparr>"
    using assms(2) True g by (simp add: FdCtx_new_def FdCtx_init_def Let_def)
  ultimately show ?thesis using True by simp
next
  case False
  then show ?thesis using assms(2)
    by (auto simp: FdCtx_new_def FdCtx_init_def Let_def split: prod.splits option.splits)
qed

definition fd_lookup :: "int \<Rightarrow> fd_table \<Rightarrow> FdCtx option" where
  "fd_lookup fd t = (if 0 \<le> fd \<and> fd < int (length t) then t ! nat fd else None)"

lemma table_okD:
  "table_ok nb (t, k) \<Longrightarrow> fd_lookup fd t = Some c \<Longrightarrow> entry_ok nb k (nat fd) c"
  by (auto simp: table_ok_def fd_lookup_def nat_less_iff split: if_splits)

lemma table_okI:
  assumes "64 \<le> length t" and "\<And>fd c. fd_lookup fd t = Some c \<Longrightarrow> entry_ok nb k (nat fd) c"
  shows "table_ok nb (t, k)"
  unfolding table_ok_def
proof (intro conjI allI impI)
  fix i c assume "i < length (fst (t, k))" "fst (t, k) ! i = Some c"
  then show "entry_ok nb (snd (t, k)) i c"
    using assms(2) [of "int i" c] by (simp add: fd_lookup_def)
qed (use assms(1) in simp)

lemma lookup_update:
  "0 \<le> fd \<Longrightarrow> fd < int (length t) \<Longrightarrow>
   fd_lookup fd' (t[nat fd := x]) = (if fd' = fd then x else fd_lookup fd' t)"
  by (auto simp: fd_lookup_def nth_list_update)

lemma lookup_resize:
  "length t \<le> sz \<Longrightarrow> fd_lookup fd (table_resize sz t) = fd_lookup fd t"
  by (auto simp: fd_lookup_def table_resize_def nth_append nat_less_iff)

lemma length_resize [simp]: "length t \<le> sz \<Longrightarrow> length (table_resize sz t) = sz"
  by (simp add: table_resize_def)

text \<open>\<open>get\<close> without creation looks up; with creation it fills the place it looks up.\<close>

lemma fd_get_lookup:
  assumes "- 1 \<le> fd"
  shows "fd_get fstat_sock fcntl_f fd False (t, k) = (Inr (fd_lookup fd t), t, k)"
  using assms by (auto simp: fd_get_def fd_lookup_def)

lemma fd_get_create:
  assumes ok: "table_ok nb (t, k)" and fd: "0 \<le> fd" and f: "fcntl_contract fcntl_f nb"
    and c: "fstat_sock fd k = Some b"
  shows "\<exists>x t' k'. fd_get fstat_sock fcntl_f fd True (t, k) = (Inr (Some x), t', k') \<and>
    table_ok nb (t', k') \<and> fd_lookup fd t' = Some x \<and>
    (\<forall>fd'. fd' = fd \<or> fd_lookup fd' t' = fd_lookup fd' t) \<and>
    (if fd_lookup fd t = None
     then m_isSocket x = b \<and> \<not> m_userNonblock x \<and> nb k' = (if b then (nb k)(fd := True) else nb k)
     else fd_lookup fd t = Some x \<and> t' = t \<and> k' = k)"
proof (cases "fd_lookup fd t")
  case (Some x)
  then show ?thesis using ok fd by (auto simp: fd_get_def fd_lookup_def split: if_splits)
next
  case None
  obtain x k' where x: "FdCtx_new fstat_sock fcntl_f fd k = (x, k')" by force
  note spec = FdCtx_new_spec [OF f x]
  define t1 where "t1 = (if int (length t) \<le> fd then table_resize (nat (fd * 3 div 2)) t else t)"
  have len: "64 \<le> length t" using ok by (simp add: table_ok_def)
  then have sz: "length t \<le> nat (fd * 3 div 2)" "fd < int (nat (fd * 3 div 2))"
    if "int (length t) \<le> fd" using that by linarith+
  have l1: "fd_lookup fd' t1 = fd_lookup fd' t" for fd'
    using sz(1) by (simp add: t1_def lookup_resize)
  have in1: "fd < int (length t1)" and len1: "64 \<le> length t1"
    using sz len by (auto simp: t1_def)
  have run: "fd_get fstat_sock fcntl_f fd True (t, k) = (Inr (Some x), t1[nat fd := Some x], k')"
    using None fd x by (auto simp: fd_get_def fd_lookup_def t1_def split: if_splits)
  have look: "fd_lookup fd' (t1[nat fd := Some x]) = (if fd' = fd then Some x else fd_lookup fd' t)" for fd'
    using lookup_update [OF fd in1] l1 by simp
  have "table_ok nb (t1[nat fd := Some x], k')"
  proof (rule table_okI)
    fix fd' c assume a: "fd_lookup fd' (t1[nat fd := Some x]) = Some c"
    then have p: "0 \<le> fd'" by (auto simp: fd_lookup_def split: if_splits)
    show "entry_ok nb k' (nat fd') c"
      using a spec c fd p table_okD [OF ok, of fd' c]
      by (auto simp: look entry_ok_def split: if_splits)
  qed (use len1 in simp)
  then show ?thesis using run look spec c None by auto
qed

text \<open>
  \<open>FdManager::get\<close> with creation, on a table whose entries are consistent: it returns the
  entry of the descriptor, making it (and the room for it) if there is none, changes no other
  entry, leaves the table consistent (every socket in it is non-blocking for the system), and
  asking again gives the same context without any further change.
\<close>

theorem fd_get_correct:
  assumes "table_ok nb (t, k)" and "0 \<le> fd" and "fcntl_contract fcntl_f nb"
    and "fstat_sock fd k = Some b"
  shows "\<exists>x t' k'. fd_get fstat_sock fcntl_f fd True (t, k) = (Inr (Some x), t', k') \<and>
    table_ok nb (t', k') \<and> (fd_lookup fd t = None \<longrightarrow> m_isSocket x = b) \<and>
    (m_isSocket x \<longrightarrow> nb k' fd) \<and>
    (\<forall>fd'. fd_lookup fd' t' = (if fd' = fd then Some x else fd_lookup fd' t)) \<and>
    fd_get fstat_sock fcntl_f fd False (t', k') = (Inr (Some x), t', k') \<and>
    fd_get fstat_sock fcntl_f fd True (t', k') = (Inr (Some x), t', k')"
proof -
  obtain x t' k' where x: "fd_get fstat_sock fcntl_f fd True (t, k) = (Inr (Some x), t', k')"
      "table_ok nb (t', k')" "fd_lookup fd t' = Some x"
      "\<And>fd'. fd' = fd \<or> fd_lookup fd' t' = fd_lookup fd' t"
      "fd_lookup fd t = None \<longrightarrow> m_isSocket x = b"
    using fd_get_create [OF assms(1-3), of fstat_sock b, OF assms(4)] by (auto split: if_splits)
  have "fd_get fstat_sock fcntl_f fd False (t', k') = (Inr (Some x), t', k')"
    using x(3) assms(2) by (simp add: fd_get_lookup)
  moreover have "fd_get fstat_sock fcntl_f fd True (t', k') = (Inr (Some x), t', k')"
    using x(3) assms(2) by (auto simp: fd_get_def fd_lookup_def split: if_splits)
  moreover have "m_isSocket x \<longrightarrow> nb k' fd"
    using table_okD [OF x(2,3)] assms(2) by (simp add: entry_ok_def)
  ultimately show ?thesis using x by metis
qed

text \<open>A kernel that keeps one flag word per descriptor, to try the calls on.\<close>

definition flag_kernel :: "(int \<Rightarrow> 32 word) fcntl_call" where
  "flag_kernel fd cmd arg k =
     (case (cmd, arg) of
        (F_SETFL, Int_arg w) \<Rightarrow> (0, k(fd := w))
      | (F_GETFL, _) \<Rightarrow> (k fd, k)
      | _ \<Rightarrow> (0, k))"

lemma flag_kernel_contract: "fcntl_contract flag_kernel (\<lambda>k fd. k fd AND O_NONBLOCK \<noteq> 0)"
  by (auto simp: fcntl_contract_def flag_kernel_def fun_eq_iff split: fcntl_arg.splits)

theorem fd_get_correct_witness:
  "\<exists>x t' k'. fd_get (\<lambda>_ _. Some True) flag_kernel 100 True (FdManager_new, \<lambda>_. 0) =
      (Inr (Some x), t', k') \<and> k' 100 AND O_NONBLOCK \<noteq> 0 \<and> fd_lookup 100 t' = Some x"
proof -
  let ?s = "\<lambda>(_ :: int) (_ :: int \<Rightarrow> 32 word). Some True"
  have "fd_lookup 100 FdManager_new = None" by (simp add: fd_lookup_def FdManager_new_def)
  with fd_get_correct [OF table_ok_new _ flag_kernel_contract, of 100 ?s "\<lambda>_. 0" True]
  show ?thesis by auto
qed

end
