(* ===== verification/Timer.thy ===== *)
theory Timer
  imports Std_Set
begin

text \<open>
  The timer manager (\<open>timer.h\<close>, \<open>timer.cc\<close>). Timers are objects at addresses; the manager
  keeps the addresses in an ordered set whose comparator reads \<open>m_next\<close> from the objects.
  Times are 64-bit unsigned and wrap; the current time (\<open>GetCurrentMS\<close>) and the addresses
  \<open>new\<close> returns are arguments. Each operation is the body of one lock-protected section.
\<close>

section \<open>Data\<close>

type_synonym addr = nat
type_synonym ms = "64 word"

text \<open>
  A callback is the function given to \<open>addTimer\<close>, or what \<open>addConditionTimer\<close> binds: a weak
  pointer (named by \<open>'w\<close>) and a function that runs only while the pointee lives.
\<close>

datatype ('c, 'w) callback = Plain 'c | OnTimer 'w "'c option"

record ('c, 'w) timer =
  m_recurring :: bool
  m_ms :: ms
  m_next :: ms
  m_cb :: "('c, 'w) callback option"

text \<open>
  \<open>m_heap\<close> is the memory the \<open>Timer::ptr\<close> point into (an address that holds no timer reads as
  one with a null callback), \<open>front_calls\<close> counts the calls of the virtual
  \<open>onTimerInsertedAtFront\<close>.
\<close>

record ('c, 'w) timers =
  m_heap :: "addr \<Rightarrow> ('c, 'w) timer"
  m_timers :: "addr list"
  m_tickled :: bool
  m_previouseTime :: ms
  front_calls :: nat

datatype timer_error = Erase_end

definition Timer_new ::
  "ms \<Rightarrow> ms \<Rightarrow> ('c, 'w) callback option \<Rightarrow> bool \<Rightarrow> ('c, 'w) timer" where
  "Timer_new now ms cb recurring =
     \<lparr> m_recurring = recurring, m_ms = ms, m_next = now + ms, m_cb = cb \<rparr>"

definition Timer_at :: "ms \<Rightarrow> ('c, 'w) timer" where
  "Timer_at next = \<lparr> m_recurring = False, m_ms = 0, m_next = next, m_cb = None \<rparr>"

definition TimerManager_new :: "ms \<Rightarrow> ('c, 'w) timers" where
  "TimerManager_new now =
     \<lparr> m_heap = (\<lambda>_. Timer_at 0), m_timers = [], m_tickled = False, m_previouseTime = now,
       front_calls = 0 \<rparr>"

fun Comparator :: "(addr \<Rightarrow> ('c, 'w) timer) \<Rightarrow> addr option \<Rightarrow> addr option \<Rightarrow> bool" where
  "Comparator h None None = False"
| "Comparator h None (Some _) = True"
| "Comparator h (Some _) None = False"
| "Comparator h (Some lhs) (Some rhs) =
     (if m_next (h lhs) < m_next (h rhs) then True
      else if m_next (h rhs) < m_next (h lhs) then False
      else lhs < rhs)"

abbreviation before :: "(addr \<Rightarrow> ('c, 'w) timer) \<Rightarrow> addr \<Rightarrow> addr \<Rightarrow> bool" where
  "before h a b \<equiv> Comparator h (Some a) (Some b)"

interpretation timer_order: ordered_set "before h" for h :: "addr \<Rightarrow> ('c, 'w) timer"
  by unfold_locales (auto split: if_splits)

declare Comparator.simps(4) [simp del]

definition set_timer ::
  "addr \<Rightarrow> (('c, 'w) timer \<Rightarrow> ('c, 'w) timer) \<Rightarrow> ('c, 'w) timers \<Rightarrow> ('c, 'w) timers" where
  "set_timer a f tm = tm\<lparr> m_heap := (m_heap tm)(a := f (m_heap tm a)) \<rparr>"

section \<open>Operations of a timer\<close>

definition timer_cancel :: "addr \<Rightarrow> (('c, 'w) timers, timer_error, bool) prog" where
  "timer_cancel a tm =
     (case m_cb (m_heap tm a) of
        Some _ \<Rightarrow>
          (let tm = set_timer a (\<lambda>t. t\<lparr> m_cb := None \<rparr>) tm
           in case set_find (before (m_heap tm)) a (m_timers tm) of
                None \<Rightarrow> (Inl Erase_end, tm)
              | Some b \<Rightarrow> (Inr True, tm\<lparr> m_timers := set_erase b (m_timers tm) \<rparr>))
      | None \<Rightarrow> (Inr False, tm))"

definition timer_refresh :: "ms \<Rightarrow> addr \<Rightarrow> ('c, 'w) timers \<Rightarrow> bool \<times> ('c, 'w) timers" where
  "timer_refresh now a tm =
     (if m_cb (m_heap tm a) = None then (False, tm)
      else case set_find (before (m_heap tm)) a (m_timers tm) of
             None \<Rightarrow> (False, tm)
           | Some b \<Rightarrow>
               (let tm = tm\<lparr> m_timers := set_erase b (m_timers tm) \<rparr>;
                    tm = set_timer a (\<lambda>t. t\<lparr> m_next := now + m_ms t \<rparr>) tm
                in (True, tm\<lparr> m_timers := set_insert (before (m_heap tm)) a (m_timers tm) \<rparr>)))"

text \<open>The protected \<open>addTimer(val, lock)\<close>: the notification is sent after the unlock.\<close>

definition addTimer_ptr :: "addr \<Rightarrow> ('c, 'w) timers \<Rightarrow> ('c, 'w) timers" where
  "addTimer_ptr a tm =
     (let tm = tm\<lparr> m_timers := set_insert (before (m_heap tm)) a (m_timers tm) \<rparr>;
          at_front = (hd (m_timers tm) = a \<and> \<not> m_tickled tm);
          tm = (if at_front then tm\<lparr> m_tickled := True \<rparr> else tm)
      in if at_front then tm\<lparr> front_calls := front_calls tm + 1 \<rparr> else tm)"

definition timer_reset :: "ms \<Rightarrow> ms \<Rightarrow> bool \<Rightarrow> addr \<Rightarrow> ('c, 'w) timers \<Rightarrow> bool \<times> ('c, 'w) timers" where
  "timer_reset now ms from_now a tm =
     (if ms = m_ms (m_heap tm a) \<and> \<not> from_now then (True, tm)
      else if m_cb (m_heap tm a) = None then (False, tm)
      else case set_find (before (m_heap tm)) a (m_timers tm) of
             None \<Rightarrow> (False, tm)
           | Some b \<Rightarrow>
               (let tm = tm\<lparr> m_timers := set_erase b (m_timers tm) \<rparr>;
                    start = (if from_now then now
                             else m_next (m_heap tm a) - m_ms (m_heap tm a));
                    tm = set_timer a (\<lambda>t. t\<lparr> m_ms := ms, m_next := start + ms \<rparr>) tm
                in (True, addTimer_ptr a tm)))"

section \<open>Operations of the manager\<close>

definition addTimer ::
  "ms \<Rightarrow> addr \<Rightarrow> ms \<Rightarrow> ('c, 'w) callback option \<Rightarrow> bool \<Rightarrow> ('c, 'w) timers \<Rightarrow> ('c, 'w) timers" where
  "addTimer now a ms cb recurring tm =
     addTimer_ptr a (set_timer a (\<lambda>_. Timer_new now ms cb recurring) tm)"

definition addConditionTimer ::
  "ms \<Rightarrow> addr \<Rightarrow> ms \<Rightarrow> 'c option \<Rightarrow> 'w \<Rightarrow> bool \<Rightarrow> ('c, 'w) timers \<Rightarrow> ('c, 'w) timers" where
  "addConditionTimer now a ms cb weak_cond recurring tm =
     addTimer now a ms (Some (OnTimer weak_cond cb)) recurring tm"

text \<open>
  Calling a callback: the functions that run, or the exception a null one throws;
  \<open>alive\<close> says which weak pointers can still be locked.
\<close>

datatype call_error = Bad_function_call

fun call_fun :: "'c option \<Rightarrow> call_error + 'c list" where
  "call_fun None = Inl Bad_function_call"
| "call_fun (Some c) = Inr [c]"

fun call :: "('w \<Rightarrow> bool) \<Rightarrow> ('c, 'w) callback option \<Rightarrow> call_error + 'c list" where
  "call alive None = Inl Bad_function_call"
| "call alive (Some (Plain c)) = Inr [c]"
| "call alive (Some (OnTimer weak_cond cb)) =
     (if alive weak_cond then call_fun cb else Inr [])"

definition getNextTimer :: "ms \<Rightarrow> ('c, 'w) timers \<Rightarrow> ms \<times> ('c, 'w) timers" where
  "getNextTimer now_ms tm =
     (let tm = tm\<lparr> m_tickled := False \<rparr>
      in case m_timers tm of
           [] \<Rightarrow> (- 1, tm)
         | a # _ \<Rightarrow>
             (if m_next (m_heap tm a) \<le> now_ms then 0 else m_next (m_heap tm a) - now_ms, tm))"

definition detectClockRollover :: "ms \<Rightarrow> ('c, 'w) timers \<Rightarrow> bool \<times> ('c, 'w) timers" where
  "detectClockRollover now_ms tm =
     (now_ms < m_previouseTime tm \<and> now_ms < m_previouseTime tm - 60 * 60 * 1000,
      tm\<lparr> m_previouseTime := now_ms \<rparr>)"

text \<open>The loop over the expired timers: collect the callback, reinsert or disarm.\<close>

fun expire_loop ::
  "ms \<Rightarrow> addr list \<Rightarrow> ('c, 'w) timers \<Rightarrow> ('c, 'w) callback option list \<times> ('c, 'w) timers" where
  "expire_loop now_ms [] tm = ([], tm)"
| "expire_loop now_ms (a # as) tm =
     (let cb = m_cb (m_heap tm a);
          tm = (if m_recurring (m_heap tm a)
                then let tm = set_timer a (\<lambda>t. t\<lparr> m_next := now_ms + m_ms t \<rparr>) tm
                     in tm\<lparr> m_timers := set_insert (before (m_heap tm)) a (m_timers tm) \<rparr>
                else set_timer a (\<lambda>t. t\<lparr> m_cb := None \<rparr>) tm);
          (cbs, tm) = expire_loop now_ms as tm
      in (cb # cbs, tm))"

text \<open>
  \<open>tmp\<close> is the address of the local \<open>now_timer\<close>, alive only for the \<open>lower_bound\<close> query.
\<close>

definition expired_prefix :: "ms \<Rightarrow> addr \<Rightarrow> bool \<Rightarrow> ('c, 'w) timers \<Rightarrow> addr list" where
  "expired_prefix now_ms tmp rollover tm =
     (if rollover then m_timers tm
      else let h = (m_heap tm)(tmp := Timer_at now_ms);
               it = from_lower_bound (before h) tmp (m_timers tm)
           in before_lower_bound (before h) tmp (m_timers tm) @
              takeWhile (\<lambda>a. m_next (m_heap tm a) = now_ms) it)"

definition listExpiredCb ::
  "ms \<Rightarrow> addr \<Rightarrow> ('c, 'w) timers \<Rightarrow> ('c, 'w) callback option list \<times> ('c, 'w) timers" where
  "listExpiredCb now_ms tmp tm =
     (case m_timers tm of
        [] \<Rightarrow> ([], tm)
      | first # _ \<Rightarrow>
          (let (rollover, tm) = detectClockRollover now_ms tm
           in if \<not> rollover \<and> now_ms < m_next (m_heap tm first) then ([], tm)
              else let expired = expired_prefix now_ms tmp rollover tm;
                       tm = tm\<lparr> m_timers := drop (length expired) (m_timers tm) \<rparr>
                   in expire_loop now_ms expired tm))"

definition hasTimer :: "('c, 'w) timers \<Rightarrow> bool" where
  "hasTimer tm \<longleftrightarrow> m_timers tm \<noteq> []"

end
