(* ===== verification/Fiber.thy ===== *)
theory Fiber
  imports Prelude
begin

text \<open>
  Fibers (\<open>fiber.h\<close>, \<open>fiber.cc\<close>) on one thread: the fiber objects at their addresses, the
  thread-local pointers, the saved contexts and the fiber whose code the processor runs. A
  failing \<open>SYLAR_ASSERT\<close> is an error value. \<open>swapcontext\<close> (libc) saves the running code in one
  context and continues with the code saved in the other; its failure is not modelled, the code
  aborts there.
\<close>

section \<open>Data\<close>

text \<open>The enumeration \<open>Fiber::State\<close>; its \<open>TERM\<close> is a reserved word here.\<close>

datatype State = INIT | HOLD | EXEC | TERMINATED | READY | EXCEPT

type_synonym fiber_id = nat

text \<open>What a context holds: the entry point \<open>makecontext\<close> set, or suspended code of a fiber.\<close>

datatype code = Main_func fiber_id | Caller_main_func fiber_id | Suspended fiber_id

fun owner :: "code \<Rightarrow> fiber_id" where
  "owner (Main_func f) = f" | "owner (Caller_main_func f) = f" | "owner (Suspended f) = f"

record 'c fiber =
  m_id :: "64 word"
  m_stacksize :: "32 word"
  m_state :: State
  m_ctx :: code
  m_stack :: bool
  m_cb :: "'c option"

text \<open>
  \<open>t_scheduler_fiber\<close> is \<open>Scheduler::GetMainFiber()\<close>; \<open>running\<close> is the code the thread executes.
\<close>

record 'c fiber_thread =
  fibers :: "fiber_id \<Rightarrow> 'c fiber"
  t_fiber :: "fiber_id option"
  t_threadFiber :: "fiber_id option"
  t_scheduler_fiber :: "fiber_id option"
  running :: code
  s_fiber_id :: "64 word"
  s_fiber_count :: "64 word"

datatype fiber_error = Assert string | Null_pointer

type_synonym ('c, 'a) fiber_prog = "('c fiber_thread, fiber_error, 'a) prog"

definition g_fiber_stack_size :: "32 word" where
  "g_fiber_stack_size = 128 * 1024"

definition upd_fiber :: "fiber_id \<Rightarrow> ('c fiber \<Rightarrow> 'c fiber) \<Rightarrow> 'c fiber_thread \<Rightarrow> 'c fiber_thread" where
  "upd_fiber f g s = s\<lparr> fibers := (fibers s)(f := g (fibers s f)) \<rparr>"

definition get_state :: "'c fiber_thread \<Rightarrow> fiber_id \<Rightarrow> State" where
  "get_state s f = m_state (fibers s f)"

definition set_state :: "fiber_id \<Rightarrow> State \<Rightarrow> 'c fiber_thread \<Rightarrow> 'c fiber_thread" where
  "set_state f st s = upd_fiber f (\<lambda>x. x\<lparr> m_state := st \<rparr>) s"

definition SetThis :: "fiber_id option \<Rightarrow> 'c fiber_thread \<Rightarrow> 'c fiber_thread" where
  "SetThis f s = s\<lparr> t_fiber := f \<rparr>"

definition GetFiberId :: "'c fiber_thread \<Rightarrow> 64 word" where
  "GetFiberId s = (case t_fiber s of Some f \<Rightarrow> m_id (fibers s f) | None \<Rightarrow> 0)"

section \<open>Construction\<close>

text \<open>The constructor without arguments, for the thread's first fiber, at the new address \<open>f\<close>.\<close>

definition Fiber_main :: "fiber_id \<Rightarrow> 'c fiber_thread \<Rightarrow> 'c fiber_thread" where
  "Fiber_main f s =
     (let s = upd_fiber f (\<lambda>_. \<lparr> m_id = 0, m_stacksize = 0, m_state = EXEC, m_ctx = Suspended f,
                                m_stack = False, m_cb = None \<rparr>) s
      in (SetThis (Some f) s)\<lparr> s_fiber_count := s_fiber_count s + 1 \<rparr>)"

definition Fiber_new ::
  "fiber_id \<Rightarrow> 'c option \<Rightarrow> 32 word \<Rightarrow> bool \<Rightarrow> 'c fiber_thread \<Rightarrow> 'c fiber_thread" where
  "Fiber_new f cb stacksize use_caller s =
     (let s = s\<lparr> s_fiber_id := s_fiber_id s + 1, s_fiber_count := s_fiber_count s + 1 \<rparr>
      in upd_fiber f (\<lambda>_.
           \<lparr> m_id = s_fiber_id s,
             m_stacksize = (if stacksize \<noteq> 0 then stacksize else g_fiber_stack_size),
             m_state = INIT,
             m_ctx = (if use_caller then Caller_main_func f else Main_func f),
             m_stack = True, m_cb = cb \<rparr>) s)"

definition Fiber_delete :: "fiber_id \<Rightarrow> ('c, unit) fiber_prog" where
  "Fiber_delete f s0 =
     (let s = s0\<lparr> s_fiber_count := s_fiber_count s0 - 1 \<rparr>; x = fibers s f
      in if m_stack x then
           (if m_state x \<in> {TERMINATED, EXCEPT, INIT}
            then (Inr (), upd_fiber f (\<lambda>y. y\<lparr> m_stack := False \<rparr>) s)
            else (Inl (Assert ''m_state==TERM || m_state==EXCEPT || m_state==INIT''), s))
         else if m_cb x \<noteq> None then (Inl (Assert ''!m_cb''), s)
         else if m_state x \<noteq> EXEC then (Inl (Assert ''m_state == EXEC''), s)
         else (Inr (), if t_fiber s = Some f then SetThis None s else s))"

definition fiber_reset :: "fiber_id \<Rightarrow> 'c option \<Rightarrow> ('c, unit) fiber_prog" where
  "fiber_reset f cb s =
     (let x = fibers s f
      in if \<not> m_stack x then (Inl (Assert ''m_stack''), s)
         else if m_state x \<notin> {TERMINATED, EXCEPT, INIT}
         then (Inl (Assert ''m_state == TERM || m_state == EXCEPT || m_state == INIT''), s)
         else (Inr (), upd_fiber f
                (\<lambda>y. y\<lparr> m_cb := cb, m_ctx := Main_func f, m_state := INIT \<rparr>) s))"

text \<open>The current fiber; the first call on a thread makes its main fiber (at address \<open>fresh\<close>).\<close>

definition GetThis :: "fiber_id \<Rightarrow> ('c, fiber_id) fiber_prog" where
  "GetThis fresh s =
     (case t_fiber s of
        Some f \<Rightarrow> (Inr f, s)
      | None \<Rightarrow>
          (let s = Fiber_main fresh s
           in if t_fiber s \<noteq> Some fresh then (Inl (Assert ''t_fiber == main_fiber.get()''), s)
              else (Inr fresh, s\<lparr> t_threadFiber := Some fresh \<rparr>)))"

section \<open>Switching\<close>

text \<open>\<open>swapcontext(&from->m_ctx, &to->m_ctx)\<close>.\<close>

definition swapcontext :: "fiber_id \<Rightarrow> fiber_id \<Rightarrow> 'c fiber_thread \<Rightarrow> 'c fiber_thread" where
  "swapcontext from to s =
     (let s = upd_fiber from (\<lambda>x. x\<lparr> m_ctx := Suspended (owner (running s)) \<rparr>) s
      in s\<lparr> running := m_ctx (fibers s to) \<rparr>)"

definition fiber_call :: "fiber_id \<Rightarrow> ('c, unit) fiber_prog" where
  "fiber_call f s =
     (let s = set_state f EXEC (SetThis (Some f) s)
      in case t_threadFiber s of
           None \<Rightarrow> (Inl Null_pointer, s)
         | Some m \<Rightarrow> (Inr (), swapcontext m f s))"

definition fiber_back :: "fiber_id \<Rightarrow> ('c, unit) fiber_prog" where
  "fiber_back f s =
     (let s = SetThis (t_threadFiber s) s
      in case t_threadFiber s of
           None \<Rightarrow> (Inl Null_pointer, s)
         | Some m \<Rightarrow> (Inr (), swapcontext f m s))"

definition swapIn :: "fiber_id \<Rightarrow> ('c, unit) fiber_prog" where
  "swapIn f s0 =
     (let s = SetThis (Some f) s0
      in if get_state s f = EXEC then (Inl (Assert ''m_state != EXEC''), s)
         else let s = set_state f EXEC s
              in case t_scheduler_fiber s of
                   None \<Rightarrow> (Inl Null_pointer, s)
                 | Some m \<Rightarrow> (Inr (), swapcontext m f s))"

definition swapOut :: "fiber_id \<Rightarrow> ('c, unit) fiber_prog" where
  "swapOut f s =
     (let s = SetThis (t_scheduler_fiber s) s
      in case t_scheduler_fiber s of
           None \<Rightarrow> (Inl Null_pointer, s)
         | Some m \<Rightarrow> (Inr (), swapcontext f m s))"

definition YieldToReady :: "fiber_id \<Rightarrow> ('c, unit) fiber_prog" where
  "YieldToReady fresh = pbind (GetThis fresh) (\<lambda>cur s.
     if get_state s cur \<noteq> EXEC then (Inl (Assert ''cur->m_state == EXEC''), s)
     else swapOut cur (set_state cur READY s))"

definition YieldToHold :: "fiber_id \<Rightarrow> ('c, unit) fiber_prog" where
  "YieldToHold fresh = pbind (GetThis fresh) (\<lambda>cur s.
     if get_state s cur \<noteq> EXEC then (Inl (Assert ''cur->m_state == EXEC''), s)
     else swapOut cur (set_state cur HOLD s))"

text \<open>
  The two entry functions from the moment the callback is over, by returning (\<open>True\<close>) or with
  an exception. They give the processor away for good; the assertion behind that is never
  reached.
\<close>

definition finish_cb :: "bool \<Rightarrow> fiber_id \<Rightarrow> 'c fiber_thread \<Rightarrow> 'c fiber_thread" where
  "finish_cb returned cur s =
     (if returned then set_state cur TERMINATED (upd_fiber cur (\<lambda>x. x\<lparr> m_cb := None \<rparr>) s)
      else set_state cur EXCEPT s)"

definition MainFunc_end :: "fiber_id \<Rightarrow> bool \<Rightarrow> ('c, unit) fiber_prog" where
  "MainFunc_end fresh returned = pbind (GetThis fresh) (\<lambda>cur s.
     swapOut cur (finish_cb returned cur s))"

definition CallerMainFunc_end :: "fiber_id \<Rightarrow> bool \<Rightarrow> ('c, unit) fiber_prog" where
  "CallerMainFunc_end fresh returned = pbind (GetThis fresh) (\<lambda>cur s.
     fiber_back cur (finish_cb returned cur s))"

text \<open>The callback to run is the one the fiber was given; a null one throws at once.\<close>

definition cb_of :: "'c fiber_thread \<Rightarrow> fiber_id \<Rightarrow> 'c option" where
  "cb_of s f = m_cb (fibers s f)"

section \<open>The discipline of a scheduling thread\<close>

text \<open>
  The thread's current pointer names the fiber whose code runs; every other fiber's context
  holds code of that fiber, so switching to it continues that fiber; the scheduling fiber is
  always in state \<open>EXEC\<close>.
\<close>

definition in_control :: "fiber_id \<Rightarrow> 'c fiber_thread \<Rightarrow> bool" where
  "in_control m s \<longleftrightarrow>
     t_scheduler_fiber s = Some m \<and> t_fiber s = Some (owner (running s)) \<and>
     get_state s m = EXEC \<and>
     (\<forall>f. f \<noteq> owner (running s) \<longrightarrow> owner (m_ctx (fibers s f)) = f)"

lemma upd_fiber_simps [simp]:
  "fibers (upd_fiber f g s) = (fibers s)(f := g (fibers s f))"
  "t_fiber (upd_fiber f g s) = t_fiber s"
  "t_threadFiber (upd_fiber f g s) = t_threadFiber s"
  "t_scheduler_fiber (upd_fiber f g s) = t_scheduler_fiber s"
  "running (upd_fiber f g s) = running s"
  "s_fiber_id (upd_fiber f g s) = s_fiber_id s"
  "s_fiber_count (upd_fiber f g s) = s_fiber_count s"
  by (simp_all add: upd_fiber_def)

lemmas switch_defs = swapIn_def swapOut_def fiber_call_def fiber_back_def swapcontext_def
  set_state_def get_state_def SetThis_def GetThis_def in_control_def finish_cb_def

lemma swapIn_control:
  assumes "in_control m s" and "owner (running s) = m" and "f \<noteq> m" and "get_state s f \<noteq> EXEC"
  shows "\<exists>s'. swapIn f s = (Inr (), s') \<and> in_control m s' \<and> owner (running s') = f \<and>
    get_state s' f = EXEC \<and> m_ctx (fibers s' m) = Suspended m \<and>
    (\<forall>g. g = f \<or> get_state s' g = get_state s g)"
  using assms by (auto simp: switch_defs Let_def)

text \<open>Giving up the processor from a fiber the scheduler switched to.\<close>

lemma swapOut_control:
  assumes "in_control m s" and "owner (running s) = f" and "f \<noteq> m"
  shows "\<exists>s'. swapOut f s = (Inr (), s') \<and> in_control m s' \<and> owner (running s') = m \<and>
    m_ctx (fibers s' f) = Suspended f \<and> (\<forall>g. get_state s' g = get_state s g)"
  using assms by (auto simp: switch_defs Let_def)

lemma in_control_set_state:
  "in_control m s \<Longrightarrow> f \<noteq> m \<Longrightarrow> in_control m (set_state f st s)"
  by (auto simp: switch_defs)

lemma set_state_simps [simp]:
  "get_state (set_state f st s) g = (if g = f then st else get_state s g)"
  "running (set_state f st s) = running s"
  "t_fiber (set_state f st s) = t_fiber s"
  "t_scheduler_fiber (set_state f st s) = t_scheduler_fiber s"
  "m_ctx (fibers (set_state f st s) g) = m_ctx (fibers s g)"
  "m_cb (fibers (set_state f st s) g) = m_cb (fibers s g)"
  by (simp_all add: set_state_def get_state_def)

lemma GetThis_control:
  "in_control m s \<Longrightarrow> GetThis fresh s = (Inr (owner (running s)), s)"
  by (simp add: GetThis_def in_control_def)

lemma finish_cb_control:
  "in_control m s \<Longrightarrow> f \<noteq> m \<Longrightarrow> in_control m (finish_cb returned f s)"
  by (auto simp: switch_defs)

lemma finish_cb_simps [simp]:
  "running (finish_cb returned f s) = running s"
  "get_state (finish_cb returned f s) g =
    (if g = f then if returned then TERMINATED else EXCEPT else get_state s g)"
  "m_ctx (fibers (finish_cb returned f s) g) = m_ctx (fibers s g)"
  by (auto simp: finish_cb_def get_state_def set_state_def)

section \<open>Properties\<close>

text \<open>How the code of a fiber gives the processor back.\<close>

datatype way_out = To_hold | To_ready | Returns | Throws

fun leave :: "fiber_id \<Rightarrow> way_out \<Rightarrow> ('c, unit) fiber_prog" where
  "leave fresh To_hold = YieldToHold fresh"
| "leave fresh To_ready = YieldToReady fresh"
| "leave fresh Returns = MainFunc_end fresh True"
| "leave fresh Throws = MainFunc_end fresh False"

fun state_after :: "way_out \<Rightarrow> State" where
  "state_after To_hold = HOLD" | "state_after To_ready = READY"
| "state_after Returns = TERMINATED" | "state_after Throws = EXCEPT"

text \<open>
  C7. A round trip into a fiber: when the scheduling fiber runs and switches to another fiber
  that is not executing, that fiber runs, in state \<open>EXEC\<close> and as the current one; when it then
  yields, returns or throws, control is back in the scheduling fiber right behind the switch,
  the fiber is in the state its way out means, its own code is what its context resumes, and
  no other fiber's state has changed.
\<close>

theorem swap_round_trip:
  assumes "in_control m s" and "owner (running s) = m" and "f \<noteq> m" and "get_state s f \<noteq> EXEC"
  shows "\<exists>s1 s2. swapIn f s = (Inr (), s1) \<and> t_fiber s1 = Some f \<and> get_state s1 f = EXEC \<and>
    leave fresh way s1 = (Inr (), s2) \<and> in_control m s2 \<and> running s2 = Suspended m \<and>
    get_state s2 f = state_after way \<and> m_ctx (fibers s2 f) = Suspended f \<and>
    (\<forall>g. g = f \<or> get_state s2 g = get_state s g)"
proof -
  obtain s1 where s1: "swapIn f s = (Inr (), s1)" "in_control m s1" "owner (running s1) = f"
      "get_state s1 f = EXEC" "m_ctx (fibers s1 m) = Suspended m"
      "\<And>g. g = f \<or> get_state s1 g = get_state s g"
    using swapIn_control [OF assms] by blast
  have exec: "t_fiber s1 = Some f" using s1(2,3) by (simp add: in_control_def)
  define s1' where "s1' =
    (case way of To_hold \<Rightarrow> set_state f HOLD s1 | To_ready \<Rightarrow> set_state f READY s1
     | Returns \<Rightarrow> finish_cb True f s1 | Throws \<Rightarrow> finish_cb False f s1)"
  have s1': "in_control m s1'" "owner (running s1') = f" "get_state s1' f = state_after way"
      "\<And>g. g = f \<or> get_state s1' g = get_state s1 g" "m_ctx (fibers s1' m) = Suspended m"
    using s1 assms(3)
    by (auto simp: s1'_def in_control_set_state finish_cb_control
        split: way_out.split)
  obtain s2 where s2: "swapOut f s1' = (Inr (), s2)" "in_control m s2" "owner (running s2) = m"
      "m_ctx (fibers s2 f) = Suspended f" "\<And>g. get_state s2 g = get_state s1' g"
    using swapOut_control [OF s1'(1,2) assms(3)] by blast
  have "leave fresh way s1 = swapOut f s1'"
    using s1(4) GetThis_control [OF s1(2), of fresh] s1(3)
    by (cases way) (simp_all add: s1'_def YieldToHold_def YieldToReady_def MainFunc_end_def
        prog_simps)
  moreover have "running s2 = Suspended m"
    using s2(1) s1'(1,5) assms(3)
    by (auto simp: swapOut_def swapcontext_def in_control_def Let_def SetThis_def)
  ultimately show ?thesis using s1 s1' s2 exec by metis
qed

definition sample_thread :: "nat fiber_thread" where
  "sample_thread =
     (Fiber_new 1 (Some 7) 0 False
       (Fiber_main 0
         \<lparr> fibers = (\<lambda>f. \<lparr> m_id = 0, m_stacksize = 0, m_state = INIT, m_ctx = Main_func f,
                           m_stack = False, m_cb = None \<rparr>),
           t_fiber = None, t_threadFiber = Some 0, t_scheduler_fiber = Some 0,
           running = Suspended 0, s_fiber_id = 0, s_fiber_count = 0 \<rparr>))"

theorem swap_round_trip_witness:
  "in_control 0 sample_thread \<and>
   (\<exists>s1 s2. swapIn 1 sample_thread = (Inr (), s1) \<and> leave 9 To_ready s1 = (Inr (), s2) \<and>
      get_state s2 1 = READY \<and> running s2 = Suspended 0)"
proof -
  have "in_control 0 sample_thread" "owner (running sample_thread) = 0"
    "get_state sample_thread 1 \<noteq> EXEC"
    by (simp_all add: sample_thread_def in_control_def Fiber_new_def Fiber_main_def Let_def
        SetThis_def get_state_def)
  with swap_round_trip [of 0 sample_thread 1 9 To_ready] show ?thesis by auto
qed

text \<open>
  \<open>reset\<close> accepts exactly the fibers with a stack that have not started or have ended,
  aborting on all others without a change, and a reset fiber starts its new function from the
  entry when it is next switched to.
\<close>

theorem reset_restarts:
  assumes "in_control m s" and "owner (running s) = m" and "f \<noteq> m"
  shows "(if m_stack (fibers s f) \<and> get_state s f \<in> {INIT, TERMINATED, EXCEPT}
    then \<exists>s1 s2. fiber_reset f cb s = (Inr (), s1) \<and> get_state s1 f = INIT \<and>
           swapIn f s1 = (Inr (), s2) \<and> running s2 = Main_func f \<and> cb_of s2 f = cb
    else \<exists>e. fiber_reset f cb s = (Inl (Assert e), s))"
  using assms by (auto simp: fiber_reset_def switch_defs cb_of_def Let_def)

theorem reset_restarts_witness:
  "\<exists>s1 s2. fiber_reset 1 (Some 8) sample_thread = (Inr (), s1) \<and>
     swapIn 1 s1 = (Inr (), s2) \<and> running s2 = Main_func 1 \<and> cb_of s2 1 = Some 8"
proof -
  have "in_control 0 sample_thread" "owner (running sample_thread) = 0"
    "m_stack (fibers sample_thread 1)" "get_state sample_thread 1 = INIT"
    by (simp_all add: sample_thread_def in_control_def Fiber_new_def Fiber_main_def Let_def
        SetThis_def get_state_def)
  with reset_restarts [of 0 sample_thread 1 "Some 8"] show ?thesis by auto
qed

end
