(* ===== verification/Scheduler.thy ===== *)
theory Scheduler
  imports Fiber "HOL-Library.Multiset"
begin

text \<open>
  The N-to-M scheduler (\<open>scheduler.h\<close>, \<open>scheduler.cc\<close>): the shared task queue and counters, the
  operations on them, and the loop of \<open>Scheduler::run\<close> cut into the steps that run without
  another thread coming between (the critical section that picks a task, the switch into it,
  the code behind the switch). The counters are integers: \<open>size_t\<close> would wrap below zero, which
  the invariant of \<open>Scheduler_Props\<close> excludes.
\<close>

section \<open>Data\<close>

record 'c FiberAndThread =
  ft_fiber :: "fiber_id option"
  ft_cb :: "'c option"
  ft_thread :: int

record 'c scheduler =
  m_threads :: "int list"
  m_fibers :: "'c FiberAndThread list"
  m_rootFiber :: "fiber_id option"
  m_name :: string
  m_threadIds :: "int list"
  m_threadCount :: nat
  m_activeThreadCount :: int
  m_idleThreadCount :: int
  m_stopping :: bool
  m_autoStop :: bool
  m_rootThread :: int
  tickles :: nat

text \<open>\<open>tickles\<close> counts the calls of the virtual \<open>tickle\<close>.\<close>

definition tickle :: "'c scheduler \<Rightarrow> 'c scheduler" where
  "tickle s = s\<lparr> tickles := tickles s + 1 \<rparr>"

definition ft_of_fiber :: "fiber_id option \<Rightarrow> int \<Rightarrow> 'c FiberAndThread" where
  "ft_of_fiber f thr = \<lparr> ft_fiber = f, ft_cb = None, ft_thread = thr \<rparr>"

definition ft_of_cb :: "'c option \<Rightarrow> int \<Rightarrow> 'c FiberAndThread" where
  "ft_of_cb cb thr = \<lparr> ft_fiber = None, ft_cb = cb, ft_thread = thr \<rparr>"

definition ft_null :: "'c FiberAndThread" where
  "ft_null = \<lparr> ft_fiber = None, ft_cb = None, ft_thread = - 1 \<rparr>"

definition ft_valid :: "'c FiberAndThread \<Rightarrow> bool" where
  "ft_valid ft \<longleftrightarrow> ft_fiber ft \<noteq> None \<or> ft_cb ft \<noteq> None"

section \<open>Scheduling\<close>

definition scheduleNoLock :: "'c FiberAndThread \<Rightarrow> 'c scheduler \<Rightarrow> bool \<times> 'c scheduler" where
  "scheduleNoLock ft s =
     (m_fibers s = [], if ft_valid ft then s\<lparr> m_fibers := m_fibers s @ [ft] \<rparr> else s)"

definition schedule :: "'c FiberAndThread \<Rightarrow> 'c scheduler \<Rightarrow> 'c scheduler" where
  "schedule ft s =
     (let (need_tickle, s) = scheduleNoLock ft s in if need_tickle then tickle s else s)"

fun schedule_loop :: "'c FiberAndThread list \<Rightarrow> bool \<Rightarrow> 'c scheduler \<Rightarrow> bool \<times> 'c scheduler" where
  "schedule_loop [] need_tickle s = (need_tickle, s)"
| "schedule_loop (ft # fts) need_tickle s =
     (let (b, s) = scheduleNoLock ft s in schedule_loop fts (b \<or> need_tickle) s)"

definition schedule_batch :: "'c FiberAndThread list \<Rightarrow> 'c scheduler \<Rightarrow> 'c scheduler" where
  "schedule_batch fts s =
     (let (need_tickle, s) = schedule_loop fts False s in if need_tickle then tickle s else s)"

definition hasIdleThreads :: "'c scheduler \<Rightarrow> bool" where
  "hasIdleThreads s \<longleftrightarrow> 0 < m_idleThreadCount s"

definition stopping :: "'c scheduler \<Rightarrow> bool" where
  "stopping s \<longleftrightarrow> m_autoStop s \<and> m_stopping s \<and> m_fibers s = [] \<and> m_activeThreadCount s = 0"

section \<open>Start and stop\<close>

text \<open>
  The constructor, on thread \<open>self\<close> whose current scheduler is \<open>this_sched\<close> (null for none);
  \<open>root\<close> is the address of the root fiber it makes when the caller's thread is used.
\<close>

definition Scheduler_new ::
  "int \<Rightarrow> 'i option \<Rightarrow> fiber_id \<Rightarrow> nat \<Rightarrow> bool \<Rightarrow> string \<Rightarrow> fiber_error + 'c scheduler" where
  "Scheduler_new self this_sched root threads use_caller name =
     (let s = \<lparr> m_threads = [], m_fibers = [], m_rootFiber = None, m_name = name,
                m_threadIds = [], m_threadCount = 0, m_activeThreadCount = 0,
                m_idleThreadCount = 0, m_stopping = True, m_autoStop = False,
                m_rootThread = 0, tickles = 0 \<rparr>
      in if threads = 0 then Inl (Assert ''threads > 0'')
         else if use_caller then
           (if this_sched \<noteq> None then Inl (Assert ''GetThis() == nullptr'')
            else Inr (s\<lparr> m_rootFiber := Some root, m_rootThread := self, m_threadIds := [self],
                        m_threadCount := threads - 1 \<rparr>))
         else Inr (s\<lparr> m_rootThread := - 1, m_threadCount := threads \<rparr>))"

text \<open>\<open>tids\<close> are the ids of the threads that are made.\<close>

definition start :: "int list \<Rightarrow> ('c scheduler, fiber_error, unit) prog" where
  "start tids s =
     (if \<not> m_stopping s then (Inr (), s)
      else let s = s\<lparr> m_stopping := False \<rparr>
           in if m_threads s \<noteq> [] then (Inl (Assert ''m_threads.empty()''), s)
              else let ts = take (m_threadCount s) tids
                   in (Inr (), s\<lparr> m_threads := ts, m_threadIds := m_threadIds s @ ts \<rparr>))"

text \<open>
  \<open>stop\<close>, in the class whose virtual \<open>stopping\<close> and \<open>tickle\<close> are \<open>stopp\<close> and \<open>tick\<close>.
  \<open>on_this\<close> says whether the thread's current scheduler is this one, \<open>root_state\<close> is the root
  fiber's state, and \<open>call_root\<close> is what happens to the scheduler while the root fiber runs the
  loop. The result lists the threads joined.
\<close>

definition stop ::
  "('c scheduler \<Rightarrow> bool) \<Rightarrow> ('c scheduler \<Rightarrow> 'c scheduler) \<Rightarrow> bool \<Rightarrow> State \<Rightarrow>
   ('c scheduler \<Rightarrow> 'c scheduler) \<Rightarrow> ('c scheduler, fiber_error, int list) prog" where
  "stop stopp tick on_this root_state call_root s =
     (let s = s\<lparr> m_autoStop := True \<rparr>;
          alone = (m_rootFiber s \<noteq> None \<and> m_threadCount s = 0 \<and> root_state \<in> {TERMINATED, INIT});
          s = (if alone then s\<lparr> m_stopping := True \<rparr> else s)
      in if alone \<and> stopp s then (Inr [], s)
         else if m_rootThread s \<noteq> - 1 \<and> \<not> on_this then (Inl (Assert ''GetThis() == this''), s)
         else if m_rootThread s = - 1 \<and> on_this then (Inl (Assert ''GetThis() != this''), s)
         else let s = s\<lparr> m_stopping := True \<rparr>;
                  s = (tick ^^ m_threadCount s) s;
                  s = (if m_rootFiber s \<noteq> None then tick s else s);
                  s = (if m_rootFiber s \<noteq> None \<and> \<not> stopp s then call_root s else s)
              in (Inr (m_threads s), s\<lparr> m_threads := [] \<rparr>))"

section \<open>Picking a task\<close>

text \<open>
  The scan of the queue in the loop's critical section: the task taken, the queue that is left
  and whether other threads are to be tickled.
\<close>

fun pick ::
  "int \<Rightarrow> (fiber_id \<Rightarrow> State) \<Rightarrow> 'c FiberAndThread list \<Rightarrow> bool \<Rightarrow>
   fiber_error + ('c FiberAndThread option \<times> 'c FiberAndThread list \<times> bool)" where
  "pick self st [] tickle_me = Inr (None, [], tickle_me)"
| "pick self st (it # its) tickle_me =
     (if ft_thread it \<noteq> - 1 \<and> ft_thread it \<noteq> self then
        (case pick self st its True of
           Inl e \<Rightarrow> Inl e
         | Inr (r, rest, t) \<Rightarrow> Inr (r, it # rest, t))
      else if \<not> ft_valid it then Inl (Assert ''it->fiber || it->cb'')
      else if (case ft_fiber it of Some f \<Rightarrow> st f = EXEC | None \<Rightarrow> False) then
        (case pick self st its tickle_me of
           Inl e \<Rightarrow> Inl e
         | Inr (r, rest, t) \<Rightarrow> Inr (r, it # rest, t))
      else Inr (Some it, its, tickle_me \<or> its \<noteq> []))"

section \<open>The loop of run\<close>

text \<open>
  Where a worker thread stands: at the top of the loop, behind the critical section with the
  task taken (if any), switched into a fiber, a function's fiber or the idle fiber, on the way
  back out of one (the fiber has set its state but the switch and the code behind it are still
  to come), or done.
\<close>

datatype 'c pc =
    Top
  | Picked "'c FiberAndThread option"
  | In_fiber fiber_id
  | In_cb fiber_id
  | In_idle
  | Back_fiber fiber_id
  | Back_cb fiber_id
  | Back_idle
  | Ended

record 'c worker =
  w_tid :: int
  w_pc :: "'c pc"
  w_cb_fiber :: "fiber_id option"
  w_idle :: fiber_id

text \<open>
  The whole system: the scheduler, the state and function of every fiber, the workers, and two
  logs: the tasks ever put in the queue and those dealt with (switched into, or dropped because
  their fiber has ended), with the thread that did.
\<close>

record 'c sched_sys =
  sch :: "'c scheduler"
  fstate :: "fiber_id \<Rightarrow> State"
  ffun :: "fiber_id \<Rightarrow> 'c option"
  workers :: "'c worker list"
  queued :: "'c FiberAndThread list"
  handled :: "(int \<times> 'c FiberAndThread) list"

definition upd_worker :: "nat \<Rightarrow> ('c worker \<Rightarrow> 'c worker) \<Rightarrow> 'c sched_sys \<Rightarrow> 'c sched_sys" where
  "upd_worker i f y = y\<lparr> workers := (workers y)[i := f (workers y ! i)] \<rparr>"

definition set_pc :: "nat \<Rightarrow> 'c pc \<Rightarrow> 'c sched_sys \<Rightarrow> 'c sched_sys" where
  "set_pc i p = upd_worker i (\<lambda>w. w\<lparr> w_pc := p \<rparr>)"

definition set_fstate :: "fiber_id \<Rightarrow> State \<Rightarrow> 'c sched_sys \<Rightarrow> 'c sched_sys" where
  "set_fstate f st y = y\<lparr> fstate := (fstate y)(f := st) \<rparr>"

definition add_active :: "int \<Rightarrow> 'c sched_sys \<Rightarrow> 'c sched_sys" where
  "add_active k y = y\<lparr> sch := (sch y)\<lparr> m_activeThreadCount := m_activeThreadCount (sch y) + k \<rparr> \<rparr>"

definition add_idle :: "int \<Rightarrow> 'c sched_sys \<Rightarrow> 'c sched_sys" where
  "add_idle k y = y\<lparr> sch := (sch y)\<lparr> m_idleThreadCount := m_idleThreadCount (sch y) + k \<rparr> \<rparr>"

definition schedule_sys :: "'c FiberAndThread \<Rightarrow> 'c sched_sys \<Rightarrow> 'c sched_sys" where
  "schedule_sys ft y =
     y\<lparr> sch := schedule ft (sch y), queued := queued y @ (if ft_valid ft then [ft] else []) \<rparr>"

text \<open>The critical section and the tickle behind it.\<close>

definition run_pick :: "nat \<Rightarrow> 'c sched_sys \<Rightarrow> fiber_error + 'c sched_sys" where
  "run_pick i y =
     (case pick (w_tid (workers y ! i)) (fstate y) (m_fibers (sch y)) False of
        Inl e \<Rightarrow> Inl e
      | Inr (r, rest, tickle_me) \<Rightarrow>
          (let y = y\<lparr> sch := (sch y)\<lparr> m_fibers := rest \<rparr> \<rparr>;
               y = (if r = None then y else add_active 1 y);
               y = (if tickle_me then y\<lparr> sch := tickle (sch y) \<rparr> else y)
           in Inr (set_pc i (Picked r) y)))"

text \<open>\<open>swapIn\<close> as it shows in the states.\<close>

definition enter :: "fiber_id \<Rightarrow> 'c sched_sys \<Rightarrow> fiber_error + 'c sched_sys" where
  "enter f y =
     (if fstate y f = EXEC then Inl (Assert ''m_state != EXEC'') else Inr (set_fstate f EXEC y))"

text \<open>\<open>cb_fiber->reset(cb)\<close> or a new fiber, which is at the address \<open>fresh\<close>.\<close>

definition make_cb_fiber ::
  "nat \<Rightarrow> fiber_id \<Rightarrow> 'c option \<Rightarrow> 'c sched_sys \<Rightarrow> fiber_error + (fiber_id \<times> 'c sched_sys)" where
  "make_cb_fiber i fresh cb y =
     (case w_cb_fiber (workers y ! i) of
        Some f \<Rightarrow>
          (if fstate y f \<in> {TERMINATED, EXCEPT, INIT}
           then Inr (f, set_fstate f INIT (y\<lparr> ffun := (ffun y)(f := cb) \<rparr>))
           else Inl (Assert ''m_state == TERM || m_state == EXCEPT || m_state == INIT''))
      | None \<Rightarrow>
          Inr (fresh, upd_worker i (\<lambda>w. w\<lparr> w_cb_fiber := Some fresh \<rparr>)
                        (set_fstate fresh INIT (y\<lparr> ffun := (ffun y)(fresh := cb) \<rparr>))))"

definition log_start :: "nat \<Rightarrow> 'c FiberAndThread \<Rightarrow> 'c sched_sys \<Rightarrow> 'c sched_sys" where
  "log_start i ft y = y\<lparr> handled := handled y @ [(w_tid (workers y ! i), ft)] \<rparr>"

text \<open>From behind the critical section to the switch.\<close>

definition run_dispatch :: "nat \<Rightarrow> fiber_id \<Rightarrow> 'c FiberAndThread option \<Rightarrow> 'c sched_sys \<Rightarrow>
    fiber_error + 'c sched_sys" where
  "run_dispatch i fresh r y =
     (let ft = (case r of Some ft \<Rightarrow> ft | None \<Rightarrow> ft_null);
          idle_fiber = w_idle (workers y ! i)
      in case ft_fiber ft of
           Some f \<Rightarrow>
             (if fstate y f \<noteq> TERMINATED \<and> fstate y f \<noteq> EXCEPT then
                (case enter f (log_start i ft y) of
                   Inl e \<Rightarrow> Inl e | Inr y \<Rightarrow> Inr (set_pc i (In_fiber f) y))
              else if ft_cb ft = None then Inr (set_pc i Top (add_active (- 1) (log_start i ft y)))
              else (case make_cb_fiber i fresh (ft_cb ft) (log_start i ft y) of
                      Inl e \<Rightarrow> Inl e
                    | Inr (g, y) \<Rightarrow>
                        (case enter g y of Inl e \<Rightarrow> Inl e | Inr y \<Rightarrow> Inr (set_pc i (In_cb g) y))))
         | None \<Rightarrow>
             (if ft_cb ft \<noteq> None then
                (case make_cb_fiber i fresh (ft_cb ft) (log_start i ft y) of
                   Inl e \<Rightarrow> Inl e
                 | Inr (g, y) \<Rightarrow>
                     (case enter g y of Inl e \<Rightarrow> Inl e | Inr y \<Rightarrow> Inr (set_pc i (In_cb g) y)))
              else if r \<noteq> None then Inr (set_pc i Top (add_active (- 1) y))
              else if fstate y idle_fiber = TERMINATED then Inr (set_pc i Ended y)
              else (case enter idle_fiber (add_idle 1 y) of
                      Inl e \<Rightarrow> Inl e | Inr y \<Rightarrow> Inr (set_pc i In_idle y))))"

text \<open>The code behind the switches, once the fiber has given the processor back.\<close>

definition run_back :: "nat \<Rightarrow> 'c sched_sys \<Rightarrow> fiber_error + 'c sched_sys" where
  "run_back i y =
     (case w_pc (workers y ! i) of
        Back_fiber f \<Rightarrow>
          (let y = add_active (- 1) y;
               y = (if fstate y f = READY then schedule_sys (ft_of_fiber (Some f) (- 1)) y
                    else if fstate y f \<noteq> TERMINATED \<and> fstate y f \<noteq> EXCEPT then set_fstate f HOLD y
                    else y)
           in Inr (set_pc i Top y))
      | Back_cb f \<Rightarrow>
          (let y = add_active (- 1) y
           in if fstate y f = READY then
                Inr (set_pc i Top (upd_worker i (\<lambda>w. w\<lparr> w_cb_fiber := None \<rparr>)
                      (schedule_sys (ft_of_fiber (Some f) (- 1)) y)))
              else if fstate y f = EXCEPT \<or> fstate y f = TERMINATED then
                (case make_cb_fiber i f None y of
                   Inl e \<Rightarrow> Inl e | Inr (_, y) \<Rightarrow> Inr (set_pc i Top y))
              else Inr (set_pc i Top (upd_worker i (\<lambda>w. w\<lparr> w_cb_fiber := None \<rparr>)
                         (set_fstate f HOLD y))))
      | Back_idle \<Rightarrow>
          (let y = add_idle (- 1) y; f = w_idle (workers y ! i);
               y = (if fstate y f \<noteq> TERMINATED \<and> fstate y f \<noteq> EXCEPT then set_fstate f HOLD y else y)
           in Inr (set_pc i Top y))
      | _ \<Rightarrow> Inr y)"

section \<open>Runs\<close>

fun fiber_of_pc :: "'c worker \<Rightarrow> fiber_id option" where
  "fiber_of_pc w =
     (case w_pc w of In_fiber f \<Rightarrow> Some f | In_cb f \<Rightarrow> Some f | In_idle \<Rightarrow> Some (w_idle w) | _ \<Rightarrow> None)"

fun leaving :: "'c pc \<Rightarrow> 'c pc" where
  "leaving (In_fiber f) = Back_fiber f"
| "leaving (In_cb f) = Back_cb f"
| "leaving In_idle = Back_idle"
| "leaving p = p"

definition going_back :: "'c pc \<Rightarrow> bool" where
  "going_back p = (case p of Back_fiber _ \<Rightarrow> True | Back_cb _ \<Rightarrow> True | Back_idle \<Rightarrow> True | _ \<Rightarrow> False)"

text \<open>
  One step of one worker, or of a fiber's own code: any code, on whatever thread, may schedule
  a task at any time (\<open>s_schedule\<close>); a running fiber leaves with a state of its choice
  (\<open>s_leave\<close>: the assignment in \<open>YieldToHold\<close>, \<open>YieldToReady\<close> or the entry function), and then
  its worker goes on behind the switch (\<open>s_back\<close>), other workers possibly coming between.
\<close>

inductive sched_step :: "'c sched_sys \<Rightarrow> 'c sched_sys \<Rightarrow> bool" where
  s_schedule: "sched_step y (schedule_sys ft y)"
| s_pick: "i < length (workers y) \<Longrightarrow> w_pc (workers y ! i) = Top \<Longrightarrow> run_pick i y = Inr y' \<Longrightarrow>
    sched_step y y'"
| s_dispatch: "i < length (workers y) \<Longrightarrow> w_pc (workers y ! i) = Picked r \<Longrightarrow>
    run_dispatch i fresh r y = Inr y' \<Longrightarrow> sched_step y y'"
| s_leave: "i < length (workers y) \<Longrightarrow> fiber_of_pc (workers y ! i) = Some f \<Longrightarrow>
    st \<in> {HOLD, READY, TERMINATED, EXCEPT} \<Longrightarrow>
    sched_step y (set_pc i (leaving (w_pc (workers y ! i))) (set_fstate f st y))"
| s_back: "i < length (workers y) \<Longrightarrow> going_back (w_pc (workers y ! i)) \<Longrightarrow>
    run_back i y = Inr y' \<Longrightarrow> sched_step y y'"

definition sched_init :: "'c scheduler \<Rightarrow> (int \<times> fiber_id) list \<Rightarrow> 'c sched_sys" where
  "sched_init s ws =
     \<lparr> sch = s, fstate = (\<lambda>_. INIT), ffun = (\<lambda>_. None),
       workers = map (\<lambda>(t, f). \<lparr> w_tid = t, w_pc = Top, w_cb_fiber = None, w_idle = f \<rparr>) ws,
       queued = m_fibers s, handled = [] \<rparr>"

end
