(* ===== verification/IOManager.thy ===== *)
theory IOManager
  imports Timer Scheduler
begin

unbundle bit_operations_syntax

text \<open>
  The epoll scheduler (\<open>iomanager.h\<close>, \<open>iomanager.cc\<close>): the contexts of the file descriptors
  with what waits on each for reading and writing, the operations on them and the rounds of the
  idle fiber. \<open>epoll_ctl\<close> belongs to the operating system: it is the parameter \<open>ctl\<close>, which
  acts on a kernel state of any type. The schedulers of the process are numbered; a context
  names the one its waiter goes back to.
\<close>

section \<open>Data\<close>

type_synonym ev = "32 word"

abbreviation (input) NONE :: ev where "NONE \<equiv> 0"
abbreviation (input) READ :: ev where "READ \<equiv> 1"
abbreviation (input) WRITE :: ev where "WRITE \<equiv> 4"
abbreviation (input) EPOLLIN :: ev where "EPOLLIN \<equiv> 1"
abbreviation (input) EPOLLOUT :: ev where "EPOLLOUT \<equiv> 4"
abbreviation (input) EPOLLERR :: ev where "EPOLLERR \<equiv> 8"
abbreviation (input) EPOLLHUP :: ev where "EPOLLHUP \<equiv> 16"
abbreviation (input) EPOLLET :: ev where "EPOLLET \<equiv> 2147483648"

datatype epoll_op = EPOLL_CTL_ADD | EPOLL_CTL_MOD | EPOLL_CTL_DEL

type_synonym sched_id = nat

record 'f EventContext =
  ec_scheduler :: "sched_id option"
  ec_fiber :: "fiber_id option"
  ec_cb :: "'f option"

record 'f FdContext =
  fc_read :: "'f EventContext"
  fc_write :: "'f EventContext"
  fc_fd :: nat
  fc_events :: ev

text \<open>
  Functions to run are of type \<open>('c, 'w) callback\<close>, as the timers of the manager hand them out.
  \<open>pipe\<close> is the number of bytes in the tickle pipe.
\<close>

record ('c, 'w, 'k) iomanager =
  m_fdContexts :: "('c, 'w) callback FdContext list"
  m_pendingEventCount :: "64 word"
  scheds :: "sched_id \<Rightarrow> ('c, 'w) callback scheduler"
  io_timers :: "('c, 'w) timers"
  kernel :: 'k
  pipe :: nat

datatype io_error = Io_assert string | Out_of_bounds | Null_scheduler

type_synonym ('c, 'w, 'k, 'a) io_prog = "(('c, 'w, 'k) iomanager, io_error, 'a) prog"

type_synonym 'k epoll_ctl = "epoll_op \<Rightarrow> int \<Rightarrow> ev \<Rightarrow> 'k \<Rightarrow> int \<times> 'k"

definition EventContext_new :: "'f EventContext" where
  "EventContext_new = \<lparr> ec_scheduler = None, ec_fiber = None, ec_cb = None \<rparr>"

definition FdContext_new :: "nat \<Rightarrow> 'f FdContext" where
  "FdContext_new i =
     \<lparr> fc_read = EventContext_new, fc_write = EventContext_new, fc_fd = i, fc_events = NONE \<rparr>"

section \<open>The context of a descriptor\<close>

definition getContext :: "ev \<Rightarrow> 'f FdContext \<Rightarrow> io_error + 'f EventContext" where
  "getContext event x =
     (if event = READ then Inr (fc_read x)
      else if event = WRITE then Inr (fc_write x)
      else Inl (Io_assert ''getContext''))"

text \<open>Writing through the reference that \<open>getContext\<close> returns.\<close>

definition setContext :: "ev \<Rightarrow> 'f EventContext \<Rightarrow> 'f FdContext \<Rightarrow> 'f FdContext" where
  "setContext event c x =
     (if event = READ then x\<lparr> fc_read := c \<rparr> else if event = WRITE then x\<lparr> fc_write := c \<rparr> else x)"

definition resetContext :: "'f EventContext \<Rightarrow> 'f EventContext" where
  "resetContext c = c\<lparr> ec_scheduler := None, ec_fiber := None, ec_cb := None \<rparr>"

definition ctx_at :: "nat \<Rightarrow> ('c, 'w, 'k) iomanager \<Rightarrow> ('c, 'w) callback FdContext" where
  "ctx_at i m = m_fdContexts m ! i"

definition put_ctx :: "nat \<Rightarrow> ('c, 'w) callback FdContext \<Rightarrow> ('c, 'w, 'k) iomanager \<Rightarrow> ('c, 'w, 'k) iomanager" where
  "put_ctx i x m = m\<lparr> m_fdContexts := (m_fdContexts m)[i := x] \<rparr>"

definition schedule_on ::
  "sched_id \<Rightarrow> ('c, 'w) callback FiberAndThread \<Rightarrow> ('c, 'w, 'k) iomanager \<Rightarrow> ('c, 'w, 'k) iomanager" where
  "schedule_on sid ft m = m\<lparr> scheds := (scheds m)(sid := schedule ft (scheds m sid)) \<rparr>"

text \<open>
  \<open>schedule(&ctx.cb)\<close> and \<open>schedule(&ctx.fiber)\<close> swap the waiter out of the context.
\<close>

definition triggerEvent :: "nat \<Rightarrow> ev \<Rightarrow> ('c, 'w, 'k, unit) io_prog" where
  "triggerEvent i event m =
     (let x = ctx_at i m
      in if fc_events x AND event = 0 then (Inl (Io_assert ''events & event''), m)
         else let x = x\<lparr> fc_events := fc_events x AND NOT event \<rparr>
              in case getContext event x of
                   Inl e \<Rightarrow> (Inl e, put_ctx i x m)
                 | Inr ctx \<Rightarrow>
                     (case ec_scheduler ctx of
                        None \<Rightarrow> (Inl Null_scheduler, put_ctx i x m)
                      | Some sid \<Rightarrow>
                          (if ec_cb ctx \<noteq> None
                           then (Inr (), put_ctx i (setContext event
                                  (ctx\<lparr> ec_cb := None, ec_scheduler := None \<rparr>) x)
                                  (schedule_on sid (ft_of_cb (ec_cb ctx) (- 1)) m))
                           else (Inr (), put_ctx i (setContext event
                                  (ctx\<lparr> ec_fiber := None, ec_scheduler := None \<rparr>) x)
                                  (schedule_on sid (ft_of_fiber (ec_fiber ctx) (- 1)) m)))))"

section \<open>The table of contexts\<close>

text \<open>\<open>vector::resize\<close>, then a new context in each empty place. A smaller size drops contexts.\<close>

definition resized :: "nat \<Rightarrow> 'f FdContext list \<Rightarrow> 'f FdContext list" where
  "resized sz xs = take sz xs @ map FdContext_new [length xs..<sz]"

definition contextResize :: "nat \<Rightarrow> ('c, 'w, 'k) iomanager \<Rightarrow> ('c, 'w, 'k) iomanager" where
  "contextResize sz m = m\<lparr> m_fdContexts := resized sz (m_fdContexts m) \<rparr>"

text \<open>
  Finding the context of a descriptor for \<open>addEvent\<close>. \<open>fd * 1.5\<close> is computed in floating point
  and truncated, which is exact for an \<open>int\<close>. A negative descriptor indexes before the table.
\<close>

definition find_or_grow :: "int \<Rightarrow> ('c, 'w, 'k, nat) io_prog" where
  "find_or_grow fd m =
     (if int (length (m_fdContexts m)) > fd
      then (if fd < 0 then (Inl Out_of_bounds, m) else (Inr (nat fd), m))
      else (Inr (nat fd), contextResize (nat (fd * 3 div 2)) m))"

text \<open>
  \<open>addEvent\<close>, called by a fiber \<open>f\<close> in state \<open>st\<close> on a thread whose current scheduler is \<open>this\<close>.
\<close>

definition addEvent ::
  "'k epoll_ctl \<Rightarrow> sched_id option \<Rightarrow> fiber_id \<times> State \<Rightarrow> int \<Rightarrow> ev \<Rightarrow> ('c, 'w) callback option \<Rightarrow>
   ('c, 'w, 'k, int) io_prog" where
  "addEvent ctl this cur fd event cb =
     pbind (find_or_grow fd) (\<lambda>i m.
       let x = ctx_at i m
       in if fc_events x AND event \<noteq> 0 then (Inl (Io_assert ''!(fd_ctx->events & event)''), m)
          else let op = (if fc_events x \<noteq> 0 then EPOLL_CTL_MOD else EPOLL_CTL_ADD);
                   (rt, k) = ctl op fd (EPOLLET OR fc_events x OR event) (kernel m);
                   m = m\<lparr> kernel := k \<rparr>
               in if rt \<noteq> 0 then (Inr (- 1), m)
                  else let m = m\<lparr> m_pendingEventCount := m_pendingEventCount m + 1 \<rparr>;
                           x = x\<lparr> fc_events := fc_events x OR event \<rparr>;
                           m = put_ctx i x m
                       in case getContext event x of
                            Inl e \<Rightarrow> (Inl e, m)
                          | Inr c \<Rightarrow>
                              (if ec_scheduler c \<noteq> None \<or> ec_fiber c \<noteq> None \<or> ec_cb c \<noteq> None
                               then (Inl (Io_assert ''!event_ctx.scheduler && !event_ctx.fiber && !event_ctx.cb''), m)
                               else let c = c\<lparr> ec_scheduler := this \<rparr>
                                    in if cb \<noteq> None
                                       then (Inr 0, put_ctx i (setContext event (c\<lparr> ec_cb := cb \<rparr>) x) m)
                                       else let m = put_ctx i (setContext event (c\<lparr> ec_fiber := Some (fst cur) \<rparr>) x) m
                                            in if snd cur \<noteq> EXEC then (Inl (Io_assert ''state''), m)
                                               else (Inr 0, m)))"

text \<open>
  What \<open>delEvent\<close>, \<open>cancelEvent\<close> and \<open>cancelAll\<close> share: the context's index, or none when the
  descriptor is beyond the table.
\<close>

definition find_ctx :: "int \<Rightarrow> ('c, 'w, 'k, nat option) io_prog" where
  "find_ctx fd m =
     (if int (length (m_fdContexts m)) \<le> fd then (Inr None, m)
      else if fd < 0 then (Inl Out_of_bounds, m) else (Inr (Some (nat fd)), m))"

text \<open>The removal of one event from the epoll set: success means \<open>epoll_ctl\<close> returned 0.\<close>

definition ctl_remove ::
  "'k epoll_ctl \<Rightarrow> int \<Rightarrow> ev \<Rightarrow> ('c, 'w, 'k) iomanager \<Rightarrow> bool \<times> ('c, 'w, 'k) iomanager" where
  "ctl_remove ctl fd new_events m =
     (let op = (if new_events \<noteq> 0 then EPOLL_CTL_MOD else EPOLL_CTL_DEL);
          (rt, k) = ctl op fd (EPOLLET OR new_events) (kernel m)
      in (rt = 0, m\<lparr> kernel := k \<rparr>))"

definition drop_pending :: "('c, 'w, 'k) iomanager \<Rightarrow> ('c, 'w, 'k) iomanager" where
  "drop_pending m = m\<lparr> m_pendingEventCount := m_pendingEventCount m - 1 \<rparr>"

definition delEvent :: "'k epoll_ctl \<Rightarrow> int \<Rightarrow> ev \<Rightarrow> ('c, 'w, 'k, bool) io_prog" where
  "delEvent ctl fd event =
     pbind (find_ctx fd) (\<lambda>r m. case r of
       None \<Rightarrow> (Inr False, m)
     | Some i \<Rightarrow>
         (let x = ctx_at i m
          in if fc_events x AND event = 0 then (Inr False, m)
             else let new_events = fc_events x AND NOT event;
                      (ok, m) = ctl_remove ctl fd new_events m
                  in if \<not> ok then (Inr False, m)
                     else let m = drop_pending m; x = x\<lparr> fc_events := new_events \<rparr>
                          in case getContext event x of
                               Inl e \<Rightarrow> (Inl e, put_ctx i x m)
                             | Inr c \<Rightarrow> (Inr True, put_ctx i (setContext event (resetContext c) x) m)))"

definition cancelEvent :: "'k epoll_ctl \<Rightarrow> int \<Rightarrow> ev \<Rightarrow> ('c, 'w, 'k, bool) io_prog" where
  "cancelEvent ctl fd event =
     pbind (find_ctx fd) (\<lambda>r m. case r of
       None \<Rightarrow> (Inr False, m)
     | Some i \<Rightarrow>
         (let x = ctx_at i m
          in if fc_events x AND event = 0 then (Inr False, m)
             else let (ok, m) = ctl_remove ctl fd (fc_events x AND NOT event) m
                  in if \<not> ok then (Inr False, m)
                     else pthen (triggerEvent i event) (\<lambda>m. (Inr True, drop_pending m)) m))"

text \<open>\<open>if(events & event) { triggerEvent(event); --m_pendingEventCount; }\<close>\<close>

definition trigger_if :: "bool \<Rightarrow> nat \<Rightarrow> ev \<Rightarrow> ('c, 'w, 'k, unit) io_prog" where
  "trigger_if b i event m =
     (if b then pthen (triggerEvent i event) (\<lambda>m. (Inr (), drop_pending m)) m else (Inr (), m))"

definition cancelAll :: "'k epoll_ctl \<Rightarrow> int \<Rightarrow> ('c, 'w, 'k, bool) io_prog" where
  "cancelAll ctl fd =
     pbind (find_ctx fd) (\<lambda>r m. case r of
       None \<Rightarrow> (Inr False, m)
     | Some i \<Rightarrow>
         (if fc_events (ctx_at i m) = 0 then (Inr False, m)
          else let (rt, k) = ctl EPOLL_CTL_DEL fd 0 (kernel m); m = m\<lparr> kernel := k \<rparr>
               in if rt \<noteq> 0 then (Inr False, m)
                  else pthen (\<lambda>m. trigger_if (fc_events (ctx_at i m) AND READ \<noteq> 0) i READ m)
                       (pthen (\<lambda>m. trigger_if (fc_events (ctx_at i m) AND WRITE \<noteq> 0) i WRITE m)
                        (\<lambda>m. if fc_events (ctx_at i m) \<noteq> 0
                              then (Inl (Io_assert ''fd_ctx->events == 0''), m)
                              else (Inr True, m))) m))"

section \<open>Waking and stopping\<close>

text \<open>\<open>IOManager::tickle\<close> of the manager whose scheduler is \<open>self\<close>; the pipe write succeeds.\<close>

definition iom_tickle :: "sched_id \<Rightarrow> ('c, 'w, 'k) iomanager \<Rightarrow> ('c, 'w, 'k) iomanager" where
  "iom_tickle self m =
     (if \<not> hasIdleThreads (scheds m self) then m else m\<lparr> pipe := pipe m + 1 \<rparr>)"

definition onTimerInsertedAtFront :: "sched_id \<Rightarrow> ('c, 'w, 'k) iomanager \<Rightarrow> ('c, 'w, 'k) iomanager" where
  "onTimerInsertedAtFront self m = iom_tickle self m"

definition iom_stopping_timeout ::
  "ms \<Rightarrow> sched_id \<Rightarrow> ('c, 'w, 'k) iomanager \<Rightarrow> bool \<times> ms \<times> ('c, 'w, 'k) iomanager" where
  "iom_stopping_timeout now self m =
     (let (timeout, tm) = getNextTimer now (io_timers m)
      in (timeout = - 1 \<and> m_pendingEventCount m = 0 \<and> stopping (scheds m self), timeout,
          m\<lparr> io_timers := tm \<rparr>))"

definition iom_stopping :: "ms \<Rightarrow> sched_id \<Rightarrow> ('c, 'w, 'k) iomanager \<Rightarrow> bool \<times> ('c, 'w, 'k) iomanager" where
  "iom_stopping now self m = (let (b, _, m) = iom_stopping_timeout now self m in (b, m))"

section \<open>The idle fiber\<close>

text \<open>
  The timeout given to \<open>epoll_wait\<close>: the casts to \<open>int\<close> keep the low 32 bits, as a signed number.
\<close>

definition MAX_TIMEOUT :: int where
  "MAX_TIMEOUT = 3000"

definition to_int :: "64 word \<Rightarrow> int" where
  "to_int w = sint (ucast w :: 32 word)"

definition clamp_timeout :: "ms \<Rightarrow> ms" where
  "clamp_timeout next_timeout =
     (if next_timeout \<noteq> - 1
      then (if to_int next_timeout > MAX_TIMEOUT then of_int MAX_TIMEOUT else next_timeout)
      else of_int MAX_TIMEOUT)"

definition epoll_timeout :: "ms \<Rightarrow> int" where
  "epoll_timeout next_timeout = to_int (clamp_timeout next_timeout)"

text \<open>What \<open>epoll_wait\<close> reports: the tickle pipe, or the context at an index with an event mask.\<close>

datatype ready = Tickled | Ready nat ev

definition real_events :: "ev \<Rightarrow> ev \<Rightarrow> ev" where
  "real_events evs events =
     (let evs = (if evs AND (EPOLLERR OR EPOLLHUP) \<noteq> 0
                 then evs OR ((EPOLLIN OR EPOLLOUT) AND events) else evs)
      in (if evs AND EPOLLIN \<noteq> 0 then READ else NONE) OR
         (if evs AND EPOLLOUT \<noteq> 0 then WRITE else NONE))"

definition handle_event :: "'k epoll_ctl \<Rightarrow> ready \<Rightarrow> ('c, 'w, 'k, unit) io_prog" where
  "handle_event ctl r m =
     (case r of
        Tickled \<Rightarrow> (Inr (), m\<lparr> pipe := 0 \<rparr>)
      | Ready i evs \<Rightarrow>
          (let x = ctx_at i m;
               re = real_events evs (fc_events x)
           in if fc_events x AND re = NONE then (Inr (), m)
              else let left_events = fc_events x AND NOT re;
                       (ok, m) = ctl_remove ctl (int (fc_fd x)) left_events m
                   in if \<not> ok then (Inr (), m)
                      else pthen (trigger_if (re AND READ \<noteq> 0) i READ)
                             (trigger_if (re AND WRITE \<noteq> 0) i WRITE) m))"

fun handle_events :: "'k epoll_ctl \<Rightarrow> ready list \<Rightarrow> ('c, 'w, 'k, unit) io_prog" where
  "handle_events ctl [] m = (Inr (), m)"
| "handle_events ctl (r # rs) m = pthen (handle_event ctl r) (handle_events ctl rs) m"

text \<open>
  One round behind \<open>epoll_wait\<close>: first the expired timers' functions are scheduled in one
  batch, then the events are dealt with; then the idle fiber gives the processor back.
\<close>

definition idle_round ::
  "'k epoll_ctl \<Rightarrow> sched_id \<Rightarrow> ms \<Rightarrow> addr \<Rightarrow> ready list \<Rightarrow> ('c, 'w, 'k, unit) io_prog" where
  "idle_round ctl self now tmp evs m =
     (let (cbs, tm) = listExpiredCb now tmp (io_timers m);
          m = m\<lparr> io_timers := tm \<rparr>;
          m = (if cbs \<noteq> []
               then m\<lparr> scheds := (scheds m)(self := schedule_batch
                        (map (\<lambda>cb. ft_of_cb cb (- 1)) cbs) (scheds m self)) \<rparr>
               else m)
      in handle_events ctl evs m)"

text \<open>
  The inner loop that calls \<open>epoll_wait\<close> until it is not interrupted. Of the answers, nothing
  stands for \<open>EINTR\<close>; the result gives the timeouts passed and the events of the first other
  answer (none while the call waits).
\<close>

fun epoll_wait_loop :: "ms \<Rightarrow> ready list option list \<Rightarrow> int list \<times> ready list option" where
  "epoll_wait_loop t [] = ([epoll_timeout t], None)"
| "epoll_wait_loop t (Some evs # as) = ([epoll_timeout t], Some evs)"
| "epoll_wait_loop t (None # as) =
     (let (ts, r) = epoll_wait_loop (clamp_timeout t) as in (epoll_timeout t # ts, r))"

text \<open>
  One iteration of the idle fiber's loop: \<open>True\<close> when it ends the loop, \<open>False\<close> when it yields at
  the end of the round (or is still waiting). The clock reads \<open>now\<close> before the wait and \<open>now2\<close>
  behind it.
\<close>

definition idle_iteration ::
  "'k epoll_ctl \<Rightarrow> sched_id \<Rightarrow> ms \<Rightarrow> ready list option list \<Rightarrow> ms \<Rightarrow> addr \<Rightarrow> ('c, 'w, 'k, bool) io_prog" where
  "idle_iteration ctl self now answers now2 tmp m =
     (let (stop, next_timeout, m) = iom_stopping_timeout now self m
      in if stop then (Inr True, m)
         else case snd (epoll_wait_loop next_timeout answers) of
                None \<Rightarrow> (Inr False, m)
              | Some evs \<Rightarrow> pthen (idle_round ctl self now2 tmp evs) (preturn False) m)"

end
