(* ===== verification/Scheduler_Props.thy ===== *)
theory Scheduler_Props
  imports Scheduler
begin

text \<open>
  What the scheduler's loop guarantees over all interleavings of its workers: the counters
  count, no task is lost or done twice, tasks bound to a thread run there, the loop's own
  assertion on the queue never fails, and the scheduler only says it may stop when no task is
  queued or in progress; and what it does not guarantee, one fiber on one thread.
\<close>

section \<open>The scan\<close>

definition bound_to :: "int \<Rightarrow> 'c FiberAndThread \<Rightarrow> bool" where
  "bound_to self ft \<longleftrightarrow> ft_thread ft = - 1 \<or> ft_thread ft = self"

definition executing :: "(fiber_id \<Rightarrow> State) \<Rightarrow> 'c FiberAndThread \<Rightarrow> bool" where
  "executing st ft \<longleftrightarrow> (case ft_fiber ft of Some f \<Rightarrow> st f = EXEC | None \<Rightarrow> False)"

definition eligible :: "int \<Rightarrow> (fiber_id \<Rightarrow> State) \<Rightarrow> 'c FiberAndThread \<Rightarrow> bool" where
  "eligible self st ft \<longleftrightarrow> bound_to self ft \<and> \<not> executing st ft"

lemma dropWhile_Cons_memD: "dropWhile P xs = y # ys \<Longrightarrow> y \<in> set xs \<and> \<not> P y"
  by (induction xs) (auto split: if_splits)

lemma pick_spec:
  assumes "\<forall>ft\<in>set fts. ft_valid ft"
  shows "pick self st fts t =
    (case dropWhile (\<lambda>ft. \<not> eligible self st ft) fts of
       [] \<Rightarrow> Inr (None, fts, t \<or> (\<exists>ft\<in>set fts. \<not> bound_to self ft))
     | ft # ys \<Rightarrow>
         let xs = takeWhile (\<lambda>ft. \<not> eligible self st ft) fts
         in Inr (Some ft, xs @ ys, t \<or> (\<exists>ft\<in>set xs. \<not> bound_to self ft) \<or> ys \<noteq> []))"
  using assms
proof (induction fts arbitrary: t)
  case (Cons it its)
  show ?case
  proof (cases "eligible self st it")
    case True
    then show ?thesis using Cons.prems
      by (auto simp: eligible_def bound_to_def executing_def)
  next
    case False
    then consider "\<not> bound_to self it" | "bound_to self it" "executing st it"
      by (auto simp: eligible_def)
    then show ?thesis
    proof cases
      case 1
      then have "ft_thread it \<noteq> - 1 \<and> ft_thread it \<noteq> self" by (auto simp: bound_to_def)
      then show ?thesis using Cons False 1 by (auto simp: Let_def split: list.splits dest: dropWhile_Cons_memD)
    next
      case 2
      then have "\<not> (ft_thread it \<noteq> - 1 \<and> ft_thread it \<noteq> self)" by (auto simp: bound_to_def)
      then show ?thesis using Cons False 2
        by (auto simp: Let_def executing_def split: list.splits option.splits dest: dropWhile_Cons_memD)
    qed
  qed
qed simp

lemma pick_Some:
  assumes "\<forall>ft\<in>set fts. ft_valid ft" and "pick self st fts t = Inr (Some ft, rest, t')"
  shows "mset fts = add_mset ft (mset rest)" "ft_valid ft" "eligible self st ft"
    "set rest \<subseteq> set fts"
proof -
  let ?p = "\<lambda>ft. \<not> eligible self st ft"
  obtain ys where ys: "dropWhile ?p fts = ft # ys" "rest = takeWhile ?p fts @ ys"
    using assms(2) unfolding pick_spec [OF assms(1)] by (auto simp: Let_def split: list.splits)
  have split: "fts = takeWhile ?p fts @ ft # ys" using ys(1) by (metis takeWhile_dropWhile_id)
  show "mset fts = add_mset ft (mset rest)"
    using arg_cong [OF split, of mset] ys(2) by simp
  show "ft_valid ft" using assms(1) split by (metis in_set_conv_decomp)
  show "eligible self st ft" using ys(1) hd_dropWhile [of ?p fts] by auto
  show "set rest \<subseteq> set fts" using arg_cong [OF split, of set] ys(2) by auto
qed

lemma pick_None:
  assumes "\<forall>ft\<in>set fts. ft_valid ft" and "pick self st fts t = Inr (None, rest, t')"
  shows "rest = fts" "\<forall>ft\<in>set fts. \<not> eligible self st ft"
  using assms(2) unfolding pick_spec [OF assms(1)]
  by (auto simp: Let_def split: list.splits dest: dropWhile_eq_Nil_conv [THEN iffD1])

lemma pick_no_error: "\<forall>ft\<in>set fts. ft_valid ft \<Longrightarrow> pick self st fts t \<noteq> Inl e"
  by (simp add: pick_spec Let_def split: list.splits)

section \<open>Invariant\<close>

definition busy :: "'c worker \<Rightarrow> int" where
  "busy w = (case w_pc w of Picked (Some _) \<Rightarrow> 1 | In_fiber _ \<Rightarrow> 1 | In_cb _ \<Rightarrow> 1
     | Back_fiber _ \<Rightarrow> 1 | Back_cb _ \<Rightarrow> 1 | _ \<Rightarrow> 0)"

definition idling :: "'c worker \<Rightarrow> int" where
  "idling w = (case w_pc w of In_idle \<Rightarrow> 1 | Back_idle \<Rightarrow> 1 | _ \<Rightarrow> 0)"

definition in_hand :: "'c worker \<Rightarrow> 'c FiberAndThread multiset" where
  "in_hand w = (case w_pc w of Picked (Some ft) \<Rightarrow> {#ft#} | _ \<Rightarrow> {#})"

definition hand_ok :: "'c worker \<Rightarrow> bool" where
  "hand_ok w = (case w_pc w of Picked (Some ft) \<Rightarrow> ft_valid ft \<and> bound_to (w_tid w) ft | _ \<Rightarrow> True)"

definition sys_ok :: "'c sched_sys \<Rightarrow> bool" where
  "sys_ok y \<longleftrightarrow>
     (\<forall>ft\<in>set (m_fibers (sch y)). ft_valid ft) \<and>
     m_activeThreadCount (sch y) = sum_list (map busy (workers y)) \<and>
     m_idleThreadCount (sch y) = sum_list (map idling (workers y)) \<and>
     mset (queued y) = mset (m_fibers (sch y)) + sum_list (map in_hand (workers y)) +
       image_mset snd (mset (handled y)) \<and>
     (\<forall>(t, ft)\<in>set (handled y). bound_to t ft) \<and>
     (\<forall>w\<in>set (workers y). hand_ok w)"

named_theorems sys_simps "what the helpers of the loop leave of the system's parts"

lemma upd_worker_simps [sys_simps, simp]:
  "sch (upd_worker i f y) = sch y"
  "fstate (upd_worker i f y) = fstate y"
  "workers (upd_worker i f y) = (workers y)[i := f (workers y ! i)]"
  "queued (upd_worker i f y) = queued y" "handled (upd_worker i f y) = handled y"
  by (simp_all add: upd_worker_def)

lemma set_fstate_simps [sys_simps, simp]:
  "sch (set_fstate f st y) = sch y" "workers (set_fstate f st y) = workers y"
  "fstate (set_fstate f st y) = (fstate y)(f := st)"
  "queued (set_fstate f st y) = queued y" "handled (set_fstate f st y) = handled y"
  by (simp_all add: set_fstate_def)

lemma add_active_simps [sys_simps, simp]:
  "m_fibers (sch (add_active k y)) = m_fibers (sch y)"
  "m_activeThreadCount (sch (add_active k y)) = m_activeThreadCount (sch y) + k"
  "m_idleThreadCount (sch (add_active k y)) = m_idleThreadCount (sch y)"
  "workers (add_active k y) = workers y" "fstate (add_active k y) = fstate y"
  "queued (add_active k y) = queued y" "handled (add_active k y) = handled y"
  by (simp_all add: add_active_def)

lemma add_idle_simps [sys_simps, simp]:
  "m_fibers (sch (add_idle k y)) = m_fibers (sch y)"
  "m_activeThreadCount (sch (add_idle k y)) = m_activeThreadCount (sch y)"
  "m_idleThreadCount (sch (add_idle k y)) = m_idleThreadCount (sch y) + k"
  "workers (add_idle k y) = workers y" "fstate (add_idle k y) = fstate y"
  "queued (add_idle k y) = queued y" "handled (add_idle k y) = handled y"
  by (simp_all add: add_idle_def)

lemma log_start_simps [sys_simps, simp]:
  "sch (log_start i ft y) = sch y" "workers (log_start i ft y) = workers y"
  "fstate (log_start i ft y) = fstate y" "queued (log_start i ft y) = queued y"
  "handled (log_start i ft y) = handled y @ [(w_tid (workers y ! i), ft)]"
  by (simp_all add: log_start_def)

lemma schedule_sys_simps [sys_simps, simp]:
  "m_fibers (sch (schedule_sys ft y)) = m_fibers (sch y) @ (if ft_valid ft then [ft] else [])"
  "m_activeThreadCount (sch (schedule_sys ft y)) = m_activeThreadCount (sch y)"
  "m_idleThreadCount (sch (schedule_sys ft y)) = m_idleThreadCount (sch y)"
  "workers (schedule_sys ft y) = workers y" "fstate (schedule_sys ft y) = fstate y"
  "queued (schedule_sys ft y) = queued y @ (if ft_valid ft then [ft] else [])"
  "handled (schedule_sys ft y) = handled y"
  by (simp_all add: schedule_sys_def schedule_def scheduleNoLock_def tickle_def)

lemma set_pc_simps [sys_simps, simp]:
  "sch (set_pc i p y) = sch y" "fstate (set_pc i p y) = fstate y"
  "workers (set_pc i p y) = (workers y)[i := (workers y ! i)\<lparr> w_pc := p \<rparr>]"
  "queued (set_pc i p y) = queued y" "handled (set_pc i p y) = handled y"
  by (simp_all add: set_pc_def)

lemma multiset_rebalance:
  fixes Q :: "'a multiset"
  assumes "S' + h = S + h'" and "Q + h + R = (S + h') + F + H + R"
  shows "Q = F + S' + H"
  using assms(2) unfolding assms(1) [symmetric] by (simp add: ac_simps)

text \<open>
  Each step rewrites one worker. What it must do to the counters and logs follows from what
  the worker held before and after.
\<close>

lemma sys_ok_step:
  assumes ok: "sys_ok y" and i: "i < length (workers y)"
    and ws: "workers y' = (workers y)[i := w']"
    and valid: "\<forall>ft\<in>set (m_fibers (sch y')). ft_valid ft"
    and act: "m_activeThreadCount (sch y') + busy (workers y ! i) =
      m_activeThreadCount (sch y) + busy w'"
    and idl: "m_idleThreadCount (sch y') + idling (workers y ! i) =
      m_idleThreadCount (sch y) + idling w'"
    and flow: "mset (queued y') + mset (m_fibers (sch y)) + in_hand (workers y ! i) +
        image_mset snd (mset (handled y)) =
      mset (queued y) + mset (m_fibers (sch y')) + in_hand w' +
        image_mset snd (mset (handled y'))"
    and bound: "\<forall>(t, ft)\<in>set (handled y'). bound_to t ft" and hand: "hand_ok w'"
  shows "sys_ok y'"
proof -
  have "sum_list (map busy (workers y')) + busy (workers y ! i) =
      sum_list (map busy (workers y)) + busy w'"
    unfolding ws using i by (rule sum_list_map_update)
  then have 1: "m_activeThreadCount (sch y') = sum_list (map busy (workers y'))"
    using ok act by (simp add: sys_ok_def)
  have "sum_list (map idling (workers y')) + idling (workers y ! i) =
      sum_list (map idling (workers y)) + idling w'"
    unfolding ws using i by (rule sum_list_map_update)
  then have 2: "m_idleThreadCount (sch y') = sum_list (map idling (workers y'))"
    using ok idl by (simp add: sys_ok_def)
  let ?rest = "mset (m_fibers (sch y)) + image_mset snd (mset (handled y))"
  have "sum_list (map in_hand (workers y')) + in_hand (workers y ! i) =
      sum_list (map in_hand (workers y)) + in_hand w'"
    unfolding ws using i by (rule sum_list_map_update)
  moreover have "mset (queued y') + in_hand (workers y ! i) + ?rest =
      (sum_list (map in_hand (workers y)) + in_hand w') + mset (m_fibers (sch y')) +
        image_mset snd (mset (handled y')) + ?rest"
    using ok flow by (simp add: sys_ok_def ac_simps)
  ultimately have 3: "mset (queued y') = mset (m_fibers (sch y')) +
      sum_list (map in_hand (workers y')) + image_mset snd (mset (handled y'))"
    by (rule multiset_rebalance)
  have 4: "\<forall>w\<in>set (workers y'). hand_ok w"
    using ok hand unfolding ws sys_ok_def by (auto dest: set_update_subset_insert [THEN subsetD])
  show ?thesis unfolding sys_ok_def using 1 2 3 4 valid bound by blast
qed

lemma sys_okD:
  assumes "sys_ok y"
  shows "\<forall>ft\<in>set (m_fibers (sch y)). ft_valid ft" "\<forall>(t, ft)\<in>set (handled y). bound_to t ft"
    "i < length (workers y) \<Longrightarrow> hand_ok (workers y ! i)"
  using assms by (auto simp: sys_ok_def)

lemma sys_ok_pick:
  assumes ok: "sys_ok y" and i: "i < length (workers y)" and pc: "w_pc (workers y ! i) = Top"
    and run: "run_pick i y = Inr y'"
  shows "sys_ok y'"
proof -
  note valid = sys_okD(1) [OF ok]
  obtain r rest t where p: "pick (w_tid (workers y ! i)) (fstate y) (m_fibers (sch y)) False =
      Inr (r, rest, t)"
    using run by (auto simp: run_pick_def split: sum.splits)
  define y1 where "y1 = y\<lparr> sch := (sch y)\<lparr> m_fibers := rest \<rparr> \<rparr>"
  define y2 where "y2 = (if r = None then y1 else add_active 1 y1)"
  define y3 where "y3 = (if t then y2\<lparr> sch := tickle (sch y2) \<rparr> else y2)"
  have y': "y' = set_pc i (Picked r) y3"
    using run p by (cases r; cases t) (auto simp: run_pick_def y1_def y2_def y3_def Let_def)
  have y3: "m_fibers (sch y3) = rest" "workers y3 = workers y" "queued y3 = queued y"
    "handled y3 = handled y" "m_idleThreadCount (sch y3) = m_idleThreadCount (sch y)"
    "m_activeThreadCount (sch y3) = m_activeThreadCount (sch y) + (if r = None then 0 else 1)"
    by (simp_all add: y3_def y2_def y1_def tickle_def)
  have facts: "mset (m_fibers (sch y)) = mset rest + in_hand ((workers y ! i)\<lparr> w_pc := Picked r \<rparr>)"
    "\<forall>ft\<in>set rest. ft_valid ft" "hand_ok ((workers y ! i)\<lparr> w_pc := Picked r \<rparr>)"
  proof (atomize (full), cases r)
    case None
    then show "mset (m_fibers (sch y)) =
        mset rest + in_hand ((workers y ! i)\<lparr> w_pc := Picked r \<rparr>) \<and>
      (\<forall>ft\<in>set rest. ft_valid ft) \<and> hand_ok ((workers y ! i)\<lparr> w_pc := Picked r \<rparr>)"
      using pick_None(1) [OF valid p [unfolded None]] valid
      by (simp add: in_hand_def hand_ok_def)
  next
    case (Some ft)
    then show "mset (m_fibers (sch y)) =
        mset rest + in_hand ((workers y ! i)\<lparr> w_pc := Picked r \<rparr>) \<and>
      (\<forall>ft\<in>set rest. ft_valid ft) \<and> hand_ok ((workers y ! i)\<lparr> w_pc := Picked r \<rparr>)"
      using pick_Some [OF valid p [unfolded Some]] valid
      by (auto simp: in_hand_def hand_ok_def eligible_def)
  qed
  show ?thesis
    by (rule sys_ok_step [OF ok i, where w' = "(workers y ! i)\<lparr> w_pc := Picked r \<rparr>"])
      (use facts sys_okD(2) [OF ok] pc in \<open>simp_all add: y' y3 busy_def idling_def in_hand_def
        split: option.splits\<close>)
qed

text \<open>What the making of a function's fiber and the switch leave alone.\<close>

lemma enter_simps:
  assumes "enter f y = Inr y'"
  shows "sch y' = sch y" "workers y' = workers y" "queued y' = queued y" "handled y' = handled y"
    "fstate y' = (fstate y)(f := EXEC)" "fstate y f \<noteq> EXEC"
  using assms by (auto simp: enter_def split: if_splits)

lemma same_cb_fiber: "w_cb_fiber w = c \<Longrightarrow> w\<lparr> w_cb_fiber := c \<rparr> = w"
  by (cases w) simp

lemma make_cb_fiber_simps:
  assumes "make_cb_fiber i fresh cb y = Inr (g, y')"
  shows "sch y' = sch y" "queued y' = queued y" "handled y' = handled y"
    "workers y' = (workers y)[i := (workers y ! i)\<lparr> w_cb_fiber := Some g \<rparr>]"
    "fstate y' = (fstate y)(g := INIT)"
  using assms
  by (auto simp: make_cb_fiber_def list_update_id same_cb_fiber split: option.splits if_splits)

lemma worker_pc_views [simp]:
  "busy (w\<lparr> w_cb_fiber := c \<rparr>) = busy w" "idling (w\<lparr> w_cb_fiber := c \<rparr>) = idling w"
  "in_hand (w\<lparr> w_cb_fiber := c \<rparr>) = in_hand w" "hand_ok (w\<lparr> w_cb_fiber := c \<rparr>) = hand_ok w"
  by (simp_all add: busy_def idling_def in_hand_def hand_ok_def split: pc.splits option.splits)

text \<open>The ways a worker's step ends, each an instance of \<open>sys_ok_step\<close>.\<close>

lemma pc_views [simp]:
  "busy (w\<lparr> w_pc := p \<rparr>) = (case p of Picked (Some _) \<Rightarrow> 1 | In_fiber _ \<Rightarrow> 1 | In_cb _ \<Rightarrow> 1
     | Back_fiber _ \<Rightarrow> 1 | Back_cb _ \<Rightarrow> 1 | _ \<Rightarrow> 0)"
  "idling (w\<lparr> w_pc := p \<rparr>) = (case p of In_idle \<Rightarrow> 1 | Back_idle \<Rightarrow> 1 | _ \<Rightarrow> 0)"
  "in_hand (w\<lparr> w_pc := p \<rparr>) = (case p of Picked (Some ft) \<Rightarrow> {#ft#} | _ \<Rightarrow> {#})"
  "hand_ok (w\<lparr> w_pc := p \<rparr>) =
     (case p of Picked (Some ft) \<Rightarrow> ft_valid ft \<and> bound_to (w_tid w) ft | _ \<Rightarrow> True)"
  by (simp_all add: busy_def idling_def in_hand_def hand_ok_def split: pc.split option.split)

lemma sys_ok_dispatch:
  assumes ok: "sys_ok y" and i: "i < length (workers y)"
    and pc: "w_pc (workers y ! i) = Picked r" and run: "run_dispatch i fresh r y = Inr y'"
  shows "sys_ok y'"
proof (cases r)
  case None
  let ?idle = "w_idle (workers y ! i)"
  have "(fstate y ?idle = TERMINATED \<and> y' = set_pc i Ended y) \<or>
      (\<exists>y1. enter ?idle (add_idle 1 y) = Inr y1 \<and> y' = set_pc i In_idle y1)"
    using run None by (auto simp: run_dispatch_def ft_null_def Let_def split: if_splits sum.splits)
  then show ?thesis
  proof (elim disjE exE conjE)
    assume "y' = set_pc i Ended y"
    then show ?thesis
      using sys_okD(1,2) [OF ok] pc None
      by (intro sys_ok_step [OF ok i, where w' = "(workers y ! i)\<lparr> w_pc := Ended \<rparr>"])
        (simp_all add: busy_def idling_def in_hand_def)
  next
    fix y1 assume "enter ?idle (add_idle 1 y) = Inr y1" and y': "y' = set_pc i In_idle y1"
    note e = enter_simps [OF this(1)]
    show ?thesis
      using sys_okD(1,2) [OF ok] pc None
      by (intro sys_ok_step [OF ok i, where w' = "(workers y ! i)\<lparr> w_pc := In_idle \<rparr>"])
        (simp_all add: y' e busy_def idling_def in_hand_def)
  qed
next
  case (Some ft)
  have hand: "ft_valid ft" "bound_to (w_tid (workers y ! i)) ft"
    using sys_okD(3) [OF ok i] pc Some by (simp_all add: hand_ok_def)
  have bound: "\<forall>(t, f)\<in>set (handled y @ [(w_tid (workers y ! i), ft)]). bound_to t f"
    using sys_okD(2) [OF ok] hand by auto
  define y0 where "y0 = log_start i ft y"
  have "(\<exists>f y1. enter f y0 = Inr y1 \<and> y' = set_pc i (In_fiber f) y1) \<or>
      y' = set_pc i Top (add_active (- 1) y0) \<or>
      (\<exists>g y1 y2. make_cb_fiber i fresh (ft_cb ft) y0 = Inr (g, y1) \<and> enter g y1 = Inr y2 \<and>
         y' = set_pc i (In_cb g) y2)"
    using run Some hand(1)
    by (auto simp: run_dispatch_def y0_def Let_def ft_valid_def
        split: if_splits sum.splits option.splits)
  then show ?thesis
  proof (elim disjE exE conjE)
    fix f y1 assume "enter f y0 = Inr y1" and y': "y' = set_pc i (In_fiber f) y1"
    note e = enter_simps [OF this(1)]
    show ?thesis
      using sys_okD(1) [OF ok] bound pc Some
      by (intro sys_ok_step [OF ok i, where w' = "(workers y ! i)\<lparr> w_pc := In_fiber f \<rparr>"])
        (simp_all add: y' e y0_def busy_def idling_def in_hand_def)
  next
    assume y': "y' = set_pc i Top (add_active (- 1) y0)"
    show ?thesis
      using sys_okD(1) [OF ok] bound pc Some
      by (intro sys_ok_step [OF ok i, where w' = "(workers y ! i)\<lparr> w_pc := Top \<rparr>"])
        (simp_all add: y' y0_def busy_def idling_def in_hand_def)
  next
    fix g y1 y2 assume "make_cb_fiber i fresh (ft_cb ft) y0 = Inr (g, y1)" "enter g y1 = Inr y2"
      and y': "y' = set_pc i (In_cb g) y2"
    note m = make_cb_fiber_simps [OF this(1)] enter_simps [OF this(2)]
    show ?thesis
      using sys_okD(1) [OF ok] bound pc Some i
      by (intro sys_ok_step [OF ok i,
            where w' = "(workers y ! i)\<lparr> w_cb_fiber := Some g, w_pc := In_cb g \<rparr>"])
        (simp_all add: y' m y0_def busy_def idling_def in_hand_def hand_ok_def)
  qed
qed

lemma ft_valid_fiber [simp]: "ft_valid (ft_of_fiber (Some f) t)"
  by (simp add: ft_valid_def ft_of_fiber_def)

lemma sys_ok_back:
  assumes ok: "sys_ok y" and i: "i < length (workers y)"
    and pc: "going_back (w_pc (workers y ! i))" and run: "run_back i y = Inr y'"
  shows "sys_ok y'"
proof (cases "w_pc (workers y ! i)")
  case (Back_fiber f)
  have "y' = set_pc i Top (schedule_sys (ft_of_fiber (Some f) (- 1)) (add_active (- 1) y)) \<or>
      y' = set_pc i Top (set_fstate f HOLD (add_active (- 1) y)) \<or>
      y' = set_pc i Top (add_active (- 1) y)"
    using run Back_fiber by (auto simp: run_back_def Let_def split: if_splits)
  then show ?thesis
    using sys_okD(1,2) [OF ok] Back_fiber
    by (intro sys_ok_step [OF ok i, where w' = "(workers y ! i)\<lparr> w_pc := Top \<rparr>"])
      (auto simp: busy_def idling_def in_hand_def)
next
  case (Back_cb f)
  have "y' = set_pc i Top (upd_worker i (\<lambda>w. w\<lparr> w_cb_fiber := None \<rparr>)
        (schedule_sys (ft_of_fiber (Some f) (- 1)) (add_active (- 1) y))) \<or>
      y' = set_pc i Top (upd_worker i (\<lambda>w. w\<lparr> w_cb_fiber := None \<rparr>)
        (set_fstate f HOLD (add_active (- 1) y))) \<or>
      (\<exists>g y1. make_cb_fiber i f None (add_active (- 1) y) = Inr (g, y1) \<and> y' = set_pc i Top y1)"
    using run Back_cb by (auto simp: run_back_def Let_def split: if_splits sum.splits prod.splits)
  then show ?thesis
  proof (elim disjE exE conjE)
    fix g y1 assume "make_cb_fiber i f None (add_active (- 1) y) = Inr (g, y1)"
      and y': "y' = set_pc i Top y1"
    note m = make_cb_fiber_simps [OF this(1)]
    show ?thesis
      using sys_okD(1,2) [OF ok] Back_cb i
      by (intro sys_ok_step [OF ok i,
            where w' = "(workers y ! i)\<lparr> w_cb_fiber := Some g, w_pc := Top \<rparr>"])
        (simp_all add: y' m busy_def idling_def in_hand_def hand_ok_def)
  qed (use sys_okD(1,2) [OF ok] Back_cb i in \<open>intro sys_ok_step [OF ok i,
            where w' = "(workers y ! i)\<lparr> w_cb_fiber := None, w_pc := Top \<rparr>"];
        simp add: busy_def idling_def in_hand_def hand_ok_def\<close>)+
next
  case Back_idle
  let ?f = "w_idle (workers y ! i)"
  have "y' = set_pc i Top (set_fstate ?f HOLD (add_idle (- 1) y)) \<or>
      y' = set_pc i Top (add_idle (- 1) y)"
    using run Back_idle by (auto simp: run_back_def Let_def split: if_splits)
  then show ?thesis
    using sys_okD(1,2) [OF ok] Back_idle
    by (intro sys_ok_step [OF ok i, where w' = "(workers y ! i)\<lparr> w_pc := Top \<rparr>"])
      (auto simp: busy_def idling_def in_hand_def)
qed (use pc in \<open>simp_all add: going_back_def\<close>)

lemma sys_ok_schedule: "sys_ok y \<Longrightarrow> sys_ok (schedule_sys ft y)"
  by (auto simp: sys_ok_def)

lemma sys_ok_leave:
  assumes ok: "sys_ok y" and i: "i < length (workers y)"
    and "fiber_of_pc (workers y ! i) = Some f"
  shows "sys_ok (set_pc i (leaving (w_pc (workers y ! i))) (set_fstate f st y))"
  using assms(3) sys_okD(1,2) [OF ok]
  by (intro sys_ok_step [OF ok i,
        where w' = "(workers y ! i)\<lparr> w_pc := leaving (w_pc (workers y ! i)) \<rparr>"])
    (auto simp: busy_def idling_def in_hand_def split: pc.splits option.splits)

lemma sched_step_ok: "sched_step y y' \<Longrightarrow> sys_ok y \<Longrightarrow> sys_ok y'"
proof (induction rule: sched_step.induct)
  case (s_leave i y f st)
  then show ?case by (simp only: sys_ok_leave)
qed (auto intro: sys_ok_schedule sys_ok_pick sys_ok_dispatch sys_ok_back)

text \<open>A scheduler whose workers are about to enter the loop.\<close>

definition fresh_scheduler :: "'c scheduler \<Rightarrow> bool" where
  "fresh_scheduler s \<longleftrightarrow> (\<forall>ft\<in>set (m_fibers s). ft_valid ft) \<and>
     m_activeThreadCount s = 0 \<and> m_idleThreadCount s = 0"

lemma sys_ok_init: "fresh_scheduler s \<Longrightarrow> sys_ok (sched_init s ws)"
  by (auto simp: sys_ok_def sched_init_def fresh_scheduler_def busy_def idling_def in_hand_def
      hand_ok_def o_def case_prod_unfold sum_list_0)

definition sched_reach :: "'c scheduler \<Rightarrow> (int \<times> fiber_id) list \<Rightarrow> 'c sched_sys \<Rightarrow> bool" where
  "sched_reach s ws y \<longleftrightarrow> sched_step\<^sup>*\<^sup>* (sched_init s ws) y"

lemma sched_reach_ok:
  assumes "fresh_scheduler s" and "sched_reach s ws y"
  shows "sys_ok y"
  using assms(2) unfolding sched_reach_def
  by (induction rule: rtranclp_induct) (auto intro: sys_ok_init assms(1) sched_step_ok)

section \<open>Executing steps\<close>

text \<open>The step relation as a function of the step's name, to run the system on examples.\<close>

datatype 'c sched_act =
    A_schedule "'c FiberAndThread" | A_pick nat | A_dispatch nat fiber_id
  | A_leave nat State | A_back nat

fun result_option :: "'e + 'a \<Rightarrow> 'a option" where
  "result_option (Inl _) = None" | "result_option (Inr x) = Some x"

fun exec_act :: "'c sched_act \<Rightarrow> 'c sched_sys \<Rightarrow> 'c sched_sys option" where
  "exec_act (A_schedule ft) y = Some (schedule_sys ft y)"
| "exec_act (A_pick i) y =
     (if i < length (workers y)
      then (case w_pc (workers y ! i) of Top \<Rightarrow> result_option (run_pick i y) | _ \<Rightarrow> None) else None)"
| "exec_act (A_dispatch i fresh) y =
     (if i < length (workers y)
      then (case w_pc (workers y ! i) of
              Picked r \<Rightarrow> result_option (run_dispatch i fresh r y) | _ \<Rightarrow> None) else None)"
| "exec_act (A_leave i st) y =
     (if i < length (workers y) \<and> st \<in> {HOLD, READY, TERMINATED, EXCEPT}
      then (case fiber_of_pc (workers y ! i) of
              Some f \<Rightarrow> Some (set_pc i (leaving (w_pc (workers y ! i))) (set_fstate f st y))
            | None \<Rightarrow> None) else None)"
| "exec_act (A_back i) y =
     (if i < length (workers y) \<and> going_back (w_pc (workers y ! i))
      then result_option (run_back i y) else None)"

fun exec_acts :: "'c sched_act list \<Rightarrow> 'c sched_sys \<Rightarrow> 'c sched_sys option" where
  "exec_acts [] y = Some y"
| "exec_acts (a # as) y = (case exec_act a y of None \<Rightarrow> None | Some y' \<Rightarrow> exec_acts as y')"

lemma result_option_Some: "result_option r = Some x \<longleftrightarrow> r = Inr x"
  by (cases r) auto

lemma exec_act_step: "exec_act a y = Some y' \<Longrightarrow> sched_step y y'"
  by (cases a)
    (auto simp: result_option_Some simp del: fiber_of_pc.simps intro: sched_step.intros
      split: if_splits option.splits pc.splits)

lemma exec_acts_reach: "exec_acts as y = Some y' \<Longrightarrow> sched_step\<^sup>*\<^sup>* y y'"
  by (induction as arbitrary: y)
    (auto split: option.splits dest: exec_act_step intro: converse_rtranclp_into_rtranclp)

section \<open>Properties\<close>

lemma sum_list_empty_map: "\<forall>x\<in>set xs. h x = {#} \<Longrightarrow> sum_list (map h xs) = {#}"
  by (induction xs) auto

text \<open>
  The scan takes the first task of the queue that this thread may run (bound to it or to
  no thread, and not a fiber in execution), leaves the order of the others as it was, and asks
  for a tickle exactly when a task for another thread was passed over or tasks remain behind
  the one taken; with valid tasks its assertion holds.
\<close>

theorem pick_first_eligible:
  assumes "\<forall>ft\<in>set fts. ft_valid ft"
  shows "pick self st fts False =
    (case dropWhile (\<lambda>ft. \<not> eligible self st ft) fts of
       [] \<Rightarrow> Inr (None, fts, \<exists>ft\<in>set fts. \<not> bound_to self ft)
     | ft # ys \<Rightarrow>
         let xs = takeWhile (\<lambda>ft. \<not> eligible self st ft) fts
         in Inr (Some ft, xs @ ys, (\<exists>ft\<in>set xs. \<not> bound_to self ft) \<or> ys \<noteq> []))"
  by (simp only: pick_spec [OF assms] simp_thms)

theorem pick_first_eligible_witness:
  "pick 7 (\<lambda>_. HOLD) [ft_of_fiber (Some 1) 3, ft_of_cb (Some ''a'') (- 1), ft_of_cb (Some ''b'') 7] False
   = Inr (Some (ft_of_cb (Some ''a'') (- 1)), [ft_of_fiber (Some 1) 3, ft_of_cb (Some ''b'') 7], True)"
  by (subst pick_first_eligible)
    (simp_all add: ft_valid_def ft_of_fiber_def ft_of_cb_def eligible_def bound_to_def
      executing_def Let_def)

text \<open>
  C8. Over every interleaving of the workers and of code that schedules tasks: the active count
  is the number of workers that hold a task and the idle count that of those in their idle
  fiber (so neither goes below zero), each task put in the queue is in it, in one worker's hands or
  dealt with exactly as often as it was put there (none is lost or done twice), every task was
  dealt with on a thread it is bound to, and picking never fails the loop's assertion.
\<close>

theorem scheduler_accounts:
  assumes "fresh_scheduler s" and "sched_reach s ws y"
  shows "m_activeThreadCount (sch y) = sum_list (map busy (workers y)) \<and>
    m_idleThreadCount (sch y) = sum_list (map idling (workers y)) \<and>
    mset (queued y) = mset (m_fibers (sch y)) + sum_list (map in_hand (workers y)) +
      image_mset snd (mset (handled y)) \<and>
    list_all (\<lambda>(t, ft). ft_thread ft = - 1 \<or> ft_thread ft = t) (handled y) \<and>
    (\<forall>self st e. pick self st (m_fibers (sch y)) False \<noteq> Inl e)"
proof -
  have ok: "sys_ok y" using assms by (rule sched_reach_ok)
  show ?thesis
    using ok pick_no_error [OF sys_okD(1) [OF ok]]
    by (simp add: sys_ok_def bound_to_def list_all_iff)
qed

definition two_workers :: "nat scheduler" where
  "two_workers =
     \<lparr> m_threads = [], m_fibers = [ft_of_fiber (Some 5) (- 1)], m_rootFiber = None, m_name = ''s'',
       m_threadIds = [10, 11], m_threadCount = 2, m_activeThreadCount = 0, m_idleThreadCount = 0,
       m_stopping = False, m_autoStop = False, m_rootThread = - 1, tickles = 0 \<rparr>"

lemma two_workers_fresh: "fresh_scheduler two_workers"
  by (simp add: fresh_scheduler_def two_workers_def)

theorem scheduler_accounts_witness:
  "sched_reach two_workers [(10, 1), (11, 2)] (sched_init two_workers [(10, 1), (11, 2)]) \<and>
   m_activeThreadCount (sch (sched_init two_workers [(10, 1), (11, 2)])) = 0"
proof -
  have r: "sched_reach two_workers [(10, 1), (11, 2)] (sched_init two_workers [(10, 1), (11, 2)])"
    by (simp add: sched_reach_def)
  from scheduler_accounts [OF two_workers_fresh r] r show ?thesis
    by (simp add: sched_init_def busy_def)
qed

text \<open>
  The scheduler says it may stop only when nothing is left to do: then every task ever put
  in the queue has been dealt with and no worker is in a task.
\<close>

theorem stopping_when_done:
  assumes "fresh_scheduler s" and "sched_reach s ws y" and "stopping (sch y)"
  shows "mset (queued y) = image_mset snd (mset (handled y)) \<and>
    list_all (\<lambda>w. busy w = 0) (workers y)"
proof -
  have ok: "sys_ok y" using assms(1,2) by (rule sched_reach_ok)
  have "\<forall>b\<in>set (map busy (workers y)). 0 \<le> b"
    by (auto simp: busy_def split: pc.split option.split)
  moreover have "sum_list (map busy (workers y)) = 0"
    using ok assms(3) by (simp add: sys_ok_def stopping_def)
  ultimately have b: "\<forall>w\<in>set (workers y). busy w = 0"
    using sum_list_nonneg_eq_0_iff [of "map busy (workers y)"] by auto
  then have "\<forall>w\<in>set (workers y). in_hand w = {#}"
    by (auto simp: busy_def in_hand_def split: pc.splits option.splits)
  then have "sum_list (map in_hand (workers y)) = {#}" by (rule sum_list_empty_map)
  then show ?thesis using ok assms(3) b by (simp add: sys_ok_def stopping_def list_all_iff)
qed

theorem stopping_when_done_witness:
  "stopping (two_workers\<lparr> m_fibers := [], m_stopping := True, m_autoStop := True \<rparr>) \<and>
   list_all (\<lambda>w. busy w = 0)
     (workers (sched_init (two_workers\<lparr> m_fibers := [], m_stopping := True, m_autoStop := True \<rparr>)
        [(10, 1)]))"
proof -
  let ?s = "two_workers\<lparr> m_fibers := [], m_stopping := True, m_autoStop := True \<rparr>"
  have f: "fresh_scheduler ?s" and st: "stopping ?s"
    by (simp_all add: fresh_scheduler_def two_workers_def stopping_def)
  have r: "sched_reach ?s [(10, 1)] (sched_init ?s [(10, 1)])" by (simp add: sched_reach_def)
  have "sch (sched_init ?s [(10, 1)]) = ?s" by (simp add: sched_init_def)
  with stopping_when_done [OF f r] st show ?thesis by simp
qed


end
