(* ===== verification/Timer_Props.thy ===== *)
theory Timer_Props
  imports Timer
begin

text \<open>
  The timer manager's invariant (the set is sorted by the comparator as the objects stand, and
  every armed timer is in it), its preservation by every operation in any order, and what
  expiry, cancellation and the next-deadline query do.
\<close>

section \<open>Invariant\<close>

definition timers_ok :: "('c, 'w) timers \<Rightarrow> bool" where
  "timers_ok tm \<longleftrightarrow>
     sorted_wrt (before (m_heap tm)) (m_timers tm) \<and>
     (\<forall>a. m_cb (m_heap tm a) \<noteq> None \<longrightarrow> a \<in> set (m_timers tm))"

lemma timers_okD:
  assumes "timers_ok tm"
  shows "sorted_wrt (before (m_heap tm)) (m_timers tm)" "distinct (m_timers tm)"
    "m_cb (m_heap tm a) \<noteq> None \<Longrightarrow> a \<in> set (m_timers tm)"
  using assms timer_order.sorted_distinct by (auto simp: timers_ok_def)

lemma before_upd_other:
  "a \<noteq> x \<Longrightarrow> a \<noteq> y \<Longrightarrow> before (h(a := t)) x y = before h x y"
  by (simp add: Comparator.simps)

lemma sorted_upd_other [simp]:
  "a \<notin> set ys \<Longrightarrow> sorted_wrt (before (h(a := t))) ys = sorted_wrt (before h) ys"
  by (rule sorted_wrt_cong_set) (auto intro!: before_upd_other)

lemma before_same_next:
  assumes "m_next t = m_next (h a)"
  shows "before (h(a := t)) = before h"
proof (intro ext)
  fix x y show "before (h(a := t)) x y = before h x y"
    using assms by (cases "x = a"; cases "y = a") (simp_all add: Comparator.simps)
qed

lemma set_timer_simps [simp]:
  "m_heap (set_timer a f tm) = (m_heap tm)(a := f (m_heap tm a))"
  "m_timers (set_timer a f tm) = m_timers tm"
  "m_tickled (set_timer a f tm) = m_tickled tm"
  "m_previouseTime (set_timer a f tm) = m_previouseTime tm"
  "front_calls (set_timer a f tm) = front_calls tm"
  by (simp_all add: set_timer_def)

lemma addTimer_ptr_simps [simp]:
  "m_heap (addTimer_ptr a tm) = m_heap tm"
  "m_timers (addTimer_ptr a tm) = set_insert (before (m_heap tm)) a (m_timers tm)"
  "m_previouseTime (addTimer_ptr a tm) = m_previouseTime tm"
  by (simp_all add: addTimer_ptr_def Let_def)

lemma timers_ok_new: "timers_ok (TimerManager_new now)"
  by (simp add: timers_ok_def TimerManager_new_def Timer_at_def)

lemma timers_ok_addTimer_ptr:
  assumes "sorted_wrt (before (m_heap tm)) (m_timers tm)"
    and "\<And>b. m_cb (m_heap tm b) \<noteq> None \<Longrightarrow> b = a \<or> b \<in> set (m_timers tm)"
  shows "timers_ok (addTimer_ptr a tm)"
  using assms by (auto simp: timers_ok_def)

lemma timers_ok_addTimer:
  assumes "timers_ok tm" and "a \<notin> set (m_timers tm)"
  shows "timers_ok (addTimer now a ms cb recurring tm)"
  unfolding addTimer_def using assms
  by (intro timers_ok_addTimer_ptr) (auto simp: timers_ok_def split: if_splits)

text \<open>Taking a timer out, rewriting it and putting it back, as \<open>refresh\<close> and \<open>reset\<close> do.\<close>

lemma erased_upd:
  assumes "timers_ok tm"
    and "tm1 = set_timer a f (tm\<lparr> m_timers := set_erase a (m_timers tm) \<rparr>)"
  shows "sorted_wrt (before (m_heap tm1)) (m_timers tm1)"
    and "m_cb (f (m_heap tm a)) = None \<or> a \<in> set (m_timers tm) \<Longrightarrow>
         m_cb (m_heap tm1 b) \<noteq> None \<Longrightarrow> b = a \<or> b \<in> set (m_timers tm1)"
  using timers_okD [OF assms(1)] by (auto simp: assms(2) split: if_splits)

lemma timer_cancel_ok:
  assumes "timers_ok tm"
  shows "timer_cancel a tm =
    (if m_cb (m_heap tm a) = None then (Inr False, tm)
     else (Inr True,
           set_timer a (\<lambda>t. t\<lparr> m_cb := None \<rparr>)
             (tm\<lparr> m_timers := set_erase a (m_timers tm) \<rparr>)))"
  using timers_okD [OF assms]
  by (auto simp: timer_cancel_def set_timer_def Let_def before_same_next split: option.splits)

lemma timers_ok_cancel:
  assumes "timers_ok tm" and "timer_cancel a tm = (r, tm')"
  shows "timers_ok tm'"
  using assms erased_upd [OF assms(1) refl, where a = a and f = "\<lambda>t. t\<lparr> m_cb := None \<rparr>"] timers_okD [OF assms(1)]
  by (auto simp: timer_cancel_ok timers_ok_def split: if_splits)

lemma timers_ok_refresh:
  assumes "timers_ok tm"
  shows "timers_ok (snd (timer_refresh now a tm))"
  using assms erased_upd [OF assms refl, where a = a and f = "\<lambda>t. t\<lparr> m_next := now + m_ms t \<rparr>"]
    timers_okD [OF assms]
  by (auto simp: timer_refresh_def Let_def timers_ok_def split: option.splits if_splits)

lemma timers_ok_reset:
  assumes "timers_ok tm"
  shows "timers_ok (snd (timer_reset now ms from_now a tm))"
proof -
  let ?start = "if from_now then now else m_next (m_heap tm a) - m_ms (m_heap tm a)"
  have "timers_ok (addTimer_ptr a
      (set_timer a (\<lambda>t. t\<lparr> m_ms := ms, m_next := ?start + ms \<rparr>)
        (tm\<lparr> m_timers := set_erase a (m_timers tm) \<rparr>)))" if "a \<in> set (m_timers tm)"
    by (rule timers_ok_addTimer_ptr) (use erased_upd [OF assms refl] that in auto)
  then show ?thesis using assms timers_okD(1) [OF assms]
    by (auto simp: timer_reset_def Let_def)
qed

lemma timers_ok_getNextTimer: "timers_ok tm \<Longrightarrow> timers_ok (snd (getNextTimer now tm))"
  by (auto simp: getNextTimer_def timers_ok_def Let_def split: list.splits)

section \<open>Expiry\<close>

definition fired :: "ms \<Rightarrow> ('c, 'w) timer \<Rightarrow> ('c, 'w) timer" where
  "fired now t = (if m_recurring t then t\<lparr> m_next := now + m_ms t \<rparr> else t\<lparr> m_cb := None \<rparr>)"

lemma expire_loop_spec:
  assumes "sorted_wrt (before (m_heap tm)) (m_timers tm)"
    and "distinct as" and "set as \<inter> set (m_timers tm) = {}"
    and "expire_loop now as tm = (cbs, tm')"
  shows "cbs = map (\<lambda>a. m_cb (m_heap tm a)) as \<and>
    m_heap tm' = (\<lambda>a. if a \<in> set as then fired now (m_heap tm a) else m_heap tm a) \<and>
    set (m_timers tm') = set (m_timers tm) \<union> {a \<in> set as. m_recurring (m_heap tm a)} \<and>
    sorted_wrt (before (m_heap tm')) (m_timers tm') \<and>
    m_previouseTime tm' = m_previouseTime tm"
  using assms
proof (induction as arbitrary: tm cbs)
  case (Cons a as)
  define tm1 where "tm1 =
    (if m_recurring (m_heap tm a)
     then let tm = set_timer a (\<lambda>t. t\<lparr> m_next := now + m_ms t \<rparr>) tm
          in tm\<lparr> m_timers := set_insert (before (m_heap tm)) a (m_timers tm) \<rparr>
     else set_timer a (\<lambda>t. t\<lparr> m_cb := None \<rparr>) tm)"
  obtain cbs1 where 1: "expire_loop now as tm1 = (cbs1, tm')"
      "cbs = m_cb (m_heap tm a) # cbs1"
    using Cons.prems(4) by (auto simp: tm1_def Let_def split: prod.splits)
  have h1: "m_heap tm1 = (m_heap tm)(a := fired now (m_heap tm a))"
    by (simp add: tm1_def fired_def Let_def)
  have s1: "set (m_timers tm1) = set (m_timers tm) \<union> (if m_recurring (m_heap tm a) then {a} else {})"
    by (simp add: tm1_def Let_def)
  have p1: "m_previouseTime tm1 = m_previouseTime tm"
    by (simp add: tm1_def Let_def)
  have sorted1: "sorted_wrt (before (m_heap tm1)) (m_timers tm1)"
    using Cons.prems(1,3) by (auto simp: tm1_def Let_def)
  have dis: "distinct as" "set as \<inter> set (m_timers tm1) = {}" "a \<notin> set as"
    using Cons.prems(2,3) s1 by (auto split: if_splits)
  have "map (\<lambda>a. m_cb (m_heap tm1 a)) as = map (\<lambda>a. m_cb (m_heap tm a)) as"
    using dis(3) by (auto simp: h1)
  moreover have "{b \<in> set as. m_recurring (m_heap tm1 b)} = {b \<in> set as. m_recurring (m_heap tm b)}"
    using dis(3) by (auto simp: h1)
  ultimately show ?case using Cons.IH [OF sorted1 dis(1,2) 1(1)] 1(2) s1 p1 dis(3)
    by (auto simp: h1 fun_eq_iff)
qed simp

definition due :: "bool \<Rightarrow> ms \<Rightarrow> ('c, 'w) timer \<Rightarrow> bool" where
  "due rollover now t \<longleftrightarrow> rollover \<or> m_next t \<le> now"

lemma before_next_le: "before h a b \<Longrightarrow> m_next (h a) \<le> m_next (h b)"
  by (auto simp: Comparator.simps split: if_splits)

lemma takeWhile_due:
  assumes "sorted_wrt (before h) ys"
  shows "takeWhile (\<lambda>a. due r now (h a)) ys = filter (\<lambda>a. due r now (h a)) ys"
    and "dropWhile (\<lambda>a. due r now (h a)) ys = filter (\<lambda>a. \<not> due r now (h a)) ys"
  using assms by (rule sorted_wrt_takeWhile_filter; use before_next_le in \<open>force simp: due_def\<close>)+

text \<open>
  The address of the temporary timer does not matter: the prefix before its lower bound and
  the run of equal deadlines after it make up the timers due.
\<close>

lemma takeWhile_two_stage:
  assumes "\<And>x. x \<in> set ys \<Longrightarrow> p x \<Longrightarrow> r x"
    and "\<And>x. x \<in> set ys \<Longrightarrow> \<not> p x \<Longrightarrow> q x = r x"
    and "sorted_wrt (\<lambda>x y. p y \<longrightarrow> p x) ys"
  shows "takeWhile p ys @ takeWhile q (dropWhile p ys) = takeWhile r ys"
  using assms
proof (induction ys)
  case (Cons y ys)
  show ?case
  proof (cases "p y")
    case False
    then have "\<forall>x\<in>set (y # ys). \<not> p x" using Cons.prems(3) by auto
    then have "takeWhile q (y # ys) = takeWhile r (y # ys)"
      using Cons.prems(2) by (intro takeWhile_cong) auto
    then show ?thesis using False by simp
  qed (use Cons in auto)
qed simp

lemma expired_prefix_due:
  assumes "sorted_wrt (before (m_heap tm)) (m_timers tm)" and "tmp \<notin> set (m_timers tm)"
  shows "expired_prefix now tmp rollover tm =
    filter (\<lambda>a. due rollover now (m_heap tm a)) (m_timers tm)"
proof (cases rollover)
  case False
  let ?h = "(m_heap tm)(tmp := Timer_at now)"
  have "sorted_wrt (\<lambda>x y. before ?h y tmp \<longrightarrow> before ?h x tmp) (m_timers tm)"
    by (rule sorted_wrt_mono_rel [OF _ assms(1)])
      (metis (no_types, lifting) assms(2) before_upd_other timer_order.lt_trans)
  moreover have "before ?h x tmp \<Longrightarrow> due False now (m_heap tm x)" 
    and "\<not> before ?h x tmp \<Longrightarrow> (m_next (m_heap tm x) = now) = due False now (m_heap tm x)"
    if "x \<in> set (m_timers tm)" for x
    using that assms(2) by (auto simp: due_def Timer_at_def Comparator.simps split: if_splits)
  ultimately show ?thesis using False
    by (simp add: expired_prefix_def Let_def before_lower_bound_def from_lower_bound_def
        takeWhile_two_stage [where r = "\<lambda>a. due False now (m_heap tm a)"]
        takeWhile_due [OF assms(1)])
qed (simp add: expired_prefix_def due_def)

lemma listExpiredCb_spec:
  assumes ok: "timers_ok tm" and tmp: "tmp \<notin> set (m_timers tm)"
    and run: "listExpiredCb now tmp tm = (cbs, tm')"
    and roll: "rollover = fst (detectClockRollover now tm)"
  shows "cbs = map (\<lambda>a. m_cb (m_heap tm a))
           (filter (\<lambda>a. due rollover now (m_heap tm a)) (m_timers tm))"
    and "m_heap tm' = (\<lambda>a. if a \<in> set (m_timers tm) \<and> due rollover now (m_heap tm a)
           then fired now (m_heap tm a) else m_heap tm a)"
    and "set (m_timers tm') = {a \<in> set (m_timers tm).
           due rollover now (m_heap tm a) \<longrightarrow> m_recurring (m_heap tm a)}"
    and "sorted_wrt (before (m_heap tm')) (m_timers tm')"
proof -
  let ?due = "\<lambda>a. due rollover now (m_heap tm a)"
  note sorted = timers_okD(1) [OF ok]
  have "cbs = map (\<lambda>a. m_cb (m_heap tm a)) (filter ?due (m_timers tm)) \<and>
     m_heap tm' = (\<lambda>a. if a \<in> set (m_timers tm) \<and> ?due a
           then fired now (m_heap tm a) else m_heap tm a) \<and>
     set (m_timers tm') = {a \<in> set (m_timers tm). ?due a \<longrightarrow> m_recurring (m_heap tm a)} \<and>
     sorted_wrt (before (m_heap tm')) (m_timers tm')"
  proof (cases "m_timers tm")
    case Nil
    then show ?thesis using run by (auto simp: listExpiredCb_def)
  next
    case (Cons first rest)
    define tm1 where "tm1 = tm\<lparr> m_previouseTime := now \<rparr>"
    have d: "detectClockRollover now tm = (rollover, tm1)"
      using roll by (simp add: detectClockRollover_def tm1_def)
    have same: "m_heap tm1 = m_heap tm" "m_timers tm1 = m_timers tm" by (simp_all add: tm1_def)
    show ?thesis
    proof (cases "\<not> rollover \<and> now < m_next (m_heap tm first)")
      case True
      then have "\<forall>a\<in>set (m_timers tm). \<not> ?due a"
        using sorted Cons before_next_le by (force simp: due_def)
      then have none: "filter ?due (m_timers tm) = []"
        "(\<lambda>a. if a \<in> set (m_timers tm) \<and> ?due a then fired now (m_heap tm a) else m_heap tm a) =
         m_heap tm"
        "{a \<in> set (m_timers tm). ?due a \<longrightarrow> m_recurring (m_heap tm a)} = set (m_timers tm)"
        by (auto simp: filter_empty_conv fun_eq_iff)
      have "cbs = []" "tm' = tm1"
        using run Cons True d same by (simp_all add: listExpiredCb_def)
      then show ?thesis by (simp only: none same sorted list.map simp_thms)
    next
      case False
      let ?ex = "filter ?due (m_timers tm)"
      let ?rest = "filter (\<lambda>a. \<not> ?due a) (m_timers tm)"
      have ex: "expired_prefix now tmp rollover tm1 = ?ex"
        using expired_prefix_due [of tm1 tmp now rollover] sorted tmp by (simp add: same)
      have "?ex @ ?rest = m_timers tm"
        using takeWhile_due [OF sorted] by (metis takeWhile_dropWhile_id)
      then have drop: "drop (length ?ex) (m_timers tm) = ?rest"
        by (metis append_eq_conv_conj)
      have loop: "expire_loop now ?ex (tm1\<lparr> m_timers := ?rest \<rparr>) = (cbs, tm')"
        using run Cons False d same ex drop by (simp add: listExpiredCb_def Let_def)
      have s: "sorted_wrt (before (m_heap tm)) ?rest"
        using sorted by (rule sorted_wrt_filter)
      have h: "m_heap (tm1\<lparr> m_timers := ?rest \<rparr>) = m_heap tm" by (simp add: same)
      have "set ?ex \<inter> set ?rest = {}" by auto
      then show ?thesis
        using expire_loop_spec [OF _ _ _ loop] s timers_okD(2) [OF ok] unfolding h by auto
    qed
  qed
  then show "cbs = map (\<lambda>a. m_cb (m_heap tm a))
           (filter (\<lambda>a. due rollover now (m_heap tm a)) (m_timers tm))"
    "m_heap tm' = (\<lambda>a. if a \<in> set (m_timers tm) \<and> due rollover now (m_heap tm a)
           then fired now (m_heap tm a) else m_heap tm a)"
    "set (m_timers tm') = {a \<in> set (m_timers tm).
           due rollover now (m_heap tm a) \<longrightarrow> m_recurring (m_heap tm a)}"
    "sorted_wrt (before (m_heap tm')) (m_timers tm')"
    by blast+
qed

lemma timers_ok_listExpiredCb:
  assumes "timers_ok tm" and "tmp \<notin> set (m_timers tm)"
  shows "timers_ok (snd (listExpiredCb now tmp tm))"
  using listExpiredCb_spec [OF assms surjective_pairing refl] timers_okD(3) [OF assms(1)]
  by (auto simp: timers_ok_def fired_def split: if_splits)

section \<open>Runs\<close>

text \<open>The operations any thread may perform, in any order.\<close>

datatype ('c, 'w) timer_op =
    Add ms addr ms "('c, 'w) callback option" bool
  | Add_condition ms addr ms "'c option" 'w bool
  | Cancel addr | Refresh ms addr | Reset ms ms bool addr
  | Get_next ms | List_expired ms addr

fun new_at :: "('c, 'w) timer_op \<Rightarrow> addr option" where
  "new_at (Add _ a _ _ _) = Some a"
| "new_at (Add_condition _ a _ _ _ _) = Some a"
| "new_at _ = None"

text \<open>
  A step: the operation, the callbacks it hands out and the next state. \<open>new\<close> never returns
  the address of a timer that the set keeps alive.
\<close>

inductive timer_step ::
  "('c, 'w) timers \<Rightarrow> ('c, 'w) timer_op \<Rightarrow> ('c, 'w) callback option list \<Rightarrow> ('c, 'w) timers \<Rightarrow> bool"
where
  t_add: "a \<notin> set (m_timers tm) \<Longrightarrow>
    timer_step tm (Add now a ms cb r) [] (addTimer now a ms cb r tm)"
| t_add_condition: "a \<notin> set (m_timers tm) \<Longrightarrow>
    timer_step tm (Add_condition now a ms c w r) [] (addConditionTimer now a ms c w r tm)"
| t_cancel: "timer_cancel a tm = (res, tm') \<Longrightarrow> timer_step tm (Cancel a) [] tm'"
| t_refresh: "timer_step tm (Refresh now a) [] (snd (timer_refresh now a tm))"
| t_reset: "timer_step tm (Reset now ms f a) [] (snd (timer_reset now ms f a tm))"
| t_get_next: "timer_step tm (Get_next now) [] (snd (getNextTimer now tm))"
| t_list: "tmp \<notin> set (m_timers tm) \<Longrightarrow> listExpiredCb now tmp tm = (cbs, tm') \<Longrightarrow>
    timer_step tm (List_expired now tmp) cbs tm'"

inductive_cases timer_stepE: "timer_step tm op cbs tm'"

lemma timer_step_ok: "timer_step tm op cbs tm' \<Longrightarrow> timers_ok tm \<Longrightarrow> timers_ok tm'"
proof (induction rule: timer_step.induct)
  case (t_list tmp tm now cbs tm')
  then show ?case using timers_ok_listExpiredCb [of tm tmp now] by simp
qed (auto simp: timers_ok_addTimer addConditionTimer_def timers_ok_refresh timers_ok_reset
      timers_ok_getNextTimer intro: timers_ok_cancel)

text \<open>Runs from a state, with the operations and all callbacks handed out on the way.\<close>

inductive timer_run ::
  "('c, 'w) timers \<Rightarrow> ('c, 'w) timer_op list \<Rightarrow> ('c, 'w) callback option list \<Rightarrow> ('c, 'w) timers \<Rightarrow> bool"
where
  run_nil: "timer_run tm [] [] tm"
| run_step: "timer_step tm op cbs tm1 \<Longrightarrow> timer_run tm1 ops cbs' tm2 \<Longrightarrow>
    timer_run tm (op # ops) (cbs @ cbs') tm2"

lemma timer_run_ok: "timer_run tm ops cbs tm' \<Longrightarrow> timers_ok tm \<Longrightarrow> timers_ok tm'"
  by (induction rule: timer_run.induct) (auto dest: timer_step_ok)

text \<open>A timer with a null callback outside the set stays so until its address is reused.\<close>

definition disarmed :: "addr \<Rightarrow> ('c, 'w) timers \<Rightarrow> bool" where
  "disarmed a tm \<longleftrightarrow> m_cb (m_heap tm a) = None \<and> a \<notin> set (m_timers tm)"

lemma disarmed_step:
  assumes "timer_step tm op cbs tm'" and "timers_ok tm" and "disarmed a tm" and "new_at op \<noteq> Some a"
  shows "disarmed a tm'"
  using assms
proof (induction rule: timer_step.induct)
  case (t_list tmp tm now cbs tm')
  then show ?case using listExpiredCb_spec(2,3) [OF t_list.prems(1) t_list.hyps refl]
    by (auto simp: disarmed_def)
next
  case (t_cancel b tm res tm')
  then show ?case using timers_okD(1) [OF t_cancel.prems(1)]
    by (auto simp: timer_cancel_ok disarmed_def split: if_splits)
next
  case (t_refresh tm now b)
  then show ?case using timers_okD(1) [OF t_refresh.prems(1)]
    by (cases "a = b") (auto simp: timer_refresh_def disarmed_def Let_def)
next
  case (t_reset tm now ms f b)
  then show ?case using timers_okD(1) [OF t_reset.prems(1)]
    by (cases "a = b") (auto simp: timer_reset_def disarmed_def Let_def)
next
  case (t_get_next tm now)
  then show ?case by (auto simp: getNextTimer_def disarmed_def Let_def split: list.splits)
qed (auto simp: disarmed_def addTimer_def addConditionTimer_def)

lemma disarmed_run:
  "timer_run tm ops cbs tm' \<Longrightarrow> timers_ok tm \<Longrightarrow> disarmed a tm \<Longrightarrow>
   \<forall>op\<in>set ops. new_at op \<noteq> Some a \<Longrightarrow> disarmed a tm'"
  by (induction rule: timer_run.induct) (auto dest: timer_step_ok disarmed_step)

fun op_cb :: "('c, 'w) timer_op \<Rightarrow> ('c, 'w) callback option" where
  "op_cb (Add _ _ _ cb _) = cb"
| "op_cb (Add_condition _ _ _ c w _) = Some (OnTimer w c)"
| "op_cb _ = None"

text \<open>The callback \<open>c\<close> is held by the timer \<open>a\<close> at most, and \<open>a\<close> is not recurring.\<close>

definition only_once :: "addr \<Rightarrow> ('c, 'w) callback \<Rightarrow> ('c, 'w) timers \<Rightarrow> bool" where
  "only_once a c tm \<longleftrightarrow>
     (\<forall>b. m_cb (m_heap tm b) = Some c \<longrightarrow> b = a \<and> \<not> m_recurring (m_heap tm a))"

definition unheld :: "('c, 'w) callback \<Rightarrow> ('c, 'w) timers \<Rightarrow> bool" where
  "unheld c tm \<longleftrightarrow> (\<forall>b. m_cb (m_heap tm b) \<noteq> Some c)"

lemma length_filter_mono_pred:
  "(\<And>x. P x \<Longrightarrow> Q x) \<Longrightarrow> length (filter P xs) \<le> length (filter Q xs)"
  by (induction xs) (auto simp: le_SucI)

lemma count_list_map_length:
  "count_list (map f xs) y = length (filter (\<lambda>x. f x = y) xs)"
  by (induction xs) auto

lemma distinct_filter_length: "distinct xs \<Longrightarrow> length (filter (\<lambda>x. x = a) xs) \<le> 1"
  by (induction xs) (auto simp: filter_empty_conv)

lemma held_step:
  assumes "timer_step tm op cbs tm'" and "timers_ok tm" and "op_cb op \<noteq> Some c"
    and "m_cb (m_heap tm' b) = Some c"
  shows "m_cb (m_heap tm b) = Some c \<and> m_recurring (m_heap tm' b) = m_recurring (m_heap tm b)"
  using assms
proof (induction rule: timer_step.induct)
  case (t_list tmp tm now cbs tm')
  show ?case
    using t_list.prems listExpiredCb_spec(2) [OF t_list.prems(1) t_list.hyps refl]
    by (auto simp: fired_def split: if_splits)
next
  case (t_cancel x tm res tm')
  then show ?case by (auto simp: timer_cancel_ok split: if_splits)
qed (auto simp: addTimer_def addConditionTimer_def Timer_new_def timer_refresh_def timer_reset_def
      getNextTimer_def Let_def split: if_splits option.splits list.splits)

lemma once_fired_unheld:
  assumes "timer_step tm op cbs tm'" and "timers_ok tm" and "only_once a c tm"
    and "Some c \<in> set cbs"
  shows "unheld c tm'"
  using assms
proof (induction rule: timer_step.induct)
  case (t_list tmp tm now cbs tm')
  note spec = listExpiredCb_spec [OF t_list.prems(1) t_list.hyps refl]
  obtain d where "d \<in> set (m_timers tm)" "m_cb (m_heap tm d) = Some c"
    "due (fst (detectClockRollover now tm)) now (m_heap tm d)"
    using t_list.prems(3) spec(1) by force
  moreover from this have d: "d = a" "\<not> m_recurring (m_heap tm a)"
    using t_list.prems(2) unfolding only_once_def by metis+
  ultimately have "m_heap tm' a = (m_heap tm a)\<lparr> m_cb := None \<rparr>"
    by (simp add: spec(2) fired_def)
  moreover have "m_cb (m_heap tm' b) = m_cb (m_heap tm b) \<or> m_cb (m_heap tm' b) = None" for b
    by (simp add: spec(2) fired_def)
  ultimately have "m_cb (m_heap tm' b) \<noteq> Some c" for b
    using t_list.prems(2) unfolding only_once_def
    by (cases "b = a") (simp, metis option.distinct(1))
  then show ?case by (simp add: unheld_def)
qed auto

lemma fires_from_holder:
  assumes "timer_step tm op cbs tm'" and "timers_ok tm" and "Some c \<in> set cbs"
  shows "\<exists>a. m_cb (m_heap tm a) = Some c"
  using assms
proof (induction rule: timer_step.induct)
  case (t_list tmp tm now cbs tm')
  then show ?case using listExpiredCb_spec(1) [OF t_list.prems(1) t_list.hyps refl] by force
qed auto

lemma unheld_run:
  "timer_run tm ops cbs tm' \<Longrightarrow> timers_ok tm \<Longrightarrow> unheld c tm \<Longrightarrow>
   \<forall>op\<in>set ops. op_cb op \<noteq> Some c \<Longrightarrow> Some c \<notin> set cbs"
proof (induction rule: timer_run.induct)
  case (run_step tm op cbs tm1 ops cbs' tm2)
  note step = run_step.hyps(1) and ok = run_step.prems(1)
  have new: "op_cb op \<noteq> Some c" using run_step.prems(3) by simp
  have "m_cb (m_heap tm b) = Some c" if "m_cb (m_heap tm1 b) = Some c" for b
    using held_step [OF step ok new that] ..
  then have "unheld c tm1" using run_step.prems(2) unfolding unheld_def by blast
  then have "Some c \<notin> set cbs'"
    using run_step.IH timer_step_ok [OF step ok] run_step.prems(3) by simp
  moreover have "Some c \<notin> set cbs"
    using fires_from_holder [OF step ok] run_step.prems(2) unfolding unheld_def by blast
  ultimately show ?case by simp
qed simp

lemma only_once_fires:
  assumes "timer_step tm op cbs tm'" and "timers_ok tm" and "only_once a c tm"
  shows "count_list cbs (Some c) \<le> 1"
  using assms
proof (induction rule: timer_step.induct)
  case (t_list tmp tm now cbs tm')
  let ?due = "filter (\<lambda>x. due (fst (detectClockRollover now tm)) now (m_heap tm x)) (m_timers tm)"
  have "count_list cbs (Some c) = length (filter (\<lambda>x. m_cb (m_heap tm x) = Some c) ?due)"
    unfolding listExpiredCb_spec(1) [OF t_list.prems(1) t_list.hyps refl]
    by (rule count_list_map_length)
  also have "\<dots> \<le> length (filter (\<lambda>x. x = a) ?due)"
    using t_list.prems(2) by (intro length_filter_mono_pred) (auto simp: only_once_def)
  also have "\<dots> \<le> 1"
    using distinct_filter_length [of ?due a] timers_okD(2) [OF t_list.prems(1)] by simp
  finally show ?case .
qed simp_all

lemma only_once_run:
  "timer_run tm ops cbs tm' \<Longrightarrow> timers_ok tm \<Longrightarrow> only_once a c tm \<Longrightarrow>
   \<forall>op\<in>set ops. op_cb op \<noteq> Some c \<Longrightarrow> count_list cbs (Some c) \<le> 1"
proof (induction rule: timer_run.induct)
  case (run_step tm op cbs tm1 ops cbs' tm2)
  note step = run_step.hyps(1) and ok = run_step.prems(1)
  have ok1: "timers_ok tm1" using step ok by (rule timer_step_ok)
  have once: "count_list cbs (Some c) \<le> 1" using step ok run_step.prems(2) by (rule only_once_fires)
  show ?case
  proof (cases "Some c \<in> set cbs")
    case False
    then have "count_list cbs (Some c) = 0" by (simp add: count_list_0_iff)
    moreover have "only_once a c tm1"
    proof -
      have new: "op_cb op \<noteq> Some c" using run_step.prems(3) by simp
      have "m_cb (m_heap tm1 b) = Some c \<Longrightarrow> b = a \<and> \<not> m_recurring (m_heap tm1 a)" for b
        using held_step [OF step ok new, of b] run_step.prems(2) unfolding only_once_def by metis
      then show ?thesis unfolding only_once_def by blast
    qed
    ultimately show ?thesis using run_step ok1 by simp
  next
    case True
    then have "unheld c tm1" by (rule once_fired_unheld [OF step ok run_step.prems(2)])
    then have "count_list cbs' (Some c) = 0"
      using unheld_run [OF run_step.hyps(2) ok1] run_step.prems(3) by (simp add: count_list_0_iff)
    then show ?thesis using once by simp
  qed
qed simp

section \<open>Properties\<close>

text \<open>
  C5. From a new manager, after any operations in any order: the set is sorted by the
  comparator, each armed timer is in it, and \<open>cancel\<close> never erases the end iterator (which
  would be undefined behaviour) but succeeds exactly on the armed timers.
\<close>

theorem timer_manager_invariant:
  assumes "timer_run (TimerManager_new now) ops cbs tm"
  shows "sorted_wrt (before (m_heap tm)) (m_timers tm) \<and>
    (\<forall>a. m_cb (m_heap tm a) = None \<or> a \<in> set (m_timers tm)) \<and>
    fst (timer_cancel a tm) = Inr (m_cb (m_heap tm a) \<noteq> None)"
  using timer_run_ok [OF assms timers_ok_new]
  by (auto simp: timers_ok_def timer_cancel_ok)

theorem timer_manager_invariant_witness:
  "fst (timer_cancel 4 (addTimer 100 4 5 (Some (Plain (2 :: nat))) False
     (TimerManager_new 100 :: (nat, nat) timers))) = Inr True"
proof -
  let ?tm = "addTimer 100 4 5 (Some (Plain 2)) False (TimerManager_new 100 :: (nat, nat) timers)"
  have "4 \<notin> set (m_timers (TimerManager_new 100 :: (nat, nat) timers))"
    by (simp add: TimerManager_new_def)
  from run_step [OF t_add [OF this] run_nil]
  have "timer_run (TimerManager_new 100) [Add 100 4 5 (Some (Plain 2)) False] ([] @ []) ?tm" .
  from timer_manager_invariant [OF this, of 4] show ?thesis
    by (simp add: addTimer_def Timer_new_def)
qed

text \<open>
  C4. \<open>listExpiredCb\<close> hands out the callbacks of exactly the timers that are due (all of them
  after a detected clock rollover, else those with \<open>m_next \<le> now\<close>) in the order of the set,
  whatever address the temporary timer has; it keeps the others untouched, reschedules the
  recurring ones at \<open>now + m_ms\<close> and disarms and removes the rest.
\<close>

theorem listExpiredCb_exact:
  assumes "timers_ok tm" and "tmp \<notin> set (m_timers tm)"
    and "listExpiredCb now tmp tm = (cbs, tm')"
    and "rollover = fst (detectClockRollover now tm)"
  shows "cbs = map (\<lambda>a. m_cb (m_heap tm a))
      (filter (\<lambda>a. rollover \<or> m_next (m_heap tm a) \<le> now) (m_timers tm)) \<and>
    m_heap tm' = (\<lambda>a. if a \<in> set (m_timers tm) \<and> (rollover \<or> m_next (m_heap tm a) \<le> now)
      then fired now (m_heap tm a) else m_heap tm a) \<and>
    set (m_timers tm') = {a \<in> set (m_timers tm).
      \<not> (rollover \<or> m_next (m_heap tm a) \<le> now) \<or> m_recurring (m_heap tm a)} \<and>
    timers_ok tm'"
  using listExpiredCb_spec [OF assms] timers_ok_listExpiredCb [OF assms(1,2), of now] assms(3)
  unfolding due_def by auto

definition sample_timers :: "(nat, nat) timers" where
  "sample_timers =
     addTimer 100 8 50 (Some (Plain 1)) True (addTimer 100 4 5 (Some (Plain 2)) False (TimerManager_new 100))"

lemma sample_timers_ok: "timers_ok sample_timers" "set (m_timers sample_timers) = {4, 8}"
proof -
  have "timers_ok (addTimer 100 4 5 (Some (Plain 2)) False (TimerManager_new 100) :: (nat, nat) timers)"
    by (rule timers_ok_addTimer [OF timers_ok_new]) (simp add: TimerManager_new_def)
  then show "timers_ok sample_timers"
    unfolding sample_timers_def
    by (rule timers_ok_addTimer) (simp add: addTimer_def TimerManager_new_def)
  show "set (m_timers sample_timers) = {4, 8}"
    by (auto simp: sample_timers_def addTimer_def TimerManager_new_def Comparator.simps Timer_new_def)
qed

theorem listExpiredCb_exact_witness:
  "fst (listExpiredCb 120 0 sample_timers) = [Some (Plain 2)] \<and>
   set (m_timers (snd (listExpiredCb 120 0 sample_timers))) = {8}"
proof -
  have l: "m_timers sample_timers = [4, 8]"
    by (simp add: sample_timers_def addTimer_def TimerManager_new_def Comparator.simps
        Timer_new_def)
  have h: "m_heap sample_timers 4 = Timer_new 100 5 (Some (Plain 2)) False"
    "m_heap sample_timers 8 = Timer_new 100 50 (Some (Plain 1)) True"
    by (simp_all add: sample_timers_def addTimer_def)
  have nr: "\<not> fst (detectClockRollover 120 sample_timers)"
    by (simp add: detectClockRollover_def sample_timers_def addTimer_def TimerManager_new_def)
  have "0 \<notin> set (m_timers sample_timers)" by (simp add: l)
  note exact = listExpiredCb_exact [OF sample_timers_ok(1) this surjective_pairing refl, of 120]
  have "fst (listExpiredCb 120 0 sample_timers) = [Some (Plain 2)]"
    unfolding conjunct1 [OF exact] by (simp add: l h nr Timer_new_def)
  moreover have "set (m_timers (snd (listExpiredCb 120 0 sample_timers))) = {8}"
    unfolding conjunct1 [OF conjunct2 [OF conjunct2 [OF exact]]] l
    by (auto simp: h nr Timer_new_def)
  ultimately show ?thesis ..
qed

text \<open>
  A cancelled timer never fires: once \<open>cancel\<close> has been called on the timer that holds a
  callback, no later operation of any kind hands that callback out, unless it is added again.
\<close>

theorem cancelled_never_fires:
  assumes "timers_ok tm" and "m_cb (m_heap tm a) = Some c"
    and "\<forall>b. b = a \<or> m_cb (m_heap tm b) \<noteq> Some c"
    and "timer_cancel a tm = (r, tm1)" and "timer_run tm1 ops cbs tm2"
    and "\<forall>op\<in>set ops. op_cb op \<noteq> Some c"
  shows "r = Inr True \<and> Some c \<notin> set cbs"
proof -
  have "r = Inr True" and "unheld c tm1"
    using assms(2,3,4) by (auto simp: timer_cancel_ok [OF assms(1)] unheld_def split: if_splits)
  then show ?thesis
    using unheld_run [OF assms(5) timers_ok_cancel [OF assms(1,4)]] assms(6) by simp
qed

theorem cancelled_never_fires_witness:
  "fst (timer_cancel 4 sample_timers) = Inr True \<and>
   Some (Plain 2) \<notin>
     set (fst (listExpiredCb 200 0 (snd (timer_cancel 4 sample_timers))) @ [])"
proof -
  let ?tm1 = "snd (timer_cancel 4 sample_timers)"
  have h: "m_cb (m_heap sample_timers a) =
      (if a = 4 then Some (Plain 2) else if a = 8 then Some (Plain 1) else None)" for a
    by (simp add: sample_timers_def addTimer_def Timer_new_def TimerManager_new_def Timer_at_def)
  have t: "0 \<notin> set (m_timers ?tm1)"
    using sample_timers_ok timers_okD(1) [OF sample_timers_ok(1)]
    by (simp add: timer_cancel_ok [OF sample_timers_ok(1)] h)
  have "timer_run ?tm1 [List_expired 200 0] (fst (listExpiredCb 200 0 ?tm1) @ [])
      (snd (listExpiredCb 200 0 ?tm1))"
    by (rule run_step [OF t_list [OF t surjective_pairing] run_nil])
  from cancelled_never_fires [OF sample_timers_ok(1) _ _ surjective_pairing this, of "Plain 2"]
  show ?thesis by (simp add: h)
qed

text \<open>
  A one-shot timer fires at most once: over any run, the callback held by one timer that
  is not recurring is handed out at most once, unless it is added again.
\<close>

theorem one_shot_fires_once:
  assumes "timers_ok tm" and "\<not> m_recurring (m_heap tm a)"
    and "\<forall>b. b = a \<or> m_cb (m_heap tm b) \<noteq> Some c"
    and "timer_run tm ops cbs tm'" and "\<forall>op\<in>set ops. op_cb op \<noteq> Some c"
  shows "count_list cbs (Some c) \<le> 1"
  using only_once_run [OF assms(4,1) _ assms(5)] assms(2,3) by (auto simp: only_once_def)

theorem one_shot_fires_once_witness:
  "count_list (fst (listExpiredCb 200 0 sample_timers) @ []) (Some (Plain 2)) \<le> 1"
proof -
  have h: "m_cb (m_heap sample_timers a) =
      (if a = 4 then Some (Plain 2) else if a = 8 then Some (Plain 1) else None)"
    "\<not> m_recurring (m_heap sample_timers 4)" for a
    by (simp_all add: sample_timers_def addTimer_def Timer_new_def TimerManager_new_def Timer_at_def)
  have "timer_run sample_timers [List_expired 200 0] (fst (listExpiredCb 200 0 sample_timers) @ [])
      (snd (listExpiredCb 200 0 sample_timers))"
    by (rule run_step [OF t_list [OF _ surjective_pairing] run_nil]) (simp add: sample_timers_ok(2))
  from one_shot_fires_once [OF sample_timers_ok(1) h(2) _ this, of "Plain 2"]
  show ?thesis by (simp add: h)
qed

text \<open>
  C6. \<open>getNextTimer\<close> and \<open>listExpiredCb\<close> agree: without timers it answers the largest value;
  otherwise 0 exactly when a timer is due now, and else the time to the earliest deadline, so
  that a caller who lists the expired timers when it has passed gets a callback, and a caller
  who lists them earlier (without a rollover) gets none.
\<close>

theorem getNextTimer_deadline:
  assumes "timers_ok tm" and "getNextTimer now tm = (d, tm1)"
    and "tmp \<notin> set (m_timers tm)"
  shows "(m_timers tm = [] \<longrightarrow> d = - 1) \<and>
    (m_timers tm \<noteq> [] \<longrightarrow>
      (d = 0 \<longleftrightarrow> (\<exists>a\<in>set (m_timers tm). m_next (m_heap tm a) \<le> now)) \<and>
      fst (listExpiredCb (now + d) tmp tm1) \<noteq> [] \<and>
      (\<forall>t. now \<le> t \<and> t < now + d \<and> \<not> fst (detectClockRollover t tm1) \<longrightarrow>
         fst (listExpiredCb t tmp tm1) = []))"
proof (cases "m_timers tm")
  case Nil
  then show ?thesis using assms(2) by (simp add: getNextTimer_def)
next
  case (Cons a as)
  have tm1: "tm1 = tm\<lparr> m_tickled := False \<rparr>"
    and d: "d = (if m_next (m_heap tm a) \<le> now then 0 else m_next (m_heap tm a) - now)"
    using assms(2) Cons by (auto simp: getNextTimer_def Let_def)
  have ok1: "timers_ok tm1" "tmp \<notin> set (m_timers tm1)"
    using assms(1,3) by (simp_all add: timers_ok_def tm1)
  note spec = listExpiredCb_spec(1) [OF ok1 surjective_pairing refl]
  have first: "\<forall>b\<in>set (m_timers tm). m_next (m_heap tm a) \<le> m_next (m_heap tm b)"
    using timers_okD(1) [OF assms(1)] Cons by (auto dest: before_next_le)
  have zero: "d = 0 \<longleftrightarrow> (\<exists>b\<in>set (m_timers tm). m_next (m_heap tm b) \<le> now)"
  proof (cases "m_next (m_heap tm a) \<le> now")
    case True
    then show ?thesis using Cons d by auto
  next
    case False
    moreover from this have "m_next (m_heap tm a) - now \<noteq> 0" by auto
    ultimately show ?thesis using first d by (auto dest: order_trans)
  qed
  have "fst (listExpiredCb (now + d) tmp tm1) \<noteq> []"
    unfolding spec using Cons d by (auto simp: tm1 due_def)
  moreover have "fst (listExpiredCb t tmp tm1) = []"
    if "now \<le> t" "t < now + d" "\<not> fst (detectClockRollover t tm1)" for t
  proof -
    have "t < m_next (m_heap tm a)" using that(1,2) d by (auto split: if_splits)
    then show ?thesis unfolding spec using first that(3)
      by (auto simp: tm1 due_def filter_empty_conv not_le intro: less_le_trans)
  qed
  ultimately show ?thesis using Cons zero by simp
qed

theorem getNextTimer_deadline_witness:
  "fst (getNextTimer 101 sample_timers) = 4 \<and>
   fst (listExpiredCb 105 0 (snd (getNextTimer 101 sample_timers))) \<noteq> []"
proof -
  have l: "m_timers sample_timers = [4, 8]"
    by (simp add: sample_timers_def addTimer_def TimerManager_new_def Comparator.simps
        Timer_new_def)
  have d: "fst (getNextTimer 101 sample_timers) = 4"
    by (simp add: getNextTimer_def l) (simp add: sample_timers_def addTimer_def Timer_new_def)
  show ?thesis
    using getNextTimer_deadline [OF sample_timers_ok(1) surjective_pairing, of 0 101] d
    by (simp add: l)
qed

text \<open>
  A waiter is woken when it must be: adding a timer calls \<open>onTimerInsertedAtFront\<close> once
  exactly when the new timer is ahead of all others and no notification is outstanding since
  the last \<open>getNextTimer\<close>.
\<close>

theorem addTimer_notifies:
  assumes "timers_ok tm" and "a \<notin> set (m_timers tm)"
  shows "front_calls (addTimer now a ms cb r tm) = front_calls tm +
      (if \<not> m_tickled tm \<and>
          list_all (\<lambda>b. before ((m_heap tm)(a := Timer_new now ms cb r)) a b) (m_timers tm)
       then 1 else 0) \<and>
    (m_tickled (addTimer now a ms cb r tm) \<longleftrightarrow>
       front_calls (addTimer now a ms cb r tm) \<noteq> front_calls tm \<or> m_tickled tm)"
proof -
  let ?h = "(m_heap tm)(a := Timer_new now ms cb r)"
  have "sorted_wrt (before ?h) (m_timers tm)" using assms timers_okD(1) by simp
  from timer_order.set_insert_hd [OF this, of a] assms(2)
  have "hd (set_insert (before ?h) a (m_timers tm)) = a \<longleftrightarrow>
      list_all (\<lambda>b. before ?h a b) (m_timers tm)" by (auto simp: list_all_iff)
  then show ?thesis by (auto simp: addTimer_def addTimer_ptr_def Let_def)
qed

theorem addTimer_notifies_witness:
  "front_calls (addTimer 100 4 5 None False (TimerManager_new 100 :: (nat, nat) timers)) = 1"
  using addTimer_notifies [OF timers_ok_new [of 100], of 4 100 5 "None :: (nat, nat) callback option" False]
  by (simp add: TimerManager_new_def)

end
