(* ===== verification/IOManager_Props.thy ===== *)
theory IOManager_Props
  imports IOManager Scheduler_Props Timer_Props
begin

unbundle bit_operations_syntax

text \<open>
  The epoll scheduler's bookkeeping: a context holds a waiter for an event exactly while the
  event is registered, the pending count is the number of waiters, the kernel's interest set
  is the table's, and every waiter that is registered is put in its scheduler's queue exactly
  once, or removed by \<open>delEvent\<close>.
\<close>

section \<open>Invariant\<close>

definition idle_context :: "'f EventContext \<Rightarrow> bool" where
  "idle_context c \<longleftrightarrow> ec_scheduler c = None \<and> ec_fiber c = None \<and> ec_cb c = None"

definition waiting_context :: "'f EventContext \<Rightarrow> bool" where
  "waiting_context c \<longleftrightarrow> ec_scheduler c \<noteq> None \<and> (ec_fiber c = None \<longleftrightarrow> ec_cb c \<noteq> None)"

definition has_read :: "ev \<Rightarrow> bool" where
  "has_read e \<longleftrightarrow> e AND READ \<noteq> 0"

definition has_write :: "ev \<Rightarrow> bool" where
  "has_write e \<longleftrightarrow> e AND WRITE \<noteq> 0"

definition fd_ok :: "'f FdContext \<Rightarrow> bool" where
  "fd_ok x \<longleftrightarrow> fc_events x \<in> {0, 1, 4, 5} \<and>
     (if has_read (fc_events x) then waiting_context (fc_read x) else idle_context (fc_read x)) \<and>
     (if has_write (fc_events x) then waiting_context (fc_write x) else idle_context (fc_write x))"

definition waiters :: "'f FdContext \<Rightarrow> nat" where
  "waiters x = (if has_read (fc_events x) then 1 else 0) + (if has_write (fc_events x) then 1 else 0)"

definition iom_ok :: "('c, 'w, 'k) iomanager \<Rightarrow> bool" where
  "iom_ok m \<longleftrightarrow> 32 \<le> length (m_fdContexts m) \<and>
     (\<forall>x\<in>set (m_fdContexts m). fd_ok x) \<and> map fc_fd (m_fdContexts m) = [0..<length (m_fdContexts m)] \<and>
     m_pendingEventCount m = of_nat (sum_list (map waiters (m_fdContexts m)))"

text \<open>The task a context gives back, and all that scheduler \<open>sid\<close> has in its queue or is owed.\<close>

definition waiter :: "'f EventContext \<Rightarrow> 'f FiberAndThread" where
  "waiter c = (if ec_cb c \<noteq> None then ft_of_cb (ec_cb c) (- 1) else ft_of_fiber (ec_fiber c) (- 1))"

definition owed_by :: "sched_id \<Rightarrow> 'f EventContext \<Rightarrow> 'f FiberAndThread multiset" where
  "owed_by sid c = (if ec_scheduler c = Some sid then {#waiter c#} else {#})"

definition owed :: "sched_id \<Rightarrow> 'f FdContext \<Rightarrow> 'f FiberAndThread multiset" where
  "owed sid x = owed_by sid (fc_read x) + owed_by sid (fc_write x)"

definition load :: "sched_id \<Rightarrow> ('c, 'w, 'k) iomanager \<Rightarrow> ('c, 'w) callback FiberAndThread multiset" where
  "load sid m = mset (m_fibers (scheds m sid)) + sum_list (map (owed sid) (m_fdContexts m))"

lemma has_simps [simp]:
  "\<not> has_read 0" "\<not> has_write 0" "has_read 1" "\<not> has_write 1" "\<not> has_read 4" "has_write 4"
  "has_read 5" "has_write 5"
  by (simp_all add: has_read_def has_write_def)

lemma iom_okD:
  assumes "iom_ok m" and "i < length (m_fdContexts m)"
  shows "fd_ok (ctx_at i m)" "fc_fd (ctx_at i m) = i"
proof -
  show "fd_ok (ctx_at i m)" using assms by (simp add: iom_ok_def ctx_at_def)
  have "map fc_fd (m_fdContexts m) ! i = [0..<length (m_fdContexts m)] ! i"
    using assms(1) by (simp add: iom_ok_def)
  then show "fc_fd (ctx_at i m) = i" using assms(2) by (simp add: ctx_at_def)
qed

lemma FdContext_new_simps [simp]:
  "fd_ok (FdContext_new i)" "waiters (FdContext_new i) = 0" "owed sid (FdContext_new i) = {#}"
  "fc_fd (FdContext_new i) = i" "fc_events (FdContext_new i) = 0"
  by (simp_all add: FdContext_new_def fd_ok_def idle_context_def EventContext_new_def waiters_def
      owed_def owed_by_def)

lemma put_ctx_simps [simp]:
  "m_fdContexts (put_ctx i x m) = (m_fdContexts m)[i := x]"
  "m_pendingEventCount (put_ctx i x m) = m_pendingEventCount m"
  "scheds (put_ctx i x m) = scheds m" "kernel (put_ctx i x m) = kernel m"
  "io_timers (put_ctx i x m) = io_timers m"
  by (simp_all add: put_ctx_def)

lemma schedule_on_simps [simp]:
  "m_fdContexts (schedule_on sid ft m) = m_fdContexts m"
  "m_pendingEventCount (schedule_on sid ft m) = m_pendingEventCount m"
  "kernel (schedule_on sid ft m) = kernel m"
  "m_fibers (scheds (schedule_on sid ft m) sid') =
     m_fibers (scheds m sid') @ (if sid' = sid \<and> ft_valid ft then [ft] else [])"
  by (simp_all add: schedule_on_def schedule_def scheduleNoLock_def tickle_def)

lemma drop_pending_simps [simp]:
  "m_fdContexts (drop_pending m) = m_fdContexts m"
  "m_pendingEventCount (drop_pending m) = m_pendingEventCount m - 1"
  "scheds (drop_pending m) = scheds m" "kernel (drop_pending m) = kernel m"
  by (simp_all add: drop_pending_def)

lemma ctx_at_simps [simp]:
  "i < length (m_fdContexts m) \<Longrightarrow> ctx_at i (put_ctx i x m) = x"
  "i \<noteq> j \<Longrightarrow> ctx_at j (put_ctx i x m) = ctx_at j m"
  "ctx_at i (drop_pending m) = ctx_at i m"
  "ctx_at i (m\<lparr> kernel := k \<rparr>) = ctx_at i m"
  by (simp_all add: ctx_at_def put_ctx_def drop_pending_def)

text \<open>Replacing one context: what the invariant and the load ask of the new one.\<close>

lemma iom_ok_put:
  assumes "iom_ok m" and "i < length (m_fdContexts m)"
    and "m_fdContexts m' = (m_fdContexts m)[i := x]" and "fd_ok x" and "fc_fd x = i"
    and "m_pendingEventCount m' + of_nat (waiters (ctx_at i m)) =
      m_pendingEventCount m + of_nat (waiters x)"
  shows "iom_ok m'"
proof -
  let ?s = "\<lambda>xs. of_nat (sum_list (map waiters xs)) :: 64 word"
  have "of_nat (sum_list (map waiters (m_fdContexts m')) + waiters (m_fdContexts m ! i)) =
      (of_nat (sum_list (map waiters (m_fdContexts m)) + waiters x) :: 64 word)"
    unfolding assms(3) using assms(2) by (simp only: sum_list_map_update)
  then have "?s (m_fdContexts m') + of_nat (waiters (ctx_at i m)) =
      m_pendingEventCount m + of_nat (waiters x)"
    using assms(1) by (simp add: iom_ok_def ctx_at_def)
  then have "m_pendingEventCount m' = ?s (m_fdContexts m')"
    using assms(6) by (metis add_right_cancel)
  moreover have "\<forall>x\<in>set (m_fdContexts m'). fd_ok x"
    using assms(1,3,4) by (auto simp: iom_ok_def dest: set_update_subset_insert [THEN subsetD])
  moreover have "map fc_fd (m_fdContexts m') = [0..<length (m_fdContexts m')]"
    using assms(1,3,5) iom_okD(2) [OF assms(1,2)]
    by (simp add: iom_ok_def map_update ctx_at_def)
      (metis assms(2) length_map list_update_id nth_map)
  ultimately show ?thesis using assms(1,3) by (simp add: iom_ok_def)
qed

lemma multiset_balance:
  fixes Q :: "'a multiset"
  assumes "S' + h = S + h'" and "Q' + h' + A = Q + h + B"
  shows "Q' + S' + A = Q + S + B"
proof -
  have "Q' + S' + A + (h + h') = (S' + h) + (Q' + h' + A)" by (simp add: ac_simps)
  also have "\<dots> = Q + S + B + (h + h')" unfolding assms by (simp add: ac_simps)
  finally show ?thesis by simp
qed

lemma load_put:
  assumes "i < length (m_fdContexts m)" and "m_fdContexts m' = (m_fdContexts m)[i := x]"
    and "mset (m_fibers (scheds m' sid)) + owed sid x + A =
      mset (m_fibers (scheds m sid)) + owed sid (ctx_at i m) + B"
  shows "load sid m' + A = load sid m + B"
proof -
  have "sum_list (map (owed sid) (m_fdContexts m')) + owed sid (m_fdContexts m ! i) =
      sum_list (map (owed sid) (m_fdContexts m)) + owed sid x"
    unfolding assms(2) using assms(1) by (rule sum_list_map_update)
  then show ?thesis unfolding load_def using assms(3) unfolding ctx_at_def
    by (rule multiset_balance)
qed

section \<open>Triggering\<close>

definition ctx_of :: "ev \<Rightarrow> 'f FdContext \<Rightarrow> 'f EventContext" where
  "ctx_of event x = (if event = READ then fc_read x else fc_write x)"

text \<open>The context once the waiter for \<open>event\<close> is gone.\<close>

definition released :: "ev \<Rightarrow> 'f FdContext \<Rightarrow> 'f FdContext" where
  "released event x =
     setContext event EventContext_new (x\<lparr> fc_events := fc_events x AND NOT event \<rparr>)"

lemma EventContext_eq_new: "idle_context c \<Longrightarrow> c = EventContext_new"
  by (cases c) (simp add: idle_context_def EventContext_new_def)

lemma idle_context_new [simp]: "idle_context EventContext_new" "owed_by sid EventContext_new = {#}"
  by (simp_all add: idle_context_def EventContext_new_def owed_by_def)

lemma fd_ok_released:
  assumes "fd_ok x" and "event \<in> {READ, WRITE}" and "fc_events x AND event \<noteq> 0"
  shows "fd_ok (released event x)" "fc_fd (released event x) = fc_fd x"
    "fc_events (released event x) = fc_events x AND NOT event"
    "Suc (waiters (released event x)) = waiters x" "waiting_context (ctx_of event x)"
    "owed sid x = owed sid (released event x) + owed_by sid (ctx_of event x)"
  using assms
  by (auto simp: fd_ok_def released_def setContext_def waiters_def ctx_of_def owed_def)

lemma ft_valid_waiter: "waiting_context c \<Longrightarrow> ft_valid (waiter c)"
  by (auto simp: waiting_context_def waiter_def ft_valid_def ft_of_cb_def ft_of_fiber_def)

lemma triggerEvent_spec:
  assumes ok: "iom_ok m" and i: "i < length (m_fdContexts m)" and ev: "event \<in> {READ, WRITE}"
    and set: "fc_events (ctx_at i m) AND event \<noteq> 0"
  shows "\<exists>m'. triggerEvent i event m = (Inr (), m') \<and>
    m_fdContexts m' = (m_fdContexts m)[i := released event (ctx_at i m)] \<and>
    m_pendingEventCount m' = m_pendingEventCount m \<and> kernel m' = kernel m \<and>
    (\<forall>sid. mset (m_fibers (scheds m' sid)) =
       mset (m_fibers (scheds m sid)) + owed_by sid (ctx_of event (ctx_at i m)))"
proof -
  let ?x = "ctx_at i m"
  let ?c = "ctx_of event ?x"
  let ?x' = "?x\<lparr> fc_events := fc_events ?x AND NOT event \<rparr>"
  have w: "waiting_context ?c" using fd_ok_released(5) [OF iom_okD(1) [OF ok i] ev set] .
  then obtain sid where sid: "ec_scheduler ?c = Some sid" by (auto simp: waiting_context_def)
  have get: "getContext event ?x' = Inr ?c"
    using ev by (auto simp: getContext_def ctx_of_def)
  let ?m' = "put_ctx i (released event ?x) (schedule_on sid (waiter ?c) m)"
  have "triggerEvent i event m = (Inr (), ?m')"
  proof (cases "ec_cb ?c")
    case None
    then have "?c\<lparr> ec_fiber := None, ec_scheduler := None \<rparr> = EventContext_new"
      by (simp add: EventContext_new_def)
    then show ?thesis using set get sid None
      by (simp add: triggerEvent_def Let_def waiter_def released_def)
  next
    case (Some f)
    then have "?c\<lparr> ec_cb := None, ec_scheduler := None \<rparr> = EventContext_new"
      using w by (simp add: EventContext_new_def waiting_context_def)
    then show ?thesis using set get sid Some
      by (simp add: triggerEvent_def Let_def waiter_def released_def)
  qed
  moreover have "mset (m_fibers (scheds ?m' s)) =
      mset (m_fibers (scheds m s)) + owed_by s ?c" for s
    using ft_valid_waiter [OF w] sid by (simp add: owed_by_def)
  ultimately show ?thesis by (intro exI [of _ ?m']) simp
qed

text \<open>Triggering with the decrement that goes with it: the steps all operations are made of.\<close>

lemma trigger_if_spec:
  assumes ok: "iom_ok m" and i: "i < length (m_fdContexts m)" and ev: "event \<in> {READ, WRITE}"
    and set: "b \<Longrightarrow> fc_events (ctx_at i m) AND event \<noteq> 0"
  shows "\<exists>m'. trigger_if b i event m = (Inr (), m') \<and> iom_ok m' \<and>
    m_fdContexts m' =
      (m_fdContexts m)[i := if b then released event (ctx_at i m) else ctx_at i m] \<and>
    kernel m' = kernel m \<and> (\<forall>sid. load sid m' = load sid m)"
proof (cases b)
  case True
  note set = set [OF True]
  obtain m1 where m1: "triggerEvent i event m = (Inr (), m1)"
    "m_fdContexts m1 = (m_fdContexts m)[i := released event (ctx_at i m)]"
    "m_pendingEventCount m1 = m_pendingEventCount m" "kernel m1 = kernel m"
    "\<And>sid. mset (m_fibers (scheds m1 sid)) =
       mset (m_fibers (scheds m sid)) + owed_by sid (ctx_of event (ctx_at i m))"
    using triggerEvent_spec [OF ok i ev set] by blast
  note r = fd_ok_released [OF iom_okD(1) [OF ok i] ev set]
  have "iom_ok (drop_pending m1)"
    using r iom_okD(2) [OF ok i] m1(2,3)
    by (intro iom_ok_put [OF ok i, where x = "released event (ctx_at i m)"])
      (simp_all flip: r(4))
  moreover have "load sid (drop_pending m1) = load sid m" for sid
    using load_put [OF i, of "drop_pending m1" "released event (ctx_at i m)" sid "{#}" "{#}"]
      m1(2,5) r(6) by (simp add: ac_simps)
  ultimately show ?thesis using True m1 by (simp add: trigger_if_def prog_simps)
qed (use ok in \<open>simp add: trigger_if_def ctx_at_def\<close>)

section \<open>The kernel's side\<close>

text \<open>
  What the code relies on of \<open>epoll_ctl\<close>: where it returns 0, the descriptor's entry in the
  interest set is the one asked for, and otherwise nothing has changed.
\<close>

definition epoll_contract :: "'k epoll_ctl \<Rightarrow> ('k \<Rightarrow> int \<Rightarrow> ev option) \<Rightarrow> bool" where
  "epoll_contract ctl interest \<longleftrightarrow>
     (\<forall>op fd e k. interest (snd (ctl op fd e k)) =
        (if fst (ctl op fd e k) = 0
         then (interest k)(fd := if op = EPOLL_CTL_DEL then None else Some e)
         else interest k))"

definition registered :: "ev \<Rightarrow> ev option" where
  "registered e = (if e = 0 then None else Some (EPOLLET OR e))"

definition events_at :: "int \<Rightarrow> ('c, 'w, 'k) iomanager \<Rightarrow> ev" where
  "events_at fd m =
     (if 0 \<le> fd \<and> nat fd < length (m_fdContexts m) then fc_events (ctx_at (nat fd) m) else 0)"

definition synced :: "('k \<Rightarrow> int \<Rightarrow> ev option) \<Rightarrow> ('c, 'w, 'k) iomanager \<Rightarrow> bool" where
  "synced interest m \<longleftrightarrow> (\<forall>fd\<ge>0. interest (kernel m) fd = registered (events_at fd m))"

lemma events_at_nth [simp]:
  "i < length (m_fdContexts m) \<Longrightarrow> events_at (int i) m = fc_events (ctx_at i m)"
  by (simp add: events_at_def)

lemma synced_put:
  assumes "synced interest m" and "i < length (m_fdContexts m)"
    and "m_fdContexts m' = (m_fdContexts m)[i := x]"
    and "interest (kernel m') = (interest (kernel m))(int i := registered (fc_events x))"
  shows "synced interest m'"
  unfolding synced_def
proof (intro allI impI)
  fix fd :: int assume "0 \<le> fd"
  then show "interest (kernel m') fd = registered (events_at fd m')"
    using assms by (cases "fd = int i") (auto simp: synced_def events_at_def ctx_at_def)
qed

lemma synced_same:
  assumes "synced interest m" and "i < length (m_fdContexts m)"
    and "m_fdContexts m' = (m_fdContexts m)[i := ctx_at i m]"
    and "interest (kernel m') = interest (kernel m)"
  shows "synced interest m'"
  using assms by (simp add: synced_def events_at_def ctx_at_def)

lemma with_kernel [simp]:
  "iom_ok (m\<lparr> kernel := k \<rparr>) = iom_ok m" "load sid (m\<lparr> kernel := k \<rparr>) = load sid m"
  by (simp_all add: iom_ok_def load_def)

lemma ctl_remove_spec:
  assumes "epoll_contract ctl interest"
  shows "\<exists>k. snd (ctl_remove ctl fd new m) = m\<lparr> kernel := k \<rparr> \<and>
    interest k = (if fst (ctl_remove ctl fd new m)
      then (interest (kernel m))(fd := registered new) else interest (kernel m))"
proof -
  let ?op = "if new \<noteq> 0 then EPOLL_CTL_MOD else EPOLL_CTL_DEL"
  obtain rt k where r: "ctl ?op fd (EPOLLET OR new) (kernel m) = (rt, k)" by force
  then have "ctl_remove ctl fd new m = (rt = 0, m\<lparr> kernel := k \<rparr>)"
    by (simp add: ctl_remove_def)
  moreover have "interest k = (if rt = 0 then (interest (kernel m))(fd := registered new)
      else interest (kernel m))"
    using assms [unfolded epoll_contract_def, rule_format, of ?op fd "EPOLLET OR new" "kernel m"]
    by (simp add: r registered_def)
  ultimately show ?thesis by auto
qed

text \<open>What every operation keeps.\<close>

definition keeps ::
  "('k \<Rightarrow> int \<Rightarrow> ev option) \<Rightarrow> ('c, 'w, 'k) iomanager \<Rightarrow> ('c, 'w, 'k) iomanager \<Rightarrow> bool" where
  "keeps interest m m' \<longleftrightarrow> iom_ok m' \<and> (synced interest m \<longrightarrow> synced interest m') \<and>
     length (m_fdContexts m) \<le> length (m_fdContexts m')"

lemma keeps_refl [simp]: "iom_ok m \<Longrightarrow> keeps interest m m"
  by (simp add: keeps_def)

lemma keeps_kernel:
  "iom_ok m \<Longrightarrow> interest k = interest (kernel m) \<Longrightarrow> keeps interest m (m\<lparr> kernel := k \<rparr>)"
  by (simp add: keeps_def synced_def events_at_def ctx_at_def)

lemma events_cases: "fd_ok x \<Longrightarrow> fc_events x = 0 \<or> fc_events x = 1 \<or> fc_events x = 4 \<or> fc_events x = 5"
  by (auto simp: fd_ok_def)

lemma find_ctx_spec:
  "0 \<le> fd \<Longrightarrow>
   find_ctx fd m = (Inr (if int (length (m_fdContexts m)) \<le> fd then None else Some (nat fd)), m)"
  by (simp add: find_ctx_def)

lemma trigger_then:
  "pthen (trigger_if True i e) (\<lambda>m. (Inr r, m)) m =
   pthen (triggerEvent i e) (\<lambda>m. (Inr r, drop_pending m)) m"
  by (simp add: trigger_if_def pthen_def pbind_def split: prod.split sum.split)

lemma cancelEvent_spec:
  assumes ok: "iom_ok m" and fd: "0 \<le> fd" and ev: "event \<in> {READ, WRITE}"
    and ctl: "epoll_contract ctl interest"
  shows "\<exists>b m'. cancelEvent ctl fd event m = (Inr b, m') \<and> keeps interest m m' \<and>
    (\<forall>sid. load sid m' = load sid m) \<and>
    (b \<longrightarrow> events_at fd m AND event \<noteq> 0 \<and> events_at fd m' = events_at fd m AND NOT event)"
proof (cases "int (length (m_fdContexts m)) \<le> fd \<or> fc_events (ctx_at (nat fd) m) AND event = 0")
  case True
  then have "cancelEvent ctl fd event m = (Inr False, m)"
    using fd by (auto simp: cancelEvent_def pbind_ok [OF find_ctx_spec] Let_def)
  then show ?thesis using ok by (intro exI [of _ False] exI [of _ m]) simp
next
  case False
  define i where "i = nat fd"
  have i: "i < length (m_fdContexts m)" "fd = int i" and set: "fc_events (ctx_at i m) AND event \<noteq> 0"
    using False fd by (auto simp: i_def)
  let ?new = "fc_events (ctx_at i m) AND NOT event"
  obtain b k where k: "ctl_remove ctl fd ?new m = (b, m\<lparr> kernel := k \<rparr>)"
      "interest k = (if b then (interest (kernel m))(fd := registered ?new) else interest (kernel m))"
    using ctl_remove_spec [OF ctl, of fd ?new m] by (cases "ctl_remove ctl fd ?new m") auto
  have run: "cancelEvent ctl fd event m = (if \<not> b then (Inr False, m\<lparr> kernel := k \<rparr>)
      else pthen (trigger_if True i event) (\<lambda>m. (Inr True, m)) (m\<lparr> kernel := k \<rparr>))"
    using k set i
    by (simp add: cancelEvent_def pbind_ok [OF find_ctx_spec] trigger_then Let_def)
  show ?thesis
  proof (cases b)
    case False
    then show ?thesis using run k keeps_kernel [OF ok, of interest k]
      by (intro exI [of _ False] exI [of _ "m\<lparr> kernel := k \<rparr>"]) simp
  next
    case True
    let ?m1 = "m\<lparr> kernel := k \<rparr>"
    obtain m' where m': "trigger_if True i event ?m1 = (Inr (), m')" "iom_ok m'"
        "m_fdContexts m' = (m_fdContexts m)[i := released event (ctx_at i m)]"
        "kernel m' = k" "\<And>sid. load sid m' = load sid m"
      using trigger_if_spec [of ?m1 i event True] ok i ev set by auto
    note r = fd_ok_released [OF iom_okD(1) [OF ok i(1)] ev set]
    have "synced interest m \<Longrightarrow> synced interest m'"
      by (rule synced_put [OF _ i(1) m'(3)]) (use k(2) True m'(4) r i in simp_all)
    moreover have "events_at fd m' = fc_events (ctx_at i m) AND NOT event"
      using m'(3) i r(3) by (simp add: events_at_def ctx_at_def)
    ultimately show ?thesis using run True m' set i
      by (intro exI [of _ True] exI [of _ m']) (simp add: prog_simps keeps_def)
  qed
qed

lemma reset_new: "resetContext c = EventContext_new"
  by (simp add: resetContext_def EventContext_new_def)

lemma delEvent_spec:
  assumes ok: "iom_ok m" and fd: "0 \<le> fd" and ev: "event \<in> {READ, WRITE}"
    and ctl: "epoll_contract ctl interest"
  shows "\<exists>b m'. delEvent ctl fd event m = (Inr b, m') \<and> keeps interest m m' \<and>
    (\<forall>sid. load sid m = load sid m' +
       (if b then owed_by sid (ctx_of event (ctx_at (nat fd) m)) else {#})) \<and>
    (\<forall>sid. m_fibers (scheds m' sid) = m_fibers (scheds m sid)) \<and>
    (b \<longrightarrow> events_at fd m AND event \<noteq> 0 \<and> events_at fd m' = events_at fd m AND NOT event)"
proof (cases "int (length (m_fdContexts m)) \<le> fd \<or> fc_events (ctx_at (nat fd) m) AND event = 0")
  case True
  then have "delEvent ctl fd event m = (Inr False, m)"
    using fd by (auto simp: delEvent_def pbind_ok [OF find_ctx_spec] Let_def)
  then show ?thesis using ok by (intro exI [of _ False] exI [of _ m]) simp
next
  case False
  define i where "i = nat fd"
  have i: "i < length (m_fdContexts m)" "fd = int i" and set: "fc_events (ctx_at i m) AND event \<noteq> 0"
    using False fd by (auto simp: i_def)
  let ?x = "ctx_at i m"
  let ?new = "fc_events ?x AND NOT event"
  obtain b k where k: "ctl_remove ctl fd ?new m = (b, m\<lparr> kernel := k \<rparr>)"
      "interest k = (if b then (interest (kernel m))(fd := registered ?new) else interest (kernel m))"
    using ctl_remove_spec [OF ctl, of fd ?new m] by (cases "ctl_remove ctl fd ?new m") auto
  note r = fd_ok_released [OF iom_okD(1) [OF ok i(1)] ev set]
  let ?m' = "put_ctx i (released event ?x) (drop_pending (m\<lparr> kernel := k \<rparr>))"
  have run: "delEvent ctl fd event m =
      (if \<not> b then (Inr False, m\<lparr> kernel := k \<rparr>) else (Inr True, ?m'))"
    using k set i ev
    by (auto simp: delEvent_def pbind_ok [OF find_ctx_spec] Let_def getContext_def released_def reset_new)
  show ?thesis
  proof (cases b)
    case False
    then show ?thesis using run k keeps_kernel [OF ok, of interest k]
      by (intro exI [of _ False] exI [of _ "m\<lparr> kernel := k \<rparr>"]) simp
  next
    case True
    have "iom_ok ?m'"
      using r iom_okD(2) [OF ok i(1)]
      by (intro iom_ok_put [OF ok i(1), where x = "released event ?x"]) (simp_all flip: r(4))
    moreover have "synced interest m \<Longrightarrow> synced interest ?m'"
      by (rule synced_put [OF _ i(1), where x = "released event ?x"])
        (use k(2) True r i in simp_all)
    moreover have "load sid ?m' + owed_by sid (ctx_of event ?x) = load sid m + {#}" for sid
      using r(6) by (intro load_put [OF i(1), where x = "released event ?x"]) (simp_all add: ac_simps)
    moreover have "events_at fd ?m' = fc_events ?x AND NOT event"
      using i r(3) by (simp add: events_at_def ctx_at_def)
    ultimately show ?thesis using run True set i
      by (intro exI [of _ True] exI [of _ ?m']) (simp add: keeps_def)
  qed
qed

lemma events_at_kernel: "events_at fd (m\<lparr> kernel := k \<rparr>) = events_at fd m"
  by (simp add: events_at_def ctx_at_def)

lemma cancelAll_spec:
  assumes ok: "iom_ok m" and fd: "0 \<le> fd" and ctl: "epoll_contract ctl interest"
  shows "\<exists>b m'. cancelAll ctl fd m = (Inr b, m') \<and> keeps interest m m' \<and>
    (\<forall>sid. load sid m' = load sid m) \<and>
    (b \<longrightarrow> events_at fd m \<noteq> 0 \<and> events_at fd m' = 0) \<and>
    (\<not> b \<longrightarrow> events_at fd m' = events_at fd m \<and>
       (events_at fd m = 0 \<or> fst (ctl EPOLL_CTL_DEL fd 0 (kernel m)) \<noteq> 0))"
proof (cases "int (length (m_fdContexts m)) \<le> fd \<or> fc_events (ctx_at (nat fd) m) = 0")
  case True
  then have "cancelAll ctl fd m = (Inr False, m)"
    using fd by (auto simp: cancelAll_def pbind_ok [OF find_ctx_spec] Let_def)
  moreover have "events_at fd m = 0" using True by (auto simp: events_at_def)
  ultimately show ?thesis using ok by (intro exI [of _ False] exI [of _ m]) simp
next
  case False
  define i where "i = nat fd"
  have i: "i < length (m_fdContexts m)" "fd = int i" and set: "fc_events (ctx_at i m) \<noteq> 0"
    using False fd by (auto simp: i_def)
  let ?x = "ctx_at i m"
  obtain rt k where k: "ctl EPOLL_CTL_DEL fd 0 (kernel m) = (rt, k)" by force
  then have ki: "interest k = (if rt = 0 then (interest (kernel m))(fd := None) else interest (kernel m))"
    using ctl [unfolded epoll_contract_def, rule_format, of EPOLL_CTL_DEL fd 0 "kernel m"] by simp
  let ?m1 = "m\<lparr> kernel := k \<rparr>"
  show ?thesis
  proof (cases "rt = 0")
    case False
    then have "cancelAll ctl fd m = (Inr False, ?m1)"
      using k i set by (simp add: cancelAll_def pbind_ok [OF find_ctx_spec] Let_def)
    then show ?thesis using False ki keeps_kernel [OF ok, of interest k]
      by (intro exI [of _ False] exI [of _ ?m1]) (simp add: events_at_kernel k)
  next
    case True
    note x = iom_okD [OF ok i(1)]
    obtain m2 where m2: "trigger_if (fc_events ?x AND READ \<noteq> 0) i READ ?m1 = (Inr (), m2)"
        "iom_ok m2" "m_fdContexts m2 = (m_fdContexts m)[i :=
          if fc_events ?x AND READ \<noteq> 0 then released READ ?x else ?x]"
        "kernel m2 = k" "\<And>sid. load sid m2 = load sid m"
      using trigger_if_spec [of ?m1 i READ "fc_events ?x AND READ \<noteq> 0"] ok i by auto
    have i2: "i < length (m_fdContexts m2)" using i m2(3) by simp
    have x2: "ctx_at i m2 = (if fc_events ?x AND READ \<noteq> 0 then released READ ?x else ?x)"
      using i m2(3) by (simp add: ctx_at_def)
    obtain m3 where m3: "trigger_if (fc_events (ctx_at i m2) AND WRITE \<noteq> 0) i WRITE m2 = (Inr (), m3)"
        "iom_ok m3" "m_fdContexts m3 = (m_fdContexts m2)[i :=
          if fc_events (ctx_at i m2) AND WRITE \<noteq> 0 then released WRITE (ctx_at i m2) else ctx_at i m2]"
        "kernel m3 = k" "\<And>sid. load sid m3 = load sid m"
      using trigger_if_spec [OF m2(2) i2, of WRITE "fc_events (ctx_at i m2) AND WRITE \<noteq> 0"] m2(4,5)
      by auto
    have e2: "fc_events (ctx_at i m2) = fc_events ?x AND NOT READ"
      using events_cases [OF x(1)] fd_ok_released(3) [OF x(1), of READ] x2 by auto
    have e3: "fc_events (ctx_at i m3) = 0"
      using events_cases [OF x(1)] e2 m3(3) i2
        fd_ok_released(3) [OF iom_okD(1) [OF m2(2) i2], of WRITE]
      by (auto simp: ctx_at_def)
    have "synced interest m \<Longrightarrow> synced interest m3"
      by (rule synced_put [OF _ i(1), where x = "ctx_at i m3"])
        (use m2(3) m3(3,4) i i2 e3 ki True in \<open>simp_all add: ctx_at_def registered_def\<close>)
    moreover have "cancelAll ctl fd m = (Inr True, m3)"
      using k True i set m2(1) m3(1) e3
      by (simp add: cancelAll_def pbind_ok [OF find_ctx_spec] Let_def prog_simps)
    moreover have "events_at fd m3 = 0" "length (m_fdContexts m) \<le> length (m_fdContexts m3)"
      using e3 i m2(3) m3(3) by (simp_all add: events_at_def)
    ultimately show ?thesis using m3(2,5) i set
      by (intro exI [of _ True] exI [of _ m3]) (simp add: keeps_def)
  qed
qed

text \<open>
  A reported event is orderly when its context exists and it names only registered directions,
  as \<open>epoll_wait\<close> does when nobody changes the context in between.
\<close>

fun orderly :: "ready \<Rightarrow> ('c, 'w, 'k) iomanager \<Rightarrow> bool" where
  "orderly Tickled m \<longleftrightarrow> True"
| "orderly (Ready i evs) m \<longleftrightarrow> i < length (m_fdContexts m) \<and>
     (has_read evs \<longrightarrow> has_read (fc_events (ctx_at i m))) \<and>
     (has_write evs \<longrightarrow> has_write (fc_events (ctx_at i m)))"

definition failed :: "ev \<Rightarrow> bool" where
  "failed evs \<longleftrightarrow> evs AND (EPOLLERR OR EPOLLHUP) \<noteq> 0"

lemma has_or [simp]:
  "has_read (a OR b) \<longleftrightarrow> has_read a \<or> has_read b"
  "has_write (a OR b) \<longleftrightarrow> has_write a \<or> has_write b"
  by (simp_all add: has_read_def has_write_def word_ao_dist or_eq_0_iff)

lemma has_5_and [simp]:
  "has_read (5 AND e) = has_read e" "has_write (5 AND e) = has_write e"
proof -
  have "(5 AND e) AND 1 = e AND (5 AND 1)" "(5 AND e) AND 4 = e AND (5 AND 4)" for e :: ev
    by (simp_all only: ac_simps)
  then show "has_read (5 AND e) = has_read e" "has_write (5 AND e) = has_write e"
    by (simp_all add: has_read_def has_write_def)
qed

lemma real_events_eq:
  "real_events evs e =
     (if has_read evs \<or> failed evs \<and> has_read e then READ else NONE) OR
     (if has_write evs \<or> failed evs \<and> has_write e then WRITE else NONE)"
proof -
  have "real_events evs e =
     (if has_read (if failed evs then evs OR (5 AND e) else evs) then READ else NONE) OR
     (if has_write (if failed evs then evs OR (5 AND e) else evs) then WRITE else NONE)"
    by (simp add: real_events_def Let_def has_read_def has_write_def failed_def)
  then show ?thesis by simp
qed

lemma handle_event_spec:
  assumes ok: "iom_ok m" and ord: "orderly r m" and ctl: "epoll_contract ctl interest"
  shows "\<exists>m'. handle_event ctl r m = (Inr (), m') \<and> keeps interest m m' \<and>
    (\<forall>sid. load sid m' = load sid m)"
proof (cases r)
  case Tickled
  then show ?thesis using ok
    by (intro exI [of _ "m\<lparr> pipe := 0 \<rparr>"])
      (simp add: handle_event_def keeps_def iom_ok_def load_def synced_def events_at_def ctx_at_def)
next
  case (Ready i evs)
  then have i: "i < length (m_fdContexts m)" using ord by simp
  let ?x = "ctx_at i m"
  note x = iom_okD [OF ok i]
  define rb where "rb = (has_read evs \<or> failed evs \<and> has_read (fc_events ?x))"
  define wb where "wb = (has_write evs \<or> failed evs \<and> has_write (fc_events ?x))"
  define re where "re = (if rb then READ else NONE) OR (if wb then WRITE else NONE)"
  have re_eq: "real_events evs (fc_events ?x) = re"
    by (simp only: real_events_eq re_def rb_def wb_def)
  have sub: "rb \<longrightarrow> has_read (fc_events ?x)" "wb \<longrightarrow> has_write (fc_events ?x)"
    using ord Ready by (auto simp: rb_def wb_def)
  obtain b k where k: "ctl_remove ctl (int (fc_fd ?x)) (fc_events ?x AND NOT re) m = (b, m\<lparr> kernel := k \<rparr>)"
      "interest k = (if b then (interest (kernel m))(int i := registered (fc_events ?x AND NOT re))
        else interest (kernel m))"
    using ctl_remove_spec [OF ctl, of "int (fc_fd ?x)" "fc_events ?x AND NOT re" m] x(2)
    by (cases "ctl_remove ctl (int (fc_fd ?x)) (fc_events ?x AND NOT re) m") auto
  let ?m1 = "m\<lparr> kernel := k \<rparr>"
  have run: "handle_event ctl r m =
      (if fc_events ?x AND re = 0 then (Inr (), m)
       else if \<not> b then (Inr (), ?m1)
       else pthen (trigger_if (re AND READ \<noteq> 0) i READ) (trigger_if (re AND WRITE \<noteq> 0) i WRITE) ?m1)"
    using k(1) by (simp add: handle_event_def Ready re_eq)
  have re: "(re AND READ \<noteq> 0) = rb" "(re AND WRITE \<noteq> 0) = wb"
    by (simp_all add: re_def)
  show ?thesis
  proof (cases "fc_events ?x AND re = 0 \<or> \<not> b")
    case True
    then show ?thesis using run ok keeps_kernel [OF ok, of interest k] k(2) by auto
  next
    case False
    obtain m2 where m2: "trigger_if rb i READ ?m1 = (Inr (), m2)" "iom_ok m2"
        "m_fdContexts m2 = (m_fdContexts m)[i := if rb then released READ ?x else ?x]"
        "kernel m2 = k" "\<And>sid. load sid m2 = load sid m"
      using trigger_if_spec [of ?m1 i READ rb] ok i sub(1) by (auto simp: has_read_def)
    have i2: "i < length (m_fdContexts m2)" using i m2(3) by simp
    have e2: "fc_events (ctx_at i m2) = (if rb then fc_events ?x AND NOT READ else fc_events ?x)"
      using sub(1) fd_ok_released(3) [OF x(1), of READ] m2(3) i
      by (auto simp: ctx_at_def has_read_def)
    then have w2: "wb \<Longrightarrow> fc_events (ctx_at i m2) AND WRITE \<noteq> 0"
      using sub(2) events_cases [OF x(1)] by auto
    obtain m3 where m3: "trigger_if wb i WRITE m2 = (Inr (), m3)" "iom_ok m3"
        "m_fdContexts m3 = (m_fdContexts m2)[i :=
          if wb then released WRITE (ctx_at i m2) else ctx_at i m2]"
        "kernel m3 = k" "\<And>sid. load sid m3 = load sid m"
      using trigger_if_spec [OF m2(2) i2, where b = wb and event = WRITE] w2 m2(4,5) by auto
    have "fc_events (ctx_at i m3) =
        (if wb then fc_events (ctx_at i m2) AND NOT WRITE else fc_events (ctx_at i m2))"
      using fd_ok_released(3) [OF iom_okD(1) [OF m2(2) i2], of WRITE] w2 m3(3) i2
      by (auto simp: ctx_at_def)
    then have e3: "fc_events (ctx_at i m3) = fc_events ?x AND NOT re"
      using e2 events_cases [OF x(1)] by (auto simp: re_def)
    have "synced interest m \<Longrightarrow> synced interest m3"
      by (rule synced_put [OF _ i, where x = "ctx_at i m3"])
        (use m2(3) m3(3,4) i i2 e3 k(2) False in \<open>simp_all add: ctx_at_def\<close>)
    then show ?thesis using run False re m2 m3 i
      by (intro exI [of _ m3]) (simp add: prog_simps keeps_def)
  qed
qed

section \<open>Adding an event\<close>

lemma resized_grow:
  "length xs \<le> sz \<Longrightarrow> resized sz xs = xs @ map FdContext_new [length xs..<sz]"
  by (simp add: resized_def)

lemma contextResize_grow:
  assumes ok: "iom_ok m" and sz: "length (m_fdContexts m) \<le> sz"
  defines "m' \<equiv> contextResize sz m"
  shows "keeps interest m m'" "load sid m' = load sid m" "length (m_fdContexts m') = sz"
    "events_at fd m' = events_at fd m" "m_fibers (scheds m' sid) = m_fibers (scheds m sid)"
    "i < length (m_fdContexts m) \<Longrightarrow> ctx_at i m' = ctx_at i m"
proof -
  note g = resized_grow [OF sz]
  have zero: "sum_list (map (\<lambda>x. 0) xs) = (0 :: nat)" "sum_list (map (\<lambda>x. {#}) xs) = {#}" for xs :: "nat list"
    by (induction xs) auto
  have "[0..<sz] = [0..<length (m_fdContexts m)] @ [length (m_fdContexts m)..<sz]"
    using upt_add_eq_append [of 0 "length (m_fdContexts m)" "sz - length (m_fdContexts m)"] sz by simp
  then have "map fc_fd (m_fdContexts m') = [0..<length (m_fdContexts m')]"
    using ok sz by (simp add: m'_def contextResize_def g iom_ok_def o_def)
  then have ok': "iom_ok m'"
    using ok sz by (auto simp: m'_def contextResize_def g iom_ok_def o_def zero)
  show len: "length (m_fdContexts m') = sz" using sz by (simp add: m'_def contextResize_def g)
  show ev: "events_at fd m' = events_at fd m" for fd
    using sz by (auto simp: m'_def contextResize_def g events_at_def ctx_at_def nth_append)
  show "keeps interest m m'"
    using ok' sz len ev by (simp add: keeps_def synced_def) (simp add: m'_def contextResize_def)
  show "load sid m' = load sid m"
    by (simp add: m'_def contextResize_def g load_def o_def zero)
  show "m_fibers (scheds m' sid) = m_fibers (scheds m sid)"
    by (simp add: m'_def contextResize_def)
  show "i < length (m_fdContexts m) \<Longrightarrow> ctx_at i m' = ctx_at i m"
    by (simp add: m'_def contextResize_def g ctx_at_def nth_append)
qed

lemma find_or_grow_spec:
  assumes ok: "iom_ok m" and fd: "0 \<le> fd"
  shows "\<exists>m'. find_or_grow fd m = (Inr (nat fd), m') \<and> keeps interest m m' \<and>
    nat fd < length (m_fdContexts m') \<and> (\<forall>sid. load sid m' = load sid m) \<and>
    (\<forall>fd. events_at fd m' = events_at fd m) \<and>
    (\<forall>sid. m_fibers (scheds m' sid) = m_fibers (scheds m sid))"
proof (cases "int (length (m_fdContexts m)) > fd")
  case True
  then show ?thesis using ok fd by (simp add: find_or_grow_def)
next
  case False
  let ?sz = "nat (fd * 3 div 2)"
  have "32 \<le> length (m_fdContexts m)" using ok by (simp add: iom_ok_def)
  then have sz: "length (m_fdContexts m) \<le> ?sz" "nat fd < ?sz" using False by auto
  then show ?thesis using contextResize_grow [OF ok sz(1)] False
    by (simp add: find_or_grow_def)
qed

definition added :: "ev \<Rightarrow> sched_id \<Rightarrow> fiber_id \<Rightarrow> 'f option \<Rightarrow> 'f FdContext \<Rightarrow> 'f FdContext" where
  "added event sid f cb x =
     setContext event \<lparr> ec_scheduler = Some sid, ec_fiber = (if cb = None then Some f else None), ec_cb = cb \<rparr>
       (x\<lparr> fc_events := fc_events x OR event \<rparr>)"

definition new_task :: "fiber_id \<Rightarrow> 'f option \<Rightarrow> 'f FiberAndThread" where
  "new_task f cb = (if cb \<noteq> None then ft_of_cb cb (- 1) else ft_of_fiber (Some f) (- 1))"

lemma fd_ok_added:
  assumes "fd_ok x" and "event \<in> {READ, WRITE}" and "fc_events x AND event = 0"
  shows "fd_ok (added event sid f cb x)" "fc_fd (added event sid f cb x) = fc_fd x"
    "fc_events (added event sid f cb x) = fc_events x OR event"
    "waiters (added event sid f cb x) = Suc (waiters x)"
    "owed s (added event sid f cb x) = owed s x + (if s = sid then {#new_task f cb#} else {#})"
    "idle_context (ctx_of event x)"
  using assms
  by (auto simp: fd_ok_def added_def setContext_def waiters_def ctx_of_def owed_def owed_by_def
      waiting_context_def idle_context_def waiter_def new_task_def)

lemma addEvent_spec:
  assumes ok: "iom_ok m" and fd: "0 \<le> fd" and ev: "event \<in> {READ, WRITE}"
    and free: "events_at fd m AND event = 0" and ctl: "epoll_contract ctl interest"
  shows "\<exists>r m'. addEvent ctl (Some sid) (f, EXEC) fd event cb m = (Inr r, m') \<and>
    keeps interest m m' \<and> (r = 0 \<or> r = - 1) \<and>
    (\<forall>s. load s m' = load s m + (if r = 0 \<and> s = sid then {#new_task f cb#} else {#})) \<and>
    (\<forall>s. m_fibers (scheds m' s) = m_fibers (scheds m s)) \<and>
    events_at fd m' = (if r = 0 then events_at fd m OR event else events_at fd m)"
proof -
  define i where "i = nat fd"
  obtain m1 where m1: "find_or_grow fd m = (Inr i, m1)" "keeps interest m m1"
      "i < length (m_fdContexts m1)" "\<And>sid. load sid m1 = load sid m"
      "\<And>fd. events_at fd m1 = events_at fd m"
      "\<And>sid. m_fibers (scheds m1 sid) = m_fibers (scheds m sid)"
    using find_or_grow_spec [OF ok fd, of interest] by (auto simp: i_def)
  have ok1: "iom_ok m1" using m1(2) by (simp add: keeps_def)
  have fdi: "fd = int i" using fd by (simp add: i_def)
  let ?x = "ctx_at i m1"
  have free1: "fc_events ?x AND event = 0"
    using free m1(3,5) fdi by (metis events_at_nth)
  note x = fd_ok_added [OF iom_okD(1) [OF ok1 m1(3)] ev free1]
  let ?op = "if fc_events ?x \<noteq> 0 then EPOLL_CTL_MOD else EPOLL_CTL_ADD"
  obtain rt k where k: "ctl ?op fd (EPOLLET OR fc_events ?x OR event) (kernel m1) = (rt, k)" by force
  have ne: "fc_events ?x OR event \<noteq> 0" using ev by (auto simp: or_eq_0_iff)
  have ki: "interest k = (if rt = 0 then (interest (kernel m1))(fd := registered (fc_events ?x OR event))
      else interest (kernel m1))"
    using ctl [unfolded epoll_contract_def, rule_format, of ?op fd "EPOLLET OR fc_events ?x OR event" "kernel m1"]
    by (simp add: k registered_def ne or.assoc)
  show ?thesis
  proof (cases "rt = 0")
    case False
    have run: "addEvent ctl (Some sid) (f, EXEC) fd event cb m = (Inr (- 1), m1\<lparr> kernel := k \<rparr>)"
      using k False free1 by (simp add: addEvent_def pbind_ok m1(1) Let_def)
    have "keeps interest m (m1\<lparr> kernel := k \<rparr>)"
      using keeps_kernel [OF ok1, of interest k] ki False m1(2) by (auto simp: keeps_def)
    then show ?thesis using run m1
      by (intro exI [of _ "- 1"] exI [of _ "m1\<lparr> kernel := k \<rparr>"])
        (simp add: events_at_kernel)
  next
    case True
    let ?m' = "put_ctx i (added event sid f cb ?x)
      (m1\<lparr> kernel := k, m_pendingEventCount := m_pendingEventCount m1 + 1 \<rparr>)"
    have get: "getContext event (?x\<lparr> fc_events := e \<rparr>) = Inr EventContext_new" for e
      using ev EventContext_eq_new [OF x(6)] by (auto simp: getContext_def ctx_of_def)
    have run: "addEvent ctl (Some sid) (f, EXEC) fd event cb m = (Inr 0, ?m')"
      using k True free1 m1(3) get
      by (cases cb) (simp_all add: addEvent_def pbind_ok m1(1) Let_def EventContext_new_def
          added_def put_ctx_def)
    have ok': "iom_ok ?m'"
      using x iom_okD(2) [OF ok1 m1(3)]
      by (intro iom_ok_put [OF ok1 m1(3), where x = "added event sid f cb ?x"]) simp_all
    have "synced interest m1 \<Longrightarrow> synced interest ?m'"
      by (rule synced_put [OF _ m1(3), where x = "added event sid f cb ?x"])
        (use ki True x fdi in simp_all)
    then have keeps: "keeps interest m ?m'" using m1(2) ok' by (simp add: keeps_def)
    have "load s ?m' + {#} = load s m1 + (if s = sid then {#new_task f cb#} else {#})" for s
      using x(5) by (intro load_put [OF m1(3), where x = "added event sid f cb ?x"])
        (simp_all add: ac_simps)
    moreover have "events_at fd ?m' = events_at fd m OR event"
      using m1(3) m1(5) [of fd, symmetric] x(3) fdi by simp
    ultimately show ?thesis using run keeps m1
      by (intro exI [of _ 0] exI [of _ ?m']) simp
  qed
qed

section \<open>Runs\<close>

text \<open>
  One operation of the manager, by any thread, or a change of the schedulers or timers alone.
\<close>

inductive iom_step :: "'k epoll_ctl \<Rightarrow> ('c, 'w, 'k) iomanager \<Rightarrow> ('c, 'w, 'k) iomanager \<Rightarrow> bool"
  for ctl
where
  io_add: "0 \<le> fd \<Longrightarrow> event \<in> {READ, WRITE} \<Longrightarrow> events_at fd m AND event = 0 \<Longrightarrow>
    addEvent ctl (Some sid) (f, EXEC) fd event cb m = (r, m') \<Longrightarrow> iom_step ctl m m'"
| io_del: "0 \<le> fd \<Longrightarrow> event \<in> {READ, WRITE} \<Longrightarrow> delEvent ctl fd event m = (r, m') \<Longrightarrow>
    iom_step ctl m m'"
| io_cancel: "0 \<le> fd \<Longrightarrow> event \<in> {READ, WRITE} \<Longrightarrow> cancelEvent ctl fd event m = (r, m') \<Longrightarrow>
    iom_step ctl m m'"
| io_cancel_all: "0 \<le> fd \<Longrightarrow> cancelAll ctl fd m = (r, m') \<Longrightarrow> iom_step ctl m m'"
| io_event: "orderly e m \<Longrightarrow> handle_event ctl e m = (u, m') \<Longrightarrow> iom_step ctl m m'"
| io_other: "iom_step ctl m (m\<lparr> scheds := s, io_timers := t, pipe := p \<rparr>)"

definition iom_new :: "'k \<Rightarrow> (sched_id \<Rightarrow> ('c, 'w) callback scheduler) \<Rightarrow> ('c, 'w) timers \<Rightarrow> ('c, 'w, 'k) iomanager" where
  "iom_new k s t =
     contextResize 32 \<lparr> m_fdContexts = [], m_pendingEventCount = 0, scheds = s, io_timers = t,
                        kernel = k, pipe = 0 \<rparr>"

lemma sum_list_zero_map: "(\<And>x. x \<in> set xs \<Longrightarrow> h x = 0) \<Longrightarrow> sum_list (map h xs) = (0 :: nat)"
  by (induction xs) auto

lemma iom_ok_new: "iom_ok (iom_new k s t)"
proof -
  have l: "m_fdContexts (iom_new k s t) = map FdContext_new [0..<32]"
    by (simp add: iom_new_def contextResize_def resized_def del: upt_conv_Nil)
  have "m_pendingEventCount (iom_new k s t) = 0" by (simp add: iom_new_def contextResize_def)
  moreover have "sum_list (map waiters (map FdContext_new [0..<32])) = 0"
    by (rule sum_list_zero_map) auto
  ultimately show ?thesis unfolding iom_ok_def l by (auto simp del: upt_rec_numeral simp: o_def)
qed

lemma synced_new:
  assumes "\<forall>fd. interest k fd = None"
  shows "synced interest (iom_new k s t)"
proof -
  have "events_at fd (iom_new k s t) = 0" for fd
    by (simp add: events_at_def ctx_at_def iom_new_def contextResize_def resized_def
        del: upt_rec_numeral)
  then show ?thesis using assms
    by (simp add: synced_def registered_def) (simp add: iom_new_def contextResize_def)
qed

lemma iom_step_keeps:
  assumes "iom_step ctl m m'" and "iom_ok m" and "epoll_contract ctl interest"
  shows "keeps interest m m'"
  using assms
proof (induction rule: iom_step.induct)
  case (io_add fd event m sid f cb r m')
  then show ?case using addEvent_spec [OF io_add.prems(1) io_add.hyps(1-3) io_add.prems(2), of sid f cb]
    by auto
next
  case (io_del fd event m r m')
  then show ?case using delEvent_spec [OF io_del.prems(1) io_del.hyps(1,2) io_del.prems(2)] by auto
next
  case (io_cancel fd event m r m')
  then show ?case
    using cancelEvent_spec [OF io_cancel.prems(1) io_cancel.hyps(1,2) io_cancel.prems(2)] by auto
next
  case (io_cancel_all fd m r m')
  then show ?case
    using cancelAll_spec [OF io_cancel_all.prems(1) io_cancel_all.hyps(1) io_cancel_all.prems(2)] by auto
next
  case (io_event e m u m')
  then show ?case
    using handle_event_spec [OF io_event.prems(1) io_event.hyps(1) io_event.prems(2)] by auto
next
  case (io_other m s t p)
  then show ?case by (simp add: keeps_def iom_ok_def synced_def events_at_def ctx_at_def)
qed

lemma iom_run_keeps:
  assumes "(iom_step ctl)\<^sup>*\<^sup>* m m'" and "iom_ok m" and "epoll_contract ctl interest"
    and "synced interest m"
  shows "iom_ok m' \<and> synced interest m'"
  using assms(1)
proof (induction rule: rtranclp_induct)
  case (step y z)
  then show ?case using iom_step_keeps [OF step.hyps(2) _ assms(3)] by (simp add: keeps_def)
qed (use assms in simp)

section \<open>Properties\<close>


text \<open>A kernel that always agrees, to try the operations on.\<close>

definition good_kernel :: "(int \<Rightarrow> ev option) epoll_ctl" where
  "good_kernel op fd e k = (0, k(fd := if op = EPOLL_CTL_DEL then None else Some e))"

lemma good_kernel_contract: "epoll_contract good_kernel (\<lambda>k. k)"
  by (simp add: epoll_contract_def good_kernel_def)

definition idle_scheduler :: "'c scheduler" where
  "idle_scheduler =
     \<lparr> m_threads = [], m_fibers = [], m_rootFiber = None, m_name = ''s'', m_threadIds = [],
       m_threadCount = 1, m_activeThreadCount = 0, m_idleThreadCount = 0, m_stopping = False,
       m_autoStop = False, m_rootThread = - 1, tickles = 0 \<rparr>"

definition sample_iom :: "(nat, nat, int \<Rightarrow> ev option) iomanager" where
  "sample_iom = iom_new (\<lambda>_. None) (\<lambda>_. idle_scheduler) (TimerManager_new 0)"

lemma sample_iom_facts:
  "iom_ok sample_iom" "synced (\<lambda>k. k) sample_iom" "length (m_fdContexts sample_iom) = 32"
  "events_at fd sample_iom = 0"
proof -
  have l: "m_fdContexts sample_iom = map FdContext_new [0..<32]"
    by (simp add: sample_iom_def iom_new_def contextResize_def resized_def del: upt_rec_numeral)
  then show "length (m_fdContexts sample_iom) = 32" "events_at fd sample_iom = 0"
    by (simp_all add: events_at_def ctx_at_def del: upt_rec_numeral)
  show "iom_ok sample_iom" "synced (\<lambda>k. k) sample_iom"
    unfolding sample_iom_def by (rule iom_ok_new, rule synced_new) simp
qed

text \<open>Adding events with \<open>good_kernel\<close> succeeds.\<close>

lemma good_kernel_add:
  assumes "iom_ok m" and "0 \<le> fd" and "event \<in> {READ, WRITE}" and "events_at fd m AND event = 0"
  shows "\<exists>m'. addEvent good_kernel (Some sid) (f, EXEC) fd event cb m = (Inr 0, m') \<and>
    keeps (\<lambda>k. k) m m' \<and> events_at fd m' = events_at fd m OR event"
proof -
  obtain r m' where r: "addEvent good_kernel (Some sid) (f, EXEC) fd event cb m = (Inr r, m')"
      "keeps (\<lambda>k. k) m m'"
      "events_at fd m' = (if r = 0 then events_at fd m OR event else events_at fd m)"
    using addEvent_spec [OF assms good_kernel_contract, of sid f cb] by blast
  have "r = 0"
    using r(1) by (auto simp: addEvent_def pbind_def good_kernel_def Let_def
        split: sum.splits prod.splits if_splits)
  then show ?thesis using r by auto
qed




text \<open>
  An event mask that names a direction nobody waits for any more, together with one that is
  waited for, aborts the process: \<open>triggerEvent\<close> asserts the stale direction. (Another thread
  may remove the event between \<open>epoll_wait\<close> and the loop that deals with its result.)
\<close>

theorem stale_event_aborts:
  assumes "fc_events (ctx_at i m) = WRITE"
    and "ctl EPOLL_CTL_DEL (int (fc_fd (ctx_at i m))) EPOLLET (kernel m) = (0, k)"
  shows "fst (handle_event ctl (Ready i (EPOLLIN OR EPOLLOUT)) m) = Inl (Io_assert ''events & event'')"
  using assms
  by (simp add: handle_event_def real_events_eq ctl_remove_def Let_def trigger_if_def
      triggerEvent_def prog_simps pthen_def pbind_def)

theorem stale_event_aborts_witness:
  "\<exists>m :: (nat, nat, int \<Rightarrow> ev option) iomanager. events_at 3 m = WRITE \<and>
     fst (handle_event good_kernel (Ready 3 (EPOLLIN OR EPOLLOUT)) m) = Inl (Io_assert ''events & event'')"
proof -
  obtain m where m: "addEvent good_kernel (Some 0) (7, EXEC) 3 WRITE None sample_iom = (Inr 0, m)"
      "keeps (\<lambda>k. k) sample_iom m" "events_at 3 m = WRITE"
    using good_kernel_add [OF sample_iom_facts(1), of 3 WRITE 0 7 None] sample_iom_facts(4) by auto
  have "3 < length (m_fdContexts m)" using m(2) sample_iom_facts(3) by (simp add: keeps_def)
  then have "fc_events (ctx_at 3 m) = WRITE" using m(3) by (simp add: events_at_def)
  from stale_event_aborts [OF this, of good_kernel] m(3) show ?thesis
    by (intro exI [of _ m] conjI) (simp_all add: good_kernel_def)
qed

text \<open>
  Growing the table is not safe against another thread: \<open>addEvent\<close> decides to grow, gives
  up the read lock and then resizes to its own target. Where another \<open>addEvent\<close> has meanwhile
  registered a waiter in a larger table, that resize shrinks it again and the waiter's context
  is gone, although the kernel still watches its descriptor.
\<close>

theorem stale_resize_drops_waiter:
  assumes "iom_ok m" and "synced (\<lambda>k. k) m" and "int (length (m_fdContexts m)) \<le> fd1"
    and "2 * fd1 \<le> fd2" and "event \<in> {READ, WRITE}"
  shows "\<exists>m1. addEvent good_kernel (Some sid) (f, EXEC) fd2 event None m = (Inr 0, m1) \<and>
    events_at fd2 m1 = event \<and> kernel m1 fd2 = Some (EPOLLET OR event) \<and>
    events_at fd2 (contextResize (nat (fd1 * 3 div 2)) m1) = 0"
proof -
  have "32 \<le> length (m_fdContexts m)" using assms(1) by (simp add: iom_ok_def)
  then have fd: "0 \<le> fd2" "int (length (m_fdContexts m)) \<le> fd2" "nat (fd1 * 3 div 2) \<le> nat fd2"
    using assms(3,4) by linarith+
  have e0: "events_at fd2 m = 0" using fd by (auto simp: events_at_def nat_less_iff)
  obtain m1 where m1: "addEvent good_kernel (Some sid) (f, EXEC) fd2 event None m = (Inr 0, m1)"
      "keeps (\<lambda>k. k) m m1" "events_at fd2 m1 = event"
    using good_kernel_add [OF assms(1) fd(1) assms(5), of sid f None] e0 by auto
  have "kernel m1 fd2 = registered event"
    using m1(2,3) assms(2) fd(1) by (simp add: keeps_def synced_def)
  moreover have "events_at fd2 (contextResize (nat (fd1 * 3 div 2)) m1) = 0"
  proof (cases "nat fd2 < length (m_fdContexts m1)")
    case True
    moreover from this have "length (m_fdContexts (contextResize (nat (fd1 * 3 div 2)) m1)) \<le> nat fd2"
      using fd(3) by (simp add: contextResize_def resized_def)
    ultimately show ?thesis by (simp add: events_at_def)
  next
    case False
    then have "events_at fd2 m1 = 0" by (simp add: events_at_def)
    then show ?thesis using m1(3) assms(5) by auto
  qed
  ultimately show ?thesis using m1(1,3) assms(5) by (auto simp: registered_def)
qed

theorem stale_resize_drops_waiter_witness:
  "\<exists>m1. addEvent good_kernel (Some 0) (7, EXEC) 80 READ None sample_iom = (Inr 0, m1) \<and>
     events_at 80 m1 = READ \<and> events_at 80 (contextResize 60 m1) = 0"
  using stale_resize_drops_waiter [OF sample_iom_facts(1,2), of 40 80 READ 0 7] sample_iom_facts(3)
  by auto

text \<open>
  The idle fiber never waits longer than three seconds and never past the next timer, as
  long as that timer is less than \<open>2 ^ 31\<close> milliseconds away (or there is none); a timer that is
  farther away, but less than \<open>2 ^ 32\<close>, makes the timeout negative, with which \<open>epoll_wait\<close> waits
  without a limit.
\<close>

theorem epoll_timeout_bounds:
  "(t = - 1 \<or> unat t < 2 ^ 31 \<longrightarrow>
      0 \<le> epoll_timeout t \<and> epoll_timeout t \<le> 3000 \<and> (t = - 1 \<or> epoll_timeout t \<le> uint t)) \<and>
   (2 ^ 31 \<le> unat t \<and> unat t < 2 ^ 32 \<longrightarrow> epoll_timeout t < 0)"
proof -
  have m: "to_int t = (uint t + 2 ^ 31) mod 2 ^ 32 - 2 ^ 31" for t
  proof -
    have "to_int t = take_bit 32 (take_bit 32 (uint t) + 2 ^ 31) - 2 ^ 31"
      by (simp add: to_int_def sint_uint signed_take_bit_eq_take_bit_shift unsigned_ucast_eq)
    then show ?thesis by (simp add: take_bit_eq_mod mod_add_left_eq)
  qed
  have small: "to_int t = uint t" if "unat t < 2 ^ 31" for t
  proof -
    define n where "n = unat t"
    have n: "uint t = int n" "n < 2 ^ 31" using that by (simp_all add: n_def)
    have "(int n + 2 ^ 31) mod 2 ^ 32 = int n + 2 ^ 31"
      using n(2) by (intro mod_pos_pos_trivial) simp_all
    then show ?thesis unfolding m n(1) by simp
  qed
  have large: "to_int t < 0" if "2 ^ 31 \<le> unat t" "unat t < 2 ^ 32" for t
  proof -
    define n where "n = unat t"
    have n: "uint t = int n" "2 ^ 31 \<le> n" "n < 2 ^ 32" using that by (simp_all add: n_def)
    have "(int n + 2 ^ 31) mod 2 ^ 32 = (int n + 2 ^ 31 - 2 ^ 32) mod 2 ^ 32"
      by (metis minus_mod_self2)
    also have "\<dots> = int n + 2 ^ 31 - 2 ^ 32" using n(2,3) by (intro mod_pos_pos_trivial) simp_all
    finally show ?thesis unfolding m n(1) using n(3) by simp
  qed
  have t3: "to_int 3000 = 3000" by (simp add: small)
  have all: "unat (- 1 :: ms) = 2 ^ 64 - 1"
    by (simp add: unsigned_minus_1_eq_mask mask_eq_exp_minus_1)
  show ?thesis
    using small [of t] large [of t] t3 all
    by (auto simp: epoll_timeout_def clamp_timeout_def MAX_TIMEOUT_def)
qed

theorem epoll_timeout_bounds_witness:
  "0 \<le> epoll_timeout 5000 \<and> epoll_timeout 5000 \<le> 3000 \<and> epoll_timeout 0x80000000 < 0"
  using epoll_timeout_bounds [of 5000] epoll_timeout_bounds [of "0x80000000"] by simp

lemma unused_context:
  assumes "fd_ok x" and "waiters x = 0"
  shows "fc_events x = 0 \<and> idle_context (fc_read x) \<and> idle_context (fc_write x)"
  using events_cases [OF assms(1)] assms by (auto simp: waiters_def fd_ok_def)



end
