(* ===== verification/Hook.thy ===== *)
theory Hook
  imports FdManager IOManager_Props "HOL-Library.Signed_Division"
begin

unbundle bit_operations_syntax

text \<open>
  The hooked system calls (\<open>hook.cc\<close>). The original calls are parameters acting on a kernel
  state. Where a hooked call gives its fiber away in the middle (\<open>do_io\<close>, \<open>connect\<close>), the model
  is a function of what the environment answers (the results of the original call, of \<open>addEvent\<close>
  and what the timer has written by the time the fiber runs again) and gives the list of actions
  the call performs beside its result.
\<close>

section \<open>State\<close>

record ('c, 'w, 'k, 'o) hook_sys =
  t_hook_enable :: bool
  fds :: fd_table
  os :: 'o
  cur_iom :: "('c, 'w, 'k) iomanager option"

definition is_hook_enable :: "('c, 'w, 'k, 'o) hook_sys \<Rightarrow> bool" where
  "is_hook_enable s = t_hook_enable s"

definition set_hook_enable :: "bool \<Rightarrow> ('c, 'w, 'k, 'o) hook_sys \<Rightarrow> ('c, 'w, 'k, 'o) hook_sys" where
  "set_hook_enable flag s = s\<lparr> t_hook_enable := flag \<rparr>"

datatype hook_error = Fd_error fd_error | Iom_error io_error

type_synonym ('c, 'w, 'k, 'o, 'a) hook_prog = "(('c, 'w, 'k, 'o) hook_sys, hook_error, 'a) prog"

text \<open>\<open>FdMgr::GetInstance()->get(fd)\<close> without creation.\<close>

definition mgr_get :: "int \<Rightarrow> ('c, 'w, 'k, 'o, FdCtx option) hook_prog" where
  "mgr_get fd s = (if fd < - 1 then (Inl (Fd_error Bad_index), s) else (Inr (fd_lookup fd (fds s)), s))"

definition mgr_get_create ::
  "(int \<Rightarrow> 'o \<Rightarrow> bool option) \<Rightarrow> 'o fcntl_call \<Rightarrow> int \<Rightarrow> ('c, 'w, 'k, 'o, FdCtx option) hook_prog" where
  "mgr_get_create fstat_sock fcntl_f fd s =
     (case fd_get fstat_sock fcntl_f fd True (fds s, os s) of
        (Inl e, _) \<Rightarrow> (Inl (Fd_error e), s)
      | (Inr r, t, k) \<Rightarrow> (Inr r, s\<lparr> fds := t, os := k \<rparr>))"

text \<open>A change through the shared pointer of the context of \<open>fd\<close>.\<close>

definition upd_ctx :: "int \<Rightarrow> (FdCtx \<Rightarrow> FdCtx) \<Rightarrow> ('c, 'w, 'k, 'o) hook_sys \<Rightarrow> ('c, 'w, 'k, 'o) hook_sys" where
  "upd_ctx fd f s = s\<lparr> fds := (fds s)[nat fd := map_option f (fds s ! nat fd)] \<rparr>"

text \<open>A call of the operating system that changes its state.\<close>

definition os_call :: "('o \<Rightarrow> 'a \<times> 'o) \<Rightarrow> ('c, 'w, 'k, 'o, 'a) hook_prog" where
  "os_call f s = (let (r, k) = f (os s) in (Inr r, s\<lparr> os := k \<rparr>))"

definition not_ours :: "FdCtx option \<Rightarrow> bool" where
  "not_ours ctx = (case ctx of None \<Rightarrow> True | Some c \<Rightarrow> m_isClosed c \<or> \<not> m_isSocket c)"

section \<open>fcntl, ioctl, setsockopt\<close>

fun int_arg :: "fcntl_arg \<Rightarrow> 32 word" where
  "int_arg (Int_arg w) = w" | "int_arg _ = 0"

text \<open>Which commands pass their argument on, and which are called without one.\<close>

definition passes_arg :: "fcntl_cmd \<Rightarrow> bool" where
  "passes_arg cmd \<longleftrightarrow> cmd \<in> {F_DUPFD, F_DUPFD_CLOEXEC, F_SETFD, F_SETOWN, F_SETSIG, F_SETLEASE,
     F_NOTIFY, F_SETPIPE_SZ, F_SETLK, F_SETLKW, F_GETLK, F_GETOWN_EX, F_SETOWN_EX}"

definition hook_fcntl ::
  "'o fcntl_call \<Rightarrow> int \<Rightarrow> fcntl_cmd \<Rightarrow> fcntl_arg \<Rightarrow> ('c, 'w, 'k, 'o, 32 word) hook_prog" where
  "hook_fcntl fcntl_f fd cmd va =
     (if cmd = F_SETFL then
        pbind (mgr_get fd) (\<lambda>ctx s.
          if not_ours ctx then os_call (fcntl_f fd cmd (Int_arg (int_arg va))) s
          else let arg = int_arg va;
                   s = upd_ctx fd (\<lambda>c. c\<lparr> m_userNonblock := arg AND O_NONBLOCK \<noteq> 0 \<rparr>) s;
                   arg = (if m_sysNonblock (the ctx) then arg OR O_NONBLOCK
                          else arg AND NOT O_NONBLOCK)
               in os_call (fcntl_f fd cmd (Int_arg arg)) s)
      else if cmd = F_GETFL then
        pbind (os_call (fcntl_f fd cmd No_arg)) (\<lambda>arg. pbind (mgr_get fd) (\<lambda>ctx s.
          if not_ours ctx then (Inr arg, s)
          else if m_userNonblock (the ctx) then (Inr (arg OR O_NONBLOCK), s)
          else (Inr (arg AND NOT O_NONBLOCK), s)))
      else if passes_arg cmd then os_call (fcntl_f fd cmd va)
      else os_call (fcntl_f fd cmd No_arg))"

definition FIONBIO :: "64 word" where
  "FIONBIO = 0x5421"

text \<open>\<open>arg\<close> is what the pointer argument points to.\<close>

definition hook_ioctl ::
  "(int \<Rightarrow> 64 word \<Rightarrow> int \<Rightarrow> 'o \<Rightarrow> int \<times> 'o) \<Rightarrow> int \<Rightarrow> 64 word \<Rightarrow> int \<Rightarrow> ('c, 'w, 'k, 'o, int) hook_prog" where
  "hook_ioctl ioctl_f d request arg =
     (if request = FIONBIO then
        pbind (mgr_get d) (\<lambda>ctx s.
          if not_ours ctx then os_call (ioctl_f d request arg) s
          else os_call (ioctl_f d request arg) (upd_ctx d (\<lambda>c. c\<lparr> m_userNonblock := arg \<noteq> 0 \<rparr>) s))
      else os_call (ioctl_f d request arg))"

record timeval =
  tv_sec :: "64 word"
  tv_usec :: "64 word"

datatype optname = Timeout timeout_type | Other_opt nat

definition hook_setsockopt ::
  "(int \<Rightarrow> bool \<Rightarrow> optname \<Rightarrow> timeval \<Rightarrow> 'o \<Rightarrow> int \<times> 'o) \<Rightarrow> int \<Rightarrow> bool \<Rightarrow> optname \<Rightarrow> timeval \<Rightarrow>
   ('c, 'w, 'k, 'o, int) hook_prog" where
  "hook_setsockopt setsockopt_f sockfd sol_socket optname v s =
     (if \<not> t_hook_enable s then os_call (setsockopt_f sockfd sol_socket optname v) s
      else case (sol_socket, optname) of
             (True, Timeout ty) \<Rightarrow>
               pbind (mgr_get sockfd) (\<lambda>ctx s.
                 let s = (if ctx \<noteq> None
                          then upd_ctx sockfd (setTimeout ty (tv_sec v * 1000 +
                                 word_of_int (sint (tv_usec v) sdiv 1000))) s
                          else s)
                 in os_call (setsockopt_f sockfd sol_socket optname v) s) s
           | _ \<Rightarrow> os_call (setsockopt_f sockfd sol_socket optname v) s)"

section \<open>socket, accept, close\<close>

definition hook_socket ::
  "(int \<Rightarrow> 'o \<Rightarrow> bool option) \<Rightarrow> 'o fcntl_call \<Rightarrow> ('o \<Rightarrow> int \<times> 'o) \<Rightarrow> ('c, 'w, 'k, 'o, int) hook_prog" where
  "hook_socket fstat_sock fcntl_f socket_f s =
     (if \<not> t_hook_enable s then os_call socket_f s
      else pbind (os_call socket_f) (\<lambda>fd s.
             if fd = - 1 then (Inr fd, s)
             else pthen (mgr_get_create fstat_sock fcntl_f fd) (preturn fd) s) s)"

text \<open>What \<open>accept\<close> does with the descriptor \<open>do_io\<close> returns.\<close>

definition hook_accepted ::
  "(int \<Rightarrow> 'o \<Rightarrow> bool option) \<Rightarrow> 'o fcntl_call \<Rightarrow> int \<Rightarrow> ('c, 'w, 'k, 'o, int) hook_prog" where
  "hook_accepted fstat_sock fcntl_f fd =
     (if 0 \<le> fd then pthen (mgr_get_create fstat_sock fcntl_f fd) (preturn fd) else preturn fd)"

definition iom_cancelAll :: "'k epoll_ctl \<Rightarrow> int \<Rightarrow> ('c, 'w, 'k, 'o, unit) hook_prog" where
  "iom_cancelAll ctl fd s =
     (case cur_iom s of
        None \<Rightarrow> (Inr (), s)
      | Some m \<Rightarrow>
          (case cancelAll ctl fd m of
             (Inl e, m) \<Rightarrow> (Inl (Iom_error e), s\<lparr> cur_iom := Some m \<rparr>)
           | (Inr _, m) \<Rightarrow> (Inr (), s\<lparr> cur_iom := Some m \<rparr>)))"

definition mgr_del :: "int \<Rightarrow> ('c, 'w, 'k, 'o, unit) hook_prog" where
  "mgr_del fd s =
     (case fd_del fd (fds s) of
        (Inl e, t) \<Rightarrow> (Inl (Fd_error e), s\<lparr> fds := t \<rparr>) | (Inr _, t) \<Rightarrow> (Inr (), s\<lparr> fds := t \<rparr>))"

definition hook_close :: "'k epoll_ctl \<Rightarrow> (int \<Rightarrow> 'o \<Rightarrow> int \<times> 'o) \<Rightarrow> int \<Rightarrow> ('c, 'w, 'k, 'o, int) hook_prog" where
  "hook_close ctl close_f fd s =
     (if \<not> t_hook_enable s then os_call (close_f fd) s
      else pbind (mgr_get fd) (\<lambda>ctx.
             if ctx \<noteq> None
             then pthen (iom_cancelAll ctl fd) (pthen (mgr_del fd) (os_call (close_f fd)))
             else os_call (close_f fd)) s)"

section \<open>Sleeping\<close>

text \<open>
  The delay handed to \<open>addTimer\<close>: \<open>seconds * 1000\<close> in \<open>unsigned int\<close>, \<open>usec / 1000\<close>, and for
  \<open>nanosleep\<close> a sum of \<open>long\<close> values cut to \<open>int\<close> and then widened.
\<close>

definition sleep_ms :: "32 word \<Rightarrow> ms" where
  "sleep_ms seconds = ucast (seconds * 1000)"

definition usleep_ms :: "32 word \<Rightarrow> ms" where
  "usleep_ms usec = ucast (usec div 1000)"

definition nanosleep_ms :: "64 word \<Rightarrow> 64 word \<Rightarrow> ms" where
  "nanosleep_ms sec nsec =
     scast (ucast (sec * 1000 + word_of_int (sint nsec sdiv 1000 sdiv 1000)) :: 32 word)"

text \<open>
  A hooked sleep adds a timer whose function schedules the fiber again, and gives the fiber
  away: the actions of the call, in order.
\<close>

datatype sleep_act = Call_original | Add_timer ms | Yield_to_hold

definition hook_sleep :: "bool \<Rightarrow> 32 word \<Rightarrow> sleep_act list" where
  "hook_sleep enabled seconds =
     (if \<not> enabled then [Call_original] else [Add_timer (sleep_ms seconds), Yield_to_hold])"

definition hook_usleep :: "bool \<Rightarrow> 32 word \<Rightarrow> sleep_act list" where
  "hook_usleep enabled usec =
     (if \<not> enabled then [Call_original] else [Add_timer (usleep_ms usec), Yield_to_hold])"

definition hook_nanosleep :: "bool \<Rightarrow> 64 word \<Rightarrow> 64 word \<Rightarrow> sleep_act list" where
  "hook_nanosleep enabled sec nsec =
     (if \<not> enabled then [Call_original] else [Add_timer (nanosleep_ms sec nsec), Yield_to_hold])"

section \<open>Blocking calls\<close>

definition EINTR :: int where "EINTR = 4"
definition EBADF :: int where "EBADF = 9"
definition EAGAIN :: int where "EAGAIN = 11"
definition ETIMEDOUT :: int where "ETIMEDOUT = 110"
definition EINPROGRESS :: int where "EINPROGRESS = 115"

text \<open>
  The environment of one call: the (result, errno) pairs of the original call, one per call,
  and for each wait what \<open>addEvent\<close> answered (with the errno it left) and what \<open>cancelled\<close> was
  when the fiber ran again.
\<close>

record wait_env =
  w_rt :: int
  w_errno :: int
  w_cancelled :: int

datatype io_act = Call | Set_timer ms | Add_event ev | Yield | Cancel_timer

text \<open>
  The loop from \<open>retry\<close> on. The result is nothing while the call has not returned yet (the
  environment's answers are used up).
\<close>

fun do_io_loop ::
  "ms \<Rightarrow> ev \<Rightarrow> (int \<times> int) list \<Rightarrow> wait_env list \<Rightarrow> io_act list \<times> (int \<times> int) option" where
  "do_io_loop to event [] ws = ([], None)"
| "do_io_loop to event ((n, errno) # cs) ws =
     (if n = - 1 \<and> errno = EINTR then
        (let (as, r) = do_io_loop to event cs ws in (Call # as, r))
      else if n = - 1 \<and> errno = EAGAIN then
        (let timer = (to \<noteq> - 1);
             pre = Call # (if timer then [Set_timer to] else []) @ [Add_event event];
             stop = (if timer then [Cancel_timer] else [])
         in case ws of
              [] \<Rightarrow> (pre, None)
            | w # ws \<Rightarrow>
                (if w_rt w \<noteq> 0 then (pre @ stop, Some (- 1, w_errno w))
                 else if w_cancelled w \<noteq> 0 then (pre @ [Yield] @ stop, Some (- 1, w_cancelled w))
                 else let (as, r) = do_io_loop to event cs ws in (pre @ [Yield] @ stop @ as, r)))
      else ([Call], Some (n, errno)))"

definition do_io ::
  "bool \<Rightarrow> FdCtx option \<Rightarrow> ev \<Rightarrow> timeout_type \<Rightarrow> (int \<times> int) list \<Rightarrow> wait_env list \<Rightarrow>
   io_act list \<times> (int \<times> int) option" where
  "do_io enabled ctx event timeout_so cs ws =
     (let direct = (case cs of [] \<Rightarrow> ([Call], None) | c # _ \<Rightarrow> ([Call], Some c))
      in if \<not> enabled then direct
         else case ctx of
                None \<Rightarrow> direct
              | Some c \<Rightarrow>
                  (if m_isClosed c then ([], Some (- 1, EBADF))
                   else if \<not> m_isSocket c \<or> m_userNonblock c then direct
                   else do_io_loop (getTimeout timeout_so c) event cs ws))"

text \<open>The hooked calls that are instances of \<open>do_io\<close>: their event and their timeout.\<close>

datatype io_call =
    Io_accept | Io_read | Io_readv | Io_recv | Io_recvfrom | Io_recvmsg
  | Io_write | Io_writev | Io_send | Io_sendto | Io_sendmsg

fun io_event :: "io_call \<Rightarrow> ev" where
  "io_event Io_accept = READ" | "io_event Io_read = READ" | "io_event Io_readv = READ"
| "io_event Io_recv = READ" | "io_event Io_recvfrom = READ" | "io_event Io_recvmsg = READ"
| "io_event Io_write = WRITE" | "io_event Io_writev = WRITE" | "io_event Io_send = WRITE"
| "io_event Io_sendto = WRITE" | "io_event Io_sendmsg = WRITE"

fun io_timeout :: "io_call \<Rightarrow> timeout_type" where
  "io_timeout Io_accept = SO_RCVTIMEO" | "io_timeout Io_read = SO_RCVTIMEO"
| "io_timeout Io_readv = SO_RCVTIMEO" | "io_timeout Io_recv = SO_RCVTIMEO"
| "io_timeout Io_recvfrom = SO_RCVTIMEO" | "io_timeout Io_recvmsg = SO_RCVTIMEO"
| "io_timeout Io_write = SO_SNDTIMEO" | "io_timeout Io_writev = SO_SNDTIMEO"
| "io_timeout Io_send = SO_SNDTIMEO" | "io_timeout Io_sendto = SO_SNDTIMEO"
| "io_timeout Io_sendmsg = SO_SNDTIMEO"

definition hook_io ::
  "bool \<Rightarrow> FdCtx option \<Rightarrow> io_call \<Rightarrow> (int \<times> int) list \<Rightarrow> wait_env list \<Rightarrow>
   io_act list \<times> (int \<times> int) option" where
  "hook_io enabled ctx name cs ws = do_io enabled ctx (io_event name) (io_timeout name) cs ws"

text \<open>
  \<open>connect_with_timeout\<close>: \<open>n\<close> and \<open>errno\<close> are what the original \<open>connect\<close> answered, \<open>so\<close> is what
  \<open>getsockopt(SO_ERROR)\<close> answers in the end (nothing when it fails, with the errno it left).
\<close>

definition connect_end :: "int option \<Rightarrow> int \<Rightarrow> int \<times> int" where
  "connect_end so errno =
     (case so of None \<Rightarrow> (- 1, errno) | Some e \<Rightarrow> if e = 0 then (0, errno) else (- 1, e))"

definition connect_with_timeout ::
  "bool \<Rightarrow> FdCtx option \<Rightarrow> ms \<Rightarrow> int \<times> int \<Rightarrow> wait_env \<Rightarrow> int option \<Rightarrow> io_act list \<times> (int \<times> int)" where
  "connect_with_timeout enabled ctx timeout_ms c w so =
     (if \<not> enabled then ([Call], c)
      else case ctx of
             None \<Rightarrow> ([], (- 1, EBADF))
           | Some x \<Rightarrow>
               (if m_isClosed x then ([], (- 1, EBADF))
                else if \<not> m_isSocket x \<or> m_userNonblock x then ([Call], c)
                else if fst c = 0 then ([Call], (0, snd c))
                else if fst c \<noteq> - 1 \<or> snd c \<noteq> EINPROGRESS then ([Call], c)
                else let timer = (timeout_ms \<noteq> - 1);
                         pre = Call # (if timer then [Set_timer timeout_ms] else []) @ [Add_event WRITE];
                         stop = (if timer then [Cancel_timer] else [])
                     in if w_rt w = 0 then
                          (if w_cancelled w \<noteq> 0 then (pre @ [Yield] @ stop, (- 1, w_cancelled w))
                           else (pre @ [Yield] @ stop, connect_end so (w_errno w)))
                        else (pre @ stop, connect_end so (w_errno w))))"

text \<open>\<open>connect\<close>, with the default timeout \<open>s_connect_timeout\<close>, which is never changed.\<close>

definition s_connect_timeout :: ms where
  "s_connect_timeout = - 1"

definition hook_connect ::
  "bool \<Rightarrow> FdCtx option \<Rightarrow> int \<times> int \<Rightarrow> wait_env \<Rightarrow> int option \<Rightarrow> io_act list \<times> (int \<times> int)" where
  "hook_connect enabled ctx c w so = connect_with_timeout enabled ctx s_connect_timeout c w so"

end
