(* ===== verification/SocketLife.thy ===== *)
theory SocketLife
  imports SocketStream Address Uri Hook
begin

text \<open>
  The life of a \<open>Socket\<close> (\<open>src/socket.h\<close>, \<open>src/socket.cc\<close>): creation, options and timeouts, binding,
  connecting, listening and accepting, the cached addresses, and datagrams. The system calls (as the
  hooks wrap them) are arguments, functions of a state of the system; the descriptor table answers
  through one of them. What only logs is left out.
\<close>

section \<open>Sockets and calls\<close>

record full_socket = Socket +
  so_localAddress :: "Address option"
  so_remoteAddress :: "Address option"

datatype sockopt = Reuseaddr | Tcp_nodelay | Timeout_opt timeout_type timeval | So_error | Plain_opt int int

text \<open>
  Receiving and the queries for an address give the bytes that were written into the structure passed,
  the queries also its length.
\<close>

record ('b, 'k) sockets =
  os_socket :: "int \<Rightarrow> int \<Rightarrow> int \<Rightarrow> 'k \<Rightarrow> int \<times> 'k"
  os_setsockopt :: "int \<Rightarrow> sockopt \<Rightarrow> int \<Rightarrow> 'k \<Rightarrow> int \<times> 'k"
  os_getsockopt :: "int \<Rightarrow> sockopt \<Rightarrow> 'k \<Rightarrow> (int \<times> int) \<times> 'k"
  os_errno :: "'k \<Rightarrow> int"
  os_bind :: "int \<Rightarrow> byte list \<Rightarrow> nat \<Rightarrow> 'k \<Rightarrow> int \<times> 'k"
  os_listen :: "int \<Rightarrow> int \<Rightarrow> 'k \<Rightarrow> int \<times> 'k"
  os_accept :: "int \<Rightarrow> 'k \<Rightarrow> int \<times> 'k"
  os_connect :: "int \<Rightarrow> byte list \<Rightarrow> nat \<Rightarrow> 64 word option \<Rightarrow> 'k \<Rightarrow> int \<times> 'k"
  os_getsockname :: "int \<Rightarrow> nat \<Rightarrow> 'k \<Rightarrow> (int \<times> byte list \<times> nat) \<times> 'k"
  os_getpeername :: "int \<Rightarrow> nat \<Rightarrow> 'k \<Rightarrow> (int \<times> byte list \<times> nat) \<times> 'k"
  os_close :: "int \<Rightarrow> 'k \<Rightarrow> 'k"
  os_fdctx :: "int \<Rightarrow> 'k \<Rightarrow> FdCtx option"
  os_sendto :: "int \<Rightarrow> 'b list list \<Rightarrow> byte list \<Rightarrow> nat \<Rightarrow> 'k \<Rightarrow> int \<times> 'k"
  os_recvfrom :: "int \<Rightarrow> nat list \<Rightarrow> nat \<Rightarrow> 'k \<Rightarrow> (int \<times> 'b list \<times> byte list) \<times> 'k"

definition SOCK_STREAM :: int where "SOCK_STREAM = 1"
definition SOCK_DGRAM :: int where "SOCK_DGRAM = 2"

definition so_isValid :: "full_socket \<Rightarrow> bool" where
  "so_isValid sk \<longleftrightarrow> sk_sock sk \<noteq> - 1"

definition so_new :: "int \<Rightarrow> int \<Rightarrow> int \<Rightarrow> full_socket" where
  "so_new family type protocol = Socket.extend (Socket_new family type protocol) \<lparr>so_localAddress = None, so_remoteAddress = None\<rparr>"

section \<open>Options\<close>

definition so_setOption :: "('b, 'k) sockets \<Rightarrow> sockopt \<Rightarrow> int \<Rightarrow> full_socket \<times> 'k \<Rightarrow> bool \<times> (full_socket \<times> 'k)" where
  "so_setOption calls opt val x =
     (case x of (sk, k) \<Rightarrow> case os_setsockopt calls (sk_sock sk) opt val k of (rt, k) \<Rightarrow> (rt = 0, (sk, k)))"

definition so_getOption :: "('b, 'k) sockets \<Rightarrow> sockopt \<Rightarrow> full_socket \<times> 'k \<Rightarrow> int option \<times> (full_socket \<times> 'k)" where
  "so_getOption calls opt x =
     (case x of (sk, k) \<Rightarrow> case os_getsockopt calls (sk_sock sk) opt k of
        ((rt, v), k) \<Rightarrow> (if rt \<noteq> 0 then None else Some v, (sk, k)))"

definition so_getError :: "('b, 'k) sockets \<Rightarrow> full_socket \<times> 'k \<Rightarrow> int \<times> (full_socket \<times> 'k)" where
  "so_getError calls x =
     (case so_getOption calls So_error x of
        (None, x) \<Rightarrow> (os_errno calls (snd x), x)
      | (Some v, x) \<Rightarrow> (v, x))"

text \<open>A timeout in milliseconds as the structure of the option.\<close>

definition so_timeval :: "int \<Rightarrow> timeval" where
  "so_timeval v = \<lparr>tv_sec = word_of_int (int32 (v sdiv 1000)), tv_usec = word_of_int (int32 (v smod 1000 * 1000))\<rparr>"

definition so_setTimeout :: "('b, 'k) sockets \<Rightarrow> timeout_type \<Rightarrow> int \<Rightarrow> full_socket \<times> 'k \<Rightarrow> full_socket \<times> 'k" where
  "so_setTimeout calls ty v x = snd (so_setOption calls (Timeout_opt ty (so_timeval v)) 0 x)"

definition so_getTimeout :: "('b, 'k) sockets \<Rightarrow> timeout_type \<Rightarrow> full_socket \<times> 'k \<Rightarrow> int" where
  "so_getTimeout calls ty x =
     (case os_fdctx calls (sk_sock (fst x)) (snd x) of
        None \<Rightarrow> - 1
      | Some ctx \<Rightarrow> sint (getTimeout ty ctx))"

definition so_initSock :: "('b, 'k) sockets \<Rightarrow> full_socket \<times> 'k \<Rightarrow> full_socket \<times> 'k" where
  "so_initSock calls x =
     (let x = snd (so_setOption calls Reuseaddr 1 x)
      in if sk_type (fst x) = SOCK_STREAM then snd (so_setOption calls Tcp_nodelay 1 x) else x)"

definition so_newSock :: "('b, 'k) sockets \<Rightarrow> full_socket \<times> 'k \<Rightarrow> full_socket \<times> 'k" where
  "so_newSock calls x =
     (case x of (sk, k) \<Rightarrow>
        case os_socket calls (sk_family sk) (sk_type sk) (sk_protocol sk) k of (fd, k) \<Rightarrow>
          let x = (sk\<lparr>sk_sock := fd\<rparr>, k) in if fd \<noteq> - 1 then so_initSock calls x else x)"

section \<open>Creation\<close>

definition so_CreateTCP :: "Address \<Rightarrow> full_socket" where
  "so_CreateTCP address = so_new (uint (getFamily address)) SOCK_STREAM 0"

text \<open>A datagram socket counts as connected from the start, whether it got a descriptor or not.\<close>

definition so_create_datagram :: "('b, 'k) sockets \<Rightarrow> int \<Rightarrow> 'k \<Rightarrow> full_socket \<times> 'k" where
  "so_create_datagram calls family k =
     (case so_newSock calls (so_new family SOCK_DGRAM 0, k) of (sk, k) \<Rightarrow> (sk\<lparr>sk_isConnected := True\<rparr>, k))"

definition so_CreateUDP :: "('b, 'k) sockets \<Rightarrow> Address \<Rightarrow> 'k \<Rightarrow> full_socket \<times> 'k" where
  "so_CreateUDP calls address k = so_create_datagram calls (uint (getFamily address)) k"

definition so_CreateTCPSocket :: full_socket where "so_CreateTCPSocket = so_new (uint AF_INET) SOCK_STREAM 0"
definition so_CreateTCPSocket6 :: full_socket where "so_CreateTCPSocket6 = so_new (uint AF_INET6) SOCK_STREAM 0"
definition so_CreateUnixTCPSocket :: full_socket where "so_CreateUnixTCPSocket = so_new (uint AF_UNIX) SOCK_STREAM 0"
definition so_CreateUnixUDPSocket :: full_socket where "so_CreateUnixUDPSocket = so_new (uint AF_UNIX) SOCK_DGRAM 0"

definition so_CreateUDPSocket :: "('b, 'k) sockets \<Rightarrow> 'k \<Rightarrow> full_socket \<times> 'k" where
  "so_CreateUDPSocket calls k = so_create_datagram calls (uint AF_INET) k"

definition so_CreateUDPSocket6 :: "('b, 'k) sockets \<Rightarrow> 'k \<Rightarrow> full_socket \<times> 'k" where
  "so_CreateUDPSocket6 calls k = so_create_datagram calls (uint AF_INET6) k"

section \<open>Addresses\<close>

definition so_blank_address :: "endian \<Rightarrow> int \<Rightarrow> Address" where
  "so_blank_address h family =
     (if family = uint AF_INET then IPv4Address_new h 0 0
      else if family = uint AF_INET6 then IPv6Address IPv6Address_empty
      else if family = uint AF_UNIX then UnixAddress_empty
      else UnknownAddress_new family)"

text \<open>The object after the system has written bytes to the front of its structure.\<close>

fun addr_load :: "endian \<Rightarrow> byte list \<Rightarrow> Address \<Rightarrow> Address" where
  "addr_load h bs (UnixAddress a l) =
     (let m = blit (getAddr h (UnixAddress a l)) 0 bs
      in UnixAddress \<lparr>sun_family = of_mem_bytes h (take 2 m), sun_path = drop 2 m\<rparr> l)"
| "addr_load h bs (UnknownAddress a) =
     (let m = blit (getAddr h (UnknownAddress a)) 0 bs
      in UnknownAddress \<lparr>sa_family = of_mem_bytes h (take 2 m), sa_data = drop 2 m\<rparr>)"
| "addr_load h bs (IPv4Address a) =
     (let m = blit (getAddr h (IPv4Address a)) 0 bs
      in IPv4Address \<lparr>sin_family = of_mem_bytes h (take 2 m), sin_port = of_mem_bytes h (take 2 (drop 2 m)),
           sin_addr = of_mem_bytes h (take 4 (drop 4 m)), sin_zero = drop 8 m\<rparr>)"
| "addr_load h bs (IPv6Address a) =
     (let m = blit (getAddr h (IPv6Address a)) 0 bs
      in IPv6Address \<lparr>sin6_family = of_mem_bytes h (take 2 m), sin6_port = of_mem_bytes h (take 2 (drop 2 m)),
           sin6_flowinfo = of_mem_bytes h (take 4 (drop 4 m)), sin6_addr = take 16 (drop 8 m),
           sin6_scope_id = of_mem_bytes h (take 4 (drop 24 m))\<rparr>)"

definition so_query_address ::
    "endian \<Rightarrow> (int \<Rightarrow> nat \<Rightarrow> 'k \<Rightarrow> (int \<times> byte list \<times> nat) \<times> 'k) \<Rightarrow> full_socket \<Rightarrow> 'k \<Rightarrow> Address option \<times> 'k" where
  "so_query_address h query sk k =
     (let result = so_blank_address h (sk_family sk) in
      case query (sk_sock sk) (getAddrLen result) k of ((rt, bs, addrlen), k) \<Rightarrow>
        if rt \<noteq> 0 then (None, k)
        else (Some (let a = addr_load h bs result
                    in if sk_family sk = uint AF_UNIX then setAddrLen (of_nat addrlen) a else a), k))"

definition so_getRemoteAddress :: "endian \<Rightarrow> ('b, 'k) sockets \<Rightarrow> full_socket \<times> 'k \<Rightarrow> Address \<times> (full_socket \<times> 'k)" where
  "so_getRemoteAddress h calls x =
     (case x of (sk, k) \<Rightarrow>
        case so_remoteAddress sk of
          Some a \<Rightarrow> (a, (sk, k))
        | None \<Rightarrow>
            (case so_query_address h (os_getpeername calls) sk k of
               (None, k) \<Rightarrow> (UnknownAddress_new (sk_family sk), (sk, k))
             | (Some a, k) \<Rightarrow> (a, (sk\<lparr>so_remoteAddress := Some a\<rparr>, k))))"

definition so_getLocalAddress :: "endian \<Rightarrow> ('b, 'k) sockets \<Rightarrow> full_socket \<times> 'k \<Rightarrow> Address \<times> (full_socket \<times> 'k)" where
  "so_getLocalAddress h calls x =
     (case x of (sk, k) \<Rightarrow>
        case so_localAddress sk of
          Some a \<Rightarrow> (a, (sk, k))
        | None \<Rightarrow>
            (case so_query_address h (os_getsockname calls) sk k of
               (None, k) \<Rightarrow> (UnknownAddress_new (sk_family sk), (sk, k))
             | (Some a, k) \<Rightarrow> (a, (sk\<lparr>so_localAddress := Some a\<rparr>, k))))"

section \<open>Binding, connecting, accepting\<close>

definition so_close :: "('b, 'k) sockets \<Rightarrow> full_socket \<times> 'k \<Rightarrow> bool \<times> (full_socket \<times> 'k)" where
  "so_close calls x =
     (case x of (sk, k) \<Rightarrow>
        if \<not> sk_isConnected sk \<and> sk_sock sk = - 1 then (True, (sk, k))
        else let sk = sk\<lparr>sk_isConnected := False\<rparr>
             in if sk_sock sk \<noteq> - 1 then (False, (sk\<lparr>sk_sock := - 1\<rparr>, os_close calls (sk_sock sk) k))
                else (False, (sk, k)))"

text \<open>\<open>bind\<close> and \<open>connect\<close> begin alike: a descriptor is made where there is none.\<close>

definition so_ensure :: "('b, 'k) sockets \<Rightarrow> full_socket \<times> 'k \<Rightarrow> full_socket \<times> 'k" where
  "so_ensure calls x = (if \<not> so_isValid (fst x) then so_newSock calls x else x)"

definition so_bind :: "endian \<Rightarrow> ('b, 'k) sockets \<Rightarrow> Address \<Rightarrow> full_socket \<times> 'k \<Rightarrow> bool \<times> (full_socket \<times> 'k)" where
  "so_bind h calls addr x =
     (case so_ensure calls x of (sk, k) \<Rightarrow>
        if \<not> so_isValid sk then (False, (sk, k))
        else if uint (getFamily addr) \<noteq> sk_family sk then (False, (sk, k))
        else case os_bind calls (sk_sock sk) (getAddr h addr) (getAddrLen addr) k of (rt, k) \<Rightarrow>
          if rt \<noteq> 0 then (False, (sk, k)) else (True, snd (so_getLocalAddress h calls (sk, k))))"

text \<open>A timeout of \<open>- 1\<close> stands for none: \<open>::connect\<close> instead of \<open>connect_with_timeout\<close>.\<close>

definition so_connect :: "endian \<Rightarrow> ('b, 'k) sockets \<Rightarrow> Address \<Rightarrow> 64 word \<Rightarrow> full_socket \<times> 'k \<Rightarrow> bool \<times> (full_socket \<times> 'k)" where
  "so_connect h calls addr timeout_ms x =
     (case so_ensure calls ((fst x)\<lparr>so_remoteAddress := Some addr\<rparr>, snd x) of (sk, k) \<Rightarrow>
        if \<not> so_isValid sk then (False, (sk, k))
        else if uint (getFamily addr) \<noteq> sk_family sk then (False, (sk, k))
        else case os_connect calls (sk_sock sk) (getAddr h addr) (getAddrLen addr)
               (if timeout_ms = - 1 then None else Some timeout_ms) k of (rt, k) \<Rightarrow>
          if rt \<noteq> 0 then (False, snd (so_close calls (sk, k)))
          else
            let x = (sk\<lparr>sk_isConnected := True\<rparr>, k);
                x = snd (so_getRemoteAddress h calls x);
                x = snd (so_getLocalAddress h calls x)
            in (True, x))"

definition so_reconnect :: "endian \<Rightarrow> ('b, 'k) sockets \<Rightarrow> 64 word \<Rightarrow> full_socket \<times> 'k \<Rightarrow> bool \<times> (full_socket \<times> 'k)" where
  "so_reconnect h calls timeout_ms x =
     (case so_remoteAddress (fst x) of
        None \<Rightarrow> (False, x)
      | Some a \<Rightarrow> so_connect h calls a timeout_ms ((fst x)\<lparr>so_localAddress := None\<rparr>, snd x))"

definition so_listen :: "('b, 'k) sockets \<Rightarrow> int \<Rightarrow> full_socket \<times> 'k \<Rightarrow> bool \<times> (full_socket \<times> 'k)" where
  "so_listen calls backlog x =
     (case x of (sk, k) \<Rightarrow>
        if \<not> so_isValid sk then (False, (sk, k))
        else case os_listen calls (sk_sock sk) backlog k of (rt, k) \<Rightarrow> (rt = 0, (sk, k)))"

definition so_init :: "endian \<Rightarrow> ('b, 'k) sockets \<Rightarrow> int \<Rightarrow> full_socket \<times> 'k \<Rightarrow> bool \<times> (full_socket \<times> 'k)" where
  "so_init h calls sock x =
     (case os_fdctx calls sock (snd x) of
        None \<Rightarrow> (False, x)
      | Some ctx \<Rightarrow>
          if m_isSocket ctx \<and> \<not> m_isClosed ctx then
            let x = ((fst x)\<lparr>sk_sock := sock, sk_isConnected := True\<rparr>, snd x);
                x = so_initSock calls x;
                x = snd (so_getLocalAddress h calls x);
                x = snd (so_getRemoteAddress h calls x)
            in (True, x)
          else (False, x))"

text \<open>The new socket, or the null pointer; the listening socket does not change.\<close>

definition so_accept :: "endian \<Rightarrow> ('b, 'k) sockets \<Rightarrow> full_socket \<Rightarrow> 'k \<Rightarrow> full_socket option \<times> 'k" where
  "so_accept h calls sk k =
     (case os_accept calls (sk_sock sk) k of (newsock, k) \<Rightarrow>
        if newsock = - 1 then (None, k)
        else case so_init h calls newsock (so_new (sk_family sk) (sk_type sk) (sk_protocol sk), k) of
          (ok, (sk', k)) \<Rightarrow> (if ok then Some sk' else None, k))"

section \<open>Datagrams\<close>

text \<open>One buffer is a list of one.\<close>

definition so_sendTo :: "endian \<Rightarrow> ('b, 'k) sockets \<Rightarrow> 'b list list \<Rightarrow> Address \<Rightarrow> full_socket \<times> 'k \<Rightarrow> int \<times> (full_socket \<times> 'k)" where
  "so_sendTo h calls buffers to x =
     (case x of (sk, k) \<Rightarrow>
        if sk_isConnected sk then
          (case os_sendto calls (sk_sock sk) buffers (getAddr h to) (getAddrLen to) k of (n, k) \<Rightarrow> (int32 n, (sk, k)))
        else (- 1, (sk, k)))"

text \<open>The structure of \<open>from\<close> is filled; the length the system reports for it is dropped.\<close>

definition so_recvFrom ::
    "endian \<Rightarrow> ('b, 'k) sockets \<Rightarrow> nat list \<Rightarrow> Address \<Rightarrow> full_socket \<times> 'k \<Rightarrow> (int \<times> 'b list \<times> Address) \<times> (full_socket \<times> 'k)" where
  "so_recvFrom h calls lens from_addr x =
     (case x of (sk, k) \<Rightarrow>
        if sk_isConnected sk then
          (case os_recvfrom calls (sk_sock sk) lens (getAddrLen from_addr) k of
             ((n, bs, addr), k) \<Rightarrow> ((int32 n, bs, addr_load h addr from_addr), (sk, k)))
        else ((- 1, [], from_addr), (sk, k)))"

section \<open>Text and cancellation\<close>

definition so_address_text :: "endian \<Rightarrow> string \<Rightarrow> Address option \<Rightarrow> addr_error + string" where
  "so_address_text h label a =
     (case a of None \<Rightarrow> Inr [] | Some a \<Rightarrow> map_sum id ((@) label) (Address_toString h a))"

definition so_dump :: "endian \<Rightarrow> full_socket \<Rightarrow> addr_error + string" where
  "so_dump h sk =
     (case so_address_text h '' local_address='' (so_localAddress sk) of
        Inl e \<Rightarrow> Inl e
      | Inr l \<Rightarrow>
          (case so_address_text h '' remote_address='' (so_remoteAddress sk) of
             Inl e \<Rightarrow> Inl e
           | Inr r \<Rightarrow> Inr (''[Socket sock='' @ show_int (sk_sock sk) @ '' is_connected='' @ (if sk_isConnected sk then ''1'' else ''0'')
               @ '' family='' @ show_int (sk_family sk) @ '' type='' @ show_int (sk_type sk)
               @ '' protocol='' @ show_int (sk_protocol sk) @ l @ r @ '']'')))"

definition so_cancelRead :: "'e epoll_ctl \<Rightarrow> full_socket \<Rightarrow> ('c, 'w, 'e, bool) io_prog" where
  "so_cancelRead ctl sk = cancelEvent ctl (sk_sock sk) READ"

definition so_cancelWrite :: "'e epoll_ctl \<Rightarrow> full_socket \<Rightarrow> ('c, 'w, 'e, bool) io_prog" where
  "so_cancelWrite ctl sk = cancelEvent ctl (sk_sock sk) WRITE"

definition so_cancelAccept :: "'e epoll_ctl \<Rightarrow> full_socket \<Rightarrow> ('c, 'w, 'e, bool) io_prog" where
  "so_cancelAccept ctl sk = cancelEvent ctl (sk_sock sk) READ"

definition so_cancelAll :: "'e epoll_ctl \<Rightarrow> full_socket \<Rightarrow> ('c, 'w, 'e, bool) io_prog" where
  "so_cancelAll ctl sk = cancelAll ctl (sk_sock sk)"

end
