(* ===== verification/SocketLife_Props.thy ===== *)
theory SocketLife_Props
  imports SocketLife
begin

text \<open>
  What the life of a socket keeps: it holds at most one descriptor, closes each that it got exactly once,
  and says it is connected only with one; a successful connection is to the address given; a timeout
  that is set comes back through the hooks; and a descriptor that \<open>accept\<close> cannot use is leaked.
\<close>

section \<open>Calls with a record of the descriptors\<close>

text \<open>The calls, with the descriptors that were made and that were closed kept beside the system's state.\<close>

type_synonym 'k ledger = "'k \<times> int list \<times> int list"

definition lift_call :: "('k \<Rightarrow> 'r \<times> 'k) \<Rightarrow> 'k ledger \<Rightarrow> 'r \<times> 'k ledger" where
  "lift_call f x = (case x of (k, log) \<Rightarrow> case f k of (r, k) \<Rightarrow> (r, (k, log)))"

lemma lift_call_log: "\<exists>r k'. lift_call f (k, log) = (r, k', log)"
  by (cases "f k") (simp add: lift_call_def)

definition logged :: "('b, 'k) sockets \<Rightarrow> ('b, 'k ledger) sockets" where
  "logged calls =
     \<lparr>os_socket = (\<lambda>f t p (k, made, closed). case os_socket calls f t p k of (fd, k) \<Rightarrow>
                     (fd, (k, (if fd = - 1 then made else made @ [fd]), closed))),
      os_setsockopt = (\<lambda>fd opt v. lift_call (os_setsockopt calls fd opt v)),
      os_getsockopt = (\<lambda>fd opt. lift_call (os_getsockopt calls fd opt)),
      os_errno = (\<lambda>x. os_errno calls (fst x)),
      os_bind = (\<lambda>fd a n. lift_call (os_bind calls fd a n)),
      os_listen = (\<lambda>fd n. lift_call (os_listen calls fd n)),
      os_accept = (\<lambda>fd (k, made, closed). case os_accept calls fd k of (new, k) \<Rightarrow>
                     (new, (k, (if new = - 1 then made else made @ [new]), closed))),
      os_connect = (\<lambda>fd a n t. lift_call (os_connect calls fd a n t)),
      os_getsockname = (\<lambda>fd n. lift_call (os_getsockname calls fd n)),
      os_getpeername = (\<lambda>fd n. lift_call (os_getpeername calls fd n)),
      os_close = (\<lambda>fd (k, made, closed). (os_close calls fd k, made, closed @ [fd])),
      os_fdctx = (\<lambda>fd x. os_fdctx calls fd (fst x)),
      os_sendto = (\<lambda>fd bs a n. lift_call (os_sendto calls fd bs a n)),
      os_recvfrom = (\<lambda>fd ns n. lift_call (os_recvfrom calls fd ns n))\<rparr>"

section \<open>Operations\<close>

datatype so_op =
    Op_bind Address | Op_connect Address "64 word" | Op_reconnect "64 word" | Op_listen int | Op_close
  | Op_setTimeout timeout_type int | Op_getLocalAddress | Op_getRemoteAddress | Op_getError

fun so_exec :: "endian \<Rightarrow> ('b, 'k) sockets \<Rightarrow> so_op \<Rightarrow> full_socket \<times> 'k \<Rightarrow> full_socket \<times> 'k" where
  "so_exec h calls (Op_bind a) x = snd (so_bind h calls a x)"
| "so_exec h calls (Op_connect a t) x = snd (so_connect h calls a t x)"
| "so_exec h calls (Op_reconnect t) x = snd (so_reconnect h calls t x)"
| "so_exec h calls (Op_listen n) x = snd (so_listen calls n x)"
| "so_exec h calls Op_close x = snd (so_close calls x)"
| "so_exec h calls (Op_setTimeout ty v) x = so_setTimeout calls ty v x"
| "so_exec h calls Op_getLocalAddress x = snd (so_getLocalAddress h calls x)"
| "so_exec h calls Op_getRemoteAddress x = snd (so_getRemoteAddress h calls x)"
| "so_exec h calls Op_getError x = snd (so_getError calls x)"

text \<open>The descriptors made are those closed and the one that is held; connected only with one.\<close>

fun balanced :: "full_socket \<times> 'k ledger \<Rightarrow> bool" where
  "balanced (sk, k, made, closed) \<longleftrightarrow>
     made = closed @ (if so_isValid sk then [sk_sock sk] else []) \<and> (sk_isConnected sk \<longrightarrow> so_isValid sk)"

definition same_socket :: "full_socket \<times> 'k ledger \<Rightarrow> full_socket \<times> 'k ledger \<Rightarrow> bool" where
  "same_socket x y \<longleftrightarrow> sk_sock (fst x) = sk_sock (fst y) \<and> sk_isConnected (fst x) = sk_isConnected (fst y) \<and>
     snd (snd x) = snd (snd y) \<and> sk_family (fst x) = sk_family (fst y) \<and> so_remoteAddress (fst x) = so_remoteAddress (fst y)"

lemma same_balanced: "same_socket x y \<Longrightarrow> balanced x = balanced y"
  by (cases x; cases y) (auto simp: same_socket_def so_isValid_def)

lemma balanced_same: "same_socket x y \<Longrightarrow> balanced x \<Longrightarrow> balanced y"
  using same_balanced by blast

lemma same_trans [trans]: "same_socket x y \<Longrightarrow> same_socket y z \<Longrightarrow> same_socket x z"
  by (simp add: same_socket_def)

lemma same_refl [simp]: "same_socket x x"
  by (simp add: same_socket_def)

lemma same_options:
  "same_socket x (snd (so_setOption (logged calls) opt v x))" "same_socket x (snd (so_getOption (logged calls) opt x))"
  "same_socket x (so_setTimeout (logged calls) ty w x)" "same_socket x (snd (so_getError (logged calls) x))"
  "same_socket x (so_initSock (logged calls) x)"
proof -
  show 1: "same_socket x (snd (so_setOption (logged calls) opt v x))" for opt v x
    by (simp add: so_setOption_def logged_def lift_call_def same_socket_def split: prod.splits)
  show 2: "same_socket x (snd (so_getOption (logged calls) opt x))" for opt x
    by (simp add: so_getOption_def logged_def lift_call_def same_socket_def split: prod.splits)
  show "same_socket x (so_setTimeout (logged calls) ty w x)" by (simp add: so_setTimeout_def 1)
  show "same_socket x (snd (so_getError (logged calls) x))"
    using 2 [of x So_error] by (auto simp: so_getError_def split: prod.splits option.splits)
  show "same_socket x (so_initSock (logged calls) x)"
    by (simp add: so_initSock_def Let_def 1 same_trans [OF 1 1])
qed

lemma same_address:
  "same_socket x (snd (so_getLocalAddress h (logged calls) x))"
  "so_remoteAddress (fst x) \<noteq> None \<Longrightarrow> so_getRemoteAddress h (logged calls) x = (the (so_remoteAddress (fst x)), x)"
  by (auto simp: so_getLocalAddress_def so_getRemoteAddress_def so_query_address_def logged_def lift_call_def same_socket_def Let_def
      split: prod.splits option.splits)

lemma balanced_remote: "balanced x \<Longrightarrow> balanced (snd (so_getRemoteAddress h (logged calls) x))"
  by (cases x) (auto simp: so_getRemoteAddress_def so_query_address_def logged_def lift_call_def so_isValid_def Let_def
      split: prod.splits option.splits)

lemma balanced_newSock:
  assumes "balanced x" and "\<not> so_isValid (fst x)"
  shows "balanced (so_newSock (logged calls) x)"
proof -
  obtain sk k made closed where x: "x = (sk, k, made, closed)" by (cases x)
  obtain fd k' where fd: "os_socket calls (sk_family sk) (sk_type sk) (sk_protocol sk) k = (fd, k')" by fastforce
  let ?y = "(sk\<lparr>sk_sock := fd\<rparr>, k', (if fd = - 1 then made else made @ [fd]), closed)"
  have "so_newSock (logged calls) x = (if fd \<noteq> - 1 then so_initSock (logged calls) ?y else ?y)"
    by (simp add: so_newSock_def x logged_def fd)
  moreover have "balanced ?y" using assms by (auto simp: x so_isValid_def)
  moreover have "balanced (so_initSock (logged calls) ?y)"
    using \<open>balanced ?y\<close> same_balanced [OF same_options(5) [of ?y calls]] by (rule iffD1 [rotated])
  ultimately show ?thesis by (cases "fd = - 1") (auto simp del: balanced.simps)
qed

lemma newSock_keeps:
  "so_remoteAddress (fst (so_newSock (logged calls) x)) = so_remoteAddress (fst x) \<and>
    sk_family (fst (so_newSock (logged calls) x)) = sk_family (fst x)"
proof -
  obtain sk k where x: "x = (sk, k)" by (cases x)
  obtain fd k' where fd: "os_socket (logged calls) (sk_family sk) (sk_type sk) (sk_protocol sk) k = (fd, k')"
    by (cases "os_socket (logged calls) (sk_family sk) (sk_type sk) (sk_protocol sk) k")
  have same: "same_socket (sk\<lparr>sk_sock := fd\<rparr>, k') (so_initSock (logged calls) (sk\<lparr>sk_sock := fd\<rparr>, k'))" by (rule same_options(5))
  have eq: "so_newSock (logged calls) x =
      (if fd \<noteq> - 1 then so_initSock (logged calls) (sk\<lparr>sk_sock := fd\<rparr>, k') else (sk\<lparr>sk_sock := fd\<rparr>, k'))"
    by (simp add: so_newSock_def x fd)
  show ?thesis unfolding eq using same by (simp add: same_socket_def x)
qed

lemma balanced_ensure: "balanced x \<Longrightarrow> balanced (so_ensure (logged calls) x)"
  by (simp add: so_ensure_def balanced_newSock)

lemma ensure_keeps: "so_remoteAddress (fst (so_ensure (logged calls) x)) = so_remoteAddress (fst x)"
  by (simp add: so_ensure_def newSock_keeps)

lemma balanced_close: "balanced x \<Longrightarrow> balanced (snd (so_close (logged calls) x)) \<and> \<not> so_isValid (fst (snd (so_close (logged calls) x)))"
  by (cases x) (auto simp: so_close_def logged_def so_isValid_def Let_def)

lemma balanced_bind:
  assumes "balanced x"
  shows "balanced (snd (so_bind h (logged calls) a x))"
proof -
  obtain sk k made closed where e: "so_ensure (logged calls) x = (sk, k, made, closed)" by (cases "so_ensure (logged calls) x")
  have b: "balanced (sk, k, made, closed)" using balanced_ensure [OF assms, of calls] unfolding e .
  obtain rt k' where rt: "os_bind (logged calls) (sk_sock sk) (getAddr h a) (getAddrLen a) (k, made, closed) = (rt, k', made, closed)"
    using lift_call_log [of "os_bind calls (sk_sock sk) (getAddr h a) (getAddrLen a)" k "(made, closed)"] by (auto simp: logged_def)
  have "balanced (sk, k', made, closed)" using b by simp
  then show ?thesis using b balanced_same [OF same_address(1) [of "(sk, k', made, closed)" h calls]] by (simp add: so_bind_def e rt del: balanced.simps)
qed

text \<open>What a successful connection leaves.\<close>

definition connected_to :: "Address \<Rightarrow> full_socket \<Rightarrow> bool" where
  "connected_to a sk \<longleftrightarrow> sk_isConnected sk \<and> so_isValid sk \<and> so_remoteAddress sk = Some a \<and> uint (getFamily a) = sk_family sk"

lemma balanced_connect:
  assumes "balanced x"
  shows "balanced (snd (so_connect h (logged calls) a t x)) \<and>
    (fst (so_connect h (logged calls) a t x) \<longrightarrow> connected_to a (fst (snd (so_connect h (logged calls) a t x))))"
proof -
  let ?x = "((fst x)\<lparr>so_remoteAddress := Some a\<rparr>, snd x)"
  have "balanced ?x" using assms by (cases x) (simp add: so_isValid_def)
  obtain sk k made closed where e: "so_ensure (logged calls) ?x = (sk, k, made, closed)" by (cases "so_ensure (logged calls) ?x")
  have b: "balanced (sk, k, made, closed)" using balanced_ensure [OF \<open>balanced ?x\<close>, of calls] unfolding e .
  have remote: "so_remoteAddress sk = Some a"
    using ensure_keeps [of calls ?x] by (simp add: e)
  obtain rt k' where rt: "os_connect (logged calls) (sk_sock sk) (getAddr h a) (getAddrLen a)
      (if t = - 1 then None else Some t) (k, made, closed) = (rt, k', made, closed)"
    using lift_call_log [of "os_connect calls (sk_sock sk) (getAddr h a) (getAddrLen a) (if t = - 1 then None else Some t)"
        k "(made, closed)"] by (auto simp: logged_def)
  show ?thesis
  proof (cases "so_isValid sk \<and> uint (getFamily a) = sk_family sk \<and> rt = 0")
    case True
    let ?y = "(sk\<lparr>sk_isConnected := True\<rparr>, k', made, closed)"
    have "so_getRemoteAddress h (logged calls) ?y = (a, ?y)" using same_address(2) [of ?y h calls] remote by simp
    moreover have same: "same_socket ?y (snd (so_getLocalAddress h (logged calls) ?y))" by (rule same_address(1))
    ultimately have run: "so_connect h (logged calls) a t x = (True, snd (so_getLocalAddress h (logged calls) ?y))"
      using True rt by (simp add: so_connect_def e Let_def)
    have "balanced ?y" using b True by (simp add: so_isValid_def)
    then have "balanced (snd (so_getLocalAddress h (logged calls) ?y))" by (rule balanced_same [OF same])
    moreover have "connected_to a (fst (snd (so_getLocalAddress h (logged calls) ?y)))"
      using same True remote by (simp add: connected_to_def so_isValid_def same_socket_def)
    ultimately show ?thesis unfolding run by (simp del: balanced.simps)
  next
    case False
    have "balanced (sk, k', made, closed)" using b by simp
    from balanced_close [OF this, of calls] show ?thesis
      using False b rt by (auto simp: so_connect_def e simp del: balanced.simps)
  qed
qed

lemma balanced_listen: "balanced x \<Longrightarrow> balanced (snd (so_listen (logged calls) n x))"
  by (cases x) (auto simp: so_listen_def logged_def lift_call_def so_isValid_def split: prod.splits)

lemma balanced_reconnect:
  assumes "balanced x"
  shows "balanced (snd (so_reconnect h (logged calls) t x))"
proof (cases "so_remoteAddress (fst x)")
  case (Some a)
  have "balanced ((fst x)\<lparr>so_localAddress := None\<rparr>, snd x)" using assms by (cases x) (simp add: so_isValid_def)
  from balanced_connect [OF this, of h calls a t] show ?thesis using Some by (simp add: so_reconnect_def)
qed (use assms in \<open>simp add: so_reconnect_def\<close>)

lemma balanced_exec: "balanced x \<Longrightarrow> balanced (so_exec h (logged calls) f x)"
proof (cases f)
  case (Op_setTimeout ty v)
  then show "balanced x \<Longrightarrow> ?thesis" using balanced_same [OF same_options(3) [of x calls ty v]] by simp
next
  case Op_getError
  then show "balanced x \<Longrightarrow> ?thesis" using balanced_same [OF same_options(4) [of x calls]] by simp
next
  case Op_getLocalAddress
  then show "balanced x \<Longrightarrow> ?thesis" using balanced_same [OF same_address(1) [of x h calls]] by simp
qed (simp_all add: balanced_bind balanced_connect balanced_reconnect balanced_listen balanced_close balanced_remote del: balanced.simps)

lemma balanced_run: "balanced x \<Longrightarrow> balanced (fold (so_exec h (logged calls)) fs x)"
  by (induction fs arbitrary: x) (simp_all add: balanced_exec del: balanced.simps)

text \<open>
  C30. Whatever is called on a stream socket, in whatever order and whatever the system answers, each
  descriptor it got is closed exactly once or still held, it says it is connected only while it holds
  one, and a close leaves it without.
\<close>

theorem socket_descriptors:
  assumes "fold (so_exec h (logged calls)) fs (so_new family SOCK_STREAM protocol, k, [], []) = (sk, k', made, closed)"
  shows "made = closed @ (if so_isValid sk then [sk_sock sk] else []) \<and> (sk_isConnected sk \<longrightarrow> so_isValid sk) \<and>
    \<not> so_isValid (fst (snd (so_close (logged calls) (sk, k', made, closed))))"
proof -
  have "balanced (so_new family SOCK_STREAM protocol, k, [], [])"
    by (simp add: so_new_def Socket_new_def Socket.extend_def so_isValid_def)
  from balanced_run [OF this, of h calls fs] have "balanced (sk, k', made, closed)" unfolding assms .
  then show ?thesis using balanced_close [of "(sk, k', made, closed)" calls] by simp
qed

text \<open>
  A connect that succeeds leaves the socket connected to the address it was given, of its own
  family, whatever was called on it before.
\<close>

theorem connect_to_address:
  assumes "fold (so_exec h (logged calls)) fs (so_CreateTCP b, k, [], []) = x" and "so_connect h (logged calls) a t x = (True, y)"
  shows "connected_to a (fst y)"
proof -
  have "balanced (so_CreateTCP b, k, [], [])"
    by (simp add: so_CreateTCP_def so_new_def Socket_new_def Socket.extend_def so_isValid_def)
  from balanced_run [OF this, of h calls fs] have "balanced x" unfolding assms(1) .
  from balanced_connect [OF this, of h calls a t] show ?thesis unfolding assms(2) by simp
qed

section \<open>Timeouts\<close>

text \<open>
  A timeout of up to 2^31 seconds set on a socket whose descriptor is in the table is the one the table
  holds after the hooked \<open>setsockopt\<close>, to the millisecond, so that \<open>getRecvTimeout\<close> and
  \<open>getSendTimeout\<close> give it back.
\<close>

theorem timeout_roundtrip:
  assumes "t_hook_enable s" and "fd_lookup fd (fds s) = Some c" and "0 \<le> v" and "v < 2 ^ 31 * 1000"
  shows "\<exists>r s' c'. hook_setsockopt setsockopt_f fd True (Timeout ty) (so_timeval v) s = (Inr r, s') \<and>
    fd_lookup fd (fds s') = Some c' \<and> getTimeout ty c' = word_of_int v \<and> sint (getTimeout ty c') = v"
proof -
  have div: "v sdiv 1000 = v div 1000" "v smod 1000 = v mod 1000" using assms(3) by (simp_all add: signed_divide_int_def signed_modulo_int_def sgn_if)
  have "int32 (v div 1000) = v div 1000" "int32 (v mod 1000 * 1000) = v mod 1000 * 1000"
    using assms(3,4) by (auto intro!: int32_id)
  then have tv: "so_timeval v = \<lparr>tv_sec = word_of_int (v div 1000), tv_usec = word_of_int (v mod 1000 * 1000)\<rparr>"
    by (simp add: so_timeval_def div)
  have "sint (word_of_int (v mod 1000 * 1000) :: 64 word) = v mod 1000 * 1000"
    using int64_id [of "v mod 1000 * 1000"] by (simp add: int64_def)
  moreover have "word_of_int (v div 1000) * 1000 + word_of_int (v mod 1000) = (word_of_int (v div 1000 * 1000 + v mod 1000) :: 64 word)"
    by (simp only: of_int_add of_int_mult of_int_numeral)
  then have word: "word_of_int (v div 1000) * 1000 + word_of_int (v mod 1000) = (word_of_int v :: 64 word)" by simp
  moreover have "v mod 1000 * 1000 sdiv 1000 = v mod 1000" by (simp add: signed_divide_int_def sgn_if abs_mult)
  ultimately have stored: "tv_sec (so_timeval v) * 1000 + word_of_int (sint (tv_usec (so_timeval v)) sdiv 1000) = (word_of_int v :: 64 word)"
    using word by (simp add: tv)
  have fd: "\<not> fd < - 1" "0 \<le> fd" "fd < int (length (fds s))" "fds s ! nat fd = Some c"
    using assms(2) by (auto simp: fd_lookup_def split: if_splits)
  obtain r k where call: "setsockopt_f fd True (Timeout ty) (so_timeval v) (os s) = (r, k)" by fastforce
  have "sint (word_of_int v :: 64 word) = v" using int64_id [of v] assms(3,4) by (simp add: int64_def)
  then show ?thesis
    using assms(1,2) fd call
    by (auto simp: hook_setsockopt_def mgr_get_def pbind_def upd_ctx_def os_call_def stored lookup_update setTimeout_def getTimeout_def)
qed

section \<open>Accepting\<close>

text \<open>
  A connection that is accepted but whose descriptor the table does not know, as without the hooks,
  gives the null pointer, and its descriptor is neither closed nor held by any socket.
\<close>

theorem accept_leaks:
  assumes "os_accept calls (sk_sock sk) k = (fd, k')" and "fd \<noteq> - 1" and "os_fdctx calls fd k' = None"
  shows "so_accept h (logged calls) sk (k, made, closed) = (None, (k', made @ [fd], closed))"
  using assms by (simp add: so_accept_def logged_def so_init_def)

section \<open>Instances\<close>

text \<open>A system that hands out ascending descriptors, of which its table knows none, and never fails.\<close>

definition sample_calls :: "(byte, int) sockets" where
  "sample_calls =
     \<lparr>os_socket = (\<lambda>f t p k. (k, k + 1)), os_setsockopt = (\<lambda>fd opt v k. (0, k)), os_getsockopt = (\<lambda>fd opt k. ((0, 0), k)),
      os_errno = (\<lambda>k. 0), os_bind = (\<lambda>fd a n k. (0, k)), os_listen = (\<lambda>fd n k. (0, k)), os_accept = (\<lambda>fd k. if fd = - 1 then (- 1, k) else (k, k + 1)),
      os_connect = (\<lambda>fd a n t k. (0, k)), os_getsockname = (\<lambda>fd n k. ((0, [], 0), k)),
      os_getpeername = (\<lambda>fd n k. ((0, [], 0), k)), os_close = (\<lambda>fd k. k), os_fdctx = (\<lambda>fd k. None),
      os_sendto = (\<lambda>fd bs a n k. (0, k)), os_recvfrom = (\<lambda>fd ns n k. ((0, [], []), k))\<rparr>"

definition sample_peer :: Address where
  "sample_peer = IPv4Address_new LITTLE_ENDIAN 0x7F000001 80"

lemma socket_descriptors_witness:
  "\<not> so_isValid (fst (snd (so_close (logged sample_calls) (fold (so_exec LITTLE_ENDIAN (logged sample_calls))
     [Op_connect sample_peer (- 1), Op_close, Op_bind sample_peer, Op_listen 5] (so_new 2 SOCK_STREAM 0, 7, [], [])))))"
proof -
  obtain sk k made closed where run: "fold (so_exec LITTLE_ENDIAN (logged sample_calls))
     [Op_connect sample_peer (- 1), Op_close, Op_bind sample_peer, Op_listen 5] (so_new 2 SOCK_STREAM 0, 7, [], [])
     = (sk, k, made, closed)" by (rule prod_cases4)
  show ?thesis using socket_descriptors [OF run] unfolding run by blast
qed

lemma connect_to_address_witness:
  "connected_to sample_peer (fst (snd (so_connect LITTLE_ENDIAN (logged sample_calls) sample_peer (- 1) (so_CreateTCP sample_peer, 7, [], []))))"
proof -
  have "fst (so_connect LITTLE_ENDIAN (logged sample_calls) sample_peer (- 1) (so_CreateTCP sample_peer, 7, [], []))" by code_simp
  then have "so_connect LITTLE_ENDIAN (logged sample_calls) sample_peer (- 1) (so_CreateTCP sample_peer, 7, [], [])
      = (True, snd (so_connect LITTLE_ENDIAN (logged sample_calls) sample_peer (- 1) (so_CreateTCP sample_peer, 7, [], [])))"
    by (simp add: prod_eq_iff)
  moreover have "fold (so_exec LITTLE_ENDIAN (logged sample_calls)) [] (so_CreateTCP sample_peer, 7, [], []) = (so_CreateTCP sample_peer, 7, [], [])"
    by simp
  ultimately show ?thesis by (rule connect_to_address [rotated])
qed

definition sample_hooks :: "(nat, nat, nat, nat) hook_sys" where
  "sample_hooks = \<lparr>t_hook_enable = True, fds = [Some \<lparr>m_isInit = True, m_isSocket = True, m_sysNonblock = True,
      m_userNonblock = False, m_isClosed = False, m_fd = 0, m_recvTimeout = - 1, m_sendTimeout = - 1\<rparr>],
    os = 0, cur_iom = None\<rparr>"

lemma timeout_roundtrip_witness:
  "\<exists>r s' c'. hook_setsockopt (\<lambda>fd lv opt v k. (0, k)) 0 True (Timeout SO_RCVTIMEO) (so_timeval 120000) sample_hooks = (Inr r, s') \<and>
    fd_lookup 0 (fds s') = Some c' \<and> sint (getTimeout SO_RCVTIMEO c') = 120000"
proof -
  have "t_hook_enable sample_hooks" "fd_lookup 0 (fds sample_hooks) = Some (the (hd (fds sample_hooks)))"
    by (simp_all add: sample_hooks_def fd_lookup_def)
  from timeout_roundtrip [OF this, of 120000 "\<lambda>fd lv opt v k. (0, k)" SO_RCVTIMEO] show ?thesis by auto
qed

lemma accept_leaks_witness:
  "so_accept LITTLE_ENDIAN (logged sample_calls) ((so_new 2 SOCK_STREAM 0)\<lparr>sk_sock := 3\<rparr>) (7, [3], []) = (None, (8, [3] @ [7], []))"
  by (rule accept_leaks) (simp_all add: sample_calls_def)

end
