(* ===== verification/TcpServer.thy ===== *)
theory TcpServer
  imports SocketLife_Props
begin

text \<open>
  The server over stream sockets (\<open>src/tcp_server.h\<close>, \<open>src/tcp_server.cc\<close>): binding, starting, the loop
  that accepts and stopping. Sockets are shared: the server, the tasks it has scheduled and the
  sessions refer to them by their number in a store, and a socket is closed when nothing refers to it
  any more. Scheduling a task puts it at the end of its scheduler's tasks, where it stays until it has
  returned; a step is one round of the accept loop or the whole of another task. What a session does
  with its socket is in \<open>HttpSession\<close>.
\<close>

section \<open>State\<close>

datatype tcp_task = Start_accept nat | Close_all | Handle_client nat

record 'k TcpServer =
  ts_socks :: "nat list"
  ts_recvTimeout :: "64 word"
  ts_name :: string
  ts_type :: string
  ts_isStop :: bool
  ts_accept_tasks :: "tcp_task list"
  ts_io_tasks :: "tcp_task list"
  ts_store :: "full_socket list"
  ts_kernel :: 'k

definition TcpServer_new :: "'k \<Rightarrow> 'k TcpServer" where
  "TcpServer_new k =
     \<lparr>ts_socks = [], ts_recvTimeout = 60 * 1000 * 2, ts_name = ''sylar/1.0.0'', ts_type = ''tcp'', ts_isStop = True,
      ts_accept_tasks = [], ts_io_tasks = [], ts_store = [], ts_kernel = k\<rparr>"

text \<open>An operation on the socket with a number.\<close>

definition on_socket :: "nat \<Rightarrow> (full_socket \<times> 'k \<Rightarrow> full_socket \<times> 'k) \<Rightarrow> 'k TcpServer \<Rightarrow> 'k TcpServer" where
  "on_socket i f s =
     (case f (ts_store s ! i, ts_kernel s) of (sk, k) \<Rightarrow> s\<lparr>ts_store := (ts_store s)[i := sk], ts_kernel := k\<rparr>)"

definition task_refers :: "nat \<Rightarrow> tcp_task \<Rightarrow> bool" where
  "task_refers i t \<longleftrightarrow> t = Start_accept i \<or> t = Handle_client i"

text \<open>\<open>m_socks.clear()\<close>: a socket no task refers to is destroyed, which closes it.\<close>

definition ts_clear :: "('b, 'k) sockets \<Rightarrow> 'k TcpServer \<Rightarrow> 'k TcpServer" where
  "ts_clear calls s =
     fold (\<lambda>i s. if \<exists>t\<in>set (ts_accept_tasks s @ ts_io_tasks s). task_refers i t then s
                 else on_socket i (\<lambda>x. snd (so_close calls x)) s)
       (ts_socks s) (s\<lparr>ts_socks := []\<rparr>)"

section \<open>Operations\<close>

text \<open>One address: the new socket and whether it is bound and listens; if not, it is destroyed.\<close>

definition bind_one :: "endian \<Rightarrow> ('b, 'k) sockets \<Rightarrow> int \<Rightarrow> Address \<Rightarrow> 'k \<Rightarrow> full_socket option \<times> 'k" where
  "bind_one h calls somaxconn addr k =
     (case so_bind h calls addr (so_CreateTCP addr, k) of
        (False, x) \<Rightarrow> (None, snd (snd (so_close calls x)))
      | (True, x) \<Rightarrow>
          (case so_listen calls somaxconn x of
             (False, x) \<Rightarrow> (None, snd (snd (so_close calls x)))
           | (True, (sk, k)) \<Rightarrow> (Some sk, k)))"

fun bind_loop ::
    "endian \<Rightarrow> ('b, 'k) sockets \<Rightarrow> int \<Rightarrow> Address list \<Rightarrow> Address list \<Rightarrow> 'k TcpServer \<Rightarrow> Address list \<times> 'k TcpServer" where
  "bind_loop h calls somaxconn [] fails s = (fails, s)"
| "bind_loop h calls somaxconn (addr # addrs) fails s =
     (case bind_one h calls somaxconn addr (ts_kernel s) of
        (None, k) \<Rightarrow> bind_loop h calls somaxconn addrs (fails @ [addr]) (s\<lparr>ts_kernel := k\<rparr>)
      | (Some sk, k) \<Rightarrow>
          bind_loop h calls somaxconn addrs fails
            (s\<lparr>ts_kernel := k, ts_store := ts_store s @ [sk], ts_socks := ts_socks s @ [length (ts_store s)]\<rparr>))"

definition ts_bind_all ::
    "endian \<Rightarrow> ('b, 'k) sockets \<Rightarrow> int \<Rightarrow> Address list \<Rightarrow> Address list \<Rightarrow> 'k TcpServer \<Rightarrow> bool \<times> Address list \<times> 'k TcpServer" where
  "ts_bind_all h calls somaxconn addrs fails s =
     (case bind_loop h calls somaxconn addrs fails s of (fails, s) \<Rightarrow>
        if fails \<noteq> [] then (False, fails, ts_clear calls s) else (True, fails, s))"

definition ts_bind :: "endian \<Rightarrow> ('b, 'k) sockets \<Rightarrow> int \<Rightarrow> Address \<Rightarrow> 'k TcpServer \<Rightarrow> bool \<times> 'k TcpServer" where
  "ts_bind h calls somaxconn addr s = (case ts_bind_all h calls somaxconn [addr] [] s of (ok, _, s) \<Rightarrow> (ok, s))"

definition ts_start :: "'k TcpServer \<Rightarrow> bool \<times> 'k TcpServer" where
  "ts_start s =
     (if \<not> ts_isStop s then (True, s)
      else (True, s\<lparr>ts_isStop := False, ts_accept_tasks := ts_accept_tasks s @ map Start_accept (ts_socks s)\<rparr>))"

definition ts_stop :: "'k TcpServer \<Rightarrow> 'k TcpServer" where
  "ts_stop s = s\<lparr>ts_isStop := True, ts_accept_tasks := ts_accept_tasks s @ [Close_all]\<rparr>"

definition ts_destroy :: "('b, 'k) sockets \<Rightarrow> 'k TcpServer \<Rightarrow> 'k TcpServer" where
  "ts_destroy calls s = (fold (\<lambda>i. on_socket i (\<lambda>x. snd (so_close calls x))) (ts_socks s) s)\<lparr>ts_socks := []\<rparr>"

text \<open>The names of the two schedulers are arguments, empty for a null pointer.\<close>

definition ts_toString :: "endian \<Rightarrow> string \<Rightarrow> string \<Rightarrow> string \<Rightarrow> 'k TcpServer \<Rightarrow> (addr_error + string) list" where
  "ts_toString h worker acceptor prefix s =
     (let pfx = (if prefix = [] then ''    '' else prefix) in
      Inr (prefix @ ''[type='' @ ts_type s @ '' name='' @ ts_name s @ '' worker='' @ worker @ '' accept='' @ acceptor
        @ '' recv_timeout='' @ show_nat (unat (ts_recvTimeout s)) @ '']'' @ [CHR 0x0A])
      # map (\<lambda>i. map_sum id (\<lambda>t. pfx @ pfx @ t @ [CHR 0x0A]) (so_dump h (ts_store s ! i))) (ts_socks s))"

definition ts_setRecvTimeout :: "64 word \<Rightarrow> 'k TcpServer \<Rightarrow> 'k TcpServer" where
  "ts_setRecvTimeout v s = s\<lparr>ts_recvTimeout := v\<rparr>"

definition ts_setName :: "string \<Rightarrow> 'k TcpServer \<Rightarrow> 'k TcpServer" where
  "ts_setName v s = s\<lparr>ts_name := v\<rparr>"

section \<open>Tasks\<close>

text \<open>One round of the loop of \<open>startAccept\<close>, which returns when the server has been stopped.\<close>

definition accept_round :: "endian \<Rightarrow> ('b, 'k) sockets \<Rightarrow> nat \<Rightarrow> 'k TcpServer \<Rightarrow> 'k TcpServer" where
  "accept_round h calls i s =
     (if ts_isStop s then s\<lparr>ts_accept_tasks := remove1 (Start_accept i) (ts_accept_tasks s)\<rparr>
      else case so_accept h calls (ts_store s ! i) (ts_kernel s) of
        (None, k) \<Rightarrow> s\<lparr>ts_kernel := k\<rparr>
      | (Some client, k) \<Rightarrow>
          (case so_setTimeout calls SO_RCVTIMEO (sint (ts_recvTimeout s)) (client, k) of (client, k) \<Rightarrow>
             s\<lparr>ts_kernel := k, ts_store := ts_store s @ [client],
               ts_io_tasks := ts_io_tasks s @ [Handle_client (length (ts_store s))]\<rparr>))"

text \<open>The task that \<open>stop\<close> schedules; \<open>cancel\<close> stands for \<open>Socket::cancelAll\<close>, which wakes who waits.\<close>

definition close_sockets :: "('b, 'k) sockets \<Rightarrow> (int \<Rightarrow> 'k \<Rightarrow> 'k) \<Rightarrow> 'k TcpServer \<Rightarrow> 'k TcpServer" where
  "close_sockets calls cancel s =
     (let s = fold (\<lambda>i s. on_socket i (\<lambda>(sk, k). snd (so_close calls (sk, cancel (sk_sock sk) k))) s) (ts_socks s) s
      in s\<lparr>ts_socks := [], ts_accept_tasks := remove1 Close_all (ts_accept_tasks s)\<rparr>)"

text \<open>A client's socket goes with its session.\<close>

definition client_done :: "('b, 'k) sockets \<Rightarrow> nat \<Rightarrow> 'k TcpServer \<Rightarrow> 'k TcpServer" where
  "client_done calls i s =
     on_socket i (\<lambda>x. snd (so_close calls x)) (s\<lparr>ts_io_tasks := remove1 (Handle_client i) (ts_io_tasks s)\<rparr>)"

fun run_task :: "endian \<Rightarrow> ('b, 'k) sockets \<Rightarrow> (int \<Rightarrow> 'k \<Rightarrow> 'k) \<Rightarrow> tcp_task \<Rightarrow> 'k TcpServer \<Rightarrow> 'k TcpServer" where
  "run_task h calls cancel (Start_accept i) s = accept_round h calls i s"
| "run_task h calls cancel Close_all s = close_sockets calls cancel s"
| "run_task h calls cancel (Handle_client i) s = client_done calls i s"

section \<open>Binding\<close>

lemma so_close_invalid: "\<not> so_isValid (fst (snd (so_close calls x))) \<and> \<not> sk_isConnected (fst (snd (so_close calls x)))"
  by (cases x) (auto simp: so_close_def so_isValid_def Let_def)

lemma getLocalAddress_keeps:
  "so_isValid (fst (snd (so_getLocalAddress h calls x))) = so_isValid (fst x) \<and>
    sk_family (fst (snd (so_getLocalAddress h calls x))) = sk_family (fst x)"
  by (cases x) (auto simp: so_getLocalAddress_def so_isValid_def split: prod.splits option.splits)

lemma so_bind_bound:
  assumes "so_bind h calls a x = (True, y)"
  shows "so_isValid (fst y) \<and> sk_family (fst y) = uint (getFamily a)"
proof -
  obtain sk k where e: "so_ensure calls x = (sk, k)" by fastforce
  obtain rt k' where rt: "os_bind calls (sk_sock sk) (getAddr h a) (getAddrLen a) k = (rt, k')" by fastforce
  have "so_isValid sk" "sk_family sk = uint (getFamily a)" "y = snd (so_getLocalAddress h calls (sk, k'))"
    using assms by (auto simp: so_bind_def e rt split: if_splits)
  then show ?thesis using getLocalAddress_keeps [of h calls "(sk, k')"] by simp
qed

lemma bind_one_bound:
  assumes "bind_one h calls n a k = (Some sk, k')"
  shows "so_isValid sk \<and> sk_family sk = uint (getFamily a)"
proof -
  obtain y where y: "so_bind h calls a (so_CreateTCP a, k) = (True, y)" "so_listen calls n y = (True, (sk, k'))"
    using assms by (auto simp: bind_one_def split: prod.splits bool.splits)
  have "sk = fst y" using y(2) by (cases y) (auto simp: so_listen_def split: prod.splits if_splits)
  then show ?thesis using so_bind_bound [OF y(1)] by simp
qed

text \<open>The listening sockets of a server, one for each of some addresses.\<close>

definition bound_to :: "'k TcpServer \<Rightarrow> nat list \<Rightarrow> Address list \<Rightarrow> bool" where
  "bound_to s ids addrs \<longleftrightarrow>
     list_all2 (\<lambda>i a. i < length (ts_store s) \<and> so_isValid (ts_store s ! i) \<and> sk_family (ts_store s ! i) = uint (getFamily a)) ids addrs"

lemma bind_loop_result:
  assumes "bind_loop h calls n addrs fails s = (fails', s')"
  shows "(\<exists>more. fails' = fails @ more \<and> set more \<subseteq> set addrs) \<and>
    (\<exists>new bound. ts_socks s' = ts_socks s @ new \<and> bound_to s' new bound \<and> mset (bound @ fails') = mset (addrs @ fails) \<and>
      (fails' = fails \<longrightarrow> bound = addrs)) \<and>
    (\<exists>more. ts_store s' = ts_store s @ more) \<and> ts_accept_tasks s' = ts_accept_tasks s \<and> ts_io_tasks s' = ts_io_tasks s"
  using assms
proof (induction addrs arbitrary: fails s)
  case Nil
  then show ?case by (auto simp: bound_to_def)
next
  case (Cons a addrs)
  obtain r k where one: "bind_one h calls n a (ts_kernel s) = (r, k)" by fastforce
  show ?case
  proof (cases r)
    case None
    from Cons.IH [of "fails @ [a]" "s\<lparr>ts_kernel := k\<rparr>"] Cons.prems show ?thesis
      by (fastforce simp: one None)
  next
    case (Some sk)
    let ?s = "s\<lparr>ts_kernel := k, ts_store := ts_store s @ [sk], ts_socks := ts_socks s @ [length (ts_store s)]\<rparr>"
    have "bind_loop h calls n addrs fails ?s = (fails', s')" using Cons.prems by (simp add: one Some)
    note run = Cons.IH [OF this]
    obtain more where more: "fails' = fails @ more" "set more \<subseteq> set addrs" using run by blast
    obtain new bound where ih: "ts_socks s' = ts_socks ?s @ new" "bound_to s' new bound"
      "mset (bound @ fails') = mset (addrs @ fails)" "fails' = fails \<longrightarrow> bound = addrs" using run by blast
    have keep: "\<exists>more. ts_store s' = ts_store s @ sk # more" "ts_accept_tasks s' = ts_accept_tasks s" "ts_io_tasks s' = ts_io_tasks s"
      using run by auto
    have "bound_to s' (length (ts_store s) # new) (a # bound)"
      using ih(2) keep(1) bind_one_bound [of h calls n a "ts_kernel s" sk k] one Some by (auto simp: bound_to_def)
    moreover have "mset ((a # bound) @ fails') = mset ((a # addrs) @ fails)" using ih(3) by simp
    ultimately show ?thesis using ih(1,4) more keep
      by (intro conjI exI [where x = "length (ts_store s) # new"] exI [where x = "a # bound"] exI [where x = more]) auto
  qed
qed

section \<open>Closing\<close>

text \<open>Nothing but sockets changes, and none becomes valid.\<close>

definition only_closed :: "'k TcpServer \<Rightarrow> 'k TcpServer \<Rightarrow> bool" where
  "only_closed s r \<longleftrightarrow> ts_socks r = ts_socks s \<and> ts_isStop r = ts_isStop s \<and> ts_accept_tasks r = ts_accept_tasks s \<and>
     ts_io_tasks r = ts_io_tasks s \<and> length (ts_store r) = length (ts_store s) \<and>
     (\<forall>i < length (ts_store s). so_isValid (ts_store r ! i) \<longrightarrow> so_isValid (ts_store s ! i))"

lemma only_closed_refl [simp]: "only_closed s s"
  by (simp add: only_closed_def)

lemma only_closed_trans: "only_closed s r \<Longrightarrow> only_closed r q \<Longrightarrow> only_closed s q"
  by (auto simp: only_closed_def)

definition closer :: "(full_socket \<times> 'k \<Rightarrow> full_socket \<times> 'k) \<Rightarrow> bool" where
  "closer f \<longleftrightarrow> (\<forall>x. \<not> so_isValid (fst (f x)))"

lemma on_socket_closes:
  assumes "closer f"
  shows "only_closed s (on_socket i f s)" and "i < length (ts_store s) \<Longrightarrow> \<not> so_isValid (ts_store (on_socket i f s) ! i)"
proof -
  obtain sk k where x: "f (ts_store s ! i, ts_kernel s) = (sk, k)" by fastforce
  then have "\<not> so_isValid sk" using assms unfolding closer_def by (metis fst_conv)
  with x show "only_closed s (on_socket i f s)" "i < length (ts_store s) \<Longrightarrow> \<not> so_isValid (ts_store (on_socket i f s) ! i)"
    by (auto simp: on_socket_def only_closed_def) (metis nth_list_update_eq nth_list_update_neq)
qed

lemma fold_closes:
  assumes "\<And>i s. f i s = (if Q i (ts_accept_tasks s) (ts_io_tasks s) then s else on_socket i (g i) s)" and "\<And>i. closer (g i)"
  shows "only_closed s (fold f ids s) \<and>
    (\<forall>i\<in>set ids. i < length (ts_store s) \<longrightarrow> \<not> Q i (ts_accept_tasks s) (ts_io_tasks s) \<longrightarrow> \<not> so_isValid (ts_store (fold f ids s) ! i))"
proof (induction ids arbitrary: s)
  case (Cons i ids)
  have step: "only_closed s (f i s)" using assms(1) on_socket_closes(1) [OF assms(2)] by simp
  then have same: "ts_accept_tasks (f i s) = ts_accept_tasks s" "ts_io_tasks (f i s) = ts_io_tasks s"
    "length (ts_store (f i s)) = length (ts_store s)" by (simp_all add: only_closed_def)
  note ih = Cons.IH [of "f i s", unfolded same]
  have "\<not> so_isValid (ts_store (fold f ids (f i s)) ! i)"
    if "i < length (ts_store s)" "\<not> Q i (ts_accept_tasks s) (ts_io_tasks s)"
  proof -
    have "\<not> so_isValid (ts_store (f i s) ! i)" using that assms(1) on_socket_closes(2) [OF assms(2)] by simp
    then show ?thesis using ih that(1) same(3) by (auto simp: only_closed_def)
  qed
  then show ?case using ih only_closed_trans [OF step] by simp
qed simp

lemma closer_close: "closer (\<lambda>x. snd (so_close calls x))" "closer (\<lambda>(sk, k). snd (so_close calls (sk, c sk k)))"
  by (simp_all add: closer_def so_close_invalid split: prod.splits)

lemma ts_clear_closes:
  assumes "r = ts_clear calls s"
  shows "ts_socks r = []" and "\<And>i. i \<in> set (ts_socks s) \<Longrightarrow> i < length (ts_store s) \<Longrightarrow>
    \<not> (\<exists>t\<in>set (ts_accept_tasks s @ ts_io_tasks s). task_refers i t) \<Longrightarrow> \<not> so_isValid (ts_store r ! i)"
proof -
  let ?f = "\<lambda>i s. if \<exists>t\<in>set (ts_accept_tasks s @ ts_io_tasks s). task_refers i t then s
                 else on_socket i (\<lambda>x. snd (so_close calls x)) s"
  have "only_closed (s\<lparr>ts_socks := []\<rparr>) (fold ?f (ts_socks s) (s\<lparr>ts_socks := []\<rparr>)) \<and>
    (\<forall>i\<in>set (ts_socks s). i < length (ts_store (s\<lparr>ts_socks := []\<rparr>)) \<longrightarrow>
      \<not> (\<exists>t\<in>set (ts_accept_tasks (s\<lparr>ts_socks := []\<rparr>) @ ts_io_tasks (s\<lparr>ts_socks := []\<rparr>)). task_refers i t) \<longrightarrow>
      \<not> so_isValid (ts_store (fold ?f (ts_socks s) (s\<lparr>ts_socks := []\<rparr>)) ! i))"
    by (rule fold_closes [where Q = "\<lambda>i as is. \<exists>t\<in>set (as @ is). task_refers i t"]) (simp, rule closer_close(1))
  then show "ts_socks r = []" "\<And>i. i \<in> set (ts_socks s) \<Longrightarrow> i < length (ts_store s) \<Longrightarrow>
    \<not> (\<exists>t\<in>set (ts_accept_tasks s @ ts_io_tasks s). task_refers i t) \<Longrightarrow> \<not> so_isValid (ts_store r ! i)"
    unfolding assms ts_clear_def by (simp_all add: only_closed_def)
qed

lemma close_sockets_closes:
  assumes "r = close_sockets calls cancel s"
  shows "ts_socks r = []" and "ts_isStop r = ts_isStop s" and "ts_io_tasks r = ts_io_tasks s"
    and "ts_accept_tasks r = remove1 Close_all (ts_accept_tasks s)" and "length (ts_store r) = length (ts_store s)"
    and "\<And>i. i \<in> set (ts_socks s) \<Longrightarrow> i < length (ts_store s) \<Longrightarrow> \<not> so_isValid (ts_store r ! i)"
    and "\<And>i. i < length (ts_store s) \<Longrightarrow> \<not> so_isValid (ts_store s ! i) \<Longrightarrow> \<not> so_isValid (ts_store r ! i)"
proof -
  let ?f = "\<lambda>i s. on_socket i (\<lambda>(sk, k). snd (so_close calls (sk, cancel (sk_sock sk) k))) s"
  have "only_closed s (fold ?f (ts_socks s) s) \<and>
    (\<forall>i\<in>set (ts_socks s). i < length (ts_store s) \<longrightarrow> \<not> False \<longrightarrow> \<not> so_isValid (ts_store (fold ?f (ts_socks s) s) ! i))"
    by (rule fold_closes [where Q = "\<lambda>_ _ _. False"]) (simp, rule closer_close(2))
  then show "ts_socks r = []" "ts_isStop r = ts_isStop s" "ts_io_tasks r = ts_io_tasks s"
    "ts_accept_tasks r = remove1 Close_all (ts_accept_tasks s)" "length (ts_store r) = length (ts_store s)"
    "\<And>i. i \<in> set (ts_socks s) \<Longrightarrow> i < length (ts_store s) \<Longrightarrow> \<not> so_isValid (ts_store r ! i)"
    "\<And>i. i < length (ts_store s) \<Longrightarrow> \<not> so_isValid (ts_store s ! i) \<Longrightarrow> \<not> so_isValid (ts_store r ! i)"
    unfolding assms close_sockets_def by (auto simp: only_closed_def)
qed


section \<open>Stopping\<close>

definition accept_task :: "tcp_task \<Rightarrow> bool" where
  "accept_task t \<longleftrightarrow> (\<forall>i. t \<noteq> Handle_client i)"

lemma stopped_tasks:
  assumes "ts_accept_tasks s = tasks" and "\<forall>t\<in>set tasks. accept_task t" and "ts_isStop s"
    and "\<forall>i\<in>set (ts_socks s). i < length (ts_store s)" and "r = fold (run_task h calls cancel) tasks s"
  shows "ts_accept_tasks r = [] \<and> ts_io_tasks r = ts_io_tasks s \<and> ts_isStop r \<and> length (ts_store r) = length (ts_store s) \<and>
    (ts_socks s = [] \<longrightarrow> ts_socks r = []) \<and>
    (\<forall>i < length (ts_store s). \<not> so_isValid (ts_store s ! i) \<longrightarrow> \<not> so_isValid (ts_store r ! i)) \<and>
    (Close_all \<in> set tasks \<longrightarrow> ts_socks r = [] \<and> (\<forall>i\<in>set (ts_socks s). \<not> so_isValid (ts_store r ! i)))"
  using assms
proof (induction tasks arbitrary: s)
  case (Cons t tasks)
  show ?case
  proof (cases t)
    case (Start_accept i)
    let ?s = "s\<lparr>ts_accept_tasks := tasks\<rparr>"
    have "run_task h calls cancel t s = ?s" using Start_accept Cons.prems(1,3) by (simp add: accept_round_def)
    then show ?thesis using Cons.IH [of ?s] Cons.prems Start_accept by simp
  next
    case Close_all
    let ?s = "close_sockets calls cancel s"
    have head: "run_task h calls cancel t s = ?s" using Close_all by simp
    note close = close_sockets_closes [OF refl [of ?s]]
    have tasks: "ts_accept_tasks ?s = tasks" using close(4) Cons.prems(1) Close_all by simp
    have r: "r = fold (run_task h calls cancel) tasks ?s" using Cons.prems(5) head by simp
    note ih = Cons.IH [OF tasks _ _ _ r, unfolded close(1,2,3,5)]
    have "ts_accept_tasks r = [] \<and> ts_io_tasks r = ts_io_tasks s \<and> ts_isStop r \<and> length (ts_store r) = length (ts_store s) \<and>
      (\<forall>i < length (ts_store s). \<not> so_isValid (ts_store ?s ! i) \<longrightarrow> \<not> so_isValid (ts_store r ! i)) \<and>
      ts_socks r = []"
      using ih Cons.prems(2,3) by simp
    then show ?thesis using close(6,7) Cons.prems(4) by simp
  next
    case (Handle_client i)
    then show ?thesis using Cons.prems(2) by (simp add: accept_task_def)
  qed
qed auto

text \<open>
  After a stop, each task of the accepting scheduler run once more ends the server: the accept loops
  return, the listening sockets are closed and forgotten, and no session is started.
\<close>

theorem stop_ends:
  assumes "\<forall>t\<in>set (ts_accept_tasks s). accept_task t" and "\<forall>i\<in>set (ts_socks s). i < length (ts_store s)"
    and "r = fold (run_task h calls cancel) (ts_accept_tasks (ts_stop s)) (ts_stop s)"
  shows "ts_accept_tasks r = [] \<and> ts_socks r = [] \<and> ts_isStop r \<and> ts_io_tasks r = ts_io_tasks s \<and>
    (\<forall>i\<in>set (ts_socks s). \<not> so_isValid (ts_store r ! i))"
  using stopped_tasks [OF refl _ _ _ assms(3)] assms(1,2) by (simp add: ts_stop_def accept_task_def)

text \<open>
  C32. A server that is started again between a stop and the task the stop has scheduled counts as running
  but has lost its sockets: they are closed, and each accept loop goes round on a descriptor of -1
  for ever without changing anything, given that the system refuses to accept on it.
\<close>

theorem restart_race:
  assumes "\<not> ts_isStop s" and "\<forall>i\<in>set (ts_socks s). i < length (ts_store s)" and "\<And>k. os_accept calls (- 1) k = (- 1, k)"
    and "r = close_sockets calls cancel (snd (ts_start (ts_stop s)))"
  shows "\<not> ts_isStop r \<and> ts_socks r = [] \<and>
    (\<forall>i\<in>set (ts_socks s). Start_accept i \<in> set (ts_accept_tasks r) \<and> \<not> so_isValid (ts_store r ! i) \<and>
      (accept_round h calls i ^^ n) r = r)"
proof -
  let ?s = "snd (ts_start (ts_stop s))"
  note close = close_sockets_closes [OF assms(4)]
  have s: "\<not> ts_isStop ?s" "ts_socks ?s = ts_socks s" "ts_store ?s = ts_store s"
    "ts_accept_tasks ?s = ts_accept_tasks s @ [Close_all] @ map Start_accept (ts_socks s)"
    by (simp_all add: ts_start_def ts_stop_def)
  have run: "\<not> ts_isStop r" using close(2) s(1) by simp
  have "accept_round h calls i r = r" if "\<not> so_isValid (ts_store r ! i)" for i
    using that run assms(3) by (simp add: accept_round_def so_accept_def so_isValid_def)
  then have "(accept_round h calls i ^^ n) r = r" if "\<not> so_isValid (ts_store r ! i)" for i
    using that by (induction n) simp_all
  moreover have "Start_accept i \<in> set (ts_accept_tasks r)" if "i \<in> set (ts_socks s)" for i
    using that by (simp add: close(4) s(4) remove1_append)
  moreover have "\<not> so_isValid (ts_store r ! i)" if "i \<in> set (ts_socks s)" for i
    using that assms(2) close(6) s(2,3) by simp
  ultimately show ?thesis using run close(1) by simp
qed

section \<open>Instances\<close>

text \<open>A server that has bound one address.\<close>

definition sample_server :: "int TcpServer" where
  "sample_server = snd (snd (ts_bind_all LITTLE_ENDIAN sample_calls 5 [sample_peer] [] (TcpServer_new 7)))"


lemma sample_server_bound: "ts_socks sample_server = [0] \<and> length (ts_store sample_server) = 1 \<and> ts_accept_tasks sample_server = []"
  by code_simp

lemma stop_ends_witness:
  "ts_socks (fold (run_task LITTLE_ENDIAN sample_calls (\<lambda>fd k. k)) (ts_accept_tasks (ts_stop sample_server)) (ts_stop sample_server)) = []"
  using stop_ends [of sample_server _ LITTLE_ENDIAN sample_calls "\<lambda>fd k. k", OF _ _ refl] sample_server_bound by simp

lemma restart_race_witness:
  "ts_socks (close_sockets sample_calls (\<lambda>fd k. k) (snd (ts_start (ts_stop (snd (ts_start sample_server)))))) = []"
proof -
  have "\<not> ts_isStop (snd (ts_start sample_server))" "\<forall>i\<in>set (ts_socks (snd (ts_start sample_server))). i < length (ts_store (snd (ts_start sample_server)))"
    using sample_server_bound by (auto simp: ts_start_def)
  moreover have "os_accept sample_calls (- 1) k = (- 1, k)" for k by (simp add: sample_calls_def)
  ultimately show ?thesis using restart_race [OF _ _ _ refl] by blast
qed

end
