(* ===== verification/Servlet.thy ===== *)
theory Servlet
  imports Http
begin

text \<open>
  Servlets and their dispatch, \<open>src/htttp/servlet.h\<close> and \<open>servlet.cc\<close>. A \<open>Servlet::ptr\<close> may be null.
  Handling a request changes the request (lazy parsing), the response and the session; the
  virtual \<open>handle\<close> of a class outside the file (a nested dispatcher included) is a function of
  its object. \<open>fnmatch(pattern, text, 0) == 0\<close> is an argument. Each operation of the dispatcher
  runs under its lock.
\<close>

section \<open>Servlets\<close>

type_synonym 's handler = "HttpRequest \<Rightarrow> HttpResponse \<Rightarrow> 's \<Rightarrow> int \<times> HttpRequest \<times> HttpResponse \<times> 's"

datatype 's servlet =
    FunctionServlet "'s handler"
  | NotFoundServlet string string
  | OtherServlet "'s handler"

definition NotFoundServlet_new :: "string \<Rightarrow> 's servlet" where
  "NotFoundServlet_new name =
     NotFoundServlet name
       (''<html><head><title>404 Not Found'' @
        ''</title></head><body><center><h1>404 Not Found</h1></center>'' @
        ''<hr><center>'' @ name @ ''</center></body></html>'')"

fun servlet_handle :: "'s servlet \<Rightarrow> 's handler" where
  "servlet_handle (FunctionServlet m_cb) request response session = m_cb request response session"
| "servlet_handle (NotFoundServlet m_name m_content) request response session =
     (0, request,
      (rsp_setHeader ''Content-Type'' ''text/html''
        (rsp_setHeader ''Server'' ''sylar/1.0.0'' (response\<lparr>rsp_status := NOT_FOUND\<rparr>)))\<lparr>rsp_body := m_content\<rparr>,
      session)"
| "servlet_handle (OtherServlet h) request response session = h request response session"

section \<open>The dispatcher\<close>

record 's ServletDispatch =
  m_datas :: "string \<rightharpoonup> 's servlet option"
  m_globs :: "(string \<times> 's servlet option) list"
  m_default :: "'s servlet option"

definition ServletDispatch_new :: "'s ServletDispatch" where
  "ServletDispatch_new =
     \<lparr>m_datas = Map.empty, m_globs = [], m_default = Some (NotFoundServlet_new ''sylar/1.0'')\<rparr>"

definition addServlet :: "string \<Rightarrow> 's servlet option \<Rightarrow> 's ServletDispatch \<Rightarrow> 's ServletDispatch" where
  "addServlet uri slt d = d\<lparr>m_datas := (m_datas d)(uri \<mapsto> slt)\<rparr>"

definition addServlet_fun :: "string \<Rightarrow> 's handler \<Rightarrow> 's ServletDispatch \<Rightarrow> 's ServletDispatch" where
  "addServlet_fun uri cb d = d\<lparr>m_datas := (m_datas d)(uri \<mapsto> Some (FunctionServlet cb))\<rparr>"

text \<open>The loop that erases the first entry of the pattern.\<close>

fun erase_glob :: "string \<Rightarrow> (string \<times> 's servlet option) list \<Rightarrow> (string \<times> 's servlet option) list" where
  "erase_glob uri [] = []"
| "erase_glob uri (it # its) = (if fst it = uri then its else it # erase_glob uri its)"

definition addGlobServlet :: "string \<Rightarrow> 's servlet option \<Rightarrow> 's ServletDispatch \<Rightarrow> 's ServletDispatch" where
  "addGlobServlet uri slt d = d\<lparr>m_globs := erase_glob uri (m_globs d) @ [(uri, slt)]\<rparr>"

definition addGlobServlet_fun :: "string \<Rightarrow> 's handler \<Rightarrow> 's ServletDispatch \<Rightarrow> 's ServletDispatch" where
  "addGlobServlet_fun uri cb d = addGlobServlet uri (Some (FunctionServlet cb)) d"

definition delServlet :: "string \<Rightarrow> 's ServletDispatch \<Rightarrow> 's ServletDispatch" where
  "delServlet uri d = d\<lparr>m_datas := (m_datas d)(uri := None)\<rparr>"

definition delGlobServlet :: "string \<Rightarrow> 's ServletDispatch \<Rightarrow> 's ServletDispatch" where
  "delGlobServlet uri d = d\<lparr>m_globs := erase_glob uri (m_globs d)\<rparr>"

definition setDefault :: "'s servlet option \<Rightarrow> 's ServletDispatch \<Rightarrow> 's ServletDispatch" where
  "setDefault v d = d\<lparr>m_default := v\<rparr>"

definition getServlet :: "string \<Rightarrow> 's ServletDispatch \<Rightarrow> 's servlet option" where
  "getServlet uri d = (case m_datas d uri of None \<Rightarrow> None | Some slt \<Rightarrow> slt)"

definition getGlobServlet :: "string \<Rightarrow> 's ServletDispatch \<Rightarrow> 's servlet option" where
  "getGlobServlet uri d =
     (case find (\<lambda>it. fst it = uri) (m_globs d) of Some it \<Rightarrow> snd it | None \<Rightarrow> None)"

definition getMatchedServlet ::
  "(string \<Rightarrow> string \<Rightarrow> bool) \<Rightarrow> string \<Rightarrow> 's ServletDispatch \<Rightarrow> 's servlet option" where
  "getMatchedServlet fnmatch uri d =
     (case m_datas d uri of
        Some slt \<Rightarrow> slt
      | None \<Rightarrow>
          (case find (\<lambda>it. fnmatch (c_str (fst it)) (c_str uri)) (m_globs d) of
             Some it \<Rightarrow> snd it
           | None \<Rightarrow> m_default d))"

definition dispatch_handle ::
  "(string \<Rightarrow> string \<Rightarrow> bool) \<Rightarrow> 's ServletDispatch \<Rightarrow> 's handler" where
  "dispatch_handle fnmatch d request response session =
     (case getMatchedServlet fnmatch (req_path request) d of
        Some slt \<Rightarrow>
          (case servlet_handle slt request response session of
             (_, request, response, session) \<Rightarrow> (0, request, response, session))
      | None \<Rightarrow> (0, request, response, session))"

section \<open>Which servlet answers\<close>

datatype 's dispatch_op =
    Add string "'s servlet option"
  | AddGlob string "'s servlet option"
  | Del string
  | DelGlob string
  | Default "'s servlet option"

fun dispatch_step :: "'s dispatch_op \<Rightarrow> 's ServletDispatch \<Rightarrow> 's ServletDispatch" where
  "dispatch_step (Add uri slt) = addServlet uri slt"
| "dispatch_step (AddGlob uri slt) = addGlobServlet uri slt"
| "dispatch_step (Del uri) = delServlet uri"
| "dispatch_step (DelGlob uri) = delGlobServlet uri"
| "dispatch_step (Default slt) = setDefault slt"

text \<open>
  What a history says: the last word on a path; the patterns added and not touched again, in the
  order they were added; the last default.
\<close>

fun exact_entry :: "string \<Rightarrow> 's dispatch_op list \<Rightarrow> 's servlet option option \<Rightarrow> 's servlet option option" where
  "exact_entry uri [] e = e"
| "exact_entry uri (Add u slt # ops) e = exact_entry uri ops (if u = uri then Some slt else e)"
| "exact_entry uri (Del u # ops) e = exact_entry uri ops (if u = uri then None else e)"
| "exact_entry uri (_ # ops) e = exact_entry uri ops e"

fun touches :: "string \<Rightarrow> 's dispatch_op \<Rightarrow> bool" where
  "touches uri (AddGlob u _) \<longleftrightarrow> u = uri"
| "touches uri (DelGlob u) \<longleftrightarrow> u = uri"
| "touches uri _ \<longleftrightarrow> False"

fun live_globs :: "'s dispatch_op list \<Rightarrow> (string \<times> 's servlet option) list" where
  "live_globs [] = []"
| "live_globs (AddGlob u slt # ops) =
     (if list_ex (touches u) ops then live_globs ops else (u, slt) # live_globs ops)"
| "live_globs (_ # ops) = live_globs ops"

fun last_default :: "'s dispatch_op list \<Rightarrow> 's servlet option \<Rightarrow> 's servlet option" where
  "last_default [] v = v"
| "last_default (Default v # ops) _ = last_default ops v"
| "last_default (_ # ops) v = last_default ops v"

lemmas dispatch_defs = addServlet_def addGlobServlet_def delServlet_def delGlobServlet_def setDefault_def

lemma erase_glob_filter: "distinct (map fst gs) \<Longrightarrow> erase_glob uri gs = filter (\<lambda>it. fst it \<noteq> uri) gs"
  by (induction gs) (force simp: filter_id_conv intro!: filter_True [symmetric])+

lemma run_datas: "m_datas (fold dispatch_step ops d) uri = exact_entry uri ops (m_datas d uri)"
proof (induction ops arbitrary: d)
  case (Cons op ops)
  then show ?case by (cases op) (simp_all add: dispatch_defs)
qed simp

lemma run_default: "m_default (fold dispatch_step ops d) = last_default ops (m_default d)"
proof (induction ops arbitrary: d)
  case (Cons op ops)
  then show ?case by (cases op) (simp_all add: dispatch_defs)
qed simp

lemma run_globs:
  "distinct (map fst (m_globs d)) \<Longrightarrow>
   m_globs (fold dispatch_step ops d) =
     filter (\<lambda>it. \<not> list_ex (touches (fst it)) ops) (m_globs d) @ live_globs ops"
proof (induction ops arbitrary: d)
  case (Cons op ops)
  have "distinct (map fst (m_globs (dispatch_step op d)))"
    using Cons.prems
    by (cases op) (auto simp: dispatch_defs erase_glob_filter distinct_map_filter)
  note IH = Cons.IH [OF this]
  show ?case
    using IH Cons.prems
    by (cases op) (auto simp: dispatch_defs erase_glob_filter intro!: filter_cong)
qed simp

text \<open>
  C18. The dispatcher answers by its history: whatever servlets and patterns were added, replaced and
  deleted before, in any order, a path goes to the servlet last added for it if it was not deleted
  since; otherwise to the first match among the patterns that were not added again or deleted
  since, in the order they were (last) added; otherwise to the default.
\<close>

theorem matched_servlet:
  "getMatchedServlet fnmatch uri (fold dispatch_step ops ServletDispatch_new) =
     (case exact_entry uri ops None of
        Some slt \<Rightarrow> slt
      | None \<Rightarrow>
          (case find (\<lambda>it. fnmatch (c_str (fst it)) (c_str uri)) (live_globs ops) of
             Some it \<Rightarrow> snd it
           | None \<Rightarrow> last_default ops (Some (NotFoundServlet_new ''sylar/1.0''))))"
  by (simp add: getMatchedServlet_def run_datas run_default run_globs ServletDispatch_new_def split: option.splits)

lemma not_found_answer:
  "dispatch_handle fnmatch ServletDispatch_new request response session =
     (0, request,
      (rsp_setHeader ''Content-Type'' ''text/html''
        (rsp_setHeader ''Server'' ''sylar/1.0.0'' (response\<lparr>rsp_status := NOT_FOUND\<rparr>)))
          \<lparr>rsp_body := (''<html><head><title>404 Not Found'' @
            ''</title></head><body><center><h1>404 Not Found</h1></center>'' @
            ''<hr><center>'' @ ''sylar/1.0'' @ ''</center></body></html>'')\<rparr>, session)"
  by (simp add: dispatch_handle_def getMatchedServlet_def ServletDispatch_new_def NotFoundServlet_new_def)

end
