(* ===== verification/HttpSession.thy ===== *)
theory HttpSession
  imports Http11_Parser Servlet SocketStream
begin

text \<open>
  The server's side of a connection: \<open>HttpSession\<close> (\<open>src/htttp/http_session.cc\<close>), which receives a
  request and sends a response over its stream, and the loop of \<open>HttpServer::handleClient\<close>
  (\<open>src/htttp/http_server.cc\<close>). The virtual \<open>read\<close>, \<open>write\<close> and \<open>close\<close> of the stream are arguments
  (\<open>ss_read\<close> and so on for a socket). A loop that the peer can keep going for ever is a partial
  function: \<open>None\<close> when it does not end. Allocations succeed.
\<close>

section \<open>Receiving a request\<close>

definition s_http_request_buffer_size :: nat where
  "s_http_request_buffer_size = 4 * 1024"

text \<open>
  The \<open>do\<close> loop: \<open>left\<close> is what the parser has not taken, at the front of the buffer. The result is
  an exception out of the parser, \<open>None\<close> for the returns of a null pointer (the stream closed),
  or the finished parser and what is left.
\<close>

partial_function (option) recv_head ::
  "(nat \<Rightarrow> 's \<Rightarrow> (int \<times> string) \<times> 's) \<Rightarrow> ('s \<Rightarrow> 's) \<Rightarrow> HttpRequestParser \<Rightarrow> string \<Rightarrow> 's \<Rightarrow>
     ((hp_error + (HttpRequestParser \<times> string) option) \<times> 's) option"
where
  "recv_head rd cl parser left s =
     (case rd (s_http_request_buffer_size - length left) s of ((len, new), s) \<Rightarrow>
        if len \<le> 0 then Some (Inr None, cl s)
        else
          case request_execute parser (left @ take (nat len) new) of
            Inl e \<Rightarrow> Some (Inl e, s)
          | Inr (nparse, left, parser) \<Rightarrow>
              if request_hasError parser then Some (Inr None, cl s)
              else if length left = s_http_request_buffer_size then Some (Inr None, cl s)
              else if request_isFinished parser \<noteq> 0 then Some (Inr (Some (parser, left)), s)
              else recv_head rd cl parser left s)"

text \<open>The body: \<open>None\<close> when it does not arrive in full.\<close>

definition recv_body ::
  "(nat \<Rightarrow> 's \<Rightarrow> (int \<times> string) \<times> 's) \<Rightarrow> ('s \<Rightarrow> 's) \<Rightarrow> nat \<Rightarrow> string \<Rightarrow> 's \<Rightarrow> string option \<times> 's" where
  "recv_body rd cl len data s =
     (if length data < len then
        (case readFixSize rd (len - length data) s of ((r, bs), s) \<Rightarrow>
           if r \<le> 0 then (None, cl s) else (Some (data @ bs), s))
      else (Some (take len data), s))"

text \<open>\<open>conv\<close> stands for the conversion of \<open>getHeaderAs<uint64_t>\<close>; \<open>P\<close> is the parser's memory.\<close>

definition recvRequest ::
  "(nat \<Rightarrow> 's \<Rightarrow> (int \<times> string) \<times> 's) \<Rightarrow> ('s \<Rightarrow> 's) \<Rightarrow> (string \<Rightarrow> nat option) \<Rightarrow> http_parser \<Rightarrow> 's \<Rightarrow>
     ((hp_error + HttpRequest option) \<times> 's) option"
where
  "recvRequest rd cl conv P s =
     (case recv_head rd cl (HttpRequestParser_new P) [] s of
        None \<Rightarrow> None
      | Some (Inl e, s) \<Rightarrow> Some (Inl e, s)
      | Some (Inr None, s) \<Rightarrow> Some (Inr None, s)
      | Some (Inr (Some (parser, left)), s) \<Rightarrow>
          let len = int64 (int (request_getContentLength conv parser));
              req = rp_data parser
          in if 0 < len then
               (case recv_body rd cl (nat len) left s of
                  (None, s) \<Rightarrow> Some (Inr None, s)
                | (Some body, s) \<Rightarrow> Some (Inr (Some (req_init (req\<lparr>req_body := body\<rparr>))), s))
             else Some (Inr (Some (req_init req)), s))"

definition sendResponse :: "(string \<Rightarrow> 's \<Rightarrow> int \<times> 's) \<Rightarrow> HttpResponse \<Rightarrow> 's \<Rightarrow> int \<times> 's" where
  "sendResponse wr rsp s = writeFixSize wr (rsp_dump rsp) s"

section \<open>HttpServer\<close>

record 's HttpServer =
  hs_isKeepalive :: bool
  hs_name :: string
  hs_dispatch :: "'s ServletDispatch"

definition HttpServer_new :: "bool \<Rightarrow> 's HttpServer" where
  "HttpServer_new keepalive =
     \<lparr>hs_isKeepalive = keepalive, hs_name = ''sylar/1.0.0'', hs_dispatch = ServletDispatch_new\<rparr>"

definition hs_setName :: "string \<Rightarrow> 's HttpServer \<Rightarrow> 's HttpServer" where
  "hs_setName v srv =
     srv\<lparr>hs_name := v, hs_dispatch := setDefault (Some (NotFoundServlet_new v)) (hs_dispatch srv)\<rparr>"

text \<open>One request answered: the response made, handled and sent; whether the connection goes on.\<close>

definition serve ::
  "(string \<Rightarrow> string \<Rightarrow> bool) \<Rightarrow> (string \<Rightarrow> 's \<Rightarrow> int \<times> 's) \<Rightarrow> 's HttpServer \<Rightarrow> HttpRequest \<Rightarrow> 's \<Rightarrow> bool \<times> 's" where
  "serve fnmatch wr srv req s =
     (let rsp = HttpResponse_new (req_version req) (req_close req \<or> \<not> hs_isKeepalive srv);
          rsp = rsp_setHeader ''Server'' (hs_name srv) rsp
      in case dispatch_handle fnmatch (hs_dispatch srv) req rsp s of (_, req, rsp, s) \<Rightarrow>
           (case sendResponse wr rsp s of (_, s) \<Rightarrow>
              (\<not> (\<not> hs_isKeepalive srv \<or> req_close req), s)))"

text \<open>\<open>Ps\<close> gives the memory of the parser of each round.\<close>

partial_function (option) handle_loop ::
  "(string \<Rightarrow> string \<Rightarrow> bool) \<Rightarrow> (nat \<Rightarrow> 's \<Rightarrow> (int \<times> string) \<times> 's) \<Rightarrow> (string \<Rightarrow> 's \<Rightarrow> int \<times> 's) \<Rightarrow> ('s \<Rightarrow> 's) \<Rightarrow>
   (string \<Rightarrow> nat option) \<Rightarrow> (nat \<Rightarrow> http_parser) \<Rightarrow> 's HttpServer \<Rightarrow> nat \<Rightarrow> 's \<Rightarrow> ((hp_error + unit) \<times> 's) option"
where
  "handle_loop fnmatch rd wr cl conv Ps srv i s =
     (case recvRequest rd cl conv (Ps i) s of
        None \<Rightarrow> None
      | Some (Inl e, s) \<Rightarrow> Some (Inl e, s)
      | Some (Inr None, s) \<Rightarrow> Some (Inr (), cl s)
      | Some (Inr (Some req), s) \<Rightarrow>
          (case serve fnmatch wr srv req s of (go_on, s) \<Rightarrow>
             if go_on then handle_loop fnmatch rd wr cl conv Ps srv (Suc i) s
             else Some (Inr (), cl s)))"

definition handleClient ::
  "(string \<Rightarrow> string \<Rightarrow> bool) \<Rightarrow> (nat \<Rightarrow> 's \<Rightarrow> (int \<times> string) \<times> 's) \<Rightarrow> (string \<Rightarrow> 's \<Rightarrow> int \<times> 's) \<Rightarrow> ('s \<Rightarrow> 's) \<Rightarrow>
   (string \<Rightarrow> nat option) \<Rightarrow> (nat \<Rightarrow> http_parser) \<Rightarrow> 's HttpServer \<Rightarrow> 's \<Rightarrow> ((hp_error + unit) \<times> 's) option"
where
  "handleClient fnmatch rd wr cl conv Ps srv s = handle_loop fnmatch rd wr cl conv Ps srv 0 s"

end
