(* ===== verification/HttpConnection.thy ===== *)
theory HttpConnection
  imports Httpclient_Parser HttpSession
begin

text \<open>
  The client's side of a connection: \<open>HttpConnection\<close> (\<open>src/htttp/http_connection.cc\<close>), which sends
  a request and receives a response, with a body of known length or in chunks. The virtual \<open>read\<close>,
  \<open>write\<close> and \<open>close\<close> of the stream are arguments, and so are the two decompressors, which are not
  in the repository. The buffer of \<open>buff_size + 1\<close> characters is kept as the text in front that is
  still to be parsed and what is behind it in the memory. Signed overflow is an error value.
\<close>

section \<open>Receiving the head\<close>

datatype hc_error = Hc_parser hp_error | Hc_overflow

text \<open>New characters behind the text, and the NUL written behind them: the text, the rest of the memory.\<close>

definition hc_fill :: "string \<Rightarrow> string \<Rightarrow> string \<Rightarrow> string \<times> string" where
  "hc_fill left new behind = (left @ new, CHR 0x00 # drop (length new + 1) behind)"

text \<open>\<open>None\<close> for the returns of a null pointer.\<close>

partial_function (option) rsp_head_loop ::
  "(nat \<Rightarrow> 's \<Rightarrow> (int \<times> string) \<times> 's) \<Rightarrow> ('s \<Rightarrow> 's) \<Rightarrow> HttpResponseParser \<Rightarrow> string \<Rightarrow> string \<Rightarrow> 's \<Rightarrow>
     ((hc_error + (HttpResponseParser \<times> string \<times> string) option) \<times> 's) option"
where
  "rsp_head_loop rd cl parser left behind s =
     (case rd (s_http_request_buffer_size - length left) s of ((len, new), s) \<Rightarrow>
        if len \<le> 0 then Some (Inr None, cl s)
        else
          case hc_fill left (take (nat len) new) behind of (data, tail) \<Rightarrow>
            (case response_execute False data tail parser of
               Inl e \<Rightarrow> Some (Inl (Hc_parser e), s)
             | Inr (nparse, left, behind, parser) \<Rightarrow>
                 if response_hasError parser then Some (Inr None, cl s)
                 else if length left = s_http_request_buffer_size then Some (Inr None, cl s)
                 else if response_isFinished parser \<noteq> 0 then Some (Inr (Some (parser, left, behind)), s)
                 else rsp_head_loop rd cl parser left behind s))"

section \<open>Chunks\<close>

text \<open>The inner loop, up to the end of the line with the size; \<open>begin\<close> in its first round.\<close>

partial_function (option) chunk_head_loop ::
  "(nat \<Rightarrow> 's \<Rightarrow> (int \<times> string) \<times> 's) \<Rightarrow> ('s \<Rightarrow> 's) \<Rightarrow> bool \<Rightarrow> HttpResponseParser \<Rightarrow> string \<Rightarrow> string \<Rightarrow> 's \<Rightarrow>
     ((hc_error + (HttpResponseParser \<times> string \<times> string) option) \<times> 's) option"
where
  "chunk_head_loop rd cl at_begin parser left behind s =
     (case (if \<not> at_begin \<or> left = [] then
              (case rd (s_http_request_buffer_size - length left) s of ((rt, new), s) \<Rightarrow>
                 if rt \<le> 0 then (None, cl s) else (Some (hc_fill left (take (nat rt) new) behind), s))
            else (Some (hc_fill left [] behind), s)) of
        (None, s) \<Rightarrow> Some (Inr None, s)
      | (Some (data, tail), s) \<Rightarrow>
          (case response_execute True data tail parser of
             Inl e \<Rightarrow> Some (Inl (Hc_parser e), s)
           | Inr (nparse, left, behind, parser) \<Rightarrow>
               if response_hasError parser then Some (Inr None, cl s)
               else if length left = s_http_request_buffer_size then Some (Inr None, cl s)
               else if response_isFinished parser \<noteq> 0 then Some (Inr (Some (parser, left, behind)), s)
               else chunk_head_loop rd cl False parser left behind s))"

text \<open>The loop that reads the rest of a chunk to the front of the buffer: the body, the memory.\<close>

function chunk_rest ::
  "(nat \<Rightarrow> 's \<Rightarrow> (int \<times> string) \<times> 's) \<Rightarrow> int \<Rightarrow> string \<Rightarrow> string \<Rightarrow> 's \<Rightarrow> (string \<times> string) option \<times> 's"
where
  "chunk_rest rd left body mem s =
     (if 0 < left then
        (case rd (nat (if int s_http_request_buffer_size < left then int s_http_request_buffer_size else left)) s of
           ((rt, new), s) \<Rightarrow>
             if rt \<le> 0 then (None, s)
             else chunk_rest rd (left - rt) (body @ take (nat rt) new) (blit mem 0 (take (nat rt) new)) s)
      else (Some (body, mem), s))"
  by pat_completeness auto
termination
  by (relation "measure (\<lambda>(rd, left, body, mem, s). nat left)") auto

declare chunk_rest.simps [simp del]

text \<open>
  One chunk's data, taken from the buffer or read: \<open>body.append(data, n)\<close> with a negative \<open>n\<close> is an
  impossible length, and so is the one \<open>resize\<close> gets when the body is shorter than two.
\<close>

definition chunk_data ::
  "(nat \<Rightarrow> 's \<Rightarrow> (int \<times> string) \<times> 's) \<Rightarrow> ('s \<Rightarrow> 's) \<Rightarrow> int \<Rightarrow> string \<Rightarrow> string \<Rightarrow> string \<Rightarrow> 's \<Rightarrow>
     (hc_error + (string \<times> string \<times> string) option) \<times> 's"
where
  "chunk_data rd cl content_len body left behind s =
     (let len = int (length left) in
      if 2 ^ 31 \<le> content_len + 2 then (Inl Hc_overflow, s)
      else if content_len + 2 \<le> len then
        (if content_len < 0 then (Inl (Hc_parser Length_error), s)
         else
           let rest = drop (nat content_len + 2) left
           in (Inr (Some (body @ take (nat content_len) left, rest, drop (length rest) (left @ behind))), s))
      else
        (case chunk_rest rd (content_len - len + 2) (body @ left) (left @ behind) s of
           (None, s) \<Rightarrow> (Inr None, cl s)
         | (Some (body, mem), s) \<Rightarrow>
             if length body < 2 then (Inl (Hc_parser Length_error), s)
             else (Inr (Some (take (length body - 2) body, [], mem)), s)))"

partial_function (option) chunks_loop ::
  "(nat \<Rightarrow> 's \<Rightarrow> (int \<times> string) \<times> 's) \<Rightarrow> ('s \<Rightarrow> 's) \<Rightarrow> HttpResponseParser \<Rightarrow> string \<Rightarrow> string \<Rightarrow> string \<Rightarrow> 's \<Rightarrow>
     ((hc_error + (HttpResponseParser \<times> string) option) \<times> 's) option"
where
  "chunks_loop rd cl parser body left behind s =
     (case chunk_head_loop rd cl True parser left behind s of
        None \<Rightarrow> None
      | Some (Inl e, s) \<Rightarrow> Some (Inl e, s)
      | Some (Inr None, s) \<Rightarrow> Some (Inr None, s)
      | Some (Inr (Some (parser, left, behind)), s) \<Rightarrow>
          (case chunk_data rd cl (cp_content_len (sp_parser parser)) body left behind s of
             (Inl e, s) \<Rightarrow> Some (Inl e, s)
           | (Inr None, s) \<Rightarrow> Some (Inr None, s)
           | (Inr (Some (body, left, behind)), s) \<Rightarrow>
               if cp_chunks_done (sp_parser parser) then Some (Inr (Some (parser, body)), s)
               else chunks_loop rd cl parser body left behind s))"

section \<open>HttpConnection\<close>

text \<open>\<open>conv\<close> stands for the conversion of \<open>getHeaderAs<uint64_t>\<close>.\<close>

definition rsp_body_recv ::
  "(nat \<Rightarrow> 's \<Rightarrow> (int \<times> string) \<times> 's) \<Rightarrow> ('s \<Rightarrow> 's) \<Rightarrow> (string \<Rightarrow> nat option) \<Rightarrow> HttpResponseParser \<Rightarrow>
   string \<Rightarrow> string \<Rightarrow> 's \<Rightarrow> ((hc_error + (HttpResponseParser \<times> string) option) \<times> 's) option"
where
  "rsp_body_recv rd cl conv parser left behind s =
     (if cp_chunked (sp_parser parser) then chunks_loop rd cl parser [] left behind s
      else
        let len = int64 (int (response_getContentLength conv parser))
        in if 0 < len then
             (case recv_body rd cl (nat len) left s of
                (None, s) \<Rightarrow> Some (Inr None, s)
              | (Some body, s) \<Rightarrow> Some (Inr (Some (parser, body)), s))
           else Some (Inr (Some (parser, [])), s))"

definition set_body ::
  "(string \<Rightarrow> string) \<Rightarrow> (string \<Rightarrow> string) \<Rightarrow> string \<Rightarrow> HttpResponse \<Rightarrow> HttpResponse" where
  "set_body gunzip inflate body rsp =
     (if body = [] then rsp
      else
        let content_encoding = c_str (rsp_getHeader rsp ''content-encoding'' [])
        in rsp\<lparr>rsp_body :=
             (if strcasecmp content_encoding ''gzip'' = 0 then gunzip body
              else if strcasecmp content_encoding ''deflate'' = 0 then inflate body
              else body)\<rparr>)"

text \<open>\<open>P\<close> is the parser's memory and \<open>mem\<close> the buffer's.\<close>

definition recvResponse ::
  "(string \<Rightarrow> string) \<Rightarrow> (string \<Rightarrow> string) \<Rightarrow> (nat \<Rightarrow> 's \<Rightarrow> (int \<times> string) \<times> 's) \<Rightarrow> ('s \<Rightarrow> 's) \<Rightarrow>
   (string \<Rightarrow> nat option) \<Rightarrow> httpclient_parser \<Rightarrow> string \<Rightarrow> 's \<Rightarrow> ((hc_error + HttpResponse option) \<times> 's) option"
where
  "recvResponse gunzip inflate rd cl conv P mem s =
     (case rsp_head_loop rd cl (HttpResponseParser_new P) [] mem s of
        None \<Rightarrow> None
      | Some (Inl e, s) \<Rightarrow> Some (Inl e, s)
      | Some (Inr None, s) \<Rightarrow> Some (Inr None, s)
      | Some (Inr (Some (parser, left, behind)), s) \<Rightarrow>
          (case rsp_body_recv rd cl conv parser left behind s of
             None \<Rightarrow> None
           | Some (Inl e, s) \<Rightarrow> Some (Inl e, s)
           | Some (Inr None, s) \<Rightarrow> Some (Inr None, s)
           | Some (Inr (Some (parser, body)), s) \<Rightarrow>
               Some (Inr (Some (set_body gunzip inflate body (sp_data parser))), s)))"

definition sendRequest :: "(string \<Rightarrow> 's \<Rightarrow> int \<times> 's) \<Rightarrow> HttpRequest \<Rightarrow> 's \<Rightarrow> int \<times> 's" where
  "sendRequest wr req s = writeFixSize wr (req_dump req) s"

end
