(* ===== verification/HttpPool.thy ===== *)
theory HttpPool
  imports HttpConnection SocketLife
begin

text \<open>
  Whole requests of the client (\<open>src/htttp/http_connection.h\<close>, \<open>http_connection.cc\<close>): building a request
  from a URI and a list of headers, connecting, sending and receiving (\<open>DoGet\<close>, \<open>DoPost\<close>,
  \<open>DoRequest\<close>), and the pool of connections. \<open>SSLSocket\<close>, which the code uses but the repository does
  not have, is an argument (making a socket, connecting it), as are the resolver, the system calls and
  the stream's read, write and close on a socket.
\<close>

section \<open>Results\<close>

datatype http_error =
    OK | INVALID_URL | INVALID_HOST | CONNECT_FAIL | SEND_CLOSE_BY_PEER | SEND_SOCKET_ERROR | TIMEOUT
  | CREATE_SOCKET_ERROR | POOL_GET_CONNECTION | POOL_INVALID_CONNECTION

fun error_code :: "http_error \<Rightarrow> int" where
  "error_code OK = 0"
| "error_code INVALID_URL = 1"
| "error_code INVALID_HOST = 2"
| "error_code CONNECT_FAIL = 3"
| "error_code SEND_CLOSE_BY_PEER = 4"
| "error_code SEND_SOCKET_ERROR = 5"
| "error_code TIMEOUT = 6"
| "error_code CREATE_SOCKET_ERROR = 7"
| "error_code POOL_GET_CONNECTION = 8"
| "error_code POOL_INVALID_CONNECTION = 9"

record HttpResult =
  hr_result :: int
  hr_response :: "HttpResponse option"
  hr_error :: string

definition failed :: "http_error \<Rightarrow> string \<Rightarrow> HttpResult" where
  "failed e msg = \<lparr>hr_result = error_code e, hr_response = None, hr_error = msg\<rparr>"

definition HttpResult_toString :: "HttpResult \<Rightarrow> string" where
  "HttpResult_toString r =
     ''[HttpResult result='' @ show_int (hr_result r) @ '' error='' @ hr_error r @ '' response=''
       @ (case hr_response r of None \<Rightarrow> ''nullptr'' | Some rsp \<Rightarrow> rsp_dump rsp) @ '']''"

text \<open>What can leave a request as an exception or a crash.\<close>

datatype request_error = Rq_uri uri_error | Rq_address addr_error | Rq_connection hc_error | Rq_null_uri

section \<open>Building a request\<close>

text \<open>The loop over the headers, with whether a host has been seen.\<close>

fun add_headers :: "(string \<times> string) list \<Rightarrow> bool \<Rightarrow> HttpRequest \<Rightarrow> bool \<times> HttpRequest" where
  "add_headers [] has_host req = (has_host, req)"
| "add_headers ((key, val) # headers) has_host req =
     (if strcasecmp (c_str key) ''connection'' = 0 then
        add_headers headers has_host
          (if strcasecmp (c_str val) ''keep-alive'' = 0 then req\<lparr>req_close := False\<rparr> else req)
      else
        add_headers headers
          (if \<not> has_host \<and> strcasecmp (c_str key) ''host'' = 0 then val \<noteq> [] else has_host)
          (req_setHeader key val req))"

definition fill_request :: "(string \<times> string) list \<Rightarrow> string \<Rightarrow> string \<Rightarrow> HttpRequest \<Rightarrow> HttpRequest" where
  "fill_request headers host body req =
     (case add_headers headers False req of (has_host, req) \<Rightarrow>
        (if has_host then req else req_setHeader ''Host'' host req)\<lparr>req_body := body\<rparr>)"

definition uri_request :: "HttpMethod \<Rightarrow> Uri \<Rightarrow> (string \<times> string) list \<Rightarrow> string \<Rightarrow> HttpRequest" where
  "uri_request method uri headers body =
     fill_request headers (ur_host uri) body
       ((HttpRequest_new 0x11 True)\<lparr>req_path := uri_getPath uri, req_query := ur_query uri,
          req_fragment := ur_fragment uri, req_method := method\<rparr>)"

section \<open>Connecting\<close>

text \<open>\<open>Uri::createAddress\<close>; the port of the URI is cut to 16 bits.\<close>

definition uri_createAddress :: "endian \<Rightarrow> resolver \<Rightarrow> Uri \<Rightarrow> addr_error + Address option" where
  "uri_createAddress h getaddrinfo uri =
     map_sum id (map_option (setPort h (word_of_int (uri_getPort uri))))
       (LookupAnyIPAddress h getaddrinfo (ur_host uri) (uint AF_INET) 0 0)"

record 'k ssl =
  ssl_CreateTCP :: "Address \<Rightarrow> full_socket option"
  ssl_connect :: "Address \<Rightarrow> full_socket \<times> 'k \<Rightarrow> bool \<times> (full_socket \<times> 'k)"

datatype dial_result = No_socket | Refused | Dialled full_socket

text \<open>A socket that cannot be connected is destroyed.\<close>

definition dial :: "endian \<Rightarrow> ('b, 'k) sockets \<Rightarrow> 'k ssl \<Rightarrow> bool \<Rightarrow> Address \<Rightarrow> 'k \<Rightarrow> dial_result \<times> 'k" where
  "dial h calls ssl is_ssl addr k =
     (case (if is_ssl then ssl_CreateTCP ssl addr else Some (so_CreateTCP addr)) of
        None \<Rightarrow> (No_socket, k)
      | Some sock \<Rightarrow>
          (case (if is_ssl then ssl_connect ssl addr (sock, k) else so_connect h calls addr (- 1) (sock, k)) of
             (True, (sock, k)) \<Rightarrow> (Dialled sock, k)
           | (False, x) \<Rightarrow> (Refused, snd (snd (so_close calls x)))))"

text \<open>The text of an IP address, which can always be written.\<close>

definition addr_text :: "endian \<Rightarrow> Address \<Rightarrow> string" where
  "addr_text h a = (case Address_toString h a of Inl _ \<Rightarrow> [] | Inr t \<Rightarrow> t)"

definition errno_text :: "('b, 'k) sockets \<Rightarrow> (int \<Rightarrow> string) \<Rightarrow> 'k \<Rightarrow> string" where
  "errno_text calls strerror k = '' errno='' @ show_int (os_errno calls k) @ '' errstr='' @ strerror (os_errno calls k)"

section \<open>DoRequest\<close>

text \<open>
  The stream on a connected socket, as functions of the socket and the system: read, write and close;
  and what receiving a response depends on: the decompressors, the conversion of lengths, and the
  memory of the parser and of the buffer.
\<close>

record 's stream =
  st_read :: "nat \<Rightarrow> 's \<Rightarrow> (int \<times> string) \<times> 's"
  st_write :: "string \<Rightarrow> 's \<Rightarrow> int \<times> 's"
  st_close :: "'s \<Rightarrow> 's"

record decoding =
  dc_gunzip :: "string \<Rightarrow> string"
  dc_inflate :: "string \<Rightarrow> string"
  dc_conv :: "string \<Rightarrow> nat option"
  dc_parser :: httpclient_parser
  dc_memory :: string

text \<open>
  Sending and receiving on a connection; \<open>peer\<close> is the text of the other side's address. \<open>None\<close> is a
  response that never ends.
\<close>

definition exchange ::
    "('b, 'k) sockets \<Rightarrow> (int \<Rightarrow> string) \<Rightarrow> (full_socket \<times> 'k) stream \<Rightarrow> decoding \<Rightarrow> string \<Rightarrow> HttpRequest \<Rightarrow> 64 word \<Rightarrow>
      full_socket \<times> 'k \<Rightarrow> ((request_error + HttpResult) \<times> (full_socket \<times> 'k)) option" where
  "exchange calls strerror st dc peer req timeout_ms x =
     (let x = so_setTimeout calls SO_RCVTIMEO (sint timeout_ms) x in
      case sendRequest (st_write st) req x of (rt, x) \<Rightarrow>
        if rt = 0 then Some (Inr (failed SEND_CLOSE_BY_PEER (''send request closed by peer: '' @ peer)), x)
        else if rt < 0 then
          Some (Inr (failed SEND_SOCKET_ERROR (''send request socket error'' @ errno_text calls strerror (snd x))), x)
        else
          (case recvResponse (dc_gunzip dc) (dc_inflate dc) (st_read st) (st_close st) (dc_conv dc) (dc_parser dc) (dc_memory dc) x of
             None \<Rightarrow> None
           | Some (Inl e, x) \<Rightarrow> Some (Inl (Rq_connection e), x)
           | Some (Inr None, x) \<Rightarrow>
               Some (Inr (failed TIMEOUT (''recv response timeout: '' @ peer @ '' timeout_ms:'' @ show_nat (unat timeout_ms))), x)
           | Some (Inr (Some rsp), x) \<Rightarrow>
               Some (Inr \<lparr>hr_result = error_code OK, hr_response = Some rsp, hr_error = ''ok''\<rparr>, x)))"

text \<open>The connection, which owns the socket, is destroyed at the end.\<close>

definition DoRequest ::
    "endian \<Rightarrow> resolver \<Rightarrow> ('b, 'k) sockets \<Rightarrow> 'k ssl \<Rightarrow> (int \<Rightarrow> string) \<Rightarrow> (full_socket \<times> 'k) stream \<Rightarrow> decoding \<Rightarrow>
      HttpRequest \<Rightarrow> Uri \<Rightarrow> 64 word \<Rightarrow> 'k \<Rightarrow> ((request_error + HttpResult) \<times> 'k) option" where
  "DoRequest h getaddrinfo calls ssl strerror st dc req uri timeout_ms k =
     (case uri_createAddress h getaddrinfo uri of
        Inl e \<Rightarrow> Some (Inl (Rq_address e), k)
      | Inr None \<Rightarrow> Some (Inr (failed INVALID_HOST (''invalid host: '' @ ur_host uri)), k)
      | Inr (Some addr) \<Rightarrow>
          (case dial h calls ssl (ur_scheme uri = ''https'') addr k of
             (No_socket, k) \<Rightarrow>
               Some (Inr (failed CREATE_SOCKET_ERROR (''create socket fail: '' @ addr_text h addr @ errno_text calls strerror k)), k)
           | (Refused, k) \<Rightarrow> Some (Inr (failed CONNECT_FAIL (''connect fail: '' @ addr_text h addr)), k)
           | (Dialled sock, k) \<Rightarrow>
               map_option (\<lambda>(r, x). (r, snd (st_close st x)))
                 (exchange calls strerror st dc (addr_text h addr) req timeout_ms (sock, k))))"

definition DoRequest_uri ::
    "endian \<Rightarrow> resolver \<Rightarrow> ('b, 'k) sockets \<Rightarrow> 'k ssl \<Rightarrow> (int \<Rightarrow> string) \<Rightarrow> (full_socket \<times> 'k) stream \<Rightarrow> decoding \<Rightarrow>
      HttpMethod \<Rightarrow> Uri \<Rightarrow> 64 word \<Rightarrow> (string \<times> string) list \<Rightarrow> string \<Rightarrow> 'k \<Rightarrow> ((request_error + HttpResult) \<times> 'k) option" where
  "DoRequest_uri h getaddrinfo calls ssl strerror st dc method uri timeout_ms headers body k =
     DoRequest h getaddrinfo calls ssl strerror st dc (uri_request method uri headers body) uri timeout_ms k"

definition DoRequest_url ::
    "endian \<Rightarrow> resolver \<Rightarrow> ('b, 'k) sockets \<Rightarrow> 'k ssl \<Rightarrow> (int \<Rightarrow> string) \<Rightarrow> (full_socket \<times> 'k) stream \<Rightarrow> decoding \<Rightarrow>
      HttpMethod \<Rightarrow> string \<Rightarrow> 64 word \<Rightarrow> (string \<times> string) list \<Rightarrow> string \<Rightarrow> 'k \<Rightarrow> ((request_error + HttpResult) \<times> 'k) option" where
  "DoRequest_url h getaddrinfo calls ssl strerror st dc method url timeout_ms headers body k =
     (case Uri_Create url of
        Inl e \<Rightarrow> Some (Inl (Rq_uri e), k)
      | Inr None \<Rightarrow> Some (Inr (failed INVALID_URL (''invalid url: '' @ url)), k)
      | Inr (Some uri) \<Rightarrow> DoRequest_uri h getaddrinfo calls ssl strerror st dc method uri timeout_ms headers body k)"

definition DoGet where
  "DoGet h getaddrinfo calls ssl strerror st dc url timeout_ms headers body k =
     DoRequest_url h getaddrinfo calls ssl strerror st dc GET url timeout_ms headers body k"

definition DoGet_uri where
  "DoGet_uri h getaddrinfo calls ssl strerror st dc uri timeout_ms headers body k =
     DoRequest_uri h getaddrinfo calls ssl strerror st dc GET uri timeout_ms headers body k"

definition DoPost where
  "DoPost h getaddrinfo calls ssl strerror st dc url timeout_ms headers body k =
     DoRequest_url h getaddrinfo calls ssl strerror st dc POST url timeout_ms headers body k"

definition DoPost_uri where
  "DoPost_uri h getaddrinfo calls ssl strerror st dc uri timeout_ms headers body k =
     DoRequest_uri h getaddrinfo calls ssl strerror st dc POST uri timeout_ms headers body k"

section \<open>The pool\<close>

record conn =
  cn_socket :: full_socket
  cn_createTime :: "64 word"
  cn_request :: "64 word"

text \<open>Connections are numbered; \<open>pl_heap\<close> holds those that exist, \<open>pl_next\<close> is the next number.\<close>

record HttpConnectionPool =
  pl_host :: string
  pl_vhost :: string
  pl_port :: "32 word"
  pl_maxSize :: "32 word"
  pl_maxAliveTime :: "32 word"
  pl_maxRequest :: "32 word"
  pl_isHttps :: bool
  pl_conns :: "nat list"
  pl_total :: "32 word"
  pl_heap :: "nat \<Rightarrow> conn option"
  pl_next :: nat

definition Pool_new :: "string \<Rightarrow> string \<Rightarrow> 32 word \<Rightarrow> bool \<Rightarrow> 32 word \<Rightarrow> 32 word \<Rightarrow> 32 word \<Rightarrow> HttpConnectionPool" where
  "Pool_new host vhost port is_https max_size max_alive_time max_request =
     \<lparr>pl_host = host, pl_vhost = vhost, pl_port = (if port \<noteq> 0 then port else if is_https then 443 else 80),
      pl_maxSize = max_size, pl_maxAliveTime = max_alive_time, pl_maxRequest = max_request, pl_isHttps = is_https,
      pl_conns = [], pl_total = 0, pl_heap = (\<lambda>_. None), pl_next = 0\<rparr>"

text \<open>A URI that does not parse is logged, and then its null pointer is used.\<close>

definition Pool_Create :: "string \<Rightarrow> string \<Rightarrow> 32 word \<Rightarrow> 32 word \<Rightarrow> 32 word \<Rightarrow> request_error + HttpConnectionPool" where
  "Pool_Create uri vhost max_size max_alive_time max_request =
     (case Uri_Create uri of
        Inl e \<Rightarrow> Inl (Rq_uri e)
      | Inr None \<Rightarrow> Inl Rq_null_uri
      | Inr (Some turi) \<Rightarrow>
          Inr (Pool_new (ur_host turi) vhost (word_of_int (uri_getPort turi)) (ur_scheme turi = ''https'')
                 max_size max_alive_time max_request))"

definition conn_isConnected :: "HttpConnectionPool \<Rightarrow> nat \<Rightarrow> bool" where
  "conn_isConnected p i \<longleftrightarrow> (case pl_heap p i of None \<Rightarrow> False | Some c \<Rightarrow> sk_isConnected (cn_socket c))"

definition conn_deadline :: "HttpConnectionPool \<Rightarrow> nat \<Rightarrow> 64 word" where
  "conn_deadline p i = cn_createTime (the (pl_heap p i)) + ucast (pl_maxAliveTime p)"

text \<open>The loop over the idle connections: those given up, the one taken, the rest.\<close>

fun scan_conns :: "HttpConnectionPool \<Rightarrow> 64 word \<Rightarrow> nat list \<Rightarrow> nat list \<times> nat option \<times> nat list" where
  "scan_conns p now_ms [] = ([], None, [])"
| "scan_conns p now_ms (i # conns) =
     (if \<not> conn_isConnected p i \<or> now_ms < conn_deadline p i then
        (case scan_conns p now_ms conns of (invalid, r, rest) \<Rightarrow> (i # invalid, r, rest))
      else ([], Some i, conns))"

text \<open>\<open>delete\<close> destroys the connection, which closes its socket.\<close>

definition delete_conn :: "(full_socket \<times> 'k) stream \<Rightarrow> nat \<Rightarrow> HttpConnectionPool \<times> 'k \<Rightarrow> HttpConnectionPool \<times> 'k" where
  "delete_conn st i x =
     (case x of (p, k) \<Rightarrow>
        (p\<lparr>pl_heap := (pl_heap p)(i := None)\<rparr>,
         case pl_heap p i of None \<Rightarrow> k | Some c \<Rightarrow> snd (st_close st (cn_socket c, k))))"

definition getConnection ::
    "endian \<Rightarrow> resolver \<Rightarrow> ('b, 'k) sockets \<Rightarrow> 'k ssl \<Rightarrow> (full_socket \<times> 'k) stream \<Rightarrow> 64 word \<Rightarrow>
      HttpConnectionPool \<times> 'k \<Rightarrow> (addr_error + nat option) \<times> (HttpConnectionPool \<times> 'k)" where
  "getConnection h getaddrinfo calls ssl st now_ms x =
     (case x of (p, k) \<Rightarrow>
      case scan_conns p now_ms (pl_conns p) of (invalid, ptr, rest) \<Rightarrow>
      case fold (delete_conn st) invalid (p\<lparr>pl_conns := rest\<rparr>, k) of (p, k) \<Rightarrow>
      let p = p\<lparr>pl_total := pl_total p - of_nat (length invalid)\<rparr> in
      case ptr of
        Some i \<Rightarrow> (Inr (Some i), (p, k))
      | None \<Rightarrow>
          (case LookupAnyIPAddress h getaddrinfo (pl_host p) (uint AF_INET) 0 0 of
             Inl e \<Rightarrow> (Inl e, (p, k))
           | Inr None \<Rightarrow> (Inr None, (p, k))
           | Inr (Some addr) \<Rightarrow>
               (case dial h calls ssl (pl_isHttps p) (setPort h (ucast (pl_port p)) addr) k of
                  (Dialled sock, k) \<Rightarrow>
                    (Inr (Some (pl_next p)),
                     (p\<lparr>pl_heap := (pl_heap p)(pl_next p \<mapsto> \<lparr>cn_socket = sock, cn_createTime = 0, cn_request = 0\<rparr>),
                        pl_next := Suc (pl_next p), pl_total := pl_total p + 1\<rparr>, k))
                | (_, k) \<Rightarrow> (Inr None, (p, k)))))"

definition ReleasePtr ::
    "(full_socket \<times> 'k) stream \<Rightarrow> 64 word \<Rightarrow> nat \<Rightarrow> HttpConnectionPool \<times> 'k \<Rightarrow> HttpConnectionPool \<times> 'k" where
  "ReleasePtr st now_ms i x =
     (case x of (p, k) \<Rightarrow>
      let p = p\<lparr>pl_heap := (pl_heap p)(i := map_option (\<lambda>c. c\<lparr>cn_request := cn_request c + 1\<rparr>) (pl_heap p i))\<rparr> in
      if \<not> conn_isConnected p i \<or> now_ms \<le> conn_deadline p i \<or> ucast (pl_maxRequest p) \<le> cn_request (the (pl_heap p i)) then
        (case delete_conn st i (p, k) of (p, k) \<Rightarrow> (p\<lparr>pl_total := pl_total p - 1\<rparr>, k))
      else (p\<lparr>pl_conns := pl_conns p @ [i]\<rparr>, k))"

section \<open>Requests through the pool\<close>

definition pool_request :: "HttpConnectionPool \<Rightarrow> HttpMethod \<Rightarrow> string \<Rightarrow> (string \<times> string) list \<Rightarrow> string \<Rightarrow> HttpRequest" where
  "pool_request p method url headers body =
     fill_request headers (if pl_vhost p = [] then pl_host p else pl_vhost p) body
       ((HttpRequest_new 0x11 True)\<lparr>req_path := url, req_method := method, req_close := False\<rparr>)"

definition pool_url :: "Uri \<Rightarrow> string" where
  "pool_url uri =
     uri_getPath uri @ (if ur_query uri = [] then [] else ''?'') @ ur_query uri
       @ (if ur_fragment uri = [] then [] else ''#'') @ ur_fragment uri"

text \<open>
  The connection is used outside the lock and goes back when the request is over, at a time \<open>now'\<close>,
  also when an exception leaves it. The socket of a connection is never null, so that the check for it
  never fails. \<open>peer\<close> gives the text of a socket's remote address.
\<close>

definition pool_doRequest ::
    "endian \<Rightarrow> resolver \<Rightarrow> ('b, 'k) sockets \<Rightarrow> 'k ssl \<Rightarrow> (int \<Rightarrow> string) \<Rightarrow> (full_socket \<times> 'k) stream \<Rightarrow> decoding \<Rightarrow>
      (full_socket \<Rightarrow> string) \<Rightarrow> 64 word \<Rightarrow> 64 word \<Rightarrow> HttpRequest \<Rightarrow> 64 word \<Rightarrow> HttpConnectionPool \<times> 'k \<Rightarrow>
      ((request_error + HttpResult) \<times> (HttpConnectionPool \<times> 'k)) option" where
  "pool_doRequest h getaddrinfo calls ssl strerror st dc peer now now' req timeout_ms x =
     (case getConnection h getaddrinfo calls ssl st now x of
        (Inl e, x) \<Rightarrow> Some (Inl (Rq_address e), x)
      | (Inr None, x) \<Rightarrow>
          Some (Inr (failed POOL_GET_CONNECTION (''pool host:'' @ pl_host (fst x) @ '' port:'' @ show_nat (unat (pl_port (fst x))))), x)
      | (Inr (Some i), (p, k)) \<Rightarrow>
          let sock = cn_socket (the (pl_heap p i)) in
          (case exchange calls strerror st dc (peer sock) req timeout_ms (sock, k) of
             None \<Rightarrow> None
           | Some (r, (sock, k)) \<Rightarrow>
               Some (r, ReleasePtr st now' i
                  (p\<lparr>pl_heap := (pl_heap p)(i := map_option (\<lambda>c. c\<lparr>cn_socket := sock\<rparr>) (pl_heap p i))\<rparr>, k))))"

definition pool_doRequest_url where
  "pool_doRequest_url h getaddrinfo calls ssl strerror st dc peer now now' method url timeout_ms headers body x =
     pool_doRequest h getaddrinfo calls ssl strerror st dc peer now now' (pool_request (fst x) method url headers body) timeout_ms x"

definition pool_doRequest_uri where
  "pool_doRequest_uri h getaddrinfo calls ssl strerror st dc peer now now' method uri timeout_ms headers body x =
     pool_doRequest_url h getaddrinfo calls ssl strerror st dc peer now now' method (pool_url uri) timeout_ms headers body x"

definition pool_doGet where
  "pool_doGet h getaddrinfo calls ssl strerror st dc peer now now' url timeout_ms headers body x =
     pool_doRequest_url h getaddrinfo calls ssl strerror st dc peer now now' GET url timeout_ms headers body x"

definition pool_doGet_uri where
  "pool_doGet_uri h getaddrinfo calls ssl strerror st dc peer now now' uri timeout_ms headers body x =
     pool_doGet h getaddrinfo calls ssl strerror st dc peer now now' (pool_url uri) timeout_ms headers body x"

definition pool_doPost where
  "pool_doPost h getaddrinfo calls ssl strerror st dc peer now now' url timeout_ms headers body x =
     pool_doRequest_url h getaddrinfo calls ssl strerror st dc peer now now' POST url timeout_ms headers body x"

definition pool_doPost_uri where
  "pool_doPost_uri h getaddrinfo calls ssl strerror st dc peer now now' uri timeout_ms headers body x =
     pool_doPost h getaddrinfo calls ssl strerror st dc peer now now' (pool_url uri) timeout_ms headers body x"

end
