(* ===== verification/HttpPool_Props.thy ===== *)
theory HttpPool_Props
  imports HttpPool SocketLife_Props Http_Props
begin

text \<open>
  What holds of the requests of the client and of its pool: the headers a request is built with, the
  accounts of the pool over every sequence of calls, and the limits it takes and does not keep.
\<close>

section \<open>Accounts\<close>

text \<open>
  What happens to a pool: connections are taken and given back, at some time, and whoever has taken
  one changes its socket. The connections that are out are kept beside the pool.
\<close>

datatype pool_op = Op_get "64 word" | Op_release "64 word" nat | Op_use nat full_socket

fun pool_exec ::
    "endian \<Rightarrow> resolver \<Rightarrow> ('b, 'k) sockets \<Rightarrow> 'k ssl \<Rightarrow> (full_socket \<times> 'k) stream \<Rightarrow> pool_op \<Rightarrow>
      (HttpConnectionPool \<times> 'k) \<times> nat list \<Rightarrow> (HttpConnectionPool \<times> 'k) \<times> nat list" where
  "pool_exec h getaddrinfo calls ssl st (Op_get now) (x, held) =
     (case getConnection h getaddrinfo calls ssl st now x of
        (Inr (Some i), x) \<Rightarrow> (x, held @ [i])
      | (_, x) \<Rightarrow> (x, held))"
| "pool_exec h getaddrinfo calls ssl st (Op_release now i) (x, held) =
     (if i \<in> set held then (ReleasePtr st now i x, remove1 i held) else (x, held))"
| "pool_exec h getaddrinfo calls ssl st (Op_use i sock) ((p, k), held) =
     (if i \<in> set held then
        ((p\<lparr>pl_heap := (pl_heap p)(i := map_option (\<lambda>c. c\<lparr>cn_socket := sock\<rparr>) (pl_heap p i))\<rparr>, k), held)
      else ((p, k), held))"

definition pool_ok :: "HttpConnectionPool \<Rightarrow> nat list \<Rightarrow> bool" where
  "pool_ok p held \<longleftrightarrow> distinct (pl_conns p @ held) \<and>
     (\<forall>i. pl_heap p i \<noteq> None \<longleftrightarrow> i \<in> set (pl_conns p @ held)) \<and>
     (\<forall>i\<in>set (pl_conns p @ held). i < pl_next p) \<and>
     (\<forall>i c. pl_heap p i = Some c \<longrightarrow> cn_createTime c = 0) \<and>
     pl_total p = of_nat (length (pl_conns p) + length held)"

lemma scan_conns_parts:
  assumes "scan_conns p now conns = (invalid, r, rest)"
  shows "conns = invalid @ (case r of None \<Rightarrow> [] | Some i \<Rightarrow> [i]) @ rest \<and> (r = None \<longrightarrow> rest = []) \<and>
    (\<forall>i. r = Some i \<longrightarrow> conn_isConnected p i)"
  using assms
proof (induction conns arbitrary: invalid r rest)
  case (Cons i conns)
  then show ?case by (cases "scan_conns p now conns") (auto split: if_splits)
qed simp

lemma delete_conns:
  "fold (delete_conn st) ids (p, k) = (p', k') \<Longrightarrow>
    p' = p\<lparr>pl_heap := (\<lambda>i. if i \<in> set ids then None else pl_heap p i)\<rparr>"
proof (induction ids arbitrary: p k)
  case (Cons i ids)
  obtain k1 where "delete_conn st i (p, k) = (p\<lparr>pl_heap := (pl_heap p)(i := None)\<rparr>, k1)" by (simp add: delete_conn_def)
  with Cons.prems have "fold (delete_conn st) ids (p\<lparr>pl_heap := (pl_heap p)(i := None)\<rparr>, k1) = (p', k')" by simp
  from Cons.IH [OF this] have p': "p' = p\<lparr>pl_heap := (\<lambda>j. if j \<in> set ids then None else ((pl_heap p)(i := None)) j)\<rparr>"
    by (simp cong: if_cong)
  have "(\<lambda>j. if j \<in> set ids then None else ((pl_heap p)(i := None)) j) = (\<lambda>j. if j \<in> set (i # ids) then None else pl_heap p j)" by auto
  then show ?case unfolding p' by simp
qed simp

text \<open>Taking a connection: after the invalid ones are gone, an idle one or a new one.\<close>

lemma getConnection_cases:
  assumes "getConnection h getaddrinfo calls ssl st now (p, k) = (r, (q, k'))"
  obtains invalid ptr rest p1 where "scan_conns p now (pl_conns p) = (invalid, ptr, rest)"
    "p1 = p\<lparr>pl_conns := rest, pl_heap := (\<lambda>i. if i \<in> set invalid then None else pl_heap p i),
       pl_total := pl_total p - of_nat (length invalid)\<rparr>"
    "(\<exists>i. ptr = Some i \<and> r = Inr (Some i) \<and> q = p1) \<or> (ptr = None \<and> r \<in> range Inl \<union> {Inr None} \<and> q = p1) \<or>
     (\<exists>sock. ptr = None \<and> r = Inr (Some (pl_next p)) \<and>
        q = p1\<lparr>pl_heap := (pl_heap p1)(pl_next p \<mapsto> \<lparr>cn_socket = sock, cn_createTime = 0, cn_request = 0\<rparr>),
          pl_next := Suc (pl_next p), pl_total := pl_total p1 + 1\<rparr>)"
proof -
  obtain invalid ptr rest where scan: "scan_conns p now (pl_conns p) = (invalid, ptr, rest)" by (rule prod_cases3)
  obtain p0 k0 where del: "fold (delete_conn st) invalid (p\<lparr>pl_conns := rest\<rparr>, k) = (p0, k0)" by fastforce
  from delete_conns [OF this] have p0: "p0 = p\<lparr>pl_conns := rest, pl_heap := (\<lambda>i. if i \<in> set invalid then None else pl_heap p i)\<rparr>"
    by (simp cong: if_cong)
  let ?p1 = "p0\<lparr>pl_total := pl_total p0 - of_nat (length invalid)\<rparr>"
  show ?thesis
  proof (rule that [OF scan, of ?p1])
    show "?p1 = p\<lparr>pl_conns := rest, pl_heap := (\<lambda>i. if i \<in> set invalid then None else pl_heap p i),
       pl_total := pl_total p - of_nat (length invalid)\<rparr>" by (simp add: p0)
    show "(\<exists>i. ptr = Some i \<and> r = Inr (Some i) \<and> q = ?p1) \<or> (ptr = None \<and> r \<in> range Inl \<union> {Inr None} \<and> q = ?p1) \<or>
     (\<exists>sock. ptr = None \<and> r = Inr (Some (pl_next p)) \<and>
        q = ?p1\<lparr>pl_heap := (pl_heap ?p1)(pl_next p \<mapsto> \<lparr>cn_socket = sock, cn_createTime = 0, cn_request = 0\<rparr>),
          pl_next := Suc (pl_next p), pl_total := pl_total ?p1 + 1\<rparr>)"
      using assms p0
      by (auto simp: getConnection_def scan del Let_def split: option.splits sum.splits prod.splits dial_result.splits)
  qed
qed

lemma pool_ok_dropped:
  assumes "pool_ok p held" and "pl_conns p = invalid @ kept"
  shows "pool_ok (p\<lparr>pl_conns := kept, pl_heap := (\<lambda>i. if i \<in> set invalid then None else pl_heap p i),
    pl_total := pl_total p - of_nat (length invalid)\<rparr>) held"
  using assms unfolding pool_ok_def by (auto split: if_splits)

lemma pool_ok_taken:
  assumes "pool_ok p held" and "pl_conns p = i # rest"
  shows "pool_ok (p\<lparr>pl_conns := rest\<rparr>) (held @ [i])"
  using assms unfolding pool_ok_def by (auto simp: algebra_simps)

lemma pool_ok_new:
  assumes "pool_ok p held"
  shows "pool_ok (p\<lparr>pl_heap := (pl_heap p)(pl_next p \<mapsto> \<lparr>cn_socket = sock, cn_createTime = 0, cn_request = 0\<rparr>),
    pl_next := Suc (pl_next p), pl_total := pl_total p + 1\<rparr>) (held @ [pl_next p])"
  using assms unfolding pool_ok_def by (auto simp: less_Suc_eq algebra_simps split: if_splits)

lemma pool_ok_get:
  assumes "pool_ok p held"
  shows "pool_ok (fst (fst (pool_exec h getaddrinfo calls ssl st (Op_get now) ((p, k), held))))
    (snd (pool_exec h getaddrinfo calls ssl st (Op_get now) ((p, k), held)))"
proof -
  obtain r q k' where get: "getConnection h getaddrinfo calls ssl st now (p, k) = (r, (q, k'))" by (rule prod_cases3)
  obtain invalid ptr rest p1 where scan: "scan_conns p now (pl_conns p) = (invalid, ptr, rest)"
    and p1: "p1 = p\<lparr>pl_conns := rest, pl_heap := (\<lambda>i. if i \<in> set invalid then None else pl_heap p i),
       pl_total := pl_total p - of_nat (length invalid)\<rparr>"
    and cs: "(\<exists>i. ptr = Some i \<and> r = Inr (Some i) \<and> q = p1) \<or> (ptr = None \<and> r \<in> range Inl \<union> {Inr None} \<and> q = p1) \<or>
     (\<exists>sock. ptr = None \<and> r = Inr (Some (pl_next p)) \<and>
        q = p1\<lparr>pl_heap := (pl_heap p1)(pl_next p \<mapsto> \<lparr>cn_socket = sock, cn_createTime = 0, cn_request = 0\<rparr>),
          pl_next := Suc (pl_next p), pl_total := pl_total p1 + 1\<rparr>)"
    by (rule getConnection_cases [OF get])
  note parts = scan_conns_parts [OF scan]
  let ?drop = "\<lambda>kept. p\<lparr>pl_conns := kept, pl_heap := (\<lambda>i. if i \<in> set invalid then None else pl_heap p i),
    pl_total := pl_total p - of_nat (length invalid)\<rparr>"
  from cs show ?thesis
  proof (elim disjE exE conjE)
    fix i assume i: "ptr = Some i" "r = Inr (Some i)" "q = p1"
    have "pool_ok (?drop (i # rest)) held" using parts i(1) by (intro pool_ok_dropped [OF assms]) simp
    from pool_ok_taken [OF this, of i rest] have "pool_ok ((?drop (i # rest))\<lparr>pl_conns := rest\<rparr>) (held @ [i])" by simp
    moreover have "(?drop (i # rest))\<lparr>pl_conns := rest\<rparr> = p1" unfolding p1 by (cases p) simp
    ultimately have "pool_ok p1 (held @ [i])" by simp
    then show ?thesis using get i by simp
  next
    assume none: "ptr = None" "r \<in> range Inl \<union> {Inr None}" "q = p1"
    have "pool_ok p1 held" unfolding p1 using parts none(1) by (intro pool_ok_dropped [OF assms]) simp
    then show ?thesis using get none by auto
  next
    fix sock
    assume new: "ptr = None" "r = Inr (Some (pl_next p))"
      "q = p1\<lparr>pl_heap := (pl_heap p1)(pl_next p \<mapsto> \<lparr>cn_socket = sock, cn_createTime = 0, cn_request = 0\<rparr>),
          pl_next := Suc (pl_next p), pl_total := pl_total p1 + 1\<rparr>"
    have "pool_ok p1 held" unfolding p1 using parts new(1) by (intro pool_ok_dropped [OF assms]) simp
    from pool_ok_new [OF this, of sock] have "pool_ok q (held @ [pl_next p])" by (simp add: new(3) p1)
    then show ?thesis using get new(2) by simp
  qed
qed

lemma pool_ok_release:
  assumes "pool_ok p held" and "i \<in> set held"
  shows "pool_ok (fst (ReleasePtr st now i (p, k))) (remove1 i held)"
proof -
  have d: "distinct held" "i \<notin> set (pl_conns p)" "pl_heap p i \<noteq> None" using assms unfolding pool_ok_def by auto
  then have set: "set (remove1 i held) = set held - {i}" by simp
  have len: "length held = Suc (length (remove1 i held))" using length_pos_if_in_set [OF assms(2)] assms(2) by (simp add: length_remove1)
  show ?thesis using assms d set len
    unfolding pool_ok_def ReleasePtr_def delete_conn_def Let_def
    by (auto simp: algebra_simps distinct_remove1 split: if_splits)
qed

lemma pool_ok_exec:
  assumes "pool_ok (fst (fst x)) (snd x)"
  shows "pool_ok (fst (fst (pool_exec h getaddrinfo calls ssl st f x))) (snd (pool_exec h getaddrinfo calls ssl st f x))"
proof -
  obtain p k held where x: "x = ((p, k), held)" by (metis surj_pair)
  have ok: "pool_ok p held" using assms by (simp add: x)
  show ?thesis
  proof (cases f)
    case (Op_get now)
    then show ?thesis using pool_ok_get [OF ok, of h getaddrinfo calls ssl st now k] by (simp only: x)
  next
    case (Op_release now i)
    then show ?thesis using pool_ok_release [OF ok, of i st now k] ok by (simp add: x)
  next
    case (Op_use i sock)
    then show ?thesis using ok unfolding x pool_ok_def by auto
  qed
qed

lemma pool_ok_run:
  "pool_ok (fst (fst x)) (snd x) \<Longrightarrow>
    pool_ok (fst (fst (fold (pool_exec h getaddrinfo calls ssl st) fs x))) (snd (fold (pool_exec h getaddrinfo calls ssl st) fs x))"
  by (induction fs arbitrary: x) (simp_all add: pool_ok_exec)

lemma pool_ok_empty: "pool_ok (Pool_new host vhost port https msize alive requests) []"
  by (simp add: pool_ok_def Pool_new_def)

text \<open>
  C33. Over every sequence of taking, using and giving back connections, at any times and whatever the
  network answers, the pool's accounts are right: no connection is held twice or both held and idle,
  those that exist are exactly the idle and the held ones, and the total counts them.
\<close>

theorem pool_accounts:
  assumes "fold (pool_exec h getaddrinfo calls ssl st) fs ((Pool_new host vhost port https msize alive requests, k), [])
    = ((p, k'), held)"
  shows "distinct (pl_conns p @ held) \<and> (\<forall>i. pl_heap p i \<noteq> None \<longleftrightarrow> i \<in> set (pl_conns p) \<union> set held) \<and>
    pl_total p = of_nat (length (pl_conns p) + length held)"
  using pool_ok_run [of "((Pool_new host vhost port https msize alive requests, k), [])" h getaddrinfo calls ssl st fs]
    pool_ok_empty [of host vhost port https msize alive requests]
  unfolding assms by (simp add: pool_ok_def)

section \<open>Limits\<close>

lemma deadline_small:
  assumes "pool_ok p held" and "pl_heap p i = Some c" and "2 ^ 32 \<le> now"
  shows "conn_deadline p i < now"
proof -
  have "unat (ucast (pl_maxAliveTime p) :: 64 word) < 2 ^ 32"
    using order.strict_trans1 [OF take_bit_nat_less_eq_self unsigned_less [of "pl_maxAliveTime p"]]
    by (simp add: unsigned_ucast_eq)
  then have "(ucast (pl_maxAliveTime p) :: 64 word) < 2 ^ 32" by (simp add: word_less_nat_alt)
  then show ?thesis using assms by (simp add: conn_deadline_def pool_ok_def)
qed

text \<open>
  C35. The age of a connection is not looked at: the time of its creation is never set, so that from 2^32
  milliseconds on (seven weeks into 1970), a connected idle connection is taken however old it is and
  whatever the maximal age, and one given back below the number of requests is kept.
\<close>

theorem pool_age_ignored:
  assumes "fold (pool_exec h getaddrinfo calls ssl st) fs ((Pool_new host vhost port https msize alive requests, k), [])
    = ((p, k'), held)" and "2 ^ 32 \<le> now"
  shows "(\<forall>i rest. pl_conns p = i # rest \<and> conn_isConnected p i \<longrightarrow>
      getConnection h getaddrinfo calls ssl st now (p, k') = (Inr (Some i), (p\<lparr>pl_conns := rest\<rparr>, k'))) \<and>
    (\<forall>i\<in>set held. \<forall>c. pl_heap p i = Some c \<and> sk_isConnected (cn_socket c) \<and> cn_request c + 1 < ucast (pl_maxRequest p) \<longrightarrow>
      pl_conns (fst (ReleasePtr st now i (p, k'))) = pl_conns p @ [i])"
proof (intro conjI allI ballI impI)
  have ok: "pool_ok p held"
    using pool_ok_run [of "((Pool_new host vhost port https msize alive requests, k), [])" h getaddrinfo calls ssl st fs]
      pool_ok_empty [of host vhost port https msize alive requests] unfolding assms(1) by simp
  show "getConnection h getaddrinfo calls ssl st now (p, k') = (Inr (Some i), (p\<lparr>pl_conns := rest\<rparr>, k'))"
    if c: "pl_conns p = i # rest \<and> conn_isConnected p i" for i rest
  proof -
    obtain c where "pl_heap p i = Some c" using c by (auto simp: conn_isConnected_def split: option.splits)
    then have "\<not> now < conn_deadline p i" using deadline_small [OF ok _ assms(2)] by (simp add: less_imp_le not_less)
    then show ?thesis using c by (simp add: getConnection_def)
  qed
  show "pl_conns (fst (ReleasePtr st now i (p, k'))) = pl_conns p @ [i]"
    if "i \<in> set held" and c: "pl_heap p i = Some c \<and> sk_isConnected (cn_socket c) \<and> cn_request c + 1 < ucast (pl_maxRequest p)" for i c
  proof -
    have "conn_deadline p i < now" using deadline_small [OF ok _ assms(2)] c by blast
    moreover have "cn_createTime c = 0" using ok c unfolding pool_ok_def by blast
    then have "conn_deadline p i = 0 + ucast (pl_maxAliveTime p)" using c by (simp add: conn_deadline_def)
    ultimately show ?thesis using ok c
      by (auto simp: ReleasePtr_def Let_def conn_isConnected_def conn_deadline_def pool_ok_def not_le)
  qed
qed

text \<open>
  The size of the pool is not looked at: as long as the host resolves and can be connected to, every
  call gives another connection, however many are held already and whatever the maximal size.
\<close>

theorem pool_size_ignored:
  assumes "LookupAnyIPAddress h getaddrinfo host (uint AF_INET) 0 0 = Inr (Some addr)"
    and "\<And>a k. \<exists>sock k'. dial h calls ssl https a k = (Dialled sock, k')"
  shows "length (snd (fold (pool_exec h getaddrinfo calls ssl st) (replicate n (Op_get now))
    ((Pool_new host vhost port https msize alive requests, k), []))) = n"
proof -
  have step: "\<exists>q k'. pool_exec h getaddrinfo calls ssl st (Op_get now) ((p, k), held) = ((q, k'), held @ [pl_next p]) \<and>
      pl_host q = host \<and> pl_isHttps q = https \<and> pl_conns q = []"
    if "pl_host p = host" "pl_isHttps p = https" "pl_conns p = []" for p k held
  proof -
    obtain sock k' where "dial h calls ssl https (setPort h (ucast (pl_port p)) addr) k = (Dialled sock, k')"
      using assms(2) by blast
    then show ?thesis using that assms(1) by (simp add: getConnection_def)
  qed
  have "length (snd (fold (pool_exec h getaddrinfo calls ssl st) (replicate n (Op_get now)) ((p, k), held))) = length held + n"
    if "pl_host p = host" "pl_isHttps p = https" "pl_conns p = []" for p k held
    using that
  proof (induction n arbitrary: p k held)
    case (Suc n)
    obtain q k' where "pool_exec h getaddrinfo calls ssl st (Op_get now) ((p, k), held) = ((q, k'), held @ [pl_next p])"
      "pl_host q = host" "pl_isHttps q = https" "pl_conns q = []" using step [OF Suc.prems] by blast
    then show ?case using Suc.IH [of q k' "held @ [pl_next p]"] by simp
  qed simp
  from this [of "Pool_new host vhost port https msize alive requests" k "[]"] show ?thesis by (simp add: Pool_new_def)
qed

section \<open>Headers\<close>

text \<open>The headers that are sent on, what they mean as a map, and whether one names a host.\<close>

definition sent_headers :: "(string \<times> string) list \<Rightarrow> (string \<times> string) list" where
  "sent_headers headers = filter (\<lambda>(k, v). ci_key k \<noteq> ci_key ''connection'') headers"

definition names_host :: "(string \<times> string) list \<Rightarrow> bool" where
  "names_host headers \<longleftrightarrow> (\<exists>(k, v)\<in>set headers. ci_key k = ci_key ''host'' \<and> v \<noteq> [])"

definition keeps_alive :: "(string \<times> string) list \<Rightarrow> bool" where
  "keeps_alive headers \<longleftrightarrow> (\<exists>(k, v)\<in>set headers. ci_key k = ci_key ''connection'' \<and> ci_key v = ci_key ''keep-alive'')"

lemma lower_code_pos: "c \<noteq> CHR 0x00 \<Longrightarrow> 0 < lower_code c"
  using of_char_eq_iff [of c "CHR 0x00", where 'a = nat] by (auto simp: lower_code_def Let_def)

lemma strcasecmp_key:
  assumes "CHR 0x00 \<notin> set b"
  shows "strcasecmp (c_str a) b = 0 \<longleftrightarrow> ci_key a = ci_key b"
proof -
  have "\<forall>c\<in>set (c_str a). 0 < lower_code c" using lower_code_pos by (auto simp: c_str_def dest: set_takeWhileD)
  moreover have "\<forall>c\<in>set b. 0 < lower_code c" using lower_code_pos assms by metis
  moreover have "c_str b = b" using assms by (auto simp: c_str_def takeWhile_eq_all_conv)
  ultimately show ?thesis using strcasecmp_0 [of "c_str a" b] by (auto simp: ci_key_def)
qed

lemma strcasecmp_names:
  "strcasecmp (c_str a) ''connection'' = 0 \<longleftrightarrow> ci_key a = ci_key ''connection''"
  "strcasecmp (c_str a) ''host'' = 0 \<longleftrightarrow> ci_key a = ci_key ''host''"
  "strcasecmp (c_str a) ''keep-alive'' = 0 \<longleftrightarrow> ci_key a = ci_key ''keep-alive''"
  by (rule strcasecmp_key; code_simp)+

lemma host_key: "ci_key ''Host'' = ci_key ''host''" "ci_key ''host'' \<noteq> ci_key ''connection''"
  by code_simp+

lemma header_steps_close:
  "fold header_step ops (r\<lparr>req_close := c\<rparr>) = (fold header_step ops r)\<lparr>req_close := c\<rparr>"
proof (induction ops arbitrary: r)
  case (Cons f ops)
  have "header_step f (r\<lparr>req_close := c\<rparr>) = (header_step f r)\<lparr>req_close := c\<rparr>"
    by (cases f; cases r) (simp_all add: req_setHeader_def req_delHeader_def)
  then show ?case using Cons.IH [of "header_step f r"] by simp
qed simp

lemma header_steps_keep:
  "req_method (fold header_step ops r) = req_method r \<and> req_path (fold header_step ops r) = req_path r \<and>
    req_query (fold header_step ops r) = req_query r \<and> req_fragment (fold header_step ops r) = req_fragment r"
proof (induction ops arbitrary: r)
  case (Cons f ops)
  have "req_method (header_step f r) = req_method r \<and> req_path (header_step f r) = req_path r \<and>
    req_query (header_step f r) = req_query r \<and> req_fragment (header_step f r) = req_fragment r"
    by (cases f) (simp_all add: req_setHeader_def req_delHeader_def)
  then show ?case using Cons.IH [of "header_step f r"] by simp
qed simp

text \<open>The loop: headers that are sent are set one after the other, whether a host is named and the close flag.\<close>

lemma add_headers_result:
  "add_headers headers b req =
    (b \<or> names_host headers,
     (fold header_step (map (\<lambda>(k, v). SetHeader k v) (sent_headers headers)) req)
       \<lparr>req_close := req_close req \<and> \<not> keeps_alive headers\<rparr>)"
proof (induction headers arbitrary: b req)
  case Nil
  show ?case by (cases req) (simp add: sent_headers_def names_host_def keeps_alive_def)
next
  case (Cons x headers)
  obtain k v where x: "x = (k, v)" by fastforce
  have conn: "ci_key k \<noteq> ci_key ''host''" if "ci_key k = ci_key ''connection''" using that host_key(2) by auto
  have parts: "sent_headers (x # headers) = (if ci_key k = ci_key ''connection'' then [] else [(k, v)]) @ sent_headers headers"
    "names_host (x # headers) \<longleftrightarrow> ci_key k = ci_key ''host'' \<and> v \<noteq> [] \<or> names_host headers"
    "keeps_alive (x # headers) \<longleftrightarrow> ci_key k = ci_key ''connection'' \<and> ci_key v = ci_key ''keep-alive'' \<or> keeps_alive headers"
    by (auto simp: x sent_headers_def names_host_def keeps_alive_def)
  show ?case
  proof (cases "ci_key k = ci_key ''connection''")
    case True
    then show ?thesis unfolding x add_headers.simps strcasecmp_names Cons.IH parts [unfolded x]
      using conn [OF True] by (simp add: header_steps_close)
  next
    case False
    have "req_close (req_setHeader k v req) = req_close req" by (simp add: req_setHeader_def)
    then show ?thesis unfolding x add_headers.simps strcasecmp_names Cons.IH parts [unfolded x]
      using False by auto
  qed
qed

text \<open>
  C34. A request is built with the headers given, the last of those that differ only in case, save that a
  connection header only says whether to keep the connection, and that the host of the URI is set when
  no header names one; method, path, query, fragment and body are those of the call.
\<close>

theorem request_headers:
  "let r = uri_request method uri headers body;
       M = fold (\<lambda>(k, v) M. M(ci_key k \<mapsto> v)) (sent_headers headers) Map.empty;
       M = (if names_host headers then M else M(ci_key ''Host'' \<mapsto> ur_host uri))
   in req_getHeader r key d = (case M (ci_key key) of Some v \<Rightarrow> v | None \<Rightarrow> d) \<and>
      (req_close r \<longleftrightarrow> \<not> keeps_alive headers) \<and> req_method r = method \<and> req_path r = uri_getPath uri \<and>
      req_query r = ur_query uri \<and> req_fragment r = ur_fragment uri \<and> req_body r = body"
proof -
  let ?r0 = "(HttpRequest_new 0x11 True)\<lparr>req_path := uri_getPath uri, req_query := ur_query uri,
          req_fragment := ur_fragment uri, req_method := method\<rparr>"
  let ?ops = "map (\<lambda>(k, v). SetHeader k v) (sent_headers headers)"
  let ?ops' = "?ops @ (if names_host headers then [] else [SetHeader ''Host'' (ur_host uri)])"
  have run: "uri_request method uri headers body =
      (fold header_step ?ops' ?r0)\<lparr>req_close := \<not> keeps_alive headers, req_body := body\<rparr>"
    by (simp add: uri_request_def fill_request_def add_headers_result HttpRequest_new_def req_setHeader_def)
  have "fold header_spec (map (\<lambda>(k, v). SetHeader k v) hs) M = fold (\<lambda>(k, v) M. M(ci_key k \<mapsto> v)) hs M" for hs M
    by (induction hs arbitrary: M) auto
  then have spec: "fold header_spec ?ops' Map.empty = (let M = fold (\<lambda>(k, v) M. M(ci_key k \<mapsto> v)) (sent_headers headers) Map.empty
      in if names_host headers then M else M(ci_key ''Host'' \<mapsto> ur_host uri))" by (simp add: Let_def)
  have "ci.map_ok (req_headers ?r0)" "\<forall>k. map_find CaseInsensitiveLess k (req_headers ?r0) = Map.empty (ci_key k)"
    by (simp_all add: HttpRequest_new_def)
  from header_run_refines [OF this, of ?ops'] have
    "map_find CaseInsensitiveLess key (req_headers (fold header_step ?ops' ?r0)) = fold header_spec ?ops' Map.empty (ci_key key)" by blast
  then show ?thesis unfolding run spec
    by (simp add: Let_def req_getHeader_def map_get_def header_steps_keep del: fold_append map_append)
qed

section \<open>Instances\<close>

text \<open>A network in which every host has one address and every connection is made.\<close>

definition steady_calls :: "(byte, int) sockets" where
  "steady_calls = sample_calls\<lparr>os_socket := (\<lambda>f t p k. (3, k))\<rparr>"

definition steady_resolver :: resolver where
  "steady_resolver = (\<lambda>node service family type protocol. Inr [Some (getAddr LITTLE_ENDIAN sample_peer)])"

definition no_ssl :: "int ssl" where
  "no_ssl = \<lparr>ssl_CreateTCP = (\<lambda>a. None), ssl_connect = (\<lambda>a x. (False, x))\<rparr>"

definition quiet_stream :: "(full_socket \<times> int) stream" where
  "quiet_stream = \<lparr>st_read = (\<lambda>n x. ((0, []), x)), st_write = (\<lambda>bs x. (int (length bs), x)), st_close = (\<lambda>x. x)\<rparr>"

lemma steady_dial: "\<exists>sock k'. dial h steady_calls no_ssl False a k = (Dialled sock, k')"
proof -
  have "so_isValid sk \<Longrightarrow> so_isValid (sk\<lparr>sk_isConnected := True\<rparr>)" for sk :: full_socket by (simp add: so_isValid_def)
  have "fst (so_connect h steady_calls a (- 1) (so_CreateTCP a, k))"
    by (simp add: so_connect_def so_ensure_def so_newSock_def so_initSock_def so_setOption_def so_CreateTCP_def so_new_def
        Socket_new_def Socket.extend_def so_isValid_def steady_calls_def sample_calls_def SOCK_STREAM_def Let_def)
  then obtain sk k' where "so_connect h steady_calls a (- 1) (so_CreateTCP a, k) = (True, (sk, k'))" by (metis prod.exhaust_sel)
  then show ?thesis by (simp add: dial_def)
qed

lemma pool_accounts_witness:
  "distinct (pl_conns (fst (fst (fold (pool_exec LITTLE_ENDIAN steady_resolver steady_calls no_ssl quiet_stream)
     [Op_get 0, Op_get 0, Op_release (2 ^ 40) 0] ((Pool_new ''h'' [] 80 False 1 1 5, 7), []))))
    @ snd (fold (pool_exec LITTLE_ENDIAN steady_resolver steady_calls no_ssl quiet_stream)
     [Op_get 0, Op_get 0, Op_release (2 ^ 40) 0] ((Pool_new ''h'' [] 80 False 1 1 5, 7), [])))"
proof -
  obtain p k held where run: "fold (pool_exec LITTLE_ENDIAN steady_resolver steady_calls no_ssl quiet_stream)
     [Op_get 0, Op_get 0, Op_release (2 ^ 40) 0] ((Pool_new ''h'' [] 80 False 1 1 5, 7), []) = ((p, k), held)" by (metis surj_pair)
  show ?thesis using pool_accounts [OF run] unfolding run fst_conv snd_conv by blast
qed

lemma pool_size_ignored_witness:
  "length (snd (fold (pool_exec LITTLE_ENDIAN steady_resolver steady_calls no_ssl quiet_stream) (replicate 3 (Op_get 0))
    ((Pool_new ''h'' [] 80 False 1 60000 100, 7), []))) = 3"
proof (rule pool_size_ignored)
  show "LookupAnyIPAddress LITTLE_ENDIAN steady_resolver ''h'' (uint AF_INET) 0 0 = Inr (Some sample_peer)" by code_simp
qed (rule steady_dial)

text \<open>A pool whose one connection has been used and given back.\<close>

definition sample_pool :: "(HttpConnectionPool \<times> int) \<times> nat list" where
  "sample_pool = fold (pool_exec LITTLE_ENDIAN steady_resolver steady_calls no_ssl quiet_stream)
     [Op_get 0, Op_release 0x10000000000 0] ((Pool_new ''h'' [] 80 False 1 1 5, 7), [])"

lemma pool_age_ignored_witness:
  "fst (getConnection LITTLE_ENDIAN steady_resolver steady_calls no_ssl quiet_stream 0x20000000000 (fst sample_pool)) = Inr (Some 0)"
proof -
  obtain p k held where run: "sample_pool = ((p, k), held)" by (metis surj_pair)
  have "pl_conns (fst (fst sample_pool)) = [0] \<and> conn_isConnected (fst (fst sample_pool)) 0" by code_simp
  then have idle: "pl_conns p = 0 # [] \<and> conn_isConnected p 0" unfolding run by simp
  have "(2 :: 64 word) ^ 32 \<le> 0x20000000000" by code_simp
  from pool_age_ignored [OF run [unfolded sample_pool_def] this] idle
  have "getConnection LITTLE_ENDIAN steady_resolver steady_calls no_ssl quiet_stream 0x20000000000 (p, k) = (Inr (Some 0), (p\<lparr>pl_conns := []\<rparr>, k))"
    by blast
  then show ?thesis unfolding run by simp
qed

end
