(* ===== verification/Http11_Cut.thy ===== *)
theory Http11_Cut
  imports Http11_Roundtrip
begin

text \<open>
  Requests that arrive in pieces. \<open>HttpSession::recvRequest\<close> calls the parser once per read and
  moves what was not parsed to the front of its buffer, so the marks the parser kept in the
  previous call point into a text that is gone: \<open>http_parser_execute\<close> sets them to 0 (the query
  mark excepted), and a token that a read cuts in two is taken from its second piece only.
\<close>

section \<open>One call\<close>

lemma hp_loop_end: "length buf \<le> p \<Longrightarrow> hp_loop cb buf p cs s = Inr (cs, p, s)"
  by (subst hp_loop.simps) simp

definition restart :: "http_parser \<Rightarrow> http_parser" where
  "restart P = P\<lparr>hp_nread := 0, hp_mark := 0, hp_field_len := 0, hp_field_start := 0\<rparr>"

lemma request_execute_consumed:
  assumes "hp_loop request_callbacks buf 0 (hp_cs (rp_parser R)) (restart (rp_parser R), (rp_data R, rp_error R))
      = Inr (cs, length buf, P, (q, e))"
    and "buf \<noteq> []" "length buf < 2 ^ 63" "marks_ok (length buf) 0 (hp_cs (rp_parser R)) (restart (rp_parser R))"
    and "hp_cs (rp_parser R) \<noteq> 0" and "hp_mark P < length buf" "hp_field_start P < length buf" 
  shows "request_execute R buf = Inr (length buf, [],
    \<lparr>rp_parser = P\<lparr>hp_cs := cs, hp_nread := length buf\<rparr>, rp_data = q, rp_error = e\<rparr>)"
  using hp_loop_ok [OF assms(4,3), of "(rp_data R, rp_error R)"] assms
  by (auto simp: request_execute_def http_parser_execute_def restart_def Let_def hp_check_def
      http_parser_has_error_def loop_result_def marks_ok_def)

lemma request_execute_fails:
  assumes "hp_loop request_callbacks buf 0 (hp_cs (rp_parser R)) (restart (rp_parser R), (rp_data R, rp_error R)) = Inl x"
    and "buf \<noteq> []" "hp_cs (rp_parser R) \<noteq> 0"
  shows "request_execute R buf = Inl x"
  using assms by (auto simp: request_execute_def http_parser_execute_def restart_def Let_def hp_check_def)

section \<open>A query cut in two\<close>

lemma cut_query_first:
  assumes t: "t \<noteq> []" "\<forall>c\<in>set t. is_upper_digit c" "length t \<le> 11"
    and m: "CharsToHttpMethod buf = m" "m \<noteq> INVALID_METHOD"
    and seg: "seg = [] \<or> hd seg \<noteq> CHR ''/''" "uri_text is_pchar seg"
    and q1: "uri_text is_qchar q1" "q1 \<noteq> []"
    and buf: "buf = t @ CHR '' '' # CHR ''/'' # seg @ CHR ''?'' # q1" and len: "length buf < 2 ^ 63"
  shows "\<exists>R. request_execute (HttpRequestParser_new P) buf = Inr (length buf, [], R) \<and>
    hp_cs (rp_parser R) = 30 \<and> hp_query_start (rp_parser R) = length t + length seg + 3 \<and>
    rp_error R = 0"
proof -
  let ?R = "HttpRequestParser_new P"
  let ?q0 = "HttpRequest_new 0x11 True"
  let ?p = "length t + 1"
  have buf': "buf = t @ CHR '' '' # (CHR ''/'' # seg @ CHR ''?'' # (q1 @ []))" using buf by simp
  obtain P1 where P1: "hp_loop request_callbacks buf 0 1 (restart (rp_parser ?R), (?q0, 0)) =
      hp_loop request_callbacks buf ?p 3 (P1, (?q0\<lparr>req_method := m\<rparr>, 0))"
    using runs_method [OF buf' t m, of "(?q0, 0)"] by (auto simp: runs_def)
  have d: "drop ?p buf = CHR ''/'' # seg @ CHR ''?'' # (q1 @ [])" using buf by simp
  let ?P = "P1\<lparr>hp_mark := ?p, hp_query_start := ?p + length seg + 2\<rparr>"
  let ?r = "?q0\<lparr>req_method := m, req_path := CHR ''/'' # seg\<rparr>"
  have "hp_loop request_callbacks buf 0 1 (restart (rp_parser ?R), (?q0, 0)) =
      hp_loop request_callbacks buf (?p + length seg + 2 + length q1) 30 (?P, (?r, 0))"
    using P1 hp_loop_target_query [OF d seg q1 len, of P1 "?q0\<lparr>req_method := m\<rparr>" 0]
    by simp
  also have "\<dots> = Inr (30, length buf, ?P, (?r, 0))"
    using buf by (subst hp_loop_end) simp_all
  finally have run: "hp_loop request_callbacks buf 0 1 (restart (rp_parser ?R), (?q0, 0)) = Inr (30, length buf, ?P, (?r, 0))" .
  have ok: "marks_ok (length buf) 0 1 (restart (rp_parser ?R))"
    using buf by (simp add: marks_ok_def restart_def HttpRequestParser_new_def http_parser_init_def query_state_def)
  from hp_loop_ok [OF ok len, of "(?q0, 0)"] run have "hp_field_start ?P < length buf"
    using buf by (auto simp: loop_result_def marks_ok_def)
  then show ?thesis
    using request_execute_consumed [of buf ?R 30 ?P ?r 0] run ok buf len
    by (auto simp: HttpRequestParser_new_def http_parser_init_def)
qed

lemma cut_query_second:
  assumes R: "hp_cs (rp_parser R) = 30" "hp_query_start (rp_parser R) = n" "n < 2 ^ 63"
    and q2: "uri_text is_qchar q2" "length q2 < n"
  shows "request_execute R (q2 @ CHR '' '' # rest) = Inl Length_error"
proof -
  let ?buf = "q2 @ CHR '' '' # rest"
  let ?P = "restart (rp_parser R)"
  have d0: "drop 0 ?buf = q2 @ CHR '' '' # rest" by simp
  have d1: "drop (length q2) ?buf = CHR '' '' # rest" by simp
  have "hp_loop request_callbacks ?buf 0 30 (?P, (rp_data R, rp_error R))
      = hp_loop request_callbacks ?buf (length q2) 30 (?P, (rp_data R, rp_error R))"
    using hp_loop_uri_text [OF d0 q2(1), of 30 31 32] by (simp add: query_trans schar_lit)
  also have "\<dots> = Inl Length_error"
  proof -
    have "LEN n (length q2) \<ge> 2 ^ 63" using R(3) q2(2) by (simp add: LEN_def sub64_def)
    then have "with_string x (LEN n (length q2)) f = Inl Length_error" for x and f :: "_ \<Rightarrow> hp_error + request_data"
      by (simp add: with_string_def std_string_def)
    then show ?thesis using R(2) d1
      by (subst hp_loop.simps)
        (simp add: query_trans schar_lit with_data_def on_request_query_def restart_def nth_append)
  qed
  finally show ?thesis using request_execute_fails [of ?buf R Length_error] R(1) by simp
qed

text \<open>
  A request that a read cuts in the middle of its query cannot be parsed: the first piece is
  taken in full and without error, with the request not finished, but the call with the next
  piece computes the length of the query from the start it had in the previous buffer. When the
  rest of the query is shorter than that offset the difference wraps around, and the callback
  throws \<open>std::length_error\<close>, out of \<open>execute\<close>.
\<close>

theorem cut_query:
  assumes "m \<noteq> INVALID_METHOD" "m \<noteq> MSEARCH" and "path_text path"
    and "uri_text is_qchar q1" "q1 \<noteq> []" "uri_text is_qchar q2"
    and "first = HttpMethodToString m @ '' '' @ path @ ''?'' @ q1" and "length first < 2 ^ 63"
    and "length q2 + length q1 < length first"
  shows "\<exists>R. request_execute (HttpRequestParser_new P) first = Inr (length first, [], R) \<and>
    request_isFinished R = 0 \<and> \<not> request_hasError R \<and>
    request_execute R (q2 @ '' '' @ rest) = Inl Length_error"
proof -
  let ?t = "HttpMethodToString m"
  obtain seg where seg: "path = CHR ''/'' # seg" "seg = [] \<or> hd seg \<noteq> CHR ''/''" "uri_text is_pchar seg"
    using assms(3) by (auto simp: path_text_def split: list.splits)
  have f: "first = ?t @ CHR '' '' # CHR ''/'' # seg @ CHR ''?'' # q1" using assms(7) seg by simp
  have "CharsToHttpMethod first = m" using CharsToHttpMethod_iff [OF assms(1), of first] f by simp
  from cut_query_first [OF method_text [OF assms(1,2)] this assms(1) seg(2,3) assms(4,5) f assms(8), of P]
  obtain R where R: "request_execute (HttpRequestParser_new P) first = Inr (length first, [], R)"
    "hp_cs (rp_parser R) = 30" "hp_query_start (rp_parser R) = length ?t + length seg + 3" "rp_error R = 0"
    by blast
  have "request_execute R (q2 @ CHR '' '' # rest) = Inl Length_error"
    by (rule cut_query_second [OF R(2,3)]) (use assms f in auto)
  then show ?thesis using R
    by (auto simp: request_isFinished_def request_hasError_def http_parser_finish_def
        http_parser_has_error_def http_parser_is_finished_def)
qed

lemma cut_query_witness:
  "\<exists>R. request_execute (HttpRequestParser_new zero_parser) ''GET /aa?x'' = Inr (9, [], R) \<and>
    request_execute R '' HTTP/1.1'' = Inl Length_error"
proof -
  have 1: "path_text ''/aa''" "uri_text is_qchar ''x''" "uri_text is_qchar []" by code_simp+
  have 2: "''GET /aa?x'' = HttpMethodToString GET @ '' '' @ ''/aa'' @ ''?'' @ ''x''" by code_simp
  from cut_query [OF _ _ 1(1,2) _ 1(3) 2, of zero_parser "''HTTP/1.1''"] show ?thesis by auto
qed

section \<open>A header name cut in two\<close>

lemma hp_loop_name_piece:
  assumes "drop p buf = k @ rest" "\<forall>c\<in>set k. is_token_char c"
  shows "hp_loop request_callbacks buf p 14 s = hp_loop request_callbacks buf (p + length k) 14 s"
  by (rule hp_loop_block [OF assms(1)]) (use assms(2) in \<open>simp_all add: header_trans\<close>)

lemma restart_ok:
  assumes "between_calls R" "buf \<noteq> []"
  shows "marks_ok (length buf) 0 (hp_cs (rp_parser R)) (restart (rp_parser R))"
  using assms by (simp add: marks_ok_def restart_def between_calls_def)

text \<open>The three calls: the first piece, the second piece, and the header line in one.\<close>

lemma header_first_piece:
  assumes R: "hp_cs (rp_parser R) = 13" "between_calls R"
    and k: "k \<noteq> []" "\<forall>c\<in>set k. is_token_char c" "length k < 2 ^ 63"
  shows "\<exists>R'. request_execute R k = Inr (length k, [], R') \<and> hp_cs (rp_parser R') = 14 \<and>
    hp_body_start (rp_parser R') = 0 \<and> rp_data R' = rp_data R \<and> rp_error R' = rp_error R"
proof -
  let ?P = "restart (rp_parser R)"
  obtain c cs where kc: "k = c # cs" using k by (cases k) auto
  have d0: "drop 0 k = c # cs" using kc by simp
  have d1: "drop (Suc 0) k = cs @ []" using kc by simp
  have "hp_loop request_callbacks k 0 13 (?P, (rp_data R, rp_error R))
      = hp_loop request_callbacks k (length k) 14 (?P\<lparr>hp_field_start := 0\<rparr>, (rp_data R, rp_error R))"
    using hp_loop_name_start [OF d0, of ?P] hp_loop_name_piece [OF d1] k kc by simp
  then have "hp_loop request_callbacks k 0 (hp_cs (rp_parser R)) (?P, (rp_data R, rp_error R))
      = Inr (14, length k, ?P\<lparr>hp_field_start := 0\<rparr>, (rp_data R, rp_error R))"
    using R(1) by (simp add: hp_loop_end)
  from request_execute_consumed [OF this k(1,3) restart_ok [OF R(2) k(1)]] R k(1)
  show ?thesis by (auto simp: restart_def between_calls_def)
qed

lemma header_second_piece:
  assumes R: "hp_cs (rp_parser R) = 14" "hp_body_start (rp_parser R) = 0"
    and k: "k \<noteq> []" "\<forall>c\<in>set k. is_token_char c" and v: "is_value v"
    and buf: "buf = k @ '': '' @ v @ crlf" and len: "length buf < 2 ^ 63"
  shows "\<exists>R'. request_execute R buf = Inr (length buf, [], R') \<and>
    rp_data R' = req_setHeader k v (rp_data R) \<and> rp_error R' = rp_error R"
proof -
  let ?P = "restart (rp_parser R)" and ?d = "(rp_data R, rp_error R)"
  let ?P1 = "?P\<lparr>hp_field_len := length k, hp_mark := length k + 1\<rparr>"
  have p: "drop 0 buf = k @ '': '' @ (v @ crlf)" using buf by simp
  have m: "drop (length k + 2) buf = v @ crlf @ []"
    using drop_append_eq [of 0 buf "k @ '': ''" "v @ crlf"] p by simp
  have ok: "marks_ok (length buf) 0 (hp_cs (rp_parser R)) ?P"
    using R restart_ok [of R buf] buf by (simp add: between_calls_def query_state_def)
  have "hp_loop request_callbacks buf 0 14 (?P, ?d) = hp_loop request_callbacks buf (length k + 2) 15 (?P1, ?d)"
    using hp_loop_name_rest [OF p k(2), of ?P ?d] by (simp add: restart_def)
  also obtain P' where P': "hp_loop request_callbacks buf (length k + 2) 15 (?P1, ?d)
      = hp_loop request_callbacks buf (length k + 2 + length v + 2) 13 (P', (req_setHeader k v (rp_data R), rp_error R))"
    "hp_mark P' = length k + 2" "hp_field_start P' = 0"
    using hp_loop_header_value [of ?P1, OF _ _ k(1) m v len, of _ "rp_data R" "rp_error R"] p
    by (auto simp: restart_def)
  note P'(1)
  also have "length k + 2 + length v + 2 = length buf" using buf by (simp add: crlf_def)
  finally have "hp_loop request_callbacks buf 0 (hp_cs (rp_parser R)) (?P, ?d)
      = Inr (13, length buf, P', (req_setHeader k v (rp_data R), rp_error R))"
    using R(1) by (simp add: hp_loop_end)
  from request_execute_consumed [OF this _ len ok] P' R(1) buf show ?thesis by (simp add: crlf_def)
qed

lemma header_whole:
  assumes R: "hp_cs (rp_parser R) = 13" "between_calls R"
    and k: "k \<noteq> []" "\<forall>c\<in>set k. is_token_char c" and v: "is_value v"
    and buf: "buf = k @ '': '' @ v @ crlf" and len: "length buf < 2 ^ 63"
  shows "\<exists>R'. request_execute R buf = Inr (length buf, [], R') \<and>
    rp_data R' = req_setHeader k v (rp_data R) \<and> rp_error R' = rp_error R"
proof -
  let ?P = "restart (rp_parser R)" and ?d = "(rp_data R, rp_error R)"
  let ?P1 = "?P\<lparr>hp_field_start := 0, hp_field_len := length k, hp_mark := length k + 1\<rparr>"
  have p: "drop 0 buf = k @ '': '' @ (v @ crlf)" using buf by simp
  have m: "drop (length k + 2) buf = v @ crlf @ []"
    using drop_append_eq [of 0 buf "k @ '': ''" "v @ crlf"] p by simp
  have "hp_loop request_callbacks buf 0 13 (?P, ?d) = hp_loop request_callbacks buf (length k + 2) 15 (?P1, ?d)"
    using hp_loop_header_name [OF p k, of ?P ?d] by simp
  also obtain P' where P': "hp_loop request_callbacks buf (length k + 2) 15 (?P1, ?d)
      = hp_loop request_callbacks buf (length k + 2 + length v + 2) 13 (P', (req_setHeader k v (rp_data R), rp_error R))"
    "hp_mark P' = length k + 2" "hp_field_start P' = 0"
    using hp_loop_header_value [of ?P1, OF _ _ k(1) m v len, of _ "rp_data R" "rp_error R"] p by auto
  note P'(1)
  also have "length k + 2 + length v + 2 = length buf" using buf by (simp add: crlf_def)
  finally have "hp_loop request_callbacks buf 0 (hp_cs (rp_parser R)) (?P, ?d)
      = Inr (13, length buf, P', (req_setHeader k v (rp_data R), rp_error R))"
    using R(1) by (simp add: hp_loop_end)
  from request_execute_consumed [OF this _ len restart_ok [OF R(2)]] P' R(1) buf show ?thesis by (simp add: crlf_def)
qed

text \<open>
  A header name that a read cuts in two loses its first part: fed to a parser at the start of a
  header line in one piece, the line is stored under its name, but fed in two pieces cut inside
  the name, the same bytes are taken without error and stored under what the second piece
  holds of the name.
\<close>

theorem cut_header_name:
  assumes "hp_cs (rp_parser R) = 13" and "between_calls R"
    and "list_all is_token_char (k1 @ k2)" "k1 \<noteq> []" "k2 \<noteq> []" "is_value v"
    and "length (k1 @ k2 @ '': '' @ v @ crlf) < 2 ^ 63"
  shows "\<exists>R1 R2 R3.
    request_execute R (k1 @ k2 @ '': '' @ v @ crlf) = Inr (length (k1 @ k2 @ '': '' @ v @ crlf), [], R1) \<and>
    rp_data R1 = req_setHeader (k1 @ k2) v (rp_data R) \<and> rp_error R1 = rp_error R \<and>
    request_execute R k1 = Inr (length k1, [], R2) \<and>
    request_execute R2 (k2 @ '': '' @ v @ crlf) = Inr (length (k2 @ '': '' @ v @ crlf), [], R3) \<and>
    rp_data R3 = req_setHeader k2 v (rp_data R) \<and> rp_error R3 = rp_error R"
proof -
  have k: "\<forall>c\<in>set k1. is_token_char c" "\<forall>c\<in>set k2. is_token_char c" "\<forall>c\<in>set (k1 @ k2). is_token_char c"
    using assms(3) by (auto simp: list_all_iff)
  obtain R1 where R1: "request_execute R (k1 @ k2 @ '': '' @ v @ crlf) = Inr (length (k1 @ k2 @ '': '' @ v @ crlf), [], R1)"
    "rp_data R1 = req_setHeader (k1 @ k2) v (rp_data R)" "rp_error R1 = rp_error R"
    using header_whole [OF assms(1,2) _ k(3) assms(6), of "k1 @ k2 @ '': '' @ v @ crlf"] assms by auto
  obtain R2 where R2: "request_execute R k1 = Inr (length k1, [], R2)" "hp_cs (rp_parser R2) = 14"
    "hp_body_start (rp_parser R2) = 0" "rp_data R2 = rp_data R" "rp_error R2 = rp_error R"
    using header_first_piece [OF assms(1,2,4) k(1)] assms(7) by auto
  obtain R3 where R3: "request_execute R2 (k2 @ '': '' @ v @ crlf) = Inr (length (k2 @ '': '' @ v @ crlf), [], R3)"
    "rp_data R3 = req_setHeader k2 v (rp_data R)" "rp_error R3 = rp_error R"
    using header_second_piece [OF R2(2,3) assms(5) k(2) assms(6) refl] assms(7) R2(4,5) by auto
  show ?thesis using R1 R2 R3 by blast
qed

lemma cut_header_name_witness:
  "\<exists>R2 R3. request_execute ((HttpRequestParser_new zero_parser)\<lparr>rp_parser := zero_parser\<lparr>hp_cs := 13\<rparr>\<rparr>) ''Ho''
      = Inr (2, [], R2) \<and>
    request_execute R2 (''st: a'' @ crlf) = Inr (7, [], R3) \<and>
    req_headers (rp_data R3) = [(''st'', ''a'')]"
proof -
  let ?R = "(HttpRequestParser_new zero_parser)\<lparr>rp_parser := zero_parser\<lparr>hp_cs := 13\<rparr>\<rparr>"
  have 1: "hp_cs (rp_parser ?R) = 13" by simp
  have 2: "between_calls ?R" by code_simp
  have 3: "list_all is_token_char (''Ho'' @ ''st'')" "is_value ''a''" by code_simp+
  have 4: "length (''Ho'' @ ''st'' @ '': '' @ ''a'' @ crlf) < 2 ^ 63" by (simp add: crlf_def)
  have 5: "req_headers (req_setHeader ''st'' ''a'' (rp_data ?R)) = [(''st'', ''a'')]" by code_simp
  from cut_header_name [OF 1 2 3(1) _ _ 3(2) 4] 5 show ?thesis by (auto simp: crlf_def)
qed

end
