(* ===== verification/SocketStream_Props.thy ===== *)
theory SocketStream_Props
  imports SocketStream
begin

text \<open>
  What a stream transfers. Reading and writing under the contract of the system's calls (what is
  received is the next part of what was sent, at most as much as asked for) gives fixed-size
  transfers that are complete or cut short by the end of the stream, and the transfers through
  scatter and gather buffers move exactly the bytes at the position of the byte buffer.
\<close>

section \<open>Scatter and gather against the flat buffer\<close>

definition iovs_at :: "nat \<Rightarrow> byte list list \<Rightarrow> nat \<Rightarrow> nat \<Rightarrow> iovec list \<Rightarrow> bool" where
  "iovs_at b nodes p len iovs \<longleftrightarrow>
     sum_list (map iov_len iovs) = len \<and>
     (\<forall>ms. uniform b ms \<longrightarrow> length ms = length nodes \<longrightarrow>
        concat (gather ms iovs) = take len (drop p (concat ms)) \<and>
        (\<forall>bs. length bs \<le> len \<longrightarrow>
           uniform b (scatter ms iovs bs) \<and> length (scatter ms iovs bs) = length ms \<and>
           concat (scatter ms iovs bs) = blit (concat ms) p bs))"

lemma scatter_Nil [simp]: "scatter nodes iovs [] = nodes"
  by (induction iovs arbitrary: nodes) simp_all

lemma iovs_at_one:
  assumes "i < length nodes" "npos + len \<le> b"
  shows "iovs_at b nodes (i * b + npos) len [\<lparr>iov_node = i, iov_off = npos, iov_len = len\<rparr>]"
  unfolding iovs_at_def
proof (intro conjI allI impI)
  fix ms :: "byte list list" and bs :: "byte list"
  assume ms: "uniform b ms" "length ms = length nodes"
  show "concat (gather ms [\<lparr>iov_node = i, iov_off = npos, iov_len = len\<rparr>]) = take len (drop (i * b + npos) (concat ms))"
    using take_drop_block [OF ms(1), of i npos len] assms ms(2) by (simp add: gather_def)
  assume bs: "length bs \<le> len"
  have len_i: "length (ms ! i) = b" using uniform_nth [OF ms(1)] assms(1) ms(2) by simp
  show "uniform b (scatter ms [\<lparr>iov_node = i, iov_off = npos, iov_len = len\<rparr>] bs)"
    using ms bs assms len_i by (auto intro!: uniform_update)
  show "concat (scatter ms [\<lparr>iov_node = i, iov_off = npos, iov_len = len\<rparr>] bs) = blit (concat ms) (i * b + npos) bs"
    using concat_update_blit [OF ms(1), of i npos bs] ms(2) bs assms by simp
qed simp_all

lemma iovs_at_Cons:
  assumes "i < length nodes" "npos < b" "iovs_at b nodes (Suc i * b) (len - (b - npos)) iovs" "b - npos < len"
    and "i * b + npos + len \<le> b * length nodes"
  shows "iovs_at b nodes (i * b + npos) len (\<lparr>iov_node = i, iov_off = npos, iov_len = b - npos\<rparr> # iovs)"
  unfolding iovs_at_def
proof (intro conjI allI impI)
  let ?v = "\<lparr>iov_node = i, iov_off = npos, iov_len = b - npos\<rparr>"
  show "sum_list (map iov_len (?v # iovs)) = len"
    using assms(3,4) by (simp add: iovs_at_def)
  fix ms :: "byte list list" and bs :: "byte list"
  assume ms: "uniform b ms" "length ms = length nodes"
  have len: "length (concat ms) = b * length nodes" using length_concat_uniform [OF ms(1)] ms(2) by simp
  have p: "Suc i * b = i * b + npos + (b - npos)" using assms(2) by simp
  have "take len xs = take (b - npos) xs @ take (len - (b - npos)) (drop (b - npos) xs)" for xs :: "byte list"
    using assms(4) by (metis less_imp_le le_add_diff_inverse take_add)
  then show "concat (gather ms (?v # iovs)) = take len (drop (i * b + npos) (concat ms))"
    using take_drop_block [OF ms(1), of i npos "b - npos"] assms(1-3) ms unfolding iovs_at_def
    by (simp add: gather_def)
  assume bs: "length bs \<le> len"
  let ?k = "b - npos"
  let ?ms = "ms[i := blit (ms ! i) npos (take ?k bs)]"
  have len_i: "length (ms ! i) = b" using uniform_nth [OF ms(1)] assms(1) ms(2) by simp
  have u: "uniform b ?ms" using ms len_i assms(2) by (intro uniform_update) auto
  have c: "concat ?ms = blit (concat ms) (i * b + npos) (take ?k bs)"
    using concat_update_blit [OF ms(1), of i npos "take ?k bs"] assms(1,2) ms(2) by simp
  have rest: "uniform b (scatter ?ms iovs (drop ?k bs)) \<and> length (scatter ?ms iovs (drop ?k bs)) = length ms \<and>
      concat (scatter ?ms iovs (drop ?k bs)) = blit (concat ?ms) (Suc i * b) (drop ?k bs)"
    using assms(3) u ms(2) bs unfolding iovs_at_def by simp
  then show "uniform b (scatter ms (?v # iovs) bs)" "length (scatter ms (?v # iovs) bs) = length ms"
    by simp_all
  have "blit (concat ?ms) (Suc i * b) (drop ?k bs) = blit (concat ms) (i * b + npos) bs"
  proof (cases "?k \<le> length bs")
    case True
    then have "blit (blit (concat ms) (i * b + npos) (take ?k bs)) (i * b + npos + ?k) (drop ?k bs)
        = blit (concat ms) (i * b + npos) (take ?k bs @ drop ?k bs)"
      using blit_blit_append [of "i * b + npos" "take ?k bs" "drop ?k bs" "concat ms"] bs assms(5) len by simp
    then show ?thesis using c p by (simp add: add.commute [of b])
  next
    case False
    then show ?thesis using c by simp
  qed
  then show "concat (scatter ms (?v # iovs) bs) = blit (concat ms) (i * b + npos) bs"
    using rest by simp
qed

lemma iov_loop_spec:
  assumes "0 < b" "uniform b nodes" "i < length nodes" "npos < b" "0 < len"
    and "i * b + npos + len \<le> b * length nodes"
  shows "\<exists>iovs. iov_loop nodes (Some i) npos (b - npos) len = Inr iovs \<and> iovs_at b nodes (i * b + npos) len iovs"
  using assms(3-)
proof (induction len arbitrary: i npos rule: less_induct)
  case (less len)
  show ?case
  proof (cases "len \<le> b - npos")
    case True
    then show ?thesis
      using less.prems iovs_at_one [of i nodes npos len b]
      by (subst iov_loop.simps) auto
  next
    case False
    have Suc_i: "Suc i < length nodes"
      using less.prems False by (intro next_block_exists [of i b npos len]) auto
    have "\<exists>iovs. iov_loop nodes (Some (Suc i)) 0 (b - 0) (len - (b - npos)) = Inr iovs \<and>
        iovs_at b nodes (Suc i * b + 0) (len - (b - npos)) iovs"
      using less.prems False Suc_i assms(1) by (intro less.IH) auto
    then obtain iovs where iovs: "iov_loop nodes (Some (Suc i)) 0 b (len - (b - npos)) = Inr iovs"
      "iovs_at b nodes (Suc i * b) (len - (b - npos)) iovs" by auto
    have "iov_loop nodes (Some i) npos (b - npos) len = Inr (\<lparr>iov_node = i, iov_off = npos, iov_len = b - npos\<rparr> # iovs)"
      using less.prems False Suc_i iovs(1) assms(2)
      by (subst iov_loop.simps) (simp add: node_next_def node_size_def uniform_nth)
    then show ?thesis using iovs_at_Cons [OF less.prems(1,2) iovs(2)] False less.prems(4) by auto
  qed
qed

text \<open>The buffers a byte array hands out: where its unread bytes are, and where the next ones go.\<close>

lemma getReadBuffers_spec:
  assumes wf: "ba_wf ba" and len: "len \<le> length (unread ba)" "0 < len"
  shows "\<exists>iovs. getReadBuffers len ba = Inr (len, iovs) \<and>
    iovs_at (m_baseSize ba) (m_nodes ba) (m_position ba) len iovs"
proof -
  have p: "m_position ba + len \<le> m_capacity ba"
    using len ba_wfD(5,6) [OF wf] by (simp add: length_unread [OF wf])
  then have "m_position ba < m_capacity ba" using len(2) by simp
  note n = node_size_wf [OF wf this]
  obtain i where i: "m_cur ba = Some i" "i < length (m_nodes ba)"
    "m_position ba = i * m_baseSize ba + m_position ba mod m_baseSize ba" using n(2) by blast
  obtain iovs where "iov_loop (m_nodes ba) (Some i) (m_position ba mod m_baseSize ba)
      (m_baseSize ba - m_position ba mod m_baseSize ba) len = Inr iovs"
    "iovs_at (m_baseSize ba) (m_nodes ba) (m_position ba) len iovs"
    using iov_loop_spec [OF ba_wfD(1,2) [OF wf] i(2) _ len(2), of "m_position ba mod m_baseSize ba"]
      p ba_wfD(1,4) [OF wf] i(3) by auto
  then show ?thesis
    using n(1) i(1) len ba_wfD(1) [OF wf] by (simp add: getReadBuffers_def getReadSize_wf [OF wf])
qed

lemma getWriteBuffers_spec:
  assumes wf: "ba_wf ba" and len: "0 < len"
  shows "\<exists>iovs ba1. getWriteBuffers len ba = (Inr (len, iovs), ba1) \<and> ba_wf ba1 \<and> grown ba ba1 \<and>
    m_position ba + len \<le> m_capacity ba1 \<and>
    iovs_at (m_baseSize ba) (m_nodes ba1) (m_position ba) len iovs"
proof -
  obtain ba1 where g: "addCapacity len ba = (Inr (), ba1)" "ba_wf ba1" "grown ba ba1"
    "m_position ba + len \<le> m_capacity ba1" using addCapacity_spec [OF wf] by blast
  have same: "m_position ba1 = m_position ba" "m_baseSize ba1 = m_baseSize ba" using g(3) by (simp_all add: grown_def)
  then have "m_position ba1 < m_capacity ba1" using len g(4) by simp
  note n = node_size_wf [OF g(2) this]
  obtain i where i: "m_cur ba1 = Some i" "i < length (m_nodes ba1)"
    "m_position ba1 = i * m_baseSize ba1 + m_position ba1 mod m_baseSize ba1" using n(2) by blast
  obtain iovs where "iov_loop (m_nodes ba1) (Some i) (m_position ba1 mod m_baseSize ba1)
      (m_baseSize ba1 - m_position ba1 mod m_baseSize ba1) len = Inr iovs"
    "iovs_at (m_baseSize ba1) (m_nodes ba1) (m_position ba1) len iovs"
    using iov_loop_spec [OF ba_wfD(1,2) [OF g(2)] i(2) _ len, of "m_position ba1 mod m_baseSize ba1"]
      g(4) ba_wfD(1,4) [OF g(2)] i(3) same by auto
  then show ?thesis
    using n(1) i(1) len ba_wfD(1) [OF g(2)] g same by (simp add: getWriteBuffers_def)
qed

text \<open>Received bytes put at the position.\<close>

lemma received_wf:
  assumes wf: "ba_wf ba" and p: "m_position ba + length bs \<le> m_capacity ba"
    and nodes: "uniform (m_baseSize ba) ns" "length ns = length (m_nodes ba)"
      "concat ns = blit (concat (m_nodes ba)) (m_position ba) bs"
  shows "\<exists>ba'. setPosition (m_position ba + length bs) (ba\<lparr>m_nodes := ns\<rparr>) = (Inr (), ba') \<and> ba_wf ba' \<and>
    content ba' = splice (content ba) (m_position ba) bs \<and> m_position ba' = m_position ba + length bs"
proof -
  let ?ba = "ba\<lparr>m_nodes := ns\<rparr>"
  have wf': "ba_wf ?ba"
    using wf nodes(1,2) by (auto simp: ba_wf_def)
  have "splice (content ba) (m_position ba) bs =
      take (max (m_size ba) (m_position ba + length bs)) (blit (concat (m_nodes ba)) (m_position ba) bs)"
    using take_blit_splice [of "m_position ba" "m_size ba" "concat (m_nodes ba)" bs] p ba_wfD(5,6) [OF wf]
    by (cases "m_size ba = m_position ba + length bs")
      (auto simp: content_def length_flat [OF wf] max_def not_le not_less)
  then show ?thesis
    using setPosition_spec [OF wf', of "m_position ba + length bs"] p nodes(3)
      ba_wf_setPosition(2) [OF wf', of "m_position ba + length bs"]
    by (simp add: content_def)
qed

section \<open>What the system promises\<close>

text \<open>
  Receiving: the bytes come in order from what is still to come (\<open>inbox\<close>), at most as many as were
  asked for, and a call that fails or finds the end takes none. Sending: a first part of the
  bytes given is appended to what was sent (\<open>outbox\<close>).
\<close>

definition reads_from :: "(nat \<Rightarrow> 's \<Rightarrow> (int \<times> 'b list) \<times> 's) \<Rightarrow> ('s \<Rightarrow> 'b list) \<Rightarrow> bool" where
  "reads_from rd inbox \<longleftrightarrow>
     (\<forall>n s len new s'. 0 < n \<longrightarrow> rd n s = ((len, new), s') \<longrightarrow>
        (if 0 < len then length new = nat len \<and> nat len \<le> n \<and> inbox s = new @ inbox s'
         else inbox s' = inbox s))"

definition writes_to :: "('b list \<Rightarrow> 's \<Rightarrow> int \<times> 's) \<Rightarrow> ('s \<Rightarrow> 'b list) \<Rightarrow> bool" where
  "writes_to wr outbox \<longleftrightarrow>
     (\<forall>bs s len s'. bs \<noteq> [] \<longrightarrow> wr bs s = (len, s') \<longrightarrow>
        (if 0 < len then nat len \<le> length bs \<and> outbox s' = outbox s @ take (nat len) bs
         else outbox s' = outbox s))"

lemma reads_fromD:
  assumes "reads_from rd inbox" "rd n s = ((len, new), s')" "0 < n"
  shows "0 < len \<Longrightarrow> length new = nat len \<and> nat len \<le> n \<and> inbox s = new @ inbox s'"
    and "len \<le> 0 \<Longrightarrow> inbox s' = inbox s"
  using assms unfolding reads_from_def by fastforce+

lemma writes_toD:
  assumes "writes_to wr outbox" "wr bs s = (len, s')" "bs \<noteq> []"
  shows "0 < len \<Longrightarrow> nat len \<le> length bs \<and> outbox s' = outbox s @ take (nat len) bs"
    and "len \<le> 0 \<Longrightarrow> outbox s' = outbox s"
  using assms unfolding writes_to_def by fastforce+

section \<open>Fixed-size transfers\<close>

lemma read_loop_exact:
  assumes "reads_from rd inbox"
    and "fix_loop (buf_read rd) left (acc, s) = (r, (bs, s'))"
  shows "\<exists>new k. r = Inr k \<and> bs = acc @ new \<and> inbox s = new @ inbox s' \<and>
    (case k of None \<Rightarrow> length new = nat left | Some n \<Rightarrow> n \<le> 0 \<and> length new < nat left)"
  using assms(2)
proof (induction "nat left" arbitrary: left acc s rule: less_induct)
  case less
  show ?case
  proof (cases "0 < left")
    case False
    then show ?thesis using less.prems by (subst (asm) fix_loop.simps) auto
  next
    case True
    obtain len new s1 where rd: "rd (nat left) s = ((len, new), s1)" by (metis prod.exhaust)
    show ?thesis
    proof (cases "len \<le> 0")
      case len: True
      then have "inbox s1 = inbox s" using reads_fromD(2) [OF assms(1) rd] True by simp
      then show ?thesis using less.prems True len rd by (subst (asm) fix_loop.simps) (auto simp: buf_read_def)
    next
      case len: False
      then have new: "length new = nat len" "nat len \<le> nat left" "inbox s = new @ inbox s1"
        using reads_fromD(1) [OF assms(1) rd] True by simp_all
      have "fix_loop (buf_read rd) (left - len) (acc @ new, s1) = (r, (bs, s'))"
        using less.prems True len rd new(1) by (subst (asm) fix_loop.simps) (simp add: buf_read_def)
      from less.hyps [OF _ this] obtain more k where k: "r = Inr k" "bs = (acc @ new) @ more" "inbox s1 = more @ inbox s'"
        "case k of None \<Rightarrow> length more = nat (left - len) | Some n \<Rightarrow> n \<le> 0 \<and> length more < nat (left - len)"
        using True len by auto
      show ?thesis
        by (rule exI [where x = "new @ more"], rule exI [where x = k])
          (use k new True len in \<open>auto split: option.splits\<close>)
    qed
  qed
qed

lemma write_loop_exact:
  assumes "writes_to wr outbox" "nat left = length buf"
    and "fix_loop (buf_write wr) left (buf, s) = (r, (rest, s'))"
  shows "\<exists>sent k. r = Inr k \<and> buf = sent @ rest \<and> outbox s' = outbox s @ sent \<and>
    (case k of None \<Rightarrow> rest = [] | Some n \<Rightarrow> n \<le> 0 \<and> rest \<noteq> [])"
  using assms(2,3)
proof (induction "nat left" arbitrary: left buf s rule: less_induct)
  case less
  show ?case
  proof (cases "0 < left")
    case False
    then show ?thesis using less.prems by (subst (asm) fix_loop.simps) auto
  next
    case True
    obtain len s1 where wr: "wr buf s = (len, s1)" by (metis prod.exhaust)
    have ne: "buf \<noteq> []" using less.prems(1) True by auto
    show ?thesis
    proof (cases "len \<le> 0")
      case len: True
      then have "outbox s1 = outbox s" using writes_toD(2) [OF assms(1) wr ne] by simp
      then show ?thesis using less.prems True len wr ne by (subst (asm) fix_loop.simps) (auto simp: buf_write_def)
    next
      case len: False
      then have sent: "nat len \<le> length buf" "outbox s1 = outbox s @ take (nat len) buf"
        using writes_toD(1) [OF assms(1) wr ne] by simp_all
      have "fix_loop (buf_write wr) (left - len) (drop (nat len) buf, s1) = (r, (rest, s'))"
        using less.prems True len wr by (subst (asm) fix_loop.simps) (simp add: buf_write_def)
      moreover have "nat (left - len) = length (drop (nat len) buf)" "nat (left - len) < nat left"
        using less.prems(1) len True by (simp_all add: nat_diff_distrib')
      ultimately obtain more k where k: "r = Inr k" "drop (nat len) buf = more @ rest"
        "outbox s' = outbox s1 @ more" "case k of None \<Rightarrow> rest = [] | Some n \<Rightarrow> n \<le> 0 \<and> rest \<noteq> []"
        using less.hyps [of "left - len" "drop (nat len) buf" s1] by auto
      have "buf = take (nat len) buf @ more @ rest" using k(2) by (metis append_take_drop_id)
      then show ?thesis using k sent by (intro exI [where x = "take (nat len) buf @ more"] exI [where x = k]) simp
    qed
  qed
qed

text \<open>
  A fixed-size read is complete or says that it is not: under the contract of \<open>read\<close>, for
  lengths an \<open>int\<close> can hold, either all \<open>n\<close> bytes, the next ones to come, are in the buffer and the
  result is \<open>n\<close>, or the result is what the failing call returned (zero or negative) and fewer than
  \<open>n\<close> bytes were taken; nothing is lost, repeated or reordered.
\<close>

theorem readFixSize_exact:
  assumes "reads_from rd inbox" and "n < 2 ^ 31" and "readFixSize rd n s = ((r, bs), s')"
  shows "inbox s = bs @ inbox s' \<and> (r = int n \<and> length bs = n \<or> r \<le> 0 \<and> length bs < n)"
proof -
  obtain k where run: "fix_loop (buf_read rd) (int n) ([], s) = (k, (bs, s'))" "r = fix_result n (projr k)"
    using assms(2,3) by (auto simp: readFixSize_def int64_id split: prod.splits)
  from read_loop_exact [OF assms(1) run(1)] run(2) show ?thesis
    using assms(2) by (auto simp: fix_result_def int32_id split: option.splits)
qed

lemma writeFixSize_exact:
  assumes "writes_to wr outbox" and "length buf < 2 ^ 31" and "writeFixSize wr buf s = (r, s')"
  shows "r = int (length buf) \<and> outbox s' = outbox s @ buf \<or>
    r \<le> 0 \<and> (\<exists>sent rest. buf = sent @ rest \<and> rest \<noteq> [] \<and> outbox s' = outbox s @ sent)"
proof -
  obtain k rest where run: "fix_loop (buf_write wr) (int (length buf)) (buf, s) = (k, (rest, s'))"
    "r = fix_result (length buf) (projr k)"
    using assms(2,3) by (auto simp: writeFixSize_def int64_id split: prod.splits)
  from write_loop_exact [OF assms(1) _ run(1)] run(2) show ?thesis
    using assms(2) by (auto simp: fix_result_def int32_id split: option.splits)
qed

section \<open>Streams over a socket\<close>

definition stream_queue :: "(int \<Rightarrow> 'k \<Rightarrow> 'b list) \<Rightarrow> SocketStream \<times> 'k \<Rightarrow> 'b list" where
  "stream_queue q x = (case ss_socket (fst x) of
     None \<Rightarrow> [] | Some sk \<Rightarrow> if sk_isConnected sk then q (sk_sock sk) (snd x) else [])"

lemma ss_read_reads:
  assumes "\<And>fd. reads_from (net_recv net fd) (inbox fd)"
    and "\<And>fd n k len bs k'. net_recv net fd n k = ((len, bs), k') \<Longrightarrow> - (2 ^ 31) \<le> len \<and> len < 2 ^ 31"
  shows "reads_from (ss_read net) (stream_queue inbox)"
  unfolding reads_from_def
proof (intro allI impI)
  fix n :: nat and x len new x'
  assume n: "0 < n" and run: "ss_read net n x = ((len, new), x')"
  obtain st k where x: "x = (st, k)" by (cases x)
  show "if 0 < len then length new = nat len \<and> nat len \<le> n \<and> stream_queue inbox x = new @ stream_queue inbox x'
      else stream_queue inbox x' = stream_queue inbox x"
  proof (cases "ss_isConnected st")
    case False
    then show ?thesis using run x by (auto simp: ss_read_def)
  next
    case True
    then obtain sk where sk: "ss_socket st = Some sk" "sk_isConnected sk"
      by (auto simp: ss_isConnected_def split: option.splits)
    obtain len0 bs k' where rd: "net_recv net (sk_sock sk) n k = ((len0, bs), k')" by (metis prod.exhaust)
    have "int32 len0 = len0" using assms(2) [OF rd] by (intro int32_id) auto
    then have "len = len0" "new = bs" "snd x' = k'" "ss_socket (fst x') = Some sk"
      using run x sk rd True by (auto simp: ss_read_def with_socket_def)
    then show ?thesis using reads_fromD [OF assms(1) rd n] x sk by (auto simp: stream_queue_def)
  qed
qed

lemma ss_write_writes:
  assumes "\<And>fd. writes_to (net_send net fd) (outbox fd)"
    and "\<And>fd bs k len k'. net_send net fd bs k = (len, k') \<Longrightarrow> - (2 ^ 31) \<le> len \<and> len < 2 ^ 31"
  shows "writes_to (ss_write net) (stream_queue outbox)"
  unfolding writes_to_def
proof (intro allI impI)
  fix bs :: "'a list" and x len x'
  assume n: "bs \<noteq> []" and run: "ss_write net bs x = (len, x')"
  obtain st k where x: "x = (st, k)" by (cases x)
  show "if 0 < len then nat len \<le> length bs \<and> stream_queue outbox x' = stream_queue outbox x @ take (nat len) bs
      else stream_queue outbox x' = stream_queue outbox x"
  proof (cases "ss_isConnected st")
    case False
    then show ?thesis using run x by (auto simp: ss_write_def)
  next
    case True
    then obtain sk where sk: "ss_socket st = Some sk" "sk_isConnected sk"
      by (auto simp: ss_isConnected_def split: option.splits)
    obtain len0 k' where wr: "net_send net (sk_sock sk) bs k = (len0, k')" by (metis prod.exhaust)
    have "int32 len0 = len0" using assms(2) [OF wr] by (intro int32_id) auto
    then have "len = len0" "snd x' = k'" "ss_socket (fst x') = Some sk"
      using run x sk wr True by (auto simp: ss_write_def with_socket_def)
    then show ?thesis using writes_toD [OF assms(1) wr n] x sk by (auto simp: stream_queue_def)
  qed
qed

text \<open>
  Receiving into a byte buffer puts exactly the received bytes at its position: on a
  well-formed buffer and a connected stream, when \<open>recvmsg\<close> answers with some \<open>rt\<close> bytes, the
  content is spliced with them at the position, which moves behind them, and the buffer is well
  formed again; when it answers zero or an error the content and the position are what they were.
\<close>

theorem read_into_buffer:
  assumes "ba_wf ba" and "ss_socket st = Some sk" "sk_isConnected sk" and "0 < n"
    and "\<And>lens. sum_list lens = n \<Longrightarrow> \<exists>rt bs k'. net_recvmsg net (sk_sock sk) lens k = ((rt, bs), k') \<and>
      length bs = nat rt \<and> rt \<le> int n \<and> rt < 2 ^ 31 \<and> - (2 ^ 31) \<le> rt"
  shows "\<exists>lens rt bs ba' k'. net_recvmsg net (sk_sock sk) lens k = ((rt, bs), k') \<and> sum_list lens = n \<and>
    ss_read_ba net n (ba, (st, k)) = (Inr rt, (ba', (st, k'))) \<and> ba_wf ba' \<and>
    content ba' = splice (content ba) (m_position ba) bs \<and> m_position ba' = m_position ba + length bs"
proof -
  obtain iovs ba1 where w: "getWriteBuffers n ba = (Inr (n, iovs), ba1)" "ba_wf ba1" "grown ba ba1"
    "m_position ba + n \<le> m_capacity ba1" "iovs_at (m_baseSize ba) (m_nodes ba1) (m_position ba) n iovs"
    using getWriteBuffers_spec [OF assms(1,4)] by blast
  have same: "m_position ba1 = m_position ba" "m_baseSize ba1 = m_baseSize ba" "content ba1 = content ba"
    using w(3) content_grown [OF assms(1) w(3)] by (simp_all add: grown_def)
  have lens: "sum_list (map iov_len iovs) = n" using w(5) by (simp add: iovs_at_def)
  obtain rt bs k' where rc: "net_recvmsg net (sk_sock sk) (map iov_len iovs) k = ((rt, bs), k')"
    "length bs = nat rt" "rt \<le> int n" "rt < 2 ^ 31" "- (2 ^ 31) \<le> rt"
    using assms(5) [OF lens] by blast
  let ?ns = "scatter (m_nodes ba1) iovs bs"
  have ns: "uniform (m_baseSize ba1) ?ns" "length ?ns = length (m_nodes ba1)"
    "concat ?ns = blit (concat (m_nodes ba1)) (m_position ba1) bs"
    using w(5) ba_wfD(2) [OF w(2)] rc(2,3) same unfolding iovs_at_def by auto
  have p1: "m_position ba1 + length bs \<le> m_capacity ba1" using w(4) rc(2,3) same by linarith
  obtain ba' where ba': "setPosition (m_position ba1 + length bs) (ba1\<lparr>m_nodes := ?ns\<rparr>) = (Inr (), ba')" "ba_wf ba'"
    "content ba' = splice (content ba1) (m_position ba1) bs" "m_position ba' = m_position ba1 + length bs"
    using received_wf [OF w(2) p1 ns] by blast
  have st: "st\<lparr>ss_socket := Some sk\<rparr> = st" using assms(2) by (cases st) simp
  have call: "with_socket (Socket_recv_iov net (map iov_len iovs)) (st, k) = ((rt, bs), (st, k'))"
    using assms(2,3) rc st by (simp add: with_socket_def int32_id)
  have run: "ss_read_ba net n (ba, (st, k)) = (Inr rt, ((if 0 < rt then ba' else ba1), (st, k')))"
    using w(1) call ba'(1) rc(2) assms(2,3) by (cases "0 < rt") (simp_all add: ss_read_ba_def ss_isConnected_def)
  moreover have "content ba1 = splice (content ba) (m_position ba) []"
    using same by (simp add: splice_def)
  ultimately show ?thesis
    using rc lens ba' w(2) same
    by (intro exI [where x = "map iov_len iovs"] exI [where x = rt] exI [where x = bs]
        exI [where x = "if 0 < rt then ba' else ba1"] exI [where x = k']) auto
qed

lemma write_from_buffer:
  assumes "ba_wf ba" and "ss_socket st = Some sk" "sk_isConnected sk" and "0 < n" "n \<le> length (unread ba)"
  shows "\<exists>parts. concat parts = take n (unread ba) \<and>
    (\<forall>rt k'. net_sendmsg net (sk_sock sk) parts k = (rt, k') \<longrightarrow> rt \<le> int n \<longrightarrow> rt < 2 ^ 31 \<longrightarrow> - (2 ^ 31) \<le> rt \<longrightarrow>
       (\<exists>ba'. ss_write_ba net n (ba, (st, k)) = (Inr rt, (ba', (st, k'))) \<and> ba_wf ba' \<and>
          content ba' = content ba \<and> unread ba' = drop (nat rt) (unread ba)))"
proof -
  obtain iovs where r: "getReadBuffers n ba = Inr (n, iovs)"
    "iovs_at (m_baseSize ba) (m_nodes ba) (m_position ba) n iovs"
    using getReadBuffers_spec [OF assms(1,5,4)] by blast
  let ?parts = "gather (m_nodes ba) iovs"
  have "concat ?parts = take n (drop (m_position ba) (concat (m_nodes ba)))"
    using r(2) ba_wfD(2) [OF assms(1)] unfolding iovs_at_def by blast
  also have "\<dots> = take n (unread ba)"
    using assms(5) length_unread [OF assms(1)] by (simp add: unread_def content_def drop_take min_absorb1)
  finally have parts: "concat ?parts = take n (unread ba)" .
  have st: "st\<lparr>ss_socket := Some sk\<rparr> = st" using assms(2) by (cases st) simp
  have "\<exists>ba'. ss_write_ba net n (ba, (st, k)) = (Inr rt, (ba', (st, k'))) \<and> ba_wf ba' \<and>
      content ba' = content ba \<and> unread ba' = drop (nat rt) (unread ba)"
    if rt: "net_sendmsg net (sk_sock sk) ?parts k = (rt, k')" "rt \<le> int n" "rt < 2 ^ 31" "- (2 ^ 31) \<le> rt" for rt k'
  proof -
    have p: "m_position ba + nat rt \<le> m_size ba"
      using rt(2) assms(4,5) length_unread [OF assms(1)] by auto
    obtain ba' where ba': "setPosition (m_position ba + nat rt) ba = (Inr (), ba')" "ba_wf ba'" "content ba' = content ba"
      "unread ba' = drop (m_position ba + nat rt) (content ba)"
      using setPosition_back [OF assms(1) p] by metis
    have call: "with_socket (Socket_send_iov net ?parts) (st, k) = (rt, (st, k'))"
      using assms(2,3) rt st by (simp add: with_socket_def int32_id)
    have "ss_write_ba net n (ba, (st, k)) = (Inr rt, ((if 0 < rt then ba' else ba), (st, k')))"
      using r(1) call ba'(1) assms(2,3) by (cases "0 < rt") (simp_all add: ss_write_ba_def ss_isConnected_def)
    then show ?thesis using ba' assms(1)
      by (intro exI [where x = "if 0 < rt then ba' else ba"]) (auto simp: unread_def add.commute)
  qed
  then show ?thesis using parts by (intro exI [where x = ?parts]) auto
qed

section \<open>A system that follows a script\<close>

text \<open>
  A system that satisfies the contracts, to run the model on: what arrives, one segment per call
  at most, what was sent (at most 65536 bytes per call), whether the connection was closed.
\<close>

record 'b script =
  sc_in :: "'b list list"
  sc_out :: "'b list"
  sc_closed :: bool

definition script_recv :: "int \<Rightarrow> nat \<Rightarrow> 'b script \<Rightarrow> (int \<times> 'b list) \<times> 'b script" where
  "script_recv fd n k =
     (case dropWhile (\<lambda>seg. seg = []) (sc_in k) of
        [] \<Rightarrow> ((0, []), k)
      | seg # segs \<Rightarrow>
          ((int (min n (length seg)), take n seg),
           k\<lparr>sc_in := (if length seg \<le> n then segs else drop n seg # segs)\<rparr>))"

definition script_send :: "int \<Rightarrow> 'b list \<Rightarrow> 'b script \<Rightarrow> int \<times> 'b script" where
  "script_send fd bs k = (int (min 65536 (length bs)), k\<lparr>sc_out := sc_out k @ take 65536 bs\<rparr>)"

definition script_net :: "('b, 'b script) net" where
  "script_net =
     \<lparr>net_recv = script_recv, net_recvmsg = \<lambda>fd lens. script_recv fd (sum_list lens),
      net_send = script_send, net_sendmsg = \<lambda>fd parts. script_send fd (concat parts),
      net_close = \<lambda>fd k. k\<lparr>sc_closed := True\<rparr>\<rparr>"

lemma concat_dropWhile_Nil: "concat (dropWhile (\<lambda>seg. seg = []) segs) = concat segs"
  by (induction segs) auto

lemma script_recv_reads: "reads_from (script_recv fd) (\<lambda>k. concat (sc_in k))"
proof -
  have "concat (sc_in k) = seg @ concat segs" if "dropWhile (\<lambda>seg. seg = []) (sc_in k) = seg # segs" for k :: "'a script" and seg segs
    using concat_dropWhile_Nil [of "sc_in k"] that by simp
  then show ?thesis
    by (auto simp: reads_from_def script_recv_def split: list.splits if_splits)
qed

lemma script_send_writes: "writes_to (script_send fd) sc_out"
  by (auto simp: writes_to_def script_send_def min_def)

lemma readFixSize_exact_witness:
  "\<exists>r bs s'. readFixSize (script_recv 3) 4 \<lparr>sc_in = [''ab'', ''cde''], sc_out = [], sc_closed = False\<rparr> = ((r, bs), s') \<and>
     ''abcde'' = bs @ concat (sc_in s')"
proof -
  let ?s = "\<lparr>sc_in = [''ab'', ''cde''], sc_out = [], sc_closed = False\<rparr>"
  obtain r bs s' where run: "readFixSize (script_recv 3) 4 ?s = ((r, bs), s')" by (metis prod.exhaust)
  from readFixSize_exact [OF script_recv_reads _ run] run show ?thesis by auto
qed

definition sample_stream :: SocketStream where
  "sample_stream = \<lparr>ss_socket = Some ((Socket_new 2 1 0)\<lparr>sk_sock := 7, sk_isConnected := True\<rparr>), ss_owner = True\<rparr>"

lemma read_into_buffer_witness:
  "\<exists>ba' k'. ss_read_ba script_net 3 (ByteArray_new (\<lambda>_ _. 0) 2, (sample_stream, \<lparr>sc_in = [[1, 2]], sc_out = [], sc_closed = False\<rparr>))
     = (Inr 2, (ba', (sample_stream, k'))) \<and> content ba' = [1, 2]"
proof -
  let ?ba = "ByteArray_new (\<lambda>_ _. 0) 2" and ?k = "\<lparr>sc_in = [[1, 2]], sc_out = [], sc_closed = False\<rparr> :: byte script"
  let ?sk = "(Socket_new 2 1 0)\<lparr>sk_sock := 7, sk_isConnected := True\<rparr>"
  have 1: "ba_wf ?ba" by (rule ba_wf_new) simp
  have 2: "ss_socket sample_stream = Some ?sk" "sk_isConnected ?sk" by (simp_all add: sample_stream_def)
  have call: "net_recvmsg script_net (sk_sock ?sk) lens ?k = ((2, [1, 2]), ?k\<lparr>sc_in := []\<rparr>)"
    if "sum_list lens = 3" for lens
    using that by (simp add: script_net_def script_recv_def)
  have 3: "\<exists>rt bs k'. net_recvmsg script_net (sk_sock ?sk) lens ?k = ((rt, bs), k') \<and>
      length bs = nat rt \<and> rt \<le> int 3 \<and> rt < 2 ^ 31 \<and> - (2 ^ 31) \<le> rt" if "sum_list lens = 3" for lens
    using call [OF that] by simp
  obtain lens rt bs ba' k' where r: "net_recvmsg script_net (sk_sock ?sk) lens ?k = ((rt, bs), k')" "sum_list lens = 3"
    "ss_read_ba script_net 3 (?ba, (sample_stream, ?k)) = (Inr rt, (ba', (sample_stream, k')))"
    "content ba' = splice (content ?ba) (m_position ?ba) bs"
    using read_into_buffer [OF 1 2 _ 3] by auto
  have "rt = 2" "bs = [1, 2]" using r(1) call [OF r(2)] by auto
  moreover have "splice (content ?ba) (m_position ?ba) [1, 2] = [1, 2]" by code_simp
  ultimately show ?thesis using r by (intro exI [where x = ba'] exI [where x = k']) simp
qed

end
