(* ===== verification/HttpSession_Props.thy ===== *)
theory HttpSession_Props
  imports HttpSession Http11_Roundtrip SocketStream_Props
begin

text \<open>
  The server's side of a connection from end to end: a request that was written by \<open>dump\<close> and
  arrives in any number of reads comes out of \<open>recvRequest\<close> with its body, and what happens to
  bytes behind it; the loop of the server answers the requests of a connection in order.
\<close>

section \<open>Streams that deliver\<close>

text \<open>No call fails while there is something to come.\<close>

definition delivers :: "(nat \<Rightarrow> 's \<Rightarrow> (int \<times> 'b list) \<times> 's) \<Rightarrow> ('s \<Rightarrow> 'b list) \<Rightarrow> bool" where
  "delivers rd inbox \<longleftrightarrow> (\<forall>n s. 0 < n \<longrightarrow> inbox s \<noteq> [] \<longrightarrow> 0 < fst (fst (rd n s)))"

lemma read_loop_delivers:
  assumes "reads_from rd inbox" "delivers rd inbox" "nat left \<le> length (inbox s)"
  shows "fst (fix_loop (buf_read rd) left (acc, s)) = Inr None"
  using assms(3)
proof (induction "nat left" arbitrary: left acc s rule: less_induct)
  case less
  show ?case
  proof (cases "0 < left")
    case False
    then show ?thesis by (subst fix_loop.simps) simp
  next
    case True
    obtain len new s1 where rd: "rd (nat left) s = ((len, new), s1)" by (metis prod.exhaust)
    have "inbox s \<noteq> []" using less.prems True by auto
    then have len: "0 < len" using assms(2) True rd unfolding delivers_def by (metis fst_conv zero_less_nat_eq)
    then have new: "length new = nat len" "nat len \<le> nat left" "inbox s = new @ inbox s1"
      using reads_fromD(1) [OF assms(1) rd] True by simp_all
    then have "length (inbox s) = nat len + length (inbox s1)" by simp
    then have "nat (left - len) \<le> length (inbox s1)" "nat (left - len) < nat left"
      using less.prems len True by (simp_all add: nat_diff_distrib')
    then show ?thesis using less.hyps [of "left - len" s1] True len rd new
      by (subst fix_loop.simps) (simp add: buf_read_def)
  qed
qed

lemma readFixSize_delivers:
  assumes "reads_from rd inbox" "delivers rd inbox" "n \<le> length (inbox s)" "0 < n" "n < 2 ^ 31"
  shows "\<exists>s'. readFixSize rd n s = ((int n, take n (inbox s)), s') \<and> inbox s' = drop n (inbox s)"
proof -
  obtain r bs s' where run: "readFixSize rd n s = ((r, bs), s')" by (metis prod.exhaust)
  obtain k where k: "fix_loop (buf_read rd) (int n) ([], s) = (k, (bs, s'))" "r = fix_result n (projr k)"
    using run assms(5) by (auto simp: readFixSize_def int64_id split: prod.splits)
  then have "k = Inr None" using read_loop_delivers [OF assms(1,2), of "int n" s "[]"] assms(3) by simp
  then have r: "r = int n" using k(2) assms(5) by (simp add: fix_result_def int32_id)
  have "inbox s = bs @ inbox s'" "length bs = n"
    using read_loop_exact [OF assms(1) k(1)] \<open>k = Inr None\<close> by auto
  then show ?thesis using run r by simp
qed

section \<open>Receiving\<close>

lemma received_length:
  assumes "sorted_wrt (\<lambda>x y. ci_key (fst x) < ci_key (fst y)) (req_headers q)"
    and "req_body q = [] \<Longrightarrow> req_hasHeader q ''content-length'' = None"
    and "conv (show_nat (length (req_body q))) = Some (length (req_body q))"
    and "rp_data R = received q"
  shows "request_getContentLength conv R = length (req_body q)"
proof -
  have "ci_key ''content-length'' \<noteq> ci_key ''connection''" by code_simp
  then have "map_find CaseInsensitiveLess ''content-length'' (req_headers (rp_data R)) =
      (if req_body q = [] then None else Some (show_nat (length (req_body q))))"
    using received_headers [OF assms(1), of "''content-length''"] assms(2,4)
    by (auto simp: req_hasHeader_def)
  then show ?thesis using assms(3) by (simp add: request_getContentLength_def getAs_def)
qed

lemma recv_body_delivers:
  assumes "reads_from rd inbox" "delivers rd inbox" and "len < 2 ^ 31" "len \<le> length data + length (inbox s)"
  shows "\<exists>s'. recv_body rd cl len data s = (Some (take len (data @ inbox s)), s') \<and>
    inbox s' = drop (len - length data) (inbox s)"
proof (cases "length data < len")
  case True
  then have n: "len - length data \<le> length (inbox s)" "0 < len - length data" "len - length data < 2 ^ 31"
    using assms(3,4) by linarith+
  then obtain s' where "readFixSize rd (len - length data) s =
      ((int (len - length data), take (len - length data) (inbox s)), s')"
    "inbox s' = drop (len - length data) (inbox s)"
    using readFixSize_delivers [OF assms(1,2) n] by blast
  then show ?thesis using True by (simp add: recv_body_def)
qed (simp add: recv_body_def)

lemma recv_head_at_once:
  assumes "sendable q" and "rd s_http_request_buffer_size s = ((int (length new), new), s1)"
    and "new = req_head q @ x" "length new \<le> s_http_request_buffer_size"
  shows "\<exists>R. recv_head rd cl (HttpRequestParser_new P) [] s = Some (Inr (Some (R, x)), s1) \<and> rp_data R = received q"
proof -
  have "length new < 2 ^ 63" using assms(4) by (simp add: s_http_request_buffer_size_def)
  then obtain R where R: "request_execute (HttpRequestParser_new P) new = Inr (length (req_head q), x, R)"
    "request_isFinished R = 1" "\<not> request_hasError R" "rp_data R = received q"
    using request_head_parse [OF assms(1), of x P] assms(3) by auto
  have "length (req_head q) > 0" by (simp add: req_head_def crlf_def)
  then have "length x \<noteq> s_http_request_buffer_size" "new \<noteq> []" using assms(3,4) by auto
  then show ?thesis using R assms(2)
    by (intro exI [where x = R], subst recv_head.simps) simp
qed

lemma recvRequest_step:
  assumes "sendable q" and "rd s_http_request_buffer_size s = ((int (length new), new), s1)"
    and "new = req_head q @ x" "length new \<le> s_http_request_buffer_size"
    and "sorted_wrt (\<lambda>x y. ci_key (fst x) < ci_key (fst y)) (req_headers q)"
    and "req_body q = [] \<Longrightarrow> req_hasHeader q ''content-length'' = None"
    and "conv (show_nat (length (req_body q))) = Some (length (req_body q))"
    and "length (req_body q) < 2 ^ 31"
    and "recv_body rd cl (length (req_body q)) x s1 = (Some (req_body q), s')"
  shows "recvRequest rd cl conv P s = Some (Inr (Some (req_init ((received q)\<lparr>req_body := req_body q\<rparr>))), s')"
proof -
  obtain R where R: "recv_head rd cl (HttpRequestParser_new P) [] s = Some (Inr (Some (R, x)), s1)" "rp_data R = received q"
    using recv_head_at_once [of q rd s new s1 x cl P] assms(1-4) by blast
  have "request_getContentLength conv R = length (req_body q)"
    using received_length [of q conv R] assms(5,6,7) R(2) by blast
  moreover have "req_body (set_headers hs r) = req_body r" for hs r
    by (induction hs arbitrary: r) (auto simp: set_headers_def req_setHeader_def)
  then have "req_body (received q) = []" by (simp add: received_def HttpRequest_new_def)
  then have "(received q)\<lparr>req_body := []\<rparr> = received q" by (cases "received q") simp
  ultimately show ?thesis
    using R assms(8,9) by (auto simp: recvRequest_def Let_def int64_id recv_body_def)
qed

lemma show_nat_body: "req_body (req_init r) = req_body r" "req_method (req_init r) = req_method r"
  "req_path (req_init r) = req_path r" "req_query (req_init r) = req_query r"
  "req_version (req_init r) = req_version r" "req_headers (req_init r) = req_headers r"
  by (simp_all add: req_init_def Let_def)

text \<open>
  C19. A request sent is received: when the next bytes to come are what \<open>dump\<close> writes for a
  well-formed request, the stream delivers, and the first read brings at least the whole head,
  \<open>recvRequest\<close> returns the request with its method, path, query, version and body, in however many
  reads the rest of the body comes. Bytes behind the request stay in the stream, except those
  that came with the first read, which are dropped: a pipelined request is lost.
\<close>

theorem recvRequest_delivers:
  assumes "sendable q" and "sorted_wrt (\<lambda>x y. ci_key (fst x) < ci_key (fst y)) (req_headers q)"
    and "req_body q = [] \<Longrightarrow> req_hasHeader q ''content-length'' = None" and "length (req_body q) < 2 ^ 31"
    and "conv (show_nat (length (req_body q))) = Some (length (req_body q))"
    and "reads_from rd inbox" "delivers rd inbox" and "inbox s = req_dump q @ rest"
    and "rd s_http_request_buffer_size s = ((n, new), s1)" "length (req_head q) \<le> length new"
  shows "\<exists>r s'. recvRequest rd cl conv P s = Some (Inr (Some r), s') \<and>
    req_method r = req_method q \<and> req_path r = req_path q \<and> req_query r = req_query q \<and>
    req_version r = req_version q \<and> req_body r = req_body q \<and>
    inbox s' = drop (length new - length (req_dump q)) rest"
proof -
  have dump: "req_dump q = req_head q @ req_body q" by (rule req_dump_parts [OF assms(1)])
  have "inbox s \<noteq> []" using assms(8) dump by (simp add: req_head_def crlf_def)
  moreover have buf: "0 < s_http_request_buffer_size" by (simp add: s_http_request_buffer_size_def)
  ultimately have "0 < fst (fst (rd s_http_request_buffer_size s))" using assms(7) unfolding delivers_def by blast
  then have "0 < n" using assms(9) by simp
  then have new: "length new = nat n" "nat n \<le> s_http_request_buffer_size" "inbox s = new @ inbox s1"
    using reads_fromD(1) [OF assms(6,9) buf] by simp_all
  have eq: "req_head q @ (req_body q @ rest) = new @ inbox s1" using assms(8) dump new(3) by simp
  define x where "x = drop (length (req_head q)) new"
  have "take (length (req_head q)) new = req_head q"
    using arg_cong [OF eq, of "take (length (req_head q))"] assms(10) by simp
  then have nx: "new = req_head q @ x" unfolding x_def by (metis append_take_drop_id)
  then have rest: "req_body q @ rest = x @ inbox s1" using eq by simp
  have "length (req_body q) \<le> length x + length (inbox s1)"
    using arg_cong [OF rest, of length] by simp
  from recv_body_delivers [OF assms(6,7,4) this, of cl] obtain s'
    where s': "recv_body rd cl (length (req_body q)) x s1 = (Some (take (length (req_body q)) (x @ inbox s1)), s')"
      "inbox s' = drop (length (req_body q) - length x) (inbox s1)" by blast
  have body: "take (length (req_body q)) (x @ inbox s1) = req_body q"
    using arg_cong [OF rest, of "take (length (req_body q))"] by simp
  have "recvRequest rd cl conv P s = Some (Inr (Some (req_init ((received q)\<lparr>req_body := req_body q\<rparr>))), s')"
    using recvRequest_step [of q rd s new s1 x conv cl s' P] s'(1) body assms(1-5,9) nx new \<open>0 < n\<close> by simp
  moreover have "inbox s' = drop (length new - length (req_dump q)) rest"
  proof -
    have "drop (length (req_body q)) (x @ inbox s1) = rest"
      using arg_cong [OF rest, of "drop (length (req_body q))"] by simp
    then show ?thesis
    proof (cases "length (req_body q) \<le> length x")
      case True
      then have "rest = drop (length (req_body q)) x @ inbox s1"
        using \<open>drop (length (req_body q)) (x @ inbox s1) = rest\<close> by simp
      then show ?thesis using True s'(2) nx dump by simp
    next
      case False
      then show ?thesis using \<open>drop (length (req_body q)) (x @ inbox s1) = rest\<close> s'(2) nx dump by simp
    qed
  qed
  ultimately show ?thesis
    using assms(1) by (simp add: show_nat_body received_def received_rest sendable_def HttpRequest_new_def)
qed

lemma script_recv_delivers: "delivers (script_recv fd) (\<lambda>k. concat (sc_in k))"
  unfolding delivers_def
proof (intro allI impI)
  fix n :: nat and k :: "'a script"
  assume n: "0 < n" and ne: "concat (sc_in k) \<noteq> []"
  have "concat (dropWhile (\<lambda>seg. seg = []) (sc_in k)) \<noteq> []" using ne by (simp add: concat_dropWhile_Nil)
  then obtain seg segs where d: "dropWhile (\<lambda>seg. seg = []) (sc_in k) = seg # segs"
    by (cases "dropWhile (\<lambda>seg. seg = []) (sc_in k)") auto
  then have "seg \<noteq> []" using hd_dropWhile [of "\<lambda>seg. seg = []" "sc_in k"] by simp
  then show "0 < fst (fst (script_recv fd n k))" using n d by (simp add: script_recv_def)
qed

lemma recvRequest_delivers_witness:
  "\<exists>r s'. recvRequest (script_recv 7) (\<lambda>s. s) (\<lambda>t. if t = ''2'' then Some 2 else None) zero_parser
      \<lparr>sc_in = [req_head sample_request @ ''a'', ''b'', ''next''], sc_out = [], sc_closed = False\<rparr>
    = Some (Inr (Some r), s') \<and> req_body r = ''ab'' \<and> concat (sc_in s') = ''next''"
proof -
  let ?s = "\<lparr>sc_in = [req_head sample_request @ ''a'', ''b'', ''next''], sc_out = [], sc_closed = False\<rparr>"
  let ?conv = "\<lambda>t. if t = ''2'' then Some 2 else None :: nat option"
  have 1: "sendable sample_request" by code_simp
  have 2: "sorted_wrt (\<lambda>x y. ci_key (fst x) < ci_key (fst y)) (req_headers sample_request)"
    by (simp add: sample_request_def HttpRequest_new_def)
  have body: "req_body sample_request = ''ab''" by code_simp
  have 3: "?conv (show_nat (length (req_body sample_request))) = Some (length (req_body sample_request))"
    by (simp add: body) code_simp
  have "length (req_head sample_request) < 200" by code_simp
  then have head: "length (req_head sample_request) + 1 \<le> s_http_request_buffer_size"
    by (simp add: s_http_request_buffer_size_def)
  have dump: "req_dump sample_request = req_head sample_request @ ''ab''"
    using req_dump_parts [OF 1] body by simp
  then have 4: "concat (sc_in ?s) = req_dump sample_request @ ''next''" by simp
  have 5: "script_recv 7 s_http_request_buffer_size ?s =
      ((int (length (req_head sample_request) + 1), req_head sample_request @ ''a''),
       ?s\<lparr>sc_in := [''b'', ''next'']\<rparr>)"
    using head by (simp add: script_recv_def)
  show ?thesis
    using recvRequest_delivers [where q = sample_request and rd = "script_recv 7" and inbox = "\<lambda>k. concat (sc_in k)"
        and s = ?s and cl = "\<lambda>s. s" and P = zero_parser and conv = ?conv and rest = "''next''"
        and new = "req_head sample_request @ ''a''", OF 1 2 _ _ 3 script_recv_reads script_recv_delivers 4 5]
      body dump by simp blast
qed

section \<open>The server\<close>

definition closed_stream :: "Socket \<Rightarrow> SocketStream \<Rightarrow> SocketStream" where
  "closed_stream sk st = st\<lparr>ss_socket := Some (sk\<lparr>sk_isConnected := False, sk_sock := - 1\<rparr>)\<rparr>"

lemma ss_connected:
  assumes "ss_socket st = Some sk" "sk_isConnected sk"
  shows "ss_read script_net n (st, k) = (case script_recv (sk_sock sk) n k of ((r, bs), k') \<Rightarrow> ((int32 r, bs), (st, k')))"
    and "ss_write script_net bs (st, k) = (case script_send (sk_sock sk) bs k of (r, k') \<Rightarrow> (int32 r, (st, k')))"
    and "sk_sock sk \<noteq> - 1 \<Longrightarrow> ss_close script_net (st, k) = (closed_stream sk st, k\<lparr>sc_closed := True\<rparr>)"
proof -
  have "st\<lparr>ss_socket := Some sk\<rparr> = st" using assms(1) by (cases st) simp
  then show "ss_read script_net n (st, k) = (case script_recv (sk_sock sk) n k of ((r, bs), k') \<Rightarrow> ((int32 r, bs), (st, k')))"
    "ss_write script_net bs (st, k) = (case script_send (sk_sock sk) bs k of (r, k') \<Rightarrow> (int32 r, (st, k')))"
    using assms by (simp_all add: ss_read_def ss_write_def ss_isConnected_def with_socket_def script_net_def split: prod.splits)
  show "sk_sock sk \<noteq> - 1 \<Longrightarrow> ss_close script_net (st, k) = (closed_stream sk st, k\<lparr>sc_closed := True\<rparr>)"
    using assms by (simp add: ss_close_def with_socket_def script_net_def closed_stream_def Let_def)
qed

lemma closed_again: "ss_close net (closed_stream sk st, k) = (closed_stream sk st, k)"
  by (simp add: ss_close_def with_socket_def closed_stream_def Let_def)

lemma closed_not_connected: "\<not> ss_isConnected (closed_stream sk st)"
  by (simp add: closed_stream_def ss_isConnected_def)

lemma send_all:
  assumes "ss_socket st = Some sk" "sk_isConnected sk" "length bs < 2 ^ 63"
  shows "\<exists>r. writeFixSize (ss_write script_net) bs (st, k) = (r, (st, k\<lparr>sc_out := sc_out k @ bs\<rparr>))"
proof -
  have "fix_loop (buf_write (ss_write script_net)) (int (length bs)) (bs, (st, k))
      = (Inr None, ([], (st, k\<lparr>sc_out := sc_out k @ bs\<rparr>)))"
  proof (induction "length bs" arbitrary: bs k rule: less_induct)
    case less
    show ?case
    proof (cases "bs = []")
      case True
      then show ?thesis by (subst fix_loop.simps) simp
    next
      case False
      let ?m = "min 65536 (length bs)"
      have "int32 (int ?m) = int ?m" by (intro int32_id) simp_all
      then have step: "buf_write (ss_write script_net) (length bs) (bs, (st, k))
          = (Inr (int ?m), (drop ?m bs, (st, k\<lparr>sc_out := sc_out k @ take 65536 bs\<rparr>)))"
        by (simp add: buf_write_def ss_connected(2) [OF assms(1,2)] script_send_def)
      have "fix_loop (buf_write (ss_write script_net)) (int (length (drop ?m bs))) (drop ?m bs, (st, k\<lparr>sc_out := sc_out k @ take 65536 bs\<rparr>))
          = (Inr None, ([], (st, k\<lparr>sc_out := sc_out k @ take 65536 bs, sc_out := (sc_out k @ take 65536 bs) @ drop ?m bs\<rparr>)))"
        using less [of "drop ?m bs" "k\<lparr>sc_out := sc_out k @ take 65536 bs\<rparr>"] False by simp
      moreover have "int (length (drop ?m bs)) = int (length bs) - int ?m" by simp
      moreover have "take 65536 bs @ drop ?m bs = bs" by (cases "length bs \<le> 65536") auto
      moreover have "0 < length bs" "0 < ?m" using False by auto
      ultimately show ?thesis using step by (subst fix_loop.simps) simp
    qed
  qed
  then show ?thesis using assms(3) by (simp add: writeFixSize_def int64_id)
qed

text \<open>A request a client may send in one segment, and what \<open>recvRequest\<close> makes of it.\<close>

definition plain_request :: "(string \<Rightarrow> nat option) \<Rightarrow> HttpRequest \<Rightarrow> bool" where
  "plain_request conv q \<longleftrightarrow>
     sendable q \<and> sorted_wrt (\<lambda>x y. ci_key (fst x) < ci_key (fst y)) (req_headers q) \<and>
     (req_body q \<noteq> [] \<or> req_hasHeader q ''content-length'' = None) \<and>
     conv (show_nat (length (req_body q))) = Some (length (req_body q)) \<and>
     length (req_dump q) \<le> s_http_request_buffer_size"

definition got :: "HttpRequest \<Rightarrow> HttpRequest" where
  "got q = req_init ((received q)\<lparr>req_body := req_body q\<rparr>)"

lemma script_recv_segment:
  assumes "sc_in k = seg # segs" "seg \<noteq> []" "length seg \<le> n"
  shows "script_recv fd n k = ((int (length seg), seg), k\<lparr>sc_in := segs\<rparr>)"
  using assms by (simp add: script_recv_def)

lemma recv_plain:
  assumes q: "plain_request conv q" and st: "ss_socket st = Some sk" "sk_isConnected sk"
    and k: "sc_in k = req_dump q # segs"
  shows "recvRequest (ss_read script_net) cl conv P (st, k) = Some (Inr (Some (got q)), (st, k\<lparr>sc_in := segs\<rparr>))"
proof -
  have sq: "sendable q" and len: "length (req_dump q) \<le> s_http_request_buffer_size" using q by (simp_all add: plain_request_def)
  have dump: "req_dump q = req_head q @ req_body q" by (rule req_dump_parts [OF sq])
  have ne: "req_dump q \<noteq> []" using dump by (simp add: req_head_def crlf_def)
  have "int32 (int (length (req_dump q))) = int (length (req_dump q))"
    using len by (intro int32_id) (simp_all add: s_http_request_buffer_size_def)
  then have rd: "ss_read script_net s_http_request_buffer_size (st, k)
      = ((int (length (req_dump q)), req_dump q), (st, k\<lparr>sc_in := segs\<rparr>))"
    using script_recv_segment [OF k ne len] by (simp add: ss_connected(1) [OF st])
  have "length (req_body q) < 2 ^ 31" using len dump by (simp add: s_http_request_buffer_size_def)
  then show ?thesis unfolding got_def
    using recvRequest_step [of q "ss_read script_net" "(st, k)" "req_dump q" "(st, k\<lparr>sc_in := segs\<rparr>)" "req_body q" conv cl
        "(st, k\<lparr>sc_in := segs\<rparr>)" P] sq rd dump len q by (simp add: plain_request_def recv_body_def)
qed

text \<open>The responses of a server whose servlets do not touch the session: \<open>f\<close> is what they answer.\<close>

fun served ::
  "'s HttpServer \<Rightarrow> (HttpRequest \<Rightarrow> HttpResponse \<Rightarrow> HttpRequest \<times> HttpResponse) \<Rightarrow> HttpRequest list \<Rightarrow> HttpResponse list"
where
  "served srv f [] = []"
| "served srv f (q # qs) =
     (let r = got q;
          rsp = rsp_setHeader ''Server'' (hs_name srv)
                  (HttpResponse_new (req_version r) (req_close r \<or> \<not> hs_isKeepalive srv))
      in snd (f r rsp) # (if hs_isKeepalive srv \<and> \<not> req_close (fst (f r rsp)) then served srv f qs else []))"

lemma serve_answers:
  assumes "\<And>req rsp s. \<exists>c. dispatch_handle fnmatch (hs_dispatch srv) req rsp s = (c, fst (f req rsp), snd (f req rsp), s)"
    and "ss_socket st = Some sk" "sk_isConnected sk"
    and "rsp = rsp_setHeader ''Server'' (hs_name srv)
          (HttpResponse_new (req_version r) (req_close r \<or> \<not> hs_isKeepalive srv))"
    and "length (rsp_dump (snd (f r rsp))) < 2 ^ 63"
  shows "serve fnmatch (ss_write script_net) srv r (st, k) =
    (hs_isKeepalive srv \<and> \<not> req_close (fst (f r rsp)), (st, k\<lparr>sc_out := sc_out k @ rsp_dump (snd (f r rsp))\<rparr>))"
proof -
  obtain c where c: "dispatch_handle fnmatch (hs_dispatch srv) r rsp (st, k) = (c, fst (f r rsp), snd (f r rsp), (st, k))"
    using assms(1) by blast
  show ?thesis
    using c send_all [OF assms(2,3,5), of k] assms(4) by (auto simp: serve_def sendResponse_def Let_def)
qed

text \<open>The loop over requests that come one segment each.\<close>

lemma handle_loop_answers:
  assumes "ss_socket st = Some sk" "sk_isConnected sk" "sk_sock sk \<noteq> - 1"
    and "\<And>req rsp s. \<exists>c. dispatch_handle fnmatch (hs_dispatch srv) req rsp s = (c, fst (f req rsp), snd (f req rsp), s)"
    and "\<forall>q\<in>set qs. plain_request conv q" and "\<forall>rsp\<in>set (served srv f qs). length (rsp_dump rsp) < 2 ^ 63"
    and "sc_in k = map req_dump qs"
  shows "\<exists>k'. handle_loop fnmatch (ss_read script_net) (ss_write script_net) (ss_close script_net) conv Ps srv i (st, k)
      = Some (Inr (), (closed_stream sk st, k')) \<and>
    sc_out k' = sc_out k @ concat (map rsp_dump (served srv f qs)) \<and> sc_closed k'"
  using assms(5-7)
proof (induction qs arbitrary: i k)
  case Nil
  have "ss_read script_net s_http_request_buffer_size (st, k) = ((0, []), (st, k))"
    using Nil by (simp add: ss_connected(1) [OF assms(1,2)] script_recv_def int32_id)
  then have "recvRequest (ss_read script_net) (ss_close script_net) conv (Ps i) (st, k)
      = Some (Inr None, (closed_stream sk st, k\<lparr>sc_closed := True\<rparr>))"
    by (simp add: recvRequest_def recv_head.simps ss_connected(3) [OF assms(1,2,3)])
  then show ?case by (subst handle_loop.simps) (simp add: closed_again)
next
  case (Cons q qs)
  let ?r = "got q" and ?k1 = "k\<lparr>sc_in := map req_dump qs\<rparr>"
  let ?rsp = "rsp_setHeader ''Server'' (hs_name srv)
    (HttpResponse_new (req_version ?r) (req_close ?r \<or> \<not> hs_isKeepalive srv))"
  let ?k2 = "?k1\<lparr>sc_out := sc_out k @ rsp_dump (snd (f ?r ?rsp))\<rparr>"
  have recv: "recvRequest (ss_read script_net) (ss_close script_net) conv (Ps i) (st, k) = Some (Inr (Some ?r), (st, ?k1))"
    using Cons.prems by (intro recv_plain [OF _ assms(1,2)]) auto
  have len: "length (rsp_dump (snd (f ?r ?rsp))) < 2 ^ 63" using Cons.prems(2) by (simp add: Let_def)
  have serve: "serve fnmatch (ss_write script_net) srv ?r (st, ?k1) =
      (hs_isKeepalive srv \<and> \<not> req_close (fst (f ?r ?rsp)), (st, ?k2))"
    using serve_answers [OF assms(4,1,2) refl len, of ?k1] by simp
  show ?case
  proof (cases "hs_isKeepalive srv \<and> \<not> req_close (fst (f ?r ?rsp))")
    case True
    have "\<exists>k'. handle_loop fnmatch (ss_read script_net) (ss_write script_net) (ss_close script_net) conv Ps srv (Suc i) (st, ?k2) = Some (Inr (), (closed_stream sk st, k')) \<and>
        sc_out k' = sc_out ?k2 @ concat (map rsp_dump (served srv f qs)) \<and> sc_closed k'"
      using True Cons.prems by (intro Cons.IH) (auto simp: Let_def)
    then show ?thesis using recv serve True by (subst handle_loop.simps) (auto simp: Let_def)
  next
    case False
    then show ?thesis using recv serve
      by (subst handle_loop.simps) (auto simp: Let_def ss_connected(3) [OF assms(1,2,3)])
  qed
qed


definition not_found :: "HttpRequest \<Rightarrow> HttpResponse \<Rightarrow> HttpRequest \<times> HttpResponse" where
  "not_found req rsp =
     (case dispatch_handle (\<lambda>p t. p = t) ServletDispatch_new req rsp () of (_, req, rsp, _) \<Rightarrow> (req, rsp))"


end
