(* ===== verification/Httpclient_Stall.thy ===== *)
theory Httpclient_Stall
  imports Httpclient_Roundtrip
begin

text \<open>
  A response whose last header is a \<open>Connection\<close> without a value: the client's parser takes its head
  to the end and runs the action of the end of a head, but stops in a state its own test for the
  end does not know, so the reader goes on to the next bytes, on which the parser asserts.
\<close>

section \<open>The header without a value\<close>

lemma stall_trans: "client_trans 89 = client_st89" "client_trans 122 = client_st122"
  by (simp_all add: client_trans_nth) (simp_all add: client_states_def)

lemma stall_codes:
  "schar (CHR ''C'') = 67" "schar (CHR ''o'') = 111" "schar (CHR ''n'') = 110" "schar (CHR ''e'') = 101"
  "schar (CHR ''c'') = 99" "schar (CHR ''t'') = 116" "schar (CHR ''i'') = 105"
  by code_simp+

lemmas stall_table = client_table schar_lit stall_trans stall_codes

lemma cp_loop_connection:
  assumes p: "drop p buf = ''Connection'' @ rest" and s: "line_st s"
  shows "\<exists>P'. cp_loop response_callbacks buf tail p s (P, d) = cp_loop response_callbacks buf tail (p + 10) 34 (P', d) \<and>
    cp_field_start P' = p"
proof -
  let ?run = "cp_loop response_callbacks buf tail"
  have d0: "drop p buf = CHR ''C'' # ''onnection'' @ rest" using p by simp
  note d1 = drop_Suc_eq [OF d0, simplified]
  note d2 = drop_Suc_eq [OF d1]
  note d3 = drop_Suc_eq [OF d2]
  note d4 = drop_Suc_eq [OF d3]
  note d5 = drop_Suc_eq [OF d4]
  note d6 = drop_Suc_eq [OF d5]
  note d7 = drop_Suc_eq [OF d6]
  note d8 = drop_Suc_eq [OF d7]
  note d9 = drop_Suc_eq [OF d8]
  obtain as P' where start: "client_trans s (schar (CHR ''C'')) = (as, 25)" "client_done as = None"
    "cp_acts response_callbacks buf tail p as (P, d) = Inr (P', d)" "cp_field_start P' = p"
    using s by (auto simp: stall_table line_st_def)
  let ?s = "(P', d)"
  note step = cp_loop_step [where as = "[]" and s = ?s and s' = ?s]
  have "?run p s (P, d) = ?run (Suc p) 25 ?s" by (rule cp_loop_step [OF d0 start(1) _ start(2,3)]) simp
  also have "\<dots> = ?run (Suc (Suc p)) 26 ?s" by (rule step [OF d1]) (simp_all add: stall_table)
  also have "\<dots> = ?run (Suc (Suc (Suc p))) 27 ?s" by (rule step [OF d2]) (simp_all add: stall_table)
  also have "\<dots> = ?run (Suc (Suc (Suc (Suc p)))) 28 ?s" by (rule step [OF d3]) (simp_all add: stall_table)
  also have "\<dots> = ?run (Suc (Suc (Suc (Suc (Suc p))))) 29 ?s" by (rule step [OF d4]) (simp_all add: stall_table)
  also have "\<dots> = ?run (Suc (Suc (Suc (Suc (Suc (Suc p)))))) 30 ?s" by (rule step [OF d5]) (simp_all add: stall_table)
  also have "\<dots> = ?run (Suc (Suc (Suc (Suc (Suc (Suc (Suc p))))))) 31 ?s" by (rule step [OF d6]) (simp_all add: stall_table)
  also have "\<dots> = ?run (Suc (Suc (Suc (Suc (Suc (Suc (Suc (Suc p)))))))) 32 ?s" by (rule step [OF d7]) (simp_all add: stall_table)
  also have "\<dots> = ?run (Suc (Suc (Suc (Suc (Suc (Suc (Suc (Suc (Suc p))))))))) 33 ?s" by (rule step [OF d8]) (simp_all add: stall_table)
  also have "\<dots> = ?run (Suc (Suc (Suc (Suc (Suc (Suc (Suc (Suc (Suc (Suc p)))))))))) 34 ?s"
    by (rule step [OF d9]) (simp_all add: stall_table)
  finally show ?thesis using start(4) by (auto simp: eval_nat_numeral)
qed

lemma cp_loop_no_value:
  assumes p: "drop p buf = ''Connection'' @ '':'' @ crlf @ crlf @ rest" and s: "line_st s" and len: "length (buf @ tail) < 2 ^ 63"
  shows "\<exists>P'. cp_loop response_callbacks buf tail p s (P, (q, e))
      = Inr (122, p + 15, P', (rsp_setHeader ''Connection'' [] q, e)) \<and> cp_body_start P' = p + 15"
proof -
  let ?run = "cp_loop response_callbacks buf tail" and ?n = "p + 10"
  obtain P1 where 1: "?run p s (P, (q, e)) = ?run ?n 34 (P1, (q, e))" "cp_field_start P1 = p"
    using cp_loop_connection [OF p s] by blast
  let ?P = "P1\<lparr>cp_field_len := 10\<rparr>"
  have "drop (p + length ''Connection'') buf = '':'' @ crlf @ crlf @ rest" by (rule drop_append_eq [OF p])
  moreover have "p + length ''Connection'' = ?n" by simp
  ultimately have d0: "drop ?n buf = CHR '':'' # CHR 0x0D # CHR 0x0A # CHR 0x0D # CHR 0x0A # rest"
    by (metis append_Cons append_Nil crlf_def)
  note d1 = drop_Suc_eq [OF d0]
  note d2 = drop_Suc_eq [OF d1]
  note d3 = drop_Suc_eq [OF d2]
  note d4 = drop_Suc_eq [OF d3]
  have "on_response_http_field (PTR_TO (buf @ tail) p) (length ''Connection'') (PTR_TO (buf @ tail) (Suc ?n))
      (LEN (Suc ?n) (Suc ?n + length ([] :: string))) (q, e) = Inr (rsp_setHeader ''Connection'' [] q, e)"
    by (rule on_response_field_part [OF len p _ , where y = "drop (Suc ?n) buf"]) simp_all
  moreover have "length ''Connection'' = 10" by simp
  ultimately have field: "on_response_http_field (PTR_TO (buf @ tail) p) 10 (PTR_TO (buf @ tail) (Suc ?n)) (LEN (Suc ?n) (Suc ?n)) (q, e)
      = Inr (rsp_setHeader ''Connection'' [] q, e)" by (simp only: list.size add_0_right)
  note 1(1)
  also have "?run ?n 34 (P1, (q, e)) = ?run (Suc ?n) 35 (?P, (q, e))"
    by (rule cp_loop_step [OF d0, where as = "[C_Write_field]"]) (use 1(2) in \<open>simp_all add: stall_table LEN_def sub64_le\<close>)
  also have "\<dots> = ?run (Suc (Suc ?n)) 95 (?P\<lparr>cp_mark := Suc ?n\<rparr>, (rsp_setHeader ''Connection'' [] q, e))"
    by (rule cp_loop_step [OF d1, where as = "[C_Mark, C_Write_value]"])
      (use field 1(2) in \<open>simp_all add: stall_table with_client_def\<close>)
  also have "\<dots> = ?run (Suc (Suc (Suc ?n))) 36 (?P\<lparr>cp_mark := Suc ?n\<rparr>, (rsp_setHeader ''Connection'' [] q, e))"
    by (rule cp_loop_step [OF d2, where as = "[]"]) (simp_all add: stall_table)
  also have "\<dots> = ?run (Suc (Suc (Suc (Suc ?n)))) 89 (?P\<lparr>cp_mark := Suc ?n\<rparr>, (rsp_setHeader ''Connection'' [] q, e))"
    by (rule cp_loop_step [OF d3, where as = "[]"]) (simp_all add: stall_table)
  also have "\<dots> = Inr (122, p + 15, ?P\<lparr>cp_mark := Suc ?n, cp_body_start := p + 15\<rparr>, (rsp_setHeader ''Connection'' [] q, e))"
    using drop_nth [OF d4] by (subst cp_loop.simps) (simp add: stall_table with_client_def)
  finally show ?thesis by simp
qed

text \<open>The head of a response that ends in such a header.\<close>

definition open_head :: "HttpResponse \<Rightarrow> string" where
  "open_head r = rsp_lines r @ ''Connection:'' @ crlf @ crlf"

lemma open_head_run:
  assumes r: "answerable r" and len: "length (open_head r @ tail) < 2 ^ 63"
  shows "\<exists>P'. cp_loop response_callbacks (open_head r) tail 0 1 (P, (HttpResponse_new 0x11 True, 0))
      = Inr (122, length (open_head r), P', (rsp_setHeader ''Connection'' [] (answered r), 0)) \<and>
    cp_body_start P' = length (open_head r)"
proof -
  let ?p = "length (rsp_lines r)"
  obtain s' P1 where 1: "cp_loop response_callbacks (open_head r) tail 0 1 (P, (HttpResponse_new 0x11 True, 0))
      = cp_loop response_callbacks (open_head r) tail ?p s' (P1, (answered r, 0))" "line_st s'"
    using cp_loop_lines [OF r _ len, of "''Connection:'' @ crlf @ crlf" P] by (auto simp: open_head_def)
  have "drop ?p (open_head r) = ''Connection'' @ '':'' @ crlf @ crlf @ []" by (simp add: open_head_def)
  from cp_loop_no_value [OF this 1(2) len, of P1 "answered r" 0] 1(1)
  show ?thesis by (auto simp: open_head_def crlf_def)
qed

text \<open>The parser after the head, and after the next bytes.\<close>

lemma response_execute_open:
  assumes r: "answerable r" and len: "length (open_head r @ tail) < 2 ^ 31" and tail: "17 \<le> length tail" "hd tail = CHR 0x00"
  shows "\<exists>R. response_execute False (open_head r) tail (HttpResponseParser_new P)
      = Inr (length (open_head r), [], open_head r @ tail, R) \<and> cp_cs (sp_parser R) = 122 \<and>
    cp_body_start (sp_parser R) = length (open_head r) \<and> sp_error R = 0"
proof -
  let ?R = "HttpResponseParser_new P" and ?buf = "open_head r"
  let ?P = "(sp_parser ?R)\<lparr>cp_nread := 0, cp_mark := 0, cp_field_len := 0, cp_field_start := 0\<rparr>"
  have P: "cp_cs ?P = 1" "cp_body_start ?P = 0" by (simp_all add: HttpResponseParser_new_def httpclient_parser_init_def)
  have ne: "?buf \<noteq> []" by (simp add: open_head_def)
  have "length (?buf @ tail) < 2 ^ 63" using len by simp
  from open_head_run [OF r this, of ?P] obtain P' where run:
    "cp_loop response_callbacks ?buf tail 0 1 (?P, (HttpResponse_new 0x11 True, 0))
      = Inr (122, length ?buf, P', (rsp_setHeader ''Connection'' [] (answered r), 0))" "cp_body_start P' = length ?buf" by blast
  have "client_marks (length ?buf) 0 1 ?P" using ne P by (simp add: client_marks_def)
  from cp_loop_ok [OF this len tail(1), of "(HttpResponse_new 0x11 True, 0)"] run
  have P': "client_marks (length ?buf) (length ?buf) 120 P'" "cp_nread P' = 0"
    by (auto simp: client_loop_result_def HttpResponseParser_new_def httpclient_parser_init_def)
  have i32: "int32 (int (length ?buf)) = int (length ?buf)" "int32 0 = 0" using len by (auto intro!: int32_id)
  let ?q = "rsp_setHeader ''Connection'' [] (answered r)"
  have "tail \<noteq> []" using tail by auto
  then have "response_execute False ?buf tail ?R = Inr (length ?buf, [], ?buf @ tail,
      \<lparr>sp_parser = P'\<lparr>cp_cs := 122, cp_nread := length ?buf\<rparr>, sp_data = ?q, sp_error = 0\<rparr>)"
    using run P P' i32 tail ne
    by (auto simp: response_execute_def httpclient_parser_execute_def Let_def hp_check_def client_marks_def HttpResponseParser_new_def)
  then show ?thesis using run(2) by simp
qed

lemma response_execute_dead:
  assumes "cp_cs (sp_parser R) = 122" "length data < cp_body_start (sp_parser R)"
    and "data \<noteq> []" "schar (hd data) \<notin> {9, 10, 11, 12, 13, 32, 67, 99}" "length data < 2 ^ 31" "tail \<noteq> []" "hd tail = CHR 0x00"
  shows "response_execute False data tail R = Inl (Hp_assert ''body starts after buffer end'')"
proof -
  let ?P = "(sp_parser R)\<lparr>cp_nread := 0, cp_mark := 0, cp_field_len := 0, cp_field_start := 0\<rparr>"
  obtain c cs where c: "data = c # cs" using assms(3) by (cases data) auto
  have "client_trans 122 (schar c) = ([], 0)" using assms(4) c by (auto simp: stall_table)
  then have "cp_loop response_callbacks data tail 0 122 (?P, d) = Inr (0, 0, ?P, d)" for d
    using c by (subst cp_loop.simps) simp
  moreover have "int32 (int (length data)) = int (length data)" "int32 0 = 0" using assms(5) by (auto intro!: int32_id)
  ultimately show ?thesis using assms by (simp add: response_execute_def httpclient_parser_execute_def Let_def hp_check_def)
qed

text \<open>
  C26. A response whose last header is a \<open>Connection\<close> without a value is never finished: the client's
  parser accepts the whole head, reports no error and has run the action of its end, but is not
  finished, so the client reads on; and if what comes next (the body, say) is shorter than the head
  and starts with none of the characters a connection value may start with, the assertion that
  the body starts inside the buffer fails.
\<close>

theorem empty_connection_stalls:
  assumes "answerable r" and "length (open_head r @ tail) < 2 ^ 31" "17 \<le> length tail" "hd tail = CHR 0x00"
  shows "\<exists>R. response_execute False (open_head r) tail (HttpResponseParser_new P)
      = Inr (length (open_head r), [], open_head r @ tail, R) \<and> response_isFinished R = 0 \<and> \<not> response_hasError R \<and>
    (\<forall>data tail'. data \<noteq> [] \<and> schar (hd data) \<notin> {9, 10, 11, 12, 13, 32, 67, 99} \<and> length data < length (open_head r) \<and>
        tail' \<noteq> [] \<and> hd tail' = CHR 0x00 \<longrightarrow>
      response_execute False data tail' R = Inl (Hp_assert ''body starts after buffer end''))"
proof -
  obtain R where R: "response_execute False (open_head r) tail (HttpResponseParser_new P)
      = Inr (length (open_head r), [], open_head r @ tail, R)" "cp_cs (sp_parser R) = 122"
    "cp_body_start (sp_parser R) = length (open_head r)" "sp_error R = 0"
    using response_execute_open [OF assms] by blast
  have "length data < 2 ^ 31" if "length data < length (open_head r)" for data :: string
    using that assms(2) by simp
  then have "response_execute False data tail' R = Inl (Hp_assert ''body starts after buffer end'')"
    if "data \<noteq> []" "schar (hd data) \<notin> {9, 10, 11, 12, 13, 32, 67, 99}" "length data < length (open_head r)"
      "tail' \<noteq> []" "hd tail' = CHR 0x00" for data tail'
    using response_execute_dead [OF R(2) _ that(1,2) _ that(4,5)] that(3) R(3) by simp
  then show ?thesis using R
    by (intro exI [where x = R]) (simp add: response_isFinished_def response_hasError_def httpclient_parser_finish_def
        httpclient_parser_has_error_def httpclient_parser_is_finished_def)
qed

lemma empty_connection_stalls_witness:
  "\<exists>R. response_execute False (open_head sample_response) (replicate 20 (CHR 0x00)) (HttpResponseParser_new zero_client)
      = Inr (length (open_head sample_response), [], open_head sample_response @ replicate 20 (CHR 0x00), R) \<and>
    response_isFinished R = 0 \<and> response_execute False ''ab'' [CHR 0x00] R = Inl (Hp_assert ''body starts after buffer end'')"
proof -
  have "length (open_head sample_response) < 300" by code_simp
  then have len: "length (open_head sample_response @ replicate 20 (CHR 0x00)) < 2 ^ 31" by simp
  have "length ''ab'' < length (open_head sample_response)" by (simp add: open_head_def)
  moreover have "schar (CHR ''a'') = 97" by code_simp
  ultimately show ?thesis
    using empty_connection_stalls [OF sample_answerable(1) len, of zero_client] by fastforce
qed

end
