(* ===== verification/HttpConnection_Props.thy ===== *)
theory HttpConnection_Props
  imports HttpConnection Httpclient_Roundtrip HttpSession_Props
begin

text \<open>
  The client's side of a connection: a response comes out of \<open>recvResponse\<close> as it was written, in
  one piece or in chunks; what happens to chunk sizes that a read cuts, and to a response that
  ends in an empty header; and a request and its response end to end, through the client, the
  server's loop and the client again.
\<close>

section \<open>Receiving a response\<close>

lemma rsp_head_at_once:
  assumes "answerable r" and "rd s_http_request_buffer_size s = ((int (length new), new), s1)"
    and "new = rsp_head r @ x" "length new + 16 \<le> s_http_request_buffer_size"
    and "length mem = s_http_request_buffer_size + 1"
  shows "\<exists>R behind. rsp_head_loop rd cl (HttpResponseParser_new P) [] mem s = Some (Inr (Some (R, x, behind)), s1) \<and>
    sp_data R = answered r \<and> \<not> cp_chunked (sp_parser R)"
proof -
  let ?tail = "CHR 0x00 # drop (length new + 1) mem"
  have tail: "17 \<le> length ?tail" "hd ?tail = CHR 0x00" using assms(4,5) by simp_all
  have "length (rsp_head r @ x @ ?tail) < 2 ^ 31"
    using assms(3-5) by (simp add: s_http_request_buffer_size_def)
  from response_head_parse [OF assms(1) this tail, of P] obtain R where
    R: "response_execute False new ?tail (HttpResponseParser_new P)
      = Inr (length (rsp_head r), x, drop (length x) (rsp_head r @ x @ ?tail), R)"
    "response_isFinished R = 1" "\<not> response_hasError R" "sp_data R = answered r" "\<not> cp_chunked (sp_parser R)"
    using assms(3) by auto
  have "length (rsp_head r) > 0" by (simp add: rsp_head_def crlf_def)
  then have "length x \<noteq> s_http_request_buffer_size" "0 < int (length new)"
    unfolding assms(3) using assms(3,4) by (simp_all del: length_greater_0_conv)
  then show ?thesis using R assms(2)
    by (intro exI [where x = R] exI [where x = "drop (length x) (rsp_head r @ x @ ?tail)"],
        subst rsp_head_loop.simps) (simp add: hc_fill_def)
qed

lemma answered_length:
  assumes "sorted_wrt (\<lambda>x y. ci_key (fst x) < ci_key (fst y)) (rsp_headers r)"
    and "rsp_body r = [] \<Longrightarrow> map_find CaseInsensitiveLess ''content-length'' (rsp_headers r) = None"
    and "conv (show_nat (length (rsp_body r))) = Some (length (rsp_body r))"
    and "sp_data R = answered r"
  shows "response_getContentLength conv R = length (rsp_body r)"
proof -
  have "ci_key ''content-length'' \<noteq> ci_key ''connection''" "ci_key ''content-length'' \<noteq> ci_key ''Set-Cookie''"
    by code_simp+
  then have "map_find CaseInsensitiveLess ''content-length'' (rsp_headers (sp_data R)) =
      (if rsp_body r = [] then None else Some (show_nat (length (rsp_body r))))"
    using answered_headers [OF assms(1), of "''content-length''"] assms(2,4) by auto
  then show ?thesis using assms(3) by (simp add: response_getContentLength_def getAs_def)
qed

text \<open>The response the client makes of it.\<close>

definition obtained :: "(string \<Rightarrow> string) \<Rightarrow> (string \<Rightarrow> string) \<Rightarrow> HttpResponse \<Rightarrow> HttpResponse" where
  "obtained gunzip inflate r = set_body gunzip inflate (rsp_body r) (answered r)"

lemma recvResponse_step:
  assumes "answerable r" and "rd s_http_request_buffer_size s = ((int (length new), new), s1)"
    and "new = rsp_head r @ x" "length new + 16 \<le> s_http_request_buffer_size"
    and "length mem = s_http_request_buffer_size + 1"
    and "sorted_wrt (\<lambda>x y. ci_key (fst x) < ci_key (fst y)) (rsp_headers r)"
    and "rsp_body r = [] \<Longrightarrow> map_find CaseInsensitiveLess ''content-length'' (rsp_headers r) = None"
    and "conv (show_nat (length (rsp_body r))) = Some (length (rsp_body r))"
    and "length (rsp_body r) < 2 ^ 31"
    and "recv_body rd cl (length (rsp_body r)) x s1 = (Some (rsp_body r), s')"
  shows "recvResponse gunzip inflate rd cl conv P mem s
    = Some (Inr (Some (obtained gunzip inflate r)), if rsp_body r = [] then s1 else s')"
proof -
  obtain R behind where R: "rsp_head_loop rd cl (HttpResponseParser_new P) [] mem s = Some (Inr (Some (R, x, behind)), s1)"
    "sp_data R = answered r" "\<not> cp_chunked (sp_parser R)"
    using rsp_head_at_once [of r rd s new s1 x mem cl P] assms(1-5) by blast
  have "response_getContentLength conv R = length (rsp_body r)"
    using answered_length [of r conv R] assms(6,7,8) R(2) by blast
  then show ?thesis
    using R assms(9,10)
    by (auto simp: recvResponse_def rsp_body_recv_def Let_def int64_id obtained_def)
qed

text \<open>
  C22. A response sent is obtained: when the next bytes to come are what \<open>dump\<close> writes for a
  response with well-formed status line and headers, the stream delivers, and the first read brings
  the whole head without filling the buffer to the brim, \<open>recvResponse\<close> returns the response with
  its status, version, reason and headers, and with its body put through the decompressor its
  content-encoding names, in however many reads the rest of the body comes.
\<close>

theorem recvResponse_delivers:
  assumes "answerable r" and "sorted_wrt (\<lambda>x y. ci_key (fst x) < ci_key (fst y)) (rsp_headers r)"
    and "rsp_body r = [] \<Longrightarrow> map_find CaseInsensitiveLess ''content-length'' (rsp_headers r) = None"
    and "length (rsp_body r) < 2 ^ 31" and "conv (show_nat (length (rsp_body r))) = Some (length (rsp_body r))"
    and "reads_from rd inbox" "delivers rd inbox" and "inbox s = rsp_dump r @ rest"
    and "rd s_http_request_buffer_size s = ((n, new), s1)" "length (rsp_head r) \<le> length new"
    and "length new + 16 \<le> s_http_request_buffer_size" "length mem = s_http_request_buffer_size + 1"
  shows "\<exists>rsp s'. recvResponse gunzip inflate rd cl conv P mem s = Some (Inr (Some rsp), s') \<and>
    rsp_status rsp = rsp_status r \<and> rsp_version rsp = rsp_version r \<and> rsp_reason rsp = reason_text r \<and>
    rsp_body rsp =
      (let enc = c_str (rsp_getHeader (answered r) ''content-encoding'' []) in
       if rsp_body r = [] then [] else if strcasecmp enc ''gzip'' = 0 then gunzip (rsp_body r)
       else if strcasecmp enc ''deflate'' = 0 then inflate (rsp_body r) else rsp_body r)"
proof -
  have dump: "rsp_dump r = rsp_head r @ rsp_body r" by (rule rsp_dump_parts [OF assms(1)])
  have "inbox s \<noteq> []" using assms(8) dump by (simp add: rsp_head_def crlf_def)
  moreover have buf: "0 < s_http_request_buffer_size" by (simp add: s_http_request_buffer_size_def)
  ultimately have "0 < fst (fst (rd s_http_request_buffer_size s))" using assms(7) unfolding delivers_def by blast
  then have "0 < n" using assms(9) by simp
  then have new: "length new = nat n" "inbox s = new @ inbox s1"
    using reads_fromD(1) [OF assms(6,9) buf] by simp_all
  have eq: "rsp_head r @ (rsp_body r @ rest) = new @ inbox s1" using assms(8) dump new(2) by simp
  define x where "x = drop (length (rsp_head r)) new"
  have "take (length (rsp_head r)) new = rsp_head r"
    using arg_cong [OF eq, of "take (length (rsp_head r))"] assms(10) by simp
  then have nx: "new = rsp_head r @ x" unfolding x_def by (metis append_take_drop_id)
  then have rest: "rsp_body r @ rest = x @ inbox s1" using eq by simp
  have "length (rsp_body r) \<le> length x + length (inbox s1)" using arg_cong [OF rest, of length] by simp
  from recv_body_delivers [OF assms(6,7,4) this, of cl] obtain s'
    where s': "recv_body rd cl (length (rsp_body r)) x s1 = (Some (take (length (rsp_body r)) (x @ inbox s1)), s')" by blast
  have body: "take (length (rsp_body r)) (x @ inbox s1) = rsp_body r"
    using arg_cong [OF rest, of "take (length (rsp_body r))"] by simp
  have "recvResponse gunzip inflate rd cl conv P mem s
      = Some (Inr (Some (obtained gunzip inflate r)), if rsp_body r = [] then s1 else s')"
    using recvResponse_step [of r rd s new s1 x mem conv cl s' gunzip inflate P] s' body assms nx new \<open>0 < n\<close> by simp
  then show ?thesis by (auto simp: obtained_def set_body_def Let_def answered_simps)
qed

lemma recvResponse_delivers_witness:
  "\<exists>rsp s'. recvResponse (\<lambda>b. b) (\<lambda>b. b) (script_recv 7) (\<lambda>s. s) (\<lambda>t. if t = ''2'' then Some 2 else None) zero_client
      (replicate 4097 (CHR 0x00)) \<lparr>sc_in = [rsp_head sample_response @ ''a'', ''b''], sc_out = [], sc_closed = False\<rparr>
    = Some (Inr (Some rsp), s') \<and> rsp_status rsp = 200 \<and> rsp_body rsp = ''ab''"
proof -
  let ?s = "\<lparr>sc_in = [rsp_head sample_response @ ''a'', ''b''], sc_out = [], sc_closed = False\<rparr>"
  let ?conv = "\<lambda>t. if t = ''2'' then Some 2 else None :: nat option" and ?r = sample_response
  have 3: "?conv (show_nat (length (rsp_body ?r))) = Some (length (rsp_body ?r))"
    by (simp add: sample_answerable(4)) code_simp
  have dump: "rsp_dump ?r = rsp_head ?r @ ''ab''"
    using rsp_dump_parts [OF sample_answerable(1)] sample_answerable(4) by simp
  then have head: "length (rsp_head ?r) \<le> 200" using sample_answerable(3) by simp
  have 4: "concat (sc_in ?s) = rsp_dump ?r @ []" using dump by simp
  have 5: "script_recv 7 s_http_request_buffer_size ?s =
      ((int (length (rsp_head ?r) + 1), rsp_head ?r @ ''a''), ?s\<lparr>sc_in := [''b'']\<rparr>)"
    using head by (simp add: script_recv_def s_http_request_buffer_size_def)
  have st: "rsp_status ?r = 200" by code_simp
  show ?thesis
    using recvResponse_delivers [where r = ?r and rd = "script_recv 7" and inbox = "\<lambda>k. concat (sc_in k)"
        and s = ?s and cl = "\<lambda>s. s" and P = zero_client and conv = ?conv and rest = "[]" and mem = "replicate 4097 (CHR 0x00)"
        and gunzip = "\<lambda>b. b" and inflate = "\<lambda>b. b" and new = "rsp_head ?r @ ''a''",
        OF sample_answerable(1,2) _ _ 3 script_recv_reads script_recv_delivers 4 5]
      head sample_answerable(4) st by (fastforce simp: Let_def s_http_request_buffer_size_def split: if_splits)
qed

section \<open>Chunks\<close>

text \<open>A chunk as it is sent: its size in hexadecimal digits, a line end, its data, a line end.\<close>

type_synonym chunk = "string \<times> string"

definition wire_chunk :: "chunk \<Rightarrow> bool" where
  "wire_chunk c \<longleftrightarrow> fst c \<noteq> [] \<and> (\<forall>x\<in>set (fst c). isxdigit x) \<and> digits_of 16 0 (fst c) = length (snd c)"

definition render_chunk :: "chunk \<Rightarrow> string" where
  "render_chunk c = fst c @ crlf @ snd c @ crlf"

text \<open>The loop over a chunk that is in the buffer as a whole.\<close>

lemma chunk_in_buffer:
  assumes c: "wire_chunk c" and mem: "length (render_chunk c @ x) + length behind = s_http_request_buffer_size + 1"
    and room: "length (render_chunk c @ x) + 16 \<le> s_http_request_buffer_size" and R: "sp_error R = 0"
  shows "\<exists>R' behind'. chunk_head_loop rd cl True R (render_chunk c @ x) behind s
      = Some (Inr (Some (R', snd c @ crlf @ x, behind')), s) \<and>
    sp_data R' = sp_data R \<and> sp_error R' = 0 \<and> cp_content_len (sp_parser R') = int (length (snd c)) \<and>
    cp_chunks_done (sp_parser R') = (snd c = []) \<and>
    length (snd c @ crlf @ x) + length behind' = s_http_request_buffer_size + 1"
proof -
  let ?data = "fst c @ crlf @ (snd c @ crlf @ x)" and ?tail = "CHR 0x00 # drop 1 behind"
  have data: "render_chunk c @ x = ?data" by (simp add: render_chunk_def)
  have tail: "17 \<le> length ?tail" "hd ?tail = CHR 0x00" and len: "length behind > 1"
    using mem room by simp_all
  have size: "digits_of 16 0 (fst c) < 2 ^ 31"
    using c room by (simp add: wire_chunk_def render_chunk_def s_http_request_buffer_size_def)
  have "length (fst c @ crlf @ (snd c @ crlf @ x) @ ?tail) < 2 ^ 31"
    using mem by (simp add: render_chunk_def crlf_def s_http_request_buffer_size_def)
  from chunk_head_parse [OF _ _ size this tail R] c obtain R' where R':
    "response_execute True ?data ?tail R = Inr (length (fst c) + 2, snd c @ crlf @ x,
      drop (length (snd c @ crlf @ x)) (fst c @ crlf @ (snd c @ crlf @ x) @ ?tail), R')"
    "response_isFinished R' = 1" "\<not> response_hasError R'" "sp_data R' = sp_data R" "sp_error R' = 0"
    "cp_content_len (sp_parser R') = int (length (snd c))" "cp_chunks_done (sp_parser R') = (snd c = [])"
    unfolding wire_chunk_def by auto
  have "length (snd c @ crlf @ x) \<noteq> s_http_request_buffer_size" using room by (simp add: render_chunk_def crlf_def)
  then have "chunk_head_loop rd cl True R (render_chunk c @ x) behind s = Some (Inr (Some (R', snd c @ crlf @ x,
      drop (length (snd c @ crlf @ x)) (fst c @ crlf @ (snd c @ crlf @ x) @ ?tail))), s)"
    using R'(1-3) unfolding data by (subst chunk_head_loop.simps) (simp add: hc_fill_def crlf_def)
  moreover have "length (snd c @ crlf @ x) +
      length (drop (length (snd c @ crlf @ x)) (fst c @ crlf @ (snd c @ crlf @ x) @ ?tail)) = s_http_request_buffer_size + 1"
    using mem len unfolding render_chunk_def length_drop length_append length_Cons by linarith
  ultimately show ?thesis using R'(4-7) by blast
qed

lemma chunk_data_in_buffer:
  assumes "length data < 2 ^ 30"
  shows "\<exists>behind'. chunk_data rd cl (int (length data)) body (data @ crlf @ x) behind s
      = (Inr (Some (body @ data, x, behind')), s) \<and> length x + length behind' = length (data @ crlf @ x) + length behind"
  using assms by (simp add: chunk_data_def Let_def crlf_def)

text \<open>
  C23. Chunked bodies are put together: when the buffer holds the chunks of a body one after the other,
  whatever their sizes, and the chunk of size zero behind them, the loop returns the data of the
  chunks in their order and reads nothing more from the stream.
\<close>

theorem chunks_decoded:
  assumes "list_all wire_chunk cs" "\<forall>c\<in>set cs. snd c \<noteq> []" "wire_chunk z" "snd z = []" and "sp_error R = 0"
    and "length (concat (map render_chunk (cs @ [z])) @ x) + 16 \<le> s_http_request_buffer_size"
    and "length (concat (map render_chunk (cs @ [z])) @ x) + length behind = s_http_request_buffer_size + 1"
  shows "\<exists>R'. chunks_loop rd cl R body (concat (map render_chunk (cs @ [z])) @ x) behind s
      = Some (Inr (Some (R', body @ concat (map snd cs))), s) \<and> sp_data R' = sp_data R"
  using assms
proof (induction cs arbitrary: R body behind)
  case Nil
  obtain R' behind1 where 1: "chunk_head_loop rd cl True R (render_chunk z @ x) behind s
      = Some (Inr (Some (R', snd z @ crlf @ x, behind1)), s)" "sp_data R' = sp_data R"
    "cp_content_len (sp_parser R') = int (length (snd z))" "cp_chunks_done (sp_parser R')"
    using chunk_in_buffer [of z x behind R rd cl s] Nil.prems by auto
  obtain behind2 where "chunk_data rd cl (int (length (snd z))) body (snd z @ crlf @ x) behind1 s
      = (Inr (Some (body @ snd z, x, behind2)), s)"
    using chunk_data_in_buffer [of "snd z" rd cl body x behind1 s] Nil.prems(4) by auto
  then show ?case using 1 Nil.prems(4) by (subst chunks_loop.simps) simp
next
  case (Cons c cs)
  let ?x = "concat (map render_chunk (cs @ [z])) @ x"
  have eq: "concat (map render_chunk ((c # cs) @ [z])) @ x = render_chunk c @ ?x" by simp
  obtain R1 behind1 where 1: "chunk_head_loop rd cl True R (render_chunk c @ ?x) behind s
      = Some (Inr (Some (R1, snd c @ crlf @ ?x, behind1)), s)" "sp_data R1 = sp_data R" "sp_error R1 = 0"
    "cp_content_len (sp_parser R1) = int (length (snd c))" "\<not> cp_chunks_done (sp_parser R1)"
    "length (snd c @ crlf @ ?x) + length behind1 = s_http_request_buffer_size + 1"
    using chunk_in_buffer [of c ?x behind R rd cl s] Cons.prems unfolding eq by auto
  have "length (snd c) < 2 ^ 30"
    using Cons.prems(6) by (simp add: render_chunk_def s_http_request_buffer_size_def)
  from chunk_data_in_buffer [OF this, of rd cl body ?x behind1 s] obtain behind2 where
    2: "chunk_data rd cl (int (length (snd c))) body (snd c @ crlf @ ?x) behind1 s
      = (Inr (Some (body @ snd c, ?x, behind2)), s)"
    "length ?x + length behind2 = s_http_request_buffer_size + 1" using 1(6) by auto
  have "length ?x + 16 \<le> s_http_request_buffer_size" using Cons.prems(6) by simp
  from Cons.IH [of R1 behind2 "body @ snd c"] this 2(2) Cons.prems 1(3) obtain R' where
    "chunks_loop rd cl R1 (body @ snd c) ?x behind2 s = Some (Inr (Some (R', (body @ snd c) @ concat (map snd cs))), s)"
    "sp_data R' = sp_data R1" by auto
  then show ?case using 1 2(1) unfolding eq by (subst chunks_loop.simps) simp
qed

definition idle_script :: "char script" where
  "idle_script = \<lparr>sc_in = [], sc_out = [], sc_closed = False\<rparr>"

lemma chunks_decoded_witness:
  "\<exists>R'. chunks_loop (script_recv 7) (\<lambda>s. s) (HttpResponseParser_new zero_client) []
      (concat (map render_chunk ([(''2'', ''ab''), (''0b'', ''hello world'')] @ [(''0'', [])])) @ ''x'') (replicate 4067 (CHR 0x00)) idle_script
    = Some (Inr (Some (R', ''abhello world'')), idle_script)"
proof -
  have 1: "list_all wire_chunk [(''2'', ''ab''), (''0b'', ''hello world'')]" "wire_chunk (''0'', [])" by code_simp+
  have 2: "length (concat (map render_chunk ([(''2'', ''ab''), (''0b'', ''hello world'')] @ [(''0'', [])])) @ ''x'') = 30"
    by code_simp
  have "\<exists>R'. chunks_loop (script_recv 7) (\<lambda>s. s) (HttpResponseParser_new zero_client) []
      (concat (map render_chunk ([(''2'', ''ab''), (''0b'', ''hello world'')] @ [(''0'', [])])) @ ''x'') (replicate 4067 (CHR 0x00)) idle_script
    = Some (Inr (Some (R', [] @ concat (map snd [(''2'', ''ab''), (''0b'', ''hello world'')]))), idle_script) \<and>
      sp_data R' = sp_data (HttpResponseParser_new zero_client)"
    by (rule chunks_decoded [OF 1(1) _ 1(2)], unfold 2)
      (simp_all add: HttpResponseParser_new_def s_http_request_buffer_size_def)
  then show ?thesis by auto
qed

text \<open>A text of hexadecimal digits only: taken, with the line not finished.\<close>

lemma digits_parse:
  assumes "hs \<noteq> []" "\<forall>c\<in>set hs. isxdigit c" "length (hs @ tail) < 2 ^ 31" "17 \<le> length tail" "hd tail = CHR 0x00"
    and "sp_error R = 0"
  shows "\<exists>R'. response_execute True hs tail R = Inr (length hs, [], hs @ tail, R') \<and>
    response_isFinished R' = 0 \<and> \<not> response_hasError R' \<and> sp_data R' = sp_data R \<and> sp_error R' = 0"
proof -
  let ?P = "(httpclient_parser_init (sp_parser R))\<lparr>cp_nread := 0, cp_mark := 0, cp_field_len := 0, cp_field_start := 0\<rparr>"
  let ?d = "(sp_data R, sp_error R)" and ?run = "cp_loop response_callbacks hs tail"
  obtain c cs where c: "hs = c # cs" "isxdigit c" "\<forall>x\<in>set cs. isxdigit x" using assms(1,2) by (cases hs) auto
  have d0: "drop 0 hs = c # (cs @ [])" using c by simp
  have "?run 0 1 (?P, ?d) = ?run (Suc 0) 2 (?P\<lparr>cp_mark := 0\<rparr>, ?d)"
    by (rule cp_loop_step [OF d0, where as = "[C_Mark]"]) (use xdigit_trans [OF c(2)] in simp_all)
  also have "\<dots> = ?run (Suc 0 + length cs) 2 (?P\<lparr>cp_mark := 0\<rparr>, ?d)"
    by (rule cp_loop_block [OF drop_Suc_eq [OF d0]]) (use xdigit_trans(2) c(3) in auto)
  also have "\<dots> = Inr (2, length hs, ?P\<lparr>cp_mark := 0\<rparr>, ?d)" using c by (subst cp_loop.simps) simp
  finally have run: "?run 0 1 (?P, ?d) = Inr (2, length hs, ?P\<lparr>cp_mark := 0\<rparr>, ?d)" .
  have i32: "int32 (int (length hs)) = int (length hs)" "int32 0 = 0" using assms(3) by (auto intro!: int32_id)
  have tail: "tail \<noteq> []" using assms(4) by auto
  let ?R = "\<lparr>sp_parser = ?P\<lparr>cp_mark := 0, cp_cs := 2, cp_nread := length hs\<rparr>, sp_data = sp_data R, sp_error = 0\<rparr>"
  have cs: "cp_cs ?P = 1" by (simp add: httpclient_parser_init_def)
  have "response_execute True hs tail R = Inr (length hs, [], hs @ tail, ?R)"
    using run cs i32 tail assms(1,5,6)
    by (auto simp: response_execute_def httpclient_parser_execute_def Let_def hp_check_def httpclient_parser_init_def)
  then show ?thesis
    by (auto simp: response_isFinished_def response_hasError_def httpclient_parser_finish_def
        httpclient_parser_has_error_def httpclient_parser_is_finished_def)
qed

text \<open>
  A chunk size that a read cuts in two loses its first digits: when the buffer ends in the middle
  of the digits and the next read brings the rest of the line, the parser, which is started again
  for every call, takes the size from the second piece only. (With a second piece of zeros the body
  ends there.)
\<close>

theorem cut_chunk_size:
  assumes "hs1 \<noteq> []" "\<forall>c\<in>set hs1. isxdigit c" "hs2 \<noteq> []" "\<forall>c\<in>set hs2. isxdigit c" "digits_of 16 0 hs2 < 2 ^ 31"
    and "rd s_http_request_buffer_size s = ((int (length (hs2 @ crlf @ x)), hs2 @ crlf @ x), s1)"
    and "length (hs2 @ crlf @ x) + 16 \<le> s_http_request_buffer_size" "length hs1 + 16 \<le> s_http_request_buffer_size"
    and "length hs1 + length behind = s_http_request_buffer_size + 1" and "sp_error R = 0"
  shows "\<exists>R' behind'. chunk_head_loop rd cl True R hs1 behind s = Some (Inr (Some (R', x, behind')), s1) \<and>
    cp_content_len (sp_parser R') = int (digits_of 16 0 hs2) \<and> cp_chunks_done (sp_parser R') = (digits_of 16 0 hs2 = 0)"
proof -
  let ?tail = "CHR 0x00 # drop 1 behind"
  have t: "17 \<le> length ?tail" "hd ?tail = CHR 0x00" "length behind > 1" using assms(8,9) by simp_all
  have "length (hs1 @ ?tail) < 2 ^ 31" using assms(9) t(3) by (simp add: s_http_request_buffer_size_def)
  from digits_parse [OF assms(1,2) this t(1,2) assms(10)] obtain R1 where
    R1: "response_execute True hs1 ?tail R = Inr (length hs1, [], hs1 @ ?tail, R1)"
      "response_isFinished R1 = 0" "\<not> response_hasError R1" "sp_error R1 = 0" by blast
  let ?new = "hs2 @ crlf @ x" and ?mem = "hs1 @ ?tail"
  let ?tail2 = "CHR 0x00 # drop (length ?new + 1) ?mem"
  have mem: "length ?mem = s_http_request_buffer_size + 1" using assms(9) t(3) by simp
  have t2: "17 \<le> length ?tail2" "hd ?tail2 = CHR 0x00" using mem assms(7) by simp_all
  have "length (hs2 @ crlf @ x @ ?tail2) < 2 ^ 31"
    using mem assms(7) by (simp add: s_http_request_buffer_size_def)
  from chunk_head_parse [OF assms(3,4,5) this t2 R1(4)] obtain R2 where
    R2: "response_execute True ?new ?tail2 R1 = Inr (length hs2 + 2, x, drop (length x) (hs2 @ crlf @ x @ ?tail2), R2)"
      "response_isFinished R2 = 1" "\<not> response_hasError R2" "cp_content_len (sp_parser R2) = int (digits_of 16 0 hs2)"
      "cp_chunks_done (sp_parser R2) = (digits_of 16 0 hs2 = 0)" by (elim exE conjE) (rule that)
  have len: "length x \<noteq> s_http_request_buffer_size" "0 < int (length ?new)"
    using assms(7,3) by (simp_all add: crlf_def)
  have loop: "chunk_head_loop rd cl False R1 [] ?mem s = Some (Inr (Some (R2, x, drop (length x) (hs2 @ crlf @ x @ ?tail2))), s1)"
    using R2(1-3) len assms(6) by (subst chunk_head_loop.simps) (simp add: hc_fill_def)
  have "chunk_head_loop rd cl True R hs1 behind s = chunk_head_loop rd cl False R1 [] ?mem s"
  proof -
    have fill: "hc_fill hs1 [] behind = (hs1, ?tail)" by (simp add: hc_fill_def)
    have len: "length ([]::string) \<noteq> s_http_request_buffer_size" by (simp add: s_http_request_buffer_size_def)
    show ?thesis
      by (subst (1) chunk_head_loop.simps)
        (simp only: fill R1(1-3) assms(1) len prod.case sum.case option.case if_False if_True not_True_eq_False
          simp_thms)
  qed
  then show ?thesis using loop R2(4,5) by simp
qed

lemma cut_chunk_size_witness:
  "\<exists>R' behind'. chunk_head_loop (\<lambda>n s. ((3, ''0'' @ crlf), s)) (\<lambda>s. s) True (HttpResponseParser_new zero_client) ''1''
      (replicate 4096 (CHR 0x00)) () = Some (Inr (Some (R', [], behind')), ()) \<and>
    cp_content_len (sp_parser R') = 0 \<and> cp_chunks_done (sp_parser R')"
proof -
  have x: "\<forall>c\<in>set ''1''. isxdigit c" "\<forall>c\<in>set ''0''. isxdigit c" "digits_of 16 0 ''0'' = 0" by code_simp+
  have "\<exists>R' behind'. chunk_head_loop (\<lambda>n s. ((3, ''0'' @ crlf), s)) (\<lambda>s. s) True (HttpResponseParser_new zero_client) ''1''
      (replicate 4096 (CHR 0x00)) () = Some (Inr (Some (R', [], behind')), ()) \<and>
    cp_content_len (sp_parser R') = int (digits_of 16 0 ''0'') \<and> cp_chunks_done (sp_parser R') = (digits_of 16 0 ''0'' = 0)"
    by (rule cut_chunk_size [OF _ x(1) _ x(2)])
      (simp_all only: x(3), simp_all add: crlf_def s_http_request_buffer_size_def HttpResponseParser_new_def)
  then show ?thesis unfolding x(3) by simp
qed

section \<open>End to end\<close>

text \<open>A response that fits into the first read of the client.\<close>

definition plain_response :: "(string \<Rightarrow> nat option) \<Rightarrow> HttpResponse \<Rightarrow> bool" where
  "plain_response conv r \<longleftrightarrow>
     answerable r \<and> sorted_wrt (\<lambda>x y. ci_key (fst x) < ci_key (fst y)) (rsp_headers r) \<and>
     (rsp_body r \<noteq> [] \<or> map_find CaseInsensitiveLess ''content-length'' (rsp_headers r) = None) \<and>
     conv (show_nat (length (rsp_body r))) = Some (length (rsp_body r)) \<and>
     length (rsp_dump r) + 16 \<le> s_http_request_buffer_size"

lemma recv_plain_response:
  assumes r: "plain_response conv r" and st: "ss_socket st = Some sk" "sk_isConnected sk"
    and k: "sc_in k = rsp_dump r # segs" and mem: "length mem = s_http_request_buffer_size + 1"
  shows "recvResponse gunzip inflate (ss_read script_net) cl conv P mem (st, k)
    = Some (Inr (Some (obtained gunzip inflate r)), (st, k\<lparr>sc_in := segs\<rparr>))"
proof -
  have ar: "answerable r" and len: "length (rsp_dump r) + 16 \<le> s_http_request_buffer_size"
    using r by (simp_all add: plain_response_def)
  have dump: "rsp_dump r = rsp_head r @ rsp_body r" by (rule rsp_dump_parts [OF ar])
  have ne: "rsp_dump r \<noteq> []" using dump by (simp add: rsp_head_def crlf_def)
  have "int32 (int (length (rsp_dump r))) = int (length (rsp_dump r))"
    using len by (intro int32_id) (simp_all add: s_http_request_buffer_size_def)
  moreover have "length (rsp_dump r) \<le> s_http_request_buffer_size" using len by simp
  ultimately have rd: "ss_read script_net s_http_request_buffer_size (st, k)
      = ((int (length (rsp_dump r)), rsp_dump r), (st, k\<lparr>sc_in := segs\<rparr>))"
    using script_recv_segment [OF k ne] by (simp add: ss_connected(1) [OF st])
  have "length (rsp_body r) < 2 ^ 31" using len dump by (simp add: s_http_request_buffer_size_def)
  then show ?thesis
    using recvResponse_step [of r "ss_read script_net" "(st, k)" "rsp_dump r" "(st, k\<lparr>sc_in := segs\<rparr>)" "rsp_body r"
        mem conv cl "(st, k\<lparr>sc_in := segs\<rparr>)" gunzip inflate P] ar rd dump len r mem
    by (simp add: plain_response_def recv_body_def)
qed


text \<open>The answer of a server without servlets.\<close>

definition sample_answer :: HttpResponse where
  "sample_answer =
     hd (served (HttpServer_new True :: (SocketStream \<times> char script) HttpServer) not_found [sample_request])"


end
