(* ===== verification/ByteArray_Codec.thy ===== *)
theory ByteArray_Codec
  imports ByteArray_Refine
begin

unbundle bit_operations_syntax

text \<open>
  The typed operations of the buffer. Every pair of a write and a read method is a
  \<open>codec\<close>: the write splices an encoding into the content, the read consumes exactly that
  encoding and returns the value. The contract is a locale; its client lemma, that a list of
  values written one after the other is read back after rewinding, is proved once and
  interpreted on the methods' models, last on whole messages of mixed types (\<open>item\<close>).
\<close>

section \<open>The contract\<close>

definition writes :: "unit ba_prog \<Rightarrow> bytearray \<Rightarrow> byte list \<Rightarrow> bool" where
  "writes m ba bs \<longleftrightarrow>
     (\<exists>ba'. m ba = (Inr (), ba') \<and> ba_wf ba' \<and>
        content ba' = splice (content ba) (m_position ba) bs \<and>
        m_position ba' = m_position ba + length bs \<and> m_endian ba' = m_endian ba)"

text \<open>
  \<open>reads m ba bs solid x\<close>: if \<open>bs\<close> comes next in the buffer, \<open>m\<close> consumes it and returns \<open>x\<close>.
  Where \<open>solid\<close> is false this is only promised when \<open>bs\<close> does not end at the very end of the
  capacity: a read of no bytes there dereferences a null \<open>m_cur\<close>.
\<close>

definition reads :: "'a ba_prog \<Rightarrow> bytearray \<Rightarrow> byte list \<Rightarrow> bool \<Rightarrow> 'a \<Rightarrow> bool" where
  "reads m ba bs solid x \<longleftrightarrow>
     (\<forall>rest. unread ba = bs @ rest \<longrightarrow> solid \<or> rest \<noteq> [] \<or> m_size ba < m_capacity ba \<longrightarrow>
        m ba = (Inr x, advance (length bs) ba))"

locale codec =
  fixes wr :: "'a \<Rightarrow> unit ba_prog"
    and rd :: "'t \<Rightarrow> 'a ba_prog"
    and tag :: "'a \<Rightarrow> 't"
    and enc :: "endian \<Rightarrow> 'a \<Rightarrow> byte list"
    and ok :: "'a \<Rightarrow> bool"
    and solid :: "'a \<Rightarrow> bool"
  assumes wr_enc: "ba_wf ba \<Longrightarrow> writes (wr x) ba (enc (m_endian ba) x)"
    and rd_enc: "ba_wf ba \<Longrightarrow> ok x \<Longrightarrow> reads (rd (tag x)) ba (enc (m_endian ba) x) (solid x) x"

text \<open>Values written and read one after the other.\<close>

fun write_all :: "('a \<Rightarrow> unit ba_prog) \<Rightarrow> 'a list \<Rightarrow> unit ba_prog" where
  "write_all wr [] = preturn ()"
| "write_all wr (x # xs) = pthen (wr x) (write_all wr xs)"

fun read_all :: "('t \<Rightarrow> 'a ba_prog) \<Rightarrow> 't list \<Rightarrow> 'a list ba_prog" where
  "read_all rd [] = preturn []"
| "read_all rd (t # ts) =
     pbind (rd t) (\<lambda>x. pbind (read_all rd ts) (\<lambda>xs. preturn (x # xs)))"

lemma splice_splice:
  "p \<le> length c \<Longrightarrow> splice (splice c p as) (p + length as) bs = splice c p (as @ bs)"
  by (auto simp: splice_def min_def ac_simps)

lemma splice_Nil [simp]: "splice c p [] = c"
  by (simp add: splice_def)

lemma drop_splice: "p \<le> length c \<Longrightarrow> drop p (splice c p bs) = bs @ drop (p + length bs) c"
  by (simp add: splice_def)

lemma writes_ba_write: "ba_wf ba \<Longrightarrow> writes (ba_write bs) ba bs"
  using ba_write_spec [of ba bs] by (auto simp: writes_def)

lemma writes_ba_write_eq: "ba_wf ba \<Longrightarrow> m ba = ba_write bs ba \<Longrightarrow> writes m ba bs"
  using writes_ba_write [of ba bs] by (simp add: writes_def)

lemma writes_pthen:
  assumes "ba_wf ba" "writes m ba as"
    and "\<And>ba'. ba_wf ba' \<Longrightarrow> m_endian ba' = m_endian ba \<Longrightarrow> writes n ba' bs"
  shows "writes (pthen m n) ba (as @ bs)"
proof -
  obtain ba1 where 1: "m ba = (Inr (), ba1)" "ba_wf ba1"
    "content ba1 = splice (content ba) (m_position ba) as"
    "m_position ba1 = m_position ba + length as" "m_endian ba1 = m_endian ba"
    using assms(2) by (auto simp: writes_def)
  obtain ba2 where "n ba1 = (Inr (), ba2)" "ba_wf ba2"
    "content ba2 = splice (content ba1) (m_position ba1) bs"
    "m_position ba2 = m_position ba1 + length bs" "m_endian ba2 = m_endian ba"
    using assms(3) [OF 1(2,5)] 1(5) by (auto simp: writes_def)
  then show ?thesis
    using 1 assms(1) ba_wfD(5) [OF assms(1)]
    by (simp add: writes_def pthen_ok splice_splice length_content add.assoc)
qed

lemma reads_ba_read: "ba_wf ba \<Longrightarrow> reads (ba_read (length bs)) ba bs (bs \<noteq> []) bs"
  unfolding reads_def
proof (intro allI impI)
  fix rest
  assume wf: "ba_wf ba" and u: "unread ba = bs @ rest"
    and side: "bs \<noteq> [] \<or> rest \<noteq> [] \<or> m_size ba < m_capacity ba"
  have "length bs + length rest = m_size ba - m_position ba"
    using length_unread [OF wf] u by simp
  moreover from side have "0 < length bs \<or> 0 < length rest \<or> m_size ba < m_capacity ba" by auto
  ultimately have "0 < length bs \<or> m_position ba < m_capacity ba"
    using ba_wfD(5,6) [OF wf] by linarith
  then show "ba_read (length bs) ba = (Inr bs, advance (length bs) ba)"
    using ba_read_spec [OF wf, of "length bs"] u by simp
qed

lemma reads_pbind:
  assumes "reads m ba as True x" "reads (f x) (advance (length as) ba) bs sol y"
  shows "reads (pbind m f) ba (as @ bs) sol y"
  using assms by (auto simp: reads_def pbind_ok)

lemma reads_return: "reads m ba bs sol x \<Longrightarrow> reads (pbind m (\<lambda>v. preturn (g v))) ba bs sol (g x)"
  by (simp add: reads_def pbind_def preturn_def)

context codec begin

lemma write_all_writes:
  "ba_wf ba \<Longrightarrow> writes (write_all wr xs) ba (concat (map (enc (m_endian ba)) xs))"
proof (induction xs arbitrary: ba)
  case Nil
  then show ?case by (simp add: writes_def preturn_apply)
next
  case (Cons x xs)
  have "writes (write_all wr xs) ba' (concat (map (enc (m_endian ba)) xs))"
    if "ba_wf ba'" "m_endian ba' = m_endian ba" for ba'
    using Cons.IH [OF that(1)] that(2) by simp
  then show ?case using writes_pthen [OF Cons.prems wr_enc [OF Cons.prems]] by simp
qed

lemma read_all_reads:
  "ba_wf ba \<Longrightarrow> \<forall>x\<in>set xs. ok x \<Longrightarrow> unread ba = concat (map (enc (m_endian ba)) xs) @ rest \<Longrightarrow>
    (\<forall>x\<in>set xs. solid x) \<or> rest \<noteq> [] \<or> m_size ba < m_capacity ba \<Longrightarrow>
    read_all rd (map tag xs) ba =
      (Inr xs, advance (length (concat (map (enc (m_endian ba)) xs))) ba)"
proof (induction xs arbitrary: ba)
  case Nil
  then show ?case by (simp add: preturn_apply advance_def ba_wf_def)
next
  case (Cons x xs)
  let ?e = "enc (m_endian ba) x" and ?es = "concat (map (enc (m_endian ba)) xs)"
  have side: "solid x \<or> ?es @ rest \<noteq> [] \<or> m_size ba < m_capacity ba"
    using Cons.prems(4) by auto
  have un: "unread ba = ?e @ (?es @ rest)" using Cons.prems(3) by simp
  have "reads (rd (tag x)) ba ?e (solid x) x" using rd_enc [OF Cons.prems(1)] Cons.prems(2) by simp
  with side un have "rd (tag x) ba = (Inr x, advance (length ?e) ba)"
    unfolding reads_def by blast
  moreover have "read_all rd (map tag xs) (advance (length ?e) ba) =
      (Inr xs, advance (length ?es) (advance (length ?e) ba))"
    using Cons.IH [of "advance (length ?e) ba"] Cons.prems
    by (auto simp: ba_wf_advance)
  ultimately show ?case by (simp add: pbind_ok preturn_apply)
qed

text \<open>What was written is read back from the position where writing began.\<close>

lemma write_rewind_read:
  assumes wf: "ba_wf ba" and ok: "\<forall>x\<in>set xs. ok x"
    and w: "write_all wr xs ba = (Inr (), ba1)"
    and room: "(\<forall>x\<in>set xs. solid x) \<or> m_position ba1 < m_capacity ba1"
    and s: "setPosition (m_position ba) ba1 = (Inr (), ba2)"
  shows "\<exists>ba3. read_all rd (map tag xs) ba2 = (Inr xs, ba3) \<and>
    m_position ba3 = m_position ba1 \<and> content ba3 = content ba1 \<and> ba_wf ba3"
proof -
  let ?es = "concat (map (enc (m_endian ba)) xs)"
  have ba1: "ba_wf ba1" "content ba1 = splice (content ba) (m_position ba) ?es"
    "m_position ba1 = m_position ba + length ?es" "m_endian ba1 = m_endian ba"
    using write_all_writes [OF wf, of xs] w by (auto simp: writes_def)
  have le: "m_position ba \<le> m_size ba1" using ba_wfD(5) [OF ba1(1)] ba1(3) by simp
  have ba2: "ba_wf ba2" "content ba2 = content ba1" "m_position ba2 = m_position ba"
    "m_endian ba2 = m_endian ba" "m_size ba2 = m_size ba1" "m_capacity ba2 = m_capacity ba1"
    "unread ba2 = drop (m_position ba) (content ba1)"
    using setPosition_back [OF ba1(1) le] s ba1(4) by auto
  let ?rest = "drop (m_position ba + length ?es) (content ba)"
  have un: "unread ba2 = ?es @ ?rest"
    using ba2(7) ba1(2) ba_wfD(5) [OF wf] by (simp add: drop_splice length_content [OF wf])
  have "length (unread ba2) = m_size ba1 - m_position ba"
    using length_unread [OF ba2(1)] ba2(3,5) by simp
  with un ba1(3) ba_wfD(5) [OF ba1(1)]
  have "length ?rest = m_size ba1 - m_position ba1" by simp
  with room ba_wfD(6) [OF ba1(1)] ba_wfD(5) [OF ba1(1)]
  have "(\<forall>x\<in>set xs. solid x) \<or> ?rest \<noteq> [] \<or> m_size ba2 < m_capacity ba2"
    unfolding ba2(5,6) by (cases "?rest = []") auto
  then have "read_all rd (map tag xs) ba2 = (Inr xs, advance (length ?es) ba2)"
    using read_all_reads [OF ba2(1) ok, of ?rest] un ba2(4) by simp
  moreover have "length ?es \<le> length (unread ba2)" unfolding un by simp
  ultimately show ?thesis using ba2(1-3) ba1(3) by (auto intro!: ba_wf_advance)
qed

end

section \<open>Fixed-width integers\<close>

text \<open>On the wire an integer has the buffer's order, whatever the host's.\<close>

lemma mem_bytes_to_order:
  "8 dvd LENGTH('a) \<Longrightarrow> mem_bytes host (to_order host ba (v :: 'a::len word)) = mem_bytes (m_endian ba) v"
  by (cases host; cases "m_endian ba") (auto simp: to_order_def mem_bytes_def le_bytes_byteswap)

lemma read_XX_order:
  "8 dvd LENGTH('a) \<Longrightarrow>
    (let w = of_mem_bytes host (mem_bytes (m_endian ba) (v :: 'a::len word))
     in if m_endian ba = host then w else byteswap w) = v"
  by (cases host; cases "m_endian ba")
    (auto simp: of_mem_bytes_def mem_bytes_def of_le_bytes_le_bytes byteswap_byteswap
      simp flip: byteswap_def)

lemma reads_read_XX:
  assumes wf: "ba_wf ba" and "8 dvd LENGTH('a)"
  shows "reads (read_XX host) ba (mem_bytes (m_endian ba) (v :: 'a::len word)) True v"
proof -
  have "reads (ba_read (LENGTH('a) div 8)) ba (mem_bytes (m_endian ba) v) True
      (mem_bytes (m_endian ba) v)"
  proof -
    have "0 < LENGTH('a) div 8" using assms(2) by (simp add: dvd_div_eq_0_iff flip: neq0_conv)
    then have "mem_bytes (m_endian ba) v \<noteq> []" by (simp flip: length_greater_0_conv)
    then show ?thesis using reads_ba_read [OF wf, of "mem_bytes (m_endian ba) v"] by simp
  qed
  from reads_return [OF this, of "\<lambda>bs. let w = of_mem_bytes host bs :: 'a word
      in if m_endian ba = host then w else byteswap w"]
  show ?thesis by (simp add: reads_def read_XX_def read_XX_order assms(2))
qed

interpretation fint8: codec writeFint8 "\<lambda>_::unit. readFint8" "\<lambda>_. ()"
  "\<lambda>_ v. [v]" "\<lambda>_. True" "\<lambda>_. True"
proof unfold_locales
  fix ba and x :: "8 word"
  assume wf: "ba_wf ba"
  show "writes (writeFint8 x) ba [x]" using wf by (simp add: writeFint8_def writes_ba_write)
  show "reads readFint8 ba [x] True x"
    using reads_return [OF reads_ba_read [OF wf, of "[x]"], of "of_le_bytes :: byte list \<Rightarrow> 8 word"]
    by (simp add: readFint8_def)
qed

interpretation fuint8: codec writeFuint8 "\<lambda>_::unit. readFuint8" "\<lambda>_. ()"
  "\<lambda>_ v. [v]" "\<lambda>_. True" "\<lambda>_. True"
proof -
  have "writeFuint8 = writeFint8" "readFuint8 = readFint8"
    by (simp_all add: fun_eq_iff writeFuint8_def writeFint8_def readFuint8_def readFint8_def)
  then show "codec writeFuint8 (\<lambda>_::unit. readFuint8) (\<lambda>_. ()) (\<lambda>_ v. [v]) (\<lambda>_. True) (\<lambda>_. True)"
    using fint8.codec_axioms by simp
qed

interpretation fint16: codec "writeFint16 h" "\<lambda>_::unit. readFint16 h" "\<lambda>_. ()"
  mem_bytes "\<lambda>_. True" "\<lambda>_. True" for h
  by unfold_locales
    (auto simp: writeFint16_def readFint16_def mem_bytes_to_order reads_read_XX
      intro!: writes_ba_write_eq)

interpretation fuint16: codec "writeFuint16 h" "\<lambda>_::unit. readFuint16 h" "\<lambda>_. ()"
  mem_bytes "\<lambda>_. True" "\<lambda>_. True" for h
  by unfold_locales
    (auto simp: writeFuint16_def readFuint16_def mem_bytes_to_order reads_read_XX
      intro!: writes_ba_write_eq)

interpretation fint32: codec "writeFint32 h" "\<lambda>_::unit. readFint32 h" "\<lambda>_. ()"
  mem_bytes "\<lambda>_. True" "\<lambda>_. True" for h
  by unfold_locales
    (auto simp: writeFint32_def readFint32_def mem_bytes_to_order reads_read_XX
      intro!: writes_ba_write_eq)

interpretation fuint32: codec "writeFuint32 h" "\<lambda>_::unit. readFuint32 h" "\<lambda>_. ()"
  mem_bytes "\<lambda>_. True" "\<lambda>_. True" for h
  by unfold_locales
    (auto simp: writeFuint32_def readFuint32_def mem_bytes_to_order reads_read_XX
      intro!: writes_ba_write_eq)

interpretation fint64: codec "writeFint64 h" "\<lambda>_::unit. readFint64 h" "\<lambda>_. ()"
  mem_bytes "\<lambda>_. True" "\<lambda>_. True" for h
  by unfold_locales
    (auto simp: writeFint64_def readFint64_def mem_bytes_to_order reads_read_XX
      intro!: writes_ba_write_eq)

interpretation fuint64: codec "writeFuint64 h" "\<lambda>_::unit. readFuint64 h" "\<lambda>_. ()"
  mem_bytes "\<lambda>_. True" "\<lambda>_. True" for h
  by unfold_locales
    (auto simp: writeFuint64_def readFuint64_def mem_bytes_to_order reads_read_XX
      intro!: writes_ba_write_eq)


section \<open>Zigzag\<close>

lemma zigzag_negative: "(- v) * 2 - 1 = NOT (push_bit 1 (v :: 'a::len word))"
  by (simp add: not_eq_complement)

lemma negative_bit: "sint v < 0 \<longleftrightarrow> bit (v :: 'a::len word) (LENGTH('a) - 1)"
  using bit_last_iff [of v] by simp

lemma bit_double: "bit (push_bit (Suc 0) v) i \<longleftrightarrow> 0 < i \<and> i < LENGTH('a) \<and> bit (v :: 'a::len word) (i - 1)"
  unfolding bit_push_bit_iff by (auto simp: Suc_le_eq dest: bit_imp_le_length)

lemma zigzag_decode_positive:
  assumes "\<not> bit (v :: 'a::len word) (LENGTH('a) - 1)"
  shows "drop_bit 1 (push_bit 1 v) XOR - (push_bit 1 v AND 1) = v"
proof -
  have "push_bit 1 v AND 1 = 0"
    by (rule bit_word_eqI) (auto simp: bit_and_iff bit_double bit_1_iff simp del: push_bit_Suc)
  moreover have "drop_bit 1 (push_bit 1 v) = v"
  proof (rule bit_word_eqI)
    fix i assume "i < LENGTH('a)"
    with assms show "bit (drop_bit 1 (push_bit 1 v)) i = bit v i"
      by (cases "i = LENGTH('a) - 1") (auto simp: bit_drop_bit_eq bit_double simp del: push_bit_Suc)
  qed
  ultimately show ?thesis by simp
qed

lemma zigzag_decode_negative:
  assumes "bit (v :: 'a::len word) (LENGTH('a) - 1)"
  shows "drop_bit 1 (NOT (push_bit 1 v)) XOR - (NOT (push_bit 1 v) AND 1) = v"
proof -
  have "NOT (push_bit 1 v) AND 1 = 1"
    by (rule bit_word_eqI) (auto simp: bit_and_iff bit_not_iff bit_double bit_1_iff simp del: push_bit_Suc)
  moreover have "drop_bit 1 (NOT (push_bit 1 v)) XOR - 1 = v"
  proof (rule bit_word_eqI)
    fix i assume "i < LENGTH('a)"
    with assms show "bit (drop_bit 1 (NOT (push_bit 1 v)) XOR - 1) i = bit v i"
      by (cases "i = LENGTH('a) - 1")
        (auto simp: bit_xor_iff bit_drop_bit_eq bit_not_iff bit_double simp del: push_bit_Suc)
  qed
  ultimately show ?thesis by simp
qed

lemma Decode_Encode_Zigzag32: "DecodeZigzag32 (EncodeZigzag32 v) = v"
proof (cases "bit v 31")
  case True
  then have "sint v < 0" by (simp add: negative_bit)
  with zigzag_decode_negative [of v] True show ?thesis
    unfolding EncodeZigzag32_def DecodeZigzag32_def zigzag_negative by simp
next
  case False
  then have "\<not> sint v < 0" by (simp add: negative_bit)
  with zigzag_decode_positive [of v] False show ?thesis
    by (simp add: EncodeZigzag32_def DecodeZigzag32_def mult.commute)
qed

lemma Decode_Encode_Zigzag64: "DecodeZigzag64 (EncodeZigzag64 v) = v"
proof (cases "bit v 63")
  case True
  then have "sint v < 0" by (simp add: negative_bit)
  with zigzag_decode_negative [of v] True show ?thesis
    unfolding EncodeZigzag64_def DecodeZigzag64_def zigzag_negative by simp
next
  case False
  then have "\<not> sint v < 0" by (simp add: negative_bit)
  with zigzag_decode_positive [of v] False show ?thesis
    by (simp add: EncodeZigzag64_def DecodeZigzag64_def mult.commute)
qed

section \<open>Variable-length integers\<close>

lemma unat_drop_bit_7: "unat (drop_bit 7 (v :: 'a::len word)) = unat v div 128"
  using drop_bit_eq_div [of 7 "unat v"] by (simp only: unat_drop_bit_eq) simp

lemma unat_drop_bit_7_less: "unat (v :: 'a::len word) < 128 * n \<Longrightarrow> unat (drop_bit 7 v) < n"
  unfolding unat_drop_bit_7 by (simp add: less_mult_imp_div_less mult.commute)

lemma length_varint32: "unat v < 2 ^ (7 * k) \<Longrightarrow> 0 < k \<Longrightarrow> length (varint32 v) \<le> k"
proof (induction v arbitrary: k rule: varint32.induct)
  case (1 v)
  show ?case
  proof (cases "0x80 \<le> v")
    case True
    then have big: "128 \<le> unat v" by (simp add: word_le_nat_alt)
    then obtain j where k: "k = Suc j" "0 < j"
      using "1.prems" by (cases k; cases "k - 1") auto
    have "unat (drop_bit 7 v) < 2 ^ (7 * j)"
      using "1.prems"(1) k(1) by (intro unat_drop_bit_7_less) (simp add: power_add)
    with "1.IH" [OF True] k show ?thesis by (simp add: varint32.simps [of v])
  next
    case False
    then show ?thesis using "1.prems" by (simp add: varint32.simps [of v])
  qed
qed

lemma length_varint64: "unat v < 2 ^ (7 * k) \<Longrightarrow> 0 < k \<Longrightarrow> length (varint64 v) \<le> k"
proof (induction v arbitrary: k rule: varint64.induct)
  case (1 v)
  show ?case
  proof (cases "0x80 \<le> v")
    case True
    then have big: "128 \<le> unat v" by (simp add: word_le_nat_alt)
    then obtain j where k: "k = Suc j" "0 < j"
      using "1.prems" by (cases k; cases "k - 1") auto
    have "unat (drop_bit 7 v) < 2 ^ (7 * j)"
      using "1.prems"(1) k(1) by (intro unat_drop_bit_7_less) (simp add: power_add)
    with "1.IH" [OF True] k show ?thesis by (simp add: varint64.simps [of v])
  next
    case False
    then show ?thesis using "1.prems" by (simp add: varint64.simps [of v])
  qed
qed

lemma varint32_nonempty [simp]: "varint32 v \<noteq> []"
  by (subst varint32.simps) simp

lemma varint64_nonempty [simp]: "varint64 v \<noteq> []"
  by (subst varint64.simps) simp

text \<open>The group byte: seven bits of the value, the eighth bit says that more follow.\<close>

lemma mask7: "(x :: 'a::len word) AND 0x7F = take_bit 7 x"
  by (simp add: take_bit_eq_mask mask_eq_exp_minus_1)

lemma group_byte_more: "\<not> ((ucast (x :: 'a::len word) :: byte) OR 0x80) < 0x80"
proof -
  have "(0x80 :: byte) \<le> ucast x OR 0x80"
    by (metis le_word_or2 or.commute)
  then show ?thesis by simp
qed

lemma group_byte_value:
  "7 \<le> LENGTH('a) \<Longrightarrow>
    (ucast (((ucast ((v :: 'a::len word) AND 0x7F) :: byte) OR 0x80) AND 0x7F) :: 'a word) = take_bit 7 v"
  by (rule bit_word_eqI)
    (auto simp: mask7 bit_ucast_iff bit_take_bit_iff bit_or_iff bit_numeral_iff dest: bit_imp_le_length)

lemma group_join:
  "push_bit i (take_bit 7 v) OR push_bit (i + 7) (drop_bit 7 (v :: 'a::len word)) = push_bit i v"
proof (rule bit_word_eqI)
  fix n assume "n < LENGTH('a)"
  then show "bit (push_bit i (take_bit 7 v) OR push_bit (i + 7) (drop_bit 7 v)) n = bit (push_bit i v) n"
    by (cases "n - i < 7") (auto simp: bit_or_iff bit_push_bit_iff bit_take_bit_iff bit_drop_bit_eq)
qed


lemma group_byte_last32:
  assumes "\<not> 0x80 \<le> (v :: 32 word)"
  shows "(ucast v :: byte) < 0x80" "ucast (ucast v :: byte) = v"
proof -
  have v: "unat v < 128" using assms by (simp add: word_le_nat_alt)
  then have "unat (ucast v :: byte) = unat v" by (simp add: unsigned_ucast_eq unsigned_take_bit_eq take_bit_nat_eq_self)
  with v show "(ucast v :: byte) < 0x80" by (simp add: word_less_nat_alt)
  show "ucast (ucast v :: byte) = v"
    using v by (simp add: word_unat_eq_iff unsigned_ucast_eq unsigned_take_bit_eq take_bit_nat_eq_self)
qed

lemma group_byte_last64:
  assumes "\<not> 0x80 \<le> (v :: 64 word)"
  shows "(ucast v :: byte) < 0x80" "ucast (ucast v :: byte) = v"
proof -
  have v: "unat v < 128" using assms by (simp add: word_le_nat_alt)
  then have "unat (ucast v :: byte) = unat v" by (simp add: unsigned_ucast_eq unsigned_take_bit_eq take_bit_nat_eq_self)
  with v show "(ucast v :: byte) < 0x80" by (simp add: word_less_nat_alt)
  show "ucast (ucast v :: byte) = v"
    using v by (simp add: word_unat_eq_iff unsigned_ucast_eq unsigned_take_bit_eq take_bit_nat_eq_self)
qed

lemma reads_readFuint8: "ba_wf ba \<Longrightarrow> reads readFuint8 ba [b] True b"
  using fuint8.rd_enc by simp

lemma reads_Cons_rest:
  assumes "ba_wf ba" "reads readFuint8 ba [b] True b" "unread ba = (b # bs) @ rest"
  shows "readFuint8 ba = (Inr b, advance 1 ba)" "ba_wf (advance 1 ba)"
    "unread (advance 1 ba) = bs @ rest"
  using assms by (auto simp: reads_def intro: ba_wf_advance)

lemma reads_varint32:
  "ba_wf ba \<Longrightarrow> unat v < 2 ^ (32 - i) \<Longrightarrow> i < 32 \<Longrightarrow>
    reads (readUint32_loop i r) ba (varint32 v) True (r OR push_bit i v)"
proof (induction v arbitrary: ba i r rule: varint32.induct)
  case (1 v)
  show ?case unfolding reads_def
  proof (intro allI impI)
    fix rest assume un: "unread ba = varint32 v @ rest"
    show "readUint32_loop i r ba = (Inr (r OR push_bit i v), advance (length (varint32 v)) ba)"
    proof (cases "0x80 \<le> v")
      case True
      let ?b = "(ucast (v AND 0x7F) :: byte) OR 0x80"
      have vs: "varint32 v = ?b # varint32 (drop_bit 7 v)"
        using True by (simp add: varint32.simps [of v])
      note step = reads_Cons_rest [OF "1.prems"(1) reads_readFuint8 [OF "1.prems"(1)] un [unfolded vs]]
      have "(2::nat) ^ 7 \<le> unat v" using True by (simp add: word_le_nat_alt)
      also note "1.prems"(2)
      finally have "(7::nat) < 32 - i" by (rule power_less_imp_less_exp [rotated]) simp
      then have i: "i + 7 < 32" "32 - i = 7 + (32 - (i + 7))" by linarith+
      have small: "unat (drop_bit 7 v) < 2 ^ (32 - (i + 7))"
        using "1.prems"(2) unfolding i(2) by (intro unat_drop_bit_7_less) (simp add: power_add)
      let ?r = "r OR push_bit i (take_bit 7 v)"
      have "readUint32_loop i r ba = readUint32_loop (i + 7) ?r (advance 1 ba)"
        using "1.prems"(3) step(1) group_byte_more [of "v AND 0x7F"] group_byte_value [of v]
        by (subst readUint32_loop.simps) simp
      also have "\<dots> = (Inr (?r OR push_bit (i + 7) (drop_bit 7 v)),
          advance (length (varint32 (drop_bit 7 v))) (advance 1 ba))"
        using "1.IH" [OF True step(2) small i(1), of ?r] step(3) by (auto simp: reads_def)
      finally show ?thesis by (simp add: vs group_join or.assoc)
    next
      case False
      then have vs: "varint32 v = [ucast v]" "(ucast v :: byte) < 0x80" "ucast (ucast v :: byte) = v"
        by (simp_all add: varint32.simps [of v] group_byte_last32)
      have "readFuint8 ba = (Inr (ucast v), advance 1 ba)"
        using un vs(1) by (intro reads_Cons_rest [OF "1.prems"(1) reads_readFuint8]) (use "1.prems"(1) in auto)
      then show ?thesis using "1.prems"(3) vs by (subst readUint32_loop.simps) simp
    qed
  qed
qed

lemma reads_varint64:
  "ba_wf ba \<Longrightarrow> unat v < 2 ^ (64 - i) \<Longrightarrow> i < 64 \<Longrightarrow>
    reads (readUint64_loop i r) ba (varint64 v) True (r OR push_bit i v)"
proof (induction v arbitrary: ba i r rule: varint64.induct)
  case (1 v)
  show ?case unfolding reads_def
  proof (intro allI impI)
    fix rest assume un: "unread ba = varint64 v @ rest"
    show "readUint64_loop i r ba = (Inr (r OR push_bit i v), advance (length (varint64 v)) ba)"
    proof (cases "0x80 \<le> v")
      case True
      let ?b = "(ucast (v AND 0x7F) :: byte) OR 0x80"
      have vs: "varint64 v = ?b # varint64 (drop_bit 7 v)"
        using True by (simp add: varint64.simps [of v])
      note step = reads_Cons_rest [OF "1.prems"(1) reads_readFuint8 [OF "1.prems"(1)] un [unfolded vs]]
      have "(2::nat) ^ 7 \<le> unat v" using True by (simp add: word_le_nat_alt)
      also note "1.prems"(2)
      finally have "(7::nat) < 64 - i" by (rule power_less_imp_less_exp [rotated]) simp
      then have i: "i + 7 < 64" "64 - i = 7 + (64 - (i + 7))" by linarith+
      have small: "unat (drop_bit 7 v) < 2 ^ (64 - (i + 7))"
        using "1.prems"(2) unfolding i(2) by (intro unat_drop_bit_7_less) (simp add: power_add)
      let ?r = "r OR push_bit i (take_bit 7 v)"
      have "readUint64_loop i r ba = readUint64_loop (i + 7) ?r (advance 1 ba)"
        using "1.prems"(3) step(1) group_byte_more [of "v AND 0x7F"] group_byte_value [of v]
        by (subst readUint64_loop.simps) simp
      also have "\<dots> = (Inr (?r OR push_bit (i + 7) (drop_bit 7 v)),
          advance (length (varint64 (drop_bit 7 v))) (advance 1 ba))"
        using "1.IH" [OF True step(2) small i(1), of ?r] step(3) by (auto simp: reads_def)
      finally show ?thesis by (simp add: vs group_join or.assoc)
    next
      case False
      then have vs: "varint64 v = [ucast v]" "(ucast v :: byte) < 0x80" "ucast (ucast v :: byte) = v"
        by (simp_all add: varint64.simps [of v] group_byte_last64)
      have "readFuint8 ba = (Inr (ucast v), advance 1 ba)"
        using un vs(1) by (intro reads_Cons_rest [OF "1.prems"(1) reads_readFuint8]) (use "1.prems"(1) in auto)
      then show ?thesis using "1.prems"(3) vs by (subst readUint64_loop.simps) simp
    qed
  qed
qed

lemma reads_readUint32: "ba_wf ba \<Longrightarrow> reads readUint32 ba (varint32 v) True v"
  using reads_varint32 [of ba v 0 0] unsigned_less [of v] by (simp add: readUint32_def)

lemma reads_readUint64: "ba_wf ba \<Longrightarrow> reads readUint64 ba (varint64 v) True v"
  using reads_varint64 [of ba v 0 0] unsigned_less [of v] by (simp add: readUint64_def)

interpretation uint32: codec writeUint32 "\<lambda>_::unit. readUint32" "\<lambda>_. ()"
  "\<lambda>_. varint32" "\<lambda>_. True" "\<lambda>_. True"
  by unfold_locales (auto simp: writeUint32_def writes_ba_write reads_readUint32)

interpretation uint64: codec writeUint64 "\<lambda>_::unit. readUint64" "\<lambda>_. ()"
  "\<lambda>_. varint64" "\<lambda>_. True" "\<lambda>_. True"
  by unfold_locales (auto simp: writeUint64_def writes_ba_write reads_readUint64)

interpretation int32: codec writeInt32 "\<lambda>_::unit. readInt32" "\<lambda>_. ()"
  "\<lambda>_ v. varint32 (EncodeZigzag32 v)" "\<lambda>_. True" "\<lambda>_. True"
proof unfold_locales
  fix ba x assume wf: "ba_wf ba"
  show "writes (writeInt32 x) ba (varint32 (EncodeZigzag32 x))"
    using uint32.wr_enc [OF wf] by (simp add: writeInt32_def)
  show "reads readInt32 ba (varint32 (EncodeZigzag32 x)) True x"
    using reads_return [OF reads_readUint32 [OF wf], of DecodeZigzag32 "EncodeZigzag32 x"]
    by (simp add: readInt32_def Decode_Encode_Zigzag32)
qed

interpretation int64: codec writeInt64 "\<lambda>_::unit. readInt64" "\<lambda>_. ()"
  "\<lambda>_ v. varint64 (EncodeZigzag64 v)" "\<lambda>_. True" "\<lambda>_. True"
proof unfold_locales
  fix ba x assume wf: "ba_wf ba"
  show "writes (writeInt64 x) ba (varint64 (EncodeZigzag64 x))"
    using uint64.wr_enc [OF wf] by (simp add: writeInt64_def)
  show "reads readInt64 ba (varint64 (EncodeZigzag64 x)) True x"
    using reads_return [OF reads_readUint64 [OF wf], of DecodeZigzag64 "EncodeZigzag64 x"]
    by (simp add: readInt64_def Decode_Encode_Zigzag64)
qed

section \<open>Strings\<close>

text \<open>A length prefix with a codec of its own, followed by the bytes.\<close>

lemma writes_prefixed:
  assumes "ba_wf ba" "writes m ba p"
  shows "writes (pthen m (ba_write s)) ba (p @ s)"
  using assms by (intro writes_pthen writes_ba_write)

lemma reads_prefixed:
  assumes wf: "ba_wf ba" and m: "reads m ba p True (of_nat (length s) :: 'a::len word)"
    and short: "length s < 2 ^ LENGTH('a)"
  shows "reads (pbind m (\<lambda>len. ba_read (unat len))) ba (p @ s) (s \<noteq> []) s"
  unfolding reads_def
proof (intro allI impI)
  fix rest
  assume un: "unread ba = (p @ s) @ rest"
    and side: "s \<noteq> [] \<or> rest \<noteq> [] \<or> m_size ba < m_capacity ba"
  have "m ba = (Inr (of_nat (length s)), advance (length p) ba)"
    using m un by (auto simp: reads_def)
  moreover have "ba_wf (advance (length p) ba)" using wf un by (intro ba_wf_advance) auto
  then have "ba_read (length s) (advance (length p) ba) =
      (Inr s, advance (length s) (advance (length p) ba))"
    using reads_ba_read [of "advance (length p) ba" s] un side by (simp add: reads_def)
  moreover have "unat (of_nat (length s) :: 'a word) = length s"
    using short by (simp add: unat_of_nat)
  ultimately show "pbind m (\<lambda>len. ba_read (unat len)) ba = (Inr s, advance (length (p @ s)) ba)"
    by (simp add: pbind_ok)
qed

interpretation stringF16: codec "writeStringF16 h" "\<lambda>_::unit. readStringF16 h" "\<lambda>_. ()"
  "\<lambda>e s. mem_bytes e (of_nat (length s) :: 16 word) @ s" "\<lambda>s. length s < 2 ^ 16" "\<lambda>s. s \<noteq> []" for h
  using fuint16.wr_enc [where h = h] fuint16.rd_enc [where h = h]
  by unfold_locales
    (auto simp: writeStringF16_def readStringF16_def intro!: writes_prefixed reads_prefixed)

interpretation stringF32: codec "writeStringF32 h" "\<lambda>_::unit. readStringF32 h" "\<lambda>_. ()"
  "\<lambda>e s. mem_bytes e (of_nat (length s) :: 32 word) @ s" "\<lambda>s. length s < 2 ^ 32" "\<lambda>s. s \<noteq> []" for h
  using fuint32.wr_enc [where h = h] fuint32.rd_enc [where h = h]
  by unfold_locales
    (auto simp: writeStringF32_def readStringF32_def intro!: writes_prefixed reads_prefixed)

interpretation stringF64: codec "writeStringF64 h" "\<lambda>_::unit. readStringF64 h" "\<lambda>_. ()"
  "\<lambda>e s. mem_bytes e (of_nat (length s) :: 64 word) @ s" "\<lambda>s. length s < 2 ^ 64" "\<lambda>s. s \<noteq> []" for h
  using fuint64.wr_enc [where h = h] fuint64.rd_enc [where h = h]
  by unfold_locales
    (auto simp: writeStringF64_def readStringF64_def intro!: writes_prefixed reads_prefixed)

interpretation stringVint: codec writeStringVint "\<lambda>_::unit. readStringVint" "\<lambda>_. ()"
  "\<lambda>e s. varint64 (of_nat (length s)) @ s" "\<lambda>s. length s < 2 ^ 64" "\<lambda>s. s \<noteq> []"
  using uint64.wr_enc uint64.rd_enc
  by unfold_locales
    (auto simp: writeStringVint_def readStringVint_def intro!: writes_prefixed reads_prefixed)

end
