(* ===== verification/ByteArray_Message.thy ===== *)
theory ByteArray_Message
  imports ByteArray_Codec
begin

text \<open>
  Whole messages: a value of any of the types the buffer serialises (\<open>item\<close>), the write and
  read methods chosen by its kind, and the codec contract for them. The properties of the
  buffer's raw and typed operations stand here.
\<close>

section \<open>Messages\<close>

datatype item =
    I_Fint8 "8 word" | I_Fuint8 "8 word"
  | I_Fint16 "16 word" | I_Fuint16 "16 word"
  | I_Fint32 "32 word" | I_Fuint32 "32 word"
  | I_Fint64 "64 word" | I_Fuint64 "64 word"
  | I_Int32 "32 word" | I_Uint32 "32 word" | I_Int64 "64 word" | I_Uint64 "64 word"
  | I_Float "32 word" | I_Double "64 word"
  | I_StringF16 "byte list" | I_StringF32 "byte list" | I_StringF64 "byte list"
  | I_StringVint "byte list"

datatype kind =
    K_Fint8 | K_Fuint8 | K_Fint16 | K_Fuint16 | K_Fint32 | K_Fuint32 | K_Fint64 | K_Fuint64
  | K_Int32 | K_Uint32 | K_Int64 | K_Uint64 | K_Float | K_Double
  | K_StringF16 | K_StringF32 | K_StringF64 | K_StringVint

fun kind_of :: "item \<Rightarrow> kind" where
  "kind_of (I_Fint8 _) = K_Fint8" | "kind_of (I_Fuint8 _) = K_Fuint8"
| "kind_of (I_Fint16 _) = K_Fint16" | "kind_of (I_Fuint16 _) = K_Fuint16"
| "kind_of (I_Fint32 _) = K_Fint32" | "kind_of (I_Fuint32 _) = K_Fuint32"
| "kind_of (I_Fint64 _) = K_Fint64" | "kind_of (I_Fuint64 _) = K_Fuint64"
| "kind_of (I_Int32 _) = K_Int32" | "kind_of (I_Uint32 _) = K_Uint32"
| "kind_of (I_Int64 _) = K_Int64" | "kind_of (I_Uint64 _) = K_Uint64"
| "kind_of (I_Float _) = K_Float" | "kind_of (I_Double _) = K_Double"
| "kind_of (I_StringF16 _) = K_StringF16" | "kind_of (I_StringF32 _) = K_StringF32"
| "kind_of (I_StringF64 _) = K_StringF64" | "kind_of (I_StringVint _) = K_StringVint"

fun write_item :: "endian \<Rightarrow> item \<Rightarrow> unit ba_prog" where
  "write_item h (I_Fint8 v) = writeFint8 v"
| "write_item h (I_Fuint8 v) = writeFuint8 v"
| "write_item h (I_Fint16 v) = writeFint16 h v"
| "write_item h (I_Fuint16 v) = writeFuint16 h v"
| "write_item h (I_Fint32 v) = writeFint32 h v"
| "write_item h (I_Fuint32 v) = writeFuint32 h v"
| "write_item h (I_Fint64 v) = writeFint64 h v"
| "write_item h (I_Fuint64 v) = writeFuint64 h v"
| "write_item h (I_Int32 v) = writeInt32 v"
| "write_item h (I_Uint32 v) = writeUint32 v"
| "write_item h (I_Int64 v) = writeInt64 v"
| "write_item h (I_Uint64 v) = writeUint64 v"
| "write_item h (I_Float v) = writeFloat h v"
| "write_item h (I_Double v) = writeDouble h v"
| "write_item h (I_StringF16 s) = writeStringF16 h s"
| "write_item h (I_StringF32 s) = writeStringF32 h s"
| "write_item h (I_StringF64 s) = writeStringF64 h s"
| "write_item h (I_StringVint s) = writeStringVint s"

fun read_item :: "endian \<Rightarrow> kind \<Rightarrow> item ba_prog" where
  "read_item h K_Fint8 = pbind readFint8 (\<lambda>v. preturn (I_Fint8 v))"
| "read_item h K_Fuint8 = pbind readFuint8 (\<lambda>v. preturn (I_Fuint8 v))"
| "read_item h K_Fint16 = pbind (readFint16 h) (\<lambda>v. preturn (I_Fint16 v))"
| "read_item h K_Fuint16 = pbind (readFuint16 h) (\<lambda>v. preturn (I_Fuint16 v))"
| "read_item h K_Fint32 = pbind (readFint32 h) (\<lambda>v. preturn (I_Fint32 v))"
| "read_item h K_Fuint32 = pbind (readFuint32 h) (\<lambda>v. preturn (I_Fuint32 v))"
| "read_item h K_Fint64 = pbind (readFint64 h) (\<lambda>v. preturn (I_Fint64 v))"
| "read_item h K_Fuint64 = pbind (readFuint64 h) (\<lambda>v. preturn (I_Fuint64 v))"
| "read_item h K_Int32 = pbind readInt32 (\<lambda>v. preturn (I_Int32 v))"
| "read_item h K_Uint32 = pbind readUint32 (\<lambda>v. preturn (I_Uint32 v))"
| "read_item h K_Int64 = pbind readInt64 (\<lambda>v. preturn (I_Int64 v))"
| "read_item h K_Uint64 = pbind readUint64 (\<lambda>v. preturn (I_Uint64 v))"
| "read_item h K_Float = pbind (readFloat h) (\<lambda>v. preturn (I_Float v))"
| "read_item h K_Double = pbind (readDouble h) (\<lambda>v. preturn (I_Double v))"
| "read_item h K_StringF16 = pbind (readStringF16 h) (\<lambda>s. preturn (I_StringF16 s))"
| "read_item h K_StringF32 = pbind (readStringF32 h) (\<lambda>s. preturn (I_StringF32 s))"
| "read_item h K_StringF64 = pbind (readStringF64 h) (\<lambda>s. preturn (I_StringF64 s))"
| "read_item h K_StringVint = pbind readStringVint (\<lambda>s. preturn (I_StringVint s))"

fun enc_item :: "endian \<Rightarrow> item \<Rightarrow> byte list" where
  "enc_item e (I_Fint8 v) = [v]"
| "enc_item e (I_Fuint8 v) = [v]"
| "enc_item e (I_Fint16 v) = mem_bytes e v"
| "enc_item e (I_Fuint16 v) = mem_bytes e v"
| "enc_item e (I_Fint32 v) = mem_bytes e v"
| "enc_item e (I_Fuint32 v) = mem_bytes e v"
| "enc_item e (I_Fint64 v) = mem_bytes e v"
| "enc_item e (I_Fuint64 v) = mem_bytes e v"
| "enc_item e (I_Int32 v) = varint32 (EncodeZigzag32 v)"
| "enc_item e (I_Uint32 v) = varint32 v"
| "enc_item e (I_Int64 v) = varint64 (EncodeZigzag64 v)"
| "enc_item e (I_Uint64 v) = varint64 v"
| "enc_item e (I_Float v) = mem_bytes e v"
| "enc_item e (I_Double v) = mem_bytes e v"
| "enc_item e (I_StringF16 s) = mem_bytes e (of_nat (length s) :: 16 word) @ s"
| "enc_item e (I_StringF32 s) = mem_bytes e (of_nat (length s) :: 32 word) @ s"
| "enc_item e (I_StringF64 s) = mem_bytes e (of_nat (length s) :: 64 word) @ s"
| "enc_item e (I_StringVint s) = varint64 (of_nat (length s)) @ s"

text \<open>Strings must fit their length prefix; only an empty string may end in a read of nothing.\<close>

fun item_ok :: "item \<Rightarrow> bool" where
  "item_ok (I_StringF16 s) \<longleftrightarrow> length s < 2 ^ 16"
| "item_ok (I_StringF32 s) \<longleftrightarrow> length s < 2 ^ 32"
| "item_ok (I_StringF64 s) \<longleftrightarrow> length s < 2 ^ 64"
| "item_ok (I_StringVint s) \<longleftrightarrow> length s < 2 ^ 64"
| "item_ok _ \<longleftrightarrow> True"

fun item_solid :: "item \<Rightarrow> bool" where
  "item_solid (I_StringF16 s) \<longleftrightarrow> s \<noteq> []"
| "item_solid (I_StringF32 s) \<longleftrightarrow> s \<noteq> []"
| "item_solid (I_StringF64 s) \<longleftrightarrow> s \<noteq> []"
| "item_solid (I_StringVint s) \<longleftrightarrow> s \<noteq> []"
| "item_solid _ \<longleftrightarrow> True"

lemmas wr_encs = fint8.wr_enc fuint8.wr_enc fint16.wr_enc fuint16.wr_enc fint32.wr_enc
  fuint32.wr_enc fint64.wr_enc fuint64.wr_enc int32.wr_enc uint32.wr_enc int64.wr_enc
  uint64.wr_enc stringF16.wr_enc stringF32.wr_enc stringF64.wr_enc stringVint.wr_enc

lemmas rd_encs = fint8.rd_enc fuint8.rd_enc fint16.rd_enc fuint16.rd_enc fint32.rd_enc
  fuint32.rd_enc fint64.rd_enc fuint64.rd_enc int32.rd_enc uint32.rd_enc int64.rd_enc
  uint64.rd_enc stringF16.rd_enc stringF32.rd_enc stringF64.rd_enc stringVint.rd_enc

interpretation message: codec "write_item h" "read_item h" kind_of enc_item item_ok item_solid for h
proof unfold_locales
  fix ba x assume wf: "ba_wf ba"
  show "writes (write_item h x) ba (enc_item (m_endian ba) x)"
    using wr_encs [OF wf] by (cases x) (auto simp: writeFloat_def writeDouble_def)
  assume "item_ok x"
  then show "reads (read_item h (kind_of x)) ba (enc_item (m_endian ba) x) (item_solid x) x"
    using wf by (cases x)
      (auto simp: readFloat_def readDouble_def intro!: reads_return rd_encs)
qed

section \<open>Properties\<close>

text \<open>
  C1. A raw write to a well-formed buffer always succeeds, keeps it well formed, and splices
  the bytes into the content at the position, whatever the block size and however many
  blocks the write spans or adds.
\<close>

theorem write_refines:
  assumes "ba_wf ba"
  shows "\<exists>ba'. ba_write bs ba = (Inr (), ba') \<and> ba_wf ba' \<and>
    content ba' = splice (content ba) (m_position ba) bs \<and>
    m_position ba' = m_position ba + length bs \<and>
    m_endian ba' = m_endian ba \<and> m_baseSize ba' = m_baseSize ba"
  using assms by (rule ba_write_spec)

theorem write_refines_witness:
  "ba_wf (ByteArray_new (\<lambda>_ _. 0) 2) \<and>
   (\<exists>ba'. ba_write [1, 2, 3, 4, 5] (ByteArray_new (\<lambda>_ _. 0) 2) = (Inr (), ba') \<and>
      m_position ba' = 5)"
proof -
  have wf: "ba_wf (ByteArray_new (\<lambda>_ _. 0) 2)" by (simp add: ba_wf_new)
  show ?thesis using wf write_refines [OF wf, of "[1, 2, 3, 4, 5]"]
    by (auto simp: ByteArray_new_def)
qed

text \<open>
  C2. A raw read of a well-formed buffer is decided by what is unread: too little makes it
  throw and leaves the buffer as it was; otherwise it returns exactly the next bytes and moves
  on by their number, except that a read of no bytes at the very end of the capacity
  dereferences the null \<open>m_cur\<close>.
\<close>

theorem read_refines:
  assumes "ba_wf ba"
  shows "ba_read k ba =
    (if length (unread ba) < k then (Inl (Out_of_range ''not enough len''), ba)
     else if k = 0 \<and> m_position ba = m_capacity ba then (Inl Null_deref, ba)
     else (Inr (take k (unread ba)), advance k ba)) \<and>
   (length (unread ba) < k \<or> ba_wf (advance k ba))"
proof (intro conjI)
  consider "length (unread ba) < k" | "k = 0" "m_position ba = m_capacity ba"
    | "k \<le> length (unread ba)" "0 < k \<or> m_position ba < m_capacity ba"
    using ba_wfD(5,6) [OF assms] by force
  then show "ba_read k ba =
    (if length (unread ba) < k then (Inl (Out_of_range ''not enough len''), ba)
     else if k = 0 \<and> m_position ba = m_capacity ba then (Inl Null_deref, ba)
     else (Inr (take k (unread ba)), advance k ba))"
  proof cases
    case 2
    then have "m_cur ba = None" using ba_wfD(4,7) [OF assms] by (simp add: cursor_None_iff)
    then show ?thesis using 2 ba_wfD(1) [OF assms]
      by (simp add: ba_read_def node_size_def Let_def)
  qed (use assms in \<open>auto simp: ba_read_too_long ba_read_spec\<close>)
  show "length (unread ba) < k \<or> ba_wf (advance k ba)"
    using ba_wf_advance [OF assms, of k] by (cases "k \<le> length (unread ba)") auto
qed

theorem read_refines_witness:
  "ba_wf (ByteArray_new (\<lambda>_ _. 0) 4) \<and>
   ba_read 1 (ByteArray_new (\<lambda>_ _. 0) 4) =
     (Inl (Out_of_range ''not enough len''), ByteArray_new (\<lambda>_ _. 0) 4) \<and>
   ba_wf (advance 0 (ByteArray_new (\<lambda>_ _. 0) 4))"
proof -
  let ?ba = "ByteArray_new (\<lambda>_ _. 0) 4"
  have wf: "ba_wf ?ba" by (simp add: ba_wf_new)
  have u: "length (unread ?ba) = 0"
    by (simp add: length_unread [OF wf]) (simp add: ByteArray_new_def)
  show ?thesis using wf read_refines [OF wf, of 1] read_refines [OF wf, of 0] u by simp
qed

text \<open>
  C3. A message, any list of integers, floats and strings of the types the class offers, is
  read back as it was written once the position is set back to where writing began, on any
  host and in either byte order: every string must fit its length prefix, and either no string
  is empty or the message does not end at the very end of the capacity.
\<close>

theorem message_roundtrip:
  assumes "ba_wf ba" and "\<forall>x\<in>set xs. item_ok x"
    and "write_all (write_item h) xs ba = (Inr (), ba1)"
    and "(\<forall>x\<in>set xs. item_solid x) \<or> m_position ba1 < m_capacity ba1"
    and "setPosition (m_position ba) ba1 = (Inr (), ba2)"
  shows "\<exists>ba3. read_all (read_item h) (map kind_of xs) ba2 = (Inr xs, ba3) \<and>
    m_position ba3 = m_position ba1 \<and> content ba3 = content ba1 \<and> ba_wf ba3"
  using assms by (rule message.write_rewind_read)

theorem message_roundtrip_witness:
  "\<exists>ba1 ba2 ba3.
     write_all (write_item LITTLE_ENDIAN) [I_Fuint16 0x1234, I_Int32 (- 5), I_StringF16 [7, 8, 9]]
       (ByteArray_new (\<lambda>_ _. 0) 4) = (Inr (), ba1) \<and>
     setPosition 0 ba1 = (Inr (), ba2) \<and>
     read_all (read_item LITTLE_ENDIAN) [K_Fuint16, K_Int32, K_StringF16] ba2 =
       (Inr [I_Fuint16 0x1234, I_Int32 (- 5), I_StringF16 [7, 8, 9]], ba3)"
proof -
  let ?ba = "ByteArray_new (\<lambda>_ _. 0) 4"
  let ?xs = "[I_Fuint16 0x1234, I_Int32 (- 5), I_StringF16 [7, 8, 9]]"
  have wf: "ba_wf ?ba" by (simp add: ba_wf_new)
  obtain ba1 where 1: "write_all (write_item LITTLE_ENDIAN) ?xs ?ba = (Inr (), ba1)" "ba_wf ba1"
    using message.write_all_writes [OF wf, of LITTLE_ENDIAN ?xs] by (auto simp: writes_def)
  have p: "m_position ?ba = 0" by (simp add: ByteArray_new_def)
  obtain ba2 where 2: "setPosition 0 ba1 = (Inr (), ba2)"
    using setPosition_back [OF 1(2), of 0] by auto
  show ?thesis
    using message_roundtrip [OF wf _ 1(1) _ 2 [folded p]] 1(1) 2 by (simp del: write_all.simps) blast
qed

text \<open>
  The temporary arrays of the variable-length writers are large enough: a 32-bit value
  takes at most 5 bytes and a 64-bit value at most 10, as does the zigzag form of a signed one.
\<close>

theorem varint_fits:
  "length (varint32 v) \<le> 5 \<and> length (varint64 w) \<le> 10 \<and>
   length (varint32 (EncodeZigzag32 v)) \<le> 5 \<and> length (varint64 (EncodeZigzag64 w)) \<le> 10"
proof -
  have "unat x < 2 ^ (7 * 5)" for x :: "32 word"
    by (rule less_le_trans [OF unsigned_less]) simp
  moreover have "unat y < 2 ^ (7 * 10)" for y :: "64 word"
    by (rule less_le_trans [OF unsigned_less]) simp
  ultimately show ?thesis by (intro conjI length_varint32 length_varint64) simp_all
qed

end
