(* ===== verification/Hook_Props.thy ===== *)
theory Hook_Props
  imports Hook
begin

unbundle bit_operations_syntax

text \<open>
  What the hook layer promises: the flags a program sets and reads back through \<open>fcntl\<close> are its
  own while the descriptor stays non-blocking underneath, a blocking call retries until it has
  a result or times out and leaves no timer behind, closing a descriptor wakes everyone who
  waits on it; and where it breaks its promise.
\<close>

section \<open>fcntl and ioctl\<close>

lemma mgr_get_lookup: "- 1 \<le> fd \<Longrightarrow> mgr_get fd s = (Inr (fd_lookup fd (fds s)), s)"
  by (simp add: mgr_get_def)

lemma upd_ctx_simps [simp]:
  "os (upd_ctx fd f s) = os s" "t_hook_enable (upd_ctx fd f s) = t_hook_enable s"
  "cur_iom (upd_ctx fd f s) = cur_iom s"
  by (simp_all add: upd_ctx_def)

lemma upd_ctx_lookup:
  assumes "fd_lookup fd (fds s) = Some c"
  shows "fd_lookup fd' (fds (upd_ctx fd f s)) =
    (if fd' = fd then Some (f c) else fd_lookup fd' (fds s))"
    "length (fds (upd_ctx fd f s)) = length (fds s)"
proof -
  have fd: "0 \<le> fd" "fd < int (length (fds s))" "fds s ! nat fd = Some c"
    using assms by (auto simp: fd_lookup_def split: if_splits)
  show "fd_lookup fd' (fds (upd_ctx fd f s)) =
    (if fd' = fd then Some (f c) else fd_lookup fd' (fds s))"
    using lookup_update [OF fd(1,2)] fd(3) by (simp add: upd_ctx_def)
  show "length (fds (upd_ctx fd f s)) = length (fds s)" by (simp add: upd_ctx_def)
qed

lemma lookup_nonneg: "fd_lookup fd t = Some c \<Longrightarrow> 0 \<le> fd"
  by (auto simp: fd_lookup_def split: if_splits)

text \<open>A change of a context that keeps it consistent, on a kernel that keeps the flag.\<close>

lemma table_ok_upd_ctx:
  assumes ok: "table_ok nb (fds s, os s)" and c: "fd_lookup fd (fds s) = Some c"
    and e: "entry_ok nb k (nat fd) (f c)" and k: "\<And>fd'. fd' = fd \<or> nb k fd' = nb (os s) fd'"
  shows "table_ok nb (fds (upd_ctx fd f s), k)"
proof (rule table_okI)
  show "64 \<le> length (fds (upd_ctx fd f s))"
    using ok upd_ctx_lookup(2) [OF c] by (simp add: table_ok_def)
  fix fd' c' assume a: "fd_lookup fd' (fds (upd_ctx fd f s)) = Some c'"
  show "entry_ok nb k (nat fd') c'"
  proof (cases "fd' = fd")
    case False
    then have "fd_lookup fd' (fds s) = Some c'" using a upd_ctx_lookup(1) [OF c] by simp
    then show ?thesis using table_okD [OF ok] lookup_nonneg k [of fd'] False
      by (fastforce simp: entry_ok_def)
  qed (use a e upd_ctx_lookup(1) [OF c] in simp)
qed

lemma and_not_O_NONBLOCK: "(w AND NOT O_NONBLOCK) AND O_NONBLOCK = 0"
  by (metis and.assoc and.commute bit.conj_cancel_left and_zero_eq)

text \<open>
  The descriptor's flag as the program sees it: for a socket in the table, setting the flags
  with \<open>fcntl\<close> and reading them back gives the \<open>O_NONBLOCK\<close> bit that was set, although the
  system keeps the descriptor non-blocking throughout; the table stays consistent and no other
  descriptor's context changes.
\<close>

theorem fcntl_flags_roundtrip:
  assumes "fcntl_contract fcntl_f nb" and "table_ok nb (fds s, os s)"
    and "fd_lookup fd (fds s) = Some c" and "m_isSocket c"
  shows "\<exists>r s1 w. hook_fcntl fcntl_f fd F_SETFL (Int_arg arg) s = (Inr r, s1) \<and>
    table_ok nb (fds s1, os s1) \<and> nb (os s1) fd \<and>
    hook_fcntl fcntl_f fd F_GETFL No_arg s1 = (Inr w, s1) \<and>
    (w AND O_NONBLOCK \<noteq> 0) = (arg AND O_NONBLOCK \<noteq> 0) \<and>
    (\<forall>fd'. fd' = fd \<or> fd_lookup fd' (fds s1) = fd_lookup fd' (fds s))"
proof -
  note f = fcntl_contractD [OF assms(1)]
  have fd: "0 \<le> fd" using assms(3) by (rule lookup_nonneg)
  have e: "entry_ok nb (os s) (nat fd) c" using table_okD [OF assms(2,3)] .
  then have c: "\<not> m_isClosed c" "m_sysNonblock c" "nb (os s) fd" "m_fd c = fd"
    using assms(4) fd by (simp_all add: entry_ok_def)
  let ?upd = "\<lambda>c. c\<lparr> m_userNonblock := arg AND O_NONBLOCK \<noteq> 0 \<rparr>"
  let ?s = "upd_ctx fd ?upd s"
  let ?call = "fcntl_f fd F_SETFL (Int_arg (arg OR O_NONBLOCK)) (os s)"
  define s1 where "s1 = ?s\<lparr> os := snd ?call \<rparr>"
  have nb1: "nb (os s1) = (nb (os s))(fd := True)"
    using f(1) or_O_NONBLOCK by (simp add: s1_def)
  have l1: "fd_lookup fd' (fds s1) = (if fd' = fd then Some (?upd c) else fd_lookup fd' (fds s))" for fd'
    using upd_ctx_lookup(1) [OF assms(3)] by (simp add: s1_def)
  have set: "hook_fcntl fcntl_f fd F_SETFL (Int_arg arg) s = (Inr (fst ?call), s1)"
    using fd assms(3,4) c
    by (simp add: hook_fcntl_def pbind_ok mgr_get_lookup not_ours_def os_call_def Let_def s1_def
        split: prod.split)
  have "table_ok nb (fds s1, os s1)"
    using table_ok_upd_ctx [OF assms(2,3), of "os s1" ?upd] nb1 e fd assms(4)
    by (simp add: s1_def entry_ok_def)
  moreover
  define g where "g = fst (fcntl_f fd F_GETFL No_arg (os s1))"
  have "os_call (fcntl_f fd F_GETFL No_arg) s1 = (Inr g, s1)"
    using f(2) [of fd No_arg "os s1"] by (auto simp: os_call_def g_def split: prod.split)
  then have "hook_fcntl fcntl_f fd F_GETFL No_arg s1 =
      (Inr (if arg AND O_NONBLOCK \<noteq> 0 then g OR O_NONBLOCK else g AND NOT O_NONBLOCK), s1)"
    using fd l1 [of fd] c(1) assms(4)
    by (simp add: hook_fcntl_def pbind_ok mgr_get_lookup not_ours_def)
  ultimately show ?thesis using set nb1 l1 or_O_NONBLOCK and_not_O_NONBLOCK by auto
qed

definition sock_sys :: "(nat, nat, int \<Rightarrow> ev option, int \<Rightarrow> 32 word) hook_sys" where
  "sock_sys =
     \<lparr> t_hook_enable = True,
       fds = FdManager_new[5 := Some \<lparr> m_isInit = True, m_isSocket = True, m_sysNonblock = True,
         m_userNonblock = False, m_isClosed = False, m_fd = 5, m_recvTimeout = - 1,
         m_sendTimeout = - 1 \<rparr>],
       os = (\<lambda>_. O_NONBLOCK), cur_iom = None \<rparr>"

lemma sock_sys_facts:
  "table_ok (\<lambda>k fd. k fd AND O_NONBLOCK \<noteq> 0) (fds sock_sys, os sock_sys)"
  "fd_lookup 5 (fds sock_sys) = Some \<lparr> m_isInit = True, m_isSocket = True, m_sysNonblock = True,
     m_userNonblock = False, m_isClosed = False, m_fd = 5, m_recvTimeout = - 1, m_sendTimeout = - 1 \<rparr>"
  by (auto simp: table_ok_def sock_sys_def FdManager_new_def nth_list_update entry_ok_def
      O_NONBLOCK_def fd_lookup_def split: if_splits)

theorem fcntl_flags_roundtrip_witness:
  "\<exists>r s1 w. hook_fcntl flag_kernel 5 F_SETFL (Int_arg 0) sock_sys = (Inr r, s1) \<and>
     os s1 5 AND O_NONBLOCK \<noteq> 0 \<and>
     hook_fcntl flag_kernel 5 F_GETFL No_arg s1 = (Inr w, s1) \<and> w AND O_NONBLOCK = 0"
  using fcntl_flags_roundtrip [OF flag_kernel_contract sock_sys_facts, of 0] by auto

text \<open>
  \<open>ioctl\<close> does not keep that promise: setting a socket back to blocking mode with
  \<open>FIONBIO\<close> is passed on to the system as it is, so the descriptor really blocks from then on,
  while the table still says that the system has it non-blocking.
\<close>

theorem ioctl_makes_socket_block:
  assumes "\<forall>d v k. nb (snd (ioctl_f d FIONBIO v k)) = (nb k)(d := v \<noteq> (0 :: int))"
    and "table_ok nb (fds s, os s)" and "fd_lookup fd (fds s) = Some c" and "m_isSocket c"
  shows "\<exists>r s1 c1. hook_ioctl ioctl_f fd FIONBIO 0 s = (Inr r, s1) \<and>
    fd_lookup fd (fds s1) = Some c1 \<and> m_sysNonblock c1 \<and> \<not> nb (os s1) fd \<and>
    \<not> table_ok nb (fds s1, os s1)"
proof -
  have fd: "0 \<le> fd" using assms(3) by (rule lookup_nonneg)
  have e: "entry_ok nb (os s) (nat fd) c" using table_okD [OF assms(2,3)] .
  let ?upd = "\<lambda>c. c\<lparr> m_userNonblock := (0 :: int) \<noteq> 0 \<rparr>"
  let ?call = "ioctl_f fd FIONBIO 0 (os s)"
  define s1 where "s1 = (upd_ctx fd ?upd s)\<lparr> os := snd ?call \<rparr>"
  have run: "hook_ioctl ioctl_f fd FIONBIO 0 s = (Inr (fst ?call), s1)"
    using fd assms(3,4) e
    by (simp add: hook_ioctl_def pbind_ok mgr_get_lookup not_ours_def os_call_def Let_def s1_def
        entry_ok_def split: prod.split)
  have l1: "fd_lookup fd (fds s1) = Some (?upd c)"
    using upd_ctx_lookup(1) [OF assms(3)] by (simp add: s1_def)
  have nb1: "\<not> nb (os s1) fd" using assms(1) by (simp add: s1_def)
  have "\<not> table_ok nb (fds s1, os s1)"
    using table_okD [of nb "fds s1" "os s1", OF _ l1] nb1 assms(4) fd by (auto simp: entry_ok_def)
  then show ?thesis using run l1 nb1 e assms(4) by (auto simp: entry_ok_def)
qed

theorem ioctl_makes_socket_block_witness:
  "\<exists>r s1. hook_ioctl (\<lambda>d _ v k. (0, k(d := if v \<noteq> 0 then O_NONBLOCK else 0))) 5 FIONBIO 0 sock_sys =
     (Inr r, s1) \<and> os s1 5 AND O_NONBLOCK = 0"
proof -
  let ?io = "\<lambda>d (_ :: 64 word) v k. (0 :: int, k(d := if v \<noteq> (0 :: int) then O_NONBLOCK else 0))"
  let ?nb = "\<lambda>(k :: int \<Rightarrow> 32 word) fd. k fd AND O_NONBLOCK \<noteq> 0"
  have io: "\<forall>d v k. ?nb (snd (?io d FIONBIO v k)) = (?nb k)(d := v \<noteq> (0 :: int))"
    by (auto simp: fun_eq_iff O_NONBLOCK_def)
  show ?thesis
    using ioctl_makes_socket_block [where ioctl_f = ?io and nb = ?nb, OF io sock_sys_facts] by auto
qed

section \<open>Blocking calls\<close>

definition again :: "int \<times> int \<Rightarrow> bool" where
  "again c \<longleftrightarrow> fst c = - 1 \<and> (snd c = EINTR \<or> snd c = EAGAIN)"

definition timers_of :: "io_act list \<Rightarrow> io_act list" where
  "timers_of as = filter (\<lambda>a. a = Cancel_timer \<or> (\<exists>t. a = Set_timer t)) as"

fun paired :: "ms \<Rightarrow> io_act list \<Rightarrow> bool" where
  "paired to [] = True"
| "paired to [a] = False"
| "paired to (a # b # as) = (a = Set_timer to \<and> b = Cancel_timer \<and> paired to as)"

lemma timers_of_simps [simp]:
  "timers_of [] = []" "timers_of (as @ bs) = timers_of as @ timers_of bs"
  "timers_of (Call # as) = timers_of as" "timers_of (Add_event e # as) = timers_of as"
  "timers_of (Yield # as) = timers_of as" "timers_of (Set_timer t # as) = Set_timer t # timers_of as"
  "timers_of (Cancel_timer # as) = Cancel_timer # timers_of as"
  by (simp_all add: timers_of_def)



text \<open>
  How long the hooked sleeps really sleep: \<open>sleep\<close> multiplies in 32 bits, so from 4294968
  seconds on it sleeps the product modulo \<open>2 ^ 32\<close> instead, and \<open>usleep\<close> rounds down to whole
  milliseconds, so that less than one does not sleep at all.
\<close>

theorem sleep_durations:
  "unat (sleep_ms s) = unat s * 1000 mod 2 ^ 32 \<and>
   (unat (sleep_ms s) = unat s * 1000) = (unat s < 4294968) \<and>
   unat (usleep_ms u) = unat u div 1000 \<and> (unat u < 1000) = (usleep_ms u = 0)"
proof -
  have up: "unat (ucast x :: ms) = unat x" for x :: "32 word"
    using unsigned_less [of x, where 'a = nat]
    by (simp add: unsigned_ucast_eq take_bit_nat_eq_self_iff)
  have 1: "unat (sleep_ms s) = unat s * 1000 mod 2 ^ 32"
    unfolding sleep_ms_def up by (simp add: unat_word_ariths)
  have 2: "unat (usleep_ms u) = unat u div 1000"
    unfolding usleep_ms_def up by (simp add: unat_div_distrib)
  have "(unat s * 1000 mod 2 ^ 32 = unat s * 1000) = (unat s < 4294968)"
    by (auto simp: mod_less)
  moreover have "(unat u < 1000) = (usleep_ms u = 0)"
    using 2 by (metis div_eq_0_iff unat_eq_zero zero_neq_numeral)
  ultimately show ?thesis using 1 2 by simp
qed

text \<open>
  A zero time-out, which means "no time-out" to \<open>setsockopt\<close>, becomes one of zero
  milliseconds: once it is set, a hooked call that would block arms a timer that is due at once,
  and fails with the errno that timer writes.
\<close>

theorem zero_timeout_fires_at_once:
  assumes "t_hook_enable s" and "fd_lookup fd (fds s) = Some c" and "m_isSocket c"
    and "\<not> m_isClosed c" and "\<not> m_userNonblock c" and "w_rt w = 0" and "w_cancelled w = ETIMEDOUT"
  shows "\<exists>r s1 c1.
    hook_setsockopt setsockopt_f fd True (Timeout ty) \<lparr> tv_sec = 0, tv_usec = 0 \<rparr> s = (Inr r, s1) \<and>
    fd_lookup fd (fds s1) = Some c1 \<and>
    do_io True (Some c1) event ty [(- 1, EAGAIN)] [w] =
      ([Call, Set_timer 0, Add_event event, Yield, Cancel_timer], Some (- 1, ETIMEDOUT))"
proof -
  have fd: "- 1 \<le> fd" using lookup_nonneg [OF assms(2)] by simp
  let ?s = "upd_ctx fd (setTimeout ty 0) s"
  let ?v = "\<lparr> tv_sec = 0, tv_usec = 0 \<rparr>"
  let ?call = "setsockopt_f fd True (Timeout ty) ?v (os s)"
  have run: "hook_setsockopt setsockopt_f fd True (Timeout ty) ?v s =
      (Inr (fst ?call), ?s\<lparr> os := snd ?call \<rparr>)"
    using assms(1,2) fd
    by (simp add: hook_setsockopt_def pbind_ok mgr_get_lookup os_call_def Let_def split: prod.split)
  have look: "fd_lookup fd (fds (?s\<lparr> os := snd ?call \<rparr>)) = Some (setTimeout ty 0 c)"
    using upd_ctx_lookup(1) [OF assms(2)] by simp
  have c: "getTimeout ty (setTimeout ty 0 c) = 0" "m_isSocket (setTimeout ty 0 c)"
    "\<not> m_isClosed (setTimeout ty 0 c)" "\<not> m_userNonblock (setTimeout ty 0 c)"
    using assms(3-5) by (simp_all add: getTimeout_def setTimeout_def)
  have "do_io True (Some (setTimeout ty 0 c)) event ty [(- 1, EAGAIN)] [w] =
      ([Call, Set_timer 0, Add_event event, Yield, Cancel_timer], Some (- 1, ETIMEDOUT))"
    using c assms(6,7) by (simp add: do_io_def EAGAIN_def EINTR_def ETIMEDOUT_def)
  then show ?thesis using run look by blast
qed

theorem zero_timeout_fires_at_once_witness:
  "\<exists>r s1 c1. hook_setsockopt (\<lambda>_ _ _ _ k. (0, k)) 5 True (Timeout SO_RCVTIMEO)
      \<lparr> tv_sec = 0, tv_usec = 0 \<rparr> sock_sys = (Inr r, s1) \<and> fd_lookup 5 (fds s1) = Some c1 \<and>
    do_io True (Some c1) READ SO_RCVTIMEO [(- 1, EAGAIN)]
      [\<lparr> w_rt = 0, w_errno = 0, w_cancelled = ETIMEDOUT \<rparr>] =
      ([Call, Set_timer 0, Add_event READ, Yield, Cancel_timer], Some (- 1, ETIMEDOUT))"
  by (rule zero_timeout_fires_at_once [OF _ sock_sys_facts(2)]) (simp_all add: sock_sys_def)

text \<open>
  Closing a descriptor of the table forgets its context and wakes everyone who waits on it:
  afterwards no event is registered for it unless the kernel refused to remove it, and every
  waiter is still accounted for, in its scheduler's queue.
\<close>

theorem close_wakes_waiters:
  assumes "t_hook_enable s" and "table_ok nb (fds s, os s)" and "fd_lookup fd (fds s) = Some c"
    and "cur_iom s = Some m" and "iom_ok m" and "epoll_contract ctl interest"
  shows "\<exists>r s' m'. hook_close ctl close_f fd s = (Inr r, s') \<and> fd_lookup fd (fds s') = None \<and>
    (\<forall>fd'. fd' = fd \<or> fd_lookup fd' (fds s') = fd_lookup fd' (fds s)) \<and>
    cur_iom s' = Some m' \<and> iom_ok m' \<and> (\<forall>sid. load sid m' = load sid m) \<and>
    (events_at fd m' = 0 \<or> fst (ctl EPOLL_CTL_DEL fd 0 (kernel m)) \<noteq> 0)"
proof -
  have fd: "0 \<le> fd" "fd < int (length (fds s))"
    using assms(3) by (auto simp: fd_lookup_def split: if_splits)
  obtain b m' where m': "cancelAll ctl fd m = (Inr b, m')" "keeps interest m m'"
      "\<And>sid. load sid m' = load sid m"
      "events_at fd m' = 0 \<or> fst (ctl EPOLL_CTL_DEL fd 0 (kernel m)) \<noteq> 0"
    using cancelAll_spec [OF assms(5) fd(1) assms(6)] by metis
  let ?s1 = "s\<lparr> cur_iom := Some m', fds := (fds s)[nat fd := None] \<rparr>"
  let ?call = "close_f fd (os s)"
  have "iom_cancelAll ctl fd s = (Inr (), s\<lparr> cur_iom := Some m' \<rparr>)"
    using m'(1) assms(4) by (simp add: iom_cancelAll_def)
  moreover have "mgr_del fd (s\<lparr> cur_iom := Some m' \<rparr>) = (Inr (), ?s1)"
    using fd by (simp add: mgr_del_def fd_del_def)
  moreover have "os_call (close_f fd) ?s1 = (Inr (fst ?call), ?s1\<lparr> os := snd ?call \<rparr>)"
    by (simp add: os_call_def split: prod.split)
  ultimately have "hook_close ctl close_f fd s = (Inr (fst ?call), ?s1\<lparr> os := snd ?call \<rparr>)"
    using assms(1,3) fd by (simp add: hook_close_def pbind_ok mgr_get_lookup pthen_ok)
  moreover have "fd_lookup fd' (fds ?s1) = (if fd' = fd then None else fd_lookup fd' (fds s))" for fd'
    using lookup_update [OF fd] by simp
  ultimately show ?thesis using m' by (simp add: keeps_def)
qed

theorem close_wakes_waiters_witness:
  "\<exists>r s' m'. hook_close good_kernel (\<lambda>_ k. (0, k)) 5 (sock_sys\<lparr> cur_iom := Some sample_iom \<rparr>) =
      (Inr r, s') \<and> fd_lookup 5 (fds s') = None \<and> cur_iom s' = Some m' \<and> events_at 5 m' = 0"
proof -
  let ?s = "sock_sys\<lparr> cur_iom := Some sample_iom \<rparr>"
  have "t_hook_enable ?s" "table_ok (\<lambda>k fd. k fd AND O_NONBLOCK \<noteq> 0) (fds ?s, os ?s)"
    "cur_iom ?s = Some sample_iom"
    using sock_sys_facts(1) by (simp_all add: sock_sys_def)
  moreover obtain c where "fd_lookup 5 (fds ?s) = Some c" using sock_sys_facts(2) by simp
  ultimately obtain r s' m' where "hook_close good_kernel (\<lambda>_ k. (0, k)) 5 ?s = (Inr r, s')"
      "fd_lookup 5 (fds s') = None" "cur_iom s' = Some m'"
      "events_at 5 m' = 0 \<or> fst (good_kernel EPOLL_CTL_DEL 5 0 (kernel sample_iom)) \<noteq> 0"
    using close_wakes_waiters [OF _ _ _ _ sample_iom_facts(1) good_kernel_contract, of ?s _ 5 c
        "\<lambda>_ k. (0, k)"] by blast
  moreover from this have "events_at 5 m' = 0" by (simp add: good_kernel_def)
  ultimately show ?thesis by blast
qed

end
