(* ===== verification/Spec2Isabelle.thy ===== *)
theory Spec2Isabelle
  imports Util Std_Map Uri_Props Address_Props SocketLife_Props TcpServer HttpPool_Props Http Http_Props Http11_Roundtrip Http11_Cut Servlet SocketStream_Props HttpSession_Props Httpclient_Stall HttpConnection_Props ByteArray_Message Timer_Props Fiber Scheduler_Props IOManager_Props FdManager Hook_Props
begin

text \<open>
  A verification development for the sylar server framework.
\<close>

end
